(* ===== verification/PyText.thy ===== *)
theory PyText
  imports Prelude
begin

text \<open>
  The Python string operations the program uses, on \<open>string\<close> (a list of 8-bit
  characters). White space is what \<open>str.strip\<close> removes in that range; case mapping is
  the ASCII part of \<open>str.lower\<close>/\<open>str.upper\<close>, so text theorems that depend on letter case
  speak about ASCII text. \<open>py_int\<close> is \<open>int(s)\<close>: surrounding white space, one sign, digits
  with single underscores between them, at most 4300 digits, otherwise \<open>ValueError\<close>
  (\<open>None\<close>). These are models of the language's own library; the map of the program starts
  in the next theories.
\<close>

section \<open>Characters\<close>

definition char_code :: "char \<Rightarrow> nat" where
  "char_code c = of_char c"

definition py_space :: "char \<Rightarrow> bool" where
  "py_space c = (let n = char_code c in
     (9 \<le> n \<and> n \<le> 13) \<or> (28 \<le> n \<and> n \<le> 32) \<or> n = 133 \<or> n = 160)"

definition is_digit :: "char \<Rightarrow> bool" where
  "is_digit c = (let n = char_code c in 48 \<le> n \<and> n \<le> 57)"

definition digit_val :: "char \<Rightarrow> int" where
  "digit_val c = int (char_code c) - 48"

definition is_upper :: "char \<Rightarrow> bool" where
  "is_upper c = (let n = char_code c in 65 \<le> n \<and> n \<le> 90)"

definition is_lower :: "char \<Rightarrow> bool" where
  "is_lower c = (let n = char_code c in 97 \<le> n \<and> n \<le> 122)"

definition lower_char :: "char \<Rightarrow> char" where
  "lower_char c = (if is_upper c then char_of (char_code c + 32) else c)"

definition upper_char :: "char \<Rightarrow> char" where
  "upper_char c = (if is_lower c then char_of (char_code c - 32) else c)"

lemmas char_class_defs [text_simps] =
  char_code_def py_space_def is_digit_def digit_val_def is_upper_def is_lower_def
  lower_char_def upper_char_def

section \<open>Strings\<close>

definition py_lower :: "string \<Rightarrow> string" where
  "py_lower s = map lower_char s"

definition py_upper :: "string \<Rightarrow> string" where
  "py_upper s = map upper_char s"

definition strip_by :: "(char \<Rightarrow> bool) \<Rightarrow> string \<Rightarrow> string" where
  "strip_by p s = rev (dropWhile p (rev (dropWhile p s)))"

definition py_strip :: "string \<Rightarrow> string" where
  "py_strip s = strip_by py_space s"

definition lstrip_by :: "(char \<Rightarrow> bool) \<Rightarrow> string \<Rightarrow> string" where
  "lstrip_by p s = dropWhile p s"

text \<open>\<open>s.split(c)\<close> for a one-character separator: never empty.\<close>

fun split_on :: "char \<Rightarrow> string \<Rightarrow> string list" where
  "split_on c [] = [[]]"
| "split_on c (x # xs) =
     (if x = c then [] # split_on c xs
      else (case split_on c xs of [] \<Rightarrow> [[x]] | y # ys \<Rightarrow> (x # y) # ys))"

text \<open>\<open>sep.join(parts)\<close>.\<close>

fun py_join :: "string \<Rightarrow> string list \<Rightarrow> string" where
  "py_join sep [] = []"
| "py_join sep [x] = x"
| "py_join sep (x # y # ys) = x @ sep @ py_join sep (y # ys)"

text \<open>
  The first occurrence of a separator: \<open>Some (before, after)\<close>, \<open>None\<close> when it does not
  occur (\<open>s.partition(c)\<close> and \<open>s.split(c, 1)\<close>); \<open>split_last\<close> is \<open>s.rpartition(c)\<close>.
\<close>

definition split_first :: "char \<Rightarrow> string \<Rightarrow> (string \<times> string) option" where
  "split_first c s =
     (if c \<in> set s
      then Some (takeWhile (\<lambda>x. x \<noteq> c) s, tl (dropWhile (\<lambda>x. x \<noteq> c) s)) else None)"

definition split_last :: "char \<Rightarrow> string \<Rightarrow> (string \<times> string) option" where
  "split_last c s =
     (case split_first c (rev s) of
        None \<Rightarrow> None
      | Some (a, b) \<Rightarrow> Some (rev b, rev a))"

fun starts_with :: "'a list \<Rightarrow> 'a list \<Rightarrow> bool" where
  "starts_with [] s = True"
| "starts_with (p # ps) [] = False"
| "starts_with (p # ps) (x # xs) = (p = x \<and> starts_with ps xs)"

text \<open>\<open>needle in hay\<close>, for text and for bytes.\<close>

fun py_in :: "'a list \<Rightarrow> 'a list \<Rightarrow> bool" where
  "py_in p [] = (p = [])"
| "py_in p (x # xs) = (starts_with p (x # xs) \<or> py_in p xs)"

definition py_replace_char :: "char \<Rightarrow> string \<Rightarrow> string \<Rightarrow> string" where
  "py_replace_char c r s = concat (map (\<lambda>x. if x = c then r else [x]) s)"

text \<open>\<open>s.replace(pattern, r)\<close> for a pattern that is not empty.\<close>

function py_replace :: "string \<Rightarrow> string \<Rightarrow> string \<Rightarrow> string" where
  "py_replace pat r [] = []"
| "py_replace pat r (c # cs) =
     (if pat \<noteq> [] \<and> starts_with pat (c # cs) then r @ py_replace pat r (drop (length pat) (c # cs))
      else c # py_replace pat r cs)"
  by pat_completeness auto
termination by (relation "measure (\<lambda>(pat, r, s). length s)") (auto simp: Suc_le_eq)

section \<open>Decimal integers\<close>

definition int_max_str_digits :: nat where
  "int_max_str_digits = 4300"

fun int_digits :: "int \<Rightarrow> string \<Rightarrow> int option" where
  "int_digits acc [] = Some acc"
| "int_digits acc (c # cs) =
     (if is_digit c then int_digits (10 * acc + digit_val c) cs
      else if c = CHR ''_'' then
        (case cs of [] \<Rightarrow> None | d # _ \<Rightarrow> if is_digit d then int_digits acc cs else None)
      else None)"

definition int_unsigned :: "string \<Rightarrow> int option" where
  "int_unsigned s =
     (case s of
        [] \<Rightarrow> None
      | c # _ \<Rightarrow> if \<not> is_digit c then None
                 else if int_max_str_digits < length (filter is_digit s) then None
                 else int_digits 0 s)"

definition py_int :: "string \<Rightarrow> int option" where
  "py_int s =
     (case py_strip s of
        [] \<Rightarrow> None
      | c # cs \<Rightarrow>
          if c = CHR ''-'' then map_option uminus (int_unsigned cs)
          else if c = CHR ''+'' then int_unsigned cs
          else int_unsigned (c # cs))"

text \<open>\<open>str(n)\<close>.\<close>

fun nat_str :: "nat \<Rightarrow> string" where
  "nat_str n = (if n < 10 then [char_of (48 + n)] else nat_str (n div 10) @ [char_of (48 + n mod 10)])"

declare nat_str.simps [simp del]

definition int_str :: "int \<Rightarrow> string" where
  "int_str i = (if i < 0 then CHR ''-'' # nat_str (nat (- i)) else nat_str (nat i))"

section \<open>Facts\<close>

subsection \<open>Splitting and joining\<close>

lemma split_on_nonempty [simp]: "split_on c s \<noteq> []"
  by (induction s) (auto split: list.splits)

lemma split_on_no_sep: "x \<in> set (split_on c s) \<Longrightarrow> c \<notin> set x"
proof (induction s arbitrary: x)
  case Nil
  then show ?case by simp
next
  case (Cons a s)
  then show ?case by (cases "split_on c s") (auto split: if_splits)
qed

lemma py_join_split_on: "py_join [c] (split_on c s) = s"
proof (induction s)
  case Nil
  then show ?case by simp
next
  case (Cons a s)
  then show ?case by (cases "split_on c s"; cases "tl (split_on c s)") auto
qed

lemma split_on_no_mem: "c \<notin> set s \<Longrightarrow> split_on c s = [s]"
  by (induction s) auto

lemma split_first_SomeD:
  assumes "split_first c s = Some (a, b)"
  shows "s = a @ c # b" and "c \<notin> set a"
proof -
  have c: "c \<in> set s" and a: "a = takeWhile (\<lambda>x. x \<noteq> c) s"
    and b: "b = tl (dropWhile (\<lambda>x. x \<noteq> c) s)"
    using assms by (auto simp: split_first_def split: if_splits)
  from c obtain y ys where d: "dropWhile (\<lambda>x. x \<noteq> c) s = y # ys"
    by (cases "dropWhile (\<lambda>x. x \<noteq> c) s") auto
  then have "y = c" by (rule dropWhile_neq_Cons)
  have "a @ dropWhile (\<lambda>x. x \<noteq> c) s = s" unfolding a by (rule takeWhile_dropWhile_id)
  moreover have "b = ys" using b d by simp
  ultimately show "s = a @ c # b" using d \<open>y = c\<close> by metis
  show "c \<notin> set a" unfolding a by (rule takeWhile_not_mem)
qed

lemma split_first_None_iff: "split_first c s = None \<longleftrightarrow> c \<notin> set s"
  by (simp add: split_first_def)

lemma split_first_append: "c \<notin> set a \<Longrightarrow> split_first c (a @ c # b) = Some (a, b)"
  by (induction a) (auto simp: split_first_def)

lemma split_last_SomeD:
  assumes "split_last c s = Some (a, b)"
  shows "s = a @ c # b" and "c \<notin> set b"
proof -
  from assms have f: "split_first c (rev s) = Some (rev b, rev a)"
    by (auto simp: split_last_def split: option.splits)
  from split_first_SomeD(1) [OF f] have "rev (rev s) = rev (rev b @ c # rev a)" by simp
  then show "s = a @ c # b" by simp
  from split_first_SomeD(2) [OF f] show "c \<notin> set b" by simp
qed

lemma split_last_None_iff: "split_last c s = None \<longleftrightarrow> c \<notin> set s"
  by (simp add: split_last_def split_first_def)

lemma split_last_append: "c \<notin> set b \<Longrightarrow> split_last c (a @ c # b) = Some (a, b)"
  by (simp add: split_last_def split_first_append)

lemma takeWhile_neq_append: "c \<notin> set a \<Longrightarrow> takeWhile (\<lambda>x. x \<noteq> c) (a @ c # b) = a"
  by (induction a) auto

subsection \<open>Prefixes and occurrences\<close>

lemma starts_with_prefix: "starts_with p s \<longleftrightarrow> prefix p s"
  by (induction p s rule: starts_with.induct) auto

lemma starts_with_append [simp]: "starts_with p (p @ s)"
  by (induction p) auto

lemma py_in_sublist: "py_in p s \<longleftrightarrow> sublist p s"
  by (induction s) (auto simp: starts_with_prefix sublist_Cons_right)

lemma py_in_append_middle: "py_in p (a @ p @ b)"
  by (simp add: py_in_sublist)

lemma py_in_trans: "py_in p q \<Longrightarrow> py_in q s \<Longrightarrow> py_in p s"
  by (auto simp: py_in_sublist dest: sublist_order.order_trans)

lemma py_replace_char_id: "c \<notin> set s \<Longrightarrow> py_replace_char c r s = s"
  unfolding py_replace_char_def by (induction s) auto

subsection \<open>Stripping\<close>

lemma set_strip_by: "set (strip_by p s) \<subseteq> set s"
  unfolding strip_by_def by (auto dest!: set_dropWhileD)

lemma length_strip_by: "length (strip_by p s) \<le> length s"
  unfolding strip_by_def by (metis length_dropWhile_le length_rev order_trans)

lemma strip_by_edges:
  assumes "strip_by p s \<noteq> []"
  shows "\<not> p (hd (strip_by p s))" and "\<not> p (last (strip_by p s))"
proof -
  let ?d = "dropWhile p s"
  have last: "last (strip_by p s) = hd (dropWhile p (rev ?d))"
    using assms by (simp add: strip_by_def last_rev)
  show "\<not> p (last (strip_by p s))"
    unfolding last using assms by (metis hd_dropWhile rev.simps(1) strip_by_def)
  obtain t where t: "strip_by p s @ t = ?d"
    unfolding strip_by_def
    by (metis rev_append rev_rev_ident takeWhile_dropWhile_id)
  have "hd ?d = hd (strip_by p s)" using t assms by (metis hd_append2)
  moreover have "?d \<noteq> []" using t assms by (metis append_is_Nil_conv)
  ultimately show "\<not> p (hd (strip_by p s))" by (metis hd_dropWhile)
qed

lemma strip_by_id: "s \<noteq> [] \<Longrightarrow> \<not> p (hd s) \<Longrightarrow> \<not> p (last s) \<Longrightarrow> strip_by p s = s"
proof -
  assume s: "s \<noteq> []" and h: "\<not> p (hd s)" and l: "\<not> p (last s)"
  have d: "dropWhile p t = t" if "t \<noteq> []" "\<not> p (hd t)" for t
    using that by (cases t) auto
  have "dropWhile p s = s" using s h by (rule d)
  moreover have "dropWhile p (rev s) = rev s" using s l by (intro d) (auto simp: hd_rev)
  ultimately show "strip_by p s = s" by (simp add: strip_by_def)
qed

lemma strip_by_idem: "strip_by p (strip_by p s) = strip_by p s"
proof (cases "strip_by p s = []")
  case True
  show ?thesis unfolding True by (simp add: strip_by_def)
next
  case False
  then show ?thesis by (simp add: strip_by_id strip_by_edges)
qed

lemma dropWhile_all_append: "(\<And>c. c \<in> set w \<Longrightarrow> p c) \<Longrightarrow> dropWhile p (w @ s) = dropWhile p s"
  by (induction w) auto

text \<open>Stripping removes exactly the padding around a core with proper edges.\<close>

lemma strip_by_pad:
  assumes "\<And>c. c \<in> set w \<Longrightarrow> p c" "\<And>c. c \<in> set v \<Longrightarrow> p c"
    and "s \<noteq> []" "\<not> p (hd s)" "\<not> p (last s)"
  shows "strip_by p (w @ s @ v) = s"
proof -
  have "dropWhile p (s @ v) = s @ v" using assms(3,4) by (cases s) auto
  then have a: "dropWhile p (w @ s @ v) = s @ v" using assms(1) by (simp add: dropWhile_all_append)
  have "dropWhile p (rev v @ rev s) = dropWhile p (rev s)"
    using assms(2) by (intro dropWhile_all_append) simp
  also have "\<dots> = rev s" using assms(3,5) by (cases "rev s") (auto simp: hd_rev [symmetric])
  finally show ?thesis by (simp add: strip_by_def a)
qed

lemma strip_by_split:
  obtains w v where "s = w @ strip_by p s @ v" "\<And>c. c \<in> set w \<Longrightarrow> p c" "\<And>c. c \<in> set v \<Longrightarrow> p c"
proof -
  let ?d = "dropWhile p s"
  have d: "s = takeWhile p s @ ?d" by simp
  have r: "?d = strip_by p s @ rev (takeWhile p (rev ?d))"
    unfolding strip_by_def by (metis rev_append rev_rev_ident takeWhile_dropWhile_id)
  have "s = takeWhile p s @ strip_by p s @ rev (takeWhile p (rev ?d))" using d r by simp
  then show thesis by (rule that) (auto dest: set_takeWhileD)
qed

subsection \<open>Case\<close>

lemma char_code_less: "char_code c < 256"
  unfolding char_code_def using nat_of_char_less_256 [of c] by simp

lemma char_code_char_of: "n < 256 \<Longrightarrow> char_code (char_of n) = n"
  unfolding char_code_def by (simp add: of_char_of)

lemma is_upper_lower_char: "\<not> is_upper (lower_char c)"
  using char_code_less [of c]
  by (auto simp: lower_char_def is_upper_def Let_def char_code_char_of)

lemma lower_char_cases: "lower_char x = x \<or> is_lower (lower_char x)"
  using char_code_less [of x]
  by (auto simp: lower_char_def is_upper_def is_lower_def Let_def char_code_char_of)

lemma not_mem_py_lower:
  assumes "\<not> is_lower c" and "c \<notin> set s"
  shows "c \<notin> set (py_lower s)"
proof
  assume "c \<in> set (py_lower s)"
  then obtain x where "x \<in> set s" "c = lower_char x" by (auto simp: py_lower_def)
  with assms lower_char_cases [of x] show False by auto
qed

lemma lower_char_idem [simp]: "lower_char (lower_char c) = lower_char c"
  using is_upper_lower_char [of c] by (simp add: lower_char_def [of "lower_char c"])

lemma py_lower_idem [simp]: "py_lower (py_lower s) = py_lower s"
  by (simp add: py_lower_def)

lemma length_py_lower [simp]: "length (py_lower s) = length s"
  by (simp add: py_lower_def)

lemma length_py_upper [simp]: "length (py_upper s) = length s"
  by (simp add: py_upper_def)

subsection \<open>Decimal integers\<close>

lemma char_of_digit_code: "n < 10 \<Longrightarrow> char_code (char_of (48 + n)) = 48 + n"
  by (rule char_code_char_of) simp

lemma nat_str_digits: "c \<in> set (nat_str n) \<Longrightarrow> is_digit c"
proof (induction n rule: nat_str.induct)
  case (1 n)
  have d: "is_digit (char_of (48 + m))" if "m < 10" for m :: nat
    using that by (simp add: is_digit_def char_of_digit_code)
  show ?case
  proof (cases "n < 10")
    case True
    with "1.prems" show ?thesis by (auto simp: nat_str.simps [of n] d)
  next
    case False
    with "1.prems" have "c \<in> set (nat_str (n div 10)) \<or> c = char_of (48 + n mod 10)"
      by (auto simp: nat_str.simps [of n])
    with "1.IH" [OF False] d [of "n mod 10"] show ?thesis by auto
  qed
qed

lemma nat_str_nonempty [simp]: "nat_str n \<noteq> []"
  by (subst nat_str.simps) simp

lemma int_digits_snoc:
  assumes "\<And>c. c \<in> set s \<Longrightarrow> is_digit c" and "is_digit d"
  shows "int_digits a (s @ [d]) = map_option (\<lambda>v. 10 * v + digit_val d) (int_digits a s)"
  using assms by (induction s arbitrary: a) auto

lemma digit_val_char_of: "n < 10 \<Longrightarrow> digit_val (char_of (48 + n)) = int n"
  by (simp add: digit_val_def char_of_digit_code)

lemma int_digits_nat_str: "int_digits 0 (nat_str n) = Some (int n)"
proof (induction n rule: nat_str.induct)
  case (1 n)
  have d: "is_digit (char_of (48 + m))" if "m < 10" for m :: nat
    using that by (simp add: is_digit_def char_of_digit_code)
  show ?case
  proof (cases "n < 10")
    case True
    then show ?thesis by (simp add: nat_str.simps [of n] d digit_val_char_of)
  next
    case False
    have "int_digits 0 (nat_str n) = Some (10 * int (n div 10) + int (n mod 10))"
      using False "1.IH" [OF False] d [of "n mod 10"] digit_val_char_of [of "n mod 10"]
      by (simp add: nat_str.simps [of n] int_digits_snoc nat_str_digits)
    also have "10 * int (n div 10) + int (n mod 10) = int n"
      by (metis div_mult_mod_eq mult.commute of_nat_add of_nat_mult of_nat_numeral)
    finally show ?thesis .
  qed
qed

text \<open>\<open>int(str(n)) = n\<close> up to the length limit of the conversion.\<close>

lemma nat_str_inj: "nat_str m = nat_str n \<longleftrightarrow> m = n"
proof
  assume "nat_str m = nat_str n"
  then have "int_digits 0 (nat_str m) = int_digits 0 (nat_str n)" by (rule arg_cong)
  then show "m = n" unfolding int_digits_nat_str by simp
next
  assume "m = n"
  then show "nat_str m = nat_str n" by (rule arg_cong)
qed

lemma length_nat_str: "n < 10 ^ k \<Longrightarrow> 0 < k \<Longrightarrow> length (nat_str n) \<le> k"
proof (induction n arbitrary: k rule: nat_str.induct)
  case (1 n)
  show ?case
  proof (cases "n < 10")
    case True
    with "1.prems" show ?thesis by (simp add: nat_str.simps [of n])
  next
    case False
    with "1.prems" obtain j where k: "k = Suc j" by (cases k) auto
    with False "1.prems" have "0 < j" by (cases j) auto
    moreover have "n div 10 < 10 ^ j" using "1.prems"(1) k by (simp add: less_mult_imp_div_less)
    ultimately have "length (nat_str (n div 10)) \<le> j" using "1.IH" [OF False] by blast
    with False k show ?thesis by (simp add: nat_str.simps [of n])
  qed
qed

lemma digit_not_space: "is_digit c \<Longrightarrow> \<not> py_space c"
  by (auto simp: is_digit_def py_space_def Let_def)

lemma digit_not: "\<not> is_digit (CHR ''-'')" "\<not> is_digit (CHR ''+'')" "\<not> is_digit (CHR '','')"
  "\<not> is_digit (CHR '' '')"
  by (simp_all add: is_digit_def char_code_def)

lemma nat_str_not_mem: "\<not> is_digit c \<Longrightarrow> c \<notin> set (nat_str n)"
  using nat_str_digits by blast

lemma py_strip_digits: "s \<noteq> [] \<Longrightarrow> (\<And>c. c \<in> set s \<Longrightarrow> is_digit c) \<Longrightarrow> py_strip s = s"
  unfolding py_strip_def
  using hd_in_set [of s] last_in_set [of s] digit_not_space by (intro strip_by_id) blast+

lemma int_max_str_digits_pos: "0 < int_max_str_digits"
  by (simp add: int_max_str_digits_def)

lemma py_int_nat_str:
  assumes "length (nat_str n) \<le> int_max_str_digits"
  shows "py_int (nat_str n) = Some (int n)"
proof -
  obtain c cs where s: "nat_str n = c # cs" by (cases "nat_str n") auto
  have d: "\<And>x. x \<in> set (c # cs) \<Longrightarrow> is_digit x" using nat_str_digits [of _ n] s by simp
  then have c: "is_digit c" "c \<noteq> CHR ''-''" "c \<noteq> CHR ''+''" using digit_not by force+
  have "filter is_digit (c # cs) = c # cs" using d by (intro filter_True) auto
  then have "int_unsigned (c # cs) = int_digits 0 (c # cs)"
    using c assms by (simp add: int_unsigned_def s)
  then show ?thesis
    using py_strip_digits [of "c # cs"] d c int_digits_nat_str [of n] by (simp add: py_int_def s)
qed

lemma int_digits_total: "(\<And>c. c \<in> set s \<Longrightarrow> is_digit c) \<Longrightarrow> int_digits a s \<noteq> None"
  by (induction s arbitrary: a) auto

text \<open>Digits padded by white space are an integer.\<close>

lemma py_int_padded:
  assumes "py_strip s = ds" "ds \<noteq> []" "\<And>c. c \<in> set ds \<Longrightarrow> is_digit c" "length ds \<le> int_max_str_digits"
  shows "\<exists>n. py_int s = Some n"
proof -
  obtain c cs where ds: "ds = c # cs" using assms(2) by (cases ds) auto
  have c: "is_digit c" "c \<noteq> CHR ''-''" "c \<noteq> CHR ''+''" using assms(3) [of c] ds digit_not by force+
  have "filter is_digit ds = ds" using assms(3) by (intro filter_True) auto
  then have "int_unsigned ds = int_digits 0 ds" using c assms(4) by (simp add: int_unsigned_def ds)
  moreover obtain n where "int_digits 0 ds = Some n" using int_digits_total [of ds 0] assms(3) by auto
  ultimately show ?thesis using c by (auto simp: py_int_def assms(1) ds)
qed

lemma split_on_filter:
  "P c \<Longrightarrow> split_on c (filter P s) = map (filter P) (split_on c s)"
proof (induction s)
  case Nil
  then show ?case by simp
next
  case (Cons a s)
  then show ?case by (cases "split_on c s") auto
qed

lemma int_str_inj: "int_str a = int_str b \<longleftrightarrow> a = b"
proof -
  have "CHR ''-'' # xs \<noteq> nat_str n" for xs n
    using nat_str_not_mem [OF digit_not(1), of n] by (metis list.set_intros(1))
  then show ?thesis by (auto simp: int_str_def nat_str_inj dest: sym)
qed

end
