(* ===== verification/Errors.thy ===== *)
theory Errors
  imports PyText
begin

text \<open>
  The exception hierarchy of \<open>app/exceptions\<close>, the error codes of \<open>app/constants\<close>, the
  handlers that turn an exception into the HTTP error envelope, and the error log that the
  catch-all handler feeds (\<open>app/services/error_capture.py\<close>).

  An exception that the code raises is a value of type \<open>py_exc\<close>: an \<open>AppException\<close>
  subclass with its message, code and status, a worker's \<open>ProcessingError\<close>, a
  \<open>CommandError\<close>, or another Python exception by name.
\<close>

section \<open>Error codes\<close>

datatype error_code =
    INTERNAL_SERVER_ERROR | BAD_REQUEST | VALIDATION_ERROR | UNAUTHORIZED | FORBIDDEN
  | NOT_FOUND | CONFLICT | RATE_LIMITED | SERVICE_UNAVAILABLE
  | FILE_TOO_LARGE | TOO_MANY_FILES | UNSUPPORTED_FILE_TYPE | FILE_CORRUPTED
  | FILE_NOT_FOUND | FILE_EXPIRED | STORAGE_ERROR
  | JOB_NOT_FOUND | JOB_NOT_COMPLETED | JOB_ALREADY_FINISHED | PROCESSING_FAILED
  | PROCESSING_TIMEOUT | FEEDBACK_DAILY_LIMIT | CAPTCHA_INVALID

fun error_code_value :: "error_code \<Rightarrow> string" where
  "error_code_value INTERNAL_SERVER_ERROR = ''INTERNAL_SERVER_ERROR''"
| "error_code_value BAD_REQUEST = ''BAD_REQUEST''"
| "error_code_value VALIDATION_ERROR = ''VALIDATION_ERROR''"
| "error_code_value UNAUTHORIZED = ''UNAUTHORIZED''"
| "error_code_value FORBIDDEN = ''FORBIDDEN''"
| "error_code_value NOT_FOUND = ''NOT_FOUND''"
| "error_code_value CONFLICT = ''CONFLICT''"
| "error_code_value RATE_LIMITED = ''RATE_LIMITED''"
| "error_code_value SERVICE_UNAVAILABLE = ''SERVICE_UNAVAILABLE''"
| "error_code_value FILE_TOO_LARGE = ''FILE_TOO_LARGE''"
| "error_code_value TOO_MANY_FILES = ''TOO_MANY_FILES''"
| "error_code_value UNSUPPORTED_FILE_TYPE = ''UNSUPPORTED_FILE_TYPE''"
| "error_code_value FILE_CORRUPTED = ''FILE_CORRUPTED''"
| "error_code_value FILE_NOT_FOUND = ''FILE_NOT_FOUND''"
| "error_code_value FILE_EXPIRED = ''FILE_EXPIRED''"
| "error_code_value STORAGE_ERROR = ''STORAGE_ERROR''"
| "error_code_value JOB_NOT_FOUND = ''JOB_NOT_FOUND''"
| "error_code_value JOB_NOT_COMPLETED = ''JOB_NOT_COMPLETED''"
| "error_code_value JOB_ALREADY_FINISHED = ''JOB_ALREADY_FINISHED''"
| "error_code_value PROCESSING_FAILED = ''PROCESSING_FAILED''"
| "error_code_value PROCESSING_TIMEOUT = ''PROCESSING_TIMEOUT''"
| "error_code_value FEEDBACK_DAILY_LIMIT = ''FEEDBACK_DAILY_LIMIT''"
| "error_code_value CAPTCHA_INVALID = ''CAPTCHA_INVALID''"

section \<open>The exception classes\<close>

datatype base_error =
    BadRequestError | ValidationError | UnauthorizedError | ForbiddenError | NotFoundError
  | ConflictError | ServiceUnavailableError

datatype file_error =
    FileTooLargeError | TooManyFilesError | UnsupportedFileTypeError | FileCorruptedError
  | FileNotFoundAppError | FileExpiredError | StorageError

datatype job_error = JobNotFoundError | JobNotCompletedError | JobAlreadyFinishedError

datatype feedback_error = CaptchaInvalidError | FeedbackDailyLimitError

datatype app_class =
    AppException
  | BaseE base_error
  | FileE file_error
  | JobE job_error
  | FeedbackE feedback_error
  | RateLimitedError

text \<open>The class attributes \<open>status_code\<close>, \<open>error_code\<close>, \<open>message\<close>.\<close>

record class_info =
  ci_status :: nat
  ci_code :: error_code
  ci_message :: string

fun base_error_info :: "base_error \<Rightarrow> class_info" where
  "base_error_info BadRequestError =
     \<lparr>ci_status = 400, ci_code = BAD_REQUEST,
      ci_message = ''The request could not be processed.''\<rparr>"
| "base_error_info ValidationError =
     \<lparr>ci_status = 422, ci_code = VALIDATION_ERROR,
      ci_message = ''The request payload failed validation.''\<rparr>"
| "base_error_info UnauthorizedError =
     \<lparr>ci_status = 401, ci_code = UNAUTHORIZED, ci_message = ''Authentication is required.''\<rparr>"
| "base_error_info ForbiddenError =
     \<lparr>ci_status = 403, ci_code = FORBIDDEN,
      ci_message = ''You do not have permission to perform this action.''\<rparr>"
| "base_error_info NotFoundError =
     \<lparr>ci_status = 404, ci_code = NOT_FOUND,
      ci_message = ''The requested resource was not found.''\<rparr>"
| "base_error_info ConflictError =
     \<lparr>ci_status = 409, ci_code = CONFLICT,
      ci_message = ''The request conflicts with the current state of the resource.''\<rparr>"
| "base_error_info ServiceUnavailableError =
     \<lparr>ci_status = 503, ci_code = SERVICE_UNAVAILABLE,
      ci_message = ''The service is temporarily unavailable.''\<rparr>"

fun file_error_info :: "file_error \<Rightarrow> class_info" where
  "file_error_info FileTooLargeError =
     \<lparr>ci_status = 413, ci_code = FILE_TOO_LARGE,
      ci_message = ''The uploaded file exceeds the maximum allowed size.''\<rparr>"
| "file_error_info TooManyFilesError =
     \<lparr>ci_status = 400, ci_code = TOO_MANY_FILES,
      ci_message = ''Too many files in a single upload.''\<rparr>"
| "file_error_info UnsupportedFileTypeError =
     \<lparr>ci_status = 415, ci_code = UNSUPPORTED_FILE_TYPE,
      ci_message = ''This file type is not supported.''\<rparr>"
| "file_error_info FileCorruptedError =
     \<lparr>ci_status = 422, ci_code = FILE_CORRUPTED,
      ci_message = ''The file appears to be corrupted or is not what it claims to be.''\<rparr>"
| "file_error_info FileNotFoundAppError =
     \<lparr>ci_status = 404, ci_code = FILE_NOT_FOUND,
      ci_message = ''The requested file was not found.''\<rparr>"
| "file_error_info FileExpiredError =
     \<lparr>ci_status = 410, ci_code = FILE_EXPIRED,
      ci_message = ''This file has expired and is no longer available.''\<rparr>"
| "file_error_info StorageError =
     \<lparr>ci_status = 500, ci_code = STORAGE_ERROR,
      ci_message = ''A storage error occurred while handling the file.''\<rparr>"

fun job_error_info :: "job_error \<Rightarrow> class_info" where
  "job_error_info JobNotFoundError =
     \<lparr>ci_status = 404, ci_code = JOB_NOT_FOUND,
      ci_message = ''The requested job was not found.''\<rparr>"
| "job_error_info JobNotCompletedError =
     \<lparr>ci_status = 409, ci_code = JOB_NOT_COMPLETED,
      ci_message = ''The job has not completed yet; its results are not available.''\<rparr>"
| "job_error_info JobAlreadyFinishedError =
     \<lparr>ci_status = 409, ci_code = JOB_ALREADY_FINISHED,
      ci_message = ''The job has already finished and cannot be modified.''\<rparr>"

fun feedback_error_info :: "feedback_error \<Rightarrow> class_info" where
  "feedback_error_info CaptchaInvalidError =
     \<lparr>ci_status = 400, ci_code = CAPTCHA_INVALID,
      ci_message = ''The captcha answer is incorrect or has expired. Please try again.''\<rparr>"
| "feedback_error_info FeedbackDailyLimitError =
     \<lparr>ci_status = 429, ci_code = FEEDBACK_DAILY_LIMIT,
      ci_message = ''You can only submit feedback once per day. Please try again tomorrow.''\<rparr>"

definition rate_limited_info :: class_info where
  "rate_limited_info =
     \<lparr>ci_status = 429, ci_code = RATE_LIMITED,
      ci_message = ''Too many uploads. Please wait a minute and try again.''\<rparr>"

fun app_class_info :: "app_class \<Rightarrow> class_info" where
  "app_class_info AppException =
     \<lparr>ci_status = 500, ci_code = INTERNAL_SERVER_ERROR,
      ci_message = ''An unexpected error occurred.''\<rparr>"
| "app_class_info (BaseE e) = base_error_info e"
| "app_class_info (FileE e) = file_error_info e"
| "app_class_info (JobE e) = job_error_info e"
| "app_class_info (FeedbackE e) = feedback_error_info e"
| "app_class_info RateLimitedError = rate_limited_info"

section \<open>Exception values\<close>

record error_detail =
  ed_message :: string
  ed_field :: "string option"
  ed_type :: "string option"

record app_exc =
  ae_class :: app_class
  ae_message :: string
  ae_code :: error_code
  ae_status :: nat
  ae_details :: "error_detail list"

text \<open>\<open>AppException.__init__\<close>: falsy arguments fall back to the class attributes.\<close>

definition new_app_exc ::
  "app_class \<Rightarrow> string option \<Rightarrow> error_code option \<Rightarrow> nat option \<Rightarrow> error_detail list \<Rightarrow> app_exc" where
  "new_app_exc c message code status details =
     (let info = app_class_info c in
      \<lparr>ae_class = c,
       ae_message = (case message of None \<Rightarrow> ci_message info
                     | Some m \<Rightarrow> if m = [] then ci_message info else m),
       ae_code = (case code of None \<Rightarrow> ci_code info | Some k \<Rightarrow> k),
       ae_status = (case status of None \<Rightarrow> ci_status info
                    | Some n \<Rightarrow> if n = 0 then ci_status info else n),
       ae_details = details\<rparr>)"

record command_error =
  ce_command :: "string list"
  ce_returncode :: "int option"
  ce_stderr :: string
  ce_timed_out :: bool

datatype py_exc =
    AppExc app_exc
  | ProcessingError string error_code
  | CommandError string command_error
  | OtherError string string \<comment> \<open>class name and \<open>str(exc)\<close>\<close>

definition raise_app :: "app_class \<Rightarrow> string \<Rightarrow> (py_exc, 'a) result" where
  "raise_app c message = Inl (AppExc (new_app_exc c (Some message) None None []))"

definition raise_class :: "app_class \<Rightarrow> (py_exc, 'a) result" where
  "raise_class c = Inl (AppExc (new_app_exc c None None None []))"

definition processing_error :: "string \<Rightarrow> (py_exc, 'a) result" where
  "processing_error m = Inl (ProcessingError m PROCESSING_FAILED)"

text \<open>\<open>str(exc)\<close>.\<close>

fun exc_str :: "py_exc \<Rightarrow> string" where
  "exc_str (AppExc e) = ae_message e"
| "exc_str (ProcessingError m _) = m"
| "exc_str (CommandError m _) = m"
| "exc_str (OtherError _ m) = m"

fun exc_class :: "py_exc \<Rightarrow> app_class option" where
  "exc_class (AppExc e) = Some (ae_class e)"
| "exc_class _ = None"

lemmas raise_defs [result_simps] = raise_app_def raise_class_def processing_error_def

lemma raise_not_Inr [simp]:
  "raise_app c m \<noteq> Inr a" "raise_class c \<noteq> Inr a" "processing_error m \<noteq> Inr a"
  by (simp_all add: raise_defs)

section \<open>Rendering: the HTTP error envelope\<close>

record error_info =
  ei_code :: string
  ei_message :: string
  ei_details :: "error_detail list"

record error_response =
  er_status :: nat
  er_success :: bool
  er_error :: error_info
  er_request_id :: "string option"

definition render :: "string option \<Rightarrow> nat \<Rightarrow> error_info \<Rightarrow> error_response" where
  "render rid status e =
     \<lparr>er_status = status, er_success = False, er_error = e, er_request_id = rid\<rparr>"

definition app_exception_handler :: "string option \<Rightarrow> app_exc \<Rightarrow> error_response" where
  "app_exception_handler rid e =
     render rid (ae_status e)
       \<lparr>ei_code = error_code_value (ae_code e), ei_message = ae_message e,
        ei_details = ae_details e\<rparr>"

text \<open>One entry of \<open>exc.errors()\<close>; the parts of \<open>loc\<close> are names or list indices.\<close>

datatype loc_part = LocName string | LocIndex int

record pydantic_err =
  pe_msg :: "string option"
  pe_loc :: "loc_part list"
  pe_type :: "string option"

fun loc_str :: "loc_part \<Rightarrow> string" where
  "loc_str (LocName s) = s"
| "loc_str (LocIndex i) = int_str i"

definition validation_exception_handler ::
  "string option \<Rightarrow> pydantic_err list \<Rightarrow> error_response" where
  "validation_exception_handler rid errs =
     render rid 422
       \<lparr>ei_code = error_code_value VALIDATION_ERROR,
        ei_message = ''Request validation failed.'',
        ei_details = map (\<lambda>e.
          \<lparr>ed_message = (case pe_msg e of None \<Rightarrow> ''Invalid value.'' | Some m \<Rightarrow> m),
           ed_field = Some (py_join ''.''
             (map loc_str (filter (\<lambda>l. l \<noteq> LocName ''body'') (pe_loc e)))),
           ed_type = pe_type e\<rparr>) errs\<rparr>"

definition http_exception_handler ::
  "string option \<Rightarrow> nat \<Rightarrow> string \<Rightarrow> error_response" where
  "http_exception_handler rid status detail =
     render rid status
       \<lparr>ei_code = ''HTTP_'' @ nat_str status, ei_message = detail, ei_details = []\<rparr>"

section \<open>The error log\<close>

text \<open>
  What \<open>capture_exception\<close> sees of an exception: its type name, its text, the frames
  \<open>(filename, function)\<close> of its traceback in order, outermost first, and the formatted
  traceback. \<open>h\<close> is SHA-256 in hexadecimal.
\<close>

record raised =
  rx_type :: string
  rx_text :: string
  rx_frames :: "(string \<times> string) list"
  rx_formatted :: string

record error_log =
  el_id :: nat
  el_level :: string
  el_message :: string
  el_service :: "string option"
  el_path :: "string option"
  el_stack :: "string option"
  el_fingerprint :: "string option"
  el_count :: int
  el_resolved :: bool
  el_last_seen :: "int option"

definition fingerprint :: "(string \<Rightarrow> string) \<Rightarrow> raised \<Rightarrow> string" where
  "fingerprint h x =
     (let frame = (case rx_frames x of [] \<Rightarrow> []
                   | _ \<Rightarrow> (case last (rx_frames x) of (file, name) \<Rightarrow> file @ '':'' @ name))
      in take 32 (h (rx_type x @ '':'' @ frame)))"

text \<open>
  The table is a list of rows. \<open>scalar_one_or_none\<close> raises when several rows match; that
  failure, like any other, is swallowed and nothing is written. A new row gets the
  identifier \<open>new_id\<close>.
\<close>

definition capture_exception ::
  "(string \<Rightarrow> string) \<Rightarrow> nat \<Rightarrow> int \<Rightarrow> string option \<Rightarrow> raised \<Rightarrow> error_log list \<Rightarrow> error_log list" where
  "capture_exception h new_id now path x tbl =
     (let fp = fingerprint h x;
          message = take 500 (rx_type x @ '': '' @ rx_text x);
          stack = take 8000 (rx_formatted x);
          matching = filter (\<lambda>r. el_fingerprint r = Some fp) tbl
      in case matching of
           [] \<Rightarrow> tbl @ [\<lparr>el_id = new_id, el_level = ''error'', el_message = message,
                  el_service = Some ''api'', el_path = path, el_stack = Some stack,
                  el_fingerprint = Some fp, el_count = 1, el_resolved = False,
                  el_last_seen = Some now\<rparr>]
         | [m] \<Rightarrow> map (\<lambda>r. if el_id r = el_id m
                  then r\<lparr>el_count := el_count r + 1, el_last_seen := Some now,
                         el_resolved := False, el_message := message\<rparr>
                  else r) tbl
         | _ \<Rightarrow> tbl)"

text \<open>The catch-all handler: log, capture, and a fixed envelope.\<close>

definition unhandled_exception_handler ::
  "(string \<Rightarrow> string) \<Rightarrow> string option \<Rightarrow> nat \<Rightarrow> int \<Rightarrow> string \<Rightarrow> raised \<Rightarrow> error_log list
     \<Rightarrow> error_log list \<times> error_response" where
  "unhandled_exception_handler h rid new_id now path x tbl =
     (capture_exception h new_id now (Some path) x tbl,
      render rid 500
        \<lparr>ei_code = error_code_value INTERNAL_SERVER_ERROR,
         ei_message = ''An unexpected error occurred.'', ei_details = []\<rparr>)"

section \<open>Lemmas\<close>

lemma new_app_exc_class [simp]: "ae_class (new_app_exc c m k s d) = c"
  by (simp add: new_app_exc_def Let_def)

lemma new_app_exc_default [simp]:
  "ae_code (new_app_exc c m None s d) = ci_code (app_class_info c)"
  "ae_status (new_app_exc c m k None d) = ci_status (app_class_info c)"
  by (simp_all add: new_app_exc_def Let_def)

lemma app_class_status_range:
  "400 \<le> ci_status (app_class_info c) \<and> ci_status (app_class_info c) < 600"
proof (cases c)
  case (BaseE e) then show ?thesis by (cases e) simp_all
next
  case (FileE e) then show ?thesis by (cases e) simp_all
next
  case (JobE e) then show ?thesis by (cases e) simp_all
next
  case (FeedbackE e) then show ?thesis by (cases e) simp_all
qed (simp_all add: rate_limited_info_def)

lemma app_class_message_nonempty: "ci_message (app_class_info c) \<noteq> []"
proof (cases c)
  case (BaseE e) then show ?thesis by (cases e) simp_all
next
  case (FileE e) then show ?thesis by (cases e) simp_all
next
  case (JobE e) then show ?thesis by (cases e) simp_all
next
  case (FeedbackE e) then show ?thesis by (cases e) simp_all
qed (simp_all add: rate_limited_info_def)

text \<open>One row per fingerprint, distinct identifiers: what the error log keeps.\<close>

definition error_log_ok :: "error_log list \<Rightarrow> bool" where
  "error_log_ok tbl \<longleftrightarrow> distinct (map el_id tbl) \<and> distinct (map el_fingerprint tbl)
     \<and> (\<forall>r \<in> set tbl. 1 \<le> el_count r)"

definition occurrences :: "string \<Rightarrow> error_log list \<Rightarrow> int" where
  "occurrences fp tbl = sum_list (map el_count (filter (\<lambda>r. el_fingerprint r = Some fp) tbl))"

lemma filter_fp_cases:
  assumes "distinct (map el_fingerprint tbl)"
  obtains "filter (\<lambda>r. el_fingerprint r = fp) tbl = []"
  | m where "filter (\<lambda>r. el_fingerprint r = fp) tbl = [m]"
proof -
  let ?f = "filter (\<lambda>r. el_fingerprint r = fp) tbl"
  have d: "distinct (map el_fingerprint ?f)" using assms by (rule distinct_map_filter)
  have all: "\<forall>r \<in> set ?f. el_fingerprint r = fp" by auto
  show thesis
  proof (cases ?f)
    case Nil
    then show thesis by (rule that(1))
  next
    case (Cons m ms)
    have "ms = []"
    proof (cases ms)
      case (Cons m' ms')
      with d all \<open>?f = m # ms\<close> show ?thesis by auto
    qed simp
    with Cons show thesis using that(2) by blast
  qed
qed

lemma occurrences_Nil [simp]: "occurrences fp [] = 0"
  by (simp add: occurrences_def)

lemma occurrences_Cons [simp]:
  "occurrences fp (r # tbl) =
     (if el_fingerprint r = Some fp then el_count r else 0) + occurrences fp tbl"
  by (simp add: occurrences_def)

lemma occurrences_append [simp]:
  "occurrences fp (a @ b) = occurrences fp a + occurrences fp b"
  by (simp add: occurrences_def)

lemma occurrences_absent: "filter (\<lambda>r. el_fingerprint r = Some fp) tbl = [] \<Longrightarrow> occurrences fp tbl = 0"
  by (simp add: occurrences_def)

text \<open>Bumping the one row with identifier \<open>i\<close> and fingerprint \<open>fp\<close>.\<close>

lemma occurrences_bump:
  assumes "distinct (map el_id tbl)" and "m \<in> set tbl" and "el_fingerprint m = Some fp"
    and f: "\<And>r. el_fingerprint (f r) = el_fingerprint r" "\<And>r. el_count (f r) = el_count r + 1"
  shows "occurrences fp' (map (\<lambda>r. if el_id r = el_id m then f r else r) tbl)
    = occurrences fp' tbl + (if fp' = fp then 1 else 0)"
  using assms(1,2)
proof (induction tbl)
  case Nil
  then show ?case by simp
next
  case (Cons r tbl)
  show ?case
  proof (cases "r = m")
    case True
    then have "\<forall>x \<in> set tbl. el_id x \<noteq> el_id m" using Cons.prems by (auto simp: image_iff)
    then have "map (\<lambda>r. if el_id r = el_id m then f r else r) tbl = tbl"
      by (intro map_idI) auto
    with True show ?thesis using assms(3) by (auto simp: f)
  next
    case False
    then have m: "m \<in> set tbl" using Cons.prems by simp
    then have "el_id r \<noteq> el_id m" using Cons.prems(1) by force
    with Cons m show ?thesis by simp
  qed
qed

lemma capture_new_row:
  assumes "filter (\<lambda>r. el_fingerprint r = Some (fingerprint h x)) tbl = []"
  shows "capture_exception h i now path x tbl =
    tbl @ [\<lparr>el_id = i, el_level = ''error'', el_message = take 500 (rx_type x @ '': '' @ rx_text x),
            el_service = Some ''api'', el_path = path, el_stack = Some (take 8000 (rx_formatted x)),
            el_fingerprint = Some (fingerprint h x), el_count = 1, el_resolved = False,
            el_last_seen = Some now\<rparr>]"
  using assms by (simp add: capture_exception_def Let_def)

lemma capture_known_row:
  assumes "filter (\<lambda>r. el_fingerprint r = Some (fingerprint h x)) tbl = [m]"
  shows "capture_exception h i now path x tbl =
    map (\<lambda>r. if el_id r = el_id m
      then r\<lparr>el_count := el_count r + 1, el_last_seen := Some now, el_resolved := False,
             el_message := take 500 (rx_type x @ '': '' @ rx_text x)\<rparr> else r) tbl"
  using assms by (simp add: capture_exception_def Let_def)

section \<open>Properties\<close>

text \<open>
  Capturing an exception never loses or merges counts: on an error log with one row per
  fingerprint, a capture raises the number of occurrences recorded for the exception's own
  fingerprint by exactly one, leaves every other fingerprint's number alone, and keeps the
  log one row per fingerprint (so a repeated error is counted, not inserted again).
\<close>

theorem capture_exception_counts:
  assumes ok: "error_log_ok tbl" and fresh: "i \<notin> el_id ` set tbl"
  shows "error_log_ok (capture_exception h i now path x tbl) \<and>
    occurrences fp (capture_exception h i now path x tbl) =
      occurrences fp tbl + (if fp = fingerprint h x then 1 else 0)"
proof -
  let ?fp = "Some (fingerprint h x)"
  from ok have d: "distinct (map el_fingerprint tbl)" "distinct (map el_id tbl)"
    and c: "\<forall>r \<in> set tbl. 1 \<le> el_count r" by (auto simp: error_log_ok_def)
  from d(1) show ?thesis
  proof (cases rule: filter_fp_cases [of tbl ?fp])
    case 1
    then have "?fp \<notin> el_fingerprint ` set tbl" by (auto simp: filter_empty_conv)
    with 1 fresh ok show ?thesis
      by (auto simp: capture_new_row error_log_ok_def)
  next
    case (2 m)
    then have "m \<in> set (filter (\<lambda>r. el_fingerprint r = ?fp) tbl)" by simp
    then have m: "m \<in> set tbl" "el_fingerprint m = ?fp" by auto
    show ?thesis
      unfolding capture_known_row [OF 2] error_log_ok_def
      using d c m by (auto simp: occurrences_bump comp_def if_distrib cong: if_cong)
  qed
qed

theorem capture_exception_counts_witness:
  "occurrences ''E:'' (capture_exception (\<lambda>s. s) 0 5 None
     \<lparr>rx_type = ''E'', rx_text = [], rx_frames = [], rx_formatted = []\<rparr> []) = 1"
  using capture_exception_counts [of "[]" 0 "\<lambda>s. s" 5 None
    "\<lparr>rx_type = ''E'', rx_text = [], rx_frames = [], rx_formatted = []\<rparr>" "''E:''"]
  by (simp add: error_log_ok_def fingerprint_def)

end
