(* ===== verification/Filenames.thy ===== *)
theory Filenames
  imports PyText
begin

text \<open>
  \<open>app/utils/filenames.py\<close>: sanitising client-supplied file names, extensions and stems.

  \<open>PurePosixPath(s).name\<close> and \<open>PureWindowsPath(s).name\<close> are modelled by their parsing
  rules (drive, UNC share, separators, \<open>.\<close> components). Unicode normalisation
  (\<open>unicodedata.normalize("NFKC", _)\<close>) is an argument \<open>nfkc\<close> of the definitions and the
  theorems hold for every such function. A slice \<open>s[:n]\<close> is \<open>py_prefix\<close>, which counts from
  the end for a negative \<open>n\<close> as Python does.
\<close>

section \<open>Path names\<close>

abbreviation (input) slash :: char where "slash \<equiv> CHR ''/''"
abbreviation (input) backslash :: char where "backslash \<equiv> CHR 0x5C"
abbreviation (input) dot :: char where "dot \<equiv> CHR ''.''"

definition path_parts :: "char \<Rightarrow> string \<Rightarrow> string list" where
  "path_parts sep s = filter (\<lambda>x. x \<noteq> [] \<and> x \<noteq> [dot]) (split_on sep s)"

definition last_part :: "string list \<Rightarrow> string" where
  "last_part ps = (if ps = [] then [] else last ps)"

definition posix_name :: "string \<Rightarrow> string" where
  "posix_name s = last_part (path_parts slash s)"

text \<open>The part of a Windows path after drive and root (\<open>ntpath.splitroot\<close>).\<close>

definition win_relative :: "string \<Rightarrow> string" where
  "win_relative s =
     (if take 1 s = [backslash] then
        (if take 1 (drop 1 s) = [backslash] then
           (let start = (if py_upper (take 8 s) = [backslash, backslash, CHR ''?'', backslash]
                             @ ''UNC'' @ [backslash] then 8 else 2)
            in case split_first backslash (drop start s) of
                 None \<Rightarrow> []
               | Some (_, rest) \<Rightarrow>
                   (case split_first backslash rest of None \<Rightarrow> [] | Some (_, rel) \<Rightarrow> rel))
         else drop 1 s)
      else if take 1 (drop 1 s) = '':'' then
        (if take 1 (drop 2 s) = [backslash] then drop 3 s else drop 2 s)
      else s)"

definition windows_name :: "string \<Rightarrow> string" where
  "windows_name s =
     (let s' = map (\<lambda>c. if c = slash then backslash else c) s
      in last_part (path_parts backslash (win_relative s')))"

text \<open>\<open>PurePath.suffix\<close> and \<open>PurePath.stem\<close> of a final component.\<close>

definition name_suffix :: "string \<Rightarrow> string" where
  "name_suffix name =
     (case split_last dot name of
        None \<Rightarrow> []
      | Some (a, b) \<Rightarrow> if a \<noteq> [] \<and> b \<noteq> [] then dot # b else [])"

definition name_stem :: "string \<Rightarrow> string" where
  "name_stem name =
     (case split_last dot name of
        None \<Rightarrow> name
      | Some (a, b) \<Rightarrow> if a \<noteq> [] \<and> b \<noteq> [] then a else name)"

section \<open>The functions of the module\<close>

definition unsafe_char :: "char \<Rightarrow> bool" where
  "unsafe_char c \<longleftrightarrow> c \<in> set ''<>:'' \<or> c = CHR 0x22 \<or> c \<in> set ''/|?*'' \<or> c = backslash
     \<or> char_code c < 32"

definition windows_reserved :: "string list" where
  "windows_reserved = [''CON'', ''PRN'', ''AUX'', ''NUL'']
     @ map (\<lambda>d. ''COM'' @ [d]) ''123456789'' @ map (\<lambda>d. ''LPT'' @ [d]) ''123456789''"

definition max_filename_length :: nat where
  "max_filename_length = 200"

definition py_prefix :: "string \<Rightarrow> int \<Rightarrow> string" where
  "py_prefix s n = (if 0 \<le> n then take (nat n) s else take (length s - nat (- n)) s)"

definition py_or :: "string \<Rightarrow> string \<Rightarrow> string" where
  "py_or s t = (if s = [] then t else s)"

text \<open>
  The first half of \<open>sanitize_filename\<close>: drop directories, normalise, replace unsafe
  characters, strip blanks and dots.
\<close>

definition clean_name :: "(string \<Rightarrow> string) \<Rightarrow> string \<Rightarrow> string" where
  "clean_name nfkc name =
     strip_by (\<lambda>c. c \<in> set '' .'')
       (map (\<lambda>c. if unsafe_char c then CHR ''_'' else c)
         (nfkc (windows_name (posix_name name))))"

definition unreserve :: "string \<Rightarrow> string" where
  "unreserve stem = (if py_upper stem \<in> set windows_reserved then stem @ ''_'' else stem)"

definition sanitize_filename :: "(string \<Rightarrow> string) \<Rightarrow> string \<Rightarrow> string \<Rightarrow> string" where
  "sanitize_filename nfkc name fallback =
     (let clean = clean_name nfkc name in
      if clean = [] then fallback
      else
        (let (stem, suffix) = (case split_last dot clean of
               None \<Rightarrow> (clean, []) | Some (a, b) \<Rightarrow> (a, b));
             stem = unreserve stem
         in if suffix \<noteq> [] then
              (let max_stem = int max_filename_length - int (length suffix) - 1
               in py_or (py_prefix stem max_stem) fallback @ dot # suffix)
            else py_or (py_prefix stem (int max_filename_length)) fallback))"

definition file_extension :: "string \<Rightarrow> string" where
  "file_extension name =
     py_lower (lstrip_by (\<lambda>c. c = dot) (name_suffix (windows_name (posix_name name))))"

definition file_stem :: "string \<Rightarrow> string" where
  "file_stem name = name_stem (posix_name name)"

definition image_extensions :: "string list" where
  "image_extensions = [''jpg'', ''jpeg'', ''png'']"

text \<open>\<open>uuid4().hex\<close> is the argument \<open>hex\<close>.\<close>

definition generate_stored_name :: "string \<Rightarrow> string \<Rightarrow> string" where
  "generate_stored_name hex extension =
     (let ext = py_lower (lstrip_by (\<lambda>c. c = dot) extension)
      in if ext \<noteq> [] then hex @ dot # ext else hex)"

section \<open>Lemmas\<close>

lemma py_prefix_subset: "set (py_prefix s n) \<subseteq> set s"
  by (auto simp: py_prefix_def dest: in_set_takeD)

lemma length_py_prefix: "0 \<le> n \<Longrightarrow> length (py_prefix s n) = min (length s) (nat n)"
  by (simp add: py_prefix_def)

lemma py_prefix_empty_iff: "0 < n \<Longrightarrow> py_prefix s n = [] \<longleftrightarrow> s = []"
  by (simp add: py_prefix_def)

lemma hd_py_prefix: "py_prefix s n \<noteq> [] \<Longrightarrow> hd (py_prefix s n) = hd s"
  by (cases s) (auto simp: py_prefix_def hd_take take_Cons' split: if_splits)

lemma clean_name_safe: "c \<in> set (clean_name nfkc name) \<Longrightarrow> \<not> unsafe_char c"
  unfolding clean_name_def
  by (drule subsetD [OF set_strip_by]) (auto simp: unsafe_char_def char_code_def)

lemma clean_name_edges:
  assumes "clean_name nfkc name \<noteq> []"
  shows "hd (clean_name nfkc name) \<noteq> dot" and "last (clean_name nfkc name) \<noteq> dot"
  using strip_by_edges [OF assms [unfolded clean_name_def]]
  by (auto simp: clean_name_def)

text \<open>After cleaning, a dot always separates a non-empty stem from a non-empty suffix.\<close>

lemma clean_name_split:
  assumes "split_last dot (clean_name nfkc name) = Some (a, b)"
  shows "a \<noteq> []" and "b \<noteq> []" and "hd a \<noteq> dot"
proof -
  let ?c = "clean_name nfkc name"
  from split_last_SomeD(1) [OF assms] have c: "?c = a @ dot # b" .
  then have ne: "?c \<noteq> []" by simp
  show a: "a \<noteq> []" using clean_name_edges(1) [OF ne] c by (cases a) auto
  show "b \<noteq> []" using clean_name_edges(2) [OF ne] c by (cases b) auto
  show "hd a \<noteq> dot" using clean_name_edges(1) [OF ne] c a by simp
qed

lemma unreserve_nonempty [simp]: "unreserve s = [] \<longleftrightarrow> s = []"
  by (auto simp: unreserve_def windows_reserved_def py_upper_def)

lemma hd_unreserve [simp]: "s \<noteq> [] \<Longrightarrow> hd (unreserve s) = hd s"
  by (simp add: unreserve_def)

lemma set_unreserve: "set (unreserve s) \<subseteq> insert (CHR ''_'') (set s)"
  by (auto simp: unreserve_def)

lemma windows_reserved_length: "r \<in> set windows_reserved \<Longrightarrow> length r = 3 \<or> length r = 4"
  by (auto simp: windows_reserved_def)

lemma py_upper_snoc_underscore: "py_upper (s @ ''_'') = py_upper s @ ''_''"
  by (simp add: py_upper_def upper_char_def is_lower_def char_code_def)

lemma reserved_no_underscore: "r @ ''_'' \<notin> set windows_reserved"
  by (auto simp: windows_reserved_def append_eq_Cons_conv)

lemma unreserve_not_reserved: "py_upper (unreserve s) \<notin> set windows_reserved"
  by (auto simp: unreserve_def py_upper_snoc_underscore reserved_no_underscore)

text \<open>The two shapes of a sanitised name whose clean form is not empty.\<close>

lemma sanitize_cases:
  assumes "clean_name nfkc name \<noteq> []"
  obtains (plain) "split_last dot (clean_name nfkc name) = None"
    "sanitize_filename nfkc name fb =
       py_prefix (unreserve (clean_name nfkc name)) (int max_filename_length)"
  | (dotted) a b where "split_last dot (clean_name nfkc name) = Some (a, b)"
    "a \<noteq> []" "b \<noteq> []" "hd a \<noteq> dot" "dot \<notin> set b"
    "sanitize_filename nfkc name fb =
       py_or (py_prefix (unreserve a) (int max_filename_length - int (length b) - 1)) fb @ dot # b"
proof (cases "split_last dot (clean_name nfkc name)")
  case None
  have "py_or (py_prefix (unreserve (clean_name nfkc name)) (int max_filename_length)) fb
      = py_prefix (unreserve (clean_name nfkc name)) (int max_filename_length)"
    using assms by (simp add: py_or_def py_prefix_empty_iff max_filename_length_def)
  with None assms show thesis
    by (intro plain) (simp_all add: sanitize_filename_def)
next
  case (Some p)
  obtain a b where p: "p = (a, b)" by (cases p)
  note s = Some [unfolded p]
  from clean_name_split [OF s] split_last_SomeD(2) [OF s] assms s show thesis
    by (intro dotted [of a b]) (simp_all add: sanitize_filename_def)
qed

text \<open>A name without separators and drive colon is its own final component.\<close>

definition plain_name :: "string \<Rightarrow> bool" where
  "plain_name s \<longleftrightarrow> s \<noteq> [] \<and> s \<noteq> [dot] \<and> slash \<notin> set s \<and> backslash \<notin> set s
     \<and> CHR '':'' \<notin> set s"

lemma posix_name_plain: "plain_name s \<Longrightarrow> posix_name s = s"
  by (simp add: plain_name_def posix_name_def path_parts_def split_on_no_mem last_part_def)

lemma windows_name_plain:
  assumes "plain_name s" shows "windows_name s = s"
proof -
  have m: "map (\<lambda>c. if c = slash then backslash else c) s = s"
    using assms by (intro map_idI) (auto simp: plain_name_def)
  have "x \<in> set s" if "take 1 s = [x]" for x
    using that by (metis in_set_takeD list.set_intros(1))
  moreover have "x \<in> set s" if "take 1 (drop 1 s) = [x]" for x
    using that by (metis in_set_dropD in_set_takeD list.set_intros(1))
  ultimately have "take 1 s \<noteq> [backslash]" and "take 1 (drop 1 s) \<noteq> '':''"
    using assms unfolding plain_name_def by blast+
  then have "win_relative s = s" by (simp add: win_relative_def)
  with m assms show ?thesis
    by (simp add: windows_name_def plain_name_def path_parts_def split_on_no_mem last_part_def)
qed

lemma file_extension_plain:
  assumes "plain_name s"
  shows "file_extension s =
    (case split_last dot s of None \<Rightarrow> [] | Some (a, b) \<Rightarrow> if a = [] then [] else py_lower b)"
proof (cases "split_last dot s")
  case None
  with assms show ?thesis
    by (simp add: file_extension_def posix_name_plain windows_name_plain name_suffix_def
        lstrip_by_def py_lower_def)
next
  case (Some p)
  obtain a b where p: "p = (a, b)" by (cases p)
  have "dropWhile (\<lambda>c. c = dot) b = b"
    using split_last_SomeD(2) [OF Some [unfolded p]] by (cases b) auto
  with Some p assms show ?thesis
    by (auto simp: file_extension_def posix_name_plain windows_name_plain name_suffix_def
        lstrip_by_def py_lower_def)
qed

lemma safe_plain_name:
  assumes "s \<noteq> []" "hd s \<noteq> dot" and safe: "\<And>c. c \<in> set s \<Longrightarrow> \<not> unsafe_char c"
  shows "plain_name s"
proof -
  have "unsafe_char slash" "unsafe_char backslash" "unsafe_char (CHR '':'')"
    by (simp_all add: unsafe_char_def)
  with safe have "slash \<notin> set s" "backslash \<notin> set s" "CHR '':'' \<notin> set s" by blast+
  with assms(1,2) show ?thesis by (auto simp: plain_name_def)
qed

definition safe_fallback :: "string \<Rightarrow> bool" where
  "safe_fallback fb \<longleftrightarrow> fb \<noteq> [] \<and> hd fb \<noteq> dot \<and> (\<forall>c \<in> set fb. \<not> unsafe_char c)"

lemma underscore_safe: "\<not> unsafe_char (CHR ''_'')"
  by (simp add: unsafe_char_def char_code_def)

lemma dot_safe: "\<not> unsafe_char dot"
  by (simp add: unsafe_char_def char_code_def)

lemma safe_py_prefix_unreserve:
  "(\<And>c. c \<in> set a \<Longrightarrow> \<not> unsafe_char c) \<Longrightarrow> c \<in> set (py_prefix (unreserve a) n) \<Longrightarrow> \<not> unsafe_char c"
  using py_prefix_subset set_unreserve underscore_safe by fastforce

lemma hd_stem:
  assumes "a \<noteq> []" "hd a \<noteq> dot" "safe_fallback fb"
  shows "hd (py_or (py_prefix (unreserve a) n) fb) \<noteq> dot"
  using assms hd_py_prefix [of "unreserve a" n] by (auto simp: py_or_def safe_fallback_def)

lemma py_or_nonempty [simp]: "fb \<noteq> [] \<Longrightarrow> py_or s fb \<noteq> []"
  by (simp add: py_or_def)

lemma split_on_subset: "x \<in> set (split_on c s) \<Longrightarrow> set x \<subseteq> set s"
proof (induction s arbitrary: x)
  case Nil
  then show ?case by simp
next
  case (Cons a s)
  show ?case
  proof (cases "split_on c s")
    case Nil
    then show ?thesis by simp
  next
    case (Cons y ys)
    have "set y \<subseteq> set s" "\<And>z. z \<in> set ys \<Longrightarrow> set z \<subseteq> set s"
      using Cons.IH Cons by auto
    with Cons.prems Cons show ?thesis by (fastforce split: if_splits)
  qed
qed

lemma set_last_part_parts: "set (last_part (path_parts c s)) \<subseteq> set s"
proof (cases "path_parts c s = []")
  case True
  then show ?thesis by (simp add: last_part_def)
next
  case False
  then have "last (path_parts c s) \<in> set (split_on c s)"
    using last_in_set [OF False] by (auto simp: path_parts_def)
  with False show ?thesis using split_on_subset by (auto simp: last_part_def)
qed

lemma set_name_suffix: "set (name_suffix s) \<subseteq> insert dot (set s)"
proof (cases "split_last dot s")
  case None
  then show ?thesis by (simp add: name_suffix_def)
next
  case (Some ab)
  obtain a b where ab: "ab = (a, b)" by (cases ab)
  from split_last_SomeD(1) [OF Some [unfolded ab]] have "set b \<subseteq> set s" by auto
  then show ?thesis by (auto simp: name_suffix_def Some ab)
qed

lemma split_first_subset: "split_first c s = Some (a, b) \<Longrightarrow> set b \<subseteq> set s"
  by (drule split_first_SomeD(1)) auto

lemma set_win_relative: "set (win_relative s) \<subseteq> set s"
proof -
  have unc: "set (case split_first backslash t of None \<Rightarrow> []
      | Some (_, rest) \<Rightarrow> (case split_first backslash rest of None \<Rightarrow> [] | Some (_, rel) \<Rightarrow> rel)) \<subseteq> set t" for t
  proof (cases "split_first backslash t")
    case None
    then show ?thesis by simp
  next
    case (Some ab)
    obtain a rest where ab: "ab = (a, rest)" by (cases ab)
    have r: "set rest \<subseteq> set t" by (rule split_first_subset [OF Some [unfolded ab]])
    show ?thesis
    proof (cases "split_first backslash rest")
      case None
      then show ?thesis by (simp add: Some ab)
    next
      case (Some cd)
      obtain c rel where cd: "cd = (c, rel)" by (cases cd)
      have "set rel \<subseteq> set rest" by (rule split_first_subset [OF Some [unfolded cd]])
      with r show ?thesis by (simp add: Some \<open>split_first backslash t = Some ab\<close> ab cd)
    qed
  qed
  have "set (drop k s) \<subseteq> set s" for k by (rule set_drop_subset)
  then show ?thesis
    using unc [of "drop 8 s"] unc [of "drop 2 s"] unfolding win_relative_def Let_def
    by (simp split: if_split) (meson subset_trans)
qed

text \<open>An extension never contains a path separator.\<close>

lemma file_extension_no_slash: "slash \<notin> set (file_extension name)"
proof -
  let ?m = "map (\<lambda>c. if c = slash then backslash else c) (posix_name name)"
  have "slash \<notin> set ?m" by auto
  then have "slash \<notin> set (win_relative ?m)" using set_win_relative by blast
  then have "slash \<notin> set (windows_name (posix_name name))"
    using set_last_part_parts [of backslash "win_relative ?m"] by (auto simp: windows_name_def)
  then have "slash \<notin> set (name_suffix (windows_name (posix_name name)))"
    using set_name_suffix by fastforce
  then have "slash \<notin> set (lstrip_by (\<lambda>c. c = dot) (name_suffix (windows_name (posix_name name))))"
    by (auto simp: lstrip_by_def dest: set_dropWhileD)
  then show ?thesis
    unfolding file_extension_def by (intro not_mem_py_lower) (simp_all add: is_lower_def char_code_def)
qed

section \<open>Properties\<close>

text \<open>
  C10: Whatever name the client sends and whatever Unicode normalisation does, the sanitised
  name is not empty, does not start with a dot and has no path separator, no drive colon,
  no control character and no other character of the unsafe set; so it is its own final
  path component and can never be \<open>.\<close>, \<open>..\<close> or a path that leaves a directory.
\<close>

theorem sanitize_filename_safe:
  assumes fb: "safe_fallback fb"
  shows "(\<forall>c \<in> set (sanitize_filename nfkc name fb). \<not> unsafe_char c)
    \<and> hd (sanitize_filename nfkc name fb) \<noteq> CHR ''.''
    \<and> plain_name (sanitize_filename nfkc name fb)"
proof -
  let ?r = "sanitize_filename nfkc name fb" and ?c = "clean_name nfkc name"
  have "?r \<noteq> [] \<and> hd ?r \<noteq> dot \<and> (\<forall>c \<in> set ?r. \<not> unsafe_char c)"
  proof (cases "?c = []")
    case True
    then have "?r = fb" by (simp add: sanitize_filename_def)
    with fb show ?thesis by (simp add: safe_fallback_def)
  next
    case False
    then show ?thesis
    proof (cases rule: sanitize_cases [where fb = fb])
      case plain
      have ne: "py_prefix (unreserve ?c) (int max_filename_length) \<noteq> []"
        using False by (simp add: py_prefix_empty_iff max_filename_length_def)
      show ?thesis
        unfolding plain(2)
        using ne hd_py_prefix [OF ne] clean_name_edges(1) [OF False] False
          safe_py_prefix_unreserve [OF clean_name_safe]
        by auto
    next
      case (dotted a b)
      have c: "?c = a @ dot # b" by (rule split_last_SomeD(1) [OF dotted(1)])
      have safe: "\<not> unsafe_char x" if "x \<in> set a \<union> set b" for x
        using that clean_name_safe [of x nfkc name] unfolding c by auto
      let ?s = "py_or (py_prefix (unreserve a) (int max_filename_length - int (length b) - 1)) fb"
      have "\<not> unsafe_char x" if "x \<in> set ?s" for x
        using that fb safe safe_py_prefix_unreserve [of a x]
        unfolding py_or_def safe_fallback_def by (auto split: if_splits)
      moreover have "?s \<noteq> []" using fb by (simp add: safe_fallback_def)
      moreover note hd_stem [OF dotted(2,4) fb]
      ultimately show ?thesis
        unfolding dotted(6) using dot_safe safe by (simp add: ball_Un)
    qed
  qed
  then show ?thesis by (auto intro: safe_plain_name)
qed

theorem sanitize_filename_safe_witness:
  "plain_name (sanitize_filename (\<lambda>s. s) ''../../etc/passwd'' ''file'')"
  using sanitize_filename_safe [of "''file''" "\<lambda>s. s" "''../../etc/passwd''"]
  by (simp add: safe_fallback_def unsafe_char_def char_code_def)

text \<open>
  The length cap of 200 holds exactly when the cleaned name's extension has at most 198
  characters. A longer extension makes the stem's budget zero or negative, and \<open>stem[:n]\<close>
  then keeps text from the front instead of nothing, so the result exceeds the cap that the
  function promises.
\<close>

theorem sanitize_filename_length_iff:
  assumes fb: "fb \<noteq> []" "length fb \<le> 200"
  shows "length (sanitize_filename nfkc name fb) \<le> 200 \<longleftrightarrow>
    (case split_last (CHR ''.'') (clean_name nfkc name) of
       None \<Rightarrow> True | Some (a, b) \<Rightarrow> length b \<le> 198)"
proof (cases "clean_name nfkc name = []")
  case True
  with fb show ?thesis by (simp add: sanitize_filename_def split_last_def split_first_def)
next
  case False
  then show ?thesis
  proof (cases rule: sanitize_cases [where fb = fb])
    case plain
    then show ?thesis by (simp add: length_py_prefix max_filename_length_def)
  next
    case (dotted a b)
    let ?s = "py_or (py_prefix (unreserve a) (int max_filename_length - int (length b) - 1)) fb"
    have pos: "0 < length ?s" using fb(1) by simp
    have "length ?s + length b \<le> 199" if "length b \<le> 198"
      using that dotted(2)
      by (simp add: py_or_def py_prefix_empty_iff length_py_prefix max_filename_length_def)
    with pos have "length ?s + length b < 200 \<longleftrightarrow> length b \<le> 198" by linarith
    then show ?thesis unfolding dotted(1,6) by auto
  qed
qed

theorem sanitize_filename_length_iff_witness:
  "\<not> length (sanitize_filename (\<lambda>s. s) (''report.'' @ replicate 230 (CHR ''x'')) ''file'') \<le> 200"
proof -
  let ?n = "''report.'' @ replicate 230 (CHR ''x'')"
  have x: "set (replicate 230 (CHR ''x'')) = {CHR ''x''}" by simp
  have plain: "plain_name ?n" by (auto simp: plain_name_def)
  have "map (\<lambda>c. if unsafe_char c then CHR ''_'' else c) ?n = ?n"
    by (rule map_idI) (auto simp: unsafe_char_def char_code_def)
  moreover have "strip_by (\<lambda>c. c \<in> set '' .'') ?n = ?n"
    by (rule strip_by_id) auto
  ultimately have "clean_name (\<lambda>s. s) ?n = ''report'' @ dot # replicate 230 (CHR ''x'')"
    using plain by (simp add: clean_name_def posix_name_plain windows_name_plain)
  moreover have "split_last dot (''report'' @ dot # replicate 230 (CHR ''x''))
      = Some (''report'', replicate 230 (CHR ''x''))"
    by (rule split_last_append) auto
  ultimately show ?thesis
    using sanitize_filename_length_iff [of "''file''" "\<lambda>s. s" ?n] by simp
qed

end
