(* ===== verification/Settings.thy ===== *)
theory Settings
  imports PyText
begin

text \<open>
  \<open>app/config\<close>: the settings the modelled components read (\<open>base.py\<close>), their defaults and
  derived values, and the per-plan upload limits (\<open>plans.py\<close>). A directory is a list of
  components from the file-system root; \<open>storage_root\<close> is \<open>STORAGE_ROOT.resolve()\<close>.
\<close>

record settings =
  s_secret_key :: string
  s_access_token_minutes :: int
  s_refresh_token_days :: int
  s_eager :: bool
  s_eager_background :: bool
  s_storage_root :: "string list"
  s_max_files_per_upload :: int
  s_upload_chunk_size :: nat
  s_retention_hours :: int
  s_temp_max_age_minutes :: int
  s_command_timeout :: int
  s_pool_size :: int
  s_render_threshold_pages :: int
  s_render_workers :: int
  s_upload_rate_limit :: int
  s_feedback_rate_limit :: int
  s_feedback_max_per_day :: int
  s_attachment_max_bytes :: int
  s_attachment_types :: "string list"
  s_captcha_ttl_minutes :: int
  s_feedback_admin_emails :: "string list"

definition default_settings :: settings where
  "default_settings =
     \<lparr>s_secret_key = ''change-me-in-production-this-is-not-a-secret'',
      s_access_token_minutes = 30, s_refresh_token_days = 14,
      s_eager = False, s_eager_background = False,
      s_storage_root = [''storage''],
      s_max_files_per_upload = 20, s_upload_chunk_size = 1024 * 1024,
      s_retention_hours = 24, s_temp_max_age_minutes = 120, s_command_timeout = 240,
      s_pool_size = 2, s_render_threshold_pages = 16, s_render_workers = 4,
      s_upload_rate_limit = 30, s_feedback_rate_limit = 5, s_feedback_max_per_day = 1,
      s_attachment_max_bytes = 1 * 1024 * 1024,
      s_attachment_types = [''image/jpeg'', ''image/png'', ''image/webp''],
      s_captcha_ttl_minutes = 15, s_feedback_admin_emails = []\<rparr>"

text \<open>\<open>_split_csv\<close> on a string value from the environment (\<open>Inl\<close>: left as it is).\<close>

definition split_csv :: "string \<Rightarrow> string + string list" where
  "split_csv value =
     (if starts_with ''['' value then Inl value
      else Inr (map py_strip (filter (\<lambda>i. py_strip i \<noteq> []) (split_on CHR '','' value))))"

definition uploads_dir :: "settings \<Rightarrow> string list" where
  "uploads_dir s = s_storage_root s @ [''uploads'']"

definition processed_dir :: "settings \<Rightarrow> string list" where
  "processed_dir s = s_storage_root s @ [''processed'']"

definition temp_dir :: "settings \<Rightarrow> string list" where
  "temp_dir s = s_storage_root s @ [''temp'']"

definition thumbnails_dir :: "settings \<Rightarrow> string list" where
  "thumbnails_dir s = s_storage_root s @ [''thumbnails'']"

definition logs_dir :: "settings \<Rightarrow> string list" where
  "logs_dir s = s_storage_root s @ [''logs'']"

section \<open>Plan limits\<close>

definition mb :: int where
  "mb = 1024 * 1024"

record plan_limits =
  pl_plan :: string
  pl_label :: string
  pl_max_files :: int
  pl_max_file_size_mb :: int
  pl_max_total_size_mb :: int

definition max_file_size_bytes :: "plan_limits \<Rightarrow> int" where
  "max_file_size_bytes p = pl_max_file_size_mb p * mb"

definition max_total_size_bytes :: "plan_limits \<Rightarrow> int" where
  "max_total_size_bytes p = pl_max_total_size_mb p * mb"

definition plan_limits_of :: "string \<Rightarrow> string \<Rightarrow> int \<Rightarrow> int \<Rightarrow> int \<Rightarrow> plan_limits" where
  "plan_limits_of p l n f t =
     \<lparr>pl_plan = p, pl_label = l, pl_max_files = n, pl_max_file_size_mb = f,
      pl_max_total_size_mb = t\<rparr>"

definition free_limits :: plan_limits where
  "free_limits = plan_limits_of ''free'' ''Free'' 20 50 50"

definition PLAN_LIMITS :: "(string \<times> plan_limits) list" where
  "PLAN_LIMITS =
     [(''free'', free_limits),
      (''basic'', plan_limits_of ''basic'' ''Basic'' 50 500 500),
      (''pro'', plan_limits_of ''pro'' ''Pro'' 100 1024 1024),
      (''enterprise'', plan_limits_of ''enterprise'' ''Enterprise'' 100 1024 1024)]"

definition limits_for_plan :: "string option \<Rightarrow> plan_limits" where
  "limits_for_plan plan =
     (let name = (case plan of None \<Rightarrow> ''free'' | Some p \<Rightarrow> if p = [] then ''free'' else p)
      in case map_of PLAN_LIMITS (py_lower name) of
           None \<Rightarrow> free_limits | Some l \<Rightarrow> l)"

section \<open>Lemmas\<close>

lemma limits_for_plan_cases:
  "limits_for_plan plan \<in> snd ` set PLAN_LIMITS"
proof -
  have "free_limits \<in> snd ` set PLAN_LIMITS" by (simp add: PLAN_LIMITS_def)
  then show ?thesis
    by (auto simp: limits_for_plan_def Let_def split: option.split dest: map_of_SomeD)
      (force dest: map_of_SomeD)+
qed

text \<open>What the upload loop relies on: positive limits, and a batch budget that admits at
  least one file of the maximal size.\<close>

lemma limits_for_plan_sane:
  shows limits_max_files_pos: "0 < pl_max_files (limits_for_plan plan)"
    and limits_file_pos: "0 < max_file_size_bytes (limits_for_plan plan)"
    and limits_total: "max_file_size_bytes (limits_for_plan plan) \<le> max_total_size_bytes (limits_for_plan plan)"
  using limits_for_plan_cases [of plan]
  by (auto simp: PLAN_LIMITS_def free_limits_def plan_limits_of_def max_file_size_bytes_def
      max_total_size_bytes_def mb_def)

lemma limits_for_plan_anonymous: "limits_for_plan None = free_limits"
  by (simp add: limits_for_plan_def PLAN_LIMITS_def py_lower_def text_simps)

end
