(* ===== verification/FileValidation.thy ===== *)
theory FileValidation
  imports Errors Filenames Settings "HOL-Library.Word" "HOL-Library.List_Lexorder"
begin

text \<open>
  \<open>app/services/file_validation.py\<close>: batch size, extension allow-list and magic bytes.
  File content is a list of bytes (\<open>8 word list\<close>).
\<close>

type_synonym bytes = "8 word list"

section \<open>Signatures\<close>

definition sniff_size :: nat where
  "sniff_size = 1024"

definition pdf_magic :: bytes where "pdf_magic = [0x25, 0x50, 0x44, 0x46, 0x2D]"
definition zip_magic :: bytes where "zip_magic = [0x50, 0x4B, 0x03, 0x04]"
definition ole2_magic :: bytes where
  "ole2_magic = [0xD0, 0xCF, 0x11, 0xE0, 0xA1, 0xB1, 0x1A, 0xE1]"
definition jpeg_magic :: bytes where "jpeg_magic = [0xFF, 0xD8, 0xFF]"
definition png_magic :: bytes where
  "png_magic = [0x89, 0x50, 0x4E, 0x47, 0x0D, 0x0A, 0x1A, 0x0A]"

definition is_pdf :: "bytes \<Rightarrow> bool" where
  "is_pdf head = py_in pdf_magic (take sniff_size head)"

definition is_zip :: "bytes \<Rightarrow> bool" where
  "is_zip head = starts_with zip_magic head"

definition is_ole2 :: "bytes \<Rightarrow> bool" where
  "is_ole2 head = starts_with ole2_magic head"

definition is_office :: "bytes \<Rightarrow> bool" where
  "is_office head = (is_zip head \<or> is_ole2 head)"

definition is_jpeg :: "bytes \<Rightarrow> bool" where
  "is_jpeg head = starts_with jpeg_magic head"

definition is_png :: "bytes \<Rightarrow> bool" where
  "is_png head = starts_with png_magic head"

record file_type_spec =
  ft_extension :: string
  ft_media_type :: string
  ft_matches :: "bytes \<Rightarrow> bool"

definition type_spec :: "string \<Rightarrow> string \<Rightarrow> (bytes \<Rightarrow> bool) \<Rightarrow> file_type_spec" where
  "type_spec e m f = \<lparr>ft_extension = e, ft_media_type = m, ft_matches = f\<rparr>"

definition supported_specs :: "file_type_spec list" where
  "supported_specs =
     [type_spec ''pdf'' ''application/pdf'' is_pdf,
      type_spec ''doc'' ''application/msword'' is_office,
      type_spec ''docx''
        ''application/vnd.openxmlformats-officedocument.wordprocessingml.document'' is_office,
      type_spec ''xls'' ''application/vnd.ms-excel'' is_office,
      type_spec ''xlsx''
        ''application/vnd.openxmlformats-officedocument.spreadsheetml.sheet'' is_office,
      type_spec ''ppt'' ''application/vnd.ms-powerpoint'' is_office,
      type_spec ''pptx''
        ''application/vnd.openxmlformats-officedocument.presentationml.presentation'' is_office,
      type_spec ''jpg'' ''image/jpeg'' is_jpeg,
      type_spec ''jpeg'' ''image/jpeg'' is_jpeg,
      type_spec ''png'' ''image/png'' is_png]"

definition supported_types :: "string \<Rightarrow> file_type_spec option" where
  "supported_types ext = map_of (map (\<lambda>t. (ft_extension t, t)) supported_specs) ext"

section \<open>The checks\<close>

definition validate_file_count :: "settings \<Rightarrow> int \<Rightarrow> int option \<Rightarrow> (py_exc, unit) result" where
  "validate_file_count s count max_files =
     (let limit = (case max_files of None \<Rightarrow> s_max_files_per_upload s
                   | Some m \<Rightarrow> if m = 0 then s_max_files_per_upload s else m)
      in if count = 0 then raise_app (FileE UnsupportedFileTypeError) ''No files were provided.''
         else if limit < count then
           raise_app (FileE TooManyFilesError)
             (''At most '' @ int_str limit @ '' files may be uploaded at once (received ''
              @ int_str count @ '').'')
         else Inr ())"

text \<open>\<open>allowed_extensions\<close> is a set (here a list, its order and repetitions irrelevant);
  \<open>None\<close> and the empty set both mean every supported type.\<close>

definition allowed_of :: "string list option \<Rightarrow> string list" where
  "allowed_of a = (case a of None \<Rightarrow> map ft_extension supported_specs
     | Some xs \<Rightarrow> if xs = [] then map ft_extension supported_specs else xs)"

definition validate_file_type ::
  "string \<Rightarrow> bytes \<Rightarrow> string list option \<Rightarrow> (py_exc, file_type_spec) result" where
  "validate_file_type filename head allowed_extensions =
     (let extension = file_extension filename;
          spec = supported_types extension;
          allowed = allowed_of allowed_extensions;
          unsupported = Inl (AppExc (new_app_exc (FileE UnsupportedFileTypeError)
            (Some (''File type '' @ [CHR 0x27] @ ''.'' @ py_or extension ''?'' @ [CHR 0x27]
                   @ '' is not supported.'')) None None
            [\<lparr>ed_message = ''Allowed types: '' @ py_join '', '' (sort (remdups allowed)) @ ''.'',
              ed_field = Some ''files'', ed_type = Some ''unsupported_file_type''\<rparr>]))
      in case spec of
           None \<Rightarrow> unsupported
         | Some t \<Rightarrow>
             if extension \<notin> set allowed then unsupported
             else if \<not> ft_matches t head then
               raise_app (FileE FileCorruptedError)
                 ([CHR 0x27] @ filename @ [CHR 0x27] @ '' does not look like a valid .''
                  @ extension @ '' file.'')
             else Inr t)"

section \<open>Lemmas\<close>

lemma supported_types_extension: "supported_types e = Some t \<Longrightarrow> ft_extension t = e"
  unfolding supported_types_def by (drule map_of_SomeD) auto

lemma supported_types_mem:
  assumes "supported_types e = Some t"
  shows "e \<in> set (map ft_extension supported_specs)"
proof -
  from assms have "(e, t) \<in> set (map (\<lambda>t. (ft_extension t, t)) supported_specs)"
    unfolding supported_types_def by (rule map_of_SomeD)
  then show ?thesis by force
qed

lemma validate_file_type_Inr_iff:
  "validate_file_type f head a = Inr t \<longleftrightarrow>
     supported_types (file_extension f) = Some t \<and> file_extension f \<in> set (allowed_of a)
     \<and> ft_matches t head"
  by (auto simp: validate_file_type_def Let_def raise_defs split: option.splits)

lemma starts_with_take:
  "length p \<le> n \<Longrightarrow> starts_with p (take n s) = starts_with p s"
  by (induction p s arbitrary: n rule: starts_with.induct) (auto simp: take_Cons')

text \<open>The signatures fit into the sniffed head, so sniffing more would not change a verdict.\<close>

lemma matches_sniffed:
  assumes "supported_types e = Some t"
  shows "ft_matches t (take sniff_size content) = ft_matches t content"
proof -
  have "t \<in> set supported_specs"
    using assms unfolding supported_types_def by (auto dest: map_of_SomeD)
  then show ?thesis
    by (auto simp: supported_specs_def type_spec_def is_pdf_def is_office_def is_zip_def
        is_ole2_def is_jpeg_def is_png_def sniff_size_def starts_with_take zip_magic_def
        ole2_magic_def jpeg_magic_def png_magic_def)
qed

section \<open>Properties\<close>

text \<open>
  The type check decides exactly by extension and content. It returns the type of the
  name's own extension when that extension is supported, is in the caller's allow-list and
  the content carries that type's signature; it raises \<open>UnsupportedFileTypeError\<close> exactly
  when the extension is unknown or not allowed, and \<open>FileCorruptedError\<close> exactly when only
  the signature is missing. Sniffing the first 1024 bytes decides the same as the whole file.
\<close>

theorem validate_file_type_verdict:
  "(validate_file_type f (take sniff_size content) a = Inr t) =
     (supported_types (file_extension f) = Some t \<and> ft_extension t = file_extension f
      \<and> file_extension f \<in> set (allowed_of a) \<and> ft_matches t content)
   \<and> (\<exists>e. validate_file_type f (take sniff_size content) a = Inl e
        \<and> exc_class e = Some (FileE UnsupportedFileTypeError)) =
     (supported_types (file_extension f) = None \<or> file_extension f \<notin> set (allowed_of a))
   \<and> (\<exists>e. validate_file_type f (take sniff_size content) a = Inl e
        \<and> exc_class e = Some (FileE FileCorruptedError)) =
     (\<exists>t. supported_types (file_extension f) = Some t \<and> file_extension f \<in> set (allowed_of a)
        \<and> ft_matches t content = False)"
proof (cases "supported_types (file_extension f)")
  case None
  then show ?thesis by (simp add: validate_file_type_def)
next
  case (Some u)
  show ?thesis
    unfolding validate_file_type_Inr_iff
    using matches_sniffed [OF Some, of content] supported_types_extension [OF Some]
    by (auto simp: Some validate_file_type_def Let_def raise_app_def)
qed

theorem validate_file_type_verdict_witness:
  "(\<exists>e. validate_file_type ''a.exe'' (take sniff_size []) None = Inl e
      \<and> exc_class e = Some (FileE UnsupportedFileTypeError)) =
    (supported_types (file_extension ''a.exe'') = None
      \<or> file_extension ''a.exe'' \<notin> set (allowed_of None))"
  using validate_file_type_verdict [of "''a.exe''" "[]" None] by blast

end
