(* ===== verification/Storage.thy ===== *)
theory Storage
  imports FileValidation
begin

text \<open>
  \<open>app/services/storage.py\<close>: the on-disk storage tree.

  A path is the list of its components from the file-system root; the disk maps the paths of
  plain files to their bytes, directories are implicit and there are no symbolic links under
  the tree. Operating-system failures are arguments: \<open>fault k\<close> is the exception that step
  \<open>k\<close> of a stream raises (if any), \<open>os_refuses p\<close> says that unlinking \<open>p\<close> raises
  \<open>OSError\<close>. \<open>uuid4().hex\<close>, today's date and the SHA-256 function are arguments.

  The interface other components rely on is the locale \<open>blob_store\<close>: what a key holds after
  a write and after a removal, and the roll-back lemma that follows. It is interpreted on
  the disk operations below.
\<close>

section \<open>Interface: a store of blobs\<close>

locale blob_store =
  fixes look :: "'s \<Rightarrow> 'k \<Rightarrow> 'v option"
    and put :: "'k \<Rightarrow> 'v \<Rightarrow> 's \<Rightarrow> 's"
    and discard :: "'k \<Rightarrow> 's \<Rightarrow> 's"
  assumes look_put: "look (put k v s) = (look s)(k := Some v)"
    and look_discard: "look (discard k s) = (look s)(k := None)"
begin

lemma look_discard_all: "look (fold discard ks s) k = (if k \<in> set ks then None else look s k)"
  by (induction ks arbitrary: s) (auto simp: look_discard)

text \<open>Removing the keys that were written since \<open>s\<close>, all fresh in \<open>s\<close>, gives \<open>s\<close> back.\<close>

lemma roll_back:
  assumes "\<And>k. k \<in> set ks \<Longrightarrow> look s k = None"
    and "\<And>k. k \<notin> set ks \<Longrightarrow> look t k = look s k"
  shows "look (fold discard ks t) = look s"
  using assms by (auto simp: fun_eq_iff look_discard_all)

lemma discard_put_fresh: "look s k = None \<Longrightarrow> look (discard k (put k v s)) = look s"
  by (auto simp: look_put look_discard)

end

section \<open>The disk\<close>

type_synonym path = "string list"
type_synonym disk = "path \<Rightarrow> bytes option"

definition disk_write :: "path \<Rightarrow> bytes \<Rightarrow> disk \<Rightarrow> disk" where
  "disk_write p b d = d(p := Some b)"

definition disk_unlink :: "path \<Rightarrow> disk \<Rightarrow> disk" where
  "disk_unlink p d = d(p := None)"

interpretation disk: blob_store "\<lambda>d p. d p" disk_write disk_unlink
  by unfold_locales (auto simp: disk_write_def disk_unlink_def fun_eq_iff)

section \<open>Structure\<close>

datatype file_category = UPLOAD | PROCESSED | THUMBNAIL

fun category_root :: "settings \<Rightarrow> file_category \<Rightarrow> path" where
  "category_root s UPLOAD = uploads_dir s"
| "category_root s PROCESSED = processed_dir s"
| "category_root s THUMBNAIL = thumbnails_dir s"

section \<open>Path handling\<close>

record allocated =
  al_stored_name :: string
  al_relative_path :: string
  al_absolute_path :: path

type_synonym date = "nat \<times> nat \<times> nat"

definition pad2 :: "nat \<Rightarrow> string" where
  "pad2 n = (if n < 10 then CHR ''0'' # nat_str n else nat_str n)"

definition pad4 :: "nat \<Rightarrow> string" where
  "pad4 n = replicate (4 - length (nat_str n)) (CHR ''0'') @ nat_str n"

text \<open>\<open>Path(f"{today:%Y/%m/%d}") / stored_name\<close>, then \<open>category_root(category) / relative\<close>.\<close>

definition allocate ::
  "settings \<Rightarrow> string \<Rightarrow> date \<Rightarrow> file_category \<Rightarrow> string \<Rightarrow> allocated" where
  "allocate s hex today category extension =
     (let stored_name = generate_stored_name hex extension;
          (y, m, d) = today;
          relative = path_parts slash
            (pad4 y @ ''/'' @ pad2 m @ ''/'' @ pad2 d @ ''/'' @ stored_name)
      in \<lparr>al_stored_name = stored_name,
          al_relative_path = py_join ''/'' relative,
          al_absolute_path = category_root s category @ relative\<rparr>)"

text \<open>\<open>(base / relative_path).resolve()\<close>: an absolute right operand replaces the base, \<open>..\<close>
  removes the last component (and stays at the root).\<close>

fun resolve_parts :: "path \<Rightarrow> string list \<Rightarrow> path" where
  "resolve_parts acc [] = acc"
| "resolve_parts acc (x # xs) =
     (if x = ''..'' then resolve_parts (butlast acc) xs else resolve_parts (acc @ [x]) xs)"

definition join_resolve :: "path \<Rightarrow> string \<Rightarrow> path" where
  "join_resolve base rel =
     resolve_parts (if starts_with ''/'' rel then [] else base) (path_parts slash rel)"

definition storage_resolve ::
  "settings \<Rightarrow> file_category \<Rightarrow> string \<Rightarrow> (py_exc, path) result" where
  "storage_resolve s category relative_path =
     (let base = category_root s category;
          candidate = join_resolve base relative_path
      in if \<not> prefix base candidate
         then raise_app (FileE StorageError) ''Stored file path escapes the storage tree.''
         else Inr candidate)"

section \<open>I/O\<close>

text \<open>
  The reading loop of \<open>write_stream\<close>. \<open>written\<close> is what the file holds so far, \<open>source\<close>
  what is still to be read; \<open>source.read(chunk)\<close> returns the next \<open>chunk\<close> bytes, or fewer at
  the end. The loop ends at the first empty read.
\<close>

function write_loop ::
  "(nat \<Rightarrow> py_exc option) \<Rightarrow> nat \<Rightarrow> int \<Rightarrow> nat \<Rightarrow> bytes \<Rightarrow> bytes \<Rightarrow> (py_exc, bytes) result" where
  "write_loop fault chunk_size max_bytes k written source =
     (case fault k of
        Some e \<Rightarrow> Inl e
      | None \<Rightarrow>
          (let chunk = take chunk_size source in
           if chunk = [] then Inr written
           else if max_bytes < int (length written + length chunk)
             then raise_class (FileE FileTooLargeError)
           else write_loop fault chunk_size max_bytes (Suc k) (written @ chunk)
             (drop chunk_size source)))"
  by pat_completeness auto
termination
  by (relation "measure (\<lambda>(_, _, _, _, _, source). length source)") auto

declare write_loop.simps [simp del]

text \<open>The \<open>try\<close> block: open, the sniffed first chunk, then the loop.\<close>

definition write_body ::
  "(nat \<Rightarrow> py_exc option) \<Rightarrow> nat \<Rightarrow> int \<Rightarrow> bytes \<Rightarrow> bytes \<Rightarrow> (py_exc, bytes) result" where
  "write_body fault chunk_size max_bytes first_chunk source =
     (case fault 0 of
        Some e \<Rightarrow> Inl e
      | None \<Rightarrow>
          if first_chunk \<noteq> [] \<and> max_bytes < int (length first_chunk)
          then raise_class (FileE FileTooLargeError)
          else write_loop fault chunk_size max_bytes 1 first_chunk source)"

definition write_stream ::
  "(nat \<Rightarrow> py_exc option) \<Rightarrow> (bytes \<Rightarrow> string) \<Rightarrow> settings \<Rightarrow> bytes \<Rightarrow> path \<Rightarrow> int \<Rightarrow> bytes \<Rightarrow> disk
     \<Rightarrow> disk \<times> (py_exc, int \<times> string) result" where
  "write_stream fault sha256 s source destination max_bytes first_chunk d =
     (case write_body fault (s_upload_chunk_size s) max_bytes first_chunk source of
        Inl e \<Rightarrow> (disk_unlink destination d, Inl e)
      | Inr content \<Rightarrow>
          (disk_write destination content d, Inr (int (length content), sha256 content)))"

text \<open>
  \<open>import_file\<close>. \<open>move_fault\<close> is \<open>None\<close> when the move or copy succeeds, \<open>Some left\<close> when
  it raises \<open>OSError\<close> and leaves \<open>left\<close> at the destination.
\<close>

definition import_file ::
  "bytes option option \<Rightarrow> settings \<Rightarrow> string \<Rightarrow> date \<Rightarrow> path \<Rightarrow> file_category \<Rightarrow> string \<Rightarrow> bool \<Rightarrow> disk
     \<Rightarrow> disk \<times> (py_exc, allocated \<times> int) result" where
  "import_file move_fault s hex today source category extension move d =
     (case d source of
        None \<Rightarrow> (d, raise_app (FileE StorageError) (''Cannot import missing file: '' @ last_part source))
      | Some content \<Rightarrow>
          (let a = allocate s hex today category extension;
               dest = al_absolute_path a
           in case move_fault of
                Some left \<Rightarrow>
                  (d(dest := left), raise_app (FileE StorageError) ''Failed to store the processed file.'')
              | None \<Rightarrow>
                  (let d' = (if move then disk_write dest content (disk_unlink source d)
                             else disk_write dest content d)
                   in (d', Inr (a, int (length content))))))"

definition storage_open_read ::
  "settings \<Rightarrow> disk \<Rightarrow> file_category \<Rightarrow> string \<Rightarrow> (py_exc, bytes) result" where
  "storage_open_read s d category relative_path =
     rbind (storage_resolve s category relative_path) (\<lambda>p.
       case d p of None \<Rightarrow> Inl (OtherError ''FileNotFoundError'' (py_join ''/'' p))
       | Some b \<Rightarrow> Inr b)"

definition storage_delete ::
  "(path \<Rightarrow> bool) \<Rightarrow> settings \<Rightarrow> file_category \<Rightarrow> string \<Rightarrow> disk \<Rightarrow> disk \<times> bool" where
  "storage_delete os_refuses s category relative_path d =
     (case storage_resolve s category relative_path of
        Inl _ \<Rightarrow> (d, False)
      | Inr p \<Rightarrow> if os_refuses p then (d, False) else (disk_unlink p d, True))"

section \<open>Lemmas: paths\<close>

lemma split_on_join:
  "ps \<noteq> [] \<Longrightarrow> (\<And>p. p \<in> set ps \<Longrightarrow> c \<notin> set p) \<Longrightarrow> split_on c (py_join [c] ps) = ps"
proof (induction "[c]" ps rule: py_join.induct)
  case (2 x)
  then show ?case by (simp add: split_on_no_mem)
next
  case (3 x y ys)
  have "split_on c (p @ c # t) = p # split_on c t" if "c \<notin> set p" for p t
    using that by (induction p) auto
  with 3 show ?case by simp
qed simp

definition good_part :: "string \<Rightarrow> bool" where
  "good_part p \<longleftrightarrow> p \<noteq> [] \<and> p \<noteq> [dot] \<and> p \<noteq> ''..'' \<and> slash \<notin> set p"

lemma path_parts_join:
  assumes "\<And>p. p \<in> set ps \<Longrightarrow> good_part p"
  shows "path_parts slash (py_join ''/'' ps) = ps"
proof (cases "ps = []")
  case True
  then show ?thesis by (simp add: path_parts_def)
next
  case False
  then have "split_on slash (py_join ''/'' ps) = ps"
    using assms by (intro split_on_join) (auto simp: good_part_def)
  moreover have "filter (\<lambda>x. x \<noteq> [] \<and> x \<noteq> [dot]) ps = ps"
    using assms by (intro filter_True) (auto simp: good_part_def)
  ultimately show ?thesis by (simp add: path_parts_def)
qed

lemma resolve_parts_plain:
  "(\<And>p. p \<in> set ps \<Longrightarrow> p \<noteq> ''..'') \<Longrightarrow> resolve_parts acc ps = acc @ ps"
  by (induction ps arbitrary: acc) auto

lemma starts_with_slash_join:
  assumes "\<And>p. p \<in> set ps \<Longrightarrow> good_part p"
  shows "\<not> starts_with ''/'' (py_join ''/'' ps)"
proof (cases ps)
  case (Cons p qs)
  with assms have "good_part p" by simp
  then obtain a t where "p = a # t" "a \<noteq> slash" by (cases p) (auto simp: good_part_def)
  with Cons show ?thesis by (cases qs) auto
qed simp

lemma storage_resolve_join:
  assumes "\<And>p. p \<in> set ps \<Longrightarrow> good_part p"
  shows "storage_resolve s c (py_join ''/'' ps) = Inr (category_root s c @ ps)"
proof -
  have "join_resolve (category_root s c) (py_join ''/'' ps) = category_root s c @ ps"
    using assms
    by (simp add: join_resolve_def starts_with_slash_join path_parts_join resolve_parts_plain good_part_def)
  then show ?thesis by (simp add: storage_resolve_def)
qed

lemma storage_resolve_prefix:
  "storage_resolve s c r = Inr p \<Longrightarrow> prefix (category_root s c) p"
  by (auto simp: storage_resolve_def Let_def raise_defs split: if_splits)

lemma category_root_disjoint:
  assumes "prefix (category_root s c) p" "prefix (category_root s c') p"
  shows "c = c'"
proof -
  have "take (Suc (length (s_storage_root s))) p = category_root s x" if "prefix (category_root s x) p" for x
    using that by (cases x) (auto simp: prefix_def uploads_dir_def processed_dir_def thumbnails_dir_def)
  with assms have "category_root s c = category_root s c'" by metis
  then show ?thesis
    by (cases c; cases c') (simp_all add: uploads_dir_def processed_dir_def thumbnails_dir_def)
qed

section \<open>Lemmas: streaming\<close>

lemma write_loop_ok:
  assumes "0 < chunk" and "\<And>i. k \<le> i \<Longrightarrow> fault i = None"
    and "int (length written + length source) \<le> max_bytes"
  shows "write_loop fault chunk max_bytes k written source = Inr (written @ source)"
  using assms
proof (induction fault chunk max_bytes k written source rule: write_loop.induct)
  case (1 fault chunk max_bytes k written source)
  let ?c = "take chunk source"
  show ?case
  proof (cases "?c = []")
    case True
    with "1.prems" show ?thesis by (subst write_loop.simps) simp
  next
    case False
    have "length ?c + length (drop chunk source) = length source" by simp
    with "1.prems" False
    have "write_loop fault chunk max_bytes (Suc k) (written @ ?c) (drop chunk source)
        = Inr ((written @ ?c) @ drop chunk source)"
      by (intro "1.IH") auto
    with "1.prems" False show ?thesis by (simp add: write_loop.simps [of fault chunk max_bytes k written source])
  qed
qed

lemma write_loop_too_large:
  assumes "0 < chunk" and "\<And>i. k \<le> i \<Longrightarrow> fault i = None"
    and "int (length written) \<le> max_bytes"
    and "max_bytes < int (length written + length source)"
  shows "write_loop fault chunk max_bytes k written source = raise_class (FileE FileTooLargeError)"
  using assms
proof (induction fault chunk max_bytes k written source rule: write_loop.induct)
  case (1 fault chunk max_bytes k written source)
  let ?c = "take chunk source"
  from "1.prems" have ne: "?c \<noteq> []" by auto
  show ?case
  proof (cases "max_bytes < int (length written + length ?c)")
    case True
    with "1.prems" ne show ?thesis by (simp add: write_loop.simps [of fault chunk max_bytes k written source])
  next
    case False
    have "length ?c + length (drop chunk source) = length source" by simp
    with "1.prems" ne False
    have "write_loop fault chunk max_bytes (Suc k) (written @ ?c) (drop chunk source)
        = raise_class (FileE FileTooLargeError)"
      by (intro "1.IH") auto
    with "1.prems" ne False show ?thesis by (simp add: write_loop.simps [of fault chunk max_bytes k written source])
  qed
qed

text \<open>Whatever fails, a returned content is the whole source and respects the cap.\<close>

lemma write_loop_Inr:
  assumes "0 < chunk" and "write_loop fault chunk max_bytes k written source = Inr content"
    and "int (length written) \<le> max_bytes \<or> written = []"
  shows "content = written @ source" and "int (length content) \<le> max_bytes \<or> content = []"
  using assms
proof (induction fault chunk max_bytes k written source rule: write_loop.induct)
  case (1 fault chunk max_bytes k written source)
  let ?c = "take chunk source"
  {
    case 1
    then show ?case
      using "1.IH"(1) by (auto simp: write_loop.simps [of fault chunk max_bytes k written source] Let_def split: option.splits if_splits)
  next
    case 2
    then show ?case
      using "1.IH"(2) by (auto simp: write_loop.simps [of fault chunk max_bytes k written source] Let_def split: option.splits if_splits)
  }
qed

section \<open>Lemmas: allocation\<close>

definition hex_name :: "string \<Rightarrow> bool" where
  "hex_name hex \<longleftrightarrow> hex \<noteq> [] \<and> slash \<notin> set hex \<and> dot \<notin> set hex"

lemma good_part_digits: "good_part (replicate k (CHR ''0'') @ nat_str n)"
proof -
  have "\<not> is_digit slash" "\<not> is_digit dot" by (simp_all add: is_digit_def char_code_def)
  then have "slash \<notin> set (nat_str n)" "dot \<notin> set (nat_str n)"
    using nat_str_digits [of _ n] by blast+
  then show ?thesis by (cases k) (auto simp: good_part_def)
qed

lemma good_part_date: "good_part (pad4 n)" "good_part (pad2 n)"
  using good_part_digits [of "4 - length (nat_str n)" n] good_part_digits [of 1 n]
    good_part_digits [of 0 n] by (simp_all add: pad4_def pad2_def)

lemma good_part_stored_name:
  assumes hex: "hex_name hex" and ext: "slash \<notin> set ext"
  shows "good_part (generate_stored_name hex ext)"
proof -
  have "slash \<notin> set (lstrip_by (\<lambda>c. c = dot) ext)"
    using ext by (auto simp: lstrip_by_def dest: set_dropWhileD)
  then have "slash \<notin> set (py_lower (lstrip_by (\<lambda>c. c = dot) ext))"
    by (intro not_mem_py_lower) (simp_all add: is_lower_def char_code_def)
  with hex show ?thesis
    by (auto simp: hex_name_def good_part_def generate_stored_name_def Let_def append_eq_Cons_conv)
qed

lemma allocate_eq:
  assumes "hex_name hex" and "slash \<notin> set ext"
  shows "allocate s hex (y, m, d) c ext =
    \<lparr>al_stored_name = generate_stored_name hex ext,
     al_relative_path = py_join ''/'' [pad4 y, pad2 m, pad2 d, generate_stored_name hex ext],
     al_absolute_path = category_root s c @ [pad4 y, pad2 m, pad2 d, generate_stored_name hex ext]\<rparr>"
proof -
  let ?name = "generate_stored_name hex ext"
  have "path_parts slash (py_join ''/'' [pad4 y, pad2 m, pad2 d, ?name])
      = [pad4 y, pad2 m, pad2 d, ?name]"
    using good_part_date good_part_stored_name [OF assms] by (intro path_parts_join) auto
  then show ?thesis by (simp add: allocate_def Let_def)
qed

lemma allocate_resolve:
  assumes "hex_name hex" and "slash \<notin> set ext"
  shows "storage_resolve s c (al_relative_path (allocate s hex t c ext))
    = Inr (al_absolute_path (allocate s hex t c ext))"
proof -
  obtain y m d where t: "t = (y, m, d)" by (cases t)
  have "storage_resolve s c (py_join ''/'' [pad4 y, pad2 m, pad2 d, generate_stored_name hex ext])
      = Inr (category_root s c @ [pad4 y, pad2 m, pad2 d, generate_stored_name hex ext])"
    using good_part_date good_part_stored_name [OF assms] by (intro storage_resolve_join) auto
  then show ?thesis unfolding t allocate_eq [OF assms] by simp
qed

text \<open>A stream without failures, by cases on the total size.\<close>

lemma write_stream_no_fault:
  assumes "0 < s_upload_chunk_size s"
  shows "write_stream (\<lambda>_. None) sha s source dest max_bytes first d =
    (if int (length (first @ source)) \<le> max_bytes \<or> first @ source = []
     then (disk_write dest (first @ source) d, Inr (int (length (first @ source)), sha (first @ source)))
     else (disk_unlink dest d, raise_class (FileE FileTooLargeError)))"
proof -
  let ?loop = "write_loop (\<lambda>_. None) (s_upload_chunk_size s) max_bytes 1 first source"
  consider (fits) "int (length (first @ source)) \<le> max_bytes"
    | (empty) "max_bytes < 0" "first @ source = []"
    | (head) "max_bytes < int (length (first @ source))" "first @ source \<noteq> []"
        "first \<noteq> []" "max_bytes < int (length first)"
    | (tail) "max_bytes < int (length (first @ source))" "int (length first) \<le> max_bytes"
    | (neg) "max_bytes < 0" "first = []" "source \<noteq> []"
    by fastforce
  then show ?thesis
  proof cases
    case fits
    with assms have "?loop = Inr (first @ source)" by (intro write_loop_ok) auto
    with fits show ?thesis by (simp add: write_stream_def write_body_def)
  next
    case empty
    have "?loop = Inr []" using empty by (subst write_loop.simps) simp
    with empty show ?thesis by (simp add: write_stream_def write_body_def)
  next
    case head
    then show ?thesis by (simp add: write_stream_def write_body_def raise_class_def)
  next
    case tail
    with assms have "?loop = raise_class (FileE FileTooLargeError)"
      by (intro write_loop_too_large) auto
    with tail show ?thesis by (auto simp: write_stream_def write_body_def raise_class_def)
  next
    case neg
    then have "?loop = raise_class (FileE FileTooLargeError)"
      using assms by (subst write_loop.simps) simp
    with neg show ?thesis by (simp add: write_stream_def write_body_def raise_class_def)
  qed
qed

lemma write_stream_frame:
  "p \<noteq> dest \<Longrightarrow> fst (write_stream fault sha s source dest max_bytes first d) p = d p"
  by (auto simp: write_stream_def disk_unlink_def disk_write_def split: sum.split)

lemma write_stream_error:
  "snd (write_stream fault sha s source dest max_bytes first d) = Inl e
     \<Longrightarrow> fst (write_stream fault sha s source dest max_bytes first d) = disk_unlink dest d"
  by (auto simp: write_stream_def split: sum.splits)

lemma write_stream_Inr:
  assumes "0 < s_upload_chunk_size s"
    and "snd (write_stream fault sha s source dest max_bytes first d) = Inr (n, h)"
  shows "n = int (length (first @ source))" and "h = sha (first @ source)"
    and "n \<le> max_bytes \<or> n = 0"
    and "fst (write_stream fault sha s source dest max_bytes first d)
      = disk_write dest (first @ source) d"
proof -
  obtain content where c: "write_loop fault (s_upload_chunk_size s) max_bytes 1 first source = Inr content"
    and f: "int (length first) \<le> max_bytes \<or> first = []"
    and n: "n = int (length content)" "h = sha content"
    and d: "fst (write_stream fault sha s source dest max_bytes first d) = disk_write dest content d"
    using assms(2)
    by (auto simp: write_stream_def write_body_def raise_class_def split: sum.splits option.splits if_splits)
  from write_loop_Inr [OF assms(1) c f] n d
  show "n = int (length (first @ source))" "h = sha (first @ source)" "n \<le> max_bytes \<or> n = 0"
    "fst (write_stream fault sha s source dest max_bytes first d) = disk_write dest (first @ source) d"
    by auto
qed

section \<open>Properties\<close>

text \<open>
  A stored path cannot leave its branch of the storage tree and the branches do not
  overlap: whatever the \<open>relative_path\<close> (absolute, with \<open>..\<close>, empty), a successful
  resolution lies under the category's root, and two rows of different categories never
  resolve to the same file.
\<close>

theorem storage_resolve_confined:
  assumes "storage_resolve s c r = Inr p" and "storage_resolve s c' r' = Inr p'"
  shows "prefix (category_root s c) p \<and> (p = p' \<longrightarrow> c = c')"
  using assms by (metis category_root_disjoint storage_resolve_prefix)

theorem storage_resolve_confined_witness:
  "prefix (category_root default_settings UPLOAD)
     (category_root default_settings UPLOAD @ [''a''])
   \<and> storage_resolve default_settings UPLOAD ''../processed/a''
     = raise_app (FileE StorageError) ''Stored file path escapes the storage tree.''"
proof -
  have "storage_resolve default_settings UPLOAD ''a'' = Inr (category_root default_settings UPLOAD @ [''a''])"
    using storage_resolve_join [of "[''a'']" default_settings UPLOAD] by (simp add: good_part_def)
  from storage_resolve_confined [OF this this]
  have "prefix (category_root default_settings UPLOAD) (category_root default_settings UPLOAD @ [''a''])"
    by blast
  moreover have "storage_resolve default_settings UPLOAD ''../processed/a''
     = raise_app (FileE StorageError) ''Stored file path escapes the storage tree.''"
    by (simp add: storage_resolve_def join_resolve_def path_parts_def uploads_dir_def
        default_settings_def)
  ultimately show ?thesis by blast
qed

text \<open>
  Allocation and resolution agree: the relative path that \<open>allocate\<close> records for a new
  file resolves, later and for the same category, to exactly the absolute path the bytes were
  written to (for a UUID name and an extension without separators or dots).
\<close>

theorem allocate_resolve_roundtrip:
  assumes "hex_name hex" and "slash \<notin> set ext"
  shows "storage_resolve s c (al_relative_path (allocate s hex t c ext))
    = Inr (al_absolute_path (allocate s hex t c ext))"
  using assms by (rule allocate_resolve)

theorem allocate_resolve_roundtrip_witness:
  "storage_resolve default_settings UPLOAD
     (al_relative_path (allocate default_settings ''0f3c'' (2026, 7, 9) UPLOAD ''pdf''))
   = Inr (al_absolute_path (allocate default_settings ''0f3c'' (2026, 7, 9) UPLOAD ''pdf''))"
  using allocate_resolve_roundtrip [of "''0f3c''" "''pdf''" default_settings UPLOAD "(2026, 7, 9)"]
  by (simp add: hex_name_def)

text \<open>
  C3: Streaming an upload is all or nothing. Whatever read, write or open fails and at
  whatever chunk, the destination holds afterwards either the complete content (sniffed head
  and remaining stream, byte for byte, with its true length and its SHA-256, within the cap)
  or nothing, and no other file changes; without failures the size cap alone decides which.
\<close>

theorem write_stream_all_or_nothing:
  assumes chunk: "0 < s_upload_chunk_size s"
  shows "(case snd (write_stream fault sha s source dest max_bytes first d) of
       Inr (n, h) \<Rightarrow> n = int (length (first @ source)) \<and> h = sha (first @ source)
         \<and> n \<le> max max_bytes 0
         \<and> fst (write_stream fault sha s source dest max_bytes first d) = d(dest := Some (first @ source))
     | Inl e \<Rightarrow> fst (write_stream fault sha s source dest max_bytes first d) = d(dest := None))
    \<and> ((\<exists>e. snd (write_stream (\<lambda>_. None) sha s source dest max_bytes first d) = Inl e)
        = (first @ source \<noteq> [] \<and> max_bytes < int (length (first @ source))))"
proof -
  have "\<exists>e. raise_class c = Inl e" for c by (simp add: raise_class_def)
  then have "(\<exists>e. snd (write_stream (\<lambda>_. None) sha s source dest max_bytes first d) = Inl e)
        = (first @ source \<noteq> [] \<and> max_bytes < int (length (first @ source)))"
    by (auto simp: write_stream_no_fault [OF chunk])
  moreover have "n \<le> max max_bytes 0" if "n \<le> max_bytes \<or> n = 0" for n
    using that by auto
  ultimately show ?thesis
    using write_stream_Inr [OF chunk, of fault sha source dest max_bytes first d]
      write_stream_error [of fault sha s source dest max_bytes first d]
    by (auto simp: disk_write_def disk_unlink_def split: sum.split)
qed

theorem write_stream_all_or_nothing_witness:
  "(\<exists>e. snd (write_stream (\<lambda>_. None) (\<lambda>_. []) default_settings [1, 2] [''f''] 2 [0] Map.empty) = Inl e)"
  using write_stream_all_or_nothing [of default_settings "\<lambda>_. None" "\<lambda>_. []" "[1, 2]" "[''f'']" 2 "[0]" Map.empty]
  by (simp add: default_settings_def)

end
