(* ===== verification/Actions.thy ===== *)
theory Actions
  imports Storage
begin

text \<open>
  Effects of a worker: an action takes the state and returns the new state with a value or a
  raised exception (the state keeps what was done before the exception). \<open>act_each\<close> is a
  \<open>for\<close> loop over actions. \<open>act_inv\<close> says that an action keeps a predicate of the state.

  The second section has the double-precision arithmetic of the progress computation
  \<open>int(k / n * ceiling)\<close>: quotient and product rounded to 53 significant bits, ties to even.
\<close>

section \<open>Actions\<close>

type_synonym ('s, 'a) action = "'s \<Rightarrow> 's \<times> (py_exc, 'a) result"

definition areturn :: "'a \<Rightarrow> ('s, 'a) action" where
  "areturn a s = (s, Inr a)"

definition araise :: "py_exc \<Rightarrow> ('s, 'a) action" where
  "araise e s = (s, Inl e)"

definition aresult :: "(py_exc, 'a) result \<Rightarrow> ('s, 'a) action" where
  "aresult r s = (s, r)"

definition abind :: "('s, 'a) action \<Rightarrow> ('a \<Rightarrow> ('s, 'b) action) \<Rightarrow> ('s, 'b) action" where
  "abind m f s = (case m s of (s', Inl e) \<Rightarrow> (s', Inl e) | (s', Inr a) \<Rightarrow> f a s')"

lemma abind_simps [simp, result_simps]:
  "abind (areturn a) f = f a"
  "abind (araise e) f = araise e"
  "abind (aresult (Inr a)) f = f a"
  "abind (aresult (Inl e)) f = araise e"
  by (auto simp: abind_def areturn_def araise_def aresult_def fun_eq_iff)

lemma abind_Pair:
  "m s = (s', Inr a) \<Longrightarrow> abind m f s = f a s'"
  "m s = (s', Inl e) \<Longrightarrow> abind m f s = (s', Inl e)"
  by (simp_all add: abind_def)

lemma abind_read:
  "abind (\<lambda>s. (s, r s)) f s = (case r s of Inl e \<Rightarrow> (s, Inl e) | Inr a \<Rightarrow> f a s)"
  "abind (aresult q) f s = (case q of Inl e \<Rightarrow> (s, Inl e) | Inr a \<Rightarrow> f a s)"
  by (auto simp: abind_def aresult_def split: sum.split)

lemma abind_Inr_E:
  assumes "abind m f s = (t, Inr b)"
  obtains s' a where "m s = (s', Inr a)" "f a s' = (t, Inr b)"
  using assms by (auto simp: abind_def split: prod.splits sum.splits)

lemma abind_Inl_E:
  assumes "abind m f s = (t, Inl e)"
  obtains (left) "m s = (t, Inl e)"
    | (right) s' a where "m s = (s', Inr a)" "f a s' = (t, Inl e)"
  using assms by (auto simp: abind_def split: prod.splits sum.splits)

lemma abind_assoc: "abind (abind m f) g = abind m (\<lambda>a. abind (f a) g)"
  by (auto simp: abind_def fun_eq_iff split: prod.split sum.split)

fun act_each :: "('a \<Rightarrow> ('s, 'b) action) \<Rightarrow> 'a list \<Rightarrow> ('s, 'b list) action" where
  "act_each f [] = areturn []"
| "act_each f (x # xs) = abind (f x) (\<lambda>y. abind (act_each f xs) (\<lambda>ys. areturn (y # ys)))"

lemma act_each_cong [fundef_cong]:
  "xs = ys \<Longrightarrow> (\<And>x. x \<in> set ys \<Longrightarrow> f x = g x) \<Longrightarrow> act_each f xs = act_each g ys"
  by (induction ys arbitrary: xs) auto

lemma act_each_pure:
  "(\<And>x. x \<in> set xs \<Longrightarrow> f x = aresult (g x)) \<Longrightarrow> act_each f xs = aresult (rmap g xs)"
proof (induction xs)
  case Nil
  then show ?case by (simp add: aresult_def areturn_def fun_eq_iff)
next
  case (Cons x xs)
  then have "act_each f xs = aresult (rmap g xs)" "f x = aresult (g x)" by simp_all
  then show ?case
    by (cases "g x"; cases "rmap g xs") (auto simp: abind_def aresult_def areturn_def araise_def fun_eq_iff)
qed

section \<open>Invariants of actions\<close>

definition act_inv :: "('s \<Rightarrow> bool) \<Rightarrow> ('s, 'a) action \<Rightarrow> bool" where
  "act_inv P m \<longleftrightarrow> (\<forall>s. P s \<longrightarrow> P (fst (m s)))"

lemma act_invI: "(\<And>s. P s \<Longrightarrow> P (fst (m s))) \<Longrightarrow> act_inv P m"
  by (simp add: act_inv_def)

lemma act_invD: "act_inv P m \<Longrightarrow> P s \<Longrightarrow> P (fst (m s))"
  by (simp add: act_inv_def)

lemma act_inv_pure [intro, simp]:
  "act_inv P (areturn a)" "act_inv P (araise e)" "act_inv P (aresult r)"
  by (simp_all add: act_inv_def areturn_def araise_def aresult_def)

lemma act_inv_bind [intro]:
  assumes "act_inv P m" and "\<And>a. act_inv P (f a)"
  shows "act_inv P (abind m f)"
proof (rule act_invI)
  fix s assume "P s"
  with assms(1) have "P (fst (m s))" by (rule act_invD)
  with assms(2) show "P (fst (abind m f s))"
    by (auto simp: abind_def act_inv_def split: prod.splits sum.splits)
qed

lemma act_inv_each [intro]:
  "(\<And>x. x \<in> set xs \<Longrightarrow> act_inv P (f x)) \<Longrightarrow> act_inv P (act_each f xs)"
  by (induction xs) auto

lemma act_inv_if [intro]: "act_inv P m \<Longrightarrow> act_inv P n \<Longrightarrow> act_inv P (if b then m else n)"
  by simp

section \<open>Double-precision progress\<close>

fun bit_len :: "nat \<Rightarrow> nat" where
  "bit_len n = (if n = 0 then 0 else Suc (bit_len (n div 2)))"

declare bit_len.simps [simp del]

text \<open>\<open>round_div a b\<close> is a / b rounded to the nearest integer, ties to even.\<close>

definition round_div :: "nat \<Rightarrow> nat \<Rightarrow> nat" where
  "round_div a b =
     (let q = a div b; r = a mod b
      in if 2 * r < b \<or> (2 * r = b \<and> even q) then q else q + 1)"

text \<open>\<open>float_quot a b = (m, k)\<close> stands for the double m / 2^k next to a / b.\<close>

definition float_quot :: "nat \<Rightarrow> nat \<Rightarrow> nat \<times> nat" where
  "float_quot a b =
     (let k0 = (52 + bit_len b) - bit_len a;
          k = (if a * 2 ^ k0 < b * 2 ^ 52 then k0 + 1 else k0)
      in (round_div (a * 2 ^ k) b, k))"

text \<open>The integer part of the double product of m / 2^k and c.\<close>

definition float_mul_int :: "nat \<times> nat \<Rightarrow> nat \<Rightarrow> nat" where
  "float_mul_int x c =
     (case x of (m, k) \<Rightarrow>
       (let p = m * c; sh = bit_len p - 53
        in (round_div p (2 ^ sh) * 2 ^ sh) div 2 ^ k))"

definition progress_at :: "nat \<Rightarrow> nat \<Rightarrow> nat \<Rightarrow> int" where
  "progress_at k n ceiling = int (float_mul_int (float_quot k n) ceiling)"

lemma round_div_exact: "0 < b \<Longrightarrow> round_div (q * b) b = q"
  by (simp add: round_div_def)

lemma round_div_le: "0 < b \<Longrightarrow> a \<le> q * b \<Longrightarrow> round_div a b \<le> q"
proof -
  assume b: "0 < b" and a: "a \<le> q * b"
  then have d: "a div b \<le> q" by (metis div_le_mono nonzero_mult_div_cancel_right less_numeral_extra(3))
  show ?thesis
  proof (cases "a div b = q")
    case True
    have "a mod b = a - q * b" using True by (metis minus_div_mult_eq_mod)
    with a have "a mod b = 0" by simp
    with b True show ?thesis by (simp add: round_div_def Let_def)
  next
    case False
    with d show ?thesis by (simp add: round_div_def Let_def)
  qed
qed

lemma bit_len_le: "n < 2 ^ k \<Longrightarrow> bit_len n \<le> k"
proof (induction n arbitrary: k rule: bit_len.induct)
  case (1 n)
  show ?case
  proof (cases "n = 0")
    case True
    then show ?thesis by (simp add: bit_len.simps)
  next
    case False
    with "1.prems" obtain j where k: "k = Suc j" by (cases k) auto
    with "1.prems" have "n div 2 < 2 ^ j" by (simp add: less_mult_imp_div_less)
    with "1.IH" [OF False] have "bit_len (n div 2) \<le> j" by blast
    with False k show ?thesis by (simp add: bit_len.simps [of n])
  qed
qed

text \<open>Progress never exceeds its ceiling, whatever the roundings.\<close>

lemma progress_at_le:
  assumes "0 < n" "k \<le> n" "c \<le> 100"
  shows "progress_at k n c \<le> int c"
proof -
  obtain m e where q: "float_quot k n = (m, e)" by (cases "float_quot k n")
  have m: "m \<le> 2 ^ e"
    using q assms by (auto simp: float_quot_def Let_def intro!: round_div_le split: if_splits)
  show ?thesis
  proof (cases "bit_len (m * c) - 53 \<le> e")
    case True
    let ?sh = "bit_len (m * c) - 53"
    have e: "(2::nat) ^ e = 2 ^ (e - ?sh) * 2 ^ ?sh"
      using True by (simp flip: power_add)
    have "m * c \<le> 2 ^ e * c" using m by simp
    also have "2 ^ e * c = (2 ^ (e - ?sh) * c) * 2 ^ ?sh" unfolding e by simp
    finally have "round_div (m * c) (2 ^ ?sh) \<le> 2 ^ (e - ?sh) * c" by (intro round_div_le) auto
    then have "round_div (m * c) (2 ^ ?sh) * 2 ^ ?sh \<le> 2 ^ e * c"
      unfolding e by (metis mult.assoc mult.commute mult_le_mono1)
    then have "(round_div (m * c) (2 ^ ?sh) * 2 ^ ?sh) div 2 ^ e \<le> (2 ^ e * c) div 2 ^ e"
      by (rule div_le_mono)
    then show ?thesis by (simp add: progress_at_def q float_mul_int_def Let_def)
  next
    case False
    have "m * c < 2 ^ e * 2 ^ 7"
    proof -
      have "m * c \<le> 2 ^ e * 100" using m assms(3) by (rule mult_le_mono)
      also have "(2::nat) ^ e * 100 < 2 ^ e * 2 ^ 7" by simp
      finally show ?thesis .
    qed
    then have "bit_len (m * c) \<le> e + 7" by (intro bit_len_le) (simp add: power_add)
    with False show ?thesis by linarith
  qed
qed

lemma progress_at_nonneg: "0 \<le> progress_at k n c"
  by (simp add: progress_at_def)

end
