(* ===== verification/Models.thy ===== *)
theory Models
  imports Storage
begin

text \<open>
  The rows the application keeps (\<open>app/models\<close>, \<open>app/constants\<close>) and the queries on them
  (\<open>app/repositories\<close>).

  A table is the list of its rows in insertion order; a UUID is a number; a point in time is
  an integer (microseconds), so \<open>timedelta(hours=h)\<close> is \<open>hours h\<close>. A query is the filter its
  \<open>where\<close> clause describes; \<open>scalar_one_or_none\<close> on a primary key is \<open>find_row\<close>. JSON
  values (a job's options) are the datatype \<open>json\<close>, a float being its \<open>repr\<close> text.

  \<open>row_table\<close> is the interface of a table with a primary key; it is interpreted on the
  tables of stored files and jobs.
\<close>

section \<open>Interface: a table with a primary key\<close>

locale row_table =
  fixes key :: "'r \<Rightarrow> nat"
begin

lemma find_key_Some:
  "find (\<lambda>r. key r = i) tbl = Some r \<Longrightarrow> r \<in> set tbl \<and> key r = i"
  by (induction tbl) (auto split: if_splits)

lemma find_key_mem:
  "distinct (map key tbl) \<Longrightarrow> r \<in> set tbl \<Longrightarrow> find (\<lambda>x. key x = key r) tbl = Some r"
  by (induction tbl) (auto simp: image_iff)

lemma find_key_None: "find (\<lambda>r. key r = i) tbl = None \<longleftrightarrow> i \<notin> key ` set tbl"
  by (auto simp: find_None_iff)

lemma key_filter_mem:
  "distinct (map key tbl) \<Longrightarrow> r \<in> set tbl \<Longrightarrow> key r \<in> key ` set (filter P tbl) \<longleftrightarrow> P r"
  by (auto simp: distinct_map dest: inj_onD)

lemma key_map_upd:
  "(\<And>r. key (f r) = key r) \<Longrightarrow> map key (map (\<lambda>r. if P r then f r else r) tbl) = map key tbl"
  by (induction tbl) auto

lemma find_upd_same:
  assumes "\<And>r. key (f r) = key r" and "find (\<lambda>r. key r = i) tbl = Some r"
  shows "find (\<lambda>r. key r = i) (map (\<lambda>r. if key r = i then f r else r) tbl) = Some (f r)"
  using assms(2) by (induction tbl) (auto simp: assms(1) split: if_splits)

lemma find_upd_other:
  assumes "\<And>r. key (f r) = key r" and "i \<noteq> j"
  shows "find (\<lambda>r. key r = j) (map (\<lambda>r. if key r = i then f r else r) tbl)
    = find (\<lambda>r. key r = j) tbl"
  using assms(2) by (induction tbl) (auto simp: assms(1))

lemma find_append_fresh:
  "i \<notin> key ` set tbl \<Longrightarrow> find (\<lambda>r. key r = i) (tbl @ new) = find (\<lambda>r. key r = i) new"
  by (induction tbl) auto

end

section \<open>Constants\<close>

datatype file_status = F_ACTIVE | F_EXPIRED | F_DELETED

datatype job_status =
  PENDING | QUEUED | PROCESSING | COMPLETED | FAILED | CANCELLED | EXPIRED

fun is_terminal :: "job_status \<Rightarrow> bool" where
  "is_terminal COMPLETED = True"
| "is_terminal FAILED = True"
| "is_terminal CANCELLED = True"
| "is_terminal EXPIRED = True"
| "is_terminal _ = False"

datatype file_role = INPUT | OUTPUT

datatype user_status = U_ACTIVE | U_SUSPENDED | U_INACTIVE

fun job_status_value :: "job_status \<Rightarrow> string" where
  "job_status_value PENDING = ''pending''"
| "job_status_value QUEUED = ''queued''"
| "job_status_value PROCESSING = ''processing''"
| "job_status_value COMPLETED = ''completed''"
| "job_status_value FAILED = ''failed''"
| "job_status_value CANCELLED = ''cancelled''"
| "job_status_value EXPIRED = ''expired''"

definition hours :: "int \<Rightarrow> int" where
  "hours h = h * 3600 * 1000000"

definition minutes :: "int \<Rightarrow> int" where
  "minutes m = m * 60 * 1000000"

definition days :: "int \<Rightarrow> int" where
  "days d = d * 86400 * 1000000"

section \<open>Rows\<close>

datatype json =
  JNull | JBool bool | JInt int | JFloat string | JStr string | JList "json list" | JObj "(string \<times> json) list"

record stored_file =
  sf_id :: nat
  sf_original_name :: string
  sf_stored_name :: string
  sf_category :: file_category
  sf_relative_path :: string
  sf_media_type :: string
  sf_extension :: string
  sf_size_bytes :: int
  sf_checksum :: "string option"
  sf_status :: file_status
  sf_user_id :: "nat option"
  sf_expires_at :: "int option"
  sf_created_at :: int

record job =
  j_id :: nat
  j_tool :: string
  j_status :: job_status
  j_progress :: int
  j_options :: "(string \<times> json) list"
  j_celery_task_id :: "string option"
  j_user_id :: "nat option"
  j_error_code :: "error_code option"
  j_error_message :: "string option"
  j_started_at :: "int option"
  j_finished_at :: "int option"
  j_expires_at :: "int option"
  j_created_at :: int
  j_visitor_id :: "string option"
  j_session_id :: "string option"
  j_device :: "string option"
  j_browser :: "string option"
  j_os :: "string option"
  j_country :: "string option"
  j_source :: "string option"
  j_is_returning :: bool

record job_file =
  jf_job_id :: nat
  jf_file_id :: nat
  jf_role :: file_role
  jf_position :: nat

record page_visit =
  pv_visitor_id :: string
  pv_session_id :: string
  pv_path :: string
  pv_referrer :: "string option"
  pv_device :: "string option"
  pv_browser :: "string option"
  pv_os :: "string option"
  pv_country :: "string option"
  pv_source :: "string option"
  pv_is_returning :: bool
  pv_created_at :: int

record db =
  db_files :: "stored_file list"
  db_jobs :: "job list"
  db_links :: "job_file list"
  db_visits :: "page_visit list"

interpretation file_row: row_table sf_id .

interpretation job_row: row_table j_id .

section \<open>File queries\<close>

definition file_get_active :: "nat \<Rightarrow> nat option \<Rightarrow> stored_file list \<Rightarrow> stored_file option" where
  "file_get_active file_id user_id tbl =
     find (\<lambda>f. sf_id f = file_id)
       (filter (\<lambda>f. sf_status f = F_ACTIVE \<and> sf_user_id f = user_id) tbl)"

definition file_list_for_user :: "nat \<Rightarrow> nat \<Rightarrow> nat \<Rightarrow> stored_file list \<Rightarrow> stored_file list" where
  "file_list_for_user user_id limit offset tbl =
     take limit (drop offset
       (sort_key (\<lambda>f. - sf_created_at f)
         (filter (\<lambda>f. sf_user_id f = Some user_id \<and> sf_status f = F_ACTIVE) tbl)))"

definition file_get_many :: "nat list \<Rightarrow> stored_file list \<Rightarrow> stored_file list" where
  "file_get_many ids tbl =
     (let rows = filter (\<lambda>f. sf_id f \<in> set ids) tbl;
          by_id = (\<lambda>i. find (\<lambda>f. sf_id f = i) (rev rows))
      in map (\<lambda>i. the (by_id i)) (filter (\<lambda>i. by_id i \<noteq> None) ids))"

definition file_list_expired :: "int \<Rightarrow> stored_file list \<Rightarrow> stored_file list" where
  "file_list_expired now tbl =
     filter (\<lambda>f. sf_status f = F_ACTIVE
       \<and> (case sf_expires_at f of None \<Rightarrow> False | Some t \<Rightarrow> t < now)) tbl"

section \<open>Job queries and transitions\<close>

definition job_get_with_files ::
  "nat \<Rightarrow> nat option \<Rightarrow> bool \<Rightarrow> job list \<Rightarrow> job option" where
  "job_get_with_files job_id user_id any_owner tbl =
     find (\<lambda>j. j_id j = job_id) (filter (\<lambda>j. any_owner \<or> j_user_id j = user_id) tbl)"

definition job_list_for_user :: "nat \<Rightarrow> nat \<Rightarrow> nat \<Rightarrow> job list \<Rightarrow> job list" where
  "job_list_for_user user_id limit offset tbl =
     take limit (drop offset
       (sort_key (\<lambda>j. - j_created_at j) (filter (\<lambda>j. j_user_id j = Some user_id) tbl)))"

text \<open>The links of a job as \<open>ProcessingJob.files\<close> loads them: by position.\<close>

definition job_files :: "nat \<Rightarrow> job_file list \<Rightarrow> job_file list" where
  "job_files job_id links = sort_key jf_position (filter (\<lambda>l. jf_job_id l = job_id) links)"

definition set_progress :: "int \<Rightarrow> job \<Rightarrow> job" where
  "set_progress p j = j\<lparr>j_progress := max 0 (min 100 p)\<rparr>"

definition mark_processing :: "int \<Rightarrow> job \<Rightarrow> job" where
  "mark_processing now j =
     j\<lparr>j_status := PROCESSING, j_started_at := Some now, j_progress := 0\<rparr>"

definition mark_completed :: "int \<Rightarrow> job \<Rightarrow> job" where
  "mark_completed now j =
     j\<lparr>j_status := COMPLETED, j_progress := 100, j_finished_at := Some now\<rparr>"

definition mark_failed :: "int \<Rightarrow> error_code \<Rightarrow> string \<Rightarrow> job \<Rightarrow> job" where
  "mark_failed now code message j =
     j\<lparr>j_status := FAILED, j_error_code := Some code,
       j_error_message := Some (take 2000 message), j_finished_at := Some now\<rparr>"

definition job_list_expired :: "int \<Rightarrow> job list \<Rightarrow> job list" where
  "job_list_expired now tbl =
     filter (\<lambda>j. j_status j \<in> set [COMPLETED, FAILED, CANCELLED]
       \<and> (case j_expires_at j of None \<Rightarrow> False | Some t \<Rightarrow> t < now)) tbl"

definition upd_job :: "nat \<Rightarrow> (job \<Rightarrow> job) \<Rightarrow> job list \<Rightarrow> job list" where
  "upd_job i f tbl = map (\<lambda>j. if j_id j = i then f j else j) tbl"

definition upd_file :: "nat \<Rightarrow> (stored_file \<Rightarrow> stored_file) \<Rightarrow> stored_file list \<Rightarrow> stored_file list" where
  "upd_file i f tbl = map (\<lambda>r. if sf_id r = i then f r else r) tbl"

section \<open>Public views\<close>

record job_error_view =
  je_code :: error_code
  je_message :: string

text \<open>\<open>JobInfo.from_model\<close>: what the status API shows of a job; the files it lists are the
  linked rows, inputs and outputs each in link order.\<close>

record job_info =
  ji_id :: nat
  ji_tool :: string
  ji_status :: job_status
  ji_progress :: int
  ji_created_at :: int
  ji_started_at :: "int option"
  ji_finished_at :: "int option"
  ji_expires_at :: "int option"
  ji_error :: "job_error_view option"
  ji_input_files :: "stored_file list"
  ji_output_files :: "stored_file list"

definition linked_files :: "file_role \<Rightarrow> nat \<Rightarrow> db \<Rightarrow> stored_file list" where
  "linked_files role i d =
     List.map_filter (\<lambda>l. find (\<lambda>f. sf_id f = jf_file_id l) (db_files d))
       (filter (\<lambda>l. jf_role l = role) (job_files i (db_links d)))"

definition job_info_of :: "db \<Rightarrow> job \<Rightarrow> job_info" where
  "job_info_of d j =
     \<lparr>ji_id = j_id j, ji_tool = j_tool j, ji_status = j_status j, ji_progress = j_progress j,
      ji_created_at = j_created_at j, ji_started_at = j_started_at j,
      ji_finished_at = j_finished_at j, ji_expires_at = j_expires_at j,
      ji_error = (case j_error_code j of None \<Rightarrow> None
        | Some c \<Rightarrow> Some \<lparr>je_code = c,
            je_message = (case j_error_message j of None \<Rightarrow> [] | Some m \<Rightarrow> m)\<rparr>),
      ji_input_files = linked_files INPUT (j_id j) d,
      ji_output_files = linked_files OUTPUT (j_id j) d\<rparr>"

section \<open>Lemmas\<close>

lemma file_get_active_SomeD:
  assumes "file_get_active i u tbl = Some f"
  shows "f \<in> set tbl" "sf_id f = i" "sf_status f = F_ACTIVE" "sf_user_id f = u"
  using file_row.find_key_Some [OF assms [unfolded file_get_active_def]] by auto

lemma file_get_active_mem:
  assumes "distinct (map sf_id tbl)" "f \<in> set tbl" "sf_status f = F_ACTIVE"
  shows "file_get_active (sf_id f) (sf_user_id f) tbl = Some f"
  unfolding file_get_active_def
  using assms by (intro file_row.find_key_mem distinct_map_filter) auto

lemma file_get_active_retired:
  assumes "\<And>f. sf_status (g f) \<noteq> F_ACTIVE"
  shows "file_get_active i u (upd_file i g tbl) = None"
  unfolding file_get_active_def upd_file_def by (induction tbl) (simp_all add: assms)

lemma file_get_active_upd_other:
  assumes "\<And>f. sf_id (g f) = sf_id f" and "k \<noteq> i"
  shows "file_get_active k u (upd_file i g tbl) = file_get_active k u tbl"
  unfolding file_get_active_def upd_file_def using assms by (induction tbl) auto

lemma job_transitions_id [simp]:
  "j_id (set_progress p j) = j_id j" "j_id (mark_processing now j) = j_id j"
  "j_id (mark_completed now j) = j_id j" "j_id (mark_failed now c m j) = j_id j"
  by (simp_all add: set_progress_def mark_processing_def mark_completed_def mark_failed_def)

lemmas job_transition_defs =
  set_progress_def mark_processing_def mark_completed_def mark_failed_def

lemma find_upd_job:
  "(\<And>j. j_id (f j) = j_id j) \<Longrightarrow> find (\<lambda>j. j_id j = i) tbl = Some j
    \<Longrightarrow> find (\<lambda>j. j_id j = i) (upd_job i f tbl) = Some (f j)"
  unfolding upd_job_def by (rule job_row.find_upd_same)

lemma find_upd_job_other:
  "(\<And>j. j_id (f j) = j_id j) \<Longrightarrow> i \<noteq> k
    \<Longrightarrow> find (\<lambda>j. j_id j = k) (upd_job i f tbl) = find (\<lambda>j. j_id j = k) tbl"
  unfolding upd_job_def by (rule job_row.find_upd_other)

lemma ids_upd_job: "(\<And>j. j_id (f j) = j_id j) \<Longrightarrow> map j_id (upd_job i f tbl) = map j_id tbl"
  by (simp add: upd_job_def)

end
