(* ===== verification/Upload.thy ===== *)
theory Upload
  imports Models
begin

text \<open>
  \<open>app/services/upload.py\<close>: a batch of uploads, all or none.

  The state is the disk and the database session (what is committed and what the session
  sees). One upload carries what the outside supplies for it: name and content, the UUIDs
  drawn for it, and the failures that occur while it is read (\<open>up_read_fault\<close> for the
  sniffing read, \<open>up_fault\<close> for the stream) or when its row is flushed.
\<close>

section \<open>State\<close>

record session =
  ss_committed :: db
  ss_current :: db

definition session_commit :: "session \<Rightarrow> session" where
  "session_commit ss = ss\<lparr>ss_committed := ss_current ss\<rparr>"

definition session_rollback :: "session \<Rightarrow> session" where
  "session_rollback ss = ss\<lparr>ss_current := ss_committed ss\<rparr>"

record upload =
  up_filename :: "string option"
  up_content :: bytes
  up_hex :: string
  up_id :: nat
  up_read_fault :: "py_exc option"
  up_fault :: "nat \<Rightarrow> py_exc option"
  up_flush_fault :: "py_exc option"

text \<open>The surroundings of one request.\<close>

record upload_env =
  ue_settings :: settings
  ue_nfkc :: "string \<Rightarrow> string"
  ue_sha256 :: "bytes \<Rightarrow> string"
  ue_today :: date
  ue_now :: int
  ue_os_refuses :: "path \<Rightarrow> bool"
  ue_commit_fault :: "py_exc option"

type_synonym upload_state = "disk \<times> session"

section \<open>Storing one file\<close>

definition too_large_message :: "plan_limits \<Rightarrow> bool \<Rightarrow> string \<Rightarrow> string" where
  "too_large_message limits total_is_binding name =
     (if total_is_binding then
        ''Adding '' @ [CHR 0x27] @ name @ [CHR 0x27] @ '' exceeds the ''
          @ int_str (pl_max_total_size_mb limits) @ '' MB combined upload limit of the ''
          @ pl_label limits @ '' plan.''
      else
        [CHR 0x27] @ name @ [CHR 0x27] @ '' exceeds the '' @ int_str (pl_max_file_size_mb limits)
          @ '' MB per-file limit of the '' @ pl_label limits @ '' plan.'')"

definition upload_name :: "upload_env \<Rightarrow> upload \<Rightarrow> string" where
  "upload_name env u =
     sanitize_filename (ue_nfkc env)
       (case up_filename u of None \<Rightarrow> ''file'' | Some n \<Rightarrow> py_or n ''file'') ''file''"

definition new_upload_row ::
  "upload_env \<Rightarrow> upload \<Rightarrow> nat option \<Rightarrow> int \<Rightarrow> file_type_spec \<Rightarrow> allocated \<Rightarrow> int \<Rightarrow> string \<Rightarrow> stored_file" where
  "new_upload_row env u user_id expires_at spec a n_bytes checksum =
     \<lparr>sf_id = up_id u, sf_original_name = upload_name env u,
      sf_stored_name = al_stored_name a, sf_category = UPLOAD,
      sf_relative_path = al_relative_path a, sf_media_type = ft_media_type spec,
      sf_extension = ft_extension spec, sf_size_bytes = n_bytes, sf_checksum = Some checksum,
      sf_status = F_ACTIVE, sf_user_id = user_id, sf_expires_at = Some expires_at,
      sf_created_at = ue_now env\<rparr>"

definition store_one ::
  "upload_env \<Rightarrow> string list option \<Rightarrow> int \<Rightarrow> nat option \<Rightarrow> int \<Rightarrow> plan_limits \<Rightarrow> bool \<Rightarrow> upload
     \<Rightarrow> upload_state \<Rightarrow> upload_state \<times> (py_exc, stored_file) result" where
  "store_one env allowed expires_at user_id max_bytes limits total_is_binding u st =
     (case st of (d, ss) \<Rightarrow>
       (case up_read_fault u of
          Some e \<Rightarrow> (st, Inl e)
        | None \<Rightarrow>
          (let original_name = upload_name env u;
               head = take sniff_size (up_content u)
           in case validate_file_type original_name head allowed of
                Inl e \<Rightarrow> (st, Inl e)
              | Inr spec \<Rightarrow>
                (let a = allocate (ue_settings env) (up_hex u) (ue_today env) UPLOAD (ft_extension spec)
                 in case write_stream (up_fault u) (ue_sha256 env) (ue_settings env)
                        (drop sniff_size (up_content u)) (al_absolute_path a) max_bytes head d of
                      (d', Inl e) \<Rightarrow>
                        ((d', ss),
                         if exc_class e = Some (FileE FileTooLargeError)
                         then raise_app (FileE FileTooLargeError)
                                (too_large_message limits total_is_binding original_name)
                         else Inl e)
                    | (d', Inr (n_bytes, checksum)) \<Rightarrow>
                        (case up_flush_fault u of
                           Some e \<Rightarrow> ((d', ss), Inl e)
                         | None \<Rightarrow>
                           (let r = new_upload_row env u user_id expires_at spec a n_bytes checksum;
                                cur = ss_current ss
                            in ((d', ss\<lparr>ss_current := cur\<lparr>db_files := db_files cur @ [r]\<rparr>\<rparr>), Inr r)))))))"

section \<open>The batch\<close>

text \<open>The \<open>for\<close> loop: the rows stored so far and, when a file fails, its exception.\<close>

fun upload_loop ::
  "upload_env \<Rightarrow> string list option \<Rightarrow> int \<Rightarrow> nat option \<Rightarrow> plan_limits \<Rightarrow> int \<Rightarrow> stored_file list
     \<Rightarrow> upload list \<Rightarrow> upload_state \<Rightarrow> upload_state \<times> stored_file list \<times> py_exc option" where
  "upload_loop env allowed expires_at user_id limits remaining_total stored [] st = (st, stored, None)"
| "upload_loop env allowed expires_at user_id limits remaining_total stored (u # us) st =
     (case store_one env allowed expires_at user_id
             (min (max_file_size_bytes limits) remaining_total) limits
             (remaining_total < max_file_size_bytes limits) u st of
        (st', Inl e) \<Rightarrow> (st', stored, Some e)
      | (st', Inr r) \<Rightarrow>
          upload_loop env allowed expires_at user_id limits (remaining_total - sf_size_bytes r)
            (stored @ [r]) us st')"

text \<open>The \<open>except\<close> clause: roll back and delete what the batch has written so far.\<close>

definition upload_cleanup ::
  "upload_env \<Rightarrow> stored_file list \<Rightarrow> upload_state \<Rightarrow> upload_state" where
  "upload_cleanup env stored st =
     (case st of (d, ss) \<Rightarrow>
       (fold (\<lambda>r d. fst (storage_delete (ue_os_refuses env) (ue_settings env)
                (sf_category r) (sf_relative_path r) d)) stored d,
        session_rollback ss))"

definition upload_files ::
  "upload_env \<Rightarrow> string list option \<Rightarrow> nat option \<Rightarrow> string option \<Rightarrow> upload list
     \<Rightarrow> upload_state \<Rightarrow> upload_state \<times> (py_exc, stored_file list) result" where
  "upload_files env allowed user_id plan uploads st =
     (let limits = limits_for_plan plan
      in case validate_file_count (ue_settings env) (int (length uploads)) (Some (pl_max_files limits)) of
           Inl e \<Rightarrow> (st, Inl e)
         | Inr _ \<Rightarrow>
           (let expires_at = ue_now env + hours (s_retention_hours (ue_settings env))
            in case upload_loop env allowed expires_at user_id limits
                      (max_total_size_bytes limits) [] uploads st of
                 (st', stored, Some e) \<Rightarrow> (upload_cleanup env stored st', Inl e)
               | (st', stored, None) \<Rightarrow>
                   (case ue_commit_fault env of
                      Some e \<Rightarrow> (upload_cleanup env stored st', Inl e)
                    | None \<Rightarrow> ((fst st', session_commit (snd st')), Inr stored))))"

section \<open>What one stored file is\<close>

definition upload_path :: "upload_env \<Rightarrow> stored_file \<Rightarrow> path" where
  "upload_path env r =
     (case storage_resolve (ue_settings env) (sf_category r) (sf_relative_path r) of
        Inr p \<Rightarrow> p | Inl _ \<Rightarrow> [])"

text \<open>The location an upload would get, by its UUID and extension.\<close>

definition target_path :: "upload_env \<Rightarrow> upload \<Rightarrow> string \<Rightarrow> path" where
  "target_path env u ext =
     al_absolute_path (allocate (ue_settings env) (up_hex u) (ue_today env) UPLOAD ext)"

text \<open>Fresh UUIDs: well-formed, pairwise different, and naming nothing on the disk yet.\<close>

definition fresh_uploads :: "upload_env \<Rightarrow> disk \<Rightarrow> upload list \<Rightarrow> bool" where
  "fresh_uploads env d us \<longleftrightarrow>
     (\<forall>u \<in> set us. hex_name (up_hex u)
        \<and> (\<forall>ext \<in> set (map ft_extension supported_specs). d (target_path env u ext) = None))
     \<and> distinct (map up_hex us)"

definition row_matches :: "upload_env \<Rightarrow> nat option \<Rightarrow> string list option \<Rightarrow> int \<Rightarrow> upload \<Rightarrow> stored_file \<Rightarrow> bool" where
  "row_matches env user_id allowed expires_at u r \<longleftrightarrow>
     sf_id r = up_id u \<and> sf_user_id r = user_id \<and> sf_status r = F_ACTIVE
     \<and> sf_expires_at r = Some expires_at
     \<and> sf_size_bytes r = int (length (up_content u))
     \<and> sf_checksum r = Some (ue_sha256 env (up_content u))
     \<and> sf_extension r \<in> set (allowed_of allowed)
     \<and> (\<exists>t. supported_types (sf_extension r) = Some t \<and> ft_matches t (up_content u)
          \<and> sf_media_type r = ft_media_type t)
     \<and> upload_path env r = target_path env u (sf_extension r)
     \<and> storage_resolve (ue_settings env) (sf_category r) (sf_relative_path r) = Inr (upload_path env r)"

lemma supported_extension_no_slash:
  "supported_types e = Some t \<Longrightarrow> slash \<notin> set e \<and> dot \<notin> set e"
  unfolding supported_types_def
  by (drule map_of_SomeD) (auto simp: supported_specs_def type_spec_def)

lemma store_one_Inr:
  assumes "store_one env allowed expires_at user_id max_bytes limits b u (d, ss) = (st', Inr r)"
    and hex: "hex_name (up_hex u)" and chunk: "0 < s_upload_chunk_size (ue_settings env)"
  shows "row_matches env user_id allowed expires_at u r"
    and "sf_size_bytes r \<le> max max_bytes 0"
    and "st' = (d(upload_path env r := Some (up_content u)),
           ss\<lparr>ss_current := (ss_current ss)\<lparr>db_files := db_files (ss_current ss) @ [r]\<rparr>\<rparr>)"
    and "up_flush_fault u = None"
proof -
  let ?head = "take sniff_size (up_content u)" and ?rest = "drop sniff_size (up_content u)"
  let ?name = "upload_name env u" and ?s = "ue_settings env"
  from assms(1) obtain spec where v: "validate_file_type ?name ?head allowed = Inr spec"
    and rf: "up_read_fault u = None"
    by (auto simp: store_one_def Let_def split: option.splits sum.splits)
  let ?a = "allocate ?s (up_hex u) (ue_today env) UPLOAD (ft_extension spec)"
  let ?w = "write_stream (up_fault u) (ue_sha256 env) ?s ?rest (al_absolute_path ?a) max_bytes ?head d"
  from assms(1) v rf obtain d' n h where w: "?w = (d', Inr (n, h))"
    and ff: "up_flush_fault u = None"
    and r: "r = new_upload_row env u user_id expires_at spec ?a n h"
    and st: "st' = (d', ss\<lparr>ss_current := (ss_current ss)\<lparr>db_files := db_files (ss_current ss) @ [r]\<rparr>\<rparr>)"
    by (auto simp: store_one_def Let_def raise_app_def split: option.splits sum.splits prod.splits if_splits)
  from v have t: "supported_types (file_extension ?name) = Some spec"
    and al: "file_extension ?name \<in> set (allowed_of allowed)" and m: "ft_matches spec ?head"
    by (auto simp: validate_file_type_Inr_iff)
  have e: "ft_extension spec = file_extension ?name" by (rule supported_types_extension [OF t])
  have slash: "slash \<notin> set (ft_extension spec)"
    using supported_extension_no_slash [OF t] e by simp
  note res = allocate_resolve [OF hex slash, of ?s UPLOAD "ue_today env"]
  from w have w2: "snd ?w = Inr (n, h)" and w1: "fst ?w = d'" by simp_all
  note wr = write_stream_Inr [OF chunk w2, unfolded w1]
  have path: "upload_path env r = al_absolute_path ?a"
    using res by (simp add: upload_path_def r new_upload_row_def)
  show "row_matches env user_id allowed expires_at u r"
    using wr(1,2) t al m e res path matches_sniffed [OF t, of "up_content u"]
    by (auto simp: row_matches_def r new_upload_row_def target_path_def)
  show "sf_size_bytes r \<le> max max_bytes 0"
    using wr(3) by (auto simp: r new_upload_row_def)
  show "st' = (d(upload_path env r := Some (up_content u)),
      ss\<lparr>ss_current := (ss_current ss)\<lparr>db_files := db_files (ss_current ss) @ [r]\<rparr>\<rparr>)"
    using st wr(4) path by (simp add: disk_write_def)
  show "up_flush_fault u = None" by (rule ff)
qed

text \<open>A valid file that fits and meets no failure is stored.\<close>

lemma store_one_accepts:
  assumes "validate_file_type (upload_name env u) (take sniff_size (up_content u)) allowed = Inr spec"
    and "up_read_fault u = None" "up_fault u = (\<lambda>_. None)" "up_flush_fault u = None"
    and "int (length (up_content u)) \<le> max_bytes" and "0 < s_upload_chunk_size (ue_settings env)"
  shows "\<exists>st' r. store_one env allowed ex uid max_bytes limits b u st = (st', Inr r)"
  using assms by (cases st) (simp add: store_one_def Let_def write_stream_no_fault)

text \<open>A failing file leaves nothing of its own behind, unless only the flush failed.\<close>

lemma store_one_Inl:
  assumes "store_one env allowed expires_at user_id max_bytes limits b u (d, ss) = (st', Inl e)"
    and fresh: "\<forall>ext \<in> set (map ft_extension supported_specs). d (target_path env u ext) = None"
    and ff: "up_flush_fault u = None"
  shows "st' = (d, ss)"
proof -
  have keep: "disk_unlink (target_path env u (ft_extension spec)) d = d"
    if "validate_file_type f h a = Inr spec" for f h a spec
  proof -
    from that have t: "supported_types (file_extension f) = Some spec"
      by (simp add: validate_file_type_Inr_iff)
    have "ft_extension spec \<in> set (map ft_extension supported_specs)"
      using supported_types_mem [OF t] supported_types_extension [OF t] by simp
    with fresh show ?thesis by (auto simp: disk_unlink_def)
  qed
  from assms(1) ff show ?thesis
    using write_stream_error [of "up_fault u" "ue_sha256 env" "ue_settings env"
        "drop sniff_size (up_content u)" _ max_bytes "take sniff_size (up_content u)" d] keep
    by (auto simp: store_one_def Let_def target_path_def split: option.splits sum.splits prod.splits)
      (metis fst_conv snd_conv)+
qed

section \<open>Distinct UUIDs give distinct files\<close>

lemma takeWhile_stored_name:
  "hex_name hex \<Longrightarrow> takeWhile (\<lambda>c. c \<noteq> dot) (generate_stored_name hex ext) = hex"
  unfolding hex_name_def generate_stored_name_def Let_def
  by (auto simp: takeWhile_neq_append takeWhile_eq_all_conv)

lemma target_path_inj:
  assumes "target_path env u ext = target_path env u' ext'"
    and "hex_name (up_hex u)" "hex_name (up_hex u')" "slash \<notin> set ext" "slash \<notin> set ext'"
  shows "up_hex u = up_hex u'"
proof -
  obtain y m d where t: "ue_today env = (y, m, d)" by (cases "ue_today env")
  have "generate_stored_name (up_hex u) ext = generate_stored_name (up_hex u') ext'"
    using assms by (simp add: target_path_def t allocate_eq)
  then show ?thesis using takeWhile_stored_name assms(2,3) by metis
qed

lemma row_matches_extension:
  "row_matches env uid allowed ex u r \<Longrightarrow>
     slash \<notin> set (sf_extension r) \<and> sf_extension r \<in> set (map ft_extension supported_specs)"
  unfolding row_matches_def
  using supported_types_mem supported_extension_no_slash by blast

lemma fresh_uploads_step:
  assumes f: "fresh_uploads env d (u # us)" and r: "row_matches env uid allowed ex u r"
  shows "fresh_uploads env (d(upload_path env r := Some b)) us" and "d (upload_path env r) = None"
proof -
  have p: "upload_path env r = target_path env u (sf_extension r)"
    using r by (simp add: row_matches_def)
  note ext = row_matches_extension [OF r]
  show "d (upload_path env r) = None" using f ext unfolding p fresh_uploads_def by auto
  have "target_path env u' e \<noteq> upload_path env r"
    if "u' \<in> set us" "e \<in> set (map ft_extension supported_specs)" for u' e
  proof
    assume eq: "target_path env u' e = upload_path env r"
    have "slash \<notin> set e" using that(2) by (auto simp: supported_specs_def type_spec_def)
    with eq p ext f that(1) have "up_hex u' = up_hex u"
      by (intro target_path_inj [of env u' e u "sf_extension r"]) (auto simp: fresh_uploads_def)
    with f that(1) show False by (auto simp: fresh_uploads_def) (metis imageI)
  qed
  then show "fresh_uploads env (d(upload_path env r := Some b)) us"
    using f by (auto simp: fresh_uploads_def)
qed

section \<open>The loop\<close>

text \<open>
  What the loop has done when it ends, normally or not: \<open>new\<close> are the rows of the files stored
  in this run of the loop, one per upload from the front.
\<close>

definition stored_by ::
  "upload_env \<Rightarrow> nat option \<Rightarrow> string list option \<Rightarrow> int \<Rightarrow> disk \<Rightarrow> disk \<Rightarrow> upload list
     \<Rightarrow> stored_file list \<Rightarrow> bool" where
  "stored_by env uid allowed ex d d' us new \<longleftrightarrow>
     list_all2 (row_matches env uid allowed ex) (take (length new) us) new
     \<and> length new \<le> length us
     \<and> (\<forall>k. k \<notin> upload_path env ` set new \<longrightarrow> d' k = d k)
     \<and> (\<forall>r \<in> set new. d (upload_path env r) = None)
     \<and> (\<forall>(u, r) \<in> set (zip us new). d' (upload_path env r) = Some (up_content u))"

lemma stored_by_Nil: "stored_by env uid allowed ex d d us []"
  by (simp add: stored_by_def)

lemma stored_by_Cons:
  assumes r: "row_matches env uid allowed ex u r" "d (upload_path env r) = None"
    and s: "stored_by env uid allowed ex (d(upload_path env r := Some (up_content u))) d' us new"
  shows "stored_by env uid allowed ex d d' (u # us) (r # new)"
proof -
  have fresh: "upload_path env x \<noteq> upload_path env r" if "x \<in> set new" for x
    using s that by (fastforce simp: stored_by_def split: if_splits)
  then have "upload_path env r \<notin> upload_path env ` set new" by (metis imageE)
  with s have "d' (upload_path env r) = Some (up_content u)"
    unfolding stored_by_def by (metis fun_upd_same)
  moreover have "d (upload_path env x) = None" if "x \<in> set new" for x
    using s that fresh [OF that] by (auto simp: stored_by_def)
  moreover have "d' k = d k" if "k \<noteq> upload_path env r" "k \<notin> upload_path env ` set new" for k
    using s that by (auto simp: stored_by_def)
  ultimately show ?thesis using s r by (auto simp: stored_by_def)
qed

lemma upload_loop_result:
  assumes "upload_loop env allowed ex uid limits remaining stored us (d, ss) = ((d', ss'), stored', res)"
    and "fresh_uploads env d us" and "\<forall>u \<in> set us. up_flush_fault u = None"
    and "0 < s_upload_chunk_size (ue_settings env)"
  shows "\<exists>new. stored' = stored @ new \<and> stored_by env uid allowed ex d d' us new
    \<and> ss' = ss\<lparr>ss_current := (ss_current ss)\<lparr>db_files := db_files (ss_current ss) @ new\<rparr>\<rparr>
    \<and> (res = None \<longrightarrow> length new = length us)"
  using assms
proof (induction us arbitrary: remaining stored d ss)
  case Nil
  then show ?case by (auto intro!: exI [of _ "[]"] stored_by_Nil)
next
  case (Cons u us)
  let ?one = "store_one env allowed ex uid (min (max_file_size_bytes limits) remaining) limits
    (remaining < max_file_size_bytes limits) u (d, ss)"
  obtain st r where one: "?one = (st, r)" by (cases ?one)
  have hex: "hex_name (up_hex u)" using Cons.prems(2) by (simp add: fresh_uploads_def)
  show ?case
  proof (cases r)
    case (Inl e)
    have "st = (d, ss)"
      using store_one_Inl [OF one [unfolded Inl]] Cons.prems(2,3) by (simp add: fresh_uploads_def)
    with Cons.prems(1) one Inl show ?thesis
      by (auto intro!: exI [of _ "[]"] stored_by_Nil)
  next
    case (Inr row)
    note S = store_one_Inr [OF one [unfolded Inr] hex Cons.prems(4)]
    let ?d1 = "d(upload_path env row := Some (up_content u))"
    let ?ss1 = "ss\<lparr>ss_current := (ss_current ss)\<lparr>db_files := db_files (ss_current ss) @ [row]\<rparr>\<rparr>"
    from Cons.prems(1) one Inr S(3)
    have "upload_loop env allowed ex uid limits (remaining - sf_size_bytes row) (stored @ [row]) us
        (?d1, ?ss1) = ((d', ss'), stored', res)" by simp
    moreover have "\<forall>u \<in> set us. up_flush_fault u = None" using Cons.prems(3) by simp
    ultimately have "\<exists>new. stored' = (stored @ [row]) @ new
        \<and> stored_by env uid allowed ex ?d1 d' us new
        \<and> ss' = ?ss1\<lparr>ss_current := (ss_current ?ss1)\<lparr>db_files := db_files (ss_current ?ss1) @ new\<rparr>\<rparr>
        \<and> (res = None \<longrightarrow> length new = length us)"
      using Cons.IH [OF _ fresh_uploads_step(1) [OF Cons.prems(2) S(1)] _ Cons.prems(4)] by blast
    then obtain new where new: "stored' = (stored @ [row]) @ new"
      "stored_by env uid allowed ex ?d1 d' us new"
      "ss' = ?ss1\<lparr>ss_current := (ss_current ?ss1)\<lparr>db_files := db_files (ss_current ?ss1) @ new\<rparr>\<rparr>"
      "res = None \<longrightarrow> length new = length us" by blast
    then show ?thesis
      using stored_by_Cons [OF S(1) fresh_uploads_step(2) [OF Cons.prems(2) S(1)] new(2)]
      by (intro exI [of _ "row # new"]) simp
  qed
qed

text \<open>Deleting what the batch wrote gives the disk back.\<close>

lemma upload_cleanup_restores:
  assumes s: "stored_by env uid allowed ex d d' us new" and "\<forall>p. \<not> ue_os_refuses env p"
  shows "fst (upload_cleanup env new (d', ss)) = d"
proof -
  have m: "\<exists>u. row_matches env uid allowed ex u r" if "r \<in> set new" for r
    using s that
    by (auto simp: stored_by_def list_all2_conv_all_nth in_set_conv_nth) (metis less_le_trans)
  have del: "fst (storage_delete (ue_os_refuses env) (ue_settings env) (sf_category r)
      (sf_relative_path r) x) = disk_unlink (upload_path env r) x" if "r \<in> set new" for r x
    using m [OF that] assms(2) by (auto simp: storage_delete_def row_matches_def)
  have "fold (\<lambda>r d. fst (storage_delete (ue_os_refuses env) (ue_settings env) (sf_category r)
      (sf_relative_path r) d)) new x = fold disk_unlink (map (upload_path env) new) x" for x
    using del by (induction new arbitrary: x) auto
  moreover have "fold disk_unlink (map (upload_path env) new) d' = d"
    using s by (intro disk.roll_back) (auto simp: stored_by_def)
  ultimately show ?thesis by (simp add: upload_cleanup_def)
qed

text \<open>The budget: no file above the per-file cap, the batch within the combined cap.\<close>

lemma upload_loop_budget:
  assumes "upload_loop env allowed ex uid limits remaining stored us (d, ss) = (st', stored', res)"
    and "\<forall>u \<in> set us. hex_name (up_hex u)" and "0 < s_upload_chunk_size (ue_settings env)"
    and "0 \<le> remaining" and "0 \<le> max_file_size_bytes limits"
  shows "\<exists>new. stored' = stored @ new
    \<and> (\<forall>r \<in> set new. 0 \<le> sf_size_bytes r \<and> sf_size_bytes r \<le> max_file_size_bytes limits)
    \<and> sum_list (map sf_size_bytes new) \<le> remaining"
  using assms
proof (induction us arbitrary: remaining stored d ss)
  case Nil
  then show ?case by (auto intro!: exI [of _ "[]"])
next
  case (Cons u us)
  let ?one = "store_one env allowed ex uid (min (max_file_size_bytes limits) remaining) limits
    (remaining < max_file_size_bytes limits) u (d, ss)"
  obtain st r where one: "?one = (st, r)" by (cases ?one)
  show ?case
  proof (cases r)
    case (Inl e)
    with Cons.prems one show ?thesis by (auto intro!: exI [of _ "[]"])
  next
    case (Inr row)
    have "hex_name (up_hex u)" using Cons.prems(2) by simp
    note S = store_one_Inr [OF one [unfolded Inr] this Cons.prems(3)]
    have sz: "0 \<le> sf_size_bytes row" "sf_size_bytes row \<le> max_file_size_bytes limits"
      "sf_size_bytes row \<le> remaining"
      using S(1,2) Cons.prems(4,5) by (auto simp: row_matches_def)
    obtain d1 ss1 where st: "st = (d1, ss1)" by (cases st)
    have loop: "upload_loop env allowed ex uid limits (remaining - sf_size_bytes row) (stored @ [row]) us
        (d1, ss1) = (st', stored', res)" using Cons.prems(1) one Inr st by simp
    have "\<exists>new. stored' = (stored @ [row]) @ new
      \<and> (\<forall>r \<in> set new. 0 \<le> sf_size_bytes r \<and> sf_size_bytes r \<le> max_file_size_bytes limits)
      \<and> sum_list (map sf_size_bytes new) \<le> remaining - sf_size_bytes row"
      using Cons.prems(2,3,5) sz by (intro Cons.IH [OF loop]) auto
    then obtain new where "stored' = stored @ row # new"
      "\<forall>r \<in> set new. 0 \<le> sf_size_bytes r \<and> sf_size_bytes r \<le> max_file_size_bytes limits"
      "sum_list (map sf_size_bytes new) \<le> remaining - sf_size_bytes row" by auto
    with sz show ?thesis by (intro exI [of _ "row # new"]) auto
  qed
qed

text \<open>The three ways \<open>upload_files\<close> can end.\<close>

lemma upload_files_cases:
  assumes "upload_files env allowed uid plan us st = (st', res)"
  obtains (count) e where "res = Inl e" "st' = st"
  | (failed) mid stored e r where "res = Inl e" "st' = upload_cleanup env stored mid"
      "upload_loop env allowed (ue_now env + hours (s_retention_hours (ue_settings env))) uid
         (limits_for_plan plan) (max_total_size_bytes (limits_for_plan plan)) [] us st = (mid, stored, r)"
  | (stored) mid stored where "res = Inr stored" "st' = (fst mid, session_commit (snd mid))"
      "int (length us) \<le> pl_max_files (limits_for_plan plan)" "us \<noteq> []"
      "upload_loop env allowed (ue_now env + hours (s_retention_hours (ue_settings env))) uid
         (limits_for_plan plan) (max_total_size_bytes (limits_for_plan plan)) [] us st = (mid, stored, None)"
proof (cases "validate_file_count (ue_settings env) (int (length us))
    (Some (pl_max_files (limits_for_plan plan)))")
  case (Inl e)
  with assms show thesis by (intro count [of e]) (auto simp: upload_files_def Let_def)
next
  case (Inr u)
  have "int (length us) \<le> pl_max_files (limits_for_plan plan)" "us \<noteq> []"
    using Inr limits_max_files_pos [of plan]
    by (auto simp: validate_file_count_def Let_def split: if_splits)
  with assms Inr show thesis
    by (auto simp: upload_files_def Let_def split: prod.splits option.splits intro: failed stored)
qed

section \<open>Properties\<close>



text \<open>
  The promise "previously-written files of the batch are removed" has a gap: when the
  row of a fully streamed file cannot be flushed, the exception leaves \<open>_store_one\<close> before the
  path is recorded, so the file's bytes stay on the disk, with no row that refers to them.
\<close>

theorem upload_flush_failure_leaves_orphan:
  assumes fresh: "fresh_uploads env d [u]" and chunk: "0 < s_upload_chunk_size (ue_settings env)"
    and v: "validate_file_type (upload_name env u) (take sniff_size (up_content u)) allowed = Inr spec"
    and io: "up_read_fault u = None" "up_fault u = (\<lambda>_. None)" "up_flush_fault u = Some e"
    and fits: "int (length (up_content u)) \<le> max_file_size_bytes (limits_for_plan plan)"
    and clean: "ss_current ss = ss_committed ss"
  shows "upload_files env allowed uid plan [u] (d, ss) =
    ((d(target_path env u (ft_extension spec) := Some (up_content u)), ss), Inl e)"
proof -
  let ?lim = "limits_for_plan plan" and ?a = "target_path env u (ft_extension spec)"
  have lim: "min (max_file_size_bytes ?lim) (max_total_size_bytes ?lim) = max_file_size_bytes ?lim"
    using limits_total [of plan] by linarith
  have "store_one env allowed ex uid (max_file_size_bytes ?lim) ?lim b u (d, ss)
      = ((d(?a := Some (up_content u)), ss), Inl e)" for ex b
    using v io fits
    by (simp add: store_one_def Let_def write_stream_no_fault [OF chunk] disk_write_def target_path_def)
  then show ?thesis
    using limits_max_files_pos [of plan] clean
    by (simp add: upload_files_def Let_def validate_file_count_def lim upload_cleanup_def
        session_rollback_def)
qed

section \<open>Witnesses\<close>

definition sample_env :: upload_env where
  "sample_env = \<lparr>ue_settings = default_settings, ue_nfkc = (\<lambda>s. s), ue_sha256 = (\<lambda>_. ''h''),
     ue_today = (2026, 7, 9), ue_now = 0, ue_os_refuses = (\<lambda>_. False), ue_commit_fault = None\<rparr>"

definition sample_upload :: "py_exc option \<Rightarrow> upload" where
  "sample_upload flush = \<lparr>up_filename = Some ''a.pdf'', up_content = pdf_magic, up_hex = ''0f'',
     up_id = 7, up_read_fault = None, up_fault = (\<lambda>_. None), up_flush_fault = flush\<rparr>"

definition empty_db :: db where
  "empty_db = \<lparr>db_files = [], db_jobs = [], db_links = [], db_visits = []\<rparr>"

lemma sample_name: "upload_name sample_env (sample_upload f) = ''a.pdf''"
  by (simp add: upload_name_def sample_env_def sample_upload_def py_or_def) code_simp

lemma sample_valid:
  "\<exists>spec. validate_file_type ''a.pdf'' (take sniff_size pdf_magic) None = Inr spec"
proof -
  have e: "file_extension ''a.pdf'' = ''pdf''" by code_simp
  have "ft_matches (type_spec ''pdf'' ''application/pdf'' is_pdf) (take sniff_size pdf_magic)"
    by (simp add: type_spec_def is_pdf_def sniff_size_def pdf_magic_def)
  then show ?thesis
    by (intro exI [of _ "type_spec ''pdf'' ''application/pdf'' is_pdf"])
      (simp add: validate_file_type_Inr_iff e supported_types_def supported_specs_def type_spec_def
        allowed_of_def)
qed

lemma sample_fresh: "fresh_uploads sample_env Map.empty [sample_upload f]"
  by (simp add: fresh_uploads_def hex_name_def sample_upload_def)

lemma sample_env_chunk: "0 < s_upload_chunk_size (ue_settings sample_env)"
  by (simp add: sample_env_def default_settings_def)


theorem upload_flush_failure_leaves_orphan_witness:
  "\<exists>spec :: file_type_spec. upload_files sample_env None None None [sample_upload (Some (OtherError ''DataError'' []))]
      (Map.empty, \<lparr>ss_committed = empty_db, ss_current = empty_db\<rparr>) =
    ((Map.empty(target_path sample_env (sample_upload (Some (OtherError ''DataError'' [])))
        (ft_extension spec) := Some pdf_magic), \<lparr>ss_committed = empty_db, ss_current = empty_db\<rparr>),
     Inl (OtherError ''DataError'' []))"
proof -
  let ?u = "sample_upload (Some (OtherError ''DataError'' []))"
  obtain spec where "validate_file_type (upload_name sample_env ?u) (take sniff_size (up_content ?u)) None
      = Inr spec"
    using sample_valid sample_name by (auto simp: sample_upload_def)
  note run = upload_flush_failure_leaves_orphan [OF sample_fresh sample_env_chunk this,
      where plan = None and uid = None and e = "OtherError ''DataError'' []"
        and ss = "\<lparr>ss_committed = empty_db, ss_current = empty_db\<rparr>"]
  have fits: "int (length (up_content ?u)) \<le> max_file_size_bytes (limits_for_plan None)"
    by (simp add: sample_upload_def limits_for_plan_anonymous free_limits_def plan_limits_of_def
        max_file_size_bytes_def mb_def pdf_magic_def)
  show ?thesis
    by (rule exI [of _ spec], subst run) (simp_all add: fits, simp_all add: sample_upload_def)
qed


end
