(* ===== verification/ToolRun.thy ===== *)
theory ToolRun
  imports Actions Upload
begin

text \<open>
  The loops every tool processor is built from (\<open>process_each_input\<close> and
  \<open>process_each_input_parallel\<close> of \<open>app/tasks/base.py\<close>), over an arbitrary worker state.

  A per-file operation returns the list of its outputs (a single \<open>ProducedFile\<close> is a
  one-element list). The parallel loop gets the order in which the futures complete as
  \<open>schedule\<close>, a list of input indices; an operation takes effect when it completes, and
  leaving the pool waits for the operations still in flight after a failure.
\<close>

record produced_file =
  pf_path :: path
  pf_download_name :: string
  pf_media_type :: string

definition produced_pdf :: "path \<Rightarrow> string \<Rightarrow> produced_file" where
  "produced_pdf p name =
     \<lparr>pf_path = p, pf_download_name = name, pf_media_type = ''application/pdf''\<rparr>"

type_synonym 's operation = "path \<Rightarrow> string \<Rightarrow> nat \<Rightarrow> ('s, produced_file list) action"

section \<open>Sequential\<close>

fun each_input_loop ::
  "'s operation \<Rightarrow> (int \<Rightarrow> ('s, unit) action) \<Rightarrow> nat \<Rightarrow> nat \<Rightarrow> nat \<Rightarrow> (path \<times> string) list
     \<Rightarrow> ('s, produced_file list) action" where
  "each_input_loop operate report ceiling ntotal index [] = areturn []"
| "each_input_loop operate report ceiling ntotal index ((path, name) # pairs) =
     abind (operate path name index) (\<lambda>out.
     abind (report (progress_at (index + 1) ntotal ceiling)) (\<lambda>_.
     abind (each_input_loop operate report ceiling ntotal (index + 1) pairs) (\<lambda>rest.
     areturn (out @ rest))))"

definition process_each_input ::
  "'s operation \<Rightarrow> (int \<Rightarrow> ('s, unit) action) \<Rightarrow> nat \<Rightarrow> (path \<times> string) list
     \<Rightarrow> ('s, produced_file list) action" where
  "process_each_input operate report ceiling pairs =
     each_input_loop operate report ceiling (length pairs) 0 pairs"

section \<open>Parallel\<close>

text \<open>The operations that still complete after a failure: their effects, not their results.\<close>

fun drain :: "'s operation \<Rightarrow> (path \<times> string) list \<Rightarrow> nat list \<Rightarrow> 's \<Rightarrow> 's" where
  "drain operate pairs [] s = s"
| "drain operate pairs (i # order) s =
     (case pairs ! i of (path, name) \<Rightarrow> drain operate pairs order (fst (operate path name i s)))"

fun parallel_loop ::
  "'s operation \<Rightarrow> (int \<Rightarrow> ('s, unit) action) \<Rightarrow> nat \<Rightarrow> (path \<times> string) list \<Rightarrow> nat list
     \<Rightarrow> nat \<Rightarrow> (nat \<Rightarrow> produced_file list option) \<Rightarrow> ('s, nat \<Rightarrow> produced_file list option) action" where
  "parallel_loop operate report ceiling pairs [] completed results s = (s, Inr results)"
| "parallel_loop operate report ceiling pairs (i # order) completed results s =
     (case pairs ! i of (path, name) \<Rightarrow>
       (case operate path name i s of
          (s', Inl e) \<Rightarrow> (drain operate pairs order s', Inl e)
        | (s', Inr out) \<Rightarrow>
            (case report (progress_at (completed + 1) (length pairs) ceiling) s' of
               (s'', Inl e) \<Rightarrow> (drain operate pairs order s'', Inl e)
             | (s'', Inr _) \<Rightarrow>
                 parallel_loop operate report ceiling pairs order (completed + 1)
                   (results(i := Some out)) s'')))"

definition process_each_input_parallel ::
  "nat list \<Rightarrow> 's operation \<Rightarrow> (int \<Rightarrow> ('s, unit) action) \<Rightarrow> int \<Rightarrow> nat \<Rightarrow> (path \<times> string) list
     \<Rightarrow> ('s, produced_file list) action" where
  "process_each_input_parallel schedule operate report max_workers ceiling pairs =
     (if min max_workers (int (length pairs)) \<le> 1
      then process_each_input operate report ceiling pairs
      else abind (parallel_loop operate report ceiling pairs schedule 0 (\<lambda>_. None))
        (\<lambda>results. areturn (concat (List.map_filter results [0..<length pairs]))))"

section \<open>Lemmas\<close>

lemma each_input_inv:
  assumes "\<And>p n i. act_inv P (operate p n i)" and "\<And>k. act_inv P (report k)"
  shows "act_inv P (each_input_loop operate report ceiling ntotal index pairs)"
proof (induction pairs arbitrary: index)
  case Nil
  then show ?case by simp
next
  case (Cons pn pairs)
  obtain p n where "pn = (p, n)" by (cases pn)
  then show ?case using Cons.IH assms by (auto intro!: act_inv_bind)
qed

lemma process_each_input_inv:
  assumes "\<And>p n i. act_inv P (operate p n i)" and "\<And>k. act_inv P (report k)"
  shows "act_inv P (process_each_input operate report ceiling pairs)"
  unfolding process_each_input_def using assms by (rule each_input_inv)

lemma drain_inv:
  assumes "\<And>p n i. act_inv P (operate p n i)" and "P s"
  shows "P (drain operate pairs order s)"
  using assms(2)
proof (induction order arbitrary: s)
  case (Cons i order)
  obtain p n where p: "pairs ! i = (p, n)" by (cases "pairs ! i")
  have "P (fst (operate p n i s))" using assms(1) Cons.prems by (rule act_invD)
  then show ?case using Cons.IH by (simp add: p)
qed simp

lemma parallel_loop_inv:
  assumes op: "\<And>p n i. act_inv P (operate p n i)" and rep: "\<And>k. act_inv P (report k)"
  shows "act_inv P (parallel_loop operate report ceiling pairs order completed results)"
proof (rule act_invI)
  fix s assume "P s"
  then show "P (fst (parallel_loop operate report ceiling pairs order completed results s))"
  proof (induction order arbitrary: completed results s)
    case Nil
    then show ?case by simp
  next
    case (Cons i order)
    obtain path name where p: "pairs ! i = (path, name)" by (cases "pairs ! i")
    obtain s' r where o1: "operate path name i s = (s', r)" by (cases "operate path name i s")
    with op Cons.prems have s': "P s'" by (metis act_invD fst_conv)
    show ?case
    proof (cases r)
      case (Inl e)
      then show ?thesis using drain_inv [OF op s'] by (simp add: p o1)
    next
      case (Inr out)
      obtain s'' r' where o2: "report (progress_at (completed + 1) (length pairs) ceiling) s' = (s'', r')"
        by (cases "report (progress_at (completed + 1) (length pairs) ceiling) s'")
      with rep s' have s'': "P s''" by (metis act_invD fst_conv)
      then show ?thesis
        using Cons.IH [OF s''] drain_inv [OF op s''] o2
        by (cases r') (simp_all add: p o1 Inr)
    qed
  qed
qed

lemma process_each_input_parallel_inv:
  assumes "\<And>p n i. act_inv P (operate p n i)" and "\<And>k. act_inv P (report k)"
  shows "act_inv P (process_each_input_parallel schedule operate report workers ceiling pairs)"
  unfolding process_each_input_parallel_def
  using assms by (auto intro!: act_inv_bind process_each_input_inv parallel_loop_inv)

text \<open>Operations whose result does not depend on the state, and a report that succeeds.\<close>

lemma each_input_result:
  assumes "\<And>p n i s. snd (operate p n i s) = Inr (f p n i)" and "\<And>k s. snd (report k s) = Inr ()"
  shows "snd (each_input_loop operate report ceiling ntotal index pairs s)
    = Inr (concat (map (\<lambda>(i, p, n). f p n i) (enumerate index pairs)))"
  using assms
proof (induction operate report ceiling ntotal index pairs arbitrary: s rule: each_input_loop.induct)
  case (1 operate report ceiling ntotal index)
  then show ?case by (simp add: areturn_def)
next
  case (2 operate report ceiling ntotal index path name pairs)
  obtain s' where o: "operate path name index s = (s', Inr (f path name index))"
    using "2.prems"(1) [of path name index s] by (cases "operate path name index s") auto
  obtain s'' where r: "report (progress_at (index + 1) ntotal ceiling) s' = (s'', Inr ())"
    using "2.prems"(2) by (metis prod.collapse)
  have ih: "snd (each_input_loop operate report ceiling ntotal (index + 1) pairs s'')
      = Inr (concat (map (\<lambda>(i, p, n). f p n i) (enumerate (index + 1) pairs)))"
    using "2.IH" "2.prems" by blast
  then show ?case
    using o r by (auto simp: abind_def areturn_def split: prod.split sum.split)
qed

lemma parallel_result:
  assumes "\<And>p n i s. snd (operate p n i s) = Inr (f p n i)" and "\<And>k s. snd (report k s) = Inr ()"
  shows "snd (parallel_loop operate report ceiling pairs order completed results s)
    = Inr (\<lambda>i. if i \<in> set order then Some (f (fst (pairs ! i)) (snd (pairs ! i)) i) else results i)"
proof (induction order arbitrary: completed results s)
  case Nil
  then show ?case by simp
next
  case (Cons i order)
  obtain path name where p: "pairs ! i = (path, name)" by (cases "pairs ! i")
  obtain s' where o: "operate path name i s = (s', Inr (f path name i))"
    using assms(1) [of path name i s] by (cases "operate path name i s") auto
  obtain s'' where r: "report (progress_at (completed + 1) (length pairs) ceiling) s' = (s'', Inr ())"
    using assms(2) by (metis prod.collapse)
  have "parallel_loop operate report ceiling pairs (i # order) completed results s
      = parallel_loop operate report ceiling pairs order (completed + 1)
          (results(i := Some (f path name i))) s''"
    using r by (simp add: p o)
  moreover have "snd (parallel_loop operate report ceiling pairs order (completed + 1)
        (results(i := Some (f path name i))) s'')
      = Inr (\<lambda>j. if j \<in> set (i # order) then Some (f (fst (pairs ! j)) (snd (pairs ! j)) j) else results j)"
    by (simp add: Cons.IH p fun_eq_iff)
  ultimately show ?case by simp
qed

lemma map_filter_upt_nth:
  "concat (List.map_filter (\<lambda>i. if i < length xs then Some (g (fst (xs ! i)) (snd (xs ! i)) i) else None)
      [0..<length xs])
   = concat (map (\<lambda>(i, p, n). g p n i) (enumerate 0 xs))"
proof -
  have "List.map_filter (\<lambda>i. if i < length xs then Some (g (fst (xs ! i)) (snd (xs ! i)) i) else None)
      [0..<length xs] = map (\<lambda>i. g (fst (xs ! i)) (snd (xs ! i)) i) [0..<length xs]"
    by (auto simp: List.map_filter_def intro!: map_cong filter_True)
  also have "\<dots> = map (\<lambda>(i, p, n). g p n i) (enumerate 0 xs)"
    by (rule nth_equalityI) (auto simp: nth_enumerate_eq split: prod.split)
  finally show ?thesis by simp
qed

section \<open>Properties\<close>

text \<open>
  C9: Running the inputs concurrently changes nothing in the result. For operations whose
  outcome depends on their own input only, and for every order in which the workers finish,
  the parallel loop returns the outputs in input order, exactly as the sequential loop does.
\<close>

theorem parallel_matches_sequential:
  assumes "\<And>p n i s. snd (operate p n i s) = Inr (f p n i)"
    and "\<And>k s. snd (report k s) = Inr ()"
    and "set schedule = {..<length pairs}"
  shows "snd (process_each_input_parallel schedule operate report workers ceiling pairs s)
    = snd (process_each_input operate report ceiling pairs t)
   \<and> snd (process_each_input operate report ceiling pairs t)
    = Inr (concat (map (\<lambda>(i, p, n). f p n i) (enumerate 0 pairs)))"
proof -
  have seq: "snd (process_each_input operate report ceiling pairs u)
      = Inr (concat (map (\<lambda>(i, p, n). f p n i) (enumerate 0 pairs)))" for u
    unfolding process_each_input_def using assms(1,2) by (rule each_input_result)
  obtain s' where l: "parallel_loop operate report ceiling pairs schedule 0 (\<lambda>_. None) s
      = (s', Inr (\<lambda>i. if i < length pairs then Some (f (fst (pairs ! i)) (snd (pairs ! i)) i) else None))"
    using parallel_result [where operate = operate and f = f and report = report and ceiling = ceiling
        and pairs = pairs and order = schedule and completed = 0 and results = "\<lambda>_. None" and s = s,
        OF assms(1,2)] assms(3)
    by (cases "parallel_loop operate report ceiling pairs schedule 0 (\<lambda>_. None) s") auto
  have "snd (process_each_input_parallel schedule operate report workers ceiling pairs s)
      = Inr (concat (map (\<lambda>(i, p, n). f p n i) (enumerate 0 pairs)))"
    unfolding process_each_input_parallel_def
    by (simp add: seq abind_def l areturn_def map_filter_upt_nth)
  with seq show ?thesis by simp
qed

theorem parallel_matches_sequential_witness:
  "snd (process_each_input_parallel [1, 0] (\<lambda>p n i (s::nat). (s + i, Inr [produced_pdf p n]))
      (\<lambda>_ s. (s, Inr ())) 2 90 [([''a''], ''x''), ([''b''], ''y'')] 0)
   = Inr [produced_pdf [''a''] ''x'', produced_pdf [''b''] ''y'']"
proof -
  have "set [1::nat, 0] = {..<length [([''a''], ''x''), ([''b''], ''y'')]}" by auto
  from parallel_matches_sequential [of "\<lambda>p n i (s::nat). (s + i, Inr [produced_pdf p n])"
      "\<lambda>p n i. [produced_pdf p n]" "\<lambda>_ s. (s, Inr ())", OF _ _ this, of 2 90 0 0]
  show ?thesis by simp
qed

end
