(* ===== verification/JobRunner.thy ===== *)
theory JobRunner
  imports ToolRun
begin

text \<open>
  The worker side of a job, \<open>run_tool_job\<close> and \<open>_register_outputs\<close> of
  \<open>app/tasks/base.py\<close>, with the scratch workspace of \<open>app/services/temp_files.py\<close> and the
  events of \<open>app/services/job_events.py\<close>.

  The worker's state is the disk, its database session and the events published. The session
  holds what is committed and what the mapped objects say; its \<open>n\<close>-th flush (a commit flushes
  too) fails with the exception \<open>re_db_fault n\<close>, if any, and from then on every commit
  raises \<open>PendingRollbackError\<close> until the session is rolled back, as SQLAlchemy documents.
  A tool's processor is an arbitrary function of its context; it reaches the job row only
  through \<open>report_progress\<close>.
\<close>

section \<open>State\<close>

record job_event =
  ev_job :: nat
  ev_status :: job_status
  ev_progress :: int
  ev_error_code :: "error_code option"

record run_state =
  rs_disk :: disk
  rs_session :: session
  rs_broken :: bool
  rs_ops :: nat
  rs_events :: "job_event list"

record run_env =
  re_settings :: settings
  re_nfkc :: "string \<Rightarrow> string"
  re_sha256 :: "bytes \<Rightarrow> string"
  re_today :: date
  re_start :: int
  re_register :: int
  re_finish :: int
  re_workspace_hex :: string
  re_mkdir_fault :: "py_exc option"
  re_output_hex :: "nat \<Rightarrow> string"
  re_output_id :: "nat \<Rightarrow> nat"
  re_move_fault :: "nat \<Rightarrow> bytes option option"
  re_db_fault :: "nat \<Rightarrow> py_exc option"
  re_locked :: "path \<Rightarrow> bool"

record run_ctx =
  rc_job :: job
  rc_input_paths :: "path list"
  rc_input_names :: "string list"
  rc_options :: "(string \<times> json) list"
  rc_workspace :: path
  rc_report :: "int \<Rightarrow> (run_state, unit) action"

type_synonym processor = "run_ctx \<Rightarrow> (run_state, produced_file list) action"

section \<open>Session\<close>

definition pending_rollback :: py_exc where
  "pending_rollback = OtherError ''PendingRollbackError'' []"

definition db_flush :: "run_env \<Rightarrow> (run_state, unit) action" where
  "db_flush env st =
     (if rs_broken st then (st, Inl pending_rollback)
      else case re_db_fault env (rs_ops st) of
        Some e \<Rightarrow> (st\<lparr>rs_ops := rs_ops st + 1, rs_broken := True\<rparr>, Inl e)
      | None \<Rightarrow> (st\<lparr>rs_ops := rs_ops st + 1\<rparr>, Inr ()))"

definition db_commit :: "run_env \<Rightarrow> (run_state, unit) action" where
  "db_commit env =
     abind (db_flush env) (\<lambda>_ st.
       (st\<lparr>rs_session := session_commit (rs_session st)\<rparr>, Inr ()))"

definition modify_db :: "(db \<Rightarrow> db) \<Rightarrow> (run_state, unit) action" where
  "modify_db f st =
     (st\<lparr>rs_session := (rs_session st)\<lparr>ss_current := f (ss_current (rs_session st))\<rparr>\<rparr>, Inr ())"

definition modify_job :: "nat \<Rightarrow> (job \<Rightarrow> job) \<Rightarrow> (run_state, unit) action" where
  "modify_job i f = modify_db (\<lambda>d. d\<lparr>db_jobs := upd_job i f (db_jobs d)\<rparr>)"

definition current_job :: "nat \<Rightarrow> run_state \<Rightarrow> job option" where
  "current_job i st = find (\<lambda>j. j_id j = i) (db_jobs (ss_current (rs_session st)))"

section \<open>Events\<close>

text \<open>\<open>publish_job_event\<close> with the job's present state; it never raises.\<close>

definition publish_job_event :: "nat \<Rightarrow> bool \<Rightarrow> (run_state, unit) action" where
  "publish_job_event i with_error st =
     (case current_job i st of
        None \<Rightarrow> (st, Inr ())
      | Some j \<Rightarrow>
          (st\<lparr>rs_events := rs_events st @
             [\<lparr>ev_job = i, ev_status = j_status j, ev_progress = j_progress j,
               ev_error_code = (if with_error then j_error_code j else None)\<rparr>]\<rparr>, Inr ()))"

section \<open>Workspaces\<close>

definition workspace_path :: "settings \<Rightarrow> string \<Rightarrow> string \<Rightarrow> path" where
  "workspace_path s tool hex = temp_dir s @ [tool @ ''-'' @ hex]"

text \<open>\<open>shutil.rmtree(workspace, ignore_errors=True)\<close>: locked files survive.\<close>

definition remove_workspace :: "(path \<Rightarrow> bool) \<Rightarrow> path \<Rightarrow> disk \<Rightarrow> disk" where
  "remove_workspace locked ws d = (\<lambda>p. if prefix ws p \<and> \<not> locked p then None else d p)"

definition temp_workspace ::
  "run_env \<Rightarrow> string \<Rightarrow> (path \<Rightarrow> (run_state, 'a) action) \<Rightarrow> (run_state, 'a) action" where
  "temp_workspace env tool body st =
     (let ws = workspace_path (re_settings env) tool (re_workspace_hex env) in
      case re_mkdir_fault env of
        Some e \<Rightarrow> (st, Inl e)
      | None \<Rightarrow>
          (case body ws st of (st', r) \<Rightarrow>
            (st'\<lparr>rs_disk := remove_workspace (re_locked env) ws (rs_disk st')\<rparr>, r)))"

section \<open>Registering the outputs\<close>

definition output_row ::
  "run_env \<Rightarrow> job \<Rightarrow> nat \<Rightarrow> produced_file \<Rightarrow> string \<Rightarrow> allocated \<Rightarrow> int \<Rightarrow> bytes \<Rightarrow> stored_file" where
  "output_row env j position item extension a n_bytes content =
     \<lparr>sf_id = re_output_id env position,
      sf_original_name = sanitize_filename (re_nfkc env) (pf_download_name item) ''file'',
      sf_stored_name = al_stored_name a, sf_category = PROCESSED,
      sf_relative_path = al_relative_path a, sf_media_type = pf_media_type item,
      sf_extension = extension, sf_size_bytes = n_bytes,
      sf_checksum = Some (re_sha256 env content), sf_status = F_ACTIVE,
      sf_user_id = j_user_id j,
      sf_expires_at = Some (re_register env + hours (s_retention_hours (re_settings env))),
      sf_created_at = re_register env\<rparr>"

definition output_extension :: "produced_file \<Rightarrow> string" where
  "output_extension item =
     py_or (file_extension (pf_download_name item)) (file_extension (last_part (pf_path item)))"

definition on_disk :: "(disk, 'a) action \<Rightarrow> (run_state, 'a) action" where
  "on_disk m st = (case m (rs_disk st) of (d, r) \<Rightarrow> (st\<lparr>rs_disk := d\<rparr>, r))"

definition register_output ::
  "run_env \<Rightarrow> job \<Rightarrow> nat \<Rightarrow> produced_file \<Rightarrow> (run_state, unit) action" where
  "register_output env j position item =
     (let extension = output_extension item in
      abind (on_disk (import_file (re_move_fault env position) (re_settings env)
               (re_output_hex env position) (re_today env) (pf_path item) PROCESSED extension True))
        (\<lambda>(a, n_bytes).
      abind (\<lambda>st. (st, Inr (case rs_disk st (al_absolute_path a) of None \<Rightarrow> [] | Some c \<Rightarrow> c)))
        (\<lambda>content.
      abind (modify_db (\<lambda>d. d\<lparr>db_files := db_files d @
               [output_row env j position item extension a n_bytes content]\<rparr>)) (\<lambda>_.
      abind (db_flush env) (\<lambda>_.
      modify_db (\<lambda>d. d\<lparr>db_links := db_links d @
        [\<lparr>jf_job_id = j_id j, jf_file_id = re_output_id env position, jf_role = OUTPUT,
          jf_position = position\<rparr>]\<rparr>))))))"

definition register_outputs ::
  "run_env \<Rightarrow> job \<Rightarrow> produced_file list \<Rightarrow> (run_state, unit) action" where
  "register_outputs env j produced =
     abind (act_each (\<lambda>(position, item). register_output env j position item) (enumerate 0 produced))
       (\<lambda>_. areturn ())"

section \<open>The lifecycle\<close>

definition report_progress :: "run_env \<Rightarrow> nat \<Rightarrow> int \<Rightarrow> (run_state, unit) action" where
  "report_progress env i progress =
     abind (modify_job i (set_progress progress)) (\<lambda>_.
     abind (db_commit env) (\<lambda>_. publish_job_event i False))"

text \<open>\<open>link.file\<close> of the input links, in position order.\<close>

definition input_files :: "nat \<Rightarrow> db \<Rightarrow> (py_exc, stored_file list) result" where
  "input_files i d =
     rmap (\<lambda>l. case find (\<lambda>f. sf_id f = jf_file_id l) (db_files d) of
              None \<Rightarrow> Inl (OtherError ''AttributeError'' ''NoneType'')
            | Some f \<Rightarrow> Inr f)
       (filter (\<lambda>l. jf_role l = INPUT) (job_files i (db_links d)))"

definition file_expired_error :: py_exc where
  "file_expired_error =
     ProcessingError ''One or more input files are no longer available.'' FILE_EXPIRED"

definition no_output_error :: py_exc where
  "no_output_error = ProcessingError ''The tool produced no output.'' PROCESSING_FAILED"

text \<open>The body of the \<open>try\<close> block.\<close>

definition run_processor ::
  "run_env \<Rightarrow> job \<Rightarrow> processor \<Rightarrow> stored_file list \<Rightarrow> path list \<Rightarrow> (run_state, unit) action" where
  "run_processor env j processor files paths =
     temp_workspace env (j_tool j) (\<lambda>ws.
       abind (processor
          \<lparr>rc_job = j, rc_input_paths = paths, rc_input_names = map sf_original_name files,
           rc_options = j_options j, rc_workspace = ws,
           rc_report = report_progress env (j_id j)\<rparr>) (\<lambda>produced.
       if produced = [] then araise no_output_error
       else register_outputs env j produced))"

definition run_body :: "run_env \<Rightarrow> job \<Rightarrow> processor \<Rightarrow> (run_state, unit) action" where
  "run_body env j processor =
     abind (\<lambda>st. (st, input_files (j_id j) (ss_current (rs_session st)))) (\<lambda>files.
     abind (aresult (rmap (\<lambda>f. storage_resolve (re_settings env) (sf_category f) (sf_relative_path f)) files))
       (\<lambda>paths.
     abind (\<lambda>st. (st, require (\<forall>p \<in> set paths. rs_disk st p \<noteq> None) file_expired_error)) (\<lambda>_.
     abind (run_processor env j processor files paths) (\<lambda>_.
     abind (modify_job (j_id j) (mark_completed (re_finish env))) (\<lambda>_.
     db_commit env)))))"

text \<open>The message of a failed job; text outside ASCII is in UTF-8.\<close>

definition em_dash :: string where
  "em_dash = [CHR 0xE2, CHR 0x80, CHR 0x94]"

fun failure_of :: "py_exc \<Rightarrow> error_code \<times> string" where
  "failure_of (ProcessingError m c) = (c, m)"
| "failure_of (CommandError _ ce) =
     (if ce_timed_out ce
      then (PROCESSING_TIMEOUT,
        ''Processing took too long and was stopped. Very large or complex files can exceed the server's time limit ''
          @ em_dash @ '' try a smaller file or split it into parts.'')
      else (PROCESSING_FAILED,
        ''The converter could not process this file. It may be corrupted, password-protected, or use features the converter does not support.''))"
| "failure_of e = (INTERNAL_SERVER_ERROR, ''Unexpected error: '' @ exc_str e)"

text \<open>The \<open>try\<close> statement with its three \<open>except\<close> clauses.\<close>

definition run_guarded :: "run_env \<Rightarrow> job \<Rightarrow> processor \<Rightarrow> (run_state, unit) action" where
  "run_guarded env j processor st =
     (case run_body env j processor st of
        (st', Inr _) \<Rightarrow> (st', Inr ())
      | (st', Inl e) \<Rightarrow>
          abind (modify_job (j_id j)
              (mark_failed (re_finish env) (fst (failure_of e)) (snd (failure_of e))))
            (\<lambda>_. db_commit env) st')"

definition redact :: "string list \<Rightarrow> (string \<times> json) list \<Rightarrow> (string \<times> json) list" where
  "redact keys options = map (\<lambda>(k, v). (k, if k \<in> set keys then JStr ''[redacted]'' else v)) options"

text \<open>
  The \<open>finally\<close> clause. On a session that awaits a rollback the job's attributes cannot be
  loaded, so it raises before the event is published.
\<close>

definition run_finally :: "run_env \<Rightarrow> nat \<Rightarrow> string list \<Rightarrow> (run_state, unit) action" where
  "run_finally env i keys st =
     (if rs_broken st then (st, Inl pending_rollback)
      else abind
        (if keys \<noteq> [] \<and> (\<exists>j. current_job i st = Some j \<and> j_options j \<noteq> [])
         then abind (modify_job i (\<lambda>j. j\<lparr>j_options := redact keys (j_options j)\<rparr>)) (\<lambda>_. db_commit env)
         else areturn ())
        (\<lambda>_. publish_job_event i True) st)"

text \<open>A raising \<open>finally\<close> replaces the exception of its \<open>try\<close>.\<close>

definition try_finally :: "('s, unit) action \<Rightarrow> ('s, unit) action \<Rightarrow> ('s, unit) action" where
  "try_finally m n st =
     (case m st of (st', r) \<Rightarrow> (case n st' of (st'', Inl e) \<Rightarrow> (st'', Inl e) | (st'', Inr _) \<Rightarrow> (st'', r)))"

definition start_run :: "run_env \<Rightarrow> job \<Rightarrow> (run_state, unit) action" where
  "start_run env j =
     abind (modify_job (j_id j) (mark_processing (re_start env))) (\<lambda>_.
     abind (db_commit env) (\<lambda>_. publish_job_event (j_id j) False))"

definition run_started :: "run_env \<Rightarrow> job \<Rightarrow> processor \<Rightarrow> string list \<Rightarrow> (run_state, unit) action" where
  "run_started env j processor keys =
     abind (start_run env j) (\<lambda>_.
     try_finally (run_guarded env j processor) (run_finally env (j_id j) keys))"

text \<open>\<open>with sync_session() as session\<close>: commit at the end, roll back on an exception.\<close>

definition with_session :: "run_env \<Rightarrow> (run_state, unit) action \<Rightarrow> (run_state, unit) action" where
  "with_session env m st =
     (case abind m (\<lambda>_. db_commit env) st of
        (st', Inr _) \<Rightarrow> (st', Inr ())
      | (st', Inl e) \<Rightarrow>
          (st'\<lparr>rs_session := session_rollback (rs_session st'), rs_broken := False\<rparr>, Inl e))"

definition run_tool_job ::
  "run_env \<Rightarrow> nat \<Rightarrow> processor \<Rightarrow> string list \<Rightarrow> (run_state, unit) action" where
  "run_tool_job env job_id processor redact_option_keys =
     with_session env (\<lambda>st.
       (case job_get_with_files job_id None True (db_jobs (ss_current (rs_session st))) of
          None \<Rightarrow> (st, Inr ())
        | Some j \<Rightarrow>
            if is_terminal (j_status j) then (st, Inr ())
            else run_started env j processor redact_option_keys st))"

section \<open>Lemmas: the session without failures\<close>

lemma upd_job_upd_job:
  "(\<And>j. j_id (g j) = j_id j) \<Longrightarrow> upd_job i f (upd_job i g tbl) = upd_job i (f \<circ> g) tbl"
  by (simp add: upd_job_def)

lemma upd_job_cong: "(\<And>j. f j = g j) \<Longrightarrow> upd_job i f tbl = upd_job i g tbl"
  by (simp add: upd_job_def)

lemma db_flush_ok:
  "re_db_fault env = (\<lambda>_. None) \<Longrightarrow> \<not> rs_broken st \<Longrightarrow>
     db_flush env st = (st\<lparr>rs_ops := rs_ops st + 1\<rparr>, Inr ())"
  by (simp add: db_flush_def)

lemma db_commit_ok:
  "re_db_fault env = (\<lambda>_. None) \<Longrightarrow> \<not> rs_broken st \<Longrightarrow>
     db_commit env st = (st\<lparr>rs_ops := rs_ops st + 1, rs_session := session_commit (rs_session st)\<rparr>, Inr ())"
  by (simp add: db_commit_def abind_def db_flush_ok)

text \<open>
  How far a run has come: the session shows the database \<open>d0\<close> of the start with the job
  changed by \<open>f\<close> and with \<open>rows\<close> and \<open>links\<close> added.
\<close>

definition at_stage ::
  "db \<Rightarrow> nat \<Rightarrow> (job \<Rightarrow> job) \<Rightarrow> stored_file list \<Rightarrow> job_file list \<Rightarrow> run_state \<Rightarrow> bool" where
  "at_stage d0 i f rows links st \<longleftrightarrow>
     \<not> rs_broken st
     \<and> ss_current (rs_session st) = d0\<lparr>db_jobs := upd_job i f (db_jobs d0),
          db_files := db_files d0 @ rows, db_links := db_links d0 @ links\<rparr>"

lemma at_stage_disk [simp]: "at_stage d0 i f rows links (st\<lparr>rs_disk := d\<rparr>) = at_stage d0 i f rows links st"
  and at_stage_events [simp]: "at_stage d0 i f rows links (st\<lparr>rs_events := es\<rparr>) = at_stage d0 i f rows links st"
  and at_stage_ops [simp]: "at_stage d0 i f rows links (st\<lparr>rs_ops := n\<rparr>) = at_stage d0 i f rows links st"
  and at_stage_commit [simp]: "at_stage d0 i f rows links
      (st\<lparr>rs_session := session_commit (rs_session st)\<rparr>) = at_stage d0 i f rows links st"
  by (simp_all add: at_stage_def session_commit_def)

lemma at_stage_publish:
  "at_stage d0 i f rows links (fst (publish_job_event k b st)) = at_stage d0 i f rows links st"
  by (auto simp: publish_job_event_def split: option.split)

lemma publish_ok: "snd (publish_job_event k b st) = Inr ()"
  by (auto simp: publish_job_event_def split: option.split)

lemma at_stage_modify:
  assumes "at_stage d0 i f rows links st" and "\<And>j. j_id (f j) = j_id j"
  shows "at_stage d0 i (g \<circ> f) rows links (fst (modify_job i g st))" "snd (modify_job i g st) = Inr ()"
  using assms by (simp_all add: at_stage_def modify_job_def modify_db_def upd_job_upd_job)

lemma at_stage_commit_ok:
  assumes "at_stage d0 i f rows links st" and "re_db_fault env = (\<lambda>_. None)"
  shows "at_stage d0 i f rows links (fst (db_commit env st))" "snd (db_commit env st) = Inr ()"
  using assms by (simp_all add: db_commit_ok at_stage_def session_commit_def)

lemma at_stage_step:
  assumes "at_stage d0 i f rows links st" and "\<And>j. j_id (f j) = j_id j"
    and "re_db_fault env = (\<lambda>_. None)"
  obtains s1 s2 where "modify_job i g st = (s1, Inr ())" "at_stage d0 i (g \<circ> f) rows links s1"
    "db_commit env s1 = (s2, Inr ())" "at_stage d0 i (g \<circ> f) rows links s2"
    "rs_events s2 = rs_events st"
    "ss_committed (rs_session s2) = ss_current (rs_session s2)" "rs_disk s2 = rs_disk st"
proof -
  let ?s1 = "fst (modify_job i g st)"
  have m: "modify_job i g st = (?s1, Inr ())" "at_stage d0 i (g \<circ> f) rows links ?s1"
    using at_stage_modify [OF assms(1,2), of g] by (simp_all add: prod_eq_iff)
  have e: "rs_events ?s1 = rs_events st" "rs_disk ?s1 = rs_disk st"
    by (simp_all add: modify_job_def modify_db_def)
  have c: "db_commit env ?s1 = (?s1\<lparr>rs_ops := rs_ops ?s1 + 1, rs_session := session_commit (rs_session ?s1)\<rparr>, Inr ())"
    using m(2) by (intro db_commit_ok assms(3)) (simp add: at_stage_def)
  from m c at_stage_commit_ok(1) [OF m(2) assms(3)] e that show thesis
    by (simp add: session_commit_def)
qed

lemma at_stage_current:
  assumes "at_stage d0 i f rows links st" and "\<And>j. j_id (f j) = j_id j"
    and "find (\<lambda>j. j_id j = i) (db_jobs d0) = Some j"
  shows "current_job i st = Some (f j)"
  using assms by (simp add: at_stage_def current_job_def find_upd_job)

section \<open>Lemmas: the stages of a run\<close>

definition in_progress :: "run_env \<Rightarrow> int \<Rightarrow> job \<Rightarrow> job" where
  "in_progress env p = set_progress p \<circ> mark_processing (re_start env)"

lemma in_progress_id [simp]: "j_id (in_progress env p j) = j_id j"
  by (simp add: in_progress_def)

lemma in_progress_start: "mark_processing (re_start env) j = in_progress env 0 j"
  by (simp add: in_progress_def job_transition_defs)

lemma set_progress_in_progress: "set_progress q \<circ> in_progress env p = in_progress env q"
  by (simp add: fun_eq_iff in_progress_def set_progress_def)

definition progressing :: "run_env \<Rightarrow> db \<Rightarrow> nat \<Rightarrow> run_state \<Rightarrow> bool" where
  "progressing env d0 i st \<longleftrightarrow> (\<exists>p. at_stage d0 i (in_progress env p) [] [] st)"

lemma report_progress_inv:
  assumes "re_db_fault env = (\<lambda>_. None)"
  shows "act_inv (progressing env d0 i) (report_progress env i q)"
proof (rule act_invI)
  fix st assume "progressing env d0 i st"
  then obtain p where p: "at_stage d0 i (in_progress env p) [] [] st" by (auto simp: progressing_def)
  obtain s1 where m: "modify_job i (set_progress q) st = (s1, Inr ())"
    using at_stage_modify(2) [OF p in_progress_id] by (metis prod.collapse)
  with at_stage_modify(1) [OF p in_progress_id, of "set_progress q"]
  have s1: "at_stage d0 i (in_progress env q) [] [] s1" by (simp add: set_progress_in_progress)
  obtain s2 where c: "db_commit env s1 = (s2, Inr ())"
    using at_stage_commit_ok(2) [OF s1 assms] by (metis prod.collapse)
  with at_stage_commit_ok(1) [OF s1 assms] have "at_stage d0 i (in_progress env q) [] [] s2" by simp
  then show "progressing env d0 i (fst (report_progress env i q st))"
    using m c by (auto simp: report_progress_def abind_def progressing_def at_stage_publish)
qed

text \<open>
  What is asked of a processor: it reaches the session only by reporting progress; with the disk
  it may do anything. Stated for every predicate of the state that such steps keep.
\<close>

definition confined :: "processor \<Rightarrow> bool" where
  "confined processor \<longleftrightarrow>
     (\<forall>ctx P.
        (\<forall>st d. P st \<longrightarrow> P (st\<lparr>rs_disk := d\<rparr>)) \<and> (\<forall>k. act_inv P (rc_report ctx k))
        \<longrightarrow> act_inv P (processor ctx))"

lemma act_inv_on_disk: "(\<And>st d. P st \<Longrightarrow> P (st\<lparr>rs_disk := d\<rparr>)) \<Longrightarrow> act_inv P (on_disk m)"
  by (auto intro!: act_invI simp: on_disk_def split: prod.split)

lemma confinedD:
  assumes "confined processor"
    and "\<And>st d. P st \<Longrightarrow> P (st\<lparr>rs_disk := d\<rparr>)" and "\<And>k. act_inv P (rc_report ctx k)"
  shows "act_inv P (processor ctx)"
  using assms unfolding confined_def by blast

definition registering :: "db \<Rightarrow> nat \<Rightarrow> (job \<Rightarrow> job) \<Rightarrow> run_state \<Rightarrow> bool" where
  "registering d0 i f st \<longleftrightarrow> (\<exists>rows links. at_stage d0 i f rows links st)"

lemma registeringI: "at_stage d0 i f rows links st \<Longrightarrow> registering d0 i f st"
  unfolding registering_def by blast

lemma registering_disk: "act_inv (registering d0 i f) (on_disk m)"
  by (rule act_invI) (auto simp: registering_def on_disk_def split: prod.split)

lemma registering_flush:
  "re_db_fault env = (\<lambda>_. None) \<Longrightarrow> act_inv (registering d0 i f) (db_flush env)"
  by (rule act_invI) (auto simp: registering_def at_stage_def db_flush_ok)

lemma registering_file:
  "act_inv (registering d0 i f) (modify_db (\<lambda>d. d\<lparr>db_files := db_files d @ [r]\<rparr>))"
proof (rule act_invI)
  fix st assume "registering d0 i f st"
  then obtain rows links where "at_stage d0 i f rows links st" by (auto simp: registering_def)
  then have "at_stage d0 i f (rows @ [r]) links
      (fst (modify_db (\<lambda>d. d\<lparr>db_files := db_files d @ [r]\<rparr>) st))"
    by (simp add: at_stage_def modify_db_def)
  then show "registering d0 i f (fst (modify_db (\<lambda>d. d\<lparr>db_files := db_files d @ [r]\<rparr>) st))"
    by (rule registeringI)
qed

lemma registering_link:
  "act_inv (registering d0 i f) (modify_db (\<lambda>d. d\<lparr>db_links := db_links d @ [l]\<rparr>))"
proof (rule act_invI)
  fix st assume "registering d0 i f st"
  then obtain rows links where "at_stage d0 i f rows links st" by (auto simp: registering_def)
  then have "at_stage d0 i f rows (links @ [l])
      (fst (modify_db (\<lambda>d. d\<lparr>db_links := db_links d @ [l]\<rparr>) st))"
    by (simp add: at_stage_def modify_db_def)
  then show "registering d0 i f (fst (modify_db (\<lambda>d. d\<lparr>db_links := db_links d @ [l]\<rparr>) st))"
    by (rule registeringI)
qed

lemma act_inv_read: "act_inv P (\<lambda>st. (st, r st))"
  by (rule act_invI) simp

lemma act_inv_case_prod: "(\<And>a b. act_inv P (f a b)) \<Longrightarrow> act_inv P (case x of (a, b) \<Rightarrow> f a b)"
  by (cases x) simp

lemma register_outputs_inv:
  assumes "re_db_fault env = (\<lambda>_. None)"
  shows "act_inv (registering d0 i f) (register_outputs env j produced)"
proof -
  have "act_inv (registering d0 i f) (register_output env j k item)" for k item
    unfolding register_output_def Let_def
    by (intro act_inv_bind act_inv_case_prod registering_disk registering_file registering_link
        registering_flush act_inv_read assms)
  then show ?thesis
    unfolding register_outputs_def by (intro act_inv_bind act_inv_each act_inv_pure) auto
qed

section \<open>Lemmas: the outcome of a run\<close>

text \<open>Everything the body does before the last two lines keeps the job in progress.\<close>

lemma progressing_registering:
  "progressing env d0 i st \<Longrightarrow> \<exists>p. registering d0 i (in_progress env p) st"
  unfolding progressing_def by (blast intro: registeringI)

definition underway :: "run_env \<Rightarrow> db \<Rightarrow> nat \<Rightarrow> run_state \<Rightarrow> bool" where
  "underway env d0 i st \<longleftrightarrow> (\<exists>p. registering d0 i (in_progress env p) st)"

lemma underway_disk: "underway env d0 i (st\<lparr>rs_disk := d\<rparr>) = underway env d0 i st"
  by (simp add: underway_def registering_def)

lemma progressing_disk: "progressing env d0 i (st\<lparr>rs_disk := d\<rparr>) = progressing env d0 i st"
  by (simp add: progressing_def)

lemma underway_register:
  assumes "re_db_fault env = (\<lambda>_. None)"
  shows "act_inv (underway env d0 i) (register_outputs env j produced)"
  using act_invD [OF register_outputs_inv [OF assms]] by (fastforce intro!: act_invI simp: underway_def)

lemma fst_temp_workspace:
  "fst (temp_workspace env tool body st) =
    (case re_mkdir_fault env of
       Some e \<Rightarrow> st
     | None \<Rightarrow>
        (fst (body (workspace_path (re_settings env) tool (re_workspace_hex env)) st))
          \<lparr>rs_disk := remove_workspace (re_locked env)
             (workspace_path (re_settings env) tool (re_workspace_hex env))
             (rs_disk (fst (body (workspace_path (re_settings env) tool (re_workspace_hex env)) st)))\<rparr>)"
  by (simp add: temp_workspace_def Let_def split: option.split prod.split)

lemma run_processor_underway:
  assumes nf: "re_db_fault env = (\<lambda>_. None)" and c: "confined processor" and j: "j_id j = i"
    and p: "progressing env d0 i st"
  shows "underway env d0 i (fst (run_processor env j processor files paths st))"
proof -
  let ?ctx = "\<lambda>ws. \<lparr>rc_job = j, rc_input_paths = paths, rc_input_names = map sf_original_name files,
      rc_options = j_options j, rc_workspace = ws, rc_report = report_progress env (j_id j)\<rparr>"
  have inv: "act_inv (progressing env d0 i) (processor (?ctx ws))" for ws
    using c report_progress_inv [OF nf] j by (intro confinedD) (auto simp: progressing_disk)
  have start: "underway env d0 i st" using progressing_registering [OF p] by (simp add: underway_def)
  have body: "underway env d0 i (fst (abind (processor (?ctx ws)) (\<lambda>produced.
       if produced = [] then araise no_output_error else register_outputs env j produced) st))" for ws
  proof -
    obtain s1 r where pr: "processor (?ctx ws) st = (s1, r)" by (cases "processor (?ctx ws) st")
    with act_invD [OF inv p, of ws] have "underway env d0 i s1"
      using progressing_registering [of env d0 i s1] by (simp add: underway_def)
    then show ?thesis
      using act_invD [OF underway_register [OF nf]]
      by (cases r) (auto simp: abind_def pr araise_def)
  qed
  show ?thesis
    unfolding run_processor_def
    using start body by (cases "re_mkdir_fault env") (simp_all add: fst_temp_workspace underway_disk)
qed

lemma run_body_eq:
  assumes "input_files (j_id j) (ss_current (rs_session st)) = Inr files"
    and "rmap (\<lambda>f. storage_resolve (re_settings env) (sf_category f) (sf_relative_path f)) files = Inr paths"
  shows "run_body env j processor st =
    (if \<forall>p \<in> set paths. rs_disk st p \<noteq> None
     then abind (run_processor env j processor files paths) (\<lambda>_.
       abind (modify_job (j_id j) (mark_completed (re_finish env))) (\<lambda>_. db_commit env)) st
     else (st, Inl file_expired_error))"
  by (simp add: run_body_def abind_read assms require_def del: not_None_eq)

lemma run_body_early:
  "input_files (j_id j) (ss_current (rs_session st)) = Inl e \<Longrightarrow> run_body env j processor st = (st, Inl e)"
  "input_files (j_id j) (ss_current (rs_session st)) = Inr files \<Longrightarrow>
     rmap (\<lambda>f. storage_resolve (re_settings env) (sf_category f) (sf_relative_path f)) files = Inl e \<Longrightarrow>
     run_body env j processor st = (st, Inl e)"
  by (simp_all add: run_body_def abind_read araise_def)

lemma run_body_outcome:
  assumes nf: "re_db_fault env = (\<lambda>_. None)" and c: "confined processor"
    and j: "j_id j = i" and p: "progressing env d0 i st"
    and r: "run_body env j processor st = (st', r)"
  shows "\<exists>f. registering d0 i f st' \<and>
    (case r of Inr _ \<Rightarrow> \<exists>p. f = mark_completed (re_finish env) \<circ> in_progress env p
     | Inl _ \<Rightarrow> \<exists>p. f = in_progress env p)"
proof -
  have start: "underway env d0 i st" using progressing_registering [OF p] by (simp add: underway_def)
  have early: ?thesis if "st' = st" "r = Inl e" for e
    using start that by (auto simp: underway_def)
  obtain x where i1: "input_files (j_id j) (ss_current (rs_session st)) = x" by simp
  show ?thesis
  proof (cases x)
    case (Inl e)
    with r i1 early show ?thesis by (auto simp: run_body_early)
  next
    case (Inr files)
    let ?ps = "rmap (\<lambda>f. storage_resolve (re_settings env) (sf_category f) (sf_relative_path f)) files"
    show ?thesis
    proof (cases ?ps)
      case (Inl e)
      with r i1 Inr early show ?thesis by (auto simp: run_body_early)
    next
      case ps: (Inr paths)
      show ?thesis
      proof (cases "\<forall>q \<in> set paths. rs_disk st q \<noteq> None")
        case False
        then have "run_body env j processor st = (st, Inl file_expired_error)"
          unfolding run_body_eq [OF i1 [unfolded Inr] ps] by (rule if_not_P)
        with r early [of file_expired_error] show ?thesis by simp
      next
        case True
        have b: "run_body env j processor st = abind (run_processor env j processor files paths) (\<lambda>_.
            abind (modify_job (j_id j) (mark_completed (re_finish env))) (\<lambda>_. db_commit env)) st"
          unfolding run_body_eq [OF i1 [unfolded Inr] ps] using True by (rule if_P)
        obtain s1 r1 where pr: "run_processor env j processor files paths st = (s1, r1)"
          by (cases "run_processor env j processor files paths st")
        have u: "underway env d0 i s1"
          using run_processor_underway [OF nf c j p, of files paths] by (simp add: pr)
        then obtain q rows links where s1: "at_stage d0 i (in_progress env q) rows links s1"
          by (auto simp: underway_def registering_def)
        show ?thesis
        proof (cases r1)
          case (Inl e)
          then have "st' = s1" "r = Inl e" using r b by (simp_all add: abind_def pr)
          with u show ?thesis by (auto simp: underway_def)
        next
          case r1: (Inr v)
          obtain s2 where m: "modify_job (j_id j) (mark_completed (re_finish env)) s1 = (s2, Inr ())"
            using at_stage_modify(2) [OF s1 in_progress_id] j by (metis prod.collapse)
          with at_stage_modify(1) [OF s1 in_progress_id, of "mark_completed (re_finish env)"] j
          have s2: "at_stage d0 i (mark_completed (re_finish env) \<circ> in_progress env q) rows links s2"
            by simp
          obtain s3 where cm: "db_commit env s2 = (s3, Inr ())"
            using at_stage_commit_ok(2) [OF s2 nf] by (metis prod.collapse)
          have "st' = s3" "r = Inr ()"
            using r b by (simp_all add: abind_def pr r1 m cm)
          with at_stage_commit_ok(1) [OF s2 nf] cm show ?thesis
            by (auto intro!: registeringI)
        qed
      qed
    qed
  qed
qed

text \<open>The state of a finished run, by its body's result.\<close>

definition outcome :: "run_env \<Rightarrow> (py_exc, unit) result \<Rightarrow> job \<Rightarrow> job" where
  "outcome env r =
     (case r of Inr _ \<Rightarrow> mark_completed (re_finish env)
      | Inl e \<Rightarrow> mark_failed (re_finish env) (fst (failure_of e)) (snd (failure_of e)))"

lemma outcome_id [simp]: "j_id (outcome env r j) = j_id j"
  by (simp add: outcome_def split: sum.split)

lemma run_guarded_outcome:
  assumes nf: "re_db_fault env = (\<lambda>_. None)" and c: "confined processor"
    and j: "j_id j = i" and p: "progressing env d0 i st"
  shows "\<exists>q. registering d0 i (outcome env (snd (run_body env j processor st)) \<circ> in_progress env q)
      (fst (run_guarded env j processor st)) \<and> snd (run_guarded env j processor st) = Inr ()"
proof -
  obtain st' r where b: "run_body env j processor st = (st', r)"
    by (cases "run_body env j processor st")
  from run_body_outcome [OF nf c j p b] obtain f where f: "registering d0 i f st'"
    and cs: "case r of Inr _ \<Rightarrow> \<exists>p. f = mark_completed (re_finish env) \<circ> in_progress env p
     | Inl _ \<Rightarrow> \<exists>p. f = in_progress env p" by blast
  show ?thesis
  proof (cases r)
    case (Inr u)
    with f cs b show ?thesis by (auto simp: run_guarded_def outcome_def)
  next
    case (Inl e)
    let ?g = "mark_failed (re_finish env) (fst (failure_of e)) (snd (failure_of e))"
    from Inl f cs obtain q rows links where st': "at_stage d0 i (in_progress env q) rows links st'"
      by (auto simp: registering_def)
    obtain s2 where m: "modify_job i ?g st' = (s2, Inr ())"
      using at_stage_modify(2) [OF st' in_progress_id] by (metis prod.collapse)
    with at_stage_modify(1) [OF st' in_progress_id, of ?g]
    have s2: "at_stage d0 i (?g \<circ> in_progress env q) rows links s2" by simp
    have "run_guarded env j processor st = db_commit env s2"
      by (simp add: run_guarded_def b Inl abind_def j m)
    moreover have "outcome env (snd (run_body env j processor st)) = ?g"
      by (simp add: b Inl outcome_def)
    ultimately show ?thesis
      using at_stage_commit_ok(2) [OF s2 nf] registeringI [OF at_stage_commit_ok(1) [OF s2 nf]]
      by metis
  qed
qed

text \<open>\<open>finally\<close> on a healthy session: the options are redacted and the end is published.\<close>

definition redact_job :: "string list \<Rightarrow> job \<Rightarrow> job" where
  "redact_job keys j = j\<lparr>j_options := redact keys (j_options j)\<rparr>"

lemma redact_job_id [simp]: "j_id (redact_job keys j) = j_id j"
  by (simp add: redact_job_def)

lemma redact_nothing: "redact [] opts = opts" "redact keys [] = []"
  by (induction opts) (auto simp: redact_def)

lemma run_finally_ok:
  assumes st: "registering d0 i f st" and nf: "re_db_fault env = (\<lambda>_. None)"
    and idf: "\<And>j. j_id (f j) = j_id j" and j: "find (\<lambda>j. j_id j = i) (db_jobs d0) = Some j"
  shows "\<exists>s'. run_finally env i keys st = (s', Inr ())
    \<and> current_job i s' = Some (redact_job keys (f j))
    \<and> (\<exists>g. registering d0 i g s' \<and> (\<forall>j. j_id (g j) = j_id j))
    \<and> rs_events s' = rs_events st @
       [\<lparr>ev_job = i, ev_status = j_status (f j), ev_progress = j_progress (f j),
         ev_error_code = j_error_code (f j)\<rparr>]"
proof -
  from st obtain rows links where a: "at_stage d0 i f rows links st" by (auto simp: registering_def)
  then have nb: "\<not> rs_broken st" by (simp add: at_stage_def)
  have cur: "current_job i st = Some (f j)" by (rule at_stage_current [OF a idf j])
  let ?red = "\<lambda>j. j\<lparr>j_options := redact keys (j_options j)\<rparr>"
  have redj: "?red = redact_job keys" by (simp add: fun_eq_iff redact_job_def)
  show ?thesis
  proof (cases "keys \<noteq> [] \<and> j_options (f j) \<noteq> []")
    case True
    obtain s1 s2 where m: "modify_job i ?red st = (s1, Inr ())"
      and c: "db_commit env s1 = (s2, Inr ())" and e2: "rs_events s2 = rs_events st"
      and s2: "at_stage d0 i (redact_job keys \<circ> f) rows links s2"
      using at_stage_step [OF a idf nf, of ?red] unfolding redj by metis
    have cur2: "current_job i s2 = Some (redact_job keys (f j))"
      using at_stage_current [OF s2 _ j] idf by simp
    have "run_finally env i keys st = publish_job_event i True s2"
      using True nb cur m c by (simp add: run_finally_def abind_def)
    moreover have "registering d0 i (redact_job keys \<circ> f) (s2\<lparr>rs_events := es\<rparr>)" for es
      using registeringI [of d0 i _ rows links "s2\<lparr>rs_events := es\<rparr>"] s2 by simp
    moreover have "\<forall>j. j_id ((redact_job keys \<circ> f) j) = j_id j" using idf by simp
    moreover have "publish_job_event i True s2 = (s2\<lparr>rs_events := rs_events st @
       [\<lparr>ev_job = i, ev_status = j_status (f j), ev_progress = j_progress (f j),
         ev_error_code = j_error_code (f j)\<rparr>]\<rparr>, Inr ())"
      using cur2 e2 by (simp add: publish_job_event_def redact_job_def)
    moreover have "current_job i (s2\<lparr>rs_events := es\<rparr>) = Some (redact_job keys (f j))" for es
      using cur2 by (simp add: current_job_def)
    ultimately show ?thesis by fastforce
  next
    case False
    have "redact_job keys (f j) = f j"
      using False by (auto simp: redact_job_def redact_nothing)
    moreover have "run_finally env i keys st = publish_job_event i True st"
      using False nb cur by (auto simp: run_finally_def abind_def areturn_def)
    moreover have "registering d0 i f (st\<lparr>rs_events := es\<rparr>)" for es
      using registeringI [of d0 i _ rows links "st\<lparr>rs_events := es\<rparr>"] a by simp
    moreover have "publish_job_event i True st = (st\<lparr>rs_events := rs_events st @
       [\<lparr>ev_job = i, ev_status = j_status (f j), ev_progress = j_progress (f j),
         ev_error_code = j_error_code (f j)\<rparr>]\<rparr>, Inr ())"
      using cur by (simp add: publish_job_event_def)
    moreover have "current_job i (st\<lparr>rs_events := es\<rparr>) = Some (f j)" for es
      using cur by (simp add: current_job_def)
    ultimately show ?thesis using idf by fastforce
  qed
qed

lemma at_stage_0: "\<not> rs_broken st \<Longrightarrow> at_stage (ss_current (rs_session st)) i (\<lambda>j. j) [] [] st"
  by (simp add: at_stage_def upd_job_def)

lemma start_run_ok:
  assumes nf: "re_db_fault env = (\<lambda>_. None)" and nb: "\<not> rs_broken st" and i: "j_id j = i"
  shows "\<exists>s. start_run env j st = (s, Inr ()) \<and> progressing env (ss_current (rs_session st)) i s"
proof -
  have idj: "\<And>j. j_id ((\<lambda>j. j) j) = j_id j" by simp
  obtain s1 s2 where m: "modify_job i (mark_processing (re_start env)) st = (s1, Inr ())"
    and c: "db_commit env s1 = (s2, Inr ())"
    and s2: "at_stage (ss_current (rs_session st)) i (mark_processing (re_start env) \<circ> (\<lambda>j. j)) [] [] s2"
    using at_stage_step [OF at_stage_0 [OF nb, of i] idj nf] by blast
  have "mark_processing (re_start env) \<circ> (\<lambda>j. j) = in_progress env 0"
    by (simp add: fun_eq_iff in_progress_start)
  with s2 have p: "progressing env (ss_current (rs_session st)) i s2"
    unfolding progressing_def by metis
  have "start_run env j st = publish_job_event i False s2"
    by (simp add: start_run_def abind_def m c i)
  moreover have "progressing env (ss_current (rs_session st)) i (fst (publish_job_event i False s2))"
    using p by (simp add: progressing_def at_stage_publish)
  ultimately show ?thesis using publish_ok [of i False s2] by (metis prod.collapse)
qed

lemma job_get_any: "job_get_with_files i None True tbl = find (\<lambda>j. j_id j = i) tbl"
  by (simp add: job_get_with_files_def)

lemma with_session_ok:
  assumes "m st = (s, Inr ())" and "re_db_fault env = (\<lambda>_. None)" and "\<not> rs_broken s"
  shows "with_session env m st
    = (s\<lparr>rs_ops := rs_ops s + 1, rs_session := session_commit (rs_session s)\<rparr>, Inr ())"
  using assms by (simp add: with_session_def abind_def db_commit_ok)

text \<open>The whole run on a healthy database.\<close>

lemma run_tool_job_ok:
  assumes nf: "re_db_fault env = (\<lambda>_. None)" and nb: "\<not> rs_broken st"
    and c: "confined processor"
    and j: "find (\<lambda>j. j_id j = i) (db_jobs (ss_current (rs_session st))) = Some j"
    and nt: "\<not> is_terminal (j_status j)"
  shows "\<exists>s r q g. run_tool_job env i processor keys st = (s, Inr ())
    \<and> ss_committed (rs_session s) = ss_current (rs_session s)
    \<and> current_job i s = Some (redact_job keys (outcome env r (in_progress env q j)))
    \<and> (\<exists>s0. progressing env (ss_current (rs_session st)) i s0 \<and> r = snd (run_body env j processor s0))
    \<and> registering (ss_current (rs_session st)) i g s \<and> (\<forall>j. j_id (g j) = j_id j)
    \<and> rs_events s \<noteq> [] \<and> last (rs_events s) = \<lparr>ev_job = i,
        ev_status = j_status (outcome env r (in_progress env q j)),
        ev_progress = j_progress (outcome env r (in_progress env q j)),
        ev_error_code = j_error_code (outcome env r (in_progress env q j))\<rparr>"
proof -
  let ?d0 = "ss_current (rs_session st)"
  have i: "j_id j = i" using job_row.find_key_Some [OF j] by simp
  obtain s0 where s0: "start_run env j st = (s0, Inr ())" and p0: "progressing env ?d0 i s0"
    using start_run_ok [OF nf nb i] by blast
  obtain r q s1 where r: "r = snd (run_body env j processor s0)"
    and g: "run_guarded env j processor s0 = (s1, Inr ())"
    and s1: "registering ?d0 i (outcome env r \<circ> in_progress env q) s1"
    using run_guarded_outcome [OF nf c i p0] by (metis prod.collapse)
  have idf: "j_id ((outcome env r \<circ> in_progress env q) j) = j_id j" for j by simp
  from run_finally_ok [OF s1 nf idf j, of keys] obtain s2 h
    where fin: "run_finally env i keys s1 = (s2, Inr ())"
      and cur: "current_job i s2 = Some (redact_job keys (outcome env r (in_progress env q j)))"
      and h: "registering ?d0 i h s2" "\<forall>j. j_id (h j) = j_id j"
      and ev: "rs_events s2 = rs_events s1 @ [\<lparr>ev_job = i,
        ev_status = j_status (outcome env r (in_progress env q j)),
        ev_progress = j_progress (outcome env r (in_progress env q j)),
        ev_error_code = j_error_code (outcome env r (in_progress env q j))\<rparr>]"
    by auto
  have started: "run_started env j processor keys st = (s2, Inr ())"
    using s0 g fin i by (simp add: run_started_def abind_def try_finally_def)
  let ?m = "\<lambda>st. case job_get_with_files i None True (db_jobs (ss_current (rs_session st))) of
      None \<Rightarrow> (st, Inr ())
    | Some j \<Rightarrow> if is_terminal (j_status j) then (st, Inr ()) else run_started env j processor keys st"
  have m: "?m st = (s2, Inr ())" using j nt started by (simp add: job_get_any)
  have nb2: "\<not> rs_broken s2" using h(1) by (auto simp: registering_def at_stage_def)
  let ?s = "s2\<lparr>rs_ops := rs_ops s2 + 1, rs_session := session_commit (rs_session s2)\<rparr>"
  have "run_tool_job env i processor keys st = (?s, Inr ())"
    unfolding run_tool_job_def by (rule with_session_ok) (rule m nf nb2)+
  moreover have "registering ?d0 i h ?s"
    using h(1) by (auto simp: registering_def at_stage_def session_commit_def)
  moreover have "current_job i ?s = current_job i s2" "rs_events ?s = rs_events s2"
    "ss_committed (rs_session ?s) = ss_current (rs_session ?s)"
    by (simp_all add: current_job_def session_commit_def)
  ultimately show ?thesis using cur ev h(2) p0 r
    by (intro exI [of _ ?s] exI [of _ r] exI [of _ q] exI [of _ h]) auto
qed

lemma registering_other:
  assumes "registering d0 i g s" "\<forall>j. j_id (g j) = j_id j" "k \<noteq> i"
  shows "find (\<lambda>j. j_id j = k) (db_jobs (ss_current (rs_session s))) = find (\<lambda>j. j_id j = k) (db_jobs d0)"
  using assms by (auto simp: registering_def at_stage_def find_upd_job_other)

section \<open>Lemmas: the workspace\<close>

text \<open>A predicate of the disk that \<open>temp_workspace\<close> establishes survives the other steps.\<close>

lemma disk_inv_steps:
  "act_inv (\<lambda>s. Q (rs_disk s)) (modify_db f)"
  "act_inv (\<lambda>s. Q (rs_disk s)) (modify_job i h)"
  "act_inv (\<lambda>s. Q (rs_disk s)) (db_flush env)"
  "act_inv (\<lambda>s. Q (rs_disk s)) (db_commit env)"
  "act_inv (\<lambda>s. Q (rs_disk s)) (publish_job_event i b)"
proof -
  show f: "act_inv (\<lambda>s. Q (rs_disk s)) (db_flush env)"
    by (rule act_invI) (simp add: db_flush_def split: option.split)
  show "act_inv (\<lambda>s. Q (rs_disk s)) (modify_db f)" "act_inv (\<lambda>s. Q (rs_disk s)) (modify_job i h)"
    by (auto intro!: act_invI simp: modify_job_def modify_db_def)
  show "act_inv (\<lambda>s. Q (rs_disk s)) (publish_job_event i b)"
    by (auto intro!: act_invI simp: publish_job_event_def split: option.split)
  show "act_inv (\<lambda>s. Q (rs_disk s)) (db_commit env)"
    unfolding db_commit_def by (rule act_inv_bind [OF f]) (auto intro: act_invI)
qed

definition workspace_clear :: "path \<Rightarrow> run_state \<Rightarrow> bool" where
  "workspace_clear ws s \<longleftrightarrow> (\<forall>p. prefix ws p \<longrightarrow> rs_disk s p = None)"

lemma workspace_clear_steps:
  "act_inv (workspace_clear ws) (modify_db f)"
  "act_inv (workspace_clear ws) (modify_job i h)"
  "act_inv (workspace_clear ws) (db_flush env)"
  "act_inv (workspace_clear ws) (db_commit env)"
  "act_inv (workspace_clear ws) (publish_job_event i b)"
  using disk_inv_steps [of "\<lambda>d. \<forall>p. prefix ws p \<longrightarrow> d p = None"]
  by (simp_all add: act_inv_def workspace_clear_def)

lemma temp_workspace_clear:
  assumes "re_locked env = (\<lambda>_. False)"
    and "ws = workspace_path (re_settings env) tool (re_workspace_hex env)"
  shows "act_inv (workspace_clear ws) (temp_workspace env tool body)"
  using assms
  by (auto intro!: act_invI simp: fst_temp_workspace workspace_clear_def remove_workspace_def split: option.split)

lemma run_guarded_clear:
  assumes "re_locked env = (\<lambda>_. False)"
    and "ws = workspace_path (re_settings env) (j_tool j) (re_workspace_hex env)"
  shows "act_inv (workspace_clear ws) (run_guarded env j processor)"
proof -
  have b: "act_inv (workspace_clear ws) (run_body env j processor)"
    unfolding run_body_def run_processor_def
    by (intro act_inv_bind act_inv_read act_inv_pure workspace_clear_steps temp_workspace_clear assms)
  have h: "act_inv (workspace_clear ws) (abind (modify_job i f) (\<lambda>_. db_commit env))" for i f
    by (intro act_inv_bind workspace_clear_steps)
  show ?thesis
    using act_invD [OF b] act_invD [OF h]
    by (intro act_invI) (auto simp: run_guarded_def split: prod.split sum.split; metis fst_conv)
qed

lemma run_finally_clear: "act_inv (workspace_clear ws) (run_finally env i keys)"
proof -
  have "act_inv (workspace_clear ws)
    (abind (if b then abind (modify_job i f) (\<lambda>_. db_commit env) else areturn ())
        (\<lambda>_. publish_job_event i True))" for b f
    by (intro act_inv_bind act_inv_if act_inv_pure workspace_clear_steps)
  then show ?thesis
    unfolding run_finally_def act_inv_def by (auto split: if_splits)
qed

lemma run_started_clear:
  assumes "re_locked env = (\<lambda>_. False)"
    and "ws = workspace_path (re_settings env) (j_tool j) (re_workspace_hex env)"
  shows "act_inv (workspace_clear ws) (run_started env j processor keys)"
proof -
  have tf: "act_inv P (try_finally m n)" if "act_inv P m" "act_inv P n" for P m and n :: "('s, unit) action"
    using that by (fastforce simp: act_inv_def try_finally_def split: prod.split sum.split)
  show ?thesis
    unfolding run_started_def start_run_def
    by (intro act_inv_bind workspace_clear_steps tf run_guarded_clear run_finally_clear assms)
qed

lemma workspace_clear_frame [simp]:
  "workspace_clear ws (s\<lparr>rs_session := x, rs_broken := y\<rparr>) = workspace_clear ws s"
  by (simp add: workspace_clear_def)

lemma with_session_clear:
  assumes "workspace_clear ws (fst (m st))"
  shows "workspace_clear ws (fst (with_session env m st))"
proof -
  obtain s1 r where m: "m st = (s1, r)" by (cases "m st")
  with assms act_invD [OF workspace_clear_steps(4), of ws s1 env]
  have "workspace_clear ws (fst (abind m (\<lambda>_. db_commit env) st))"
    by (cases r) (auto simp: abind_def)
  then show ?thesis
    by (auto simp: with_session_def split: prod.split sum.split; metis fst_conv)
qed

section \<open>Lemmas: a session that could not be flushed\<close>

text \<open>The committed job and the job of the session are both still being processed.\<close>

definition job_processing :: "nat \<Rightarrow> db \<Rightarrow> bool" where
  "job_processing i d \<longleftrightarrow> (\<exists>j. find (\<lambda>j. j_id j = i) (db_jobs d) = Some j \<and> j_status j = PROCESSING)"

definition held :: "nat \<Rightarrow> run_state \<Rightarrow> bool" where
  "held i s \<longleftrightarrow> job_processing i (ss_committed (rs_session s)) \<and> job_processing i (ss_current (rs_session s))"

lemma held_flush: "act_inv (held i) (db_flush env)"
  by (rule act_invI) (simp add: held_def db_flush_def split: option.split)

lemma held_commit: "act_inv (held i) (db_commit env)"
  unfolding db_commit_def
  by (rule act_inv_bind [OF held_flush]) (auto intro!: act_invI simp: held_def session_commit_def)

lemma held_disk: "act_inv (held i) (on_disk m)"
  by (rule act_invI) (simp add: held_def on_disk_def split: prod.split)

lemma held_publish: "act_inv (held i) (publish_job_event k b)"
  by (auto intro!: act_invI simp: held_def publish_job_event_def split: option.split)

lemma held_modify:
  assumes "\<And>d. db_jobs (f d) = db_jobs d"
  shows "act_inv (held i) (modify_db f)"
  using assms by (auto intro!: act_invI simp: held_def modify_db_def job_processing_def)

lemma held_progress: "act_inv (held i) (modify_job i (set_progress p))"
  by (auto intro!: act_invI simp: held_def modify_job_def modify_db_def job_processing_def find_upd_job)
    (simp add: set_progress_def)

lemma held_report: "act_inv (held i) (report_progress env i p)"
  unfolding report_progress_def by (intro act_inv_bind held_progress held_commit held_publish)

lemma held_register: "act_inv (held i) (register_outputs env j produced)"
proof -
  have "act_inv (held i) (register_output env j k item)" for k item
    unfolding register_output_def Let_def
    by (intro act_inv_bind act_inv_case_prod held_disk held_modify held_flush act_inv_read) simp_all
  then show ?thesis
    unfolding register_outputs_def by (intro act_inv_bind act_inv_each act_inv_pure) auto
qed

lemma held_temp_workspace:
  assumes "\<And>ws. act_inv (held i) (body ws)"
  shows "act_inv (held i) (temp_workspace env tool body)"
  using act_invD [OF assms]
  by (auto intro!: act_invI simp: fst_temp_workspace held_def split: option.split)

lemma held_processor:
  assumes "confined processor" and "j_id j = i"
  shows "act_inv (held i) (run_processor env j processor files paths)"
proof -
  have disk: "held i (st\<lparr>rs_disk := d\<rparr>)" if "held i st" for st d
    using that by (simp add: held_def)
  have "act_inv (held i) (processor \<lparr>rc_job = j, rc_input_paths = paths,
      rc_input_names = map sf_original_name files, rc_options = j_options j, rc_workspace = ws,
      rc_report = report_progress env (j_id j)\<rparr>)" for ws
    using assms(1) disk by (rule confinedD) (simp_all add: held_report assms(2))
  then show ?thesis
    unfolding run_processor_def
    by (intro held_temp_workspace act_inv_bind act_inv_if act_inv_pure held_register)
qed

lemma broken_commit:
  "db_commit env s = (s', r) \<Longrightarrow> rs_broken s' \<Longrightarrow>
     rs_session s' = rs_session s \<and> (\<exists>e. r = Inl e)"
  by (auto simp: db_commit_def db_flush_def abind_def split: if_splits option.splits)

text \<open>If the session is broken at the end of the body, the committed job is still in process.\<close>

lemma run_body_broken:
  assumes c: "confined processor" and i: "j_id j = i" and h: "held i st"
    and b: "run_body env j processor st = (st', r)" and br: "rs_broken st'" and nb: "\<not> rs_broken st"
  shows "job_processing i (ss_committed (rs_session st')) \<and> (\<exists>e. r = Inl e)"
proof -
  let ?last = "abind (modify_job (j_id j) (mark_completed (re_finish env))) (\<lambda>_. db_commit env)"
  from b br nb obtain files where f: "input_files (j_id j) (ss_current (rs_session st)) = Inr files"
    by (cases "input_files (j_id j) (ss_current (rs_session st))") (auto simp: run_body_early)
  from b br nb f obtain paths where p: "rmap (\<lambda>f. storage_resolve (re_settings env) (sf_category f)
      (sf_relative_path f)) files = Inr paths"
    by (cases "rmap (\<lambda>f. storage_resolve (re_settings env) (sf_category f) (sf_relative_path f)) files")
      (auto simp: run_body_early)
  from b br nb have e: "abind (run_processor env j processor files paths) (\<lambda>_. ?last) st = (st', r)"
    unfolding run_body_eq [OF f p] by (auto split: if_splits)
  obtain s1 r1 where s1: "run_processor env j processor files paths st = (s1, r1)"
    by (cases "run_processor env j processor files paths st")
  have h1: "held i s1" using act_invD [OF held_processor [OF c i] h, of env files paths] by (simp add: s1)
  show ?thesis
  proof (cases r1)
    case (Inl x)
    with e s1 h1 show ?thesis by (auto simp: abind_def held_def)
  next
    case (Inr u)
    obtain s2 where s2: "modify_job (j_id j) (mark_completed (re_finish env)) s1 = (s2, Inr ())"
      and com: "ss_committed (rs_session s2) = ss_committed (rs_session s1)"
      by (simp add: modify_job_def modify_db_def)
    with e s1 Inr have "db_commit env s2 = (st', r)" by (simp add: abind_def)
    from broken_commit [OF this br] com h1 show ?thesis by (simp add: held_def)
  qed
qed

section \<open>A concrete run for the witnesses\<close>

definition writing_processor :: processor where
  "writing_processor ctx =
     abind (rc_report ctx 50) (\<lambda>_.
     abind (on_disk (\<lambda>d. (d(rc_workspace ctx @ [''out.pdf''] := Some [1]), Inr ()))) (\<lambda>_.
     areturn [produced_pdf (rc_workspace ctx @ [''out.pdf'']) ''out.pdf'']))"

lemma writing_processor_confined: "confined writing_processor"
  unfolding confined_def writing_processor_def by (auto intro!: act_inv_bind act_inv_on_disk)

definition sample_job :: job where
  "sample_job =
     \<lparr>j_id = 7, j_tool = ''protect'', j_status = QUEUED, j_progress = 0,
      j_options = [(''user_password'', JStr ''s3cret'')], j_celery_task_id = None,
      j_user_id = None, j_error_code = None, j_error_message = None, j_started_at = None,
      j_finished_at = None, j_expires_at = None, j_created_at = 0, j_visitor_id = None,
      j_session_id = None, j_device = None, j_browser = None, j_os = None, j_country = None,
      j_source = None, j_is_returning = False\<rparr>"

definition sample_run_env :: run_env where
  "sample_run_env =
     \<lparr>re_settings = default_settings, re_nfkc = (\<lambda>x. x), re_sha256 = (\<lambda>_. ''0''),
      re_today = (2026, 7, 9), re_start = 1, re_register = 2, re_finish = 3,
      re_workspace_hex = ''ab'', re_mkdir_fault = None, re_output_hex = (\<lambda>_. ''cd''),
      re_output_id = (\<lambda>k. 100 + k), re_move_fault = (\<lambda>_. None), re_db_fault = (\<lambda>_. None),
      re_locked = (\<lambda>_. False)\<rparr>"

definition sample_run_state :: run_state where
  "sample_run_state =
     (let d = \<lparr>db_files = [], db_jobs = [sample_job], db_links = [], db_visits = []\<rparr>
      in \<lparr>rs_disk = Map.empty, rs_session = \<lparr>ss_committed = d, ss_current = d\<rparr>,
          rs_broken = False, rs_ops = 0, rs_events = []\<rparr>)"

lemma sample_job_found:
  "find (\<lambda>j. j_id j = 7) (db_jobs (ss_current (rs_session sample_run_state))) = Some sample_job"
  "\<not> is_terminal (j_status sample_job)"
  by (simp_all add: sample_run_state_def sample_job_def Let_def)

section \<open>Properties\<close>

lemma run_tool_job_ends:
  assumes "re_db_fault env = (\<lambda>_. None)" and "\<not> rs_broken st" and "confined processor"
    and "find (\<lambda>j. j_id j = i) (db_jobs (ss_current (rs_session st))) = Some j"
    and "\<not> is_terminal (j_status j)"
  shows "\<exists>s j' e. run_tool_job env i processor keys st = (s, Inr ())
    \<and> find (\<lambda>j. j_id j = i) (db_jobs (ss_committed (rs_session s))) = Some j'
    \<and> (j_status j' = COMPLETED \<and> j_progress j' = 100 \<and> j_error_code j' = j_error_code j
       \<or> j_status j' = FAILED \<and> j_error_code j' = Some (fst (failure_of e))
         \<and> j_error_message j' = Some (take 2000 (snd (failure_of e))))
    \<and> j_started_at j' = Some (re_start env) \<and> j_finished_at j' = Some (re_finish env)
    \<and> j_options j' = redact keys (j_options j)
    \<and> (\<forall>k. k \<noteq> i \<longrightarrow> find (\<lambda>j. j_id j = k) (db_jobs (ss_committed (rs_session s)))
         = find (\<lambda>j. j_id j = k) (db_jobs (ss_current (rs_session st))))
    \<and> rs_events s \<noteq> [] \<and> last (rs_events s) = \<lparr>ev_job = i, ev_status = j_status j',
        ev_progress = j_progress j', ev_error_code = j_error_code j'\<rparr>"
proof -
  obtain s r q g where run: "run_tool_job env i processor keys st = (s, Inr ())"
    and com: "ss_committed (rs_session s) = ss_current (rs_session s)"
    and cur: "current_job i s = Some (redact_job keys (outcome env r (in_progress env q j)))"
    and g: "registering (ss_current (rs_session st)) i g s" "\<forall>j. j_id (g j) = j_id j"
    and ev: "rs_events s \<noteq> []" "last (rs_events s) = \<lparr>ev_job = i,
        ev_status = j_status (outcome env r (in_progress env q j)),
        ev_progress = j_progress (outcome env r (in_progress env q j)),
        ev_error_code = j_error_code (outcome env r (in_progress env q j))\<rparr>"
    using run_tool_job_ok [OF assms, of keys] by blast
  let ?j' = "redact_job keys (outcome env r (in_progress env q j))"
  define e where "e = (case r of Inl e \<Rightarrow> e | Inr _ \<Rightarrow> no_output_error)"
  have "j_status ?j' = COMPLETED \<and> j_progress ?j' = 100 \<and> j_error_code ?j' = j_error_code j
       \<or> j_status ?j' = FAILED \<and> j_error_code ?j' = Some (fst (failure_of e))
         \<and> j_error_message ?j' = Some (take 2000 (snd (failure_of e)))"
    by (cases r) (simp_all add: e_def outcome_def in_progress_def redact_job_def job_transition_defs)
  moreover have "j_started_at ?j' = Some (re_start env) \<and> j_finished_at ?j' = Some (re_finish env)
      \<and> j_options ?j' = redact keys (j_options j)"
    by (cases r) (simp_all add: outcome_def in_progress_def redact_job_def job_transition_defs)
  moreover have "\<forall>k. k \<noteq> i \<longrightarrow> find (\<lambda>j. j_id j = k) (db_jobs (ss_committed (rs_session s)))
         = find (\<lambda>j. j_id j = k) (db_jobs (ss_current (rs_session st)))"
    using registering_other [OF g] com by simp
  moreover have "find (\<lambda>j. j_id j = i) (db_jobs (ss_committed (rs_session s))) = Some ?j'"
    using cur com by (simp add: current_job_def)
  ultimately show ?thesis
    using run ev by (intro exI [of _ s] exI [of _ ?j'] exI [of _ e]) (simp add: redact_job_def)
qed

text \<open>
  C4: Every job that is run ends. With a database that works, whatever the processor does (it
  may raise anything, at any moment) the run returns normally and the committed job row is
  either completed at 100 percent or failed with the code and the truncated message of the
  exception; its end time is set, the named options are redacted, other jobs are untouched
  and the last event published tells exactly this final state.
\<close>

theorem run_tool_job_finishes:
  assumes "re_db_fault env = (\<lambda>_. None)" and "\<not> rs_broken st" and "confined processor"
    and "find (\<lambda>j. j_id j = i) (db_jobs (ss_current (rs_session st))) = Some j"
    and "\<not> is_terminal (j_status j)"
  shows "\<exists>s j' e. run_tool_job env i processor keys st = (s, Inr ())
    \<and> find (\<lambda>j. j_id j = i) (db_jobs (ss_committed (rs_session s))) = Some j'
    \<and> (j_status j' = COMPLETED \<and> j_progress j' = 100 \<and> j_error_code j' = j_error_code j
       \<or> j_status j' = FAILED \<and> j_error_code j' = Some (fst (failure_of e))
         \<and> j_error_message j' = Some (take 2000 (snd (failure_of e))))
    \<and> j_started_at j' = Some (re_start env) \<and> j_finished_at j' = Some (re_finish env)
    \<and> j_options j' = redact keys (j_options j)
    \<and> (\<forall>k. k \<noteq> i \<longrightarrow> find (\<lambda>j. j_id j = k) (db_jobs (ss_committed (rs_session s)))
         = find (\<lambda>j. j_id j = k) (db_jobs (ss_current (rs_session st))))
    \<and> rs_events s \<noteq> [] \<and> last (rs_events s) = \<lparr>ev_job = i, ev_status = j_status j',
        ev_progress = j_progress j', ev_error_code = j_error_code j'\<rparr>"
  using assms by (rule run_tool_job_ends)

theorem run_tool_job_finishes_witness:
  "\<exists>s j'. run_tool_job sample_run_env 7 writing_processor [''user_password''] sample_run_state = (s, Inr ())
    \<and> find (\<lambda>j. j_id j = 7) (db_jobs (ss_committed (rs_session s))) = Some j'
    \<and> is_terminal (j_status j') \<and> j_options j' = [(''user_password'', JStr ''[redacted]'')]"
proof -
  have "re_db_fault sample_run_env = (\<lambda>_. None)" "\<not> rs_broken sample_run_state"
    by (simp_all add: sample_run_env_def sample_run_state_def Let_def)
  from run_tool_job_finishes [OF this writing_processor_confined sample_job_found, of "[''user_password'']"]
  obtain s j' where run: "run_tool_job sample_run_env 7 writing_processor [''user_password''] sample_run_state = (s, Inr ())"
    and "find (\<lambda>j. j_id j = 7) (db_jobs (ss_committed (rs_session s))) = Some j'"
    and st: "j_status j' = COMPLETED \<or> j_status j' = FAILED"
    and opt: "j_options j' = redact [''user_password''] (j_options sample_job)" by blast
  moreover from st have "is_terminal (j_status j')" by auto
  moreover from opt have "j_options j' = [(''user_password'', JStr ''[redacted]'')]"
    by (simp add: sample_job_def redact_def)
  ultimately show ?thesis by blast
qed

text \<open>
  No scratch file outlives a run. Whatever the processor writes and whatever fails
  (processor, storage or database), after \<open>run_tool_job\<close> the job's workspace directory holds
  no file, provided none is locked by another process.
\<close>

theorem run_tool_job_removes_workspace:
  assumes "re_locked env = (\<lambda>_. False)"
    and "find (\<lambda>j. j_id j = i) (db_jobs (ss_current (rs_session st))) = Some j"
    and "ws = workspace_path (re_settings env) (j_tool j) (re_workspace_hex env)"
    and "\<forall>p. prefix ws p \<longrightarrow> rs_disk st p = None"
    and "prefix ws p"
  shows "rs_disk (fst (run_tool_job env i processor keys st)) p = None"
proof -
  have st: "workspace_clear ws st" using assms(4) by (simp add: workspace_clear_def)
  have "workspace_clear ws (fst (run_tool_job env i processor keys st))"
    unfolding run_tool_job_def
    by (rule with_session_clear)
      (use assms(2) st act_invD [OF run_started_clear [OF assms(1,3)] st] in \<open>simp add: job_get_any\<close>)
  then show ?thesis using assms(5) by (simp add: workspace_clear_def)
qed

theorem run_tool_job_removes_workspace_witness:
  "rs_disk (fst (run_tool_job sample_run_env 7 writing_processor [] sample_run_state))
     [''storage'', ''temp'', ''protect-ab'', ''out.pdf''] = None"
proof -
  have ws: "[''storage'', ''temp'', ''protect-ab''] = workspace_path (re_settings sample_run_env)
      (j_tool sample_job) (re_workspace_hex sample_run_env)"
    by (simp add: workspace_path_def temp_dir_def sample_run_env_def sample_job_def default_settings_def)
  show ?thesis
    by (rule run_tool_job_removes_workspace [OF _ sample_job_found(1) ws])
      (simp_all add: sample_run_env_def sample_run_state_def Let_def)
qed

text \<open>
  C8: The comment \<open>never let a job row dangle in 'processing'\<close> is not honoured when the
  database itself refuses a row: if a flush fails in the body (progress update, output row,
  final commit), the handler's own commit raises \<open>PendingRollbackError\<close> because nothing rolls
  the session back. The run ends with that exception, the committed job keeps the status
  \<open>processing\<close> and no further event is published.
\<close>

theorem run_tool_job_flush_failure_dangles:
  assumes "confined processor"
    and "find (\<lambda>j. j_id j = i) (db_jobs (ss_current (rs_session st))) = Some j"
    and "\<not> is_terminal (j_status j)"
    and "start_run env j st = (s1, Inr ())" and "\<not> rs_broken s1" and "held i s1"
    and "run_body env j processor s1 = (s2, r)" and "rs_broken s2"
  shows "\<exists>s. run_tool_job env i processor keys st = (s, Inl pending_rollback)
    \<and> (\<exists>j'. find (\<lambda>j. j_id j = i) (db_jobs (ss_committed (rs_session s))) = Some j'
         \<and> j_status j' = PROCESSING)
    \<and> rs_events s = rs_events s2"
proof -
  have i: "j_id j = i" using job_row.find_key_Some [OF assms(2)] by simp
  from run_body_broken [OF assms(1) i assms(6,7,8,5)] obtain e where r: "r = Inl e"
    and d: "job_processing i (ss_committed (rs_session s2))" by blast
  obtain s3 where m: "modify_job (j_id j) (mark_failed (re_finish env) (fst (failure_of e)) (snd (failure_of e))) s2
      = (s3, Inr ())" and s3: "rs_broken s3" "rs_events s3 = rs_events s2"
      "ss_committed (rs_session s3) = ss_committed (rs_session s2)"
    using assms(8) by (simp add: modify_job_def modify_db_def)
  have "db_commit env s3 = (s3, Inl pending_rollback)"
    using s3 by (simp add: db_commit_def db_flush_def abind_def)
  with m have g: "run_guarded env j processor s1 = (s3, Inl pending_rollback)"
    by (simp add: run_guarded_def assms(7) r abind_def)
  have f: "run_finally env i keys s3 = (s3, Inl pending_rollback)"
    using s3 by (simp add: run_finally_def)
  have started: "run_started env j processor keys st = (s3, Inl pending_rollback)"
    using assms(4) g f i by (simp add: run_started_def abind_def try_finally_def)
  have run: "run_tool_job env i processor keys st
      = (s3\<lparr>rs_session := session_rollback (rs_session s3), rs_broken := False\<rparr>, Inl pending_rollback)"
    using assms(2,3) started by (simp add: run_tool_job_def with_session_def abind_def job_get_any)
  have "\<exists>j'. find (\<lambda>j. j_id j = i) (db_jobs (ss_committed (session_rollback (rs_session s3)))) = Some j'
      \<and> j_status j' = PROCESSING"
    using d by (simp add: session_rollback_def job_processing_def s3(3))
  then show ?thesis using run s3(2) by simp
qed

definition refusing_env :: run_env where
  "refusing_env = sample_run_env\<lparr>re_db_fault := (\<lambda>n. if n = 1 then Some (OtherError ''OperationalError'' []) else None)\<rparr>"

theorem run_tool_job_flush_failure_dangles_witness:
  "\<exists>s. run_tool_job refusing_env 7 writing_processor [] sample_run_state = (s, Inl pending_rollback)
    \<and> (\<exists>j'. find (\<lambda>j. j_id j = 7) (db_jobs (ss_committed (rs_session s))) = Some j'
         \<and> j_status j' = PROCESSING)"
proof -
  let ?s1 = "fst (start_run refusing_env sample_job sample_run_state)"
  let ?b = "run_body refusing_env sample_job writing_processor ?s1"
  have s1: "start_run refusing_env sample_job sample_run_state = (?s1, Inr ())"
    "\<not> rs_broken ?s1" "held 7 ?s1"
    by (simp_all add: start_run_def abind_def modify_job_def modify_db_def db_commit_def db_flush_def
        refusing_env_def sample_run_env_def sample_run_state_def Let_def publish_job_event_def
        current_job_def upd_job_def sample_job_def held_def job_processing_def session_commit_def
        mark_processing_def)
  have "rs_broken (fst ?b)"
    by (simp add: start_run_def abind_def modify_job_def modify_db_def db_commit_def db_flush_def
        refusing_env_def sample_run_env_def sample_run_state_def Let_def publish_job_event_def
        current_job_def upd_job_def sample_job_def session_commit_def mark_processing_def
        run_body_def input_files_def job_files_def aresult_def run_processor_def temp_workspace_def
        writing_processor_def report_progress_def)
  moreover have "?b = (fst ?b, snd ?b)" by simp
  ultimately show ?thesis
    using run_tool_job_flush_failure_dangles [OF writing_processor_confined sample_job_found s1, of "fst ?b" "snd ?b" "[]"]
    by blast
qed

end
