(* ===== verification/JobOutputs.thy ===== *)
theory JobOutputs
  imports JobRunner
begin

text \<open>
  What a completed job hands out: \<open>_register_outputs\<close> (definitions in \<open>JobRunner\<close>) moves
  every produced file into \<open>processed/\<close> and links one row per file, in the processor's order.
\<close>

section \<open>One output\<close>

lemma allocate_inj:
  assumes "al_absolute_path (allocate s h t c e) = al_absolute_path (allocate s h' t c e')"
    and "hex_name h" "hex_name h'" "slash \<notin> set e" "slash \<notin> set e'"
  shows "h = h'"
proof -
  obtain y m d where t: "t = (y, m, d)" by (cases t)
  have "generate_stored_name h e = generate_stored_name h' e'"
    using assms by (simp add: t allocate_eq)
  then show ?thesis using takeWhile_stored_name assms(2,3) by metis
qed

lemma allocate_under_root:
  assumes "hex_name h" "slash \<notin> set e"
  shows "prefix (category_root s c) (al_absolute_path (allocate s h t c e))"
  using storage_resolve_prefix [OF allocate_resolve [OF assms]] .

definition output_target :: "run_env \<Rightarrow> nat \<Rightarrow> produced_file \<Rightarrow> allocated" where
  "output_target env k item =
     allocate (re_settings env) (re_output_hex env k) (re_today env) PROCESSED (output_extension item)"

lemma output_extension_no_slash: "slash \<notin> set (output_extension item)"
  by (simp add: output_extension_def py_or_def file_extension_no_slash)

definition output_link :: "job \<Rightarrow> run_env \<Rightarrow> nat \<Rightarrow> job_file" where
  "output_link j env k =
     \<lparr>jf_job_id = j_id j, jf_file_id = re_output_id env k, jf_role = OUTPUT, jf_position = k\<rparr>"

lemma register_output_Inr:
  assumes "register_output env j k item st = (st', Inr ())"
    and "re_db_fault env = (\<lambda>_. None)" and "\<not> rs_broken st"
  obtains c where "rs_disk st (pf_path item) = Some c"
    and "rs_disk st' = (rs_disk st)(pf_path item := None, al_absolute_path (output_target env k item) := Some c)"
    and "ss_current (rs_session st') = (ss_current (rs_session st))
      \<lparr>db_files := db_files (ss_current (rs_session st))
         @ [output_row env j k item (output_extension item) (output_target env k item) (int (length c)) c],
       db_links := db_links (ss_current (rs_session st)) @ [output_link j env k]\<rparr>"
    and "\<not> rs_broken st'"
proof -
  let ?i = "import_file (re_move_fault env k) (re_settings env) (re_output_hex env k) (re_today env)
      (pf_path item) PROCESSED (output_extension item) True (rs_disk st)"
  obtain d a n where i: "?i = (d, Inr (a, n))"
    using assms(1) by (cases ?i; cases "snd ?i") (auto simp: register_output_def Let_def abind_def on_disk_def)
  then obtain c where c: "rs_disk st (pf_path item) = Some c"
    and a: "a = output_target env k item" and n: "n = int (length c)"
    and d: "d = (rs_disk st)(pf_path item := None, al_absolute_path (output_target env k item) := Some c)"
    by (auto simp: import_file_def output_target_def Let_def raise_app_def disk_write_def disk_unlink_def
        split: option.splits)
  have "st' = st\<lparr>rs_disk := d, rs_ops := rs_ops st + 1,
     rs_session := (rs_session st)\<lparr>ss_current := (ss_current (rs_session st))
      \<lparr>db_files := db_files (ss_current (rs_session st))
         @ [output_row env j k item (output_extension item) (output_target env k item) (int (length c)) c],
       db_links := db_links (ss_current (rs_session st)) @ [output_link j env k]\<rparr>\<rparr>\<rparr>"
    using assms i a n d
    by (simp add: register_output_def Let_def abind_def on_disk_def modify_db_def db_flush_def output_link_def)
  with c d assms(3) that show thesis by simp
qed

section \<open>All outputs\<close>

definition output_stored ::
  "run_env \<Rightarrow> job \<Rightarrow> nat \<Rightarrow> produced_file \<Rightarrow> stored_file \<Rightarrow> disk \<Rightarrow> disk \<Rightarrow> bool" where
  "output_stored env j k item r d d' \<longleftrightarrow>
     (\<exists>c. d (pf_path item) = Some c
        \<and> r = output_row env j k item (output_extension item) (output_target env k item) (int (length c)) c
        \<and> d' (al_absolute_path (output_target env k item)) = Some c)"

lemma register_each_Inr:
  assumes "act_each (\<lambda>(k, item). register_output env j k item) (enumerate k0 items) st = (st', Inr us)"
    and "re_db_fault env = (\<lambda>_. None)" and "\<not> rs_broken st"
    and "\<And>k. hex_name (re_output_hex env k)" and "inj (re_output_hex env)"
    and "\<And>item. item \<in> set items \<Longrightarrow> \<not> prefix (processed_dir (re_settings env)) (pf_path item)"
  shows "\<exists>rows. length rows = length items
    \<and> ss_current (rs_session st') = (ss_current (rs_session st))
        \<lparr>db_files := db_files (ss_current (rs_session st)) @ rows,
         db_links := db_links (ss_current (rs_session st)) @ map (output_link j env) [k0..<k0 + length items]\<rparr>
    \<and> (\<forall>m < length items. output_stored env j (k0 + m) (items ! m) (rows ! m) (rs_disk st) (rs_disk st'))
    \<and> (\<forall>p. (\<forall>k e. k0 \<le> k \<longrightarrow> slash \<notin> set e \<longrightarrow> p \<noteq> al_absolute_path (allocate (re_settings env)
           (re_output_hex env k) (re_today env) PROCESSED e))
         \<longrightarrow> p \<notin> pf_path ` set items \<longrightarrow> rs_disk st' p = rs_disk st p)"
  using assms(1,3,6)
proof (induction items arbitrary: k0 st us)
  case Nil
  then show ?case by (simp add: areturn_def)
next
  case (Cons item items)
  from Cons.prems(1) obtain s1 us' where o: "register_output env j k0 item st = (s1, Inr ())"
    and rest: "act_each (\<lambda>(k, item). register_output env j k item) (enumerate (Suc k0) items) s1 = (st', Inr us')"
    by (auto simp: abind_def areturn_def split: prod.splits sum.splits)
  let ?t = "al_absolute_path (output_target env k0 item)"
  obtain c where c: "rs_disk st (pf_path item) = Some c"
    and d1: "rs_disk s1 = (rs_disk st)(pf_path item := None, ?t := Some c)"
    and db1: "ss_current (rs_session s1) = (ss_current (rs_session st))
      \<lparr>db_files := db_files (ss_current (rs_session st))
         @ [output_row env j k0 item (output_extension item) (output_target env k0 item) (int (length c)) c],
       db_links := db_links (ss_current (rs_session st)) @ [output_link j env k0]\<rparr>"
    and nb: "\<not> rs_broken s1"
    using register_output_Inr [OF o assms(2) Cons.prems(2)] by blast
  have out: "\<not> prefix (processed_dir (re_settings env)) (pf_path i)" if "i \<in> set items" for i
    using Cons.prems(3) that by simp
  obtain rows where len: "length rows = length items"
    and db: "ss_current (rs_session st') = (ss_current (rs_session s1))
        \<lparr>db_files := db_files (ss_current (rs_session s1)) @ rows,
         db_links := db_links (ss_current (rs_session s1)) @ map (output_link j env) [Suc k0..<Suc k0 + length items]\<rparr>"
    and st: "\<And>m. m < length items \<Longrightarrow>
        output_stored env j (Suc k0 + m) (items ! m) (rows ! m) (rs_disk s1) (rs_disk st')"
    and fr: "\<And>p. (\<forall>k e. Suc k0 \<le> k \<longrightarrow> slash \<notin> set e \<longrightarrow> p \<noteq> al_absolute_path (allocate (re_settings env)
           (re_output_hex env k) (re_today env) PROCESSED e))
         \<Longrightarrow> p \<notin> pf_path ` set items \<Longrightarrow> rs_disk st' p = rs_disk s1 p"
    using Cons.IH [OF rest nb out] by blast
  have t_root: "prefix (processed_dir (re_settings env)) ?t"
    using allocate_under_root [OF assms(4) output_extension_no_slash, of "re_settings env" PROCESSED]
    by (simp add: output_target_def)
  have t_ne: "pf_path i \<noteq> ?t" if "i \<in> set (item # items)" for i
    using t_root Cons.prems(3) [OF that] by auto
  have t_paths: "?t \<notin> pf_path ` set items"
  proof
    assume "?t \<in> pf_path ` set items"
    then obtain i where "i \<in> set items" "?t = pf_path i" by blast
    with t_ne [of i] show False by simp
  qed
  have t_item: "pf_path item \<noteq> ?t" using t_ne [of item] by simp
  have t_later: "?t \<noteq> al_absolute_path (allocate (re_settings env) (re_output_hex env k) (re_today env) PROCESSED e)"
    if "Suc k0 \<le> k" "slash \<notin> set e" for k e
  proof
    assume "?t = al_absolute_path (allocate (re_settings env) (re_output_hex env k) (re_today env) PROCESSED e)"
    then have "re_output_hex env k0 = re_output_hex env k"
      unfolding output_target_def
      by (rule allocate_inj) (rule assms(4) output_extension_no_slash that(2))+
    with assms(5) that(1) show False by (auto dest: injD)
  qed
  have t_end: "rs_disk st' ?t = Some c" using fr t_paths t_later by (simp add: d1)
  let ?rows = "output_row env j k0 item (output_extension item) (output_target env k0 item) (int (length c)) c # rows"
  have stored: "output_stored env j (k0 + m) ((item # items) ! m) (?rows ! m) (rs_disk st) (rs_disk st')"
    if "m < length (item # items)" for m
  proof (cases m)
    case 0
    then show ?thesis using c t_end by (simp add: output_stored_def)
  next
    case (Suc m')
    with that have "m' < length items" by simp
    from st [OF this] obtain c' where c': "rs_disk s1 (pf_path (items ! m')) = Some c'"
      and r': "rows ! m' = output_row env j (Suc k0 + m') (items ! m') (output_extension (items ! m'))
        (output_target env (Suc k0 + m') (items ! m')) (int (length c')) c'"
      and d': "rs_disk st' (al_absolute_path (output_target env (Suc k0 + m') (items ! m'))) = Some c'"
      by (auto simp: output_stored_def)
    have "pf_path (items ! m') \<noteq> ?t" using t_ne [of "items ! m'"] \<open>m' < length items\<close> by simp
    moreover have "pf_path (items ! m') \<noteq> pf_path item" using c' d1 t_item by auto
    ultimately have "rs_disk st (pf_path (items ! m')) = Some c'" using c' d1 by simp
    with r' d' Suc show ?thesis by (simp add: output_stored_def)
  qed
  have frame: "rs_disk st' p = rs_disk st p"
    if "\<forall>k e. k0 \<le> k \<longrightarrow> slash \<notin> set e \<longrightarrow> p \<noteq> al_absolute_path (allocate (re_settings env)
           (re_output_hex env k) (re_today env) PROCESSED e)" "p \<notin> pf_path ` set (item # items)" for p
  proof -
    have "p \<noteq> ?t" unfolding output_target_def using that(1) output_extension_no_slash by auto
    with that fr [of p] d1 show ?thesis by auto
  qed
  have links: "output_link j env k0 # map (output_link j env) [Suc k0..<Suc k0 + length items]
      = map (output_link j env) [k0..<k0 + length (item # items)]"
    using upt_conv_Cons [of k0 "k0 + length (item # items)"] by simp
  have "ss_current (rs_session st') = (ss_current (rs_session st))
      \<lparr>db_files := db_files (ss_current (rs_session st)) @ ?rows,
       db_links := db_links (ss_current (rs_session st)) @ map (output_link j env) [k0..<k0 + length (item # items)]\<rparr>"
    unfolding links [symmetric] db db1 by simp
  with len stored frame show ?case by (intro exI [of _ ?rows]) simp
qed

section \<open>Properties\<close>

text \<open>
  C7: The outputs of a completed job are exactly the produced files. When \<open>_register_outputs\<close>
  succeeds (files produced outside \<open>processed/\<close>, fresh UUIDs), it has added one row and one
  output link per produced file, numbered in production order; each row resolves to a file
  that holds, byte for byte, what the processor left at the produced path, with its size,
  checksum, sanitised download name and the job's owner.
\<close>

theorem register_outputs_exact:
  assumes "register_outputs env j produced st = (st', Inr ())"
    and "re_db_fault env = (\<lambda>_. None)" and "\<not> rs_broken st"
    and "\<And>k. hex_name (re_output_hex env k)" and "inj (re_output_hex env)"
    and "\<And>item. item \<in> set produced \<Longrightarrow> \<not> prefix (processed_dir (re_settings env)) (pf_path item)"
  shows "\<exists>rows. length rows = length produced
    \<and> db_files (ss_current (rs_session st')) = db_files (ss_current (rs_session st)) @ rows
    \<and> db_links (ss_current (rs_session st')) = db_links (ss_current (rs_session st))
        @ map (\<lambda>k. \<lparr>jf_job_id = j_id j, jf_file_id = re_output_id env k, jf_role = OUTPUT,
            jf_position = k\<rparr>) [0..<length produced]
    \<and> (\<forall>k < length produced. \<exists>c p. rs_disk st (pf_path (produced ! k)) = Some c
        \<and> sf_id (rows ! k) = re_output_id env k
        \<and> storage_resolve (re_settings env) (sf_category (rows ! k)) (sf_relative_path (rows ! k)) = Inr p
        \<and> rs_disk st' p = Some c
        \<and> sf_size_bytes (rows ! k) = int (length c) \<and> sf_checksum (rows ! k) = Some (re_sha256 env c)
        \<and> sf_original_name (rows ! k)
            = sanitize_filename (re_nfkc env) (pf_download_name (produced ! k)) ''file''
        \<and> sf_user_id (rows ! k) = j_user_id j)"
proof -
  from assms(1) obtain us where
    e: "act_each (\<lambda>(k, item). register_output env j k item) (enumerate 0 produced) st = (st', Inr us)"
    by (auto simp: register_outputs_def abind_def areturn_def split: prod.splits sum.splits)
  from register_each_Inr [OF e assms(2-6)] obtain rows where len: "length rows = length produced"
    and db: "ss_current (rs_session st') = (ss_current (rs_session st))
        \<lparr>db_files := db_files (ss_current (rs_session st)) @ rows,
         db_links := db_links (ss_current (rs_session st)) @ map (output_link j env) [0..<0 + length produced]\<rparr>"
    and stored: "\<forall>m < length produced. output_stored env j (0 + m) (produced ! m) (rows ! m) (rs_disk st) (rs_disk st')"
    by blast
  have "\<exists>c p. rs_disk st (pf_path (produced ! k)) = Some c
        \<and> sf_id (rows ! k) = re_output_id env k
        \<and> storage_resolve (re_settings env) (sf_category (rows ! k)) (sf_relative_path (rows ! k)) = Inr p
        \<and> rs_disk st' p = Some c
        \<and> sf_size_bytes (rows ! k) = int (length c) \<and> sf_checksum (rows ! k) = Some (re_sha256 env c)
        \<and> sf_original_name (rows ! k)
            = sanitize_filename (re_nfkc env) (pf_download_name (produced ! k)) ''file''
        \<and> sf_user_id (rows ! k) = j_user_id j" if "k < length produced" for k
  proof -
    from stored that obtain c where c: "rs_disk st (pf_path (produced ! k)) = Some c"
      and r: "rows ! k = output_row env j k (produced ! k) (output_extension (produced ! k))
        (output_target env k (produced ! k)) (int (length c)) c"
      and d: "rs_disk st' (al_absolute_path (output_target env k (produced ! k))) = Some c"
      by (auto simp: output_stored_def)
    have "storage_resolve (re_settings env) PROCESSED (al_relative_path (output_target env k (produced ! k)))
        = Inr (al_absolute_path (output_target env k (produced ! k)))"
      unfolding output_target_def using assms(4) output_extension_no_slash by (rule allocate_resolve)
    with c d show ?thesis unfolding r output_row_def by simp
  qed
  with len db show ?thesis
    by (intro exI [of _ rows]) (simp add: output_link_def [abs_def])
qed

definition counting_env :: run_env where
  "counting_env = sample_run_env\<lparr>re_output_hex := (\<lambda>k. ''a'' @ replicate k (CHR ''b''))\<rparr>"

theorem register_outputs_exact_witness:
  "\<exists>st' rows. register_outputs counting_env sample_job [produced_pdf [''tmp'', ''o.pdf''] ''x.pdf'']
      (sample_run_state\<lparr>rs_disk := [[''tmp'', ''o.pdf''] \<mapsto> [1, 2]]\<rparr>) = (st', Inr ())
    \<and> db_files (ss_current (rs_session st')) = rows \<and> length rows = 1
    \<and> sf_size_bytes (rows ! 0) = 2"
proof -
  let ?st = "sample_run_state\<lparr>rs_disk := [[''tmp'', ''o.pdf''] \<mapsto> [1, 2]]\<rparr>"
  let ?produced = "[produced_pdf [''tmp'', ''o.pdf''] ''x.pdf'']"
  let ?r = "register_outputs counting_env sample_job ?produced ?st"
  have ok: "?r = (fst ?r, Inr ())"
    by (simp add: register_outputs_def register_output_def Let_def abind_def areturn_def on_disk_def
        import_file_def produced_pdf_def counting_env_def sample_run_env_def sample_run_state_def
        modify_db_def db_flush_def)
  have inj: "inj (re_output_hex counting_env)"
    by (rule injI) (simp add: counting_env_def)
  have hex: "hex_name (re_output_hex counting_env k)" for k
    by (simp add: counting_env_def hex_name_def)
  have nf: "re_db_fault counting_env = (\<lambda>_. None)" "\<not> rs_broken ?st"
    by (simp_all add: counting_env_def sample_run_env_def sample_run_state_def Let_def)
  have out: "\<not> prefix (processed_dir (re_settings counting_env)) (pf_path item)"
    if "item \<in> set ?produced" for item
    using that by (simp add: produced_pdf_def processed_dir_def counting_env_def sample_run_env_def default_settings_def)
  from register_outputs_exact [OF ok nf hex inj out] obtain rows
    where "length rows = 1" and "db_files (ss_current (rs_session (fst ?r)))
        = db_files (ss_current (rs_session ?st)) @ rows"
      and k0: "\<exists>c. rs_disk ?st [''tmp'', ''o.pdf''] = Some c \<and> sf_size_bytes (rows ! 0) = int (length c)"
    by (auto simp: produced_pdf_def)
  moreover have "db_files (ss_current (rs_session ?st)) = []" by (simp add: sample_run_state_def Let_def)
  moreover from k0 have "sf_size_bytes (rows ! 0) = 2" by auto
  ultimately show ?thesis using ok by auto
qed

end
