(* ===== verification/PageOps.thy ===== *)
theory PageOps
  imports Actions "HOL-Library.Multiset"
begin

text \<open>
  \<open>app/utils/pdf_pages.py\<close>: page selections and the page operations on PDF files, and the page
  filters of \<open>app/utils/pdf_overlay.py\<close>.

  pypdf is a parameter (record \<open>pypdf\<close>): what \<open>PdfReader\<close> makes of a file (or its error text),
  the clockwise rotation of a page and the bytes that \<open>PdfWriter.write\<close> produces for a list
  of pages. A writer is the list of the pages added to it. \<open>lib_write\<close> returns the bytes
  that reach the file and the exception that interrupts the writing, if any. Operations are
  actions on the disk.
\<close>

section \<open>Page selections\<close>

definition page_part :: "string \<Rightarrow> int list option" where
  "page_part part =
     (case split_first CHR ''-'' part of
        Some (a, b) \<Rightarrow>
          (case py_int a of None \<Rightarrow> None
           | Some s \<Rightarrow> (case py_int b of None \<Rightarrow> None | Some e \<Rightarrow> Some [s..e]))
      | None \<Rightarrow> map_option (\<lambda>n. [n]) (py_int part))"

text \<open>The loop over the parts; \<open>None\<close> stands for the \<open>ValueError\<close>.\<close>

fun page_parts :: "string list \<Rightarrow> int list option" where
  "page_parts [] = Some []"
| "page_parts (part # parts) =
     (if part = [] then page_parts parts
      else case page_part part of None \<Rightarrow> None
        | Some ps \<Rightarrow> map_option ((@) ps) (page_parts parts))"

definition int_list_str :: "int list \<Rightarrow> string" where
  "int_list_str xs = ''['' @ py_join '', '' (map int_str xs) @ '']''"

definition parse_page_selection :: "string \<Rightarrow> nat \<Rightarrow> (py_exc, int list) result" where
  "parse_page_selection spec ntotal =
     (case page_parts (split_on CHR '','' (filter (\<lambda>c. c \<noteq> CHR '' '') spec)) of
        None \<Rightarrow> processing_error (''Invalid page selection '' @ [CHR 0x27] @ spec @ [CHR 0x27] @ ''.'')
      | Some pages \<Rightarrow>
          if pages = [] then processing_error ''The page selection is empty.''
          else
            (let out_of_range = filter (\<lambda>p. p < 1 \<or> int ntotal < p) pages in
             if out_of_range \<noteq> []
             then processing_error (''Pages '' @ int_list_str (sort (remdups out_of_range))
               @ '' are out of range (document has '' @ nat_str ntotal @ '' pages).'')
             else Inr pages))"

section \<open>The library\<close>

record 'page pdf_reader =
  rd_encrypted :: bool
  rd_decrypt :: "string \<Rightarrow> nat"
  rd_pages :: "'page list"

record 'page pypdf =
  lib_read :: "bytes option \<Rightarrow> string + 'page pdf_reader"
  lib_rotate :: "int \<Rightarrow> 'page \<Rightarrow> 'page"
  lib_write :: "'page list \<Rightarrow> bytes \<times> py_exc option"

definition open_pdf ::
  "'page pypdf \<Rightarrow> path \<Rightarrow> string option \<Rightarrow> (disk, 'page pdf_reader) action" where
  "open_pdf lib source password d =
     (d, case lib_read lib (d source) of
        Inl err \<Rightarrow> processing_error (''Could not read the PDF: '' @ err)
      | Inr reader \<Rightarrow>
          if rd_encrypted reader
            \<and> rd_decrypt reader (case password of None \<Rightarrow> [] | Some p \<Rightarrow> p) = 0
          then processing_error (if password = None then ''The PDF is password-protected.''
                 else ''Incorrect password for this PDF.'')
          else if rd_pages reader = [] then processing_error ''The PDF contains no pages.''
          else Inr reader)"

definition page_count :: "'page pypdf \<Rightarrow> path \<Rightarrow> (disk, nat) action" where
  "page_count lib source =
     abind (open_pdf lib source None) (\<lambda>reader. areturn (length (rd_pages reader)))"

definition write_pdf :: "'page pypdf \<Rightarrow> 'page list \<Rightarrow> path \<Rightarrow> (disk, path) action" where
  "write_pdf lib pages destination d =
     (case lib_write lib pages of
        (b, None) \<Rightarrow> (disk_write destination b d, Inr destination)
      | (b, Some e) \<Rightarrow> (disk_write destination b d, Inl e))"

definition pick :: "'page list \<Rightarrow> int \<Rightarrow> 'page" where
  "pick pages number = pages ! nat (number - 1)"

section \<open>The operations\<close>

definition merge_pdfs :: "'page pypdf \<Rightarrow> path list \<Rightarrow> path \<Rightarrow> (disk, path) action" where
  "merge_pdfs lib sources destination =
     abind (act_each (\<lambda>source. open_pdf lib source None) sources) (\<lambda>readers.
     write_pdf lib (concat (map rd_pages readers)) destination)"

definition part_path :: "path \<Rightarrow> nat \<Rightarrow> path" where
  "part_path output_dir index = output_dir @ [''part-'' @ nat_str (index + 1) @ ''.pdf'']"

definition split_selections ::
  "nat \<Rightarrow> string list option \<Rightarrow> bool \<Rightarrow> (py_exc, (string \<times> int list) list) result" where
  "split_selections ntotal ranges every_page =
     (if every_page then Inr (map (\<lambda>n. (nat_str n, [int n])) [1..<ntotal + 1])
      else case ranges of
        Some (r # rs) \<Rightarrow>
          rmap (\<lambda>spec. rbind (parse_page_selection spec ntotal) (\<lambda>ps. Inr (spec, ps))) (r # rs)
      | _ \<Rightarrow> processing_error ''Provide page ranges or choose every-page mode.'')"

definition split_pdf ::
  "'page pypdf \<Rightarrow> path \<Rightarrow> path \<Rightarrow> string list option \<Rightarrow> bool \<Rightarrow> (disk, (string \<times> path) list) action" where
  "split_pdf lib source output_dir ranges every_page =
     abind (open_pdf lib source None) (\<lambda>reader.
     abind (aresult (split_selections (length (rd_pages reader)) ranges every_page)) (\<lambda>selections.
     act_each (\<lambda>(index, label, pages).
         abind (write_pdf lib (map (pick (rd_pages reader)) pages) (part_path output_dir index))
           (\<lambda>path. areturn (py_replace_char CHR '','' ''_'' label, path)))
       (enumerate 0 selections)))"

definition rotates :: "int list option \<Rightarrow> string \<Rightarrow> nat \<Rightarrow> bool" where
  "rotates selected apply_to number \<longleftrightarrow>
     (case selected of None \<Rightarrow> True | Some ps \<Rightarrow> int number \<in> set ps)
     \<and> (apply_to \<noteq> ''odd'' \<or> odd number) \<and> (apply_to \<noteq> ''even'' \<or> even number)"

definition rotate_pdf ::
  "'page pypdf \<Rightarrow> path \<Rightarrow> path \<Rightarrow> int \<Rightarrow> string option \<Rightarrow> string \<Rightarrow> (disk, path) action" where
  "rotate_pdf lib source destination angle pages apply_to =
     (if angle mod 90 \<noteq> 0 \<or> angle mod 360 = 0
      then aresult (processing_error ''Rotation must be 90, 180 or 270 degrees.'')
      else abind (open_pdf lib source None) (\<lambda>reader.
        abind (aresult (case pages of
            Some (c # cs) \<Rightarrow> rbind (parse_page_selection (c # cs) (length (rd_pages reader))) (\<lambda>ps. Inr (Some ps))
          | _ \<Rightarrow> Inr None)) (\<lambda>selected.
        write_pdf lib (map (\<lambda>(index, page).
            if rotates selected apply_to (index + 1) then lib_rotate lib angle page else page)
          (enumerate 0 (rd_pages reader))) destination)))"

definition delete_pages :: "'page pypdf \<Rightarrow> path \<Rightarrow> path \<Rightarrow> string \<Rightarrow> (disk, path) action" where
  "delete_pages lib source destination pages =
     abind (open_pdf lib source None) (\<lambda>reader.
     abind (aresult (parse_page_selection pages (length (rd_pages reader)))) (\<lambda>doomed.
     if length (rd_pages reader) \<le> length (remdups doomed)
     then aresult (processing_error ''Cannot delete every page of the document.'')
     else write_pdf lib (map snd (filter (\<lambda>(index, page). int index + 1 \<notin> set doomed)
            (enumerate 0 (rd_pages reader)))) destination))"

definition extract_pages :: "'page pypdf \<Rightarrow> path \<Rightarrow> path \<Rightarrow> string \<Rightarrow> (disk, path) action" where
  "extract_pages lib source destination pages =
     abind (open_pdf lib source None) (\<lambda>reader.
     abind (aresult (parse_page_selection pages (length (rd_pages reader)))) (\<lambda>selection.
     write_pdf lib (map (pick (rd_pages reader)) selection) destination))"

definition reorder_pages :: "'page pypdf \<Rightarrow> path \<Rightarrow> path \<Rightarrow> int list \<Rightarrow> (disk, path) action" where
  "reorder_pages lib source destination order =
     abind (open_pdf lib source None) (\<lambda>reader.
     (let ntotal = length (rd_pages reader) in
      if sort order \<noteq> [1..int ntotal]
      then aresult (processing_error (''Order must be a permutation of pages 1-'' @ nat_str ntotal
             @ '' (got '' @ int_list_str order @ '').''))
      else write_pdf lib (map (pick (rd_pages reader)) order) destination))"

definition unlock_pdf :: "'page pypdf \<Rightarrow> path \<Rightarrow> path \<Rightarrow> string \<Rightarrow> (disk, path) action" where
  "unlock_pdf lib source destination password =
     abind (open_pdf lib source (Some password)) (\<lambda>reader.
     if \<not> rd_encrypted reader
     then aresult (processing_error ''This PDF is not password-protected.'')
     else write_pdf lib (rd_pages reader) destination)"

section \<open>Page filters of the overlay tools\<close>

text \<open>A predicate of (page number, number of pages); the inner \<open>None\<close> is a \<open>ValueError\<close>.\<close>

fun range_parts :: "string list \<Rightarrow> int list option" where
  "range_parts [] = Some []"
| "range_parts (part # parts) =
     (case page_part part of None \<Rightarrow> None
      | Some ps \<Rightarrow> map_option ((@) ps) (range_parts parts))"

definition parse_page_range :: "string option \<Rightarrow> (nat \<Rightarrow> nat \<Rightarrow> bool) option" where
  "parse_page_range spec =
     (case spec of
        Some (c # cs) \<Rightarrow>
          map_option (\<lambda>ps page _. int page \<in> set ps) (range_parts (split_on CHR '','' (c # cs)))
      | _ \<Rightarrow> Some (\<lambda>_ _. True))"

definition overlay_selection :: "string \<Rightarrow> string option \<Rightarrow> (nat \<Rightarrow> nat \<Rightarrow> bool) option" where
  "overlay_selection pages page_range =
     (if pages = ''custom'' \<or> (pages = ''all'' \<and> page_range \<noteq> None \<and> page_range \<noteq> Some [])
      then parse_page_range page_range
      else if pages = ''first'' then Some (\<lambda>page _. page = 1)
      else if pages = ''last'' then Some (\<lambda>page n. page = n)
      else if pages = ''odd'' then Some (\<lambda>page _. odd page)
      else if pages = ''even'' then Some (\<lambda>page _. even page)
      else Some (\<lambda>_ _. True))"

section \<open>Lemmas: selections\<close>

type_synonym page_item = "nat \<times> nat option"

definition render_item :: "page_item \<Rightarrow> string" where
  "render_item it = (case it of (a, None) \<Rightarrow> nat_str a | (a, Some b) \<Rightarrow> nat_str a @ CHR ''-'' # nat_str b)"

definition item_pages :: "page_item \<Rightarrow> int list" where
  "item_pages it = (case it of (a, None) \<Rightarrow> [int a] | (a, Some b) \<Rightarrow> [int a..int b])"

definition item_within :: "nat \<Rightarrow> page_item \<Rightarrow> bool" where
  "item_within n it = (case it of (a, None) \<Rightarrow> 1 \<le> a \<and> a \<le> n | (a, Some b) \<Rightarrow> 1 \<le> a \<and> a \<le> b \<and> b \<le> n)"

lemma item_digits:
  "item_within n it \<Longrightarrow> n < 10 ^ int_max_str_digits \<Longrightarrow>
     length (nat_str (fst it)) \<le> int_max_str_digits
     \<and> (\<forall>b. snd it = Some b \<longrightarrow> length (nat_str b) \<le> int_max_str_digits)"
  using length_nat_str [OF _ int_max_str_digits_pos]
  by (cases it) (auto simp: item_within_def split: option.splits dest: order_le_less_trans)

lemma page_part_render:
  assumes "item_within n it" and "n < 10 ^ int_max_str_digits"
  shows "page_part (render_item it) = Some (item_pages it)"
proof -
  obtain a o' where it: "it = (a, o')" by (cases it)
  note d = item_digits [OF assms, unfolded it, simplified]
  have a: "py_int (nat_str a) = Some (int a)" using d by (intro py_int_nat_str) simp
  have m: "CHR ''-'' \<notin> set (nat_str k)" for k by (rule nat_str_not_mem) (rule digit_not)
  show ?thesis
  proof (cases o')
    case None
    have "split_first CHR ''-'' (nat_str a) = None" using m by (simp add: split_first_None_iff)
    then show ?thesis using None a by (simp add: it render_item_def item_pages_def page_part_def)
  next
    case (Some b)
    then have "py_int (nat_str b) = Some (int b)" using d by (intro py_int_nat_str) simp
    then show ?thesis
      using Some a split_first_append [OF m] by (simp add: it render_item_def item_pages_def page_part_def)
  qed
qed

lemma render_item_chars:
  "c \<in> set (render_item it) \<Longrightarrow> is_digit c \<or> c = CHR ''-''"
  by (auto simp: render_item_def dest: nat_str_digits split: prod.splits option.splits)

lemma render_item_nonempty [simp]: "render_item it \<noteq> []"
  by (auto simp: render_item_def split: prod.splits option.splits)

lemma page_parts_render:
  "(\<And>it. it \<in> set items \<Longrightarrow> item_within n it) \<Longrightarrow> n < 10 ^ int_max_str_digits \<Longrightarrow>
     page_parts (map render_item items) = Some (concat (map item_pages items))"
proof (induction items)
  case (Cons it items)
  then show ?case using page_part_render [of n it] by simp
qed simp

lemma item_pages_within:
  "item_within n it \<Longrightarrow> p \<in> set (item_pages it) \<Longrightarrow> 1 \<le> p \<and> p \<le> int n"
  by (auto simp: item_within_def item_pages_def split: prod.splits option.splits)

lemma item_pages_nonempty: "item_within n it \<Longrightarrow> item_pages it \<noteq> []"
  by (auto simp: item_within_def item_pages_def split: prod.splits option.splits)

text \<open>Spaces anywhere in the text are dropped, so the rendering may be spaced freely.\<close>

lemma parse_rendered:
  assumes "items \<noteq> []" and "\<And>it. it \<in> set items \<Longrightarrow> item_within n it"
    and "n < 10 ^ int_max_str_digits"
    and spec: "filter (\<lambda>c. c \<noteq> CHR '' '') spec = py_join '','' (map render_item items)"
  shows "parse_page_selection spec n = Inr (concat (map item_pages items))"
proof -
  have "split_on CHR '','' (py_join '','' (map render_item items)) = map render_item items"
    using assms(1) digit_not render_item_chars by (intro split_on_join) fastforce+
  then have p: "page_parts (split_on CHR '','' (filter (\<lambda>c. c \<noteq> CHR '' '') spec))
      = Some (concat (map item_pages items))"
    using page_parts_render [OF assms(2,3)] by (simp add: spec)
  have "concat (map item_pages items) \<noteq> []"
    using assms(2) item_pages_nonempty assms(1) hd_in_set [of items] by (simp del: hd_in_set) blast
  moreover have "filter (\<lambda>p. p < 1 \<or> int n < p) (concat (map item_pages items)) = []"
    using assms(2) item_pages_within by (fastforce simp: filter_empty_conv)
  ultimately show ?thesis
    unfolding parse_page_selection_def p by (simp only: option.simps if_False if_True Let_def simp_thms)
qed

lemma parse_page_selection_Inr:
  assumes "parse_page_selection spec n = Inr ps"
  shows "ps \<noteq> []" and "p \<in> set ps \<Longrightarrow> 1 \<le> p \<and> p \<le> int n"
  using assms
  by (auto simp: parse_page_selection_def Let_def processing_error_def filter_empty_conv
      split: option.splits if_splits)

lemma parse_page_selection_Inl:
  "parse_page_selection spec n = Inl e \<Longrightarrow> \<exists>m. e = ProcessingError m PROCESSING_FAILED"
  by (auto simp: parse_page_selection_def Let_def processing_error_def split: option.splits if_splits)

section \<open>Lemmas: the operations\<close>

lemma open_pdf_state [simp]: "fst (open_pdf lib source pw d) = d"
  by (simp add: open_pdf_def)

lemma abind_open:
  "abind (open_pdf lib source pw) f d =
     (case snd (open_pdf lib source pw d) of Inl e \<Rightarrow> (d, Inl e) | Inr r \<Rightarrow> f r d)"
  by (simp add: abind_def open_pdf_def split: sum.split)

text \<open>What a PDF file shows to the operations.\<close>

definition readable :: "'page pypdf \<Rightarrow> disk \<Rightarrow> path \<Rightarrow> 'page list \<Rightarrow> bool" where
  "readable lib d p pages \<longleftrightarrow>
     (\<exists>r. snd (open_pdf lib p None d) = Inr r \<and> rd_pages r = pages)"

lemma readable_nonempty: "readable lib d p pages \<Longrightarrow> pages \<noteq> []"
  by (auto simp: readable_def open_pdf_def processing_error_def split: sum.splits if_splits)

text \<open>pypdf reads back what it has written.\<close>

definition lib_roundtrip :: "'page pypdf \<Rightarrow> bool" where
  "lib_roundtrip lib \<longleftrightarrow>
     (\<forall>pages. pages \<noteq> [] \<longrightarrow> snd (lib_write lib pages) = None
        \<and> (\<exists>r. lib_read lib (Some (fst (lib_write lib pages))) = Inr r
             \<and> \<not> rd_encrypted r \<and> rd_pages r = pages))"

lemma write_pdf_ok:
  assumes "lib_roundtrip lib" and "pages \<noteq> []"
  shows "write_pdf lib pages dest d = (disk_write dest (fst (lib_write lib pages)) d, Inr dest)"
    and "readable lib (disk_write dest (fst (lib_write lib pages)) d) dest pages"
  using assms
  by (auto simp: write_pdf_def readable_def open_pdf_def disk_write_def lib_roundtrip_def split: prod.split)

lemma readable_frame: "q \<noteq> p \<Longrightarrow> readable lib (disk_write q b d) p pages = readable lib d p pages"
  by (simp add: readable_def open_pdf_def disk_write_def)

lemma delete_kept:
  "mset (map snd (filter (\<lambda>(i, p). P i) (enumerate k xs))) + mset (map snd (filter (\<lambda>(i, p). \<not> P i) (enumerate k xs)))
     = mset xs"
proof -
  have "mset (map snd (filter Q ys)) + mset (map snd (filter (\<lambda>y. \<not> Q y) ys)) = mset (map snd ys)"
    for Q :: "nat \<times> 'a \<Rightarrow> bool" and ys
    by (metis image_mset_union mset_filter mset_map multiset_partition)
  from this [of "\<lambda>(i, p). P i" "enumerate k xs"] show ?thesis
    by (simp add: case_prod_beta' )
qed

lemma reorder_mset:
  assumes "sort order = [1..int (length pages)]"
  shows "mset (map (pick pages) order) = mset pages"
proof -
  have "mset (map (pick pages) order) = mset (map (pick pages) (sort order))"
    by simp
  also have "map (pick pages) (sort order) = pages"
    unfolding assms by (rule nth_equalityI) (auto simp: pick_def)
  finally show ?thesis .
qed

lemma sort_iff_permutation:
  "sort order = [1..int n] \<longleftrightarrow> set order = {1..int n} \<and> distinct order"
proof
  assume a: "sort order = [1..int n]"
  then have "set (sort order) = {1..int n}" "distinct (sort order)" by simp_all
  then show "set order = {1..int n} \<and> distinct order" by simp
next
  assume a: "set order = {1..int n} \<and> distinct order"
  have "sorted [1..int n]" by (rule sorted_wrt_mono_rel [OF _ sorted_wrt_upto]) simp
  moreover have "mset order = mset [1..int n]"
    using a by (intro iffD1 [OF set_eq_iff_mset_eq_distinct]) auto
  ultimately show "sort order = [1..int n]"
    by (metis properties_for_sort)
qed

section \<open>Lemmas: splitting\<close>

lemma part_path_inj: "part_path out i = part_path out k \<longleftrightarrow> i = k"
  by (simp add: part_path_def nat_str_inj)

definition write_parts :: "'page pypdf \<Rightarrow> 'page list \<Rightarrow> path \<Rightarrow> nat \<Rightarrow> (string \<times> int list) list \<Rightarrow> (disk, (string \<times> path) list) action" where
  "write_parts lib pages out k selections =
     act_each (\<lambda>(index, label, ps).
         abind (write_pdf lib (map (pick pages) ps) (part_path out index))
           (\<lambda>path. areturn (py_replace_char CHR '','' ''_'' label, path)))
       (enumerate k selections)"

lemma write_parts_ok:
  assumes "lib_roundtrip lib" and "\<And>s. s \<in> set selections \<Longrightarrow> snd s \<noteq> []"
  shows "\<exists>d'. write_parts lib pages out k selections d =
      (d', Inr (map (\<lambda>(i, label, _). (py_replace_char CHR '','' ''_'' label, part_path out i))
        (enumerate k selections)))
    \<and> (\<forall>m < length selections.
         readable lib d' (part_path out (k + m)) (map (pick pages) (snd (selections ! m))))
    \<and> (\<forall>q. (\<forall>i \<ge> k. q \<noteq> part_path out i) \<longrightarrow> d' q = d q)"
  using assms(2)
proof (induction selections arbitrary: k d)
  case Nil
  then show ?case by (simp add: write_parts_def areturn_def)
next
  case (Cons s selections)
  obtain label ps where s: "s = (label, ps)" by (cases s)
  have ne: "map (pick pages) ps \<noteq> []" using Cons.prems [of s] s by simp
  let ?b = "fst (lib_write lib (map (pick pages) ps))"
  let ?d1 = "disk_write (part_path out k) ?b d"
  note w = write_pdf_ok [OF assms(1) ne, of "part_path out k" d]
  obtain d' where d': "write_parts lib pages out (Suc k) selections ?d1 =
      (d', Inr (map (\<lambda>(i, label, _). (py_replace_char CHR '','' ''_'' label, part_path out i))
        (enumerate (Suc k) selections)))"
    and r: "\<forall>m < length selections.
         readable lib d' (part_path out (Suc k + m)) (map (pick pages) (snd (selections ! m)))"
    and f: "\<forall>q. (\<forall>i \<ge> Suc k. q \<noteq> part_path out i) \<longrightarrow> d' q = ?d1 q"
    using Cons.IH [of "Suc k" ?d1] Cons.prems by auto
  have first: "d' (part_path out k) = ?d1 (part_path out k)"
    using f by (auto simp: part_path_inj)
  have "readable lib d' (part_path out k) (map (pick pages) ps)"
    using w(2) first by (simp add: readable_def open_pdf_def)
  then have "\<forall>m < length (s # selections).
      readable lib d' (part_path out (k + m)) (map (pick pages) (snd ((s # selections) ! m)))"
    using r by (auto simp: s less_Suc_eq_0_disj)
  moreover have "\<forall>q. (\<forall>i \<ge> k. q \<noteq> part_path out i) \<longrightarrow> d' q = d q"
    using f by (auto simp: disk_write_def)
  moreover have "write_parts lib pages out k (s # selections) d =
      (d', Inr (map (\<lambda>(i, label, _). (py_replace_char CHR '','' ''_'' label, part_path out i))
        (enumerate k (s # selections))))"
    using d' by (simp add: write_parts_def s abind_def w(1) areturn_def)
  ultimately show ?case by blast
qed

lemma act_each_open:
  assumes "list_all2 (readable lib d) ps pss"
  shows "\<exists>rs. act_each (\<lambda>source. open_pdf lib source None) ps d = (d, Inr rs) \<and> map rd_pages rs = pss"
  using assms
proof (induction ps pss rule: list_all2_induct)
  case Nil
  then show ?case by (simp add: areturn_def)
next
  case (Cons p ps x pss)
  then obtain rs where rs: "act_each (\<lambda>source. open_pdf lib source None) ps d = (d, Inr rs)" "map rd_pages rs = pss"
    by blast
  from Cons.hyps obtain r where r: "snd (open_pdf lib p None d) = Inr r" "rd_pages r = x"
    by (auto simp: readable_def)
  have "act_each (\<lambda>source. open_pdf lib source None) (p # ps) d = (d, Inr (r # rs))"
    using rs(1) r(1) by (simp add: abind_open) (simp add: abind_def areturn_def)
  with rs(2) r(2) show ?case by auto
qed

lemma doomed_count:
  assumes "\<And>p. p \<in> set ps \<Longrightarrow> 1 \<le> p \<and> p \<le> int n"
  shows "n \<le> length (remdups ps) \<longleftrightarrow> (\<forall>i < n. int i + 1 \<in> set ps)"
proof -
  have sub: "set ps \<subseteq> {1..int n}" using assms by auto
  have c: "length (remdups ps) = card (set ps)" by (simp add: length_remdups_card_conv)
  show ?thesis
  proof
    assume "n \<le> length (remdups ps)"
    then have "card {1..int n} \<le> card (set ps)" by (simp add: c)
    with sub have "set ps = {1..int n}" by (metis card_seteq finite_atLeastAtMost_int)
    then show "\<forall>i < n. int i + 1 \<in> set ps" by auto
  next
    assume a: "\<forall>i < n. int i + 1 \<in> set ps"
    have "{1..int n} \<subseteq> set ps"
    proof
      fix x assume "x \<in> {1..int n}"
      then have "nat (x - 1) < n" "int (nat (x - 1)) + 1 = x" by auto
      with a show "x \<in> set ps" by metis
    qed
    then have "card {1..int n} \<le> card (set ps)" by (rule card_mono [OF finite_set])
    then show "n \<le> length (remdups ps)" by (simp add: c)
  qed
qed

lemma kept_empty_iff:
  "map snd (filter (\<lambda>(i, p). int i + 1 \<notin> S) (enumerate 0 pages)) = []
     \<longleftrightarrow> (\<forall>i < length pages. int i + 1 \<in> S)"
proof -
  have "filter (\<lambda>(i, p). int i + 1 \<notin> S) (enumerate 0 pages) = []
      \<longleftrightarrow> (\<forall>x \<in> set (enumerate 0 pages). int (fst x) + 1 \<in> S)"
    by (auto simp: filter_empty_conv split: prod.splits)
  also have "\<dots> \<longleftrightarrow> (\<forall>i < length pages. int i + 1 \<in> S)"
  proof
    assume "\<forall>x \<in> set (enumerate 0 pages). int (fst x) + 1 \<in> S"
    moreover have "(i, pages ! i) \<in> set (enumerate 0 pages)" if "i < length pages" for i
      using that by (simp add: in_set_enumerate_eq)
    ultimately show "\<forall>i < length pages. int i + 1 \<in> S" by fastforce
  qed (auto simp: in_set_enumerate_eq)
  finally show ?thesis by simp
qed

section \<open>Properties\<close>

text \<open>
  Page selections mean what they say. A comma-separated list of pages and ascending ranges
  within the document, with spaces anywhere, is accepted and yields exactly these pages in the
  order written (duplicates included); and whatever text is accepted, the result is not empty
  and has only existing pages, so no page access of the operations is out of range.
\<close>

theorem parse_page_selection_roundtrip:
  assumes "items \<noteq> []" and "\<And>it. it \<in> set items \<Longrightarrow> item_within n it"
    and "n < 10 ^ int_max_str_digits"
    and "filter (\<lambda>c. c \<noteq> CHR '' '') spec = py_join '','' (map render_item items)"
  shows "parse_page_selection spec n = Inr (concat (map item_pages items))
    \<and> (\<forall>text ps. parse_page_selection text n = Inr ps
         \<longrightarrow> ps \<noteq> [] \<and> (\<forall>p \<in> set ps. 1 \<le> p \<and> p \<le> int n))"
  using parse_rendered [OF assms] parse_page_selection_Inr by blast

theorem parse_page_selection_roundtrip_witness:
  "parse_page_selection ''7, 2-4'' 9 = Inr [7, 2, 3, 4]"
proof -
  have "(9::nat) < 10 ^ int_max_str_digits"
    using self_le_power [of "10::nat" int_max_str_digits] int_max_str_digits_pos by simp
  moreover have "item_within 9 it" if "it \<in> set [(7, None), (2, Some 4)]" for it
    using that by (auto simp: item_within_def)
  moreover have "nat_str 7 = ''7''" "nat_str 2 = ''2''" "nat_str 4 = ''4''"
    by code_simp+
  then have "filter (\<lambda>c. c \<noteq> CHR '' '') ''7, 2-4'' = py_join '','' (map render_item [(7, None), (2, Some 4)])"
    by (simp add: render_item_def)
  ultimately have "parse_page_selection ''7, 2-4'' 9
      = Inr (concat (map item_pages [(7, None), (2, Some 4)]))"
    using parse_page_selection_roundtrip [of "[(7, None), (2, Some 4)]" 9 "''7, 2-4''"] by blast
  then show ?thesis by (simp add: item_pages_def upto.simps)
qed

text \<open>
  Reordering never loses a page. It succeeds exactly for the permutations of 1..N, and the
  file it writes has the source's pages in the requested order, each exactly once; the
  source file is left as it was.
\<close>

theorem reorder_pages_permutes:
  assumes "lib_roundtrip lib" and "readable lib d source pages" and "destination \<noteq> source"
  shows "if set order = {1..int (length pages)} \<and> distinct order
    then (\<exists>d'. reorder_pages lib source destination order d = (d', Inr destination)
           \<and> readable lib d' destination (map (pick pages) order)
           \<and> mset (map (pick pages) order) = mset pages \<and> d' source = d source)
    else (\<exists>m. reorder_pages lib source destination order d = (d, processing_error m))"
proof -
  obtain r where r: "snd (open_pdf lib source None d) = Inr r" "rd_pages r = pages"
    using assms(2) by (auto simp: readable_def)
  show ?thesis
  proof (cases "set order = {1..int (length pages)} \<and> distinct order")
    case False
    then have "sort order \<noteq> [1..int (length pages)]" by (simp add: sort_iff_permutation)
    then have "\<exists>m. reorder_pages lib source destination order d = (d, processing_error m)"
      by (auto simp: reorder_pages_def abind_open r Let_def aresult_def)
    then show ?thesis unfolding if_not_P [OF False] .
  next
    case True
    then have s: "sort order = [1..int (length pages)]" by (simp add: sort_iff_permutation)
    have m: "mset (map (pick pages) order) = mset pages" by (rule reorder_mset [OF s])
    then have "map (pick pages) order \<noteq> []" using readable_nonempty [OF assms(2)] by (metis mset_zero_iff)
    note w = write_pdf_ok [OF assms(1) this, of destination d]
    have "reorder_pages lib source destination order d
        = write_pdf lib (map (pick pages) order) destination d"
      by (simp add: reorder_pages_def abind_open r Let_def s)
    moreover have "disk_write destination (fst (lib_write lib (map (pick pages) order))) d source = d source"
      using assms(3) by (simp add: disk_write_def)
    ultimately show ?thesis unfolding if_P [OF True] using w m by auto
  qed
qed

text \<open>A concrete library for the witnesses: a page is a byte, a file lists its pages.\<close>

definition byte_lib :: "8 word pypdf" where
  "byte_lib =
     \<lparr>lib_read = (\<lambda>f. case f of None \<Rightarrow> Inl ''missing''
        | Some b \<Rightarrow> Inr \<lparr>rd_encrypted = False, rd_decrypt = (\<lambda>_. 0), rd_pages = b\<rparr>),
      lib_rotate = (\<lambda>_ p. p), lib_write = (\<lambda>ps. (ps, None))\<rparr>"

lemma byte_lib_roundtrip: "lib_roundtrip byte_lib"
  by (simp add: lib_roundtrip_def byte_lib_def)

lemma byte_lib_readable: "b \<noteq> [] \<Longrightarrow> d p = Some b \<Longrightarrow> readable byte_lib d p b"
  by (simp add: readable_def open_pdf_def byte_lib_def)

theorem reorder_pages_permutes_witness:
  "\<exists>d'. reorder_pages byte_lib [''a''] [''b''] [3, 1, 2] [[''a''] \<mapsto> [10, 20, 30]] = (d', Inr [''b''])
     \<and> readable byte_lib d' [''b''] (map (pick [10, 20, 30]) [3, 1, 2])"
proof -
  have "readable byte_lib [[''a''] \<mapsto> [10, 20, 30]] [''a''] [10, 20, 30]" by (rule byte_lib_readable) simp_all
  note R = reorder_pages_permutes [OF byte_lib_roundtrip this]
  have P: "set [3, 1, 2] = {1..int (length [10, 20, 30 :: 8 word])} \<and> distinct [3, 1, 2 :: int]" by auto
  have "[''b''] \<noteq> [''a'']" by simp
  from R [OF this, of "[3, 1, 2]", unfolded if_P [OF P]] show ?thesis by blast
qed

text \<open>
  Deleting and extracting a selection split the document. Deletion keeps exactly the
  unselected pages, in order, and is refused exactly when nothing would remain (then nothing
  is written); kept pages and deleted pages together are all the pages; extraction writes the
  selected pages in the order of the selection. A bad selection leaves the disk unchanged.
\<close>

theorem delete_extract_partition:
  assumes "lib_roundtrip lib" and "readable lib d source pages"
  shows "case parse_page_selection sel (length pages) of
      Inl e \<Rightarrow> delete_pages lib source dest sel d = (d, Inl e)
        \<and> extract_pages lib source dest sel d = (d, Inl e)
    | Inr ps \<Rightarrow>
       (let kept = map snd (filter (\<lambda>(i, p). int i + 1 \<notin> set ps) (enumerate 0 pages));
            gone = map snd (filter (\<lambda>(i, p). \<not> int i + 1 \<notin> set ps) (enumerate 0 pages))
        in mset kept + mset gone = mset pages
         \<and> (if kept = [] then \<exists>m. delete_pages lib source dest sel d = (d, processing_error m)
            else \<exists>d'. delete_pages lib source dest sel d = (d', Inr dest) \<and> readable lib d' dest kept)
         \<and> (\<exists>d'. extract_pages lib source dest sel d = (d', Inr dest)
              \<and> readable lib d' dest (map (pick pages) ps)))"
proof -
  obtain r where r: "snd (open_pdf lib source None d) = Inr r" "rd_pages r = pages"
    using assms(2) by (auto simp: readable_def)
  show ?thesis
  proof (cases "parse_page_selection sel (length pages)")
    case (Inl e)
    then show ?thesis
      by (simp add: delete_pages_def extract_pages_def abind_open r araise_def)
  next
    case (Inr ps)
    let ?kept = "map snd (filter (\<lambda>(i, p). int i + 1 \<notin> set ps) (enumerate 0 pages))"
    have ne: "map (pick pages) ps \<noteq> []" using parse_page_selection_Inr(1) [OF Inr] by simp
    have ex: "\<exists>d'. extract_pages lib source dest sel d = (d', Inr dest)
        \<and> readable lib d' dest (map (pick pages) ps)"
      using write_pdf_ok [OF assms(1) ne, of dest d]
      by (simp add: extract_pages_def abind_open r Inr)
    have cnt: "length pages \<le> length (remdups ps) \<longleftrightarrow> ?kept = []"
      using doomed_count [OF parse_page_selection_Inr(2) [OF Inr]] kept_empty_iff by metis
    have del: "if ?kept = [] then \<exists>m. delete_pages lib source dest sel d = (d, processing_error m)
        else \<exists>d'. delete_pages lib source dest sel d = (d', Inr dest) \<and> readable lib d' dest ?kept"
    proof (cases "?kept = []")
      case True
      then have "delete_pages lib source dest sel d
          = (d, processing_error ''Cannot delete every page of the document.'')"
        using cnt by (simp add: delete_pages_def abind_open r Inr aresult_def)
      with True show ?thesis by auto
    next
      case False
      note w = write_pdf_ok [OF assms(1) False, of dest d]
      have "delete_pages lib source dest sel d = write_pdf lib ?kept dest d"
        using cnt False unfolding delete_pages_def abind_open r by (simp add: abind_read Inr r del: map_is_Nil_conv)
      with False w show ?thesis by auto
    qed
    show ?thesis
      using ex del delete_kept [of "\<lambda>i. int i + 1 \<notin> set ps" 0 pages] by (simp add: Inr Let_def)
  qed
qed

theorem delete_extract_partition_witness:
  "parse_page_selection ''2'' 3 = Inr [2]
   \<and> (\<exists>d'. delete_pages byte_lib [''a''] [''b''] ''2'' [[''a''] \<mapsto> [10, 20, 30]] = (d', Inr [''b''])
        \<and> readable byte_lib d' [''b''] [10, 30])"
proof -
  have p: "parse_page_selection ''2'' (length [10, 20, 30 :: 8 word]) = Inr [2]" by code_simp
  have "readable byte_lib [[''a''] \<mapsto> [10, 20, 30]] [''a''] [10, 20, 30]" by (rule byte_lib_readable) simp_all
  from delete_extract_partition [OF byte_lib_roundtrip this,
      where sel = "''2''" and dest = "[''b'']", unfolded p]
  have "\<exists>d'. delete_pages byte_lib [''a''] [''b''] ''2'' [[''a''] \<mapsto> [10, 20, 30]] = (d', Inr [''b''])
        \<and> readable byte_lib d' [''b''] [10, 30]"
    by (simp add: Let_def)
  with p show ?thesis by (simp add: numeral_3_eq_3)
qed

text \<open>
  C26: Splitting every page and merging the parts gives the document back. With pypdf reading
  what it wrote, \<open>split_pdf\<close> in every-page mode leaves N one-page files in the output
  directory, and merging them in their order writes a document with the original pages.
\<close>

theorem split_merge_roundtrip:
  assumes "lib_roundtrip lib" and "readable lib d source pages"
  shows "\<exists>d1 parts d2. split_pdf lib source out None True d = (d1, Inr parts)
    \<and> map fst parts = map nat_str [1..<length pages + 1]
    \<and> map snd parts = map (part_path out) [0..<length pages]
    \<and> merge_pdfs lib (map snd parts) dest d1 = (d2, Inr dest)
    \<and> readable lib d2 dest pages"
proof -
  obtain r where r: "snd (open_pdf lib source None d) = Inr r" "rd_pages r = pages"
    using assms(2) by (auto simp: readable_def)
  let ?sel = "map (\<lambda>n. (nat_str n, [int n])) [1..<length pages + 1]"
  let ?parts = "map (\<lambda>(i, label, _). (py_replace_char CHR '','' ''_'' label, part_path out i)) (enumerate 0 ?sel)"
  obtain d1 where w: "write_parts lib pages out 0 ?sel d = (d1, Inr ?parts)"
    and rd: "\<forall>m < length ?sel. readable lib d1 (part_path out (0 + m)) (map (pick pages) (snd (?sel ! m)))"
  proof -
    have "snd x \<noteq> []" if "x \<in> set ?sel" for x using that by auto
    from write_parts_ok [OF assms(1) this, where k = 0 and out = out and d = d and pages = pages] that
    show thesis by blast
  qed
  have s: "split_pdf lib source out None True d = (d1, Inr ?parts)"
    using w by (simp add: split_pdf_def abind_open r abind_read split_selections_def write_parts_def del: upt_Suc)
  have lab: "py_replace_char CHR '','' ''_'' (nat_str n) = nat_str n" for n
    by (intro py_replace_char_id nat_str_not_mem) (rule digit_not)
  have names: "map fst ?parts = map nat_str [1..<length pages + 1]"
    by (rule nth_equalityI) (simp_all add: nth_enumerate_eq lab split: prod.split del: upt_Suc)
  have paths: "map snd ?parts = map (part_path out) [0..<length pages]"
    by (rule nth_equalityI) (simp_all add: nth_enumerate_eq split: prod.split del: upt_Suc)
  have one: "map (pick pages) (snd (?sel ! m)) = [pages ! m]" if "m < length pages" for m
    using that by (simp add: pick_def del: upt_Suc)
  have "list_all2 (readable lib d1) (map snd ?parts) (map (\<lambda>p. [p]) pages)"
    unfolding paths using rd one by (auto simp: list_all2_conv_all_nth simp del: upt_Suc)
  from act_each_open [OF this] obtain rs where
    rs: "act_each (\<lambda>source. open_pdf lib source None) (map snd ?parts) d1 = (d1, Inr rs)"
      "map rd_pages rs = map (\<lambda>p. [p]) pages" by blast
  have cat: "concat (map rd_pages rs) = pages" unfolding rs(2) by simp
  note m = write_pdf_ok [OF assms(1) readable_nonempty [OF assms(2)], of dest d1]
  have "merge_pdfs lib (map snd ?parts) dest d1 = write_pdf lib pages dest d1"
    using rs(1) cat by (simp add: merge_pdfs_def abind_def)
  then have mg: "merge_pdfs lib (map snd ?parts) dest d1
      = (disk_write dest (fst (lib_write lib pages)) d1, Inr dest)" by (simp only: m(1))
  show ?thesis
    by (rule exI, rule exI, rule exI) (intro conjI, rule s, rule names, rule paths, rule mg, rule m(2))
qed

theorem split_merge_roundtrip_witness:
  "\<exists>d1 parts d2. split_pdf byte_lib [''a''] [''o''] None True [[''a''] \<mapsto> [10, 20]] = (d1, Inr parts)
    \<and> merge_pdfs byte_lib (map snd parts) [''m''] d1 = (d2, Inr [''m''])
    \<and> readable byte_lib d2 [''m''] [10, 20]"
proof -
  have "readable byte_lib [[''a''] \<mapsto> [10, 20]] [''a''] [10, 20]" by (rule byte_lib_readable) simp_all
  from split_merge_roundtrip [OF byte_lib_roundtrip this, of "[''o'']" "[''m'']"] show ?thesis by blast
qed

end
