(* ===== verification/ToolCatalog.thy ===== *)
theory ToolCatalog
  imports PageOps Settings FileValidation
begin

text \<open>
  The tools: \<open>ToolSlug\<close>, the class attributes of every service of \<open>app/services/tools\<close> (slug,
  Celery task, accepted extensions, number of inputs) and the rules their options models add
  to pydantic's field types: the patterns and the \<open>model_validator\<close>/\<open>field_validator\<close>
  functions, on field values that pydantic has already parsed. A validator returns the message
  of the \<open>ValueError\<close> it raises.
\<close>

section \<open>Slugs and services\<close>

datatype tool_slug =
    COMPRESS
  | MERGE
  | SPLIT
  | ROTATE
  | DELETE_PAGES
  | EXTRACT_PAGES
  | REORDER_PAGES
  | PDF_TO_WORD
  | WORD_TO_PDF
  | EXCEL_TO_PDF
  | PPT_TO_PDF
  | PDF_TO_JPG
  | PDF_TO_PNG
  | JPG_TO_PDF
  | PNG_TO_PDF
  | WATERMARK
  | REMOVE_WATERMARK
  | HEADER_FOOTER
  | PAGE_NUMBERS
  | PROTECT
  | UNLOCK
  | OCR
  | REPAIR
  | COMPRESS_SCANNED
  | METADATA
  | COMPARE
  | REDACT
  | FILL_FORMS
  | SIGN

fun slug_value :: "tool_slug \<Rightarrow> string" where
  "slug_value COMPRESS = ''compress''"
| "slug_value MERGE = ''merge''"
| "slug_value SPLIT = ''split''"
| "slug_value ROTATE = ''rotate''"
| "slug_value DELETE_PAGES = ''delete-pages''"
| "slug_value EXTRACT_PAGES = ''extract-pages''"
| "slug_value REORDER_PAGES = ''reorder''"
| "slug_value PDF_TO_WORD = ''pdf-to-word''"
| "slug_value WORD_TO_PDF = ''word-to-pdf''"
| "slug_value EXCEL_TO_PDF = ''excel-to-pdf''"
| "slug_value PPT_TO_PDF = ''ppt-to-pdf''"
| "slug_value PDF_TO_JPG = ''pdf-to-jpg''"
| "slug_value PDF_TO_PNG = ''pdf-to-png''"
| "slug_value JPG_TO_PDF = ''jpg-to-pdf''"
| "slug_value PNG_TO_PDF = ''png-to-pdf''"
| "slug_value WATERMARK = ''watermark''"
| "slug_value REMOVE_WATERMARK = ''remove-watermark''"
| "slug_value HEADER_FOOTER = ''header-footer''"
| "slug_value PAGE_NUMBERS = ''page-numbers''"
| "slug_value PROTECT = ''protect''"
| "slug_value UNLOCK = ''unlock''"
| "slug_value OCR = ''ocr''"
| "slug_value REPAIR = ''repair''"
| "slug_value COMPRESS_SCANNED = ''compress-scanned''"
| "slug_value METADATA = ''metadata''"
| "slug_value COMPARE = ''compare''"
| "slug_value REDACT = ''redact''"
| "slug_value FILL_FORMS = ''fill-forms''"
| "slug_value SIGN = ''sign''"

record tool_service =
  ts_slug :: tool_slug
  ts_task_name :: string
  ts_allowed :: "string list"
  ts_min :: int
  ts_max :: int

definition service :: "tool_slug \<Rightarrow> string \<Rightarrow> string list \<Rightarrow> int \<Rightarrow> int \<Rightarrow> tool_service" where
  "service slug task allowed mini maxi =
     \<lparr>ts_slug = slug, ts_task_name = task, ts_allowed = allowed, ts_min = mini, ts_max = maxi\<rparr>"

definition compress_service :: tool_service where
  "compress_service = service COMPRESS ''tools.compress'' [''pdf''] 1 10"

definition merge_service :: tool_service where
  "merge_service = service MERGE ''tools.merge'' [''pdf''] 2 20"

definition split_service :: tool_service where
  "split_service = service SPLIT ''tools.split'' [''pdf''] 1 1"

definition rotate_service :: tool_service where
  "rotate_service = service ROTATE ''tools.rotate'' [''pdf''] 1 10"

definition delete_pages_service :: tool_service where
  "delete_pages_service = service DELETE_PAGES ''tools.delete-pages'' [''pdf''] 1 1"

definition extract_pages_service :: tool_service where
  "extract_pages_service = service EXTRACT_PAGES ''tools.extract-pages'' [''pdf''] 1 1"

definition reorder_service :: tool_service where
  "reorder_service = service REORDER_PAGES ''tools.reorder'' [''pdf''] 1 1"

definition pdf_to_word_service :: tool_service where
  "pdf_to_word_service = service PDF_TO_WORD ''tools.pdf-to-word'' [''pdf''] 1 10"

definition word_to_pdf_service :: tool_service where
  "word_to_pdf_service = service WORD_TO_PDF ''tools.word-to-pdf'' [''doc'', ''docx''] 1 10"

definition excel_to_pdf_service :: tool_service where
  "excel_to_pdf_service = service EXCEL_TO_PDF ''tools.excel-to-pdf'' [''xls'', ''xlsx''] 1 10"

definition ppt_to_pdf_service :: tool_service where
  "ppt_to_pdf_service = service PPT_TO_PDF ''tools.ppt-to-pdf'' [''ppt'', ''pptx''] 1 10"

definition pdf_to_jpg_service :: tool_service where
  "pdf_to_jpg_service = service PDF_TO_JPG ''tools.pdf-to-jpg'' [''pdf''] 1 10"

definition pdf_to_png_service :: tool_service where
  "pdf_to_png_service = service PDF_TO_PNG ''tools.pdf-to-png'' [''pdf''] 1 10"

definition jpg_to_pdf_service :: tool_service where
  "jpg_to_pdf_service = service JPG_TO_PDF ''tools.jpg-to-pdf'' [''jpg'', ''jpeg''] 1 20"

definition png_to_pdf_service :: tool_service where
  "png_to_pdf_service = service PNG_TO_PDF ''tools.png-to-pdf'' [''png''] 1 20"

definition watermark_service :: tool_service where
  "watermark_service = service WATERMARK ''tools.watermark'' [''pdf'', ''jpg'', ''jpeg'', ''png''] 1 11"

definition remove_watermark_service :: tool_service where
  "remove_watermark_service = service REMOVE_WATERMARK ''tools.remove-watermark'' [''pdf''] 1 10"

definition header_footer_service :: tool_service where
  "header_footer_service = service HEADER_FOOTER ''tools.header-footer'' [''pdf''] 1 10"

definition page_numbers_service :: tool_service where
  "page_numbers_service = service PAGE_NUMBERS ''tools.page-numbers'' [''pdf''] 1 10"

definition protect_service :: tool_service where
  "protect_service = service PROTECT ''tools.protect'' [''pdf''] 1 10"

definition unlock_service :: tool_service where
  "unlock_service = service UNLOCK ''tools.unlock'' [''pdf''] 1 10"

definition ocr_service :: tool_service where
  "ocr_service = service OCR ''tools.ocr'' [''pdf''] 1 10"

definition repair_service :: tool_service where
  "repair_service = service REPAIR ''tools.repair'' [''pdf''] 1 10"

definition compress_scanned_service :: tool_service where
  "compress_scanned_service = service COMPRESS_SCANNED ''tools.compress-scanned'' [''pdf''] 1 10"

definition metadata_service :: tool_service where
  "metadata_service = service METADATA ''tools.metadata'' [''pdf''] 1 10"

definition compare_service :: tool_service where
  "compare_service = service COMPARE ''tools.compare'' [''pdf''] 2 2"

definition redact_service :: tool_service where
  "redact_service = service REDACT ''tools.redact'' [''pdf''] 1 10"

definition fill_forms_service :: tool_service where
  "fill_forms_service = service FILL_FORMS ''tools.fill-forms'' [''pdf''] 1 1"

definition sign_service :: tool_service where
  "sign_service = service SIGN ''tools.sign'' [''pdf'', ''jpg'', ''jpeg'', ''png''] 2 11"

fun service_of :: "tool_slug \<Rightarrow> tool_service" where
  "service_of COMPRESS = compress_service"
| "service_of MERGE = merge_service"
| "service_of SPLIT = split_service"
| "service_of ROTATE = rotate_service"
| "service_of DELETE_PAGES = delete_pages_service"
| "service_of EXTRACT_PAGES = extract_pages_service"
| "service_of REORDER_PAGES = reorder_service"
| "service_of PDF_TO_WORD = pdf_to_word_service"
| "service_of WORD_TO_PDF = word_to_pdf_service"
| "service_of EXCEL_TO_PDF = excel_to_pdf_service"
| "service_of PPT_TO_PDF = ppt_to_pdf_service"
| "service_of PDF_TO_JPG = pdf_to_jpg_service"
| "service_of PDF_TO_PNG = pdf_to_png_service"
| "service_of JPG_TO_PDF = jpg_to_pdf_service"
| "service_of PNG_TO_PDF = png_to_pdf_service"
| "service_of WATERMARK = watermark_service"
| "service_of REMOVE_WATERMARK = remove_watermark_service"
| "service_of HEADER_FOOTER = header_footer_service"
| "service_of PAGE_NUMBERS = page_numbers_service"
| "service_of PROTECT = protect_service"
| "service_of UNLOCK = unlock_service"
| "service_of OCR = ocr_service"
| "service_of REPAIR = repair_service"
| "service_of COMPRESS_SCANNED = compress_scanned_service"
| "service_of METADATA = metadata_service"
| "service_of COMPARE = compare_service"
| "service_of REDACT = redact_service"
| "service_of FILL_FORMS = fill_forms_service"
| "service_of SIGN = sign_service"

text \<open>\<open>options_model = None\<close>: the tool takes no options.\<close>

fun has_options :: "tool_slug \<Rightarrow> bool" where
  "has_options MERGE = False"
| "has_options COMPARE = False"
| "has_options REPAIR = False"
| "has_options _ = True"

lemmas service_defs =
  compress_service_def merge_service_def split_service_def
  rotate_service_def delete_pages_service_def extract_pages_service_def
  reorder_service_def pdf_to_word_service_def word_to_pdf_service_def
  excel_to_pdf_service_def ppt_to_pdf_service_def pdf_to_jpg_service_def
  pdf_to_png_service_def jpg_to_pdf_service_def png_to_pdf_service_def
  watermark_service_def remove_watermark_service_def header_footer_service_def
  page_numbers_service_def protect_service_def unlock_service_def
  ocr_service_def repair_service_def compress_scanned_service_def
  metadata_service_def compare_service_def redact_service_def
  fill_forms_service_def sign_service_def service_def

section \<open>Patterns\<close>

definition digits :: "string \<Rightarrow> bool" where
  "digits s \<longleftrightarrow> s \<noteq> [] \<and> (\<forall>c \<in> set s. is_digit c)"

text \<open>\<open>PAGE_SELECTION_PATTERN\<close>: pages and ranges, white space around every number.\<close>

definition selection_item :: "string \<Rightarrow> bool" where
  "selection_item part =
     (case split_first CHR ''-'' part of
        None \<Rightarrow> digits (py_strip part)
      | Some (a, b) \<Rightarrow> digits (py_strip a) \<and> digits (py_strip b))"

definition page_selection_pattern :: "string \<Rightarrow> bool" where
  "page_selection_pattern s = (\<forall>part \<in> set (split_on CHR '','' s). selection_item part)"

text \<open>\<open>PAGE_RANGE_PATTERN\<close> (and the slide range of PPT to PDF): the same without white space.\<close>

definition range_item :: "string \<Rightarrow> bool" where
  "range_item part =
     (case split_first CHR ''-'' part of
        None \<Rightarrow> digits part
      | Some (a, b) \<Rightarrow> digits a \<and> digits b)"

definition page_range_pattern :: "string \<Rightarrow> bool" where
  "page_range_pattern s = (\<forall>part \<in> set (split_on CHR '','' s). range_item part)"

definition is_hex :: "char \<Rightarrow> bool" where
  "is_hex c \<longleftrightarrow> is_digit c \<or> c \<in> set ''abcdefABCDEF''"

definition hex_color_pattern :: "string \<Rightarrow> bool" where
  "hex_color_pattern s \<longleftrightarrow> length s = 7 \<and> hd s = CHR ''#'' \<and> (\<forall>c \<in> set (tl s). is_hex c)"

section \<open>Validators\<close>

definition split_ranges_required :: "string \<Rightarrow> string list option \<Rightarrow> string option" where
  "split_ranges_required mode ranges =
     (if mode = ''ranges'' then
        (case ranges of
           Some (r # rs) \<Rightarrow>
             (case find (\<lambda>spec. \<not> page_selection_pattern spec) (r # rs) of
                Some spec \<Rightarrow> Some (''Invalid page range '' @ [CHR 0x27] @ spec @ [CHR 0x27] @ ''.'')
              | None \<Rightarrow> None)
         | _ \<Rightarrow> Some ''Provide at least one page range.'')
      else None)"

text \<open>\<open>first_page\<close>/\<open>last_page\<close> of PDF to Word and of the image tools.\<close>

definition check_range :: "int option \<Rightarrow> int option \<Rightarrow> string option" where
  "check_range first_page last_page =
     (case (first_page, last_page) of
        (Some f, Some l) \<Rightarrow>
          if l < f then Some ''last_page must not be smaller than first_page.'' else None
      | _ \<Rightarrow> None)"

definition truthy :: "string option \<Rightarrow> bool" where
  "truthy s \<longleftrightarrow> s \<noteq> None \<and> s \<noteq> Some []"

definition metadata_something_to_do :: "bool \<Rightarrow> string option list \<Rightarrow> string option" where
  "metadata_something_to_do clear_existing metas =
     (if \<not> clear_existing \<and> \<not> (\<exists>f \<in> set metas. truthy f)
      then Some ''Provide at least one metadata field to set.'' else None)"

text \<open>\<open>RedactOptions\<close>: the kept search texts, or the message.\<close>

definition something_to_redact :: "string list \<Rightarrow> nat \<Rightarrow> string + string list" where
  "something_to_redact texts n_areas =
     (let kept = map py_strip (filter (\<lambda>t. py_strip t \<noteq> []) texts)
      in if kept = [] \<and> n_areas = 0
         then Inl ''Provide at least one text term or area to redact.'' else Inr kept)"

definition custom_range_missing :: "string \<Rightarrow> string option \<Rightarrow> string option" where
  "custom_range_missing pages page_range =
     (if pages = ''custom'' \<and> \<not> truthy page_range
      then Some ''Provide a page range (or choose a different page option).'' else None)"

definition watermark_mode_requirements ::
  "string \<Rightarrow> string option \<Rightarrow> string \<Rightarrow> string option \<Rightarrow> string option" where
  "watermark_mode_requirements mode text pages page_range =
     (if mode = ''text'' \<and> \<not> (case text of None \<Rightarrow> False | Some t \<Rightarrow> t \<noteq> [] \<and> py_strip t \<noteq> [])
      then Some ''Provide the watermark text (or switch to image mode).''
      else custom_range_missing pages page_range)"

definition header_footer_validate ::
  "string option \<Rightarrow> string option \<Rightarrow> string \<Rightarrow> string option \<Rightarrow> string option" where
  "header_footer_validate header_text footer_text pages page_range =
     (if \<not> truthy header_text \<and> \<not> truthy footer_text
      then Some ''Provide header_text, footer_text or both.''
      else custom_range_missing pages page_range)"

definition must_reference_page :: "string \<Rightarrow> string option" where
  "must_reference_page value =
     (if \<not> py_in ''{page}'' value then Some ''format must contain the {page} placeholder.'' else None)"

section \<open>Lemmas\<close>

text \<open>Dropping the spaces of padded digits leaves padded digits.\<close>

lemma strip_without_spaces:
  assumes "digits (py_strip a)"
  shows "py_strip (filter (\<lambda>c. c \<noteq> CHR '' '') a) = py_strip a"
proof -
  let ?f = "filter (\<lambda>c. c \<noteq> CHR '' '')"
  obtain w v where a: "a = w @ py_strip a @ v" and w: "\<And>c. c \<in> set w \<Longrightarrow> py_space c"
    and v: "\<And>c. c \<in> set v \<Longrightarrow> py_space c"
    using strip_by_split [of a py_space] unfolding py_strip_def by metis
  have core: "\<And>c. c \<in> set (py_strip a) \<Longrightarrow> is_digit c" "py_strip a \<noteq> []"
    using assms by (auto simp: digits_def)
  then have "?f (py_strip a) = py_strip a" using digit_not(4) by (intro filter_True) metis
  then have f: "?f a = ?f w @ py_strip a @ ?f v" using a by (metis filter_append)
  have "\<not> py_space (hd (py_strip a))" "\<not> py_space (last (py_strip a))"
    using core digit_not_space hd_in_set last_in_set by blast+
  then show ?thesis
    unfolding f py_strip_def using w v core(2) by (intro strip_by_pad) (auto simp: py_strip_def)
qed

lemma split_first_filter:
  assumes "P c"
  shows "split_first c (filter P s)
    = map_option (\<lambda>(a, b). (filter P a, filter P b)) (split_first c s)"
proof (cases "split_first c s")
  case None
  then have "c \<notin> set (filter P s)" by (simp add: split_first_None_iff)
  then have "split_first c (filter P s) = None" by (simp add: split_first_None_iff)
  with None show ?thesis by simp
next
  case (Some ab)
  obtain a b where ab: "ab = (a, b)" by (cases ab)
  from split_first_SomeD [OF Some [unfolded ab]]
  have s: "s = a @ c # b" and c: "c \<notin> set (filter P a)" by auto
  have "filter P s = filter P a @ c # filter P b" using s assms by simp
  with split_first_append [OF c] Some ab show ?thesis by simp
qed

lemma length_digits_le: "length (py_strip a) \<le> length a"
  by (simp add: py_strip_def length_strip_by)

lemma page_part_total:
  assumes "case split_first CHR ''-'' part of
        None \<Rightarrow> digits (py_strip part)
      | Some (a, b) \<Rightarrow> digits (py_strip a) \<and> digits (py_strip b)"
    and "length part \<le> int_max_str_digits"
  shows "\<exists>ps. page_part part = Some ps"
proof (cases "split_first CHR ''-'' part")
  case None
  then have "digits (py_strip part)" using assms(1) by simp
  then have "\<exists>n. py_int part = Some n"
    using assms(2) length_digits_le [of part] by (intro py_int_padded [OF refl]) (auto simp: digits_def)
  with None show ?thesis by (auto simp: page_part_def)
next
  case (Some ab)
  obtain a b where ab: "ab = (a, b)" by (cases ab)
  from split_first_SomeD(1) [OF Some [unfolded ab]] assms(2)
  have l: "length a \<le> int_max_str_digits" "length b \<le> int_max_str_digits" by auto
  have d: "digits (py_strip a)" "digits (py_strip b)" using assms(1) Some ab by auto
  have "\<exists>n. py_int x = Some n" if "digits (py_strip x)" "length x \<le> int_max_str_digits" for x
    using that length_digits_le [of x] by (intro py_int_padded [OF refl]) (auto simp: digits_def)
  from this [OF d(1) l(1)] this [OF d(2) l(2)] Some ab show ?thesis by (auto simp: page_part_def)
qed

lemma page_part_of_item:
  assumes "selection_item part" and "length part \<le> int_max_str_digits"
  shows "\<exists>ps. page_part (filter (\<lambda>c. c \<noteq> CHR '' '') part) = Some ps"
proof (rule page_part_total)
  let ?f = "filter (\<lambda>c. c \<noteq> CHR '' '')"
  show "length (?f part) \<le> int_max_str_digits" using assms(2) length_filter_le order_trans by blast
  have "split_first CHR ''-'' (?f part)
      = map_option (\<lambda>(a, b). (?f a, ?f b)) (split_first CHR ''-'' part)"
    by (rule split_first_filter) simp
  then show "case split_first CHR ''-'' (?f part) of
        None \<Rightarrow> digits (py_strip (?f part))
      | Some (a, b) \<Rightarrow> digits (py_strip a) \<and> digits (py_strip b)"
    using assms(1) by (auto simp: selection_item_def strip_without_spaces split: option.splits)
qed

lemma range_item_strip: "range_item part \<Longrightarrow> case split_first CHR ''-'' part of
        None \<Rightarrow> digits (py_strip part)
      | Some (a, b) \<Rightarrow> digits (py_strip a) \<and> digits (py_strip b)"
  using py_strip_digits by (auto simp: range_item_def digits_def split: option.splits)

lemma split_on_length: "part \<in> set (split_on c s) \<Longrightarrow> length part \<le> length s"
proof (induction s arbitrary: part)
  case (Cons a s)
  show ?case
  proof (cases "split_on c s")
    case Nil
    then show ?thesis by simp
  next
    case (Cons y ys)
    have "length y \<le> length s" "\<And>z. z \<in> set ys \<Longrightarrow> length z \<le> length s"
      using Cons.IH Cons by auto
    with Cons.prems Cons show ?thesis by (auto split: if_splits simp: le_SucI)
  qed
qed simp

lemma page_parts_total:
  "(\<And>p. p \<in> set parts \<Longrightarrow> \<exists>ps. page_part p = Some ps) \<Longrightarrow> \<exists>ps. page_parts parts = Some ps"
proof (induction parts)
  case (Cons p parts)
  have "\<exists>ps. page_parts parts = Some ps" by (rule Cons.IH) (simp add: Cons.prems)
  moreover have "\<exists>ps. page_part p = Some ps" by (simp add: Cons.prems)
  ultimately show ?case by auto
qed simp

lemma range_parts_total:
  "(\<And>p. p \<in> set parts \<Longrightarrow> \<exists>ps. page_part p = Some ps) \<Longrightarrow> \<exists>ps. range_parts parts = Some ps"
proof (induction parts)
  case (Cons p parts)
  have "\<exists>ps. range_parts parts = Some ps" by (rule Cons.IH) (simp add: Cons.prems)
  moreover have "\<exists>ps. page_part p = Some ps" by (simp add: Cons.prems)
  ultimately show ?case by auto
qed simp

section \<open>Properties\<close>



text \<open>
  The tool catalogue is consistent: for every tool the service registered under its slug
  dispatches the Celery task \<open>tools.<slug>\<close>, accepts only file types that can be uploaded,
  and has an input range that is not empty and that even the free plan can satisfy.
\<close>

theorem tool_catalog_consistent:
  "ts_slug (service_of t) = t
   \<and> ts_task_name (service_of t) = ''tools.'' @ slug_value t
   \<and> ts_allowed (service_of t) \<noteq> []
   \<and> set (ts_allowed (service_of t)) \<subseteq> set (map ft_extension supported_specs)
   \<and> 1 \<le> ts_min (service_of t) \<and> ts_min (service_of t) \<le> ts_max (service_of t)
   \<and> ts_max (service_of t) \<le> pl_max_files (limits_for_plan None)"
  by (cases t)
    (simp_all add: service_defs supported_specs_def type_spec_def limits_for_plan_anonymous
      free_limits_def plan_limits_of_def)

end
