(* ===== verification/Visitors.thy ===== *)
theory Visitors
  imports Models
begin

text \<open>
  Visit tracking in \<open>app/services/admin.py\<close>: the client data derived from request headers
  (\<open>_parse_user_agent\<close>, \<open>_detect_country\<close>, \<open>_detect_source\<close>), the row
  \<open>track_page_visit\<close> appends for a page view, and the visit counts of \<open>analytics\<close>
  (filters, key figures, period comparison, top lists of the sessions). The growth
  percentages are floating-point numbers and are left out; so are the chart labels.
\<close>

section \<open>Client data from headers\<close>

definition user_agent_os :: "string \<Rightarrow> string" where
  "user_agent_os ua =
     (if py_in ''windows'' ua then ''Windows''
      else if py_in ''macintosh'' ua \<or> py_in ''mac os x'' ua then
        (if py_in ''ipad'' ua \<or> py_in ''iphone'' ua then ''iOS'' else ''macOS'')
      else if py_in ''android'' ua then ''Android''
      else if py_in ''iphone'' ua \<or> py_in ''ipad'' ua \<or> py_in ''ipod'' ua then ''iOS''
      else if py_in ''linux'' ua then ''Linux''
      else ''Other'')"

definition user_agent_device :: "string \<Rightarrow> string" where
  "user_agent_device ua =
     (if py_in ''mobi'' ua \<or> py_in ''iphone'' ua \<or> py_in ''ipod'' ua
           \<or> (py_in ''android'' ua \<and> py_in ''mobile'' ua) then ''Mobile''
      else if py_in ''ipad'' ua \<or> py_in ''tablet'' ua \<or> py_in ''playbook'' ua
           \<or> py_in ''kindle'' ua \<or> (py_in ''android'' ua \<and> \<not> py_in ''mobile'' ua) then ''Tablet''
      else ''Desktop'')"

definition user_agent_browser :: "string \<Rightarrow> string" where
  "user_agent_browser ua =
     (if py_in ''opera'' ua \<or> py_in ''opr/'' ua then ''Opera''
      else if py_in ''edge'' ua \<or> py_in ''edg/'' ua then ''Edge''
      else if py_in ''chrome'' ua \<or> py_in ''crios'' ua then ''Chrome''
      else if py_in ''firefox'' ua \<or> py_in ''fxios'' ua then ''Firefox''
      else if py_in ''safari'' ua \<and> \<not> py_in ''chrome'' ua \<and> \<not> py_in ''chromium'' ua then ''Safari''
      else ''Other'')"

text \<open>The result is (operating system, device, browser).\<close>

definition parse_user_agent :: "string \<Rightarrow> string \<times> string \<times> string" where
  "parse_user_agent ua_string =
     (if ua_string = [] then (''Other'', ''Desktop'', ''Other'')
      else (let ua = py_lower ua_string
            in (user_agent_os ua, user_agent_device ua, user_agent_browser ua)))"

definition detect_country :: "string \<Rightarrow> string option \<Rightarrow> string" where
  "detect_country accept_lang cf_country =
     (case cf_country of
        Some (c # cs) \<Rightarrow> py_upper (c # cs)
      | _ \<Rightarrow>
        (let first_lang = py_strip (hd (split_on CHR '','' accept_lang));
             country_code = py_upper (last (split_on CHR ''-'' first_lang))
         in if accept_lang \<noteq> [] \<and> CHR ''-'' \<in> set first_lang \<and> length country_code = 2
            then country_code else ''US''))"

definition detect_source :: "string option \<Rightarrow> string" where
  "detect_source referrer =
     (case referrer of
        None \<Rightarrow> ''Direct''
      | Some r \<Rightarrow>
        if r = [] then ''Direct''
        else (let ref = py_lower r in
          if py_in ''google'' ref then ''Organic Search''
          else if py_in ''facebook'' ref \<or> py_in ''t.co'' ref \<or> py_in ''twitter'' ref
            \<or> py_in ''instagram'' ref \<or> py_in ''linkedin'' ref then ''Social Media''
          else if py_in ''github'' ref \<or> py_in ''reddit'' ref then ''Referral''
          else if py_in ''ads'' ref \<or> py_in ''googleads'' ref then ''Paid Ads''
          else ''Referral''))"

section \<open>Tracking\<close>

record visit_request =
  vr_visitor_id :: string
  vr_session_id :: string
  vr_path :: string
  vr_referrer :: "string option"
  vr_source :: "string option"
  vr_user_agent :: string
  vr_accept_lang :: string
  vr_cf_country :: "string option"

definition visit_of_request :: "int \<Rightarrow> page_visit list \<Rightarrow> visit_request \<Rightarrow> page_visit" where
  "visit_of_request now tbl q =
     (let (os_name, device_type, browser_name) = parse_user_agent (vr_user_agent q)
      in \<lparr>pv_visitor_id = vr_visitor_id q, pv_session_id = vr_session_id q,
          pv_path = vr_path q, pv_referrer = vr_referrer q,
          pv_device = Some device_type, pv_browser = Some browser_name,
          pv_os = Some os_name,
          pv_country = Some (detect_country (vr_accept_lang q) (vr_cf_country q)),
          pv_source = Some (case vr_source q of
             Some (c # cs) \<Rightarrow> c # cs | _ \<Rightarrow> detect_source (vr_referrer q)),
          pv_is_returning = (\<exists>v \<in> set tbl. pv_visitor_id v = vr_visitor_id q),
          pv_created_at = now\<rparr>)"

definition track_page_visit :: "int \<Rightarrow> visit_request \<Rightarrow> page_visit list \<Rightarrow> page_visit list" where
  "track_page_visit now q tbl = tbl @ [visit_of_request now tbl q]"

text \<open>What \<open>create_job\<close> looks up: the source of a session's first stored visit and whether
  the visitor is known.\<close>

definition session_source :: "string option \<Rightarrow> page_visit list \<Rightarrow> string" where
  "session_source sid tbl =
     (case sid of
        Some (c # cs) \<Rightarrow>
          (case find (\<lambda>v. pv_session_id v = c # cs) tbl of
             Some v \<Rightarrow> (case pv_source v of Some (x # xs) \<Rightarrow> x # xs | _ \<Rightarrow> ''Direct'')
           | None \<Rightarrow> ''Direct'')
      | _ \<Rightarrow> ''Direct'')"

definition known_visitor :: "string option \<Rightarrow> page_visit list \<Rightarrow> bool" where
  "known_visitor vid tbl =
     (case vid of
        Some (c # cs) \<Rightarrow> \<exists>v \<in> set tbl. pv_visitor_id v = c # cs
      | _ \<Rightarrow> False)"

section \<open>Analytics\<close>

datatype visitor_type = VT_unique | VT_returning | VT_total

record visit_filter =
  vf_device :: "string option"
  vf_browser :: "string option"
  vf_country :: "string option"
  vf_source :: "string option"

text \<open>\<open>func.lower(column) == value.lower()\<close>, added when the value is truthy; a null column
  compares to unknown.\<close>

definition column_matches :: "string option \<Rightarrow> string option \<Rightarrow> bool" where
  "column_matches wanted col =
     (case wanted of
        Some (c # cs) \<Rightarrow> (case col of None \<Rightarrow> False | Some v \<Rightarrow> py_lower v = py_lower (c # cs))
      | _ \<Rightarrow> True)"

definition day_start :: "int \<Rightarrow> int" where
  "day_start d = days d"

definition day_end :: "int \<Rightarrow> int" where
  "day_end d = days (d + 1) - 1"

text \<open>The date range: a missing or unparsable date falls back to today and to thirty days
  before the end.\<close>

definition parsed_range :: "int \<Rightarrow> int option \<Rightarrow> int option \<Rightarrow> int \<times> int" where
  "parsed_range today start end_date =
     (let e = (case end_date of Some d \<Rightarrow> d | None \<Rightarrow> today)
      in (case start of Some d \<Rightarrow> d | None \<Rightarrow> e - 30, e))"

definition visit_in_range :: "visit_filter \<Rightarrow> int \<Rightarrow> int \<Rightarrow> page_visit \<Rightarrow> bool" where
  "visit_in_range f s e v \<longleftrightarrow>
     day_start s \<le> pv_created_at v \<and> pv_created_at v \<le> day_end e
     \<and> column_matches (vf_device f) (pv_device v)
     \<and> column_matches (vf_browser f) (pv_browser v)
     \<and> column_matches (vf_country f) (pv_country v)
     \<and> column_matches (vf_source f) (pv_source v)"

fun type_matches :: "visitor_type \<Rightarrow> bool \<Rightarrow> bool" where
  "type_matches VT_unique returning = (\<not> returning)"
| "type_matches VT_returning returning = returning"
| "type_matches VT_total returning = True"

definition base_filter :: "visit_filter \<Rightarrow> visitor_type \<Rightarrow> int \<Rightarrow> int \<Rightarrow> page_visit list \<Rightarrow> page_visit list" where
  "base_filter f vt s e tbl =
     filter (\<lambda>v. visit_in_range f s e v \<and> type_matches vt (pv_is_returning v)) tbl"

definition count_distinct :: "('a \<Rightarrow> 'b) \<Rightarrow> 'a list \<Rightarrow> nat" where
  "count_distinct f xs = length (remdups (map f xs))"

record visit_kpis =
  vk_total_visitors :: nat
  vk_unique_visitors :: nat
  vk_returning_visitors :: nat
  vk_page_views :: nat
  vk_total_sessions :: nat

definition visit_kpis_of :: "page_visit list \<Rightarrow> visit_kpis" where
  "visit_kpis_of sel =
     \<lparr>vk_total_visitors = count_distinct pv_visitor_id sel,
      vk_unique_visitors = count_distinct pv_visitor_id (filter (\<lambda>v. \<not> pv_is_returning v) sel),
      vk_returning_visitors = count_distinct pv_visitor_id (filter pv_is_returning sel),
      vk_page_views = length sel,
      vk_total_sessions = count_distinct pv_session_id sel\<rparr>"

definition metric_val_for_range ::
  "visit_filter \<Rightarrow> visitor_type \<Rightarrow> int \<Rightarrow> int \<Rightarrow> page_visit list \<Rightarrow> nat" where
  "metric_val_for_range f vt s e tbl = count_distinct pv_visitor_id (base_filter f vt s e tbl)"

text \<open>The pairs (this period, period before): today, the last 7 days, the last 30 days.\<close>

definition comparison :: "visit_filter \<Rightarrow> visitor_type \<Rightarrow> int \<Rightarrow> page_visit list \<Rightarrow> (nat \<times> nat) list" where
  "comparison f vt today tbl =
     [(metric_val_for_range f vt today today tbl,
       metric_val_for_range f vt (today - 1) (today - 1) tbl),
      (metric_val_for_range f vt (today - 6) today tbl,
       metric_val_for_range f vt (today - 13) (today - 7) tbl),
      (metric_val_for_range f vt (today - 29) today tbl,
       metric_val_for_range f vt (today - 59) (today - 30) tbl)]"

section \<open>Lemmas\<close>

lemma count_distinct_card: "count_distinct f xs = card (f ` set xs)"
  by (simp add: count_distinct_def length_remdups_card_conv)

lemma visit_of_request_simps [simp]:
  "pv_visitor_id (visit_of_request now tbl q) = vr_visitor_id q"
  "pv_is_returning (visit_of_request now tbl q)
     \<longleftrightarrow> vr_visitor_id q \<in> pv_visitor_id ` set tbl"
  by (auto simp: visit_of_request_def image_iff split: prod.split) metis

text \<open>Every visitor's first visit is the only one not marked as returning.\<close>

definition first_visits_new :: "page_visit list \<Rightarrow> bool" where
  "first_visits_new tbl \<longleftrightarrow>
     (\<forall>i < length tbl. pv_is_returning (tbl ! i)
        \<longleftrightarrow> pv_visitor_id (tbl ! i) \<in> pv_visitor_id ` set (take i tbl))"

lemma first_visits_new_track:
  assumes "first_visits_new tbl"
  shows "first_visits_new (track_page_visit now q tbl)"
  unfolding first_visits_new_def track_page_visit_def
proof (intro allI impI)
  fix i assume "i < length (tbl @ [visit_of_request now tbl q])"
  then consider "i < length tbl" | "i = length tbl" by fastforce
  then show "pv_is_returning ((tbl @ [visit_of_request now tbl q]) ! i)
    \<longleftrightarrow> pv_visitor_id ((tbl @ [visit_of_request now tbl q]) ! i)
          \<in> pv_visitor_id ` set (take i (tbl @ [visit_of_request now tbl q]))"
    using assms by cases (auto simp: first_visits_new_def nth_append)
qed

lemma first_visits_new_snoc:
  "first_visits_new (tbl @ [v]) \<longleftrightarrow>
     first_visits_new tbl \<and> (pv_is_returning v \<longleftrightarrow> pv_visitor_id v \<in> pv_visitor_id ` set tbl)"
  (is "?l = ?r")
proof
  assume l: ?l
  have i: "pv_is_returning ((tbl @ [v]) ! i)
      \<longleftrightarrow> pv_visitor_id ((tbl @ [v]) ! i) \<in> pv_visitor_id ` set (take i (tbl @ [v]))"
    if "i < Suc (length tbl)" for i
    using l that by (simp add: first_visits_new_def)
  have "first_visits_new tbl"
    unfolding first_visits_new_def
  proof (intro allI impI)
    fix i assume "i < length tbl"
    then show "pv_is_returning (tbl ! i)
        \<longleftrightarrow> pv_visitor_id (tbl ! i) \<in> pv_visitor_id ` set (take i tbl)"
      using i [of i] by (simp add: nth_append)
  qed
  moreover have "pv_is_returning v \<longleftrightarrow> pv_visitor_id v \<in> pv_visitor_id ` set tbl"
    using i [of "length tbl"] by simp
  ultimately show ?r by blast
next
  assume ?r
  then show ?l
    unfolding first_visits_new_def by (auto simp: nth_append less_Suc_eq)
qed

lemma first_visits_new_counts:
  "first_visits_new tbl \<Longrightarrow>
     length (filter (\<lambda>v. \<not> pv_is_returning v) tbl) = card (pv_visitor_id ` set tbl)
     \<and> pv_visitor_id ` set (filter (\<lambda>v. \<not> pv_is_returning v) tbl) = pv_visitor_id ` set tbl"
proof (induction tbl rule: rev_induct)
  case Nil
  then show ?case by simp
next
  case (snoc v tbl)
  then have n: "first_visits_new tbl"
    and r: "pv_is_returning v \<longleftrightarrow> pv_visitor_id v \<in> pv_visitor_id ` set tbl"
    by (auto simp: first_visits_new_snoc)
  show ?case
  proof (cases "pv_is_returning v")
    case True
    with r have "insert (pv_visitor_id v) (pv_visitor_id ` set tbl) = pv_visitor_id ` set tbl"
      by auto
    with True snoc.IH [OF n] show ?thesis by simp
  next
    case False
    with r have "pv_visitor_id v \<notin> pv_visitor_id ` set tbl" by simp
    with False snoc.IH [OF n] show ?thesis by (auto simp: image_Un)
  qed
qed

lemma first_visits_new_fold:
  "first_visits_new tbl \<Longrightarrow> first_visits_new (fold (\<lambda>(now, q). track_page_visit now q) qs tbl)"
  by (induction qs arbitrary: tbl) (auto intro: first_visits_new_track)

lemma kpis_bounds:
  "vk_unique_visitors (visit_kpis_of sel) \<le> vk_total_visitors (visit_kpis_of sel)"
  "vk_returning_visitors (visit_kpis_of sel) \<le> vk_total_visitors (visit_kpis_of sel)"
  "vk_total_visitors (visit_kpis_of sel)
     \<le> vk_unique_visitors (visit_kpis_of sel) + vk_returning_visitors (visit_kpis_of sel)"
  "vk_total_visitors (visit_kpis_of sel) \<le> vk_page_views (visit_kpis_of sel)"
proof -
  have u: "pv_visitor_id ` set sel = pv_visitor_id ` {v \<in> set sel. \<not> pv_is_returning v}
      \<union> pv_visitor_id ` {v \<in> set sel. pv_is_returning v}" by auto
  show "vk_unique_visitors (visit_kpis_of sel) \<le> vk_total_visitors (visit_kpis_of sel)"
    "vk_returning_visitors (visit_kpis_of sel) \<le> vk_total_visitors (visit_kpis_of sel)"
    by (auto simp: visit_kpis_of_def count_distinct_card intro!: card_mono)
  show "vk_total_visitors (visit_kpis_of sel)
     \<le> vk_unique_visitors (visit_kpis_of sel) + vk_returning_visitors (visit_kpis_of sel)"
    using card_Un_le [of "pv_visitor_id ` {v \<in> set sel. \<not> pv_is_returning v}"
        "pv_visitor_id ` {v \<in> set sel. pv_is_returning v}"] u
    by (simp add: visit_kpis_of_def count_distinct_card)
  show "vk_total_visitors (visit_kpis_of sel) \<le> vk_page_views (visit_kpis_of sel)"
    by (simp add: visit_kpis_of_def count_distinct_def)
      (metis length_map length_remdups_leq)
qed

section \<open>Properties\<close>

text \<open>
  Tracking tells new visitors from returning ones. After any sequence of tracked page
  views, each visitor has exactly one visit not marked as returning, the first one; so the
  dashboard's unique visitors over an unrestricted selection is its total of visitors, and the
  returning visitors are exactly those with more than one visit.
\<close>

theorem track_page_visit_new_visitors:
  fixes qs :: "(int \<times> visit_request) list"
  defines "tbl \<equiv> fold (\<lambda>(now, q). track_page_visit now q) qs []"
  shows "(\<forall>i < length tbl. pv_is_returning (tbl ! i)
            \<longleftrightarrow> pv_visitor_id (tbl ! i) \<in> pv_visitor_id ` set (take i tbl))
    \<and> vk_unique_visitors (visit_kpis_of tbl) = vk_total_visitors (visit_kpis_of tbl)
    \<and> length (filter (\<lambda>v. \<not> pv_is_returning v) tbl) = vk_total_visitors (visit_kpis_of tbl)"
proof -
  have n: "first_visits_new tbl"
    unfolding tbl_def by (rule first_visits_new_fold) (simp add: first_visits_new_def)
  from first_visits_new_counts [OF n] n show ?thesis
    by (simp add: first_visits_new_def visit_kpis_of_def count_distinct_card)
qed

theorem track_page_visit_new_visitors_witness:
  "let q = (\<lambda>v s. \<lparr>vr_visitor_id = v, vr_session_id = s, vr_path = ''/'', vr_referrer = None,
             vr_source = None, vr_user_agent = [], vr_accept_lang = [], vr_cf_country = None\<rparr>);
       tbl = fold (\<lambda>(now, q). track_page_visit now q)
               [(1, q ''a'' ''s''), (2, q ''b'' ''t''), (3, q ''a'' ''s'')] []
   in map pv_is_returning tbl = [False, False, True]
     \<and> length (filter (\<lambda>v. \<not> pv_is_returning v) tbl) = vk_total_visitors (visit_kpis_of tbl)"
  unfolding Let_def
  using track_page_visit_new_visitors [of "let q = (\<lambda>v s. \<lparr>vr_visitor_id = v, vr_session_id = s, vr_path = ''/'', vr_referrer = None,
             vr_source = None, vr_user_agent = [], vr_accept_lang = [], vr_cf_country = None\<rparr>) in
               [(1, q ''a'' ''s''), (2, q ''b'' ''t''), (3, q ''a'' ''s'')]", unfolded Let_def]
  by (simp add: track_page_visit_def)

end
