(* ===== verification/Uuids.thy ===== *)
theory Uuids
  imports PyText
begin

text \<open>
  Python's \<open>uuid.UUID\<close>, as the endpoints use it: \<open>str(u)\<close> and the parsing of a text, with the
  leniency of the library (a \<open>urn:uuid:\<close> prefix, braces, dashes anywhere, and whatever
  \<open>int(text, 16)\<close> takes). A UUID is its 128-bit number.
\<close>

section \<open>Printing\<close>

definition hex_digit :: "nat \<Rightarrow> char" where
  "hex_digit n = ''0123456789abcdef'' ! (n mod 16)"

fun hex_pad :: "nat \<Rightarrow> nat \<Rightarrow> string" where
  "hex_pad 0 n = []"
| "hex_pad (Suc k) n = hex_pad k (n div 16) @ [hex_digit n]"

definition uuid_str :: "nat \<Rightarrow> string" where
  "uuid_str n =
     (let h = hex_pad 32 n in
      py_join ''-'' [take 8 h, take 4 (drop 8 h), take 4 (drop 12 h), take 4 (drop 16 h), drop 20 h])"

section \<open>Parsing\<close>

text \<open>\<open>s.replace(pat, "")\<close>.\<close>

function py_remove :: "string \<Rightarrow> string \<Rightarrow> string" where
  "py_remove pat [] = []"
| "py_remove pat (x # xs) =
     (if pat \<noteq> [] \<and> starts_with pat (x # xs) then py_remove pat (drop (length pat) (x # xs))
      else x # py_remove pat xs)"
  by pat_completeness auto
termination
proof (relation "measure (\<lambda>(pat, s). length s)")
  fix pat :: string and x xs
  assume "pat \<noteq> [] \<and> starts_with pat (x # xs)"
  then show "((pat, drop (length pat) (x # xs)), pat, x # xs) \<in> measure (\<lambda>(pat, s). length s)"
    by (cases pat) auto
qed auto

definition hex_val :: "char \<Rightarrow> nat option" where
  "hex_val c =
     (let n = char_code c in
      if 48 \<le> n \<and> n \<le> 57 then Some (n - 48)
      else if 97 \<le> n \<and> n \<le> 102 then Some (n - 87)
      else if 65 \<le> n \<and> n \<le> 70 then Some (n - 55)
      else None)"

fun hex_digits :: "nat \<Rightarrow> string \<Rightarrow> nat option" where
  "hex_digits acc [] = Some acc"
| "hex_digits acc (c # cs) =
     (case hex_val c of
        Some v \<Rightarrow> hex_digits (16 * acc + v) cs
      | None \<Rightarrow>
          if c = CHR ''_'' then
            (case cs of [] \<Rightarrow> None | d # _ \<Rightarrow> if hex_val d \<noteq> None then hex_digits acc cs else None)
          else None)"

definition hex_prefix :: "string \<Rightarrow> string" where
  "hex_prefix s =
     (case s of
        z # x # r \<Rightarrow>
          if z = CHR ''0'' \<and> (x = CHR ''x'' \<or> x = CHR ''X'')
          then (case r of u # r' \<Rightarrow> if u = CHR ''_'' then r' else r | [] \<Rightarrow> r)
          else s
      | _ \<Rightarrow> s)"

definition hex_unsigned :: "string \<Rightarrow> int option" where
  "hex_unsigned s =
     (case hex_prefix s of
        [] \<Rightarrow> None
      | c # cs \<Rightarrow> if hex_val c = None then None else map_option int (hex_digits 0 (c # cs)))"

text \<open>\<open>int(s, 16)\<close>.\<close>

definition int16 :: "string \<Rightarrow> int option" where
  "int16 s =
     (case py_strip s of
        [] \<Rightarrow> None
      | c # cs \<Rightarrow>
          if c = CHR ''-'' then map_option uminus (hex_unsigned cs)
          else if c = CHR ''+'' then hex_unsigned cs
          else hex_unsigned (c # cs))"

definition parse_uuid :: "string \<Rightarrow> nat option" where
  "parse_uuid s =
     (let h = py_replace_char CHR ''-'' []
                (strip_by (\<lambda>c. c = CHR ''{'' \<or> c = CHR ''}'') (py_remove ''uuid:'' (py_remove ''urn:'' s)))
      in if length h \<noteq> 32 then None
         else (case int16 h of
                 None \<Rightarrow> None
               | Some i \<Rightarrow> if 0 \<le> i \<and> i < 2 ^ 128 then Some (nat i) else None))"

section \<open>Round trip\<close>

lemma length_hex_pad [simp]: "length (hex_pad k n) = k"
  by (induction k arbitrary: n) simp_all

lemma nat_less_16: "m < 16 \<longleftrightarrow> m \<in> {0, 1, 2, 3, 4, 5, 6, 7, 8, 9, 10, 11, 12, 13, 14, 15 :: nat}"
  by (simp only: insert_iff empty_iff) presburger

lemma hex_val_digit [simp]: "hex_val (hex_digit n) = Some (n mod 16)"
proof -
  have "n mod 16 < 16" by simp
  then show ?thesis
    unfolding nat_less_16 hex_digit_def
    by (elim insertE emptyE) (simp_all add: hex_val_def char_code_def Let_def)
qed

lemma hex_pad_val: "c \<in> set (hex_pad k n) \<Longrightarrow> hex_val c \<noteq> None"
  by (induction k arbitrary: n) auto

lemma hex_pad_not:
  assumes "hex_val c = None"
  shows "c \<notin> set (hex_pad k n)"
  using assms hex_pad_val by blast

lemma hex_digits_append_digit:
  "(\<And>c. c \<in> set s \<Longrightarrow> hex_val c \<noteq> None)
    \<Longrightarrow> hex_digits a (s @ t) = Option.bind (hex_digits a s) (\<lambda>b. hex_digits b t)"
proof (induction s arbitrary: a)
  case (Cons c s)
  from Cons.prems [of c] obtain v where "hex_val c = Some v" by auto
  with Cons show ?case by simp
qed simp

lemma hex_digits_hex_pad: "hex_digits a (hex_pad k n) = Some (a * 16 ^ k + n mod 16 ^ k)"
proof (induction k arbitrary: n)
  case (Suc k)
  have "hex_digits a (hex_pad (Suc k) n) = hex_digits (a * 16 ^ k + n div 16 mod 16 ^ k) [hex_digit n]"
    using hex_digits_append_digit [of "hex_pad k (n div 16)" a "[hex_digit n]"] hex_pad_val Suc by simp
  also have "\<dots> = Some (16 * (a * 16 ^ k + n div 16 mod 16 ^ k) + n mod 16)" by simp
  also have "16 * (n div 16 mod 16 ^ k) + n mod 16 = n mod (16 * 16 ^ k)"
    by (simp add: mod_mult2_eq)
  then have "16 * (a * 16 ^ k + n div 16 mod 16 ^ k) + n mod 16 = a * 16 ^ Suc k + n mod 16 ^ Suc k"
    by (simp add: algebra_simps)
  finally show ?case .
qed simp

lemma py_remove_id: "c \<in> set pat \<Longrightarrow> c \<notin> set s \<Longrightarrow> py_remove pat s = s"
proof (induction pat s rule: py_remove.induct)
  case (2 pat x xs)
  have "\<not> starts_with pat (x # xs)"
    using "2.prems" set_mono_prefix [of pat "x # xs"] by (auto simp: starts_with_prefix)
  with 2 show ?case by simp
qed simp

lemma not_hex: "hex_val (CHR '':'') = None" "hex_val (CHR ''-'') = None" "hex_val (CHR ''{'') = None"
  "hex_val (CHR ''}'') = None" "hex_val (CHR ''+'') = None" "hex_val (CHR ''x'') = None"
  "hex_val (CHR ''X'') = None" "hex_val (CHR '','') = None"
  by (simp_all add: hex_val_def char_code_def)

lemma hex_val_range:
  "hex_val c \<noteq> None \<Longrightarrow> (48 \<le> char_code c \<and> char_code c \<le> 57)
     \<or> (65 \<le> char_code c \<and> char_code c \<le> 70) \<or> (97 \<le> char_code c \<and> char_code c \<le> 102)"
  by (simp add: hex_val_def Let_def split: if_splits)

lemma hex_not_space: "hex_val c \<noteq> None \<Longrightarrow> \<not> py_space c"
  using hex_val_range [of c] by (auto simp: py_space_def Let_def)

lemma int16_hex_pad: "0 < k \<Longrightarrow> int16 (hex_pad k n) = Some (int (n mod 16 ^ k))"
proof -
  assume "0 < k"
  then obtain c cs where h: "hex_pad k n = c # cs" by (cases "hex_pad k n") (auto dest: arg_cong [of _ _ length])
  have vals: "\<And>x. x \<in> set (c # cs) \<Longrightarrow> hex_val x \<noteq> None" using hex_pad_val [of _ k n] h by auto
  have "py_strip (c # cs) = c # cs"
    unfolding py_strip_def
  proof (rule strip_by_id)
    show "\<not> py_space (hd (c # cs))" by (rule hex_not_space) (simp add: vals)
    show "\<not> py_space (last (c # cs))" by (rule hex_not_space, rule vals, rule last_in_set) simp
  qed simp
  moreover have "c \<noteq> CHR ''-''" "c \<noteq> CHR ''+''" using vals [of c] by (auto simp: not_hex)
  moreover have "hex_prefix (c # cs) = c # cs"
  proof (cases cs)
    case (Cons x r)
    then have "x \<noteq> CHR ''x''" "x \<noteq> CHR ''X''" using vals [of x] by (auto simp: not_hex)
    with Cons show ?thesis by (simp add: hex_prefix_def)
  qed (simp add: hex_prefix_def)
  moreover have "hex_digits 0 (c # cs) = Some (n mod 16 ^ k)"
    using hex_digits_hex_pad [of 0 k n] by (simp del: hex_digits.simps add: h)
  moreover have "hex_val c \<noteq> None" by (rule vals) simp
  ultimately show ?thesis
    by (simp del: hex_digits.simps add: h int16_def hex_unsigned_def)
qed

lemma uuid_str_chars: "c \<in> set (uuid_str n) \<Longrightarrow> hex_val c \<noteq> None \<or> c = CHR ''-''"
  by (auto simp: uuid_str_def Let_def dest!: in_set_takeD in_set_dropD hex_pad_val)

lemma uuid_str_not: "hex_val c = None \<Longrightarrow> c \<noteq> CHR ''-'' \<Longrightarrow> c \<notin> set (uuid_str n)"
  using uuid_str_chars by blast

lemma uuid_str_undash: "py_replace_char CHR ''-'' [] (uuid_str n) = hex_pad 32 n"
proof -
  let ?h = "hex_pad 32 n" and ?r = "py_replace_char CHR ''-'' []"
  have app: "?r (s @ t) = ?r s @ ?r t" for s t by (simp add: py_replace_char_def)
  have id: "?r s = s" if "set s \<subseteq> set ?h" for s
    using that hex_pad_not [OF not_hex(2)] by (intro py_replace_char_id) blast
  have sub: "set (take k ?h) \<subseteq> set ?h" "set (take j (drop k ?h)) \<subseteq> set ?h" "set (drop k ?h) \<subseteq> set ?h" for j k
    by (auto dest: in_set_takeD in_set_dropD)
  have split: "?h = take 8 ?h @ take 4 (drop 8 ?h) @ take 4 (drop 12 ?h) @ take 4 (drop 16 ?h) @ drop 20 ?h"
    using append_take_drop_id [of 8 ?h] append_take_drop_id [of 4 "drop 8 ?h"]
      append_take_drop_id [of 4 "drop 12 ?h"] append_take_drop_id [of 4 "drop 16 ?h"]
    by (simp del: append_take_drop_id)
  have dash: "?r ''-'' = []" by (simp add: py_replace_char_def)
  show ?thesis
    unfolding uuid_str_def Let_def
    using split by (simp only: py_join.simps app dash append_Nil id [OF sub(1)] id [OF sub(2)] id [OF sub(3)])
qed

lemma length_uuid_str: "length (uuid_str n) = 36"
  by (simp add: uuid_str_def Let_def)

lemma parse_uuid_str:
  assumes "n < 2 ^ 128"
  shows "parse_uuid (uuid_str n) = Some n"
proof -
  have e: "(16::nat) ^ 32 = 2 ^ 128" by simp
  have "py_remove ''urn:'' (uuid_str n) = uuid_str n" "py_remove ''uuid:'' (uuid_str n) = uuid_str n"
    using uuid_str_not [OF not_hex(1)] by (auto intro!: py_remove_id [of "CHR '':''"])
  moreover have "strip_by (\<lambda>c. c = CHR ''{'' \<or> c = CHR ''}'') (uuid_str n) = uuid_str n"
  proof (rule strip_by_id)
    show ne: "uuid_str n \<noteq> []" using length_uuid_str [of n] by auto
    have "x \<in> set (uuid_str n) \<Longrightarrow> \<not> (x = CHR ''{'' \<or> x = CHR ''}'')" for x
      using uuid_str_not [OF not_hex(3)] uuid_str_not [OF not_hex(4)] by auto
    with ne show "\<not> (hd (uuid_str n) = CHR ''{'' \<or> hd (uuid_str n) = CHR ''}'')"
      "\<not> (last (uuid_str n) = CHR ''{'' \<or> last (uuid_str n) = CHR ''}'')" by auto
  qed
  moreover have "n mod 16 ^ 32 = n" using assms by (simp only: e mod_less)
  moreover have "int n < 2 ^ 128" using assms by simp
  ultimately show ?thesis
    using int16_hex_pad [of 32 n] by (simp add: parse_uuid_def uuid_str_undash Let_def)
qed

end
