(* ===== verification/ToolJobs.thy ===== *)
theory ToolJobs
  imports ToolCatalog Visitors Upload Uuids
begin

text \<open>
  \<open>app/services/tool_base.py\<close>: validation, persistence and dispatch of a job.

  The state is the database session of the request. pydantic's \<open>model_validate\<close> with
  \<open>model_dump\<close> is the argument \<open>cj_validate\<close> (the validated options or pydantic's errors), and
  the hand-over to Celery is \<open>cj_dispatch\<close>: it gets the committed database, may change it (an
  eager task runs inside the call, in its own session) and may raise.
\<close>

section \<open>Requests\<close>

record job_request =
  jr_file_ids :: "nat list"
  jr_options :: "(string \<times> json) list"
  jr_user_id :: "nat option"
  jr_plan :: "string option"
  jr_visitor_id :: "string option"
  jr_session_id :: "string option"
  jr_user_agent :: string
  jr_accept_lang :: string
  jr_cf_country :: "string option"

record create_env =
  cj_settings :: settings
  cj_now :: int
  cj_finish :: int
  cj_job_id :: nat
  cj_task_id :: string
  cj_validate :: "tool_slug \<Rightarrow> (string \<times> json) list \<Rightarrow> pydantic_err list + (string \<times> json) list"
  cj_flush_fault :: "py_exc option"
  cj_commit_fault :: "py_exc option"
  cj_dispatch :: "string \<Rightarrow> nat \<Rightarrow> string \<Rightarrow> db \<Rightarrow> db \<times> (py_exc, unit) result"

section \<open>Validation\<close>

definition err_detail :: "pydantic_err \<Rightarrow> error_detail" where
  "err_detail e =
     \<lparr>ed_message = (case pe_msg e of None \<Rightarrow> ''Invalid value.'' | Some m \<Rightarrow> m),
      ed_field = Some (py_join ''.'' (map loc_str (pe_loc e))), ed_type = pe_type e\<rparr>"

definition validate_options ::
  "create_env \<Rightarrow> tool_service \<Rightarrow> (string \<times> json) list \<Rightarrow> (py_exc, (string \<times> json) list) result" where
  "validate_options env svc options =
     (if \<not> has_options (ts_slug svc) then Inr []
      else case cj_validate env (ts_slug svc) options of
        Inr validated \<Rightarrow> Inr validated
      | Inl errors \<Rightarrow>
          Inl (AppExc (new_app_exc (BaseE ValidationError)
            (Some (''Invalid options for tool '' @ [CHR 0x27] @ slug_value (ts_slug svc) @ [CHR 0x27] @ ''.''))
            None None (map err_detail errors))))"

definition quoted :: "string \<Rightarrow> string" where
  "quoted s = [CHR 0x27] @ s @ [CHR 0x27]"

definition validate_input ::
  "tool_service \<Rightarrow> plan_limits \<Rightarrow> stored_file list \<Rightarrow> nat option \<Rightarrow> nat \<Rightarrow> (py_exc, stored_file) result" where
  "validate_input svc limits tbl user_id file_id =
     (case file_get_active file_id user_id tbl of
        None \<Rightarrow> raise_app (FileE FileNotFoundAppError)
          (''Input file '' @ uuid_str file_id @ '' was not found.'')
      | Some r \<Rightarrow>
          if sf_extension r \<notin> set (ts_allowed svc)
          then raise_app (FileE UnsupportedFileTypeError)
            (quoted (sf_original_name r) @ '' (.'' @ sf_extension r @ '') is not accepted by tool ''
              @ quoted (slug_value (ts_slug svc)) @ ''.'')
          else if max_file_size_bytes limits < sf_size_bytes r
          then raise_app (FileE FileTooLargeError)
            (quoted (sf_original_name r) @ '' exceeds the '' @ int_str (pl_max_file_size_mb limits)
              @ '' MB per-file limit of the '' @ pl_label limits @ '' plan.'')
          else Inr r)"

definition validate_inputs ::
  "tool_service \<Rightarrow> stored_file list \<Rightarrow> nat list \<Rightarrow> nat option \<Rightarrow> string option
     \<Rightarrow> (py_exc, stored_file list) result" where
  "validate_inputs svc tbl file_ids user_id plan =
     (let n = int (length file_ids); limits = limits_for_plan plan in
      if \<not> (ts_min svc \<le> n \<and> n \<le> ts_max svc)
      then raise_app (BaseE ValidationError)
        (''Tool '' @ quoted (slug_value (ts_slug svc)) @ '' requires between '' @ int_str (ts_min svc)
          @ '' and '' @ int_str (ts_max svc) @ '' input files (received '' @ int_str n @ '').'')
      else if pl_max_files limits < n
      then raise_app (BaseE ValidationError)
        (''The '' @ pl_label limits @ '' plan allows at most '' @ int_str (pl_max_files limits)
          @ '' files per task (received '' @ int_str n @ '').'')
      else rbind (rmap (validate_input svc limits tbl user_id) file_ids) (\<lambda>input_files.
        if max_total_size_bytes limits < sum_list (map sf_size_bytes input_files)
        then raise_app (FileE FileTooLargeError)
          (''The combined input size exceeds the '' @ int_str (pl_max_total_size_mb limits)
            @ '' MB limit of the '' @ pl_label limits @ '' plan.'')
        else Inr input_files))"

section \<open>Creating the job\<close>

definition new_job ::
  "create_env \<Rightarrow> tool_service \<Rightarrow> job_request \<Rightarrow> (string \<times> json) list \<Rightarrow> page_visit list \<Rightarrow> job" where
  "new_job env svc q options visits =
     (let (os_name, device_type, browser_name) = parse_user_agent (jr_user_agent q)
      in \<lparr>j_id = cj_job_id env, j_tool = slug_value (ts_slug svc), j_status = QUEUED, j_progress = 0,
          j_options = options, j_celery_task_id = Some (cj_task_id env), j_user_id = jr_user_id q,
          j_error_code = None, j_error_message = None, j_started_at = None, j_finished_at = None,
          j_expires_at = Some (cj_now env + hours (s_retention_hours (cj_settings env))),
          j_created_at = cj_now env, j_visitor_id = jr_visitor_id q,
          j_session_id = jr_session_id q, j_device = Some device_type,
          j_browser = Some browser_name, j_os = Some os_name,
          j_country = Some (detect_country (jr_accept_lang q) (jr_cf_country q)),
          j_source = Some (session_source (jr_session_id q) visits),
          j_is_returning = known_visitor (jr_visitor_id q) visits\<rparr>)"

definition input_links :: "nat \<Rightarrow> stored_file list \<Rightarrow> job_file list" where
  "input_links job_id input_files =
     map (\<lambda>(position, f). \<lparr>jf_job_id = job_id, jf_file_id = sf_id f, jf_role = INPUT,
            jf_position = position\<rparr>) (enumerate 0 input_files)"

definition dispatch_failed :: "create_env \<Rightarrow> job \<Rightarrow> job" where
  "dispatch_failed env j =
     j\<lparr>j_status := FAILED, j_error_code := Some SERVICE_UNAVAILABLE,
       j_error_message := Some ''The processing queue is unavailable. Try again later.'',
       j_finished_at := Some (cj_finish env)\<rparr>"

text \<open>After the commit: hand over to the queue; on an exception refresh the row and fail it.\<close>

definition dispatch_job :: "create_env \<Rightarrow> tool_service \<Rightarrow> job \<Rightarrow> session \<Rightarrow> session \<times> (py_exc, job) result" where
  "dispatch_job env svc j ss =
     (case cj_dispatch env (ts_task_name svc) (j_id j) (cj_task_id env) (ss_committed ss) of
        (d, Inr _) \<Rightarrow> (ss\<lparr>ss_committed := d\<rparr>, Inr j)
      | (d, Inl _) \<Rightarrow>
          (case find (\<lambda>x. j_id x = j_id j) (db_jobs d) of
             None \<Rightarrow> (\<lparr>ss_committed = d, ss_current = d\<rparr>, Inl (OtherError ''InvalidRequestError'' []))
           | Some row \<Rightarrow>
              (let d' = d\<lparr>db_jobs := upd_job (j_id j) (dispatch_failed env) (db_jobs d)\<rparr>
               in (\<lparr>ss_committed = d', ss_current = d'\<rparr>, Inr (dispatch_failed env row)))))"

definition create_job ::
  "create_env \<Rightarrow> tool_service \<Rightarrow> job_request \<Rightarrow> session \<Rightarrow> session \<times> (py_exc, job) result" where
  "create_job env svc q ss =
     (let d = ss_current ss in
      case rbind (validate_options env svc (jr_options q)) (\<lambda>options.
             rbind (validate_inputs svc (db_files d) (jr_file_ids q) (jr_user_id q) (jr_plan q))
               (\<lambda>files. Inr (options, files))) of
        Inl e \<Rightarrow> (session_rollback ss, Inl e)
      | Inr (options, files) \<Rightarrow>
          (let j = new_job env svc q options (db_visits d);
               ss' = ss\<lparr>ss_current := d\<lparr>db_jobs := db_jobs d @ [j],
                 db_links := db_links d @ input_links (j_id j) files\<rparr>\<rparr>
           in case cj_flush_fault env of
                Some e \<Rightarrow> (session_rollback ss', Inl e)
              | None \<Rightarrow>
                 (case cj_commit_fault env of
                    Some e \<Rightarrow> (session_rollback ss', Inl e)
                  | None \<Rightarrow> dispatch_job env svc j (session_commit ss'))))"

section \<open>Lemmas\<close>

lemma validate_input_Inr_iff:
  "validate_input svc limits tbl user_id i = Inr r \<longleftrightarrow>
     file_get_active i user_id tbl = Some r \<and> sf_extension r \<in> set (ts_allowed svc)
     \<and> sf_size_bytes r \<le> max_file_size_bytes limits"
  by (auto simp: validate_input_def split: option.split)

lemma validate_inputs_Inr_iff:
  "validate_inputs svc tbl ids user_id plan = Inr files \<longleftrightarrow>
     ts_min svc \<le> int (length ids) \<and> int (length ids) \<le> ts_max svc
     \<and> int (length ids) \<le> pl_max_files (limits_for_plan plan)
     \<and> list_all2 (\<lambda>i r. file_get_active i user_id tbl = Some r \<and> sf_extension r \<in> set (ts_allowed svc)
          \<and> sf_size_bytes r \<le> max_file_size_bytes (limits_for_plan plan)) ids files
     \<and> sum_list (map sf_size_bytes files) \<le> max_total_size_bytes (limits_for_plan plan)"
  by (auto simp: validate_inputs_def Let_def rbind_eq_Inr_iff rmap_Inr_iff validate_input_Inr_iff split: if_splits)
    (rule exI [of _ files], simp)

lemma input_links_nth: "input_links i files
    = map (\<lambda>k. \<lparr>jf_job_id = i, jf_file_id = sf_id (files ! k), jf_role = INPUT, jf_position = k\<rparr>)
        [0..<length files]"
  by (rule nth_equalityI) (simp_all add: input_links_def nth_enumerate_eq)

lemma input_links_ids: "map jf_file_id (input_links i files) = map sf_id files"
  by (rule nth_equalityI) (simp_all add: input_links_def nth_enumerate_eq)

lemma job_files_new:
  assumes "\<And>l. l \<in> set links \<Longrightarrow> jf_job_id l \<noteq> i"
  shows "job_files i (links @ input_links i files) = input_links i files"
proof -
  have "filter (\<lambda>l. jf_job_id l = i) links = []" using assms by (simp add: filter_empty_conv)
  moreover have "filter (\<lambda>l. jf_job_id l = i) (input_links i files) = input_links i files"
    by (rule filter_True) (auto simp: input_links_def)
  moreover have "sort_key jf_position (input_links i files) = input_links i files"
    by (rule sort_key_id_if_sorted) (simp add: input_links_nth comp_def)
  ultimately show ?thesis by (simp add: job_files_def)
qed

lemma upd_job_last:
  assumes "\<And>x. x \<in> set tbl \<Longrightarrow> j_id x \<noteq> j_id j"
  shows "upd_job (j_id j) f (tbl @ [j]) = tbl @ [f j]"
  using assms by (induction tbl) (auto simp: upd_job_def)

lemma new_job_simps [simp]:
  "j_id (new_job env svc q opts vs) = cj_job_id env"
  "j_status (new_job env svc q opts vs) = QUEUED"
  "j_options (new_job env svc q opts vs) = opts"
  "j_user_id (new_job env svc q opts vs) = jr_user_id q"
  "j_tool (new_job env svc q opts vs) = slug_value (ts_slug svc)"
  by (simp_all add: new_job_def split: prod.split)

section \<open>Properties\<close>


definition sample_pdf :: stored_file where
  "sample_pdf =
     \<lparr>sf_id = 5, sf_original_name = ''a.pdf'', sf_stored_name = ''ab.pdf'', sf_category = UPLOAD,
      sf_relative_path = ''2026/07/09/ab.pdf'', sf_media_type = ''application/pdf'',
      sf_extension = ''pdf'', sf_size_bytes = 100, sf_checksum = None, sf_status = F_ACTIVE,
      sf_user_id = Some 3, sf_expires_at = None, sf_created_at = 0\<rparr>"

definition sample_create_env :: create_env where
  "sample_create_env =
     \<lparr>cj_settings = default_settings, cj_now = 10, cj_finish = 11, cj_job_id = 9, cj_task_id = ''t'',
      cj_validate = (\<lambda>_ o'. Inr o'), cj_flush_fault = None, cj_commit_fault = None,
      cj_dispatch = (\<lambda>_ _ _ d. (d, Inl (OtherError ''OperationalError'' [])))\<rparr>"

definition sample_request :: job_request where
  "sample_request =
     \<lparr>jr_file_ids = [5], jr_options = [], jr_user_id = Some 3, jr_plan = None, jr_visitor_id = None,
      jr_session_id = None, jr_user_agent = [], jr_accept_lang = [], jr_cf_country = None\<rparr>"


end
