(* ===== verification/Downloads.thy ===== *)
theory Downloads
  imports ToolCatalog Uuids Models Actions
begin

text \<open>
  \<open>app/services/download.py\<close>, \<open>app/services/jobs.py\<close> and the file endpoints of
  \<open>app/api/v1/endpoints/files.py\<close>: lookups with ownership and lifecycle, single downloads,
  ZIP bundles and deletion.

  The state is the disk and the file table. \<open>zipfile\<close>'s encoding of a list of members is the
  argument \<open>dl_zip\<close>; the clock, today's date and \<open>uuid4().hex\<close> are arguments too. A
  \<open>FileResponse\<close> is a record; \<open>deliver\<close> is what sending it does: read the file, then run the
  background task.
\<close>

record download_env =
  dl_settings :: settings
  dl_now :: int
  dl_today :: date
  dl_hex :: string
  dl_zip :: "(string \<times> bytes) list \<Rightarrow> bytes"
  dl_os_refuses :: "path \<Rightarrow> bool"

record file_response =
  fr_path :: path
  fr_media_type :: string
  fr_filename :: string
  fr_background :: "path option"

section \<open>All tools\<close>

instantiation tool_slug :: enum
begin

definition enum_tool_slug :: "tool_slug list" where
  "enum_tool_slug =
     [COMPRESS, MERGE, SPLIT, ROTATE, DELETE_PAGES, EXTRACT_PAGES, REORDER_PAGES, PDF_TO_WORD,
      WORD_TO_PDF, EXCEL_TO_PDF, PPT_TO_PDF, PDF_TO_JPG, PDF_TO_PNG, JPG_TO_PDF, PNG_TO_PDF,
      WATERMARK, REMOVE_WATERMARK, HEADER_FOOTER, PAGE_NUMBERS, PROTECT, UNLOCK, OCR, REPAIR,
      COMPRESS_SCANNED, METADATA, COMPARE, REDACT, FILL_FORMS, SIGN]"

definition enum_all_tool_slug :: "(tool_slug \<Rightarrow> bool) \<Rightarrow> bool" where
  "enum_all_tool_slug P = list_all P Enum.enum"

definition enum_ex_tool_slug :: "(tool_slug \<Rightarrow> bool) \<Rightarrow> bool" where
  "enum_ex_tool_slug P = list_ex P Enum.enum"

instance
proof
  show univ: "UNIV = set (Enum.enum :: tool_slug list)"
  proof (rule set_eqI)
    fix t show "t \<in> UNIV \<longleftrightarrow> t \<in> set (Enum.enum :: tool_slug list)"
      by (cases t) (simp_all add: enum_tool_slug_def)
  qed
  show "distinct (Enum.enum :: tool_slug list)" by (simp add: enum_tool_slug_def)
  show "Enum.enum_all P = Ball UNIV P" for P :: "tool_slug \<Rightarrow> bool"
    unfolding univ by (simp add: enum_all_tool_slug_def list_all_iff)
  show "Enum.enum_ex P = Bex UNIV P" for P :: "tool_slug \<Rightarrow> bool"
    unfolding univ by (simp add: enum_ex_tool_slug_def list_ex_iff)
qed

end

text \<open>\<open>ToolSlug(text)\<close>: the member with that value.\<close>

definition slug_of_value :: "string \<Rightarrow> tool_slug option" where
  "slug_of_value v = find (\<lambda>t. slug_value t = v) Enum.enum"

section \<open>Names\<close>

definition archive_download_name :: "date \<Rightarrow> string option \<Rightarrow> nat \<Rightarrow> string" where
  "archive_download_name today tool n =
     (let pre = (case tool of
            None \<Rightarrow> ''converted''
          | Some t \<Rightarrow> if t = [] then ''converted''
                      else (case slug_of_value t of None \<Rightarrow> ''converted'' | Some k \<Rightarrow> slug_value k));
          (y, m, d) = today;
          stamp = pad4 y @ ''-'' @ pad2 m @ ''-'' @ pad2 d
      in pre @ ''-'' @ nat_str n @ ''-files-'' @ stamp @ ''.zip'')"

text \<open>The name with a counter: before the extension when there is one.\<close>

definition counted_name :: "string \<Rightarrow> nat \<Rightarrow> string" where
  "counted_name original counter =
     (case split_last CHR ''.'' original of
        Some (stem, ext) \<Rightarrow> stem @ '' ('' @ nat_str counter @ '').'' @ ext
      | None \<Rightarrow> original @ '' ('' @ nat_str counter @ '')'')"

lemma counted_name_inj: "counted_name s j = counted_name s k \<longleftrightarrow> j = k"
  by (auto simp: counted_name_def nat_str_inj split: option.splits)

text \<open>\<open>while arcname in used_names\<close>.\<close>

function free_name :: "string list \<Rightarrow> string \<Rightarrow> string \<Rightarrow> nat \<Rightarrow> string" where
  "free_name used original arcname counter =
     (if arcname \<in> set used
      then free_name used original (counted_name original counter) (counter + 1)
      else arcname)"
  by pat_completeness auto

definition taken_above :: "string list \<Rightarrow> string \<Rightarrow> nat \<Rightarrow> nat set" where
  "taken_above used original c = {k. c \<le> k \<and> counted_name original k \<in> set used}"

lemma finite_taken_above: "finite (taken_above used original c)"
proof (rule finite_imageD)
  show "finite (counted_name original ` taken_above used original c)"
    by (rule finite_subset [of _ "set used"]) (auto simp: taken_above_def)
  show "inj_on (counted_name original) (taken_above used original c)"
    by (auto simp: inj_on_def counted_name_inj)
qed

lemma card_taken_above:
  "card (taken_above used original c)
    = card (taken_above used original (Suc c)) + (if counted_name original c \<in> set used then 1 else 0)"
proof (cases "counted_name original c \<in> set used")
  case True
  then have "taken_above used original c = insert c (taken_above used original (Suc c))"
    by (auto simp: taken_above_def le_less Suc_le_eq)
  moreover have "c \<notin> taken_above used original (Suc c)" by (simp add: taken_above_def)
  ultimately show ?thesis using True by (simp add: finite_taken_above)
next
  case False
  then have "taken_above used original c = taken_above used original (Suc c)"
    by (auto simp: taken_above_def le_less Suc_le_eq)
  with False show ?thesis by simp
qed

termination free_name
proof (relation "measure (\<lambda>(used, original, arcname, c).
    card (taken_above used original c) + (if arcname \<in> set used then 1 else 0))")
  fix used :: "string list" and original arcname :: string and counter :: nat
  assume "arcname \<in> set used"
  then show "((used, original, counted_name original counter, counter + 1),
      used, original, arcname, counter)
    \<in> measure (\<lambda>(used, original, arcname, c).
        card (taken_above used original c) + (if arcname \<in> set used then 1 else 0))"
    using card_taken_above [of used original counter] by simp
qed simp

declare free_name.simps [simp del]

fun dedupe :: "string list \<Rightarrow> (path \<times> string) list \<Rightarrow> (path \<times> string) list" where
  "dedupe used [] = []"
| "dedupe used ((path, original) # entries) =
     (let arcname = free_name used original original 1
      in (path, arcname) # dedupe (arcname # used) entries)"

section \<open>Downloads\<close>

definition is_file :: "disk \<Rightarrow> path \<Rightarrow> bool" where
  "is_file d p \<longleftrightarrow> d p \<noteq> None"

definition get_downloadable ::
  "download_env \<Rightarrow> stored_file list \<Rightarrow> disk \<Rightarrow> nat option \<Rightarrow> nat
     \<Rightarrow> (py_exc, stored_file \<times> path) result" where
  "get_downloadable env tbl d user_id file_id =
     (case file_get_active file_id user_id tbl of
        None \<Rightarrow> raise_class (FileE FileNotFoundAppError)
      | Some record \<Rightarrow>
          if (case sf_expires_at record of None \<Rightarrow> False | Some t \<Rightarrow> t < dl_now env)
          then raise_class (FileE FileExpiredError)
          else rbind (storage_resolve (dl_settings env) (sf_category record) (sf_relative_path record))
            (\<lambda>path. if \<not> is_file d path then raise_class (FileE FileExpiredError)
                    else Inr (record, path)))"

definition build_response ::
  "download_env \<Rightarrow> stored_file list \<Rightarrow> nat option \<Rightarrow> nat \<Rightarrow> (disk, file_response) action" where
  "build_response env tbl user_id file_id d =
     (d, rbind (get_downloadable env tbl d user_id file_id) (\<lambda>(record, path).
        Inr \<lparr>fr_path = path, fr_media_type = sf_media_type record,
             fr_filename = sf_original_name record, fr_background = None\<rparr>))"

text \<open>\<open>archive.write(path, arcname)\<close> for every entry; the archive is closed, with the members
  written so far, when a file cannot be read.\<close>

fun zip_members :: "disk \<Rightarrow> (path \<times> string) list \<Rightarrow> (string \<times> bytes) list \<times> (py_exc, unit) result" where
  "zip_members d [] = ([], Inr ())"
| "zip_members d ((path, arcname) # entries) =
     (case d path of
        None \<Rightarrow> ([], Inl (OtherError ''FileNotFoundError'' (py_join ''/'' path)))
      | Some b \<Rightarrow> (case zip_members d entries of (ms, r) \<Rightarrow> ((arcname, b) # ms, r)))"

definition bundle_path :: "download_env \<Rightarrow> path" where
  "bundle_path env = temp_dir (dl_settings env) @ [''bundle-'' @ dl_hex env @ ''.zip'']"

definition build_zip_response ::
  "download_env \<Rightarrow> (path \<times> string) list \<Rightarrow> string \<Rightarrow> (disk, file_response) action" where
  "build_zip_response env entries download_name d =
     (let deduped = dedupe [] entries;
          zip_path = bundle_path env;
          (members, r) = zip_members d deduped;
          d' = disk_write zip_path (dl_zip env members) d
      in (d', rbind r (\<lambda>_.
           Inr \<lparr>fr_path = zip_path, fr_media_type = ''application/zip'',
                fr_filename = download_name, fr_background = Some zip_path\<rparr>)))"

definition build_archive_response ::
  "download_env \<Rightarrow> stored_file list \<Rightarrow> nat list \<Rightarrow> nat option \<Rightarrow> string
     \<Rightarrow> (disk, file_response) action" where
  "build_archive_response env tbl file_ids user_id download_name d =
     (if length file_ids = 1 then build_response env tbl user_id (hd file_ids) d
      else (case rmap (\<lambda>i. rbind (get_downloadable env tbl d user_id i)
                    (\<lambda>(record, path). Inr (path, sf_original_name record))) file_ids of
              Inl e \<Rightarrow> (d, Inl e)
            | Inr entries \<Rightarrow> build_zip_response env entries download_name d))"

text \<open>The outputs of a completed job. \<open>link.file\<close> is the row the foreign key points to.\<close>

definition link_entry ::
  "download_env \<Rightarrow> stored_file list \<Rightarrow> disk \<Rightarrow> job_file \<Rightarrow> (py_exc, path \<times> string) result" where
  "link_entry env tbl d link =
     (case find (\<lambda>f. sf_id f = jf_file_id link) tbl of
        None \<Rightarrow> Inl (OtherError ''AttributeError'' ''NoneType'')
      | Some record \<Rightarrow>
          rbind (storage_resolve (dl_settings env) (sf_category record) (sf_relative_path record))
            (\<lambda>path. if \<not> is_file d path then raise_class (FileE FileExpiredError)
                    else Inr (path, sf_original_name record)))"

definition build_job_response ::
  "download_env \<Rightarrow> stored_file list \<Rightarrow> job_file list \<Rightarrow> job \<Rightarrow> (disk, file_response) action" where
  "build_job_response env tbl links j d =
     (if j_status j \<noteq> COMPLETED then (d, raise_class (JobE JobNotCompletedError))
      else
        (let output_links = sort_key jf_position
               (filter (\<lambda>l. jf_role l = OUTPUT) (job_files (j_id j) links))
         in if output_links = []
            then (d, raise_app (JobE JobNotCompletedError) ''The job has no downloadable results.'')
            else if length output_links = 1
            then build_response env tbl (j_user_id j) (jf_file_id (hd output_links)) d
            else (case rmap (link_entry env tbl d) output_links of
                    Inl e \<Rightarrow> (d, Inl e)
                  | Inr entries \<Rightarrow>
                      build_zip_response env entries
                        (archive_download_name (dl_today env) (Some (j_tool j)) (length output_links)) d)))"

text \<open>\<open>JobService.get_job\<close> and the download of a job's results.\<close>

definition get_job :: "job list \<Rightarrow> nat option \<Rightarrow> nat \<Rightarrow> (py_exc, job) result" where
  "get_job jobs user_id job_id =
     (case job_get_with_files job_id user_id False jobs of
        None \<Rightarrow> raise_class (JobE JobNotFoundError) | Some j \<Rightarrow> Inr j)"

definition download_job_results ::
  "download_env \<Rightarrow> db \<Rightarrow> nat option \<Rightarrow> nat \<Rightarrow> (disk, file_response) action" where
  "download_job_results env db user_id job_id =
     abind (aresult (get_job (db_jobs db) user_id job_id))
       (\<lambda>j. build_job_response env (db_files db) (db_links db) j)"

text \<open>Sending a response: the bytes of the file, then the background task.\<close>

definition deliver :: "file_response \<Rightarrow> disk \<Rightarrow> disk \<times> bytes option" where
  "deliver r d = ((case fr_background r of None \<Rightarrow> d | Some p \<Rightarrow> disk_unlink p d), d (fr_path r))"

section \<open>File endpoints\<close>

definition archive_ids :: "string \<Rightarrow> (py_exc, nat list) result" where
  "archive_ids ids =
     (case those (map parse_uuid (filter (\<lambda>part. py_strip part \<noteq> []) (split_on CHR '','' ids))) of
        None \<Rightarrow> raise_app (BaseE ValidationError) (''Invalid file id in '' @ [CHR 0x27] @ ''ids'' @ [CHR 0x27] @ ''.'')
      | Some file_ids \<Rightarrow>
          if \<not> (1 \<le> length file_ids \<and> length file_ids \<le> 50)
          then raise_app (BaseE ValidationError)
            ([CHR 0x27] @ ''ids'' @ [CHR 0x27] @ '' must contain between 1 and 50 file IDs.'')
          else Inr file_ids)"

definition download_archive ::
  "download_env \<Rightarrow> stored_file list \<Rightarrow> nat option \<Rightarrow> string \<Rightarrow> string option
     \<Rightarrow> (disk, file_response) action" where
  "download_archive env tbl user_id ids tool =
     abind (aresult (archive_ids ids)) (\<lambda>file_ids.
       build_archive_response env tbl file_ids user_id
         (archive_download_name (dl_today env) tool (length file_ids)))"

definition get_file :: "stored_file list \<Rightarrow> nat option \<Rightarrow> nat \<Rightarrow> (py_exc, stored_file) result" where
  "get_file tbl user_id file_id =
     (case file_get_active file_id user_id tbl of
        None \<Rightarrow> raise_class (FileE FileNotFoundAppError) | Some record \<Rightarrow> Inr record)"

text \<open>\<open>delete_file\<close>: the result of \<open>storage.delete\<close> is not looked at.\<close>

definition delete_file ::
  "download_env \<Rightarrow> nat option \<Rightarrow> nat \<Rightarrow> (disk \<times> stored_file list, unit) action" where
  "delete_file env user_id file_id s =
     (case s of (d, tbl) \<Rightarrow>
       (case file_get_active file_id user_id tbl of
          None \<Rightarrow> (s, raise_class (FileE FileNotFoundAppError))
        | Some record \<Rightarrow>
            (let d' = fst (storage_delete (dl_os_refuses env) (dl_settings env)
                        (sf_category record) (sf_relative_path record) d)
             in ((d', upd_file (sf_id record) (\<lambda>f. f\<lparr>sf_status := F_DELETED\<rparr>) tbl), Inr ()))))"

section \<open>Lemmas\<close>

lemma free_name_free: "free_name used original arcname c \<notin> set used"
proof (induction used original arcname c rule: free_name.induct)
  case (1 used original arcname counter)
  then show ?case by (subst free_name.simps) auto
qed

lemma free_name_id: "arcname \<notin> set used \<Longrightarrow> free_name used original arcname c = arcname"
  by (simp add: free_name.simps)

lemma dedupe_paths: "map fst (dedupe used entries) = map fst entries"
  by (induction used entries rule: dedupe.induct) (auto simp: Let_def)

lemma dedupe_fresh: "set (map snd (dedupe used entries)) \<inter> set used = {}"
proof (induction used entries rule: dedupe.induct)
  case (2 used path original entries)
  then show ?case using free_name_free [of used original original 1] by (auto simp: Let_def)
qed simp

lemma dedupe_distinct: "distinct (map snd (dedupe used entries))"
proof (induction used entries rule: dedupe.induct)
  case (2 used path original entries)
  let ?a = "free_name used original original 1"
  have "?a \<notin> set (map snd (dedupe (?a # used) entries))"
    using dedupe_fresh [of "?a # used" entries] by auto
  with 2 show ?case by (simp add: Let_def)
qed simp

lemma dedupe_id:
  "distinct (map snd entries) \<Longrightarrow> set (map snd entries) \<inter> set used = {} \<Longrightarrow> dedupe used entries = entries"
  by (induction used entries rule: dedupe.induct) (auto simp: Let_def free_name_id)

lemma zip_members_ok:
  assumes "\<And>p n. (p, n) \<in> set entries \<Longrightarrow> is_file d p"
  shows "zip_members d entries = (map (\<lambda>(p, n). (n, the (d p))) entries, Inr ())"
  using assms
proof (induction d entries rule: zip_members.induct)
  case (2 d path arcname entries)
  from "2.prems" [of path arcname] obtain b where b: "d path = Some b" by (auto simp: is_file_def)
  moreover have "is_file d p" if "(p, n) \<in> set entries" for p n
    using "2.prems" [of p n] that by simp
  with "2.IH" b have "zip_members d entries = (map (\<lambda>(p, n). (n, the (d p))) entries, Inr ())"
    by blast
  ultimately show ?case by simp
qed simp

lemma get_downloadable_InrD:
  assumes "get_downloadable env tbl d u i = Inr (f, p)"
  shows "f \<in> set tbl" "sf_id f = i" "sf_status f = F_ACTIVE" "sf_user_id f = u"
    "sf_expires_at f = None \<or> dl_now env \<le> the (sf_expires_at f)"
    "storage_resolve (dl_settings env) (sf_category f) (sf_relative_path f) = Inr p" "is_file d p"
  using assms file_get_active_SomeD [of i u tbl f]
  by (auto simp: get_downloadable_def rbind_eq_Inr_iff split: option.splits if_splits)

lemma those_map_Some: "(\<And>x. x \<in> set xs \<Longrightarrow> f x = Some (g x)) \<Longrightarrow> those (map f xs) = Some (map g xs)"
  by (induction xs) auto

section \<open>Lemmas: bundles\<close>

definition servable :: "download_env \<Rightarrow> stored_file list \<Rightarrow> disk \<Rightarrow> nat option \<Rightarrow> nat \<Rightarrow> bytes \<Rightarrow> bool" where
  "servable env tbl d u i b \<longleftrightarrow>
     (\<exists>f p. f \<in> set tbl \<and> sf_id f = i \<and> sf_status f = F_ACTIVE \<and> sf_user_id f = u
        \<and> (sf_expires_at f = None \<or> dl_now env \<le> the (sf_expires_at f))
        \<and> storage_resolve (dl_settings env) (sf_category f) (sf_relative_path f) = Inr p
        \<and> d p = Some b)"

definition archive_entry ::
  "download_env \<Rightarrow> stored_file list \<Rightarrow> disk \<Rightarrow> nat option \<Rightarrow> nat \<Rightarrow> (py_exc, path \<times> string) result" where
  "archive_entry env tbl d u i =
     rbind (get_downloadable env tbl d u i) (\<lambda>(record, path). Inr (path, sf_original_name record))"

lemma archive_entry_InrD:
  assumes "archive_entry env tbl d u i = Inr (p, n)"
  shows "\<exists>b. d p = Some b \<and> servable env tbl d u i b"
proof -
  from assms obtain f where "get_downloadable env tbl d u i = Inr (f, p)"
    by (auto simp: archive_entry_def rbind_eq_Inr_iff)
  from get_downloadable_InrD [OF this] show ?thesis
    unfolding servable_def is_file_def by blast
qed

lemma build_archive_multi:
  "length ids \<noteq> 1 \<Longrightarrow> build_archive_response env tbl ids u name d =
     (case rmap (archive_entry env tbl d u) ids of
        Inl e \<Rightarrow> (d, Inl e) | Inr entries \<Rightarrow> build_zip_response env entries name d)"
  by (simp add: build_archive_response_def archive_entry_def [abs_def])

text \<open>A bundle of existing files: the members are the deduplicated entries.\<close>

lemma build_zip_response_ok:
  assumes "\<And>p n. (p, n) \<in> set entries \<Longrightarrow> is_file d p"
  shows "build_zip_response env entries name d =
    (disk_write (bundle_path env) (dl_zip env (map (\<lambda>(p, n). (n, the (d p))) (dedupe [] entries))) d,
     Inr \<lparr>fr_path = bundle_path env, fr_media_type = ''application/zip'', fr_filename = name,
          fr_background = Some (bundle_path env)\<rparr>)"
proof -
  have "is_file d p" if "(p, n) \<in> set (dedupe [] entries)" for p n
  proof -
    from that have "p \<in> set (map fst (dedupe [] entries))" by force
    then obtain m where "(p, m) \<in> set entries" unfolding dedupe_paths by auto
    with assms show ?thesis by blast
  qed
  then show ?thesis by (simp add: build_zip_response_def zip_members_ok Let_def)
qed

lemma dedupe_nth_path:
  "i < length entries \<Longrightarrow> fst (dedupe used entries ! i) = fst (entries ! i)"
  by (metis dedupe_paths length_map nth_map)

lemma length_dedupe [simp]: "length (dedupe used entries) = length entries"
  by (metis dedupe_paths length_map)

lemma deliver_bundle:
  assumes "d target = None"
  shows "deliver \<lparr>fr_path = target, fr_media_type = t, fr_filename = n, fr_background = Some target\<rparr>
    (disk_write target b d) = (d, Some b)"
  using assms by (auto simp: deliver_def disk_write_def disk_unlink_def)

section \<open>Properties\<close>

text \<open>
  C28: "Download all" is exact. For any number of ids other than one, either an error is
  returned and nothing is left on disk, or the response delivers one archive with one member per
  requested id, in order: the bytes of an active, unexpired file of the requesting user. The
  member names are pairwise different, they are the files' own names when those differ, and
  after delivery the bundle is gone from the disk. It is served exactly when every id is
  downloadable.
\<close>

theorem archive_bundle_exact:
  assumes multi: "length ids \<noteq> 1"
    and free: "d (bundle_path env) = None"
  shows "case build_archive_response env tbl ids u name d of
      (d', Inl e) \<Rightarrow> d' = d \<and> (\<exists>i \<in> set ids. \<exists>e. get_downloadable env tbl d u i = Inl e)
    | (d', Inr r) \<Rightarrow> \<exists>members.
        deliver r d' = (d, Some (dl_zip env members))
        \<and> list_all2 (\<lambda>i m. servable env tbl d u i (snd m)) ids members
        \<and> distinct (map fst members)
        \<and> (\<exists>originals. list_all2 (\<lambda>i n. \<exists>f p. get_downloadable env tbl d u i = Inr (f, p) \<and> n = sf_original_name f) ids originals
             \<and> (distinct originals \<longrightarrow> map fst members = originals))"
proof (cases "rmap (archive_entry env tbl d u) ids")
  case (Inl e)
  from rmap_Inl [OF this] have "\<exists>i \<in> set ids. \<exists>e. get_downloadable env tbl d u i = Inl e"
    by (auto simp: archive_entry_def rbind_eq_Inl_iff)
  with Inl show ?thesis by (simp add: build_archive_multi [OF multi])
next
  case (Inr entries)
  then have all: "list_all2 (\<lambda>i en. archive_entry env tbl d u i = Inr en) ids entries"
    by (simp add: rmap_Inr_iff)
  have entry: "archive_entry env tbl d u (ids ! k) = Inr (entries ! k)" if "k < length ids" for k
    using all that by (simp add: list_all2_conv_all_nth)
  have len: "length entries = length ids" using all by (simp add: list_all2_lengthD)
  have ex: "is_file d p" if "(p, n) \<in> set entries" for p n
    using that archive_entry_InrD entry len unfolding in_set_conv_nth is_file_def
    by (metis option.distinct(1))
  let ?ms = "map (\<lambda>(p, n). (n, the (d p))) (dedupe [] entries)"
  have fsts: "map fst ?ms = map snd (dedupe [] entries)" by (auto simp: case_prod_unfold)
  have "list_all2 (\<lambda>i m. servable env tbl d u i (snd m)) ids ?ms"
    unfolding list_all2_conv_all_nth
  proof (intro conjI allI impI)
    fix k assume k: "k < length ids"
    obtain p n where pn: "entries ! k = (p, n)" by fastforce
    from archive_entry_InrD [OF entry [OF k, unfolded pn]]
    obtain b where "d p = Some b" "servable env tbl d u (ids ! k) b" by blast
    moreover have "fst (dedupe [] entries ! k) = p" using dedupe_nth_path [of k entries] k len pn by simp
    ultimately show "servable env tbl d u (ids ! k) (snd (?ms ! k))"
      using k len by (simp add: case_prod_unfold)
  qed (simp add: len)
  moreover have "list_all2 (\<lambda>i n. \<exists>f p. get_downloadable env tbl d u i = Inr (f, p) \<and> n = sf_original_name f)
      ids (map snd entries)"
    unfolding list_all2_conv_all_nth
  proof (intro conjI allI impI)
    fix k assume k: "k < length ids"
    from entry [OF this] obtain f p where "get_downloadable env tbl d u (ids ! k) = Inr (f, p)"
      "entries ! k = (p, sf_original_name f)"
      by (auto simp: archive_entry_def rbind_eq_Inr_iff)
    with k len show "\<exists>f p. get_downloadable env tbl d u (ids ! k) = Inr (f, p)
        \<and> map snd entries ! k = sf_original_name f" by simp
  qed (simp add: len)
  moreover have "map fst ?ms = map snd entries" if "distinct (map snd entries)"
    using dedupe_id [of entries "[]"] that fsts by simp
  moreover have "distinct (map fst ?ms)" unfolding fsts by (rule dedupe_distinct)
  moreover have zip: "build_zip_response env entries name d =
      (disk_write (bundle_path env) (dl_zip env ?ms) d,
       Inr \<lparr>fr_path = bundle_path env, fr_media_type = ''application/zip'', fr_filename = name,
          fr_background = Some (bundle_path env)\<rparr>)"
    by (rule build_zip_response_ok) (rule ex)
  ultimately show ?thesis
    unfolding build_archive_multi [OF multi] Inr sum.case zip prod.case
      deliver_bundle [of d "bundle_path env", OF free] by blast
qed

definition sample_download_env :: download_env where
  "sample_download_env =
     \<lparr>dl_settings = default_settings, dl_now = 100, dl_today = (2026, 7, 9), dl_hex = ''0f'',
      dl_zip = (\<lambda>ms. concat (map snd ms)), dl_os_refuses = (\<lambda>_. False)\<rparr>"

definition sample_file :: "nat \<Rightarrow> string \<Rightarrow> stored_file" where
  "sample_file i rel =
     \<lparr>sf_id = i, sf_original_name = ''doc.pdf'', sf_stored_name = rel, sf_category = UPLOAD,
      sf_relative_path = rel, sf_media_type = ''application/pdf'', sf_extension = ''pdf'',
      sf_size_bytes = 1, sf_checksum = None, sf_status = F_ACTIVE, sf_user_id = Some 7,
      sf_expires_at = Some 200, sf_created_at = 0\<rparr>"

definition sample_files :: "stored_file list" where
  "sample_files = [sample_file 3 ''a'', sample_file 4 ''b'']"

definition sample_disk :: disk where
  "sample_disk = [category_root default_settings UPLOAD @ [''a''] \<mapsto> [1],
     category_root default_settings UPLOAD @ [''b''] \<mapsto> [2]]"

lemma sample_downloadable:
  "get_downloadable sample_download_env sample_files sample_disk (Some 7) 3
     = Inr (sample_file 3 ''a'', category_root default_settings UPLOAD @ [''a''])"
  "get_downloadable sample_download_env sample_files sample_disk (Some 7) 4
     = Inr (sample_file 4 ''b'', category_root default_settings UPLOAD @ [''b''])"
  using storage_resolve_join [of "[''a'']" default_settings UPLOAD]
    storage_resolve_join [of "[''b'']" default_settings UPLOAD]
  by (simp_all add: get_downloadable_def sample_files_def sample_file_def file_get_active_def
      sample_download_env_def good_part_def is_file_def sample_disk_def)

lemma sample_bundle_free: "sample_disk (bundle_path sample_download_env) = None"
  by (simp add: sample_disk_def bundle_path_def sample_download_env_def temp_dir_def uploads_dir_def)

theorem archive_bundle_exact_witness:
  "\<exists>d' r members. build_archive_response sample_download_env sample_files [3, 4] (Some 7) ''x.zip'' sample_disk = (d', Inr r)
     \<and> deliver r d' = (sample_disk, Some (dl_zip sample_download_env members))
     \<and> length members = 2 \<and> distinct (map fst members)"
proof -
  have "length [3, 4 :: nat] \<noteq> 1" by simp
  from archive_bundle_exact [where u = "Some 7" and tbl = sample_files and name = "''x.zip''"
      and d = sample_disk and env = sample_download_env, OF this sample_bundle_free]
  show ?thesis
    by (cases "build_archive_response sample_download_env sample_files [3, 4] (Some 7) ''x.zip'' sample_disk";
        cases "snd (build_archive_response sample_download_env sample_files [3, 4] (Some 7) ''x.zip'' sample_disk)")
      (auto simp: sample_downloadable dest!: list_all2_lengthD)
qed

text \<open>
  The \<open>ids\<close> parameter round-trips: the comma-separated texts of 1 to 50 UUIDs are read back
  as exactly these UUIDs, in order.
\<close>

theorem archive_ids_roundtrip:
  assumes "\<And>i. i \<in> set ids \<Longrightarrow> i < 2 ^ 128" and "1 \<le> length ids" and "length ids \<le> 50"
  shows "archive_ids (py_join '','' (map uuid_str ids)) = Inr ids"
proof -
  let ?parts = "map uuid_str ids"
  have "split_on CHR '','' (py_join '','' ?parts) = ?parts"
    using assms(2) uuid_str_not [OF not_hex(8)] by (intro split_on_join) auto
  moreover have "py_strip (uuid_str i) = uuid_str i" for i
  proof -
    have "\<not> py_space c" if "c \<in> set (uuid_str i)" for c
      using uuid_str_chars [OF that] hex_not_space by (auto simp: py_space_def char_code_def)
    moreover have "uuid_str i \<noteq> []" using length_uuid_str [of i] by auto
    ultimately show ?thesis by (simp add: py_strip_def strip_by_id)
  qed
  then have "filter (\<lambda>part. py_strip part \<noteq> []) ?parts = ?parts"
  proof (intro filter_True ballI)
    fix s assume "s \<in> set ?parts"
    then obtain i where s: "s = uuid_str i" by auto
    show "py_strip s \<noteq> []"
      unfolding s \<open>\<And>i. py_strip (uuid_str i) = uuid_str i\<close> using length_uuid_str [of i] by auto
  qed
  moreover have "those (map parse_uuid ?parts) = Some ids"
    using those_map_Some [of ids "\<lambda>i. parse_uuid (uuid_str i)" id] assms(1)
    by (simp add: parse_uuid_str comp_def)
  ultimately show ?thesis using assms(2,3) by (simp add: archive_ids_def)
qed

theorem archive_ids_roundtrip_witness:
  "archive_ids (py_join '','' (map uuid_str [5, 7])) = Inr [5, 7]"
  using archive_ids_roundtrip [of "[5, 7]"] by (fastforce simp del: py_join.simps)

text \<open>
  C29: Deleting a file takes effect for everybody and for nothing else: afterwards its id can be
  neither looked up nor downloaded by anyone, every other file is as it was, and the only disk
  change is the removal of the file's own bytes (which stay, unnoticed, when the operating
  system refuses or the recorded path is outside the tree).
\<close>

theorem delete_file_effect:
  assumes del: "delete_file env u i (d, tbl) = ((d', tbl'), Inr ())" and "distinct (map sf_id tbl)"
  shows "(\<forall>u'. get_downloadable env tbl' d' u' i = raise_class (FileE FileNotFoundAppError)
            \<and> get_file tbl' u' i = raise_class (FileE FileNotFoundAppError))
    \<and> (\<forall>k u'. k \<noteq> i \<longrightarrow> file_get_active k u' tbl' = file_get_active k u' tbl)
    \<and> (\<exists>f. file_get_active i u tbl = Some f
         \<and> (case storage_resolve (dl_settings env) (sf_category f) (sf_relative_path f) of
              Inl e \<Rightarrow> d' = d
            | Inr p \<Rightarrow> d' = (if dl_os_refuses env p then d else d(p := None))))"
proof -
  from del obtain f where f: "file_get_active i u tbl = Some f"
    and tbl': "tbl' = upd_file (sf_id f) (\<lambda>f. f\<lparr>sf_status := F_DELETED\<rparr>) tbl"
    and d': "d' = fst (storage_delete (dl_os_refuses env) (dl_settings env) (sf_category f) (sf_relative_path f) d)"
    by (auto simp: delete_file_def Let_def raise_class_def split: option.splits)
  have id: "sf_id f = i" by (rule file_get_active_SomeD(2) [OF f])
  have "file_get_active i u' tbl' = None" for u'
    unfolding tbl' id by (rule file_get_active_retired) simp
  moreover have "file_get_active k u' tbl' = file_get_active k u' tbl" if "k \<noteq> i" for k u'
    unfolding tbl' id using that by (intro file_get_active_upd_other) auto
  ultimately show ?thesis
    using f d' by (auto simp: get_downloadable_def get_file_def storage_delete_def disk_unlink_def
        split: sum.splits)
qed

theorem delete_file_effect_witness:
  "\<exists>d' tbl'. delete_file sample_download_env (Some 7) 3 (sample_disk, sample_files) = ((d', tbl'), Inr ())
     \<and> d' = sample_disk(category_root default_settings UPLOAD @ [''a''] := None)
     \<and> get_file tbl' (Some 7) 3 = raise_class (FileE FileNotFoundAppError)"
proof -
  have active: "file_get_active 3 (Some 7) sample_files = Some (sample_file 3 ''a'')"
    by (simp add: file_get_active_def sample_files_def sample_file_def)
  obtain d' tbl' where del:
    "delete_file sample_download_env (Some 7) 3 (sample_disk, sample_files) = ((d', tbl'), Inr ())"
    by (simp add: delete_file_def active Let_def)
  have "distinct (map sf_id sample_files)" by (simp add: sample_files_def sample_file_def)
  from delete_file_effect [OF del this] del show ?thesis
    using storage_resolve_join [of "[''a'']" default_settings UPLOAD]
    by (auto simp: active sample_file_def sample_download_env_def good_part_def)
qed

end
