(* ===== verification/Cleanup.thy ===== *)
theory Cleanup
  imports Actions Models JobRunner
begin

text \<open>
  The cleanup scheduler: \<open>cleanup_expired\<close> of \<open>app/tasks/cleanup.py\<close> and
  \<open>purge_stale_workspaces\<close> of \<open>app/services/temp_files.py\<close>.

  The state is the disk and the committed database; the task's own session starts from the
  committed rows, so a failing commit leaves the database as it was. What the operating system
  decides is an argument: the entries of the temp directory with their modification time
  (\<open>None\<close>: \<open>stat\<close> failed) and whether they are directories, the paths it refuses to unlink
  and the files \<open>rmtree\<close> cannot remove.
\<close>

section \<open>State\<close>

record temp_entry =
  te_name :: string
  te_mtime :: "int option"
  te_is_dir :: bool

record cleanup_env =
  cu_settings :: settings
  cu_now :: int
  cu_temp_now :: int
  cu_os_refuses :: "path \<Rightarrow> bool"
  cu_locked :: "path \<Rightarrow> bool"
  cu_temp_is_dir :: bool
  cu_entries :: "temp_entry list"
  cu_commit_fault :: "py_exc option"

record cleanup_summary =
  cs_files_removed :: nat
  cs_jobs_expired :: nat
  cs_temp_removed :: nat

section \<open>Temp workspaces\<close>

text \<open>\<open>max_age_minutes or settings.TEMP_FILE_MAX_AGE_MINUTES\<close>.\<close>

definition temp_cutoff :: "cleanup_env \<Rightarrow> int option \<Rightarrow> int" where
  "temp_cutoff env max_age_minutes =
     (let max_age = (case max_age_minutes of
            None \<Rightarrow> s_temp_max_age_minutes (cu_settings env)
          | Some m \<Rightarrow> if m = 0 then s_temp_max_age_minutes (cu_settings env) else m)
      in cu_temp_now env - minutes max_age)"

definition entry_path :: "cleanup_env \<Rightarrow> temp_entry \<Rightarrow> path" where
  "entry_path env e = temp_dir (cu_settings env) @ [te_name e]"

fun purge_entries :: "cleanup_env \<Rightarrow> int \<Rightarrow> temp_entry list \<Rightarrow> nat \<Rightarrow> (disk, nat) action" where
  "purge_entries env cutoff [] removed d = (d, Inr removed)"
| "purge_entries env cutoff (e # es) removed d =
     (case te_mtime e of
        None \<Rightarrow> purge_entries env cutoff es removed d
      | Some mtime \<Rightarrow>
          if mtime < cutoff then
            (if te_is_dir e
             then purge_entries env cutoff es (removed + 1)
               (remove_workspace (cu_locked env) (entry_path env e) d)
             else if cu_os_refuses env (entry_path env e)
             then (d, Inl (OtherError ''PermissionError'' (te_name e)))
             else purge_entries env cutoff es (removed + 1) (disk_unlink (entry_path env e) d))
          else purge_entries env cutoff es removed d)"

definition purge_stale_workspaces :: "cleanup_env \<Rightarrow> int option \<Rightarrow> (disk, nat) action" where
  "purge_stale_workspaces env max_age_minutes d =
     (if \<not> cu_temp_is_dir env then (d, Inr 0)
      else purge_entries env (temp_cutoff env max_age_minutes) (cu_entries env) 0 d)"

section \<open>Expired rows\<close>

text \<open>The loops over the rows fetched by \<open>list_expired\<close>; \<open>storage.delete\<close>'s verdict is not used.\<close>

fun expire_files ::
  "cleanup_env \<Rightarrow> stored_file list \<Rightarrow> nat \<Rightarrow> disk \<Rightarrow> stored_file list \<Rightarrow> nat \<times> disk \<times> stored_file list" where
  "expire_files env [] files_removed d tbl = (files_removed, d, tbl)"
| "expire_files env (r # rs) files_removed d tbl =
     (let d' = fst (storage_delete (cu_os_refuses env) (cu_settings env) (sf_category r) (sf_relative_path r) d);
          tbl' = upd_file (sf_id r) (\<lambda>f. f\<lparr>sf_status := F_EXPIRED\<rparr>) tbl
      in expire_files env rs (files_removed + 1) d' tbl')"

fun expire_jobs :: "job list \<Rightarrow> nat \<Rightarrow> job list \<Rightarrow> nat \<times> job list" where
  "expire_jobs [] jobs_expired tbl = (jobs_expired, tbl)"
| "expire_jobs (j # js) jobs_expired tbl =
     expire_jobs js (jobs_expired + 1) (upd_job (j_id j) (\<lambda>j. j\<lparr>j_status := EXPIRED\<rparr>) tbl)"

definition cleanup_expired :: "cleanup_env \<Rightarrow> (disk \<times> db, cleanup_summary) action" where
  "cleanup_expired env s =
     (case s of (d, b) \<Rightarrow>
       (case expire_files env (file_list_expired (cu_now env) (db_files b)) 0 d (db_files b) of
         (files_removed, d', files) \<Rightarrow>
       (case expire_jobs (job_list_expired (cu_now env) (db_jobs b)) 0 (db_jobs b) of
         (jobs_expired, jobs) \<Rightarrow>
       (case cu_commit_fault env of
          Some e \<Rightarrow> ((d', b), Inl e)
        | None \<Rightarrow>
            (let b' = b\<lparr>db_files := files, db_jobs := jobs\<rparr>
             in case purge_stale_workspaces env None d' of
                  (d'', Inl e) \<Rightarrow> ((d'', b'), Inl e)
                | (d'', Inr temp_removed) \<Rightarrow>
                    ((d'', b'), Inr \<lparr>cs_files_removed = files_removed, cs_jobs_expired = jobs_expired,
                       cs_temp_removed = temp_removed\<rparr>))))))"

section \<open>Lemmas\<close>

definition bytes_of_row :: "cleanup_env \<Rightarrow> stored_file \<Rightarrow> path \<Rightarrow> bool" where
  "bytes_of_row env r p \<longleftrightarrow>
     storage_resolve (cu_settings env) (sf_category r) (sf_relative_path r) = Inr p \<and> \<not> cu_os_refuses env p"

lemma storage_delete_bytes:
  "fst (storage_delete (cu_os_refuses env) (cu_settings env) (sf_category r) (sf_relative_path r) d)
    = (\<lambda>p. if bytes_of_row env r p then None else d p)"
  by (auto simp: storage_delete_def bytes_of_row_def disk_unlink_def fun_eq_iff split: sum.split)

lemma expire_files_eq:
  "expire_files env rs n d tbl =
    (n + length rs,
     (\<lambda>p. if \<exists>r \<in> set rs. bytes_of_row env r p then None else d p),
     map (\<lambda>f. if sf_id f \<in> sf_id ` set rs then f\<lparr>sf_status := F_EXPIRED\<rparr> else f) tbl)"
  by (induction rs arbitrary: n d tbl)
    (auto simp: storage_delete_bytes upd_file_def fun_eq_iff comp_def)

lemma expire_jobs_eq:
  "expire_jobs js n tbl =
    (n + length js, map (\<lambda>j. if j_id j \<in> j_id ` set js then j\<lparr>j_status := EXPIRED\<rparr> else j) tbl)"
  by (induction js arbitrary: n tbl) (auto simp: upd_job_def comp_def)

definition file_overdue :: "int \<Rightarrow> stored_file \<Rightarrow> bool" where
  "file_overdue now f \<longleftrightarrow> sf_status f = F_ACTIVE \<and> (\<exists>t. sf_expires_at f = Some t \<and> t < now)"

definition job_overdue :: "int \<Rightarrow> job \<Rightarrow> bool" where
  "job_overdue now j \<longleftrightarrow> j_status j \<in> {COMPLETED, FAILED, CANCELLED} \<and> (\<exists>t. j_expires_at j = Some t \<and> t < now)"

lemma list_expired_overdue:
  "file_list_expired now tbl = filter (file_overdue now) tbl"
  "job_list_expired now jobs = filter (job_overdue now) jobs"
  by (auto simp: file_list_expired_def job_list_expired_def file_overdue_def job_overdue_def
      intro!: filter_cong split: option.split)

definition stale_entry :: "int \<Rightarrow> temp_entry \<Rightarrow> bool" where
  "stale_entry cutoff e \<longleftrightarrow> (\<exists>t. te_mtime e = Some t \<and> t < cutoff)"

text \<open>What purging one stale entry takes from the disk.\<close>

definition purged_by :: "cleanup_env \<Rightarrow> temp_entry \<Rightarrow> path \<Rightarrow> bool" where
  "purged_by env e p \<longleftrightarrow>
     (if te_is_dir e then prefix (entry_path env e) p \<and> \<not> cu_locked env p else p = entry_path env e)"

lemma purge_one:
  "te_is_dir e \<Longrightarrow> remove_workspace (cu_locked env) (entry_path env e) d
     = (\<lambda>p. if purged_by env e p then None else d p)"
  "\<not> te_is_dir e \<Longrightarrow> disk_unlink (entry_path env e) d = (\<lambda>p. if purged_by env e p then None else d p)"
  by (auto simp: purged_by_def remove_workspace_def disk_unlink_def fun_eq_iff)

lemma purge_entries_eq:
  assumes "\<And>e. e \<in> set es \<Longrightarrow> stale_entry cutoff e \<Longrightarrow> \<not> te_is_dir e \<Longrightarrow> \<not> cu_os_refuses env (entry_path env e)"
  shows "purge_entries env cutoff es n d =
    ((\<lambda>p. if \<exists>e \<in> set es. stale_entry cutoff e \<and> purged_by env e p then None else d p),
     Inr (n + length (filter (stale_entry cutoff) es)))"
  using assms
proof (induction env cutoff es n d rule: purge_entries.induct)
  case (2 env cutoff e es removed d)
  show ?case
  proof (cases "stale_entry cutoff e")
    case False
    with 2 show ?thesis by (cases "te_mtime e") (auto simp: stale_entry_def)
  next
    case True
    then obtain t where "te_mtime e = Some t" "t < cutoff" by (auto simp: stale_entry_def)
    with True 2 show ?thesis
      by (cases "te_is_dir e") (auto simp: purge_one fun_eq_iff)
  qed
qed simp

section \<open>Properties\<close>

text \<open>
  C31: One run of the cleanup removes exactly what is due. With a working database and no stale
  plain file that the system refuses to unlink, it commits: precisely the active files past
  their expiry become \<open>expired\<close> and the finished jobs past theirs, every other row is unchanged;
  a path loses its bytes only if it is the file of such a row or lies in a stale temp entry; the
  summary counts what was done; and nothing is left for a second run.
\<close>

theorem cleanup_exact:
  assumes "distinct (map sf_id (db_files b))" and "distinct (map j_id (db_jobs b))"
    and "cu_commit_fault env = None" and "cu_temp_is_dir env"
    and plain: "\<And>e. e \<in> set (cu_entries env) \<Longrightarrow> \<not> te_is_dir e \<Longrightarrow> \<not> cu_os_refuses env (entry_path env e)"
  shows "\<exists>d' b'. cleanup_expired env (d, b) = ((d', b'), Inr
       \<lparr>cs_files_removed = length (filter (file_overdue (cu_now env)) (db_files b)),
        cs_jobs_expired = length (filter (job_overdue (cu_now env)) (db_jobs b)),
        cs_temp_removed = length (filter (stale_entry (temp_cutoff env None)) (cu_entries env))\<rparr>)
    \<and> db_files b' = map (\<lambda>f. if file_overdue (cu_now env) f then f\<lparr>sf_status := F_EXPIRED\<rparr> else f) (db_files b)
    \<and> db_jobs b' = map (\<lambda>j. if job_overdue (cu_now env) j then j\<lparr>j_status := EXPIRED\<rparr> else j) (db_jobs b)
    \<and> db_links b' = db_links b \<and> db_visits b' = db_visits b
    \<and> d' = (\<lambda>p. if (\<exists>f \<in> set (db_files b). file_overdue (cu_now env) f \<and> bytes_of_row env f p)
                  \<or> (\<exists>e \<in> set (cu_entries env). stale_entry (temp_cutoff env None) e \<and> purged_by env e p)
                then None else d p)
    \<and> file_list_expired (cu_now env) (db_files b') = [] \<and> job_list_expired (cu_now env) (db_jobs b') = []"
proof -
  have files: "map (\<lambda>f. if sf_id f \<in> sf_id ` set (filter (file_overdue (cu_now env)) (db_files b))
        then f\<lparr>sf_status := F_EXPIRED\<rparr> else f) (db_files b)
      = map (\<lambda>f. if file_overdue (cu_now env) f then f\<lparr>sf_status := F_EXPIRED\<rparr> else f) (db_files b)"
    using file_row.key_filter_mem [OF assms(1)] by (intro map_cong refl) simp
  have jobs: "map (\<lambda>j. if j_id j \<in> j_id ` set (filter (job_overdue (cu_now env)) (db_jobs b))
        then j\<lparr>j_status := EXPIRED\<rparr> else j) (db_jobs b)
      = map (\<lambda>j. if job_overdue (cu_now env) j then j\<lparr>j_status := EXPIRED\<rparr> else j) (db_jobs b)"
    using job_row.key_filter_mem [OF assms(2)] by (intro map_cong refl) simp
  have none: "filter (file_overdue n) (map (\<lambda>f. if file_overdue n f then f\<lparr>sf_status := F_EXPIRED\<rparr> else f) fs) = []"
    "filter (job_overdue n) (map (\<lambda>j. if job_overdue n j then j\<lparr>j_status := EXPIRED\<rparr> else j) js) = []" for n fs js
    by (auto simp: filter_empty_conv file_overdue_def job_overdue_def)
  have merge: "(\<lambda>p. if E p then None else if \<exists>r \<in> set (filter P fs). B r p then None else d p)
      = (\<lambda>p. if (\<exists>r \<in> set fs. P r \<and> B r p) \<or> E p then None else d p)" for E P B and fs :: "stored_file list"
    by (auto simp: fun_eq_iff)
  have purge: "purge_entries env c (cu_entries env) n x =
      ((\<lambda>p. if \<exists>e \<in> set (cu_entries env). stale_entry c e \<and> purged_by env e p then None else x p),
       Inr (n + length (filter (stale_entry c) (cu_entries env))))" for c n x
    by (rule purge_entries_eq) (rule plain)
  have skip: "(if \<not> cu_temp_is_dir env then x else y) = y" for x y :: "disk \<times> (py_exc, nat) result"
    using assms(4) by simp
  show ?thesis
    unfolding cleanup_expired_def prod.case list_expired_overdue expire_files_eq expire_jobs_eq
      assms(3) option.case purge_stale_workspaces_def Let_def files jobs skip purge merge sum.case add_0
    by (intro exI conjI, rule refl) (simp_all add: none)
qed

definition old_file :: stored_file where
  "old_file = \<lparr>sf_id = 3, sf_original_name = ''a.pdf'', sf_stored_name = ''a'', sf_category = UPLOAD,
     sf_relative_path = ''a'', sf_media_type = ''application/pdf'', sf_extension = ''pdf'',
     sf_size_bytes = 1, sf_checksum = None, sf_status = F_ACTIVE, sf_user_id = None,
     sf_expires_at = Some 50, sf_created_at = 0\<rparr>"

definition sample_cleanup_env :: cleanup_env where
  "sample_cleanup_env =
     \<lparr>cu_settings = default_settings, cu_now = 100, cu_temp_now = 100, cu_os_refuses = (\<lambda>_. False),
      cu_locked = (\<lambda>_. False), cu_temp_is_dir = True,
      cu_entries = [\<lparr>te_name = ''job-1'', te_mtime = Some (- minutes 500), te_is_dir = True\<rparr>],
      cu_commit_fault = None\<rparr>"

theorem cleanup_exact_witness:
  "\<exists>d' b'. cleanup_expired sample_cleanup_env (Map.empty, \<lparr>db_files = [old_file], db_jobs = [], db_links = [], db_visits = []\<rparr>)
       = ((d', b'), Inr \<lparr>cs_files_removed = 1, cs_jobs_expired = 0, cs_temp_removed = 1\<rparr>)
     \<and> db_files b' = [old_file\<lparr>sf_status := F_EXPIRED\<rparr>]"
  using cleanup_exact [of "\<lparr>db_files = [old_file], db_jobs = [], db_links = [], db_visits = []\<rparr>"
      sample_cleanup_env Map.empty]
  by (auto simp: sample_cleanup_env_def old_file_def file_overdue_def stale_entry_def temp_cutoff_def
      minutes_def default_settings_def)

end
