(* ===== verification/JobStream.thy ===== *)
theory JobStream
  imports JobRunner Uuids
begin

text \<open>
  The progress streams of \<open>app/api/v1/endpoints/jobs.py\<close>: Server-Sent Events and the WebSocket.

  Time is the number of the loop iteration. The arguments say what the environment shows at each
  one: \<open>row k\<close> is the job row the \<open>k\<close>-th snapshot query finds, \<open>push k\<close> what the \<open>k\<close>-th
  \<open>get_message\<close> gives (nothing, an event published by \<open>publish_job_event\<close>, or an exception),
  \<open>gone n\<close> that the client has disconnected before message number \<open>n\<close>. The result is the list
  of what is sent, so a run always ends: \<open>MAX_EVENTS\<close> bounds the loop.
\<close>

section \<open>Snapshots\<close>

record snapshot =
  sn_id :: nat
  sn_status :: job_status
  sn_progress :: int
  sn_error_code :: "error_code option"

definition max_events :: nat where
  "max_events = 600"

text \<open>\<open>_job_snapshot\<close>: the fields and whether the status is terminal.\<close>

definition job_snapshot :: "job list \<Rightarrow> nat \<Rightarrow> (snapshot \<times> bool) option" where
  "job_snapshot tbl job_id =
     map_option (\<lambda>j. (\<lparr>sn_id = j_id j, sn_status = j_status j, sn_progress = j_progress j,
         sn_error_code = j_error_code j\<rparr>, is_terminal (j_status j)))
       (find (\<lambda>j. j_id j = job_id) tbl)"

text \<open>\<open>json.dumps(snapshot)\<close>; none of the texts needs escaping.\<close>

definition quote :: "string \<Rightarrow> string" where
  "quote s = CHR 0x22 # s @ [CHR 0x22]"

definition snapshot_json :: "snapshot \<Rightarrow> string" where
  "snapshot_json s =
     ''{'' @ quote ''id'' @ '': '' @ quote (uuid_str (sn_id s))
     @ '', '' @ quote ''status'' @ '': '' @ quote (job_status_value (sn_status s))
     @ '', '' @ quote ''progress'' @ '': '' @ int_str (sn_progress s)
     @ '', '' @ quote ''error_code'' @ '': ''
     @ (case sn_error_code s of None \<Rightarrow> ''null'' | Some c \<Rightarrow> quote (error_code_value c)) @ ''}''"

section \<open>Server-Sent Events\<close>

datatype sse_event = Sse_not_found | Sse_data snapshot

definition newline :: string where
  "newline = [CHR 0x0A]"

fun sse_text :: "sse_event \<Rightarrow> string" where
  "sse_text Sse_not_found =
     ''event: error'' @ newline @ ''data: {'' @ quote ''code'' @ '': '' @ quote ''JOB_NOT_FOUND'' @ ''}''
       @ newline @ newline"
| "sse_text (Sse_data s) = ''data: '' @ snapshot_json s @ newline @ newline"

fun sse_loop :: "(nat \<Rightarrow> (snapshot \<times> bool) option) \<Rightarrow> nat \<Rightarrow> nat \<Rightarrow> sse_event list" where
  "sse_loop row k 0 = []"
| "sse_loop row k (Suc rounds) =
     (case row k of
        None \<Rightarrow> [Sse_not_found]
      | Some (snap, terminal) \<Rightarrow>
          Sse_data snap # (if terminal then [] else sse_loop row (k + 1) rounds))"

definition stream_job_events :: "(nat \<Rightarrow> job list) \<Rightarrow> nat \<Rightarrow> sse_event list" where
  "stream_job_events tables job_id = sse_loop (\<lambda>k. job_snapshot (tables k) job_id) 0 max_events"

section \<open>WebSocket\<close>

datatype push = No_message | Pushed job_event | Push_raises

datatype ws_message = Ws_not_found | Ws_snapshot snapshot | Ws_event job_event

record ws_run =
  ws_sent :: "ws_message list"
  ws_disconnected :: bool

text \<open>\<open>send_json\<close>: the message goes out unless the client has left.\<close>

definition ws_send :: "(nat \<Rightarrow> bool) \<Rightarrow> ws_message \<Rightarrow> ws_message list \<Rightarrow> (ws_message list \<Rightarrow> ws_run) \<Rightarrow> ws_run" where
  "ws_send gone m sent continue =
     (if gone (length sent) then \<lparr>ws_sent = sent, ws_disconnected = True\<rparr> else continue (sent @ [m]))"

definition ws_done :: "ws_message list \<Rightarrow> ws_run" where
  "ws_done sent = \<lparr>ws_sent = sent, ws_disconnected = False\<rparr>"

fun ws_loop ::
  "(nat \<Rightarrow> (snapshot \<times> bool) option) \<Rightarrow> (nat \<Rightarrow> push) \<Rightarrow> (nat \<Rightarrow> bool) \<Rightarrow> bool \<Rightarrow> nat \<Rightarrow> nat
     \<Rightarrow> ws_message list \<Rightarrow> ws_run" where
  "ws_loop row push gone subscribed k 0 sent = ws_done sent"
| "ws_loop row push gone subscribed k (Suc rounds) sent =
     (case (if subscribed then push k else No_message) of
        Pushed ev \<Rightarrow>
          ws_send gone (Ws_event ev) sent (\<lambda>sent.
            if is_terminal (ev_status ev) then ws_done sent
            else ws_loop row push gone subscribed (k + 1) rounds sent)
      | pushed \<Rightarrow>
          (let subscribed = (subscribed \<and> pushed \<noteq> Push_raises) in
           case row (k + 1) of
             None \<Rightarrow> ws_send gone Ws_not_found sent ws_done
           | Some (snap, terminal) \<Rightarrow>
               ws_send gone (Ws_snapshot snap) sent (\<lambda>sent.
                 if terminal then ws_done sent
                 else ws_loop row push gone subscribed (k + 1) rounds sent)))"

definition job_progress_websocket ::
  "(nat \<Rightarrow> job list) \<Rightarrow> (nat \<Rightarrow> push) \<Rightarrow> (nat \<Rightarrow> bool) \<Rightarrow> bool \<Rightarrow> nat \<Rightarrow> ws_run" where
  "job_progress_websocket tables push gone redis_up job_id =
     (let row = (\<lambda>k. job_snapshot (tables k) job_id) in
      case row 0 of
        None \<Rightarrow> ws_send gone Ws_not_found [] ws_done
      | Some (snap, terminal) \<Rightarrow>
          ws_send gone (Ws_snapshot snap) [] (\<lambda>sent.
            if terminal then ws_done sent
            else ws_loop row push gone redis_up 0 max_events sent))"

section \<open>Lemmas\<close>

text \<open>The last message of a stream: the job is gone or finished.\<close>

definition over :: "(snapshot \<times> bool) option \<Rightarrow> bool" where
  "over r \<longleftrightarrow> (case r of None \<Rightarrow> True | Some (_, terminal) \<Rightarrow> terminal)"

fun sse_event_of :: "(snapshot \<times> bool) option \<Rightarrow> sse_event" where
  "sse_event_of None = Sse_not_found"
| "sse_event_of (Some (snap, _)) = Sse_data snap"

lemma sse_loop_running:
  "(\<And>i. i < n \<Longrightarrow> \<not> over (row (k + i))) \<Longrightarrow> n \<le> rounds
    \<Longrightarrow> sse_loop row k rounds = map (\<lambda>i. sse_event_of (row (k + i))) [0..<n] @ sse_loop row (k + n) (rounds - n)"
proof (induction n arbitrary: k rounds)
  case (Suc n)
  from Suc.prems obtain f where f: "rounds = Suc f" by (cases rounds) auto
  from Suc.prems(1) [of 0] obtain snap where r: "row k = Some (snap, False)"
    by (auto simp: over_def split: option.splits)
  have "sse_loop row (k + 1) f = map (\<lambda>i. sse_event_of (row (k + 1 + i))) [0..<n]
      @ sse_loop row (k + 1 + n) (f - n)"
  proof (rule Suc.IH)
    fix i assume "i < n"
    then show "\<not> over (row (k + 1 + i))" using Suc.prems(1) [of "Suc i"] by simp
  qed (use Suc.prems f in simp)
  moreover have "map (\<lambda>i. sse_event_of (row (k + i))) [0..<Suc n]
      = sse_event_of (row k) # map (\<lambda>i. sse_event_of (row (k + 1 + i))) [0..<n]"
    by (simp add: upt_conv_Cons map_Suc_upt [symmetric] comp_def del: upt_Suc)
  ultimately show ?case using f r by simp
qed simp

lemma sse_loop_over:
  "over (row k) \<Longrightarrow> 0 < rounds \<Longrightarrow> sse_loop row k rounds = [sse_event_of (row k)]"
  by (cases rounds) (auto simp: over_def split: option.splits)

definition ws_final :: "ws_message \<Rightarrow> bool" where
  "ws_final m \<longleftrightarrow> (case m of Ws_not_found \<Rightarrow> True | Ws_snapshot s \<Rightarrow> is_terminal (sn_status s)
     | Ws_event e \<Rightarrow> is_terminal (ev_status e))"

lemma snapshot_terminal: "job_snapshot tbl i = Some (snap, t) \<Longrightarrow> t = is_terminal (sn_status snap)"
  by (auto simp: job_snapshot_def)

lemma ws_send_cases:
  obtains (left) "gone (length sent)" "ws_send gone m sent cont = \<lparr>ws_sent = sent, ws_disconnected = True\<rparr>"
    | (sent) "\<not> gone (length sent)" "ws_send gone m sent cont = cont (sent @ [m])"
  by (cases "gone (length sent)") (simp_all add: ws_send_def)

definition open_so_far :: "ws_message list \<Rightarrow> bool" where
  "open_so_far sent \<longleftrightarrow> (\<forall>m \<in> set sent. \<not> ws_final m)"

definition closed_well :: "ws_message list \<Rightarrow> bool" where
  "closed_well sent \<longleftrightarrow> open_so_far (butlast sent)"

lemma open_closed: "open_so_far sent \<Longrightarrow> closed_well sent" "open_so_far sent \<Longrightarrow> closed_well (sent @ [m])"
  "open_so_far sent \<Longrightarrow> \<not> ws_final m \<Longrightarrow> open_so_far (sent @ [m])"
  by (auto simp: open_so_far_def closed_well_def dest: in_set_butlastD)

definition ws_ok :: "nat \<Rightarrow> ws_run \<Rightarrow> bool" where
  "ws_ok n r \<longleftrightarrow> length (ws_sent r) \<le> n \<and> closed_well (ws_sent r)"

lemma ws_ok_send:
  assumes "open_so_far sent" and "length sent \<le> n" and "ws_ok n (cont (sent @ [m]))"
  shows "ws_ok n (ws_send gone m sent cont)"
  using assms by (cases rule: ws_send_cases [of gone sent m cont]) (auto simp: ws_ok_def open_closed)

text \<open>One round: after the message, the run ends or goes on.\<close>

lemma ws_loop_round:
  assumes "\<And>k snap t. row k = Some (snap, t) \<Longrightarrow> t = is_terminal (sn_status snap)"
  obtains m sub' where "ws_loop row push gone sub k (Suc rounds) sent
    = ws_send gone m sent (\<lambda>sent. if ws_final m then ws_done sent
        else ws_loop row push gone sub' (k + 1) rounds sent)"
    and "(\<exists>ev. sub \<and> push k = Pushed ev \<and> m = Ws_event ev)
      \<or> (row (k + 1) = None \<and> m = Ws_not_found)
      \<or> (\<exists>snap t. row (k + 1) = Some (snap, t) \<and> m = Ws_snapshot snap)"
proof (cases "\<exists>ev. sub \<and> push k = Pushed ev")
  case True
  then obtain ev where ev: "sub" "push k = Pushed ev" by blast
  show ?thesis
    by (rule that [of "Ws_event ev" True]) (use ev in \<open>simp_all add: ws_final_def\<close>)
next
  case False
  define pushed where "pushed = (if sub then push k else No_message)"
  have np: "pushed = No_message \<or> pushed = Push_raises"
    using False by (cases "push k") (auto simp: pushed_def)
  show ?thesis
  proof (cases "row (k + 1)")
    case None
    show ?thesis
      by (rule that [of Ws_not_found sub]) (use None np in \<open>auto simp: ws_final_def pushed_def [symmetric]\<close>)
  next
    case (Some st)
    then obtain snap where st: "row (k + 1) = Some (snap, is_terminal (sn_status snap))"
      using assms by (cases st) blast
    show ?thesis
      by (rule that [of "Ws_snapshot snap" "sub \<and> pushed \<noteq> Push_raises"])
        (use st np in \<open>auto simp: ws_final_def pushed_def [symmetric] cong: if_cong\<close>)
  qed
qed

lemma ws_loop_bounded:
  assumes "\<And>k snap t. row k = Some (snap, t) \<Longrightarrow> t = is_terminal (sn_status snap)" and "open_so_far sent"
  shows "ws_ok (length sent + rounds) (ws_loop row push gone sub k rounds sent)"
  using assms(2)
proof (induction rounds arbitrary: k sub sent)
  case 0
  then show ?case by (simp add: ws_done_def ws_ok_def open_closed)
next
  case (Suc rounds)
  obtain m sub' where r: "ws_loop row push gone sub k (Suc rounds) sent
    = ws_send gone m sent (\<lambda>sent. if ws_final m then ws_done sent
        else ws_loop row push gone sub' (k + 1) rounds sent)"
    by (rule ws_loop_round [of row, OF assms(1)])
  have "ws_ok (length sent + Suc rounds) (ws_done (sent @ [m]))"
    using Suc.prems by (simp add: ws_done_def ws_ok_def open_closed)
  moreover have "ws_ok (length (sent @ [m]) + rounds) (ws_loop row push gone sub' (k + 1) rounds (sent @ [m]))"
    if "\<not> ws_final m" using that Suc by (intro Suc.IH) (simp add: open_closed)
  ultimately show ?case unfolding r using Suc.prems by (intro ws_ok_send) auto
qed

text \<open>Nobody leaves and the job is over from round \<open>m\<close> on: the run ends with a final message.\<close>

lemma ws_loop_ends:
  assumes "\<And>k snap t. row k = Some (snap, t) \<Longrightarrow> t = is_terminal (sn_status snap)"
    and "\<And>n. \<not> gone n"
    and "\<And>j. m \<le> j \<Longrightarrow> over (row (j + 1))"
    and "\<And>j ev. m \<le> j \<Longrightarrow> push j = Pushed ev \<Longrightarrow> is_terminal (ev_status ev)"
    and "max k m < k + rounds"
  shows "\<exists>sent'. ws_loop row push gone sub k rounds sent = ws_done (sent @ sent') \<and> sent' \<noteq> [] \<and> ws_final (last sent')"
  using assms(5)
proof (induction rounds arbitrary: k sub sent)
  case (Suc rounds)
  obtain msg sub' where r: "ws_loop row push gone sub k (Suc rounds) sent
      = ws_send gone msg sent (\<lambda>sent. if ws_final msg then ws_done sent
          else ws_loop row push gone sub' (k + 1) rounds sent)"
    and msg: "(\<exists>ev. sub \<and> push k = Pushed ev \<and> msg = Ws_event ev)
      \<or> (row (k + 1) = None \<and> msg = Ws_not_found)
      \<or> (\<exists>snap t. row (k + 1) = Some (snap, t) \<and> msg = Ws_snapshot snap)"
    by (rule ws_loop_round [of row, OF assms(1)])
  show ?case
  proof (cases "ws_final msg")
    case True
    then show ?thesis unfolding r by (intro exI [of _ "[msg]"]) (simp add: ws_send_def assms(2))
  next
    case False
    have "ws_final msg" if "m \<le> k"
      using msg assms(1) assms(3) [OF that] assms(4) [OF that]
      by (auto simp: ws_final_def over_def)
    with False have "k < m" by (meson not_le_imp_less)
    with Suc.prems have "max (k + 1) m < (k + 1) + rounds" by simp
    from Suc.IH [OF this, of sub' "sent @ [msg]"]
    obtain sent' where "ws_loop row push gone sub' (k + 1) rounds (sent @ [msg]) = ws_done ((sent @ [msg]) @ sent')"
      "sent' \<noteq> []" "ws_final (last sent')" by blast
    with False show ?thesis unfolding r
      by (intro exI [of _ "msg # sent'"]) (simp add: ws_send_def assms(2))
  qed
qed simp

section \<open>Properties\<close>

text \<open>
  The event stream reports a job faithfully and ends: it sends one event per poll, each
  with the state of the job at that poll, up to and including the first poll at which the job is
  finished or gone, which is announced by the last event; if the job outlives the 600 polls the
  stream ends after 600 events.
\<close>

theorem stream_job_events_verdict:
  "stream_job_events tables i =
    (let row = (\<lambda>k. job_snapshot (tables k) i) in
     map (\<lambda>k. sse_event_of (row k))
       (case find (\<lambda>k. over (row k)) [0..<max_events] of
          Some m \<Rightarrow> [0..<Suc m] | None \<Rightarrow> [0..<max_events]))"
proof -
  let ?row = "\<lambda>k. job_snapshot (tables k) i"
  show ?thesis
  proof (cases "find (\<lambda>k. over (?row k)) [0..<max_events]")
    case None
    then have "\<And>k. k < max_events \<Longrightarrow> \<not> over (?row k)" by (auto simp: find_None_iff)
    with None show ?thesis
      using sse_loop_running [of max_events ?row 0 max_events]
      by (simp add: stream_job_events_def)
  next
    case (Some m)
    then have m: "m < max_events" "over (?row m)" "\<And>k. k < m \<Longrightarrow> \<not> over (?row k)"
      by (auto simp: find_Some_iff)
    then have "sse_loop ?row 0 max_events = map (\<lambda>k. sse_event_of (?row k)) [0..<m] @ sse_loop ?row m (max_events - m)"
      using sse_loop_running [of m ?row 0 max_events] by simp
    also have "sse_loop ?row m (max_events - m) = [sse_event_of (?row m)]"
      using m by (intro sse_loop_over) auto
    finally show ?thesis using Some by (simp add: stream_job_events_def)
  qed
qed

text \<open>
  C32: The WebSocket stream always ends, after at most 601 messages, and never goes on after a
  final one. It does deliver the end of the job: when the client stays, the row shows the job
  finished (or gone) from some round below 600 on and no event of an unfinished job is pushed
  from then on, the last message sent is a final one.
\<close>

theorem websocket_delivers_end:
  assumes stays: "\<And>n. \<not> gone n" and m: "m < max_events"
    and row: "\<And>j. m \<le> j \<Longrightarrow> over (job_snapshot (tables (j + 1)) i)"
    and push: "\<And>j ev. m \<le> j \<Longrightarrow> push j = Pushed ev \<Longrightarrow> is_terminal (ev_status ev)"
  shows "\<exists>sent. job_progress_websocket tables push gone redis_up i = \<lparr>ws_sent = sent, ws_disconnected = False\<rparr>
    \<and> length sent \<le> Suc max_events \<and> sent \<noteq> [] \<and> ws_final (last sent) \<and> (\<forall>x \<in> set (butlast sent). \<not> ws_final x)"
proof (cases "job_snapshot (tables 0) i")
  case None
  then show ?thesis by (simp add: job_progress_websocket_def ws_send_def stays ws_done_def ws_final_def)
next
  case (Some st)
  then obtain snap where st: "job_snapshot (tables 0) i = Some (snap, is_terminal (sn_status snap))"
    using snapshot_terminal by (cases st) blast
  let ?loop = "ws_loop (\<lambda>k. job_snapshot (tables k) i) push gone redis_up 0 max_events [Ws_snapshot snap]"
  have flags: "\<And>k snap t. job_snapshot (tables k) i = Some (snap, t) \<Longrightarrow> t = is_terminal (sn_status snap)"
    by (rule snapshot_terminal)
  show ?thesis
  proof (cases "is_terminal (sn_status snap)")
    case True
    then show ?thesis
      using st by (simp add: job_progress_websocket_def ws_send_def stays ws_done_def ws_final_def)
  next
    case False
    have "\<exists>sent'. ?loop = ws_done ([Ws_snapshot snap] @ sent') \<and> sent' \<noteq> [] \<and> ws_final (last sent')"
      by (rule ws_loop_ends [where m = m]) (use flags stays row push m in auto)
    moreover have "ws_ok (Suc max_events) ?loop"
      using ws_loop_bounded [of "\<lambda>k. job_snapshot (tables k) i" "[Ws_snapshot snap]" max_events push gone redis_up 0]
        flags False by (simp add: open_so_far_def ws_final_def)
    ultimately show ?thesis
      using st False by (auto simp: job_progress_websocket_def ws_send_def stays ws_done_def ws_ok_def
          closed_well_def open_so_far_def)
  qed
qed

definition sample_progress :: "nat \<Rightarrow> job list" where
  "sample_progress k = [if k = 0 then sample_job\<lparr>j_status := PROCESSING\<rparr> else sample_job\<lparr>j_status := COMPLETED\<rparr>]"

theorem websocket_delivers_end_witness:
  "\<exists>sent. job_progress_websocket sample_progress (\<lambda>_. No_message) (\<lambda>_. False) True (j_id sample_job)
       = \<lparr>ws_sent = sent, ws_disconnected = False\<rparr> \<and> ws_final (last sent) \<and> length sent \<le> 601"
proof -
  have row: "over (job_snapshot (sample_progress (j + 1)) (j_id sample_job))" for j
    by (simp add: sample_progress_def job_snapshot_def over_def)
  show ?thesis
    using websocket_delivers_end [of "\<lambda>_. False" 0 sample_progress "j_id sample_job" "\<lambda>_. No_message" True] row
    by (auto simp: max_events_def)
qed

end
