(* ===== verification/AdminTables.thy ===== *)
theory AdminTables
  imports Actions Models "HOL-Library.Multiset"
begin

text \<open>
  What the list endpoints of \<open>app/services/admin.py\<close> share: pagination
  (\<open>app/dependencies/pagination.py\<close>), the case-insensitive \<open>LIKE\<close> search, optional filters,
  ordering and counting, and the lookup by primary key.

  A table is the list of its rows. \<open>LIKE\<close> is PostgreSQL's (\<open>%\<close>, \<open>_\<close>, backslash as
  escape). \<open>ORDER BY\<close> is a stable sort, so rows that tie keep their table order; the ordering of
  texts is the database's collation, an argument that ranks texts.
\<close>

section \<open>Pages\<close>

record page_params =
  pp_page :: int
  pp_size :: int

text \<open>The bounds FastAPI enforces on the query parameters.\<close>

definition pagination_params :: "int \<Rightarrow> int \<Rightarrow> page_params option" where
  "pagination_params page n =
     (if 1 \<le> page \<and> 1 \<le> n \<and> n \<le> 100 then Some \<lparr>pp_page = page, pp_size = n\<rparr> else None)"

definition page_offset :: "page_params \<Rightarrow> int" where
  "page_offset p = (pp_page p - 1) * pp_size p"

definition page_limit :: "page_params \<Rightarrow> int" where
  "page_limit p = pp_size p"

definition fetch_page :: "page_params \<Rightarrow> 'r list \<Rightarrow> 'r list" where
  "fetch_page p rows = take (nat (page_limit p)) (drop (nat (page_offset p)) rows)"

section \<open>Search and filters\<close>

function sql_like :: "string \<Rightarrow> string \<Rightarrow> bool" where
  "sql_like [] s = (s = [])"
| "sql_like (p # ps) s =
     (if p = CHR ''%'' then
        sql_like ps s \<or> (case s of [] \<Rightarrow> False | _ # t \<Rightarrow> sql_like (p # ps) t)
      else if p = CHR 0x5C then
        (case ps of [] \<Rightarrow> False
         | q # qs \<Rightarrow> (case s of [] \<Rightarrow> False | x # t \<Rightarrow> x = q \<and> sql_like qs t))
      else (case s of [] \<Rightarrow> False | x # t \<Rightarrow> (p = CHR ''_'' \<or> x = p) \<and> sql_like ps t))"
  by pat_completeness auto
termination by (relation "measure (\<lambda>(p, s). length p + length s)") auto

declare sql_like.simps [simp del]

text \<open>\<open>func.lower(column).like(f"%{q.lower()}%")\<close>; a NULL column does not match.\<close>

definition like_column :: "string \<Rightarrow> string option \<Rightarrow> bool" where
  "like_column q column =
     (case column of None \<Rightarrow> False | Some s \<Rightarrow> sql_like (''%'' @ py_lower q @ ''%'') (py_lower s))"

text \<open>\<open>if q: stmt.where(...)\<close> and \<open>if value: stmt.where(column == value)\<close>.\<close>

definition search :: "string option \<Rightarrow> string option list \<Rightarrow> bool" where
  "search q columns =
     (case q of None \<Rightarrow> True | Some s \<Rightarrow> s = [] \<or> (\<exists>c \<in> set columns. like_column s c))"

definition equals :: "string option \<Rightarrow> string \<Rightarrow> bool" where
  "equals v column = (case v of None \<Rightarrow> True | Some s \<Rightarrow> s = [] \<or> column = s)"

section \<open>Ordering\<close>

text \<open>Ascending puts NULL last, descending first.\<close>

definition order_asc :: "('r \<Rightarrow> int option) \<Rightarrow> 'r list \<Rightarrow> 'r list" where
  "order_asc key rows =
     sort_key (\<lambda>r. the (key r)) (filter (\<lambda>r. key r \<noteq> None) rows) @ filter (\<lambda>r. key r = None) rows"

definition order_desc :: "('r \<Rightarrow> int option) \<Rightarrow> 'r list \<Rightarrow> 'r list" where
  "order_desc key rows =
     filter (\<lambda>r. key r = None) rows @ sort_key (\<lambda>r. - the (key r)) (filter (\<lambda>r. key r \<noteq> None) rows)"

text \<open>\<open>sort_map.get(sort or "-created_at", default)\<close>: the map has a key and its \<open>-key\<close> for every
  sortable column.\<close>

definition sort_rows :: "(string \<times> ('r \<Rightarrow> int option)) list \<Rightarrow> ('r \<Rightarrow> int) \<Rightarrow> string option \<Rightarrow> 'r list \<Rightarrow> 'r list" where
  "sort_rows keys created by_name rows =
     (let name = (case by_name of None \<Rightarrow> ''-created_at'' | Some s \<Rightarrow> if s = [] then ''-created_at'' else s);
          all_keys = keys @ [(''created_at'', \<lambda>r. Some (created r))]
      in case map_of all_keys name of
           Some key \<Rightarrow> order_asc key rows
         | None \<Rightarrow>
             (case (case name of c # n \<Rightarrow> if c = CHR ''-'' then map_of all_keys n else None | [] \<Rightarrow> None) of
                Some key \<Rightarrow> order_desc key rows
              | None \<Rightarrow> order_desc (\<lambda>r. Some (created r)) rows))"

definition listing :: "page_params \<Rightarrow> ('r \<Rightarrow> 'o) \<Rightarrow> 'r list \<Rightarrow> 'o list \<times> nat" where
  "listing p row rows = (map row (fetch_page p rows), length rows)"

section \<open>Rows by key\<close>

definition get_row :: "('r \<Rightarrow> nat) \<Rightarrow> string \<Rightarrow> nat \<Rightarrow> 'r list \<Rightarrow> (py_exc, 'r) result" where
  "get_row key message i tbl =
     (case find (\<lambda>r. key r = i) tbl of
        None \<Rightarrow> raise_app (BaseE NotFoundError) message | Some r \<Rightarrow> Inr r)"

definition set_row :: "('r \<Rightarrow> nat) \<Rightarrow> 'r \<Rightarrow> 'r list \<Rightarrow> 'r list" where
  "set_row key r tbl = map (\<lambda>x. if key x = key r then r else x) tbl"

definition delete_row :: "('r \<Rightarrow> nat) \<Rightarrow> nat \<Rightarrow> 'r list \<Rightarrow> 'r list" where
  "delete_row key i tbl = filter (\<lambda>r. key r \<noteq> i) tbl"

definition default_to :: "'a \<Rightarrow> 'a option \<Rightarrow> 'a" where
  "default_to a v = (case v of None \<Rightarrow> a | Some b \<Rightarrow> b)"

section \<open>Rounding\<close>

text \<open>\<open>round(a / b, 1)\<close> in tenths: the double next to a / b, rounded to one decimal.\<close>

definition round1 :: "nat \<Rightarrow> nat \<Rightarrow> nat" where
  "round1 a b = (case float_quot a b of (m, k) \<Rightarrow> round_div (m * 10) (2 ^ k))"

section \<open>Lemmas\<close>

lemma order_perm: "mset (order_asc key rows) = mset rows" "mset (order_desc key rows) = mset rows"
proof -
  have "mset (filter (\<lambda>r. key r \<noteq> None) rows) + mset (filter (\<lambda>r. key r = None) rows) = mset rows"
    by (induction rows) auto
  then show "mset (order_asc key rows) = mset rows" "mset (order_desc key rows) = mset rows"
    by (simp_all add: order_asc_def order_desc_def add.commute)
qed

lemma sort_rows_perm: "mset (sort_rows keys created by_name rows) = mset rows"
  by (simp add: sort_rows_def Let_def order_perm split: option.split list.split)

lemma length_sort_rows [simp]: "length (sort_rows keys created by_name rows) = length rows"
  by (metis sort_rows_perm size_mset)

text \<open>The pages of a listing, one after the other, are the listing.\<close>

lemma fetch_pages:
  assumes "0 < per_page"
  shows "concat (map (\<lambda>p. fetch_page \<lparr>pp_page = int p, pp_size = int per_page\<rparr> rows) [1..<Suc n]) = take (n * per_page) rows"
proof (induction n)
  case (Suc n)
  have "nat (int n * int per_page) = n * per_page" by (metis nat_int of_nat_mult)
  then have "fetch_page \<lparr>pp_page = int (Suc n), pp_size = int per_page\<rparr> rows = take per_page (drop (n * per_page) rows)"
    by (simp add: fetch_page_def page_limit_def page_offset_def)
  with Suc show ?case
    by (simp add: take_add [symmetric] add.commute)
qed simp

text \<open>A search text without wildcards finds exactly the rows that contain it.\<close>

definition plain_text :: "string \<Rightarrow> bool" where
  "plain_text s \<longleftrightarrow> set s \<inter> {CHR ''%'', CHR ''_'', CHR 0x5C} = {}"

lemma sql_like_plain_prefix:
  "plain_text q \<Longrightarrow> sql_like (q @ ''%'') s \<longleftrightarrow> starts_with q s"
proof (induction q arbitrary: s)
  case Nil
  have "sql_like ''%'' s" for s
  proof (induction s)
    case (Cons x s)
    then show ?case by (subst sql_like.simps) simp
  qed (simp add: sql_like.simps)
  then show ?case by simp
next
  case (Cons x q)
  then show ?case by (cases s) (auto simp: sql_like.simps plain_text_def)
qed

lemma sql_like_contains: "plain_text q \<Longrightarrow> sql_like (''%'' @ q @ ''%'') s \<longleftrightarrow> py_in q s"
proof (induction s)
  case Nil
  then have "sql_like (''%'' @ q @ ''%'') [] = starts_with q []"
    using sql_like_plain_prefix [of q "[]"] by (simp add: sql_like.simps(2) [of "CHR ''%''"])
  also have "\<dots> = py_in q []" by (cases q) auto
  finally show ?case .
next
  case (Cons x s)
  then show ?case by (auto simp: sql_like.simps(2) [of "CHR ''%''"] sql_like_plain_prefix)
qed

lemma like_column_contains:
  "plain_text (py_lower q) \<Longrightarrow> like_column q (Some s) \<longleftrightarrow> py_in (py_lower q) (py_lower s)"
  using sql_like_contains by (simp add: like_column_def)

lemma get_row_InrD: "get_row key m i tbl = Inr r \<Longrightarrow> r \<in> set tbl \<and> key r = i"
  by (auto simp: get_row_def find_Some_iff split: option.splits)

lemma map_key_set_row [simp]: "map key (set_row key r tbl) = map key tbl"
  by (simp add: set_row_def)

lemma delete_row_key: "i \<notin> key ` set (delete_row key i tbl)"
  by (auto simp: delete_row_def)

end
