(* ===== verification/Accounts.thy ===== *)
theory Accounts
  imports Actions Models Uuids
begin

text \<open>
  Accounts and access: \<open>app/core/security.py\<close>, \<open>app/services/auth.py\<close>,
  \<open>app/repositories/user.py\<close>, \<open>app/dependencies/auth.py\<close> and \<open>app/dependencies/admin.py\<close>.

  bcrypt and PyJWT are arguments: hashing (which refuses over-long passwords), checking a
  password against a hash (\<open>None\<close>: \<open>ValueError\<close>), encoding claims, and decoding a token at a
  time, which yields the claims of a token with a valid signature that has not expired. What is
  assumed of them is stated where it is needed. Times are in microseconds; JWT stores whole
  seconds.
\<close>

section \<open>Users\<close>

record user =
  us_id :: nat
  us_name :: string
  us_email :: string
  us_password_hash :: string
  us_plan :: string
  us_avatar :: "string option"
  us_email_verified_at :: "int option"
  us_is_admin :: bool
  us_status :: string
  us_created_at :: int
  us_updated_at :: int

interpretation user_row: row_table us_id .

text \<open>\<open>scalar_one_or_none\<close>: more than one row is an error.\<close>

definition one_or_none :: "'r list \<Rightarrow> (py_exc, 'r option) result" where
  "one_or_none rows =
     (case rows of
        [] \<Rightarrow> Inr None
      | [r] \<Rightarrow> Inr (Some r)
      | _ \<Rightarrow> Inl (OtherError ''MultipleResultsFound'' ''Multiple rows were found when one or none was required''))"

definition get_by_email :: "string \<Rightarrow> user list \<Rightarrow> (py_exc, user option) result" where
  "get_by_email email tbl =
     one_or_none (filter (\<lambda>u. py_lower (us_email u) = py_lower (py_strip email)) tbl)"

definition user_get :: "nat \<Rightarrow> user list \<Rightarrow> user option" where
  "user_get i tbl = find (\<lambda>u. us_id u = i) tbl"

section \<open>Passwords and tokens\<close>

datatype token_type = Access | Refresh

fun token_type_value :: "token_type \<Rightarrow> string" where
  "token_type_value Access = ''access''"
| "token_type_value Refresh = ''refresh''"

record claims =
  cl_sub :: "string option"
  cl_type :: "string option"
  cl_iat :: int
  cl_exp :: int
  cl_jti :: string

record auth_env =
  au_secret :: string
  au_access_minutes :: int
  au_refresh_days :: int
  au_hash :: "string \<Rightarrow> (py_exc, string) result"
  au_check :: "string \<Rightarrow> string \<Rightarrow> bool option"
  au_encode :: "claims \<Rightarrow> string \<Rightarrow> string"
  au_decode :: "string \<Rightarrow> string \<Rightarrow> int \<Rightarrow> claims option"

definition hash_password :: "auth_env \<Rightarrow> string \<Rightarrow> (py_exc, string) result" where
  "hash_password env password = au_hash env password"

definition verify_password :: "auth_env \<Rightarrow> string \<Rightarrow> string \<Rightarrow> bool" where
  "verify_password env password password_hash =
     (case au_check env password password_hash of None \<Rightarrow> False | Some b \<Rightarrow> b)"

definition create_token :: "auth_env \<Rightarrow> int \<Rightarrow> string \<Rightarrow> nat \<Rightarrow> token_type \<Rightarrow> string" where
  "create_token env now jti user_id token_type =
     (let lifetime = (if token_type = Access then minutes (au_access_minutes env)
                      else days (au_refresh_days env))
      in au_encode env
           \<lparr>cl_sub = Some (uuid_str user_id), cl_type = Some (token_type_value token_type),
            cl_iat = now, cl_exp = now + lifetime, cl_jti = jti\<rparr> (au_secret env))"

definition decode_token :: "auth_env \<Rightarrow> int \<Rightarrow> string \<Rightarrow> token_type \<Rightarrow> claims option" where
  "decode_token env now token expected_type =
     (case au_decode env token (au_secret env) now of
        None \<Rightarrow> None
      | Some payload \<Rightarrow>
          if cl_type payload \<noteq> Some (token_type_value expected_type) \<or> cl_sub payload = None
          then None else Some payload)"

record token_pair =
  tp_access_token :: string
  tp_refresh_token :: string
  tp_expires_in :: int

definition token_pair_for :: "auth_env \<Rightarrow> int \<Rightarrow> string \<times> string \<Rightarrow> nat \<Rightarrow> token_pair" where
  "token_pair_for env now jtis user_id =
     \<lparr>tp_access_token = create_token env now (fst jtis) user_id Access,
      tp_refresh_token = create_token env now (snd jtis) user_id Refresh,
      tp_expires_in = au_access_minutes env * 60\<rparr>"

text \<open>\<open>uuid.UUID(payload["sub"])\<close>.\<close>

definition claims_subject :: "claims \<Rightarrow> (py_exc, nat) result" where
  "claims_subject payload =
     (case parse_uuid (case cl_sub payload of None \<Rightarrow> [] | Some t \<Rightarrow> t) of
        None \<Rightarrow> Inl (OtherError ''ValueError'' ''badly formed hexadecimal UUID string'')
      | Some i \<Rightarrow> Inr i)"

section \<open>The auth service\<close>

definition unauthorized :: "string \<Rightarrow> (py_exc, 'a) result" where
  "unauthorized message = raise_app (BaseE UnauthorizedError) message"

definition register ::
  "auth_env \<Rightarrow> int \<Rightarrow> string \<times> string \<Rightarrow> nat \<Rightarrow> string \<Rightarrow> string \<Rightarrow> string
     \<Rightarrow> (user list, user \<times> token_pair) action" where
  "register env now jtis new_id name email password tbl =
     (case get_by_email email tbl of
        Inl e \<Rightarrow> (tbl, Inl e)
      | Inr (Some _) \<Rightarrow> (tbl, raise_app (BaseE ConflictError) ''An account with this email already exists.'')
      | Inr None \<Rightarrow>
          (case hash_password env password of
             Inl e \<Rightarrow> (tbl, Inl e)
           | Inr h \<Rightarrow>
               (let u = \<lparr>us_id = new_id, us_name = py_strip name, us_email = py_lower (py_strip email),
                      us_password_hash = h, us_plan = ''free'', us_avatar = None,
                      us_email_verified_at = None, us_is_admin = False, us_status = ''active'',
                      us_created_at = now, us_updated_at = now\<rparr>
                in (tbl @ [u], Inr (u, token_pair_for env now jtis new_id)))))"

definition login ::
  "auth_env \<Rightarrow> int \<Rightarrow> string \<times> string \<Rightarrow> user list \<Rightarrow> string \<Rightarrow> string \<Rightarrow> (py_exc, user \<times> token_pair) result" where
  "login env now jtis tbl email password =
     rbind (get_by_email email tbl) (\<lambda>found.
       case found of
         None \<Rightarrow> unauthorized ''Invalid email or password.''
       | Some u \<Rightarrow>
           if \<not> verify_password env password (us_password_hash u)
           then unauthorized ''Invalid email or password.''
           else if us_status u = ''suspended'' then unauthorized ''This account has been suspended.''
           else Inr (u, token_pair_for env now jtis (us_id u)))"

definition refresh ::
  "auth_env \<Rightarrow> int \<Rightarrow> string \<times> string \<Rightarrow> user list \<Rightarrow> string \<Rightarrow> (py_exc, token_pair) result" where
  "refresh env now jtis tbl refresh_token =
     (case decode_token env now refresh_token Refresh of
        None \<Rightarrow> unauthorized ''Invalid or expired refresh token.''
      | Some payload \<Rightarrow>
          rbind (claims_subject payload) (\<lambda>i.
            case user_get i tbl of
              None \<Rightarrow> unauthorized ''Account no longer exists.''
            | Some u \<Rightarrow> Inr (token_pair_for env now jtis (us_id u))))"

section \<open>Request dependencies\<close>

text \<open>The token of an \<open>Authorization\<close> header (the empty text when there is none).\<close>

definition bearer_token :: "string \<Rightarrow> string option" where
  "bearer_token header =
     (let (scheme, token) = (case split_first CHR '' '' header of None \<Rightarrow> (header, []) | Some st \<Rightarrow> st)
      in if py_lower scheme = ''bearer'' \<and> py_strip token \<noteq> [] then Some (py_strip token) else None)"

definition get_optional_user ::
  "auth_env \<Rightarrow> int \<Rightarrow> user list \<Rightarrow> string \<Rightarrow> (py_exc, user option) result" where
  "get_optional_user env now tbl header =
     (case bearer_token header of
        None \<Rightarrow> Inr None
      | Some token \<Rightarrow>
          (case decode_token env now token Access of
             None \<Rightarrow> unauthorized ''Invalid or expired access token.''
           | Some payload \<Rightarrow>
               rbind (claims_subject payload) (\<lambda>i.
                 case user_get i tbl of
                   None \<Rightarrow> unauthorized ''Account no longer exists.''
                 | Some u \<Rightarrow>
                     if us_status u = ''suspended'' then unauthorized ''This account has been suspended.''
                     else Inr (Some u))))"

definition get_current_user ::
  "auth_env \<Rightarrow> int \<Rightarrow> user list \<Rightarrow> string \<Rightarrow> (py_exc, user) result" where
  "get_current_user env now tbl header =
     rbind (get_optional_user env now tbl header) (\<lambda>user.
       case user of None \<Rightarrow> raise_class (BaseE UnauthorizedError) | Some u \<Rightarrow> Inr u)"

definition get_optional_user_id ::
  "auth_env \<Rightarrow> int \<Rightarrow> user list \<Rightarrow> string \<Rightarrow> (py_exc, nat option) result" where
  "get_optional_user_id env now tbl header =
     rbind (get_optional_user env now tbl header) (\<lambda>user. Inr (map_option us_id user))"

definition get_current_admin ::
  "auth_env \<Rightarrow> int \<Rightarrow> user list \<Rightarrow> string \<Rightarrow> (py_exc, user) result" where
  "get_current_admin env now tbl header =
     rbind (get_current_user env now tbl header) (\<lambda>u.
       if us_is_admin u then Inr u
       else raise_app (BaseE ForbiddenError) ''Administrator access is required.'')"

section \<open>What is assumed of the libraries\<close>

text \<open>\<open>exp\<close> is stored in whole seconds.\<close>

definition alive :: "int \<Rightarrow> int \<Rightarrow> bool" where
  "alive now expiry \<longleftrightarrow> now < 1000000 * (expiry div 1000000)"

text \<open>PyJWT on the claims this application issues: the token is a text without white space, and
  until it expires it decodes, with the same key, to the subject and the type it was made of.\<close>

definition jwt_law :: "auth_env \<Rightarrow> bool" where
  "jwt_law env \<longleftrightarrow>
     (\<forall>u tt issued expiry jti now. 0 \<le> expiry \<and> issued \<le> now \<longrightarrow>
        (let token = au_encode env \<lparr>cl_sub = Some (uuid_str u), cl_type = Some (token_type_value tt),
               cl_iat = issued, cl_exp = expiry, cl_jti = jti\<rparr> (au_secret env)
         in token \<noteq> [] \<and> (\<forall>c \<in> set token. \<not> py_space c)
          \<and> (case au_decode env token (au_secret env) now of
               None \<Rightarrow> \<not> alive now expiry
             | Some c \<Rightarrow> alive now expiry \<and> cl_sub c = Some (uuid_str u)
                 \<and> cl_type c = Some (token_type_value tt))))"

text \<open>bcrypt: a password checks against its own hash.\<close>

definition bcrypt_law :: "auth_env \<Rightarrow> bool" where
  "bcrypt_law env \<longleftrightarrow> (\<forall>p h. au_hash env p = Inr h \<longrightarrow> au_check env p h = Some True)"

section \<open>Lemmas\<close>

lemma token_type_value_inj [simp]: "token_type_value a = token_type_value b \<longleftrightarrow> a = b"
  by (cases a; cases b) simp_all

definition token_expiry :: "auth_env \<Rightarrow> int \<Rightarrow> token_type \<Rightarrow> int" where
  "token_expiry env now tt =
     now + (if tt = Access then minutes (au_access_minutes env) else days (au_refresh_days env))"

lemma decode_create:
  assumes law: "jwt_law env" and "issued \<le> now" and "0 \<le> token_expiry env issued tt"
  shows "case decode_token env now (create_token env issued jti u tt) expected of
      None \<Rightarrow> \<not> (tt = expected \<and> alive now (token_expiry env issued tt))
    | Some c \<Rightarrow> tt = expected \<and> alive now (token_expiry env issued tt) \<and> cl_sub c = Some (uuid_str u)"
proof -
  let ?token = "create_token env issued jti u tt"
  have "case au_decode env ?token (au_secret env) now of
      None \<Rightarrow> \<not> alive now (token_expiry env issued tt)
    | Some c \<Rightarrow> alive now (token_expiry env issued tt) \<and> cl_sub c = Some (uuid_str u)
        \<and> cl_type c = Some (token_type_value tt)"
    using law [unfolded jwt_law_def, rule_format, of "token_expiry env issued tt" issued now u tt jti] assms(2,3)
    by (simp add: create_token_def token_expiry_def Let_def)
  then show ?thesis by (auto simp: decode_token_def split: option.splits)
qed

lemma bearer_of_token:
  assumes law: "jwt_law env" and "0 \<le> token_expiry env issued tt"
  shows "bearer_token (''Bearer '' @ create_token env issued jti u tt) = Some (create_token env issued jti u tt)"
proof -
  let ?token = "create_token env issued jti u tt"
  have t: "?token \<noteq> []" "\<forall>c \<in> set ?token. \<not> py_space c"
    using law [unfolded jwt_law_def, rule_format, of "token_expiry env issued tt" issued issued u tt jti] assms(2)
    by (simp_all add: create_token_def token_expiry_def Let_def)
  then have "py_strip ?token = ?token" by (simp add: py_strip_def strip_by_id)
  moreover have "split_first CHR '' '' (''Bearer '' @ ?token) = Some (''Bearer'', ?token)"
    using split_first_append [of "CHR '' ''" "''Bearer''" ?token] by simp
  moreover have "py_lower ''Bearer'' = ''bearer''" by code_simp
  ultimately show ?thesis using t(1) by (simp add: bearer_token_def)
qed

lemma claims_subject_uuid: "cl_sub c = Some (uuid_str u) \<Longrightarrow> u < 2 ^ 128 \<Longrightarrow> claims_subject c = Inr u"
  by (simp add: claims_subject_def parse_uuid_str)

lemma refresh_live:
  assumes "jwt_law env" and "issued \<le> now" and "0 \<le> token_expiry env issued Refresh" and "u < 2 ^ 128"
    and "alive now (token_expiry env issued Refresh)" and "user_get u tbl = Some x"
  shows "refresh env now jtis tbl (create_token env issued jti u Refresh) = Inr (token_pair_for env now jtis (us_id x))"
  using decode_create [OF assms(1-3), where jti = jti and u = u and expected = Refresh] assms(4-6)
  by (auto simp: refresh_def claims_subject_uuid split: option.splits)

lemma optional_user_of_token:
  assumes "jwt_law env" and "issued \<le> now" and "0 \<le> token_expiry env issued tt" and "u < 2 ^ 128"
  shows "get_optional_user env now tbl (''Bearer '' @ create_token env issued jti u tt) =
    (if tt = Access \<and> alive now (token_expiry env issued tt)
     then (case user_get u tbl of
             None \<Rightarrow> unauthorized ''Account no longer exists.''
           | Some x \<Rightarrow> if us_status x = ''suspended'' then unauthorized ''This account has been suspended.''
                       else Inr (Some x))
     else unauthorized ''Invalid or expired access token.'')"
proof (cases "decode_token env now (create_token env issued jti u tt) Access")
  case None
  then have "\<not> (tt = Access \<and> alive now (token_expiry env issued tt))"
    using decode_create [OF assms(1-3), where jti = jti and u = u and expected = Access] by simp
  then show ?thesis
    unfolding get_optional_user_def bearer_of_token [OF assms(1,3)] option.case None by (simp only: if_False)
next
  case (Some c)
  with decode_create [OF assms(1-3), where jti = jti and u = u and expected = Access]
  have c: "tt = Access" "alive now (token_expiry env issued tt)" "claims_subject c = Inr u"
    using assms(4) by (auto simp: claims_subject_uuid)
  show ?thesis
    unfolding get_optional_user_def bearer_of_token [OF assms(1,3)] option.case Some c(3) rbind_Inr
    using c(1,2) by simp
qed

lemma login_not_suspended: "login env now jtis tbl email password = Inr (x, p) \<Longrightarrow> us_status x \<noteq> ''suspended''"
  by (auto simp: login_def rbind_eq_Inr_iff unauthorized_def split: option.splits if_splits)

section \<open>Properties\<close>


text \<open>
  Suspension shuts an account out at once, except that its refresh tokens keep working: no
  login returns it and no token issued to it, earlier or later, opens a request, yet a live
  refresh token is still exchanged for a fresh pair (which is equally useless).
\<close>

theorem suspension_shuts_out:
  assumes law: "jwt_law env" and u: "u < 2 ^ 128" and x: "user_get u tbl = Some x"
    and susp: "us_status x = ''suspended''"
    and r: "issued \<le> now" "0 \<le> token_expiry env issued Refresh" "alive now (token_expiry env issued Refresh)"
  shows "(\<forall>jtis email password p. login env now jtis tbl email password \<noteq> Inr (x, p))
    \<and> (\<forall>t0 t tt jti. t0 \<le> t \<longrightarrow> 0 \<le> token_expiry env t0 tt \<longrightarrow>
         (\<exists>m. get_optional_user env t tbl (''Bearer '' @ create_token env t0 jti u tt) = unauthorized m))
    \<and> (\<forall>jtis jti. refresh env now jtis tbl (create_token env issued jti u Refresh)
         = Inr (token_pair_for env now jtis (us_id x)))"
proof (intro conjI allI impI)
  fix jtis email password p
  show "login env now jtis tbl email password \<noteq> Inr (x, p)"
    using login_not_suspended susp by blast
next
  fix t0 t tt jti
  assume "t0 \<le> t" "0 \<le> token_expiry env t0 tt"
  from optional_user_of_token [OF law this u, of tbl jti]
  show "\<exists>m. get_optional_user env t tbl (''Bearer '' @ create_token env t0 jti u tt) = unauthorized m"
    using x susp by auto
next
  fix jtis jti
  show "refresh env now jtis tbl (create_token env issued jti u Refresh) = Inr (token_pair_for env now jtis (us_id x))"
    by (rule refresh_live [OF law r(1,2) u r(3) x])
qed

text \<open>
  Registering and signing in fit together: after a successful registration the account can
  sign in with its password and any spelling of its e-mail address that differs only in case
  and surrounding white space, the login returns this very account, and a second registration
  under such a spelling is refused and changes nothing.
\<close>

theorem register_login_roundtrip:
  assumes "bcrypt_law env"
    and reg: "register env now jtis i name email password tbl = (tbl', Inr (u, p))"
    and spelling: "py_lower (py_strip email') = py_lower (py_strip email)"
  shows "login env now' jtis' tbl' email' password = Inr (u, token_pair_for env now' jtis' i)
    \<and> register env now' jtis' k name' email' password' tbl'
        = (tbl', raise_app (BaseE ConflictError) ''An account with this email already exists.'')"
proof -
  from reg have none: "get_by_email email tbl = Inr None"
    by (auto simp: register_def raise_app_def split: sum.splits option.splits)
  with reg obtain h where h: "au_hash env password = Inr h" and tbl': "tbl' = tbl @ [u]"
    and u: "us_email u = py_lower (py_strip email)" "us_password_hash u = h" "us_status u = ''active''" "us_id u = i"
    by (auto simp: register_def hash_password_def Let_def split: sum.splits)
  have "filter (\<lambda>u. py_lower (us_email u) = py_lower (py_strip email)) tbl = []"
    using none by (auto simp: get_by_email_def one_or_none_def split: list.splits)
  then have found: "get_by_email email' tbl' = Inr (Some u)"
    by (simp add: get_by_email_def tbl' spelling one_or_none_def u(1))
  moreover have "verify_password env password (us_password_hash u)"
    using assms(1) h by (simp add: bcrypt_law_def verify_password_def u(2))
  ultimately show ?thesis
    by (simp add: login_def register_def u(3,4))
qed

section \<open>A concrete library\<close>

text \<open>Libraries that satisfy the laws: tokens that spell out type, subject and expiry, and a
  hash that is the password itself.\<close>

definition plain_encode :: "claims \<Rightarrow> string \<Rightarrow> string" where
  "plain_encode c key =
     (if cl_type c = Some ''access'' then CHR ''A'' else CHR ''R'')
       # (case cl_sub c of None \<Rightarrow> [] | Some s \<Rightarrow> s) @ replicate (nat (cl_exp c)) (CHR ''x'')"

definition plain_decode :: "string \<Rightarrow> string \<Rightarrow> int \<Rightarrow> claims option" where
  "plain_decode token key now =
     (case token of [] \<Rightarrow> None | t # r \<Rightarrow>
       (let expiry = int (length r - 36) in
        if alive now expiry
        then Some \<lparr>cl_sub = Some (take 36 r), cl_type = Some (if t = CHR ''A'' then ''access'' else ''refresh''),
               cl_iat = 0, cl_exp = expiry, cl_jti = []\<rparr>
        else None))"

definition plain_auth_env :: auth_env where
  "plain_auth_env =
     \<lparr>au_secret = ''k'', au_access_minutes = 30, au_refresh_days = 14,
      au_hash = (\<lambda>p. if length p \<le> 72 then Inr p else Inl (OtherError ''ValueError'' [])),
      au_check = (\<lambda>p h. Some (p = h)), au_encode = plain_encode, au_decode = plain_decode\<rparr>"

lemma plain_jwt_law: "jwt_law plain_auth_env"
proof -
  have "\<not> py_space c" if "c \<in> set (uuid_str u)" for c u
    using uuid_str_chars [OF that] hex_not_space by (auto simp: py_space_def char_code_def)
  moreover have "\<not> py_space (CHR ''A'')" "\<not> py_space (CHR ''R'')" "\<not> py_space (CHR ''x'')"
    by (simp_all add: py_space_def char_code_def)
  ultimately have "\<not> py_space c" if "c \<in> set (plain_encode \<lparr>cl_sub = Some (uuid_str u), cl_type = ty,
      cl_iat = i, cl_exp = e, cl_jti = j\<rparr> k)" for c u ty i e j k
    using that by (auto simp: plain_encode_def split: if_splits)
  moreover have "case plain_decode (plain_encode \<lparr>cl_sub = Some (uuid_str u),
        cl_type = Some (token_type_value tt), cl_iat = i, cl_exp = e, cl_jti = j\<rparr> k) k now of
      None \<Rightarrow> \<not> alive now e
    | Some c \<Rightarrow> alive now e \<and> cl_sub c = Some (uuid_str u) \<and> cl_type c = Some (token_type_value tt)"
    if "0 \<le> e" for u tt i e j k now
    using that by (cases tt) (simp_all add: plain_encode_def plain_decode_def length_uuid_str Let_def)
  moreover have "plain_encode c k \<noteq> []" for c k by (simp add: plain_encode_def)
  ultimately show ?thesis
    unfolding jwt_law_def plain_auth_env_def auth_env.select_convs Let_def by blast
qed

lemma plain_bcrypt_law: "bcrypt_law plain_auth_env"
  by (simp add: bcrypt_law_def plain_auth_env_def)

definition sample_user :: user where
  "sample_user =
     \<lparr>us_id = 5, us_name = ''Ann'', us_email = ''a@x.org'', us_password_hash = ''pw'', us_plan = ''free'',
      us_avatar = None, us_email_verified_at = None, us_is_admin = True, us_status = ''active'',
      us_created_at = 0, us_updated_at = 0\<rparr>"

lemma sample_alive: "0 \<le> token_expiry plain_auth_env 0 tt" "alive 9 (token_expiry plain_auth_env 0 tt)"
  by (cases tt; simp add: token_expiry_def plain_auth_env_def minutes_def days_def alive_def)+


theorem suspension_shuts_out_witness:
  "\<forall>jtis jti. refresh plain_auth_env 9 jtis [sample_user\<lparr>us_status := ''suspended''\<rparr>]
      (create_token plain_auth_env 0 jti 5 Refresh) = Inr (token_pair_for plain_auth_env 9 jtis 5)"
proof -
  have "user_get 5 [sample_user\<lparr>us_status := ''suspended''\<rparr>] = Some (sample_user\<lparr>us_status := ''suspended''\<rparr>)"
    by (simp add: user_get_def sample_user_def)
  moreover have "us_id (sample_user\<lparr>us_status := ''suspended''\<rparr>) = 5" by (simp add: sample_user_def)
  ultimately show ?thesis
    using suspension_shuts_out [OF plain_jwt_law, of 5 "[sample_user\<lparr>us_status := ''suspended''\<rparr>]"
        "sample_user\<lparr>us_status := ''suspended''\<rparr>" 0 9] sample_alive by simp
qed

theorem register_login_roundtrip_witness:
  "\<exists>u p tbl. register plain_auth_env 0 (''a'', ''b'') 5 '' Ann '' ''A@x'' ''secret-pw'' [] = (tbl, Inr (u, p))
     \<and> login plain_auth_env 9 (''c'', ''d'') tbl '' a@X'' ''secret-pw'' = Inr (u, token_pair_for plain_auth_env 9 (''c'', ''d'') 5)"
proof -
  have "au_hash plain_auth_env ''secret-pw'' = Inr ''secret-pw''" by (simp add: plain_auth_env_def)
  then obtain u p tbl where r: "register plain_auth_env 0 (''a'', ''b'') 5 '' Ann '' ''A@x'' ''secret-pw'' [] = (tbl, Inr (u, p))"
    by (simp add: register_def get_by_email_def one_or_none_def hash_password_def Let_def)
  have "py_lower (py_strip '' a@X'') = py_lower (py_strip ''A@x'')" by code_simp
  from register_login_roundtrip [OF plain_bcrypt_law r this] r show ?thesis by blast
qed

end
