(* ===== verification/Captcha.thy ===== *)
theory Captcha
  imports PyText Errors Models
begin

text \<open>
  \<open>app/services/captcha.py\<close>: the signed arithmetic challenge.

  Base64 is modelled in full, the decoder with the leniency of Python's \<open>binascii\<close>. HMAC-SHA256
  under the application's secret (\<open>cp_hmac\<close>, bytes to 32 bytes) and \<open>json.loads\<close>
  (\<open>cp_loads\<close>, \<open>None\<close> for a \<open>ValueError\<close>) are arguments; the clock is in seconds, and the two
  random digits are arguments of \<open>issue_challenge\<close>. Bytes are numbers below 256.
\<close>

section \<open>Base64\<close>

definition b64_alphabet :: string where
  "b64_alphabet = ''ABCDEFGHIJKLMNOPQRSTUVWXYZabcdefghijklmnopqrstuvwxyz0123456789-_''"

definition b64_char :: "nat \<Rightarrow> char" where
  "b64_char n = b64_alphabet ! (n mod 64)"

text \<open>\<open>base64.urlsafe_b64encode(data).decode().rstrip("=")\<close>.\<close>

fun b64encode :: "nat list \<Rightarrow> string" where
  "b64encode [] = []"
| "b64encode [a] = [b64_char (a div 4), b64_char (a mod 4 * 16)]"
| "b64encode [a, b] = [b64_char (a div 4), b64_char (a mod 4 * 16 + b div 16), b64_char (b mod 16 * 4)]"
| "b64encode (a # b # c # ds) =
     b64_char (a div 4) # b64_char (a mod 4 * 16 + b div 16)
       # b64_char (b mod 16 * 4 + c div 64) # b64_char (c mod 64) # b64encode ds"

text \<open>The value of a character after \<open>-\<close> and \<open>_\<close> were translated to \<open>+\<close> and \<open>/\<close>.\<close>

definition b64_val :: "char \<Rightarrow> nat option" where
  "b64_val c =
     (let n = char_code c in
      if 65 \<le> n \<and> n \<le> 90 then Some (n - 65)
      else if 97 \<le> n \<and> n \<le> 122 then Some (n - 71)
      else if 48 \<le> n \<and> n \<le> 57 then Some (n + 4)
      else if n = 43 \<or> n = 45 then Some 62
      else if n = 47 \<or> n = 95 then Some 63
      else None)"

text \<open>\<open>binascii.a2b_base64\<close>: the position in the group of four, the bits left over and the
  number of padding signs seen; characters outside the alphabet are skipped. \<open>None\<close> is
  \<open>binascii.Error\<close>.\<close>

fun a2b :: "nat \<Rightarrow> nat \<Rightarrow> nat \<Rightarrow> string \<Rightarrow> nat list option" where
  "a2b quad left pads [] = (if quad = 0 then Some [] else None)"
| "a2b quad left pads (c # cs) =
     (if c = CHR ''='' then
        (if 2 \<le> quad then (if 4 \<le> quad + (pads + 1) then Some [] else a2b quad left (pads + 1) cs)
         else a2b quad left pads cs)
      else (case b64_val c of
          None \<Rightarrow> a2b quad left pads cs
        | Some v \<Rightarrow>
            (if quad = 0 then a2b 1 v 0 cs
             else if quad = 1 then map_option ((#) ((left * 4 + v div 16) mod 256)) (a2b 2 (v mod 16) 0 cs)
             else if quad = 2 then map_option ((#) ((left * 16 + v div 4) mod 256)) (a2b 3 (v mod 4) 0 cs)
             else map_option ((#) ((left * 64 + v) mod 256)) (a2b 0 0 0 cs))))"

definition b64decode :: "string \<Rightarrow> nat list option" where
  "b64decode data = a2b 0 0 0 (data @ replicate (nat (- int (length data) mod 4)) (CHR ''=''))"

section \<open>The challenge\<close>

record captcha_env =
  cp_hmac :: "nat list \<Rightarrow> nat list"
  cp_loads :: "nat list \<Rightarrow> json option"
  cp_float_int :: "string \<Rightarrow> (py_exc, int option) result" \<comment> \<open>\<open>int\<close> of a float, by its text\<close>
  cp_ttl_minutes :: int

definition encode_text :: "string \<Rightarrow> nat list" where
  "encode_text s = map char_code s"

definition sign :: "captcha_env \<Rightarrow> nat list \<Rightarrow> string" where
  "sign env payload = b64encode (cp_hmac env payload)"

text \<open>\<open>json.dumps({"a": answer, "exp": expires_at}, separators=(",", ":"))\<close>.\<close>

definition captcha_body :: "int \<Rightarrow> int \<Rightarrow> string" where
  "captcha_body answer expires_at =
     ''{'' @ [CHR 0x22] @ ''a'' @ [CHR 0x22] @ '':'' @ int_str answer @ '',''
       @ [CHR 0x22] @ ''exp'' @ [CHR 0x22] @ '':'' @ int_str expires_at @ ''}''"

text \<open>\<open>issue_challenge\<close> at the time \<open>now\<close> (\<open>int(time.time())\<close>) with the drawn digits.\<close>

definition issue_challenge :: "captcha_env \<Rightarrow> int \<Rightarrow> nat \<Rightarrow> nat \<Rightarrow> string \<times> string \<times> int" where
  "issue_challenge env now draw_a draw_b =
     (let ttl = cp_ttl_minutes env * 60;
          a = int draw_a + 1; b = int draw_b + 1;
          answer = a + b; expires_at = now + ttl;
          body_b64 = b64encode (encode_text (captcha_body answer expires_at));
          token = body_b64 @ ''.'' @ sign env (encode_text body_b64);
          question = int_str a @ '' + '' @ int_str b @ '' =''
      in (token, question, ttl))"

text \<open>\<open>hmac.compare_digest\<close> on texts refuses anything outside ASCII.\<close>

definition compare_digest :: "string \<Rightarrow> string \<Rightarrow> (py_exc, bool) result" where
  "compare_digest s t =
     (if \<exists>c \<in> set (s @ t). 128 \<le> char_code c
      then Inl (OtherError ''TypeError'' ''comparing strings with non-ASCII characters is not supported'')
      else Inr (s = t))"

text \<open>\<open>int(payload[key])\<close>: the exceptions that count as a wrong captcha are \<open>Inr None\<close>.\<close>

definition int_field :: "captcha_env \<Rightarrow> string \<Rightarrow> json \<Rightarrow> (py_exc, int option) result" where
  "int_field env key payload =
     (case payload of
        JObj entries \<Rightarrow>
          (case map_of (rev entries) key of
             None \<Rightarrow> Inr None
           | Some (JInt i) \<Rightarrow> Inr (Some i)
           | Some (JBool b) \<Rightarrow> Inr (Some (if b then 1 else 0))
           | Some (JStr s) \<Rightarrow> Inr (py_int s)
           | Some (JFloat s) \<Rightarrow> cp_float_int env s
           | Some _ \<Rightarrow> Inl (OtherError ''TypeError'' ''int() argument must be a string or a number''))
      | _ \<Rightarrow> Inl (OtherError ''TypeError'' ''indices must be integers''))"

text \<open>\<open>verify\<close>; \<open>late expires_at\<close> is \<open>time.time() > expires_at\<close>.\<close>

definition captcha_verify ::
  "captcha_env \<Rightarrow> (int \<Rightarrow> bool) \<Rightarrow> string \<Rightarrow> string option \<Rightarrow> (py_exc, bool) result" where
  "captcha_verify env late token answer =
     (case answer of None \<Rightarrow> Inr False | Some text \<Rightarrow>
      if token = [] then Inr False
      else case split_first CHR ''.'' token of
        None \<Rightarrow> Inr False
      | Some (body_b64, signature) \<Rightarrow>
          rbind (compare_digest signature (sign env (encode_text body_b64))) (\<lambda>same.
          if \<not> same then Inr False
          else case Option.bind (b64decode body_b64) (cp_loads env) of
            None \<Rightarrow> Inr False
          | Some payload \<Rightarrow>
              rbind (int_field env ''a'' payload) (\<lambda>expected.
              case expected of None \<Rightarrow> Inr False | Some expected \<Rightarrow>
              rbind (int_field env ''exp'' payload) (\<lambda>expires_at.
              case expires_at of None \<Rightarrow> Inr False | Some expires_at \<Rightarrow>
              if late expires_at then Inr False
              else Inr (py_int (py_strip text) = Some expected)))))"

section \<open>Base64 round trip\<close>

lemma b64_alphabet_val: "map b64_val b64_alphabet = map Some [0..<64]"
  by (simp add: b64_alphabet_def b64_val_def char_code_def Let_def upt_rec)

lemma b64_alphabet_ok: "list_all (\<lambda>c. char_code c < 128 \<and> c \<noteq> CHR ''.'' \<and> c \<noteq> CHR ''='') b64_alphabet"
  by (simp add: b64_alphabet_def char_code_def)

lemma length_b64_alphabet: "length b64_alphabet = 64"
  by (simp add: b64_alphabet_def)

lemma b64_val_char [simp]: "n < 64 \<Longrightarrow> b64_val (b64_char n) = Some n"
  using arg_cong [OF b64_alphabet_val, of "\<lambda>xs. xs ! n"]
  by (simp add: b64_char_def length_b64_alphabet)

lemma b64_char_ok: "char_code (b64_char n) < 128 \<and> b64_char n \<noteq> CHR ''.'' \<and> b64_char n \<noteq> CHR ''=''"
  using b64_alphabet_ok by (simp add: b64_char_def list_all_length length_b64_alphabet)

lemma b64_char_not_pad [simp]: "b64_char n \<noteq> CHR ''=''"
  using b64_char_ok by blast

lemma b64encode_chars: "c \<in> set (b64encode bs) \<Longrightarrow> char_code c < 128 \<and> c \<noteq> CHR ''.''"
  using b64_char_ok by (induction bs rule: b64encode.induct) auto

lemma high_bits: "(b::nat) < 256 \<Longrightarrow> b div 16 < 16" "(c::nat) < 256 \<Longrightarrow> c div 64 < 4" "(a::nat) < 256 \<Longrightarrow> a div 4 < 64"
  by (simp_all add: less_mult_imp_div_less)

lemma low_bits: "(a::nat) mod 4 < 4" "(b::nat) mod 16 < 16" "(c::nat) mod 64 < 64"
  by simp_all

lemma six_bits:
  assumes "(a::nat) < 256" "(b::nat) < 256" "(c::nat) < 256"
  shows "a div 4 < 64" "a mod 4 * 16 < 64" "c mod 64 < 64" "b mod 16 * 4 < 64"
    "a mod 4 * 16 + b div 16 < 64" "b mod 16 * 4 + c div 64 < 64"
  using high_bits(1) [OF assms(2)] high_bits(2) [OF assms(3)] high_bits(3) [OF assms(1)]
    low_bits(1) [of a] low_bits(2) [of b] low_bits(3) [of c] by linarith+

lemma regroup:
  "x < 16 \<Longrightarrow> (k * 16 + x) div 16 = (k::nat)" "x < 16 \<Longrightarrow> (k * 16 + x) mod 16 = (x::nat)"
  "x < 4 \<Longrightarrow> (k * 4 + x) div 4 = (k::nat)" "x < 4 \<Longrightarrow> (k * 4 + x) mod 4 = (x::nat)"
  by simp_all

lemma whole_bytes:
  assumes "(a::nat) < 256" "(b::nat) < 256" "(c::nat) < 256"
  shows "(a div 4 * 4 + a mod 4 * 16 div 16) mod 256 = a"
    "(a div 4 * 4 + (a mod 4 * 16 + b div 16) div 16) mod 256 = a"
    "((a mod 4 * 16 + b div 16) mod 16 * 16 + b mod 16 * 4 div 4) mod 256 = b"
    "((a mod 4 * 16 + b div 16) mod 16 * 16 + (b mod 16 * 4 + c div 64) div 4) mod 256 = b"
    "((b mod 16 * 4 + c div 64) mod 4 * 64 + c mod 64) mod 256 = c"
  unfolding regroup(1,2) [OF high_bits(1) [OF assms(2)]] regroup(3,4) [OF high_bits(2) [OF assms(3)]]
  using assms by simp_all

lemma a2b_b64encode:
  "(\<forall>b \<in> set bs. b < 256) \<Longrightarrow>
    a2b 0 0 0 (b64encode bs @ replicate (nat (- int (length (b64encode bs)) mod 4)) (CHR ''='')) = Some bs"
proof (induction bs rule: b64encode.induct)
  case 1
  then show ?case by simp
next
  case (2 a)
  then show ?case using six_bits [of a 0 0] whole_bytes(1) [of a 0 0]
    by (simp del: mod_mult_self1_is_0 mod_mult_self2_is_0 add: numeral_2_eq_2)
next
  case (3 a b)
  then have ab: "a < 256" "b < 256" by auto
  show ?case using six_bits [OF ab, of 0]
    by (simp only: b64encode.simps list.size append.simps a2b.simps b64_char_not_pad if_False
        b64_val_char option.case) (simp add: whole_bytes [OF ab, of 0, simplified] ab)
next
  case (4 a b c ds)
  have len: "length (b64encode (a # b # c # ds)) = 4 + length (b64encode ds)" by simp
  have pad: "- int (4 + length (b64encode ds)) mod 4 = - int (length (b64encode ds)) mod 4" by presburger
  from 4 have abc: "a < 256" "b < 256" "c < 256" by auto
  from 4 show ?case unfolding len pad using six_bits [OF abc] whole_bytes [OF abc]
    by simp
qed

lemma b64decode_encode: "(\<forall>b \<in> set bs. b < 256) \<Longrightarrow> b64decode (b64encode bs) = Some bs"
  unfolding b64decode_def by (rule a2b_b64encode)

section \<open>Properties\<close>

lemma encode_text_bytes: "\<forall>b \<in> set (encode_text s). b < 256"
  by (simp add: encode_text_def char_code_less)

text \<open>What is assumed of \<open>json.loads\<close>: it reads back what \<open>json.dumps\<close> wrote.\<close>

definition loads_law :: "captcha_env \<Rightarrow> bool" where
  "loads_law env \<longleftrightarrow> (\<forall>a e. cp_loads env (encode_text (captcha_body a e)) = Some (JObj [(''a'', JInt a), (''exp'', JInt e)]))"

lemma sign_chars: "c \<in> set (sign env p) \<Longrightarrow> char_code c < 128 \<and> c \<noteq> CHR ''.''"
  by (auto simp: sign_def dest: b64encode_chars)

lemma split_token:
  "split_first CHR ''.'' (b64encode bs @ ''.'' @ sig) = Some (b64encode bs, sig)"
  using split_first_append [of "CHR ''.''" "b64encode bs" sig] b64encode_chars by fastforce

lemma verify_issued:
  assumes "loads_law env"
  shows "captcha_verify env late (fst (issue_challenge env now a b)) (Some answer)
    = Inr (\<not> late (now + cp_ttl_minutes env * 60)
        \<and> py_int (py_strip answer) = Some (int a + int b + 2))"
proof -
  let ?body = "captcha_body (int a + 1 + (int b + 1)) (now + cp_ttl_minutes env * 60)"
  let ?b64 = "b64encode (encode_text ?body)"
  let ?sig = "sign env (encode_text ?b64)"
  have token: "fst (issue_challenge env now a b) = ?b64 @ ''.'' @ ?sig"
    by (simp add: issue_challenge_def Let_def)
  have "compare_digest ?sig ?sig = Inr True"
    using sign_chars by (fastforce simp: compare_digest_def)
  moreover have "Option.bind (b64decode ?b64) (cp_loads env)
      = Some (JObj [(''a'', JInt (int a + 1 + (int b + 1))), (''exp'', JInt (now + cp_ttl_minutes env * 60))])"
    using assms by (simp add: b64decode_encode [OF encode_text_bytes] loads_law_def)
  moreover have "?b64 @ ''.'' @ ?sig \<noteq> []" by simp
  ultimately show ?thesis
    unfolding captcha_verify_def token option.case split_token if_not_P [OF \<open>?b64 @ ''.'' @ ?sig \<noteq> []\<close>] prod.case
    by (simp add: int_field_def algebra_simps)
qed

text \<open>
  C34: The captcha accepts exactly the right answers in time: a token issued with the digits
  \<open>a\<close> and \<open>b\<close> is solved, at a time not after its expiry, precisely by the texts that Python reads
  as the integer \<open>a + b\<close>, and by nothing after it; verification of an issued token never raises.
\<close>

theorem captcha_roundtrip:
  assumes "loads_law env"
  shows "captcha_verify env (\<lambda>e. e < now') (fst (issue_challenge env now a b)) (Some answer)
    = Inr (now' \<le> now + cp_ttl_minutes env * 60
        \<and> py_int (py_strip answer) = Some (int a + int b + 2))"
  by (simp add: verify_issued [OF assms] not_less)

section \<open>A concrete instance\<close>

definition read_int :: "string \<Rightarrow> int option" where
  "read_int s =
     (case s of [] \<Rightarrow> None
      | c # cs \<Rightarrow> if c = CHR ''-'' then map_option uminus (int_digits 0 cs) else int_digits 0 s)"

definition read_body :: "nat list \<Rightarrow> json option" where
  "read_body bs =
     (case split_first CHR '','' (drop 5 (map char_of bs)) of
        None \<Rightarrow> None
      | Some (a, r) \<Rightarrow>
          (case (read_int a, read_int (butlast (drop 6 r))) of
             (Some x, Some y) \<Rightarrow> Some (JObj [(''a'', JInt x), (''exp'', JInt y)])
           | _ \<Rightarrow> None))"

definition sample_captcha_env :: captcha_env where
  "sample_captcha_env =
     \<lparr>cp_hmac = (\<lambda>m. [sum_list m mod 256, length m mod 256]), cp_loads = read_body,
      cp_float_int = (\<lambda>_. Inr None), cp_ttl_minutes = 15\<rparr>"

lemma read_int_str: "read_int (int_str i) = Some i"
proof -
  have "read_int (nat_str n) = Some (int n)" for n
  proof (cases "nat_str n")
    case (Cons c cs)
    then have "c \<noteq> CHR ''-''" using nat_str_digits [of c n] digit_not(1) by auto
    with Cons int_digits_nat_str [of n] show ?thesis by (simp add: read_int_def del: int_digits.simps)
  qed simp
  moreover have "read_int (CHR ''-'' # nat_str n) = Some (- int n)" for n
    by (simp add: read_int_def int_digits_nat_str)
  ultimately show ?thesis by (simp add: int_str_def)
qed

lemma sample_loads_law: "loads_law sample_captcha_env"
proof -
  have dec: "map char_of (encode_text s) = s" for s
    by (simp add: encode_text_def char_code_def comp_def)
  have comma: "CHR '','' \<notin> set (int_str i)" for i
    using nat_str_not_mem [OF digit_not(3)] by (simp add: int_str_def)
  have "drop 5 (captcha_body a e) = int_str a @ CHR '','' # ([CHR 0x22] @ ''exp'' @ [CHR 0x22] @ '':'' @ int_str e @ ''}'')" for a e
    by (simp add: captcha_body_def)
  then show ?thesis
    by (simp add: loads_law_def sample_captcha_env_def read_body_def dec split_first_append comma
        read_int_str butlast_append)
qed

theorem captcha_roundtrip_witness:
  "captcha_verify sample_captcha_env (\<lambda>e. e < 1000) (fst (issue_challenge sample_captcha_env 100 2 3)) (Some '' 7 '') = Inr True"
proof -
  have "py_int (py_strip '' 7 '') = Some 7"
    by (simp add: py_int_def py_strip_def strip_by_def lstrip_by_def py_space_def char_code_def int_unsigned_def
        int_max_str_digits_def is_digit_def digit_val_def)
  then show ?thesis
    using captcha_roundtrip [OF sample_loads_law, of 1000 100 2 3 "'' 7 ''"]
    by (simp add: sample_captcha_env_def)
qed

end
