(* ===== verification/RateLimit.thy ===== *)
theory RateLimit
  imports Actions Models
begin

text \<open>
  \<open>app/dependencies/rate_limit.py\<close>: fixed-window request limits on Redis counters, open when
  Redis fails.

  A Redis store maps a key to its counter and the time it expires at, if any; an expired key
  counts as absent. \<open>INCR\<close> and \<open>EXPIRE\<close> behave as documented; \<open>rl_incr_ok\<close> and \<open>rl_expire_ok\<close>
  say whether the two calls of a request succeed. Redis and the application read one clock.
\<close>

section \<open>Redis counters\<close>

type_synonym redis = "string \<Rightarrow> (int \<times> int option) option"

definition live_count :: "int \<Rightarrow> (int \<times> int option) option \<Rightarrow> int" where
  "live_count now entry =
     (case entry of
        None \<Rightarrow> 0
      | Some (c, None) \<Rightarrow> c
      | Some (c, Some deadline) \<Rightarrow> if deadline \<le> now then 0 else c)"

definition redis_incr :: "int \<Rightarrow> string \<Rightarrow> redis \<Rightarrow> redis \<times> int" where
  "redis_incr now key m =
     (let c = live_count now (m key) + 1
      in (m(key \<mapsto> (c, if c = 1 then None else Option.bind (m key) snd)), c))"

definition redis_expire :: "int \<Rightarrow> string \<Rightarrow> int \<Rightarrow> redis \<Rightarrow> redis" where
  "redis_expire now key seconds m =
     (case m key of None \<Rightarrow> m | Some (c, _) \<Rightarrow> m(key \<mapsto> (c, Some (now + seconds * 1000000))))"

section \<open>The limiters\<close>

record limiter_env =
  rl_incr_ok :: bool
  rl_expire_ok :: bool

definition client_host :: "string option \<Rightarrow> string" where
  "client_host client = (case client of None \<Rightarrow> ''unknown'' | Some host \<Rightarrow> host)"

definition window_of :: "int \<Rightarrow> int" where
  "window_of now = now div minutes 1"

definition window_key :: "string \<Rightarrow> string \<Rightarrow> int \<Rightarrow> string" where
  "window_key bucket client_ip window =
     ''ratelimit:'' @ bucket @ '':'' @ client_ip @ '':'' @ int_str window"

text \<open>The \<open>try\<close> block: the count of the request in its window, or \<open>None\<close> when Redis fails.\<close>

definition count_request :: "limiter_env \<Rightarrow> int \<Rightarrow> string \<Rightarrow> redis \<Rightarrow> redis \<times> int option" where
  "count_request env now key m =
     (if \<not> rl_incr_ok env then (m, None)
      else case redis_incr now key m of (m', c) \<Rightarrow>
        if c = 1 then
          (if rl_expire_ok env then (redis_expire now key 90 m', Some c) else (m', None))
        else (m', Some c))"

definition fixed_window_limit ::
  "limiter_env \<Rightarrow> string \<Rightarrow> int \<Rightarrow> string option \<Rightarrow> int \<Rightarrow> (redis, unit) action" where
  "fixed_window_limit env bucket limit client now m =
     (if limit \<le> 0 then (m, Inr ())
      else case count_request env now (window_key bucket (client_host client) (window_of now)) m of
        (m', None) \<Rightarrow> (m', Inr ())
      | (m', Some c) \<Rightarrow>
          if limit < c
          then (m', raise_app RateLimitedError ''Too many requests. Please wait a minute and try again.'')
          else (m', Inr ()))"

definition feedback_rate_limit ::
  "limiter_env \<Rightarrow> settings \<Rightarrow> string option \<Rightarrow> int \<Rightarrow> (redis, unit) action" where
  "feedback_rate_limit env s client now =
     fixed_window_limit env ''feedback'' (s_feedback_rate_limit s) client now"

definition upload_rate_limit ::
  "limiter_env \<Rightarrow> settings \<Rightarrow> string option \<Rightarrow> int \<Rightarrow> (redis, unit) action" where
  "upload_rate_limit env s client now m =
     (let limit = s_upload_rate_limit s
      in if limit \<le> 0 then (m, Inr ())
         else case count_request env now (window_key ''upload'' (client_host client) (window_of now)) m of
           (m', None) \<Rightarrow> (m', Inr ())
         | (m', Some c) \<Rightarrow> if limit < c then (m', raise_class RateLimitedError) else (m', Inr ()))"

section \<open>The counters count\<close>

text \<open>The requests of one host in one window.\<close>

definition requests_in :: "string \<Rightarrow> int \<Rightarrow> (string option \<times> int) list \<Rightarrow> nat" where
  "requests_in host w reqs =
     length (filter (\<lambda>r. client_host (fst r) = host \<and> window_of (snd r) = w) reqs)"

lemma requests_in_snoc [simp]:
  "requests_in host w (reqs @ [(c, t)])
    = requests_in host w reqs + (if client_host c = host \<and> window_of t = w then 1 else 0)"
  by (simp add: requests_in_def)

lemma requests_in_Nil [simp]: "requests_in host w [] = 0"
  by (simp add: requests_in_def)

lemma window_key_inj:
  "window_key b h w = window_key b h' w' \<longleftrightarrow> h = h' \<and> w = w'"
proof
  have colon: "CHR '':'' \<notin> set (int_str v)" for v
    using nat_str_not_mem [of "CHR '':''" "nat v"] nat_str_not_mem [of "CHR '':''" "nat (- v)"]
    by (auto simp: int_str_def is_digit_def char_code_def)
  assume "window_key b h w = window_key b h' w'"
  then have eq: "h @ CHR '':'' # int_str w = h' @ CHR '':'' # int_str w'" by (simp add: window_key_def)
  have last_part: "rev (takeWhile (\<lambda>c. c \<noteq> CHR '':'') (rev (g @ CHR '':'' # int_str v))) = int_str v" for g v
  proof -
    have "takeWhile (\<lambda>c. c \<noteq> CHR '':'') (rev (int_str v)) = rev (int_str v)"
      using colon [of v] by (intro iffD2 [OF takeWhile_id_iff_not_mem]) simp
    moreover have "rev (g @ CHR '':'' # int_str v) = rev (int_str v) @ CHR '':'' # rev g" by simp
    ultimately show ?thesis by (simp only: takeWhile_tail not_True_eq_False simp_thms rev_rev_ident)
  qed
  from eq last_part [of h w] last_part [of h' w'] have "int_str w = int_str w'" by metis
  with eq show "h = h' \<and> w = w'" using int_str_inj by auto
qed simp

text \<open>What the store holds after the requests \<open>reqs\<close>: in a window, its exact count.\<close>

definition entry_ok :: "nat \<Rightarrow> int \<Rightarrow> (int \<times> int option) option \<Rightarrow> bool" where
  "entry_ok n w entry \<longleftrightarrow>
     (case entry of
        None \<Rightarrow> n = 0
      | Some (c, deadline) \<Rightarrow>
          c = int n \<and> 0 < n
            \<and> (case deadline of None \<Rightarrow> True | Some e \<Rightarrow> minutes 1 * w + 90000000 \<le> e))"

definition counts :: "string \<Rightarrow> (string option \<times> int) list \<Rightarrow> redis \<Rightarrow> bool" where
  "counts bucket reqs m \<longleftrightarrow> (\<forall>h w. entry_ok (requests_in h w reqs) w (m (window_key bucket h w)))"

lemma window_bounds: "minutes 1 * window_of t \<le> t" "t < minutes 1 * window_of t + minutes 1"
proof -
  have "t mod minutes 1 < minutes 1" "0 \<le> t mod minutes 1" unfolding minutes_def by simp_all
  moreover have "t = minutes 1 * window_of t + t mod minutes 1"
    unfolding window_of_def by (rule mult_div_mod_eq [symmetric])
  ultimately show "minutes 1 * window_of t \<le> t" "t < minutes 1 * window_of t + minutes 1"
    by linarith+
qed

lemma entry_live: "entry_ok n (window_of t) entry \<Longrightarrow> live_count t entry = int n"
  using window_bounds(2) [of t]
  by (auto simp: entry_ok_def live_count_def minutes_def split: option.splits prod.splits)

lemma counts_live:
  "counts bucket reqs m \<Longrightarrow>
     live_count t (m (window_key bucket h (window_of t))) = int (requests_in h (window_of t) reqs)"
  by (rule entry_live) (simp add: counts_def)

lemma counts_request:
  fixes client :: "string option" and now :: int and bucket :: string
  defines "key \<equiv> window_key bucket (client_host client) (window_of now)"
  assumes c: "counts bucket reqs m" and ok: "rl_incr_ok env" "rl_expire_ok env"
  shows "\<exists>m'. count_request env now key m
      = (m', Some (int (requests_in (client_host client) (window_of now) reqs) + 1))
      \<and> counts bucket (reqs @ [(client, now)]) m'"
proof -
  let ?n = "requests_in (client_host client) (window_of now) reqs"
  have live: "live_count now (m key) = int ?n" using c unfolding key_def by (rule counts_live)
  define entry where
    "entry = (int ?n + 1, if ?n = 0 then Some (now + 90000000) else Option.bind (m key) snd)"
  have run: "count_request env now key m = (m(key \<mapsto> entry), Some (int ?n + 1))"
    using ok by (auto simp: count_request_def redis_incr_def live Let_def redis_expire_def entry_def)
  have "entry_ok ?n (window_of now) (m key)" using c by (simp add: counts_def key_def)
  then have new: "entry_ok (Suc ?n) (window_of now) (Some entry)"
    using window_bounds(1) [of now]
    by (auto simp: entry_ok_def entry_def split: option.splits prod.splits)
  have "entry_ok (requests_in h w (reqs @ [(client, now)])) w ((m(key \<mapsto> entry)) (window_key bucket h w))" for h w
  proof (cases "h = client_host client \<and> w = window_of now")
    case True
    with new show ?thesis by (simp add: key_def)
  next
    case False
    then have "window_key bucket h w \<noteq> key" by (auto simp: key_def window_key_inj)
    moreover have "requests_in h w (reqs @ [(client, now)]) = requests_in h w reqs"
      using False by auto
    ultimately show ?thesis using c by (simp add: counts_def)
  qed
  with run show ?thesis unfolding counts_def by blast
qed

lemma counts_empty: "counts bucket [] Map.empty"
  by (simp add: counts_def entry_ok_def)

section \<open>The verdicts of a run of requests\<close>

fun upload_verdicts :: "limiter_env \<Rightarrow> settings \<Rightarrow> (string option \<times> int) list \<Rightarrow> redis \<Rightarrow> bool list" where
  "upload_verdicts env s [] m = []"
| "upload_verdicts env s ((client, now) # reqs) m =
     (case upload_rate_limit env s client now m of
        (m', r) \<Rightarrow> (r = Inr ()) # upload_verdicts env s reqs m')"

lemma upload_verdicts_from:
  assumes "rl_incr_ok env" "rl_expire_ok env" "0 < s_upload_rate_limit s" "counts ''upload'' before m"
  shows "upload_verdicts env s reqs m
    = map (\<lambda>i. int (requests_in (client_host (fst (reqs ! i))) (window_of (snd (reqs ! i))) (before @ take i reqs))
          < s_upload_rate_limit s) [0..<length reqs]"
  using assms(4)
proof (induction reqs arbitrary: before m)
  case (Cons r reqs)
  obtain client now where r: "r = (client, now)" by (cases r)
  from counts_request [OF Cons.prems assms(1,2)] obtain m' where
    m': "count_request env now (window_key ''upload'' (client_host client) (window_of now)) m
        = (m', Some (int (requests_in (client_host client) (window_of now) before) + 1))"
      "counts ''upload'' (before @ [(client, now)]) m'" by blast
  have step: "upload_rate_limit env s client now m
      = (m', if s_upload_rate_limit s < int (requests_in (client_host client) (window_of now) before) + 1
             then raise_class RateLimitedError else Inr ())"
    using assms(3) m'(1) by (simp add: upload_rate_limit_def Let_def)
  have upt: "[0..<length ((client, now) # reqs)] = 0 # map Suc [0..<length reqs]"
    by (simp add: upt_conv_Cons map_Suc_upt del: upt_Suc)
  show ?case
    unfolding r upt using Cons.IH [OF m'(2)] by (simp add: step raise_class_def comp_def del: upt_Suc)
qed simp

text \<open>
  C36: The upload limit admits exactly the first requests of each minute. While Redis works, and
  starting from an empty store, a request is admitted if and only if fewer than
  \<open>UPLOAD_RATE_LIMIT_PER_MINUTE\<close> requests of the same host came before it in the same calendar
  minute; requests of other hosts and of other minutes never count, in whatever order they
  come, and the 90 seconds a counter lives never drop a count that is still needed.
\<close>

theorem upload_rate_limit_exact:
  assumes "rl_incr_ok env" "rl_expire_ok env" "0 < s_upload_rate_limit s"
  shows "upload_verdicts env s reqs Map.empty
    = map (\<lambda>i. int (requests_in (client_host (fst (reqs ! i))) (window_of (snd (reqs ! i))) (take i reqs))
          < s_upload_rate_limit s) [0..<length reqs]"
  using upload_verdicts_from [OF assms counts_empty, of reqs] by simp

text \<open>An outage admits everything and loses nothing.\<close>

lemma rate_limit_fails_open:
  assumes "\<not> rl_incr_ok env"
  shows "upload_rate_limit env s client now m = (m, Inr ())"
    "fixed_window_limit env bucket limit client now m = (m, Inr ())"
  using assms by (simp_all add: upload_rate_limit_def fixed_window_limit_def count_request_def Let_def)

theorem upload_rate_limit_exact_witness:
  "upload_verdicts \<lparr>rl_incr_ok = True, rl_expire_ok = True\<rparr> (default_settings\<lparr>s_upload_rate_limit := 1\<rparr>)
     [(Some ''h'', 0), (Some ''h'', 5), (None, 6), (Some ''h'', 60000000)] Map.empty
   = [True, False, True, True]"
proof -
  let ?env = "\<lparr>rl_incr_ok = True, rl_expire_ok = True\<rparr>"
  let ?s = "default_settings\<lparr>s_upload_rate_limit := 1\<rparr>"
  let ?reqs = "[(Some ''h'', 0), (Some ''h'', 5), (None, 6), (Some ''h'', 60000000)] :: (string option \<times> int) list"
  have "upload_verdicts ?env ?s ?reqs Map.empty
      = map (\<lambda>i. int (requests_in (client_host (fst (?reqs ! i))) (window_of (snd (?reqs ! i))) (take i ?reqs))
          < s_upload_rate_limit ?s) [0..<length ?reqs]"
    by (rule upload_rate_limit_exact) simp_all
  also have "\<dots> = [True, False, True, True]"
    by (simp add: upt_rec requests_in_def client_host_def window_of_def minutes_def)
  finally show ?thesis .
qed

end
