(* ===== verification/Feedback.thy ===== *)
theory Feedback
  imports Captcha RateLimit
begin

text \<open>
  The feedback form: \<open>app/services/feedback.py\<close>, \<open>app/repositories/feedback.py\<close>,
  \<open>app/services/email.py\<close> and the endpoint of \<open>app/api/v1/endpoints/feedback.py\<close>.

  The state of the service is the feedback table; the endpoint adds the Redis store of the rate
  limit. One submission reads one clock (\<open>now\<close>, microseconds). The text of the notification is
  not modelled, only whether a mail leaves, to whom, and its header values; the SMTP server is
  the flag \<open>ml_delivers\<close>.
\<close>

section \<open>Rows\<close>

datatype feedback_category = FC_GENERAL | FC_BUG | FC_FEATURE | FC_UI_UX | FC_PERFORMANCE | FC_OTHER

definition feedback_categories :: "(string \<times> feedback_category) list" where
  "feedback_categories =
     [(''general'', FC_GENERAL), (''bug'', FC_BUG), (''feature'', FC_FEATURE), (''ui_ux'', FC_UI_UX),
      (''performance'', FC_PERFORMANCE), (''other'', FC_OTHER)]"

definition parse_category :: "string \<Rightarrow> feedback_category option" where
  "parse_category s = map_of feedback_categories s"

fun category_label :: "feedback_category \<Rightarrow> string" where
  "category_label FC_GENERAL = ''General Feedback''"
| "category_label FC_BUG = ''Bug Report''"
| "category_label FC_FEATURE = ''Feature Request''"
| "category_label FC_UI_UX = ''UI/UX Suggestion''"
| "category_label FC_PERFORMANCE = ''Performance Issue''"
| "category_label FC_OTHER = ''Other''"

record attachment =
  at_filename :: string
  at_content_type :: string
  at_data :: bytes

record feedback =
  fb_id :: nat
  fb_name :: string
  fb_email :: string
  fb_subject :: "string option"
  fb_category :: feedback_category
  fb_message :: string
  fb_attachment_name :: "string option"
  fb_attachment_content_type :: "string option"
  fb_attachment_size :: "int option"
  fb_attachment_data :: "bytes option"
  fb_client_ip :: "string option"
  fb_user_id :: "nat option"
  fb_created_at :: int

interpretation feedback_row: row_table fb_id .

section \<open>Attachments\<close>

definition image_signatures :: "string \<Rightarrow> bytes list" where
  "image_signatures ctype =
     (if ctype = ''image/jpeg'' then [[0xFF, 0xD8, 0xFF]]
      else if ctype = ''image/png'' then [[0x89, 0x50, 0x4E, 0x47, 0x0D, 0x0A, 0x1A, 0x0A]]
      else if ctype = ''image/webp'' then [[0x52, 0x49, 0x46, 0x46]]
      else [])"

definition validate_attachment ::
  "settings \<Rightarrow> string option \<Rightarrow> string option \<Rightarrow> bytes \<Rightarrow> (py_exc, attachment) result" where
  "validate_attachment s filename content_type data =
     (let ctype = py_lower (py_strip (hd (split_on CHR '';'' (case content_type of None \<Rightarrow> [] | Some t \<Rightarrow> t))))
      in if ctype \<notin> set (s_attachment_types s)
         then raise_app (FileE UnsupportedFileTypeError) ''Attachments must be an image (JPG, JPEG, PNG or WebP).''
         else if data = [] then raise_app (BaseE ValidationError) ''The attachment is empty.''
         else if s_attachment_max_bytes s < int (length data)
         then raise_app (FileE FileTooLargeError) ''The attachment must be 1 MB or smaller.''
         else if \<not> list_ex (\<lambda>sig. starts_with sig data) (image_signatures ctype)
              \<or> (ctype = ''image/webp'' \<and> take 4 (drop 8 data) \<noteq> [0x57, 0x45, 0x42, 0x50])
         then raise_app (FileE UnsupportedFileTypeError) ''The attachment does not appear to be a valid image.''
         else Inr \<lparr>at_filename = take 255 (py_or (case filename of None \<Rightarrow> [] | Some n \<Rightarrow> n) ''screenshot''),
                   at_content_type = ctype, at_data = data\<rparr>)"

section \<open>Mail\<close>

record mail_env =
  ml_host :: string
  ml_sender :: string
  ml_delivers :: bool

record mail =
  ma_to :: "string list"
  ma_subject :: string
  ma_reply_to :: "string option"

text \<open>Whether \<open>str.splitlines\<close> gives more than one line, which a mail header refuses.\<close>

definition line_boundary :: "char \<Rightarrow> bool" where
  "line_boundary c \<longleftrightarrow> char_code c \<in> {10, 11, 12, 13, 28, 29, 30, 133}"

definition many_lines :: "string \<Rightarrow> bool" where
  "many_lines s =
     (case dropWhile (\<lambda>c. \<not> line_boundary c) s of
        [] \<Rightarrow> False
      | c # r \<Rightarrow> (if char_code c = 13 \<and> r \<noteq> [] \<and> char_code (hd r) = 10 then tl r else r) \<noteq> [])"

definition set_header :: "string \<Rightarrow> (py_exc, unit) result" where
  "set_header v =
     require (\<not> many_lines v)
       (OtherError ''ValueError'' ''Header values may not contain linefeed or carriage return characters'')"

text \<open>\<open>send_email\<close>: the mail that was handed to the server, if any.\<close>

definition send_email ::
  "mail_env \<Rightarrow> string list \<Rightarrow> string \<Rightarrow> string option \<Rightarrow> (py_exc, mail option) result" where
  "send_email env addressees subject reply_to =
     (let recipients = filter (\<lambda>a. a \<noteq> []) addressees
      in if recipients = [] then Inr None
         else if ml_host env = [] then Inr None
         else rbind (set_header (ml_sender env)) (\<lambda>_.
              rbind (set_header (py_join '', '' recipients)) (\<lambda>_.
              rbind (set_header subject) (\<lambda>_.
              rbind (case reply_to of None \<Rightarrow> Inr () | Some r \<Rightarrow> if r = [] then Inr () else set_header r) (\<lambda>_.
              if ml_delivers env
              then Inr (Some \<lparr>ma_to = recipients, ma_subject = subject, ma_reply_to = reply_to\<rparr>)
              else Inr None)))))"

section \<open>Submitting\<close>

record feedback_env =
  fe_settings :: settings
  fe_captcha :: captcha_env
  fe_mail :: mail_env
  fe_commit_fault :: "py_exc option"

record submission =
  su_name :: string
  su_email :: string
  su_message :: string
  su_category :: string
  su_subject :: "string option"
  su_captcha_token :: string
  su_captcha_answer :: string
  su_honeypot :: "string option"
  su_client_ip :: "string option"
  su_user_id :: "nat option"
  su_new_id :: nat

definition text_given :: "string option \<Rightarrow> bool" where
  "text_given t \<longleftrightarrow> t \<noteq> None \<and> t \<noteq> Some []"

definition or_none :: "string option \<Rightarrow> string option" where
  "or_none t = (if text_given t then t else None)"

definition count_recent :: "int \<Rightarrow> string \<Rightarrow> string option \<Rightarrow> feedback list \<Rightarrow> int" where
  "count_recent since email client_ip tbl =
     int (length (filter (\<lambda>r. since \<le> fb_created_at r
         \<and> (py_lower (fb_email r) = py_lower (py_strip email)
            \<or> (text_given client_ip \<and> fb_client_ip r = client_ip))) tbl))"

definition enforce_daily_limit :: "settings \<Rightarrow> int \<Rightarrow> string \<Rightarrow> string option \<Rightarrow> feedback list \<Rightarrow> (py_exc, unit) result" where
  "enforce_daily_limit s now email client_ip tbl =
     (if s_feedback_max_per_day s \<le> 0 then Inr ()
      else if s_feedback_max_per_day s \<le> count_recent (now - days 1) email client_ip tbl
      then raise_class (FeedbackE FeedbackDailyLimitError) else Inr ())"

definition decoy :: "int \<Rightarrow> submission \<Rightarrow> feedback" where
  "decoy now su =
     \<lparr>fb_id = su_new_id su, fb_name = py_strip (su_name su),
      fb_email = py_lower (py_strip (su_email su)), fb_subject = or_none (su_subject su),
      fb_category = (case parse_category (su_category su) of None \<Rightarrow> FC_GENERAL | Some c \<Rightarrow> c),
      fb_message = py_strip (su_message su), fb_attachment_name = None,
      fb_attachment_content_type = None, fb_attachment_size = None, fb_attachment_data = None,
      fb_client_ip = None, fb_user_id = None, fb_created_at = now\<rparr>"

definition new_feedback :: "int \<Rightarrow> submission \<Rightarrow> feedback_category \<Rightarrow> attachment option \<Rightarrow> feedback" where
  "new_feedback now su category att =
     \<lparr>fb_id = su_new_id su, fb_name = py_strip (su_name su),
      fb_email = py_lower (py_strip (su_email su)), fb_subject = or_none (su_subject su),
      fb_category = category, fb_message = py_strip (su_message su),
      fb_attachment_name = map_option at_filename att,
      fb_attachment_content_type = map_option at_content_type att,
      fb_attachment_size = map_option (\<lambda>a. int (length (at_data a))) att,
      fb_attachment_data = map_option at_data att,
      fb_client_ip = su_client_ip su, fb_user_id = su_user_id su, fb_created_at = now\<rparr>"

definition notify_subject :: "feedback \<Rightarrow> string" where
  "notify_subject fb =
     ''[Feedback '' @ [CHR 0xB7] @ '' '' @ category_label (fb_category fb) @ ''] ''
       @ py_or (case fb_subject fb of None \<Rightarrow> [] | Some t \<Rightarrow> t) ''New submission''"

definition notify_admins :: "feedback_env \<Rightarrow> feedback \<Rightarrow> (py_exc, mail option) result" where
  "notify_admins env fb =
     (if s_feedback_admin_emails (fe_settings env) = [] then Inr None
      else send_email (fe_mail env) (s_feedback_admin_emails (fe_settings env)) (notify_subject fb)
             (Some (fb_email fb)))"

definition submit ::
  "feedback_env \<Rightarrow> int \<Rightarrow> submission \<Rightarrow> attachment option \<Rightarrow> (feedback list, feedback \<times> mail option) action" where
  "submit env now su att tbl =
     (if text_given (su_honeypot su) then (tbl, Inr (decoy now su, None))
      else case captcha_verify (fe_captcha env) (\<lambda>e. e * 1000000 < now) (su_captcha_token su)
                  (Some (su_captcha_answer su)) of
        Inl e \<Rightarrow> (tbl, Inl e)
      | Inr False \<Rightarrow> (tbl, raise_class (FeedbackE CaptchaInvalidError))
      | Inr True \<Rightarrow>
          (case parse_category (su_category su) of
             None \<Rightarrow> (tbl, raise_app (BaseE ValidationError) ''Unknown feedback category.'')
           | Some category \<Rightarrow>
               (case enforce_daily_limit (fe_settings env) now (su_email su) (su_client_ip su) tbl of
                  Inl e \<Rightarrow> (tbl, Inl e)
                | Inr _ \<Rightarrow>
                    (case fe_commit_fault env of
                       Some e \<Rightarrow> (tbl, Inl e)
                     | None \<Rightarrow>
                         (let fb = new_feedback now su category att
                          in (tbl @ [fb], rbind (notify_admins env fb) (\<lambda>sent. Inr (fb, sent))))))))"

section \<open>The endpoint\<close>

definition read_upto :: "int \<Rightarrow> bytes \<Rightarrow> bytes" where
  "read_upto n content = (if n < 0 then content else take (nat n) content)"

record uploaded =
  ul_filename :: "string option"
  ul_content_type :: "string option"
  ul_content :: bytes

definition read_attachment :: "settings \<Rightarrow> uploaded option \<Rightarrow> (py_exc, attachment option) result" where
  "read_attachment s att =
     (case att of
        None \<Rightarrow> Inr None
      | Some a \<Rightarrow>
          if \<not> text_given (ul_filename a) then Inr None
          else rbind (validate_attachment s (ul_filename a) (ul_content_type a)
                        (read_upto (s_attachment_max_bytes s + 1) (ul_content a)))
                     (\<lambda>v. Inr (Some v)))"

definition submit_feedback ::
  "feedback_env \<Rightarrow> limiter_env \<Rightarrow> int \<Rightarrow> submission \<Rightarrow> uploaded option
     \<Rightarrow> (redis \<times> feedback list, feedback \<times> mail option) action" where
  "submit_feedback env lim now su att st =
     (case st of (m, tbl) \<Rightarrow>
        (case feedback_rate_limit lim (fe_settings env) (su_client_ip su) now m of
           (m', Inl e) \<Rightarrow> ((m', tbl), Inl e)
         | (m', Inr _) \<Rightarrow>
             (case read_attachment (fe_settings env) att of
                Inl e \<Rightarrow> ((m', tbl), Inl e)
              | Inr v \<Rightarrow>
                  (case submit env now su v tbl of (tbl', r) \<Rightarrow> ((m', tbl'), r)))))"

section \<open>What a submission does to the table\<close>

lemma enforce_daily_limit_Inr:
  "enforce_daily_limit s now email ip tbl = Inr u \<Longrightarrow> 0 < s_feedback_max_per_day s
     \<Longrightarrow> count_recent (now - days 1) email ip tbl < s_feedback_max_per_day s"
  by (auto simp: enforce_daily_limit_def raise_class_def split: if_splits)

lemma submit_effect:
  assumes "submit env now su att tbl = (tbl', r)"
  obtains (same) "tbl' = tbl"
    | (new) category where "tbl' = tbl @ [new_feedback now su category att]" "\<not> text_given (su_honeypot su)"
        "parse_category (su_category su) = Some category"
        "enforce_daily_limit (fe_settings env) now (su_email su) (su_client_ip su) tbl = Inr ()"
  using assms
  by (auto simp: submit_def Let_def split: if_splits sum.splits bool.splits option.splits)

lemma submit_honeypot_keeps:
  "text_given (su_honeypot su) \<Longrightarrow> submit env now su att tbl = (tbl, Inr (decoy now su, None))"
  by (simp add: submit_def)

text \<open>The read of one byte past the cap is enough to refuse every larger attachment.\<close>

lemma oversize_attachment_refused:
  assumes "ul_filename a = Some n" "n \<noteq> []" "0 \<le> s_attachment_max_bytes s"
    and "s_attachment_max_bytes s < int (length (ul_content a))"
    and "py_lower (py_strip (hd (split_on CHR '';'' (case ul_content_type a of None \<Rightarrow> [] | Some t \<Rightarrow> t)))) \<in> set (s_attachment_types s)"
  shows "read_attachment s (Some a) = raise_app (FileE FileTooLargeError) ''The attachment must be 1 MB or smaller.''"
proof -
  let ?d = "read_upto (s_attachment_max_bytes s + 1) (ul_content a)"
  have len: "int (length ?d) = s_attachment_max_bytes s + 1"
    using assms(3,4) by (simp add: read_upto_def)
  then have "?d \<noteq> []" using assms(3) by auto
  with len assms show ?thesis
    by (simp add: read_attachment_def text_given_def validate_attachment_def Let_def raise_app_def)
qed

lemma accepted_attachment_is_image:
  assumes "validate_attachment s filename content_type data = Inr a"
  shows "at_data a = data \<and> at_content_type a \<in> set (s_attachment_types s) \<and> data \<noteq> []
    \<and> int (length data) \<le> s_attachment_max_bytes s \<and> length (at_filename a) \<le> 255
    \<and> (\<exists>sig \<in> set (image_signatures (at_content_type a)). starts_with sig data)"
  using assms
  by (auto simp: validate_attachment_def Let_def raise_app_def list_ex_iff split: if_splits)

text \<open>
  \<open>send_email\<close> is documented never to raise, but a line break inside the subject (which the
  form lets through) raises after the row is committed: the submission is stored and answered
  with an error.
\<close>

lemma submit_stores_then_raises:
  assumes ok: "captcha_verify (fe_captcha env) (\<lambda>e. e * 1000000 < now) (su_captcha_token su) (Some (su_captcha_answer su)) = Inr True"
    and "\<not> text_given (su_honeypot su)" "parse_category (su_category su) = Some c"
    and "enforce_daily_limit (fe_settings env) now (su_email su) (su_client_ip su) tbl = Inr ()"
    and "fe_commit_fault env = None"
    and admins: "s_feedback_admin_emails (fe_settings env) = [''ops@x.io'']" "ml_host (fe_mail env) \<noteq> []"
      "\<not> many_lines (ml_sender (fe_mail env))"
    and subject: "su_subject su = Some t" "many_lines t"
  shows "\<exists>m. submit env now su att tbl = (tbl @ [new_feedback now su c att], Inl (OtherError ''ValueError'' m))"
proof -
  have t: "t \<noteq> []" using subject(2) by (auto simp: many_lines_def)
  have tail: "many_lines (xs @ t)" if "\<forall>c \<in> set xs. \<not> line_boundary c" for xs
    using that subject(2) by (simp add: many_lines_def dropWhile_append2)
  have label: "\<forall>c \<in> set (category_label k). \<not> line_boundary c" for k
    by (cases k) (auto simp: line_boundary_def char_code_def)
  have "many_lines (notify_subject (new_feedback now su c att))"
  proof -
    have "notify_subject (new_feedback now su c att)
        = (''[Feedback '' @ [CHR 0xB7] @ '' '' @ category_label c @ ''] '') @ t"
      using t subject(1) by (simp add: notify_subject_def new_feedback_def or_none_def text_given_def py_or_def)
    moreover have "\<forall>x \<in> set (''[Feedback '' @ [CHR 0xB7] @ '' '' @ category_label c @ ''] ''). \<not> line_boundary x"
      using label [of c] by (auto simp: line_boundary_def char_code_def)
    ultimately show ?thesis using tail by metis
  qed
  then have "notify_admins env (new_feedback now su c att)
      = Inl (OtherError ''ValueError'' ''Header values may not contain linefeed or carriage return characters'')"
    using admins by (simp add: notify_admins_def send_email_def set_header_def Let_def many_lines_def line_boundary_def char_code_def)
  with assms show ?thesis by (simp add: submit_def Let_def)
qed

section \<open>The daily limit\<close>

record attempt =
  tr_env :: feedback_env
  tr_now :: int
  tr_submission :: submission
  tr_attachment :: "attachment option"

fun submit_all :: "attempt list \<Rightarrow> feedback list \<Rightarrow> feedback list" where
  "submit_all [] tbl = tbl"
| "submit_all (a # as) tbl = submit_all as (fst (submit (tr_env a) (tr_now a) (tr_submission a) (tr_attachment a) tbl))"

text \<open>Two rows the limit takes for one sender, and the rule every row obeyed when it came.\<close>

definition same_sender :: "feedback \<Rightarrow> feedback \<Rightarrow> bool" where
  "same_sender x r \<longleftrightarrow> fb_email x = fb_email r \<or> (text_given (fb_client_ip r) \<and> fb_client_ip x = fb_client_ip r)"

definition before_of :: "feedback \<Rightarrow> feedback list \<Rightarrow> feedback list" where
  "before_of r tbl = filter (\<lambda>x. fb_created_at r - days 1 \<le> fb_created_at x \<and> same_sender x r) tbl"

definition spaced :: "int \<Rightarrow> feedback list \<Rightarrow> bool" where
  "spaced n tbl \<longleftrightarrow>
     (\<forall>x \<in> set tbl. py_lower (fb_email x) = fb_email x)
     \<and> (\<forall>pre r post. tbl = pre @ r # post \<longrightarrow> int (length (before_of r pre)) < n)"

lemma spaced_snoc:
  assumes "spaced n tbl" "py_lower (fb_email r) = fb_email r" "int (length (before_of r tbl)) < n"
  shows "spaced n (tbl @ [r])"
  using assms unfolding spaced_def
  by (auto simp: append_eq_append_conv2 append_eq_Cons_conv Cons_eq_append_conv)

lemma submit_spaced:
  assumes "spaced (s_feedback_max_per_day (fe_settings env)) tbl" "0 < s_feedback_max_per_day (fe_settings env)"
  shows "spaced (s_feedback_max_per_day (fe_settings env)) (fst (submit env now su att tbl))"
proof -
  obtain tbl' r where run: "submit env now su att tbl = (tbl', r)" by (cases "submit env now su att tbl")
  from run show ?thesis
  proof (cases rule: submit_effect)
    case same
    with assms run show ?thesis by simp
  next
    case (new c)
    let ?fb = "new_feedback now su c att"
    have "count_recent (now - days 1) (su_email su) (su_client_ip su) tbl < s_feedback_max_per_day (fe_settings env)"
      using new(4) assms(2) by (rule enforce_daily_limit_Inr)
    moreover have "filter (\<lambda>x. now - days 1 \<le> fb_created_at x
         \<and> (py_lower (fb_email x) = py_lower (py_strip (su_email su))
            \<or> (text_given (su_client_ip su) \<and> fb_client_ip x = su_client_ip su))) tbl = before_of ?fb tbl"
      using assms(1) by (auto simp: before_of_def new_feedback_def same_sender_def spaced_def intro!: filter_cong)
    ultimately have "int (length (before_of ?fb tbl)) < s_feedback_max_per_day (fe_settings env)"
      by (simp add: count_recent_def)
    moreover have "py_lower (fb_email ?fb) = fb_email ?fb" by (simp add: new_feedback_def)
    ultimately show ?thesis using assms(1) run new(1) by (simp add: spaced_snoc)
  qed
qed

lemma submit_all_spaced:
  assumes "\<forall>a \<in> set as. s_feedback_max_per_day (fe_settings (tr_env a)) = n" "0 < n" "spaced n tbl"
  shows "spaced n (submit_all as tbl)"
  using assms
proof (induction as arbitrary: tbl)
  case (Cons a as)
  then have "spaced n (fst (submit (tr_env a) (tr_now a) (tr_submission a) (tr_attachment a) tbl))"
    using submit_spaced [of "tr_env a" tbl] by simp
  with Cons show ?case by simp
qed simp

lemma filter_last:
  assumes "filter P xs \<noteq> []"
  obtains pre x post where "xs = pre @ x # post" "P x" "filter P xs = filter P pre @ [x]"
proof -
  from assms obtain pre x post where "xs = pre @ x # post" "P x" "\<forall>y \<in> set post. \<not> P y"
    using split_list_last_prop [of xs P] by (auto simp: filter_empty_conv)
  moreover from this have "filter P xs = filter P pre @ [x]" by (simp add: filter_empty_conv)
  ultimately show ?thesis using that by blast
qed

text \<open>A group of rows of one sender within a day has at most \<open>n\<close> members.\<close>

lemma spaced_group:
  assumes "spaced n tbl" "0 < n"
    and group: "\<And>x r. P x \<Longrightarrow> P r \<Longrightarrow> fb_created_at r - days 1 \<le> fb_created_at x \<and> same_sender x r"
  shows "int (length (filter P tbl)) \<le> n"
proof (cases "filter P tbl = []")
  case False
  then obtain pre r post where r: "tbl = pre @ r # post" "P r" "filter P tbl = filter P pre @ [r]"
    by (rule filter_last)
  have "length (filter P pre) \<le> length (before_of r pre)"
    unfolding before_of_def
  proof (induction pre)
    case (Cons x pre)
    then show ?case using group [of x r] r(2) by auto
  qed simp
  moreover have "int (length (before_of r pre)) < n" using assms(1) r(1) unfolding spaced_def by blast
  ultimately show ?thesis using r(3) by simp
qed (use assms(2) in simp)

text \<open>
  C35: The daily limit holds for every history of submissions. Starting from an empty table,
  whatever is submitted when, by whom and with what outcome, any period of 24 hours contains at
  most \<open>FEEDBACK_MAX_PER_DAY\<close> stored rows with the same e-mail address in any spelling, and at
  most as many from the same client address.
\<close>

theorem feedback_daily_limit:
  assumes "\<forall>a \<in> set as. s_feedback_max_per_day (fe_settings (tr_env a)) = n" "0 < n"
  shows "int (length (filter (\<lambda>r. fb_email r = py_lower (py_strip email)
           \<and> t \<le> fb_created_at r \<and> fb_created_at r \<le> t + days 1) (submit_all as []))) \<le> n
    \<and> (ip \<noteq> [] \<longrightarrow> int (length (filter (\<lambda>r. fb_client_ip r = Some ip
           \<and> t \<le> fb_created_at r \<and> fb_created_at r \<le> t + days 1) (submit_all as []))) \<le> n)"
proof -
  have "spaced n []" by (simp add: spaced_def)
  with assms have sp: "spaced n (submit_all as [])" by (rule submit_all_spaced)
  show ?thesis
    by (intro conjI impI; rule spaced_group [OF sp assms(2)]) (auto simp: same_sender_def text_given_def)
qed

section \<open>A concrete day\<close>

definition sample_feedback_env :: feedback_env where
  "sample_feedback_env =
     \<lparr>fe_settings = default_settings, fe_captcha = sample_captcha_env,
      fe_mail = \<lparr>ml_host = [], ml_sender = [], ml_delivers = True\<rparr>, fe_commit_fault = None\<rparr>"

definition sample_attempt :: "nat \<Rightarrow> int \<Rightarrow> string \<Rightarrow> attempt" where
  "sample_attempt i now email =
     \<lparr>tr_env = sample_feedback_env, tr_now = now,
      tr_submission =
        \<lparr>su_name = ''N'', su_email = email, su_message = ''m'', su_category = ''bug'', su_subject = None,
         su_captcha_token = fst (issue_challenge sample_captcha_env 0 2 3), su_captcha_answer = ''7'',
         su_honeypot = None, su_client_ip = Some ''h'', su_user_id = None, su_new_id = i\<rparr>,
      tr_attachment = None\<rparr>"

lemma sample_attempt_run:
  assumes "now \<le> 900000000"
  shows "submit (tr_env (sample_attempt i now email)) (tr_now (sample_attempt i now email))
      (tr_submission (sample_attempt i now email)) (tr_attachment (sample_attempt i now email)) tbl
    = (if 1 \<le> count_recent (now - days 1) email (Some ''h'') tbl
       then (tbl, raise_class (FeedbackE FeedbackDailyLimitError))
       else (tbl @ [new_feedback now (tr_submission (sample_attempt i now email)) FC_BUG None],
             Inr (new_feedback now (tr_submission (sample_attempt i now email)) FC_BUG None, None)))"
proof -
  have "py_int (py_strip ''7'') = Some 7"
    by (simp add: py_int_def py_strip_def strip_by_def lstrip_by_def py_space_def char_code_def int_unsigned_def
        int_max_str_digits_def is_digit_def digit_val_def)
  moreover have "cp_ttl_minutes sample_captcha_env = 15" by (simp add: sample_captcha_env_def)
  ultimately have "captcha_verify sample_captcha_env (\<lambda>e. e * 1000000 < now)
      (fst (issue_challenge sample_captcha_env 0 2 3)) (Some ''7'') = Inr True"
    using assms by (simp add: verify_issued [OF sample_loads_law])
  then show ?thesis
    by (auto simp: submit_def sample_attempt_def sample_feedback_env_def text_given_def parse_category_def
        feedback_categories_def enforce_daily_limit_def default_settings_def notify_admins_def Let_def raise_class_def)
qed

theorem feedback_daily_limit_witness:
  "length (submit_all [sample_attempt 4 0 ''a@b.c'', sample_attempt 5 60 ''d@e.f''] []) = 1
   \<and> int (length (filter (\<lambda>r. fb_client_ip r = Some ''h'' \<and> 0 \<le> fb_created_at r \<and> fb_created_at r \<le> 0 + days 1)
        (submit_all [sample_attempt 4 0 ''a@b.c'', sample_attempt 5 60 ''d@e.f''] []))) \<le> 1"
proof
  let ?a = "sample_attempt 4 0 ''a@b.c''" and ?b = "sample_attempt 5 60 ''d@e.f''"
  let ?row = "new_feedback 0 (tr_submission ?a) FC_BUG None"
  have first: "fst (submit (tr_env ?a) (tr_now ?a) (tr_submission ?a) (tr_attachment ?a) []) = [?row]"
    unfolding sample_attempt_run [OF order_less_imp_le [OF zero_less_numeral]] by (simp add: count_recent_def)
  have "count_recent (60 - days 1) ''d@e.f'' (Some ''h'') [?row] = 1"
    by (simp add: count_recent_def new_feedback_def sample_attempt_def days_def text_given_def)
  then have "fst (submit (tr_env ?b) (tr_now ?b) (tr_submission ?b) (tr_attachment ?b) [?row]) = [?row]"
    by (subst sample_attempt_run) simp_all
  with first show "length (submit_all [?a, ?b] []) = 1" by (simp only: submit_all.simps list.size)
  have "\<forall>a \<in> set [sample_attempt 4 0 ''a@b.c'', sample_attempt 5 60 ''d@e.f''].
      s_feedback_max_per_day (fe_settings (tr_env a)) = 1"
    by (simp add: sample_attempt_def sample_feedback_env_def default_settings_def)
  from feedback_daily_limit [OF this, where t = 0 and ip = "''h''"]
  show "int (length (filter (\<lambda>r. fb_client_ip r = Some ''h'' \<and> 0 \<le> fb_created_at r \<and> fb_created_at r \<le> 0 + days 1)
        (submit_all [sample_attempt 4 0 ''a@b.c'', sample_attempt 5 60 ''d@e.f''] []))) \<le> 1"
    by simp
qed

end
