(* ===== verification/AdminState.thy ===== *)
theory AdminState
  imports Accounts AdminTables Feedback
begin

text \<open>
  The state of the administration: the rows of \<open>app/models/admin.py\<close> and, in one record, every
  table the admin panel reads or writes; the audit log (\<open>AdminService.audit\<close>); and what the
  admin endpoints share (\<open>endpoints/admin/_common.py\<close>, \<open>app/common/pagination.py\<close>).

  Operations are actions on the committed state: each service method reads, changes rows and
  commits, on a database without failures. The foreign keys of the schema act when an account is
  deleted (\<open>forget_users\<close>): rows that belong to it are deleted (\<open>ON DELETE CASCADE\<close>) or lose
  the reference (\<open>ON DELETE SET NULL\<close>).
\<close>

section \<open>Rows\<close>

record audit_log =
  ad_id :: nat
  ad_actor_id :: "nat option"
  ad_actor_email :: "string option"
  ad_action :: string
  ad_category :: string
  ad_entity_type :: "string option"
  ad_entity_id :: "string option"
  ad_summary :: string
  ad_ip :: "string option"
  ad_meta :: "(string \<times> json) list"
  ad_created_at :: int

record app_setting =
  st_key :: string
  st_value :: json
  st_category :: string
  st_updated_by :: "nat option"

record tool_config =
  tc_id :: nat
  tc_slug :: string
  tc_name :: string
  tc_category :: string
  tc_enabled :: bool
  tc_visible :: bool
  tc_maintenance :: bool
  tc_file_limit_mb :: int
  tc_sort_order :: int

record announcement =
  an_id :: nat
  an_title :: string
  an_body :: string
  an_status :: string
  an_audience :: string
  an_author_id :: "nat option"
  an_published_at :: "int option"
  an_created_at :: int

record faq =
  fq_id :: nat
  fq_question :: string
  fq_answer :: string
  fq_category :: "string option"
  fq_sort_order :: int
  fq_published :: bool
  fq_created_at :: int

record blog_post =
  bp_id :: nat
  bp_title :: string
  bp_slug :: string
  bp_excerpt :: "string option"
  bp_content :: string
  bp_status :: string
  bp_cover_image :: "string option"
  bp_author_id :: "nat option"
  bp_views :: int
  bp_published_at :: "int option"
  bp_created_at :: int

record content_page =
  cg_id :: nat
  cg_title :: string
  cg_slug :: string
  cg_path :: string
  cg_content :: "string option"
  cg_status :: string
  cg_meta_title :: "string option"
  cg_meta_description :: "string option"
  cg_created_at :: int

record contact_message =
  cm_id :: nat
  cm_name :: string
  cm_email :: string
  cm_subject :: "string option"
  cm_message :: string
  cm_is_read :: bool
  cm_reply :: "string option"
  cm_replied_at :: "int option"
  cm_user_id :: "nat option"
  cm_client_ip :: "string option"
  cm_created_at :: int

record subscription =
  sb_id :: nat
  sb_user_id :: nat
  sb_plan :: string
  sb_price_cents :: int
  sb_currency :: string
  sb_interval :: string
  sb_status :: string
  sb_provider :: string
  sb_provider_ref :: "string option"
  sb_started_at :: "int option"
  sb_renews_at :: "int option"
  sb_payments_count :: int
  sb_created_at :: int

record site =
  si_db :: db
  si_users :: "user list"
  si_subscriptions :: "subscription list"
  si_feedback :: "feedback list"
  si_messages :: "contact_message list"
  si_announcements :: "announcement list"
  si_faqs :: "faq list"
  si_posts :: "blog_post list"
  si_pages :: "content_page list"
  si_tools :: "tool_config list"
  si_settings :: "app_setting list"
  si_audit :: "audit_log list"
  si_errors :: "error_log list"

interpretation subscription_row: row_table sb_id .

section \<open>Foreign keys\<close>

definition unless_gone :: "nat set \<Rightarrow> nat option \<Rightarrow> nat option" where
  "unless_gone gone owner = (case owner of None \<Rightarrow> None | Some u \<Rightarrow> if u \<in> gone then None else Some u)"

definition forget_users :: "nat set \<Rightarrow> site \<Rightarrow> site" where
  "forget_users gone s =
     s\<lparr>si_users := filter (\<lambda>u. us_id u \<notin> gone) (si_users s),
       si_db := (si_db s)
         \<lparr>db_files := map (\<lambda>f. f\<lparr>sf_user_id := unless_gone gone (sf_user_id f)\<rparr>) (db_files (si_db s)),
          db_jobs := map (\<lambda>j. j\<lparr>j_user_id := unless_gone gone (j_user_id j)\<rparr>) (db_jobs (si_db s))\<rparr>,
       si_subscriptions := filter (\<lambda>b. sb_user_id b \<notin> gone) (si_subscriptions s),
       si_feedback := map (\<lambda>b. b\<lparr>fb_user_id := unless_gone gone (fb_user_id b)\<rparr>) (si_feedback s),
       si_messages := map (\<lambda>m. m\<lparr>cm_user_id := unless_gone gone (cm_user_id m)\<rparr>) (si_messages s),
       si_announcements := map (\<lambda>a. a\<lparr>an_author_id := unless_gone gone (an_author_id a)\<rparr>) (si_announcements s),
       si_posts := map (\<lambda>p. p\<lparr>bp_author_id := unless_gone gone (bp_author_id p)\<rparr>) (si_posts s),
       si_settings := map (\<lambda>v. v\<lparr>st_updated_by := unless_gone gone (st_updated_by v)\<rparr>) (si_settings s),
       si_audit := map (\<lambda>a. a\<lparr>ad_actor_id := unless_gone gone (ad_actor_id a)\<rparr>) (si_audit s)\<rparr>"

section \<open>What the endpoints share\<close>

record page_meta =
  pm_page :: int
  pm_size :: int
  pm_total :: int
  pm_pages :: int

definition page_create :: "'a list \<Rightarrow> int \<Rightarrow> int \<Rightarrow> int \<Rightarrow> 'a list \<times> page_meta" where
  "page_create rows n page per_page =
     (rows, \<lparr>pm_page = page, pm_size = per_page, pm_total = n,
       pm_pages = (if per_page = 0 then 0 else (n + per_page - 1) div per_page)\<rparr>)"

definition paged :: "'a list \<times> nat \<Rightarrow> page_params \<Rightarrow> 'a list \<times> page_meta" where
  "paged rows params = page_create (fst rows) (int (snd rows)) (pp_page params) (pp_size params)"

text \<open>The client address of an admin request: the first entry of \<open>X-Forwarded-For\<close>.\<close>

definition admin_client_ip :: "string option \<Rightarrow> string option \<Rightarrow> string option" where
  "admin_client_ip forwarded client =
     (if text_given forwarded then Some (py_strip (hd (split_on CHR '','' (the forwarded)))) else client)"

text \<open>
  One admin request: the acting account, the time, the client address and the UUIDs and
  collation rank the database supplies.
\<close>

record request =
  rq_admin :: user
  rq_now :: int
  rq_ip :: "string option"
  rq_new_id :: nat
  rq_audit_id :: nat

record audit_entry =
  ae_action :: string
  ae_summary :: string
  ae_category :: string
  ae_entity_type :: "string option"
  ae_entity_id :: "string option"
  ae_with_ip :: bool
  ae_meta :: "(string \<times> json) list"

definition entry :: "string \<Rightarrow> string \<Rightarrow> string option \<Rightarrow> string option \<Rightarrow> audit_entry" where
  "entry action summary entity_type entity_id =
     \<lparr>ae_action = action, ae_summary = summary, ae_category = ''audit'', ae_entity_type = entity_type,
      ae_entity_id = entity_id, ae_with_ip = False, ae_meta = []\<rparr>"

definition audit :: "request \<Rightarrow> audit_entry \<Rightarrow> (site, unit) action" where
  "audit rq e s =
     (s\<lparr>si_audit := si_audit s @
        [\<lparr>ad_id = rq_audit_id rq, ad_actor_id = Some (us_id (rq_admin rq)),
          ad_actor_email = Some (us_email (rq_admin rq)), ad_action = ae_action e,
          ad_category = ae_category e, ad_entity_type = ae_entity_type e,
          ad_entity_id = ae_entity_id e, ad_summary = ae_summary e,
          ad_ip = (if ae_with_ip e then rq_ip rq else None), ad_meta = ae_meta e,
          ad_created_at = rq_now rq\<rparr>]\<rparr>, Inr ())"

text \<open>An endpoint that acts and then leaves an audit record made from the result.\<close>

definition audited :: "request \<Rightarrow> (site, 'a) action \<Rightarrow> ('a \<Rightarrow> audit_entry) \<Rightarrow> (site, 'a) action" where
  "audited rq act e = abind act (\<lambda>r. abind (audit rq (e r)) (\<lambda>_. areturn r))"

text \<open>\<open>session.get\<close> of one row, with its 404 message.\<close>

definition fetch :: "('r \<Rightarrow> nat) \<Rightarrow> (site \<Rightarrow> 'r list) \<Rightarrow> string \<Rightarrow> nat \<Rightarrow> (site, 'r) action" where
  "fetch key table message i s = (s, get_row key message i (table s))"

definition on_site :: "(site \<Rightarrow> site) \<Rightarrow> (site, unit) action" where
  "on_site f s = (f s, Inr ())"

section \<open>Lemmas\<close>

lemma audited_Inl: "act s = (s', Inl e) \<Longrightarrow> audited rq act f s = (s', Inl e)"
  by (simp add: audited_def abind_def)

lemma audited_Inr:
  "act s = (s', Inr r) \<Longrightarrow> audited rq act f s = (fst (audit rq (f r) s'), Inr r)"
  by (simp add: audited_def abind_def audit_def areturn_def)

text \<open>Only the action itself decides the result; the audit record touches no other table.\<close>

lemma audited_result: "snd (audited rq act f s) = snd (act s)"
  by (cases "act s"; cases "snd (act s)") (auto simp: audited_Inl audited_Inr)

lemma audit_tables [simp]:
  "si_db (fst (audit rq e s)) = si_db s" "si_users (fst (audit rq e s)) = si_users s"
  "si_subscriptions (fst (audit rq e s)) = si_subscriptions s"
  "si_settings (fst (audit rq e s)) = si_settings s" "si_tools (fst (audit rq e s)) = si_tools s"
  "si_posts (fst (audit rq e s)) = si_posts s" "si_pages (fst (audit rq e s)) = si_pages s"
  "snd (audit rq e s) = Inr ()"
  by (simp_all add: audit_def)

lemma page_create_pages:
  assumes "0 < per_page"
  shows "pm_pages (snd (page_create rows (int n) page (int per_page))) = int ((n + per_page - 1) div per_page)"
proof -
  have "int n + int per_page - 1 = int (n + per_page - 1)" using assms by simp
  then have "(int n + int per_page - 1) div int per_page = int ((n + per_page - 1) div per_page)"
    by (simp only: zdiv_int)
  then show ?thesis using assms by (simp add: page_create_def)
qed

end
