(* ===== verification/AdminJobs.thy ===== *)
theory AdminJobs
  imports AdminState
begin

text \<open>
  Files and jobs in the admin panel: the section of \<open>AdminService\<close> from \<open>file_stats\<close> to
  \<open>retry_job\<close> and the endpoints of \<open>app/api/v1/endpoints/admin/storage.py\<close>.

  A list endpoint filters, sorts and cuts a page; its rows carry what the joins add. \<open>rank\<close> is
  the place of a text in the collation. A filter value that is no member of the column's
  enumeration is refused by the database.
\<close>

section \<open>Statistics\<close>

record category_stats =
  cs_count :: nat
  cs_bytes :: int

record file_totals =
  ft_total_bytes :: int
  ft_total_count :: nat
  ft_by_category :: "(file_category \<times> category_stats) list"

definition file_stats :: "db \<Rightarrow> file_totals" where
  "file_stats d =
     (let active = filter (\<lambda>f. sf_status f = F_ACTIVE) (db_files d);
          group = (\<lambda>c. filter (\<lambda>f. sf_category f = c) active);
          by_category = map (\<lambda>c. (c, \<lparr>cs_count = length (group c), cs_bytes = sum_list (map sf_size_bytes (group c))\<rparr>))
            (remdups (map sf_category active))
      in \<lparr>ft_total_bytes = sum_list (map (\<lambda>c. cs_bytes (snd c)) by_category),
          ft_total_count = sum_list (map (\<lambda>c. cs_count (snd c)) by_category),
          ft_by_category = by_category\<rparr>)"

record job_totals =
  jt_processing :: nat
  jt_queued :: nat
  jt_completed :: nat
  jt_failed :: nat

definition status_count :: "job list \<Rightarrow> job_status \<Rightarrow> nat" where
  "status_count jobs st = length (filter (\<lambda>j. j_status j = st) jobs)"

definition job_stats :: "db \<Rightarrow> job_totals" where
  "job_stats d =
     \<lparr>jt_processing = status_count (db_jobs d) PROCESSING,
      jt_queued = status_count (db_jobs d) QUEUED + status_count (db_jobs d) PENDING,
      jt_completed = status_count (db_jobs d) COMPLETED,
      jt_failed = status_count (db_jobs d) FAILED\<rparr>"

section \<open>Listings\<close>

definition owner_email :: "user list \<Rightarrow> nat option \<Rightarrow> string option" where
  "owner_email users owner =
     (case owner of None \<Rightarrow> None | Some u \<Rightarrow> map_option us_email (find (\<lambda>x. us_id x = u) users))"

definition data_error :: "(py_exc, 'a) result" where
  "data_error = Inl (OtherError ''DBAPIError'' ''invalid input value for enum'')"

definition parse_filter :: "(string \<times> 'v) list \<Rightarrow> string option \<Rightarrow> (py_exc, 'v option) result" where
  "parse_filter values v =
     (if \<not> text_given v then Inr None
      else case map_of values (the v) of None \<Rightarrow> data_error | Some x \<Rightarrow> Inr (Some x))"

definition filter_by :: "'v option \<Rightarrow> 'v \<Rightarrow> bool" where
  "filter_by wanted x = (case wanted of None \<Rightarrow> True | Some v \<Rightarrow> x = v)"

definition file_categories :: "(string \<times> file_category) list" where
  "file_categories = [(''upload'', UPLOAD), (''processed'', PROCESSED), (''thumbnail'', THUMBNAIL)]"

definition job_statuses :: "(string \<times> job_status) list" where
  "job_statuses = map (\<lambda>s. (job_status_value s, s)) [PENDING, QUEUED, PROCESSING, COMPLETED, FAILED, CANCELLED, EXPIRED]"

text \<open>PostgreSQL orders an enumeration by its declaration.\<close>

fun status_rank :: "job_status \<Rightarrow> int" where
  "status_rank PENDING = 0"
| "status_rank QUEUED = 1"
| "status_rank PROCESSING = 2"
| "status_rank COMPLETED = 3"
| "status_rank FAILED = 4"
| "status_rank CANCELLED = 5"
| "status_rank EXPIRED = 6"

record admin_file_row =
  fr_file :: stored_file
  fr_owner_email :: "string option"
  fr_tool :: "string option"

text \<open>The tool of the newest job that is linked to a file.\<close>

definition tool_of_file :: "db \<Rightarrow> stored_file \<Rightarrow> string option" where
  "tool_of_file d f =
     (let jobs = List.map_filter (\<lambda>l. if jf_file_id l = sf_id f then find (\<lambda>j. j_id j = jf_job_id l) (db_jobs d) else None) (db_links d)
      in (case sort_key (\<lambda>j. - j_created_at j) jobs of [] \<Rightarrow> None | j # _ \<Rightarrow> Some (j_tool j)))"

definition file_sort_map :: "(string \<Rightarrow> int) \<Rightarrow> (string \<times> (stored_file \<Rightarrow> int option)) list" where
  "file_sort_map rank =
     [(''name'', \<lambda>f. Some (rank (sf_original_name f))), (''size'', \<lambda>f. Some (sf_size_bytes f))]"

definition list_files ::
  "(string \<Rightarrow> int) \<Rightarrow> page_params \<Rightarrow> string option \<Rightarrow> string option \<Rightarrow> string option \<Rightarrow> site
     \<Rightarrow> (py_exc, admin_file_row list \<times> nat) result" where
  "list_files rank page q category by s =
     rbind (parse_filter file_categories category) (\<lambda>wanted.
       Inr (listing page
              (\<lambda>f. \<lparr>fr_file = f, fr_owner_email = owner_email (si_users s) (sf_user_id f),
                    fr_tool = tool_of_file (si_db s) f\<rparr>)
              (sort_rows (file_sort_map rank) sf_created_at by
                (filter (\<lambda>f. search q [Some (sf_original_name f)] \<and> filter_by wanted (sf_category f))
                  (db_files (si_db s))))))"

record admin_job_row =
  aj_id :: nat
  aj_tool :: string
  aj_status :: job_status
  aj_progress :: int
  aj_file_name :: "string option"
  aj_user_email :: "string option"
  aj_created_at :: int
  aj_error_code :: "error_code option"

definition job_file_name :: "db \<Rightarrow> job \<Rightarrow> string option" where
  "job_file_name d j =
     (let links = job_files (j_id j) (db_links d);
          inputs = filter (\<lambda>l. jf_role l = INPUT) links;
          chosen = (if inputs \<noteq> [] then inputs else links)
      in (case chosen of
            [] \<Rightarrow> None
          | l # _ \<Rightarrow> map_option sf_original_name (find (\<lambda>f. sf_id f = jf_file_id l) (db_files d))))"

definition job_row_of :: "db \<Rightarrow> job \<Rightarrow> string option \<Rightarrow> admin_job_row" where
  "job_row_of d j user_email =
     \<lparr>aj_id = j_id j, aj_tool = j_tool j, aj_status = j_status j, aj_progress = j_progress j,
      aj_file_name = job_file_name d j, aj_user_email = user_email,
      aj_created_at = j_created_at j, aj_error_code = j_error_code j\<rparr>"

definition job_sort_map :: "(string \<Rightarrow> int) \<Rightarrow> (string \<times> (job \<Rightarrow> int option)) list" where
  "job_sort_map rank =
     [(''tool'', \<lambda>j. Some (rank (j_tool j))), (''status'', \<lambda>j. Some (status_rank (j_status j))),
      (''progress'', \<lambda>j. Some (j_progress j))]"

definition list_jobs ::
  "(string \<Rightarrow> int) \<Rightarrow> page_params \<Rightarrow> string option \<Rightarrow> string option \<Rightarrow> string option \<Rightarrow> site
     \<Rightarrow> (py_exc, admin_job_row list \<times> nat) result" where
  "list_jobs rank page q status by s =
     rbind (parse_filter job_statuses status) (\<lambda>wanted.
       Inr (listing page
              (\<lambda>j. job_row_of (si_db s) j (owner_email (si_users s) (j_user_id j)))
              (sort_rows (job_sort_map rank) j_created_at by
                (filter (\<lambda>j. search q [Some (j_tool j)] \<and> filter_by wanted (j_status j))
                  (db_jobs (si_db s))))))"

section \<open>Changing files and jobs\<close>

definition on_files :: "(stored_file list \<Rightarrow> stored_file list) \<Rightarrow> site \<Rightarrow> site" where
  "on_files f s = s\<lparr>si_db := (si_db s)\<lparr>db_files := f (db_files (si_db s))\<rparr>\<rparr>"

definition on_jobs :: "(job list \<Rightarrow> job list) \<Rightarrow> site \<Rightarrow> site" where
  "on_jobs f s = s\<lparr>si_db := (si_db s)\<lparr>db_jobs := f (db_jobs (si_db s))\<rparr>\<rparr>"

definition admin_delete_file :: "nat \<Rightarrow> (site, unit) action" where
  "admin_delete_file i =
     abind (fetch sf_id (\<lambda>s. db_files (si_db s)) ''File not found.'' i) (\<lambda>_.
       on_site (on_files (upd_file i (\<lambda>f. f\<lparr>sf_status := F_DELETED\<rparr>))))"

definition purge_expired_files :: "int \<Rightarrow> (site, nat) action" where
  "purge_expired_files now s =
     (let overdue = file_list_expired now (db_files (si_db s))
      in (on_files (map (\<lambda>f. if f \<in> set overdue then f\<lparr>sf_status := F_EXPIRED\<rparr> else f)) s, Inr (length overdue)))"

definition cancelled_job :: "int \<Rightarrow> job \<Rightarrow> job" where
  "cancelled_job now j = j\<lparr>j_status := CANCELLED, j_finished_at := Some now\<rparr>"

definition requeued_job :: "job \<Rightarrow> job" where
  "requeued_job j =
     j\<lparr>j_status := QUEUED, j_progress := 0, j_error_code := None, j_error_message := None, j_finished_at := None\<rparr>"

definition cancel_job :: "int \<Rightarrow> nat \<Rightarrow> (site, job) action" where
  "cancel_job now i =
     abind (fetch j_id (\<lambda>s. db_jobs (si_db s)) ''Job not found.'' i) (\<lambda>j.
       if is_terminal (j_status j) then aresult (raise_app (BaseE BadRequestError) ''Job has already finished.'')
       else abind (on_site (on_jobs (upd_job i (cancelled_job now)))) (\<lambda>_. areturn (cancelled_job now j)))"

definition retry_job :: "nat \<Rightarrow> (site, job) action" where
  "retry_job i =
     abind (fetch j_id (\<lambda>s. db_jobs (si_db s)) ''Job not found.'' i) (\<lambda>j.
       abind (on_site (on_jobs (upd_job i requeued_job))) (\<lambda>_. areturn (requeued_job j)))"

section \<open>Endpoints\<close>

definition delete_file_endpoint :: "request \<Rightarrow> nat \<Rightarrow> (site, unit) action" where
  "delete_file_endpoint rq i =
     audited rq (admin_delete_file i)
       (\<lambda>_. entry ''file.delete'' ''Deleted file'' (Some ''file'') (Some (uuid_str i)))"

definition purge_temp_endpoint :: "request \<Rightarrow> (site, nat) action" where
  "purge_temp_endpoint rq =
     audited rq (purge_expired_files (rq_now rq))
       (\<lambda>n. entry ''file.purge'' (''Purged '' @ nat_str n @ '' expired file(s)'') None None)"

definition job_endpoint :: "request \<Rightarrow> (site, job) action \<Rightarrow> string \<Rightarrow> string \<Rightarrow> (site, admin_job_row) action" where
  "job_endpoint rq act action summary =
     abind (audited rq act
              (\<lambda>j. entry action (summary @ j_tool j) (Some ''job'') (Some (uuid_str (j_id j)))))
       (\<lambda>j s. (s, Inr (job_row_of (si_db s) j None)))"

definition cancel_job_endpoint :: "request \<Rightarrow> nat \<Rightarrow> (site, admin_job_row) action" where
  "cancel_job_endpoint rq i = job_endpoint rq (cancel_job (rq_now rq) i) ''job.cancel'' ''Cancelled job ''"

definition retry_job_endpoint :: "request \<Rightarrow> nat \<Rightarrow> (site, admin_job_row) action" where
  "retry_job_endpoint rq i = job_endpoint rq (retry_job i) ''job.retry'' ''Requeued job ''"

section \<open>Lemmas\<close>

lemma transitions_id [simp]: "j_id (cancelled_job now j) = j_id j" "j_id (requeued_job j) = j_id j"
  by (simp_all add: cancelled_job_def requeued_job_def)

text \<open>The totals are those of the active files, whatever categories occur.\<close>

lemma sum_groups:
  fixes g :: "'r \<Rightarrow> int"
  assumes "distinct cs" "\<forall>x \<in> set xs. c x \<in> set cs"
  shows "(\<Sum>k\<leftarrow>cs. \<Sum>x\<leftarrow>filter (\<lambda>x. c x = k) xs. g x) = (\<Sum>x\<leftarrow>xs. g x)"
  using assms(2)
proof (induction xs)
  case (Cons x xs)
  have "(\<Sum>k\<leftarrow>cs. \<Sum>y\<leftarrow>filter (\<lambda>y. c y = k) (x # xs). g y)
      = (\<Sum>k\<leftarrow>cs. (if c x = k then g x else 0) + (\<Sum>y\<leftarrow>filter (\<lambda>y. c y = k) xs. g y))"
    by (rule arg_cong [where f = sum_list], rule map_cong) auto
  also have "\<dots> = (\<Sum>k\<leftarrow>cs. if c x = k then g x else 0) + (\<Sum>y\<leftarrow>xs. g y)"
    using Cons by (simp add: sum_list_addf)
  also have "(\<Sum>k\<leftarrow>cs. if c x = k then g x else 0) = g x"
    using assms(1) Cons.prems by (simp add: sum_list_distinct_conv_sum_set sum.delta')
  finally show ?case by simp
qed simp

lemma int_sum_list: "int (\<Sum>x\<leftarrow>xs. f x) = (\<Sum>x\<leftarrow>xs. int (f x))"
  by (induction xs) auto

lemma file_stats_totals:
  "ft_total_bytes (file_stats d) = (\<Sum>f\<leftarrow>filter (\<lambda>f. sf_status f = F_ACTIVE) (db_files d). sf_size_bytes f)"
  "int (ft_total_count (file_stats d)) = int (length (filter (\<lambda>f. sf_status f = F_ACTIVE) (db_files d)))"
proof -
  let ?A = "filter (\<lambda>f. sf_status f = F_ACTIVE) (db_files d)"
  have cover: "\<forall>f \<in> set ?A. sf_category f \<in> set (remdups (map sf_category ?A))" by auto
  show "ft_total_bytes (file_stats d) = (\<Sum>f\<leftarrow>?A. sf_size_bytes f)"
    using sum_groups [OF distinct_remdups cover, of sf_size_bytes]
    by (simp add: file_stats_def Let_def comp_def)
  have "int (ft_total_count (file_stats d))
      = (\<Sum>k\<leftarrow>remdups (map sf_category ?A). \<Sum>f\<leftarrow>filter (\<lambda>f. sf_category f = k) ?A. 1)"
    by (simp add: file_stats_def Let_def comp_def sum_list_triv int_sum_list)
  also have "\<dots> = int (length ?A)"
    using sum_groups [OF distinct_remdups cover, of "\<lambda>_. 1"] by (simp add: sum_list_triv)
  finally show "int (ft_total_count (file_stats d)) = int (length ?A)" .
qed

text \<open>Purging only changes rows: afterwards the periodic cleanup no longer finds them.\<close>

lemma purged_rows_escape_cleanup:
  "file_list_expired now (db_files (si_db (fst (purge_expired_files now s)))) = []"
  by (auto simp: purge_expired_files_def Let_def on_files_def file_list_expired_def filter_empty_conv)

lemma cancel_finished_refused:
  "find (\<lambda>j. j_id j = i) (db_jobs (si_db s)) = Some j \<Longrightarrow> is_terminal (j_status j)
     \<Longrightarrow> cancel_job now i s = (s, raise_app (BaseE BadRequestError) ''Job has already finished.'')"
  by (simp add: cancel_job_def abind_def fetch_def get_row_def aresult_def)

lemma cancel_job_open:
  assumes "find (\<lambda>j. j_id j = i) (db_jobs (si_db s)) = Some j" "\<not> is_terminal (j_status j)"
  shows "cancel_job now i s = (on_jobs (upd_job i (cancelled_job now)) s, Inr (cancelled_job now j))"
  using assms by (simp add: cancel_job_def abind_def fetch_def get_row_def on_site_def areturn_def)

lemma retry_job_found:
  assumes "find (\<lambda>j. j_id j = i) (db_jobs (si_db s)) = Some j"
  shows "retry_job i s = (on_jobs (upd_job i requeued_job) s, Inr (requeued_job j))"
  using assms by (simp add: retry_job_def abind_def fetch_def get_row_def on_site_def areturn_def)

end
