(* ===== verification/Lifecycle.thy ===== *)
theory Lifecycle
  imports AdminJobs Cleanup ToolJobs
begin

text \<open>
  The life of one job row under everything that writes it: the worker (\<open>app/tasks/base.py\<close> with
  the transitions of \<open>app/repositories/job.py\<close>), the administrator (\<open>cancel_job\<close>, \<open>retry_job\<close> of
  \<open>app/services/admin.py\<close>), the periodic cleanup, and the loss or redelivery of the task.

  The worker works on its own copy of the row, which it loads once (\<open>expire_on_commit=False\<close>); a
  commit writes the attributes that differ from that copy, whatever the row holds by then. A
  state is the committed row, what the worker is at, and the clock; each stamp is later than all
  before it. A job has one task: Celery delivers it to one worker at a time, again after the loss
  of a worker (\<open>task_acks_late\<close>) or never. Processors report at most 99 before they are done.
\<close>

section \<open>What a commit writes\<close>

definition written :: "job \<Rightarrow> job \<Rightarrow> job \<Rightarrow> job" where
  "written m m' r =
     r\<lparr>j_status := (if j_status m' = j_status m then j_status r else j_status m'),
       j_progress := (if j_progress m' = j_progress m then j_progress r else j_progress m'),
       j_options := (if j_options m' = j_options m then j_options r else j_options m'),
       j_error_code := (if j_error_code m' = j_error_code m then j_error_code r else j_error_code m'),
       j_error_message := (if j_error_message m' = j_error_message m then j_error_message r else j_error_message m'),
       j_started_at := (if j_started_at m' = j_started_at m then j_started_at r else j_started_at m'),
       j_finished_at := (if j_finished_at m' = j_finished_at m then j_finished_at r else j_finished_at m')\<rparr>"

section \<open>Steps\<close>

datatype phase = Waiting | Loaded job | Running job | Gone

record life =
  lc_row :: job
  lc_phase :: phase
  lc_clock :: int

definition worker_writes :: "job \<Rightarrow> job \<Rightarrow> phase \<Rightarrow> int \<Rightarrow> life \<Rightarrow> life" where
  "worker_writes m m' ph now s = s\<lparr>lc_row := written m m' (lc_row s), lc_phase := ph, lc_clock := now\<rparr>"

definition row_becomes :: "job \<Rightarrow> int \<Rightarrow> life \<Rightarrow> life" where
  "row_becomes r now s = s\<lparr>lc_row := r, lc_clock := now\<rparr>"

inductive lstep :: "life \<Rightarrow> life \<Rightarrow> bool" where
  load: "lc_phase s = Waiting \<Longrightarrow> \<not> is_terminal (j_status (lc_row s))
    \<Longrightarrow> lstep s (s\<lparr>lc_phase := Loaded (lc_row s)\<rparr>)"
| skip: "lc_phase s = Waiting \<Longrightarrow> is_terminal (j_status (lc_row s)) \<Longrightarrow> lstep s (s\<lparr>lc_phase := Gone\<rparr>)"
| start: "lc_phase s = Loaded m \<Longrightarrow> lc_clock s < now
    \<Longrightarrow> lstep s (worker_writes m (mark_processing now m) (Running (mark_processing now m)) now s)"
| report: "lc_phase s = Running m \<Longrightarrow> lc_clock s < now \<Longrightarrow> p \<le> 99
    \<Longrightarrow> lstep s (worker_writes m (set_progress p m) (Running (set_progress p m)) now s)"
| finish: "lc_phase s = Running m \<Longrightarrow> lc_clock s < now
    \<Longrightarrow> lstep s (worker_writes m (redact_job keys (mark_completed now m)) Gone now s)"
| fail: "lc_phase s = Running m \<Longrightarrow> lc_clock s < now
    \<Longrightarrow> lstep s (worker_writes m (redact_job keys (mark_failed now code message m)) Gone now s)"
| lost: "lstep s (s\<lparr>lc_phase := Gone\<rparr>)"
| redelivered: "lc_phase s \<noteq> Gone \<Longrightarrow> lstep s (s\<lparr>lc_phase := Waiting\<rparr>)"
| cancel: "\<not> is_terminal (j_status (lc_row s)) \<Longrightarrow> lc_clock s < now
    \<Longrightarrow> lstep s (row_becomes (cancelled_job now (lc_row s)) now s)"
| retry: "lc_clock s < now \<Longrightarrow> lstep s (row_becomes (requeued_job (lc_row s)) now s)"
| expire: "j_status (lc_row s) \<in> set [COMPLETED, FAILED, CANCELLED] \<Longrightarrow> lc_clock s < now
    \<Longrightarrow> j_expires_at (lc_row s) = Some t \<Longrightarrow> t < now
    \<Longrightarrow> lstep s (row_becomes ((lc_row s)\<lparr>j_status := EXPIRED\<rparr>) now s)"

inductive_cases lstepE [elim]: "lstep s t"

section \<open>Invariant\<close>

definition past :: "int \<Rightarrow> int option \<Rightarrow> bool" where
  "past now t \<longleftrightarrow> (case t of None \<Rightarrow> True | Some x \<Rightarrow> x \<le> now)"

text \<open>What holds of the row alone.\<close>

definition row_ok :: "job \<Rightarrow> bool" where
  "row_ok r \<longleftrightarrow>
     0 \<le> j_progress r \<and> j_progress r \<le> 100
     \<and> (j_status r = COMPLETED \<longrightarrow> j_progress r = 100)
     \<and> (j_status r = FAILED \<longrightarrow> j_error_code r \<noteq> None \<and> j_error_message r \<noteq> None)
     \<and> (j_error_code r \<noteq> None \<or> j_error_message r \<noteq> None \<longrightarrow> j_status r = FAILED \<or> j_status r = EXPIRED)
     \<and> (is_terminal (j_status r) \<longrightarrow> j_finished_at r \<noteq> None)
     \<and> (j_status r = PROCESSING \<or> j_status r = COMPLETED \<longrightarrow> j_started_at r \<noteq> None)"

definition undecided :: "job \<Rightarrow> bool" where
  "undecided r \<longleftrightarrow> j_error_code r = None \<and> j_error_message r = None
     \<and> j_status r \<noteq> COMPLETED \<and> j_status r \<noteq> FAILED"

definition copy_ok :: "int \<Rightarrow> job \<Rightarrow> bool" where
  "copy_ok now m \<longleftrightarrow> j_error_code m = None \<and> j_error_message m = None
     \<and> past now (j_started_at m) \<and> past now (j_finished_at m)"

definition phase_ok :: "int \<Rightarrow> job \<Rightarrow> phase \<Rightarrow> bool" where
  "phase_ok now r ph \<longleftrightarrow>
     (case ph of
        Gone \<Rightarrow> True
      | Waiting \<Rightarrow> undecided r
      | Loaded m \<Rightarrow> undecided r \<and> copy_ok now m \<and> (j_status m = PROCESSING \<longrightarrow> j_started_at r \<noteq> None)
      | Running m \<Rightarrow> undecided r \<and> copy_ok now m \<and> j_status m = PROCESSING \<and> j_progress m \<le> 99
          \<and> j_started_at r \<noteq> None)"

definition life_ok :: "life \<Rightarrow> bool" where
  "life_ok s \<longleftrightarrow> row_ok (lc_row s)
     \<and> past (lc_clock s) (j_started_at (lc_row s)) \<and> past (lc_clock s) (j_finished_at (lc_row s))
     \<and> phase_ok (lc_clock s) (lc_row s) (lc_phase s)"

lemma past_simps [simp]: "past now None" "past now (Some t) \<longleftrightarrow> t \<le> now"
  by (simp_all add: past_def)

lemma past_later: "past now t \<Longrightarrow> now < later \<Longrightarrow> past later t"
  by (auto simp: past_def split: option.splits)

lemma past_not_now: "past now t \<Longrightarrow> now < later \<Longrightarrow> t \<noteq> Some later"
  by auto

lemmas write_defs = written_def job_transition_defs redact_job_def

text \<open>The commits of the worker, on an undecided row.\<close>

lemma row_ok_undecided:
  "undecided r \<Longrightarrow> row_ok r \<longleftrightarrow> 0 \<le> j_progress r \<and> j_progress r \<le> 100
     \<and> (is_terminal (j_status r) \<longrightarrow> j_finished_at r \<noteq> None)
     \<and> (j_status r = PROCESSING \<longrightarrow> j_started_at r \<noteq> None)"
  by (auto simp: row_ok_def undecided_def)

lemma copy_not_now:
  assumes "copy_ok c m" "c < now"
  shows "j_started_at m \<noteq> Some now" "j_finished_at m \<noteq> Some now"
    "j_error_code m = None" "j_error_message m = None"
  using assms past_not_now unfolding copy_ok_def by blast+

lemma start_writes:
  assumes "undecided r" "row_ok r" "copy_ok c m" "c < now"
  shows "undecided (written m (mark_processing now m) r)" "row_ok (written m (mark_processing now m) r)"
    "j_started_at (written m (mark_processing now m) r) = Some now"
    "j_finished_at (written m (mark_processing now m) r) = j_finished_at r"
proof -
  note m = copy_not_now [OF assms(3,4)]
  show u: "undecided (written m (mark_processing now m) r)"
    using assms(1) by (simp add: undecided_def write_defs)
  show s: "j_started_at (written m (mark_processing now m) r) = Some now"
    using m(1) by (auto simp: write_defs)
  show "j_finished_at (written m (mark_processing now m) r) = j_finished_at r"
    by (simp add: write_defs)
  show "row_ok (written m (mark_processing now m) r)"
    using assms(2) unfolding row_ok_undecided [OF u] row_ok_undecided [OF assms(1)] s
    by (simp add: write_defs)
qed

lemma report_writes:
  assumes "undecided r" "row_ok r"
  shows "undecided (written m (set_progress p m) r)" "row_ok (written m (set_progress p m) r)"
    "j_started_at (written m (set_progress p m) r) = j_started_at r"
    "j_finished_at (written m (set_progress p m) r) = j_finished_at r"
proof -
  show u: "undecided (written m (set_progress p m) r)"
    using assms(1) by (simp add: undecided_def write_defs)
  show "row_ok (written m (set_progress p m) r)"
    using assms(2) unfolding row_ok_undecided [OF u] row_ok_undecided [OF assms(1)]
    by (simp add: write_defs)
qed (simp_all add: write_defs)

lemma finish_writes:
  assumes "copy_ok c m" "c < now" "j_status m = PROCESSING" "j_progress m \<le> 99"
    and "undecided r" "j_started_at r \<noteq> None"
  shows "row_ok (written m (redact_job keys (mark_completed now m)) r)"
    "j_started_at (written m (redact_job keys (mark_completed now m)) r) = j_started_at r"
    "j_finished_at (written m (redact_job keys (mark_completed now m)) r) = Some now"
proof -
  note m = copy_not_now [OF assms(1,2)]
  show "j_started_at (written m (redact_job keys (mark_completed now m)) r) = j_started_at r"
    by (simp add: write_defs)
  show "j_finished_at (written m (redact_job keys (mark_completed now m)) r) = Some now"
    using m(2) by (auto simp: write_defs)
  show "row_ok (written m (redact_job keys (mark_completed now m)) r)"
    using m(2) assms(3-) by (auto simp: write_defs row_ok_def undecided_def)
qed

lemma fail_writes:
  assumes "copy_ok c m" "c < now" "j_status m = PROCESSING" "undecided r" "row_ok r"
  shows "row_ok (written m (redact_job keys (mark_failed now code message m)) r)"
    "j_started_at (written m (redact_job keys (mark_failed now code message m)) r) = j_started_at r"
    "j_finished_at (written m (redact_job keys (mark_failed now code message m)) r) = Some now"
proof -
  note m = copy_not_now [OF assms(1,2)]
  show "j_started_at (written m (redact_job keys (mark_failed now code message m)) r) = j_started_at r"
    by (simp add: write_defs)
  show "j_finished_at (written m (redact_job keys (mark_failed now code message m)) r) = Some now"
    using m(2) by (auto simp: write_defs)
  show "row_ok (written m (redact_job keys (mark_failed now code message m)) r)"
    using m assms(3-) by (auto simp: write_defs row_ok_def undecided_def)
qed

text \<open>What the administrator and the cleanup do keeps a row sound and an undecided row undecided.\<close>

lemma cancel_writes:
  assumes "row_ok r" "\<not> is_terminal (j_status r)"
  shows "row_ok (cancelled_job now r)"
  using assms by (cases "j_status r") (simp_all add: row_ok_def cancelled_job_def)

lemma requeue_writes: "row_ok (requeued_job r)"
  by (simp add: row_ok_def requeued_job_def)

lemma expire_writes:
  assumes "row_ok r" "is_terminal (j_status r)"
  shows "row_ok (r\<lparr>j_status := EXPIRED\<rparr>)"
  using assms by (simp add: row_ok_def)

lemma outside_undecided:
  "undecided r \<Longrightarrow> undecided (cancelled_job now r)" "undecided (requeued_job r)"
  "undecided r \<Longrightarrow> undecided (r\<lparr>j_status := EXPIRED\<rparr>)"
  "j_started_at (cancelled_job now r) = j_started_at r" "j_started_at (requeued_job r) = j_started_at r"
  by (simp_all add: undecided_def cancelled_job_def requeued_job_def)

lemma copy_of_row: "undecided r \<Longrightarrow> past c (j_started_at r) \<Longrightarrow> past c (j_finished_at r) \<Longrightarrow> copy_ok c r"
  by (simp add: undecided_def copy_ok_def)

lemma copy_later: "copy_ok c m \<Longrightarrow> c < now \<Longrightarrow> copy_ok now m"
  by (auto simp: copy_ok_def dest: past_later)

lemma phase_later:
  assumes "phase_ok c r ph" "c < now" "undecided r \<Longrightarrow> undecided r'" "j_started_at r' = j_started_at r"
  shows "phase_ok now r' ph"
  using assms by (cases ph) (auto simp: phase_ok_def dest: copy_later)

lemma life_ok_step:
  assumes step: "lstep s t" and ok: "life_ok s"
  shows "life_ok t"
proof -
  note row = ok [unfolded life_ok_def, THEN conjunct1]
  note ph = ok [unfolded life_ok_def, THEN conjunct2, THEN conjunct2, THEN conjunct2]
  have started: "past (lc_clock s) (j_started_at (lc_row s))"
    and finished: "past (lc_clock s) (j_finished_at (lc_row s))" using ok by (simp_all add: life_ok_def)
  from step show ?thesis
  proof (cases rule: lstep.cases)
    case load
    then have u: "undecided (lc_row s)" using ph by (simp add: phase_ok_def)
    have "phase_ok (lc_clock s) (lc_row s) (Loaded (lc_row s))"
      using u copy_of_row [OF u started finished] row by (simp add: phase_ok_def row_ok_def)
    with load row started finished show ?thesis by (simp add: life_ok_def)
  next
    case skip
    with row started finished show ?thesis by (simp add: life_ok_def phase_ok_def)
  next
    case (start m now)
    then have u: "undecided (lc_row s)" "copy_ok (lc_clock s) m" using ph by (simp_all add: phase_ok_def)
    note w = start_writes [OF u(1) row u(2) start(3)]
    have "copy_ok now (mark_processing now m)"
      using copy_later [OF u(2) start(3)] by (simp add: copy_ok_def mark_processing_def)
    then have "phase_ok now (written m (mark_processing now m) (lc_row s)) (Running (mark_processing now m))"
      using w by (simp add: phase_ok_def mark_processing_def)
    with w past_later [OF finished start(3)] start show ?thesis by (simp add: life_ok_def worker_writes_def)
  next
    case (report m now p)
    then have u: "undecided (lc_row s)" "copy_ok (lc_clock s) m" "j_status m = PROCESSING"
      "j_started_at (lc_row s) \<noteq> None" using ph by (simp_all add: phase_ok_def)
    note w = report_writes [OF u(1) row, where p = p and m = m]
    have "copy_ok now (set_progress p m)"
      using copy_later [OF u(2) report(3)] by (simp add: copy_ok_def set_progress_def)
    then have "phase_ok now (written m (set_progress p m) (lc_row s)) (Running (set_progress p m))"
      using w u report(4) by (simp add: phase_ok_def set_progress_def)
    with w past_later [OF finished report(3)] past_later [OF started report(3)] report show ?thesis
      by (simp add: life_ok_def worker_writes_def)
  next
    case (finish m now keys)
    then have u: "undecided (lc_row s)" "copy_ok (lc_clock s) m" "j_status m = PROCESSING" "j_progress m \<le> 99"
      "j_started_at (lc_row s) \<noteq> None" using ph by (simp_all add: phase_ok_def)
    note w = finish_writes [OF u(2) finish(3) u(3,4,1,5), where keys = keys]
    with past_later [OF started finish(3)] finish show ?thesis
      by (simp add: life_ok_def worker_writes_def phase_ok_def)
  next
    case (fail m now keys code message)
    then have u: "undecided (lc_row s)" "copy_ok (lc_clock s) m" "j_status m = PROCESSING"
      using ph by (simp_all add: phase_ok_def)
    note w = fail_writes [OF u(2) fail(3) u(3,1) row, where keys = keys and code = code and message = message]
    with past_later [OF started fail(3)] fail show ?thesis
      by (simp add: life_ok_def worker_writes_def phase_ok_def)
  next
    case lost
    with row started finished show ?thesis by (simp add: life_ok_def phase_ok_def)
  next
    case redelivered
    then have "undecided (lc_row s)" using ph by (cases "lc_phase s") (simp_all add: phase_ok_def)
    with redelivered row started finished show ?thesis by (simp add: life_ok_def phase_ok_def)
  next
    case (cancel now)
    then have "phase_ok now (cancelled_job now (lc_row s)) (lc_phase s)"
      using phase_later [OF ph cancel(3) outside_undecided(1,4)] by simp
    moreover have "past now (j_started_at (cancelled_job now (lc_row s)))"
      using past_later [OF started cancel(3)] by (simp add: cancelled_job_def)
    moreover have "past now (j_finished_at (cancelled_job now (lc_row s)))"
      by (simp add: cancelled_job_def)
    ultimately show ?thesis
      using cancel cancel_writes [OF row cancel(2)] by (simp add: life_ok_def row_becomes_def)
  next
    case (retry now)
    then have "phase_ok now (requeued_job (lc_row s)) (lc_phase s)"
      using phase_later [OF ph retry(2) outside_undecided(2,5)] by simp
    moreover have "past now (j_started_at (requeued_job (lc_row s)))"
      using past_later [OF started retry(2)] by (simp add: requeued_job_def)
    moreover have "past now (j_finished_at (requeued_job (lc_row s)))"
      by (simp add: requeued_job_def)
    ultimately show ?thesis
      using retry requeue_writes by (simp add: life_ok_def row_becomes_def)
  next
    case (expire now t)
    then have ended: "is_terminal (j_status (lc_row s))" by auto
    have "phase_ok now ((lc_row s)\<lparr>j_status := EXPIRED\<rparr>) (lc_phase s)"
      using phase_later [OF ph expire(3) outside_undecided(3)] by simp
    then show ?thesis
      using expire expire_writes [OF row ended] past_later [OF started expire(3)] past_later [OF finished expire(3)]
      by (simp add: life_ok_def row_becomes_def)
  qed
qed

lemma life_ok_run: "lstep\<^sup>*\<^sup>* s t \<Longrightarrow> life_ok s \<Longrightarrow> life_ok t"
  by (induction rule: rtranclp_induct) (auto intro: life_ok_step)

section \<open>From the creation of a job on\<close>

text \<open>The row \<open>create_job\<close> commits, with its task in the queue, or failed without one.\<close>

definition queued :: "job \<Rightarrow> int \<Rightarrow> life" where
  "queued j c = \<lparr>lc_row = j, lc_phase = Waiting, lc_clock = c\<rparr>"

definition undispatched :: "create_env \<Rightarrow> job \<Rightarrow> life" where
  "undispatched env j = \<lparr>lc_row = dispatch_failed env j, lc_phase = Gone, lc_clock = cj_finish env\<rparr>"

lemma new_job_fields:
  "j_status (new_job env svc q options visits) = QUEUED" "j_progress (new_job env svc q options visits) = 0"
  "j_error_code (new_job env svc q options visits) = None" "j_error_message (new_job env svc q options visits) = None"
  "j_started_at (new_job env svc q options visits) = None" "j_finished_at (new_job env svc q options visits) = None"
  by (simp_all add: new_job_def split: prod.split)

lemma queued_ok: "life_ok (queued (new_job env svc q options visits) c)"
  by (simp add: life_ok_def queued_def row_ok_def phase_ok_def undecided_def new_job_fields)

lemma undispatched_ok: "life_ok (undispatched env (new_job env svc q options visits))"
  by (simp add: life_ok_def undispatched_def row_ok_def phase_ok_def dispatch_failed_def new_job_fields)

text \<open>
  C37: Whatever worker, administrator and cleanup do to a job and in whatever order, with tasks
  lost and redelivered at any point, its row stays meaningful from its creation on: the progress
  is between 0 and 100, and 100 when the job is completed; a failed job has a code and a
  message, and only failed jobs (or those that expired) have one; a job that has ended has its
  end time, and a job that runs or is completed its start time.
\<close>

theorem job_lifecycle_invariant:
  assumes "s = queued (new_job env svc q options visits) c \<or> s = undispatched env (new_job env svc q options visits)"
    and "lstep\<^sup>*\<^sup>* s t"
  shows "0 \<le> j_progress (lc_row t) \<and> j_progress (lc_row t) \<le> 100
     \<and> (j_status (lc_row t) = COMPLETED \<longrightarrow> j_progress (lc_row t) = 100)
     \<and> (j_status (lc_row t) = FAILED \<longrightarrow> j_error_code (lc_row t) \<noteq> None \<and> j_error_message (lc_row t) \<noteq> None)
     \<and> (j_error_code (lc_row t) \<noteq> None \<longrightarrow> j_status (lc_row t) = FAILED \<or> j_status (lc_row t) = EXPIRED)
     \<and> (is_terminal (j_status (lc_row t)) \<longrightarrow> j_finished_at (lc_row t) \<noteq> None)
     \<and> (j_status (lc_row t) = PROCESSING \<or> j_status (lc_row t) = COMPLETED \<longrightarrow> j_started_at (lc_row t) \<noteq> None)"
proof -
  have "life_ok s" using assms(1) queued_ok undispatched_ok by blast
  with assms(2) have "row_ok (lc_row t)" using life_ok_run by (auto simp: life_ok_def)
  then show ?thesis unfolding row_ok_def by (intro conjI; blast)
qed

section \<open>Retrying\<close>

text \<open>Once the task is gone, the row is only written from outside.\<close>

definition idle :: "int option \<Rightarrow> life \<Rightarrow> bool" where
  "idle started s \<longleftrightarrow> lc_phase s = Gone \<and> j_started_at (lc_row s) = started
     \<and> j_status (lc_row s) \<in> {QUEUED, CANCELLED, EXPIRED}"

lemma idle_step: "lstep s t \<Longrightarrow> idle started s \<Longrightarrow> idle started t"
  by (erule lstepE) (auto simp: idle_def row_becomes_def cancelled_job_def requeued_job_def)

text \<open>
  A job that the administrator retries is never run again. Once its task has been consumed,
  the retry puts the row back to \<open>queued\<close> but no task into the queue: from then on, whatever
  happens, the job stays queued until it is cancelled, and never again starts, completes or
  fails.
\<close>

theorem retried_job_never_runs:
  assumes "lc_phase s = Gone" "lc_clock s < now"
    and "lstep\<^sup>*\<^sup>* (row_becomes (requeued_job (lc_row s)) now s) t"
  shows "lstep s (row_becomes (requeued_job (lc_row s)) now s)
    \<and> j_status (lc_row t) \<in> {QUEUED, CANCELLED, EXPIRED}
    \<and> j_started_at (lc_row t) = j_started_at (lc_row s)"
proof -
  let ?r = "row_becomes (requeued_job (lc_row s)) now s"
  have "idle (j_started_at (lc_row s)) ?r"
    using assms(1) by (simp add: idle_def row_becomes_def requeued_job_def)
  with assms(3) have "idle (j_started_at (lc_row s)) t"
    by (induction rule: rtranclp_induct) (auto intro: idle_step)
  with lstep.retry [OF assms(2)] show ?thesis by (simp add: idle_def)
qed

section \<open>Runs\<close>

text \<open>A run of the worker that nobody interferes with, as \<open>run_tool_job\<close> does it.\<close>

lemma plain_run:
  assumes "\<not> is_terminal (j_status j)" "c < t1" "t1 < t2"
    and "j_started_at j \<noteq> Some t1" "j_finished_at j \<noteq> Some t2"
  shows "lstep\<^sup>*\<^sup>* (queued j c) \<lparr>lc_row = redact_job keys (mark_completed t2 (mark_processing t1 j)), lc_phase = Gone, lc_clock = t2\<rparr>"
proof -
  let ?m = "mark_processing t1 j"
  let ?e = "redact_job keys (mark_completed t2 ?m)"
  have same: "written m m' m = m'" if "m' = m\<lparr>j_status := j_status m', j_progress := j_progress m',
      j_options := j_options m', j_error_code := j_error_code m', j_error_message := j_error_message m',
      j_started_at := j_started_at m', j_finished_at := j_finished_at m'\<rparr>" for m m'
  proof -
    have pick: "(if b = a then a else b) = b" for a b :: 'v by simp
    show ?thesis by (rule trans [OF _ that [symmetric]]) (simp only: written_def pick)
  qed
  have "lstep (queued j c) \<lparr>lc_row = j, lc_phase = Loaded j, lc_clock = c\<rparr>"
    using lstep.load [of "queued j c"] assms(1) by (simp add: queued_def)
  moreover have "lstep \<lparr>lc_row = j, lc_phase = Loaded j, lc_clock = c\<rparr> \<lparr>lc_row = ?m, lc_phase = Running ?m, lc_clock = t1\<rparr>"
  proof -
    have "written j ?m j = ?m" by (rule same) (simp add: mark_processing_def)
    then show ?thesis
      using lstep.start [of "\<lparr>lc_row = j, lc_phase = Loaded j, lc_clock = c\<rparr>" j t1] assms(2)
      by (simp add: worker_writes_def)
  qed
  moreover have "lstep \<lparr>lc_row = ?m, lc_phase = Running ?m, lc_clock = t1\<rparr> \<lparr>lc_row = ?e, lc_phase = Gone, lc_clock = t2\<rparr>"
  proof -
    have "written ?m ?e ?m = ?e" by (rule same) (simp add: mark_processing_def mark_completed_def redact_job_def)
    then show ?thesis
      using lstep.finish [of "\<lparr>lc_row = ?m, lc_phase = Running ?m, lc_clock = t1\<rparr>" ?m t2 keys] assms(3)
      by (simp add: worker_writes_def)
  qed
  ultimately show ?thesis by (meson converse_rtranclp_into_rtranclp r_into_rtranclp)
qed

text \<open>A cancellation that arrives while the worker runs is overwritten by its end.\<close>

lemma cancellation_overwritten:
  fixes j :: job
  assumes running: "s = \<lparr>lc_row = mark_processing t1 j, lc_phase = Running (mark_processing t1 j), lc_clock = t1\<rparr>"
    and "t1 < t2" "t2 < t3"
  shows "\<exists>u v. lstep s u \<and> j_status (lc_row u) = CANCELLED \<and> lstep u v \<and> j_status (lc_row v) = COMPLETED"
proof (intro exI conjI)
  let ?u = "row_becomes (cancelled_job t2 (lc_row s)) t2 s"
  show "lstep s ?u" using assms by (intro lstep.cancel) (simp_all add: mark_processing_def)
  show "j_status (lc_row ?u) = CANCELLED" by (simp add: row_becomes_def cancelled_job_def)
  let ?m = "mark_processing t1 j"
  let ?v = "worker_writes ?m (redact_job [] (mark_completed t3 ?m)) Gone t3 ?u"
  show "lstep ?u ?v" using assms by (intro lstep.finish) (simp_all add: row_becomes_def)
  show "j_status (lc_row ?v) = COMPLETED"
    by (simp add: worker_writes_def written_def redact_job_def mark_completed_def mark_processing_def)
qed

definition sample_new_job :: job where
  "sample_new_job = new_job sample_create_env repair_service sample_request [] []"

lemma sample_run:
  "lstep\<^sup>*\<^sup>* (queued sample_new_job 10)
     \<lparr>lc_row = redact_job [] (mark_completed 30 (mark_processing 20 sample_new_job)), lc_phase = Gone, lc_clock = 30\<rparr>"
  by (rule plain_run) (simp_all add: sample_new_job_def new_job_fields)

theorem job_lifecycle_invariant_witness:
  "j_status (mark_completed 30 (mark_processing 20 sample_new_job)) = COMPLETED
   \<and> j_progress (redact_job [] (mark_completed 30 (mark_processing 20 sample_new_job))) \<le> 100"
  using job_lifecycle_invariant [OF disjI1 [OF refl] sample_run [unfolded sample_new_job_def]]
  by (simp add: sample_new_job_def mark_completed_def)

theorem retried_job_never_runs_witness:
  "j_status (requeued_job (redact_job [] (mark_completed 30 (mark_processing 20 sample_new_job)))) \<in> {QUEUED, CANCELLED, EXPIRED}"
proof -
  let ?s = "\<lparr>lc_row = redact_job [] (mark_completed 30 (mark_processing 20 sample_new_job)), lc_phase = Gone, lc_clock = 30\<rparr>"
  from retried_job_never_runs [of ?s 31, OF _ _ rtranclp.rtrancl_refl]
  show ?thesis by (simp add: row_becomes_def)
qed

end
