(* ===== verification/AdminUsers.thy ===== *)
theory AdminUsers
  imports AdminState
begin

text \<open>
  Accounts and subscriptions in the admin panel: the sections of \<open>AdminService\<close> on users and
  subscribers, and the endpoints of \<open>app/api/v1/endpoints/admin/users.py\<close> and \<open>billing.py\<close>.

  An \<open>UPDATE\<close> stamps \<open>updated_at\<close> when it changes something. \<open>rank\<close> is the place of a text in
  the collation.
\<close>

section \<open>Views\<close>

record subscription_row =
  sv_subscription :: subscription
  sv_user_name :: "string option"
  sv_user_email :: "string option"

record user_row =
  uv_user :: user
  uv_conversions :: nat

record user_details =
  ud_row :: user_row
  ud_files_count :: nat
  ud_subscription :: "subscription_row option"

definition conversions :: "db \<Rightarrow> nat \<Rightarrow> nat" where
  "conversions d u = length (filter (\<lambda>j. j_user_id j = Some u) (db_jobs d))"

definition user_row_of :: "db \<Rightarrow> user \<Rightarrow> user_row" where
  "user_row_of d u = \<lparr>uv_user = u, uv_conversions = conversions d (us_id u)\<rparr>"

definition user_sort_map :: "(string \<Rightarrow> int) \<Rightarrow> db \<Rightarrow> (string \<times> (user \<Rightarrow> int option)) list" where
  "user_sort_map rank d =
     [(''name'', \<lambda>u. Some (rank (us_name u))), (''conversions'', \<lambda>u. Some (int (conversions d (us_id u))))]"

definition list_users ::
  "(string \<Rightarrow> int) \<Rightarrow> page_params \<Rightarrow> string option \<Rightarrow> string option \<Rightarrow> string option \<Rightarrow> string option
     \<Rightarrow> site \<Rightarrow> user_row list \<times> nat" where
  "list_users rank page q plan status by s =
     listing page (user_row_of (si_db s))
       (sort_rows (user_sort_map rank (si_db s)) us_created_at by
         (filter (\<lambda>u. search q [Some (us_name u), Some (us_email u)] \<and> equals plan (us_plan u)
             \<and> equals status (us_status u)) (si_users s)))"

definition subscription_row_of :: "subscription \<Rightarrow> user option \<Rightarrow> subscription_row" where
  "subscription_row_of b u =
     \<lparr>sv_subscription = b, sv_user_name = map_option us_name u, sv_user_email = map_option us_email u\<rparr>"

definition get_user :: "nat \<Rightarrow> (site, user) action" where
  "get_user i = fetch us_id si_users ''User not found.'' i"

definition user_detail :: "nat \<Rightarrow> (site, user_details) action" where
  "user_detail i =
     abind (get_user i) (\<lambda>u s. (s, Inr
       \<lparr>ud_row = user_row_of (si_db s) u,
        ud_files_count = length (filter (\<lambda>f. sf_user_id f = Some i) (db_files (si_db s))),
        ud_subscription =
          (case order_desc (\<lambda>b. Some (sb_created_at b)) (filter (\<lambda>b. sb_user_id b = i) (si_subscriptions s)) of
             [] \<Rightarrow> None | b # _ \<Rightarrow> Some (subscription_row_of b (Some u)))\<rparr>))"

record user_totals =
  ut_total :: nat
  ut_active :: nat
  ut_suspended :: nat
  ut_pro :: nat

definition user_stats :: "site \<Rightarrow> user_totals" where
  "user_stats s =
     \<lparr>ut_total = length (si_users s),
      ut_active = length (filter (\<lambda>u. us_status u = ''active'') (si_users s)),
      ut_suspended = length (filter (\<lambda>u. us_status u = ''suspended'') (si_users s)),
      ut_pro = length (filter (\<lambda>u. us_plan u \<noteq> ''free'') (si_users s))\<rparr>"

section \<open>Changing accounts\<close>

record user_create =
  uc_name :: string
  uc_email :: string
  uc_password :: string
  uc_plan :: string
  uc_is_admin :: bool

record user_update =
  uu_name :: "string option"
  uu_plan :: "string option"
  uu_status :: "string option"
  uu_is_admin :: "bool option"
  uu_password :: "string option"

definition touched :: "int \<Rightarrow> user \<Rightarrow> user \<Rightarrow> user" where
  "touched now old new = (if new = old then old else new\<lparr>us_updated_at := now\<rparr>)"

definition write_user :: "user \<Rightarrow> (site, unit) action" where
  "write_user u = on_site (\<lambda>s. s\<lparr>si_users := set_row us_id u (si_users s)\<rparr>)"

definition create_user :: "auth_env \<Rightarrow> request \<Rightarrow> user_create \<Rightarrow> (site, user) action" where
  "create_user env rq p s =
     (let email = py_lower (py_strip (uc_email p)) in
      case one_or_none (filter (\<lambda>u. py_lower (us_email u) = email) (si_users s)) of
        Inl e \<Rightarrow> (s, Inl e)
      | Inr (Some _) \<Rightarrow> (s, raise_app (BaseE ConflictError) ''An account with this email already exists.'')
      | Inr None \<Rightarrow>
          (case hash_password env (uc_password p) of
             Inl e \<Rightarrow> (s, Inl e)
           | Inr h \<Rightarrow>
               (let u = \<lparr>us_id = rq_new_id rq, us_name = py_strip (uc_name p), us_email = email,
                      us_password_hash = h, us_plan = uc_plan p, us_avatar = None,
                      us_email_verified_at = None, us_is_admin = uc_is_admin p, us_status = ''active'',
                      us_created_at = rq_now rq, us_updated_at = rq_now rq\<rparr>
                in (s\<lparr>si_users := si_users s @ [u]\<rparr>, Inr u))))"

definition updated_user :: "user_update \<Rightarrow> user \<Rightarrow> user" where
  "updated_user p u =
     u\<lparr>us_name := (case uu_name p of None \<Rightarrow> us_name u | Some n \<Rightarrow> py_strip n),
       us_plan := default_to (us_plan u) (uu_plan p),
       us_status := default_to (us_status u) (uu_status p),
       us_is_admin := default_to (us_is_admin u) (uu_is_admin p)\<rparr>"

definition update_user :: "auth_env \<Rightarrow> request \<Rightarrow> nat \<Rightarrow> user_update \<Rightarrow> (site, user) action" where
  "update_user env rq i p =
     abind (get_user i) (\<lambda>u.
     abind (if text_given (uu_password p)
            then abind (aresult (hash_password env (the (uu_password p))))
                   (\<lambda>h. areturn ((updated_user p u)\<lparr>us_password_hash := h\<rparr>))
            else areturn (updated_user p u)) (\<lambda>new.
     abind (write_user (touched (rq_now rq) u new)) (\<lambda>_. areturn (touched (rq_now rq) u new))))"

definition set_user_status :: "request \<Rightarrow> nat \<Rightarrow> string \<Rightarrow> (site, user) action" where
  "set_user_status rq i status =
     abind (get_user i) (\<lambda>u.
       let new = touched (rq_now rq) u (u\<lparr>us_status := status\<rparr>)
       in abind (write_user new) (\<lambda>_. areturn new))"

definition delete_user :: "nat \<Rightarrow> (site, unit) action" where
  "delete_user i = abind (get_user i) (\<lambda>_. on_site (forget_users {i}))"

definition bulk_status :: "request \<Rightarrow> string \<Rightarrow> nat list \<Rightarrow> user \<Rightarrow> user" where
  "bulk_status rq status ids u =
     (if us_id u \<in> set ids then touched (rq_now rq) u (u\<lparr>us_status := status\<rparr>) else u)"

definition bulk_users :: "request \<Rightarrow> string \<Rightarrow> nat list \<Rightarrow> (site, nat) action" where
  "bulk_users rq act ids s =
     (if ids = [] then (s, Inr 0)
      else if act = ''delete'' then
        (forget_users (set ids) s, Inr (length (filter (\<lambda>u. us_id u \<in> set ids) (si_users s))))
      else if act \<in> set [''suspend'', ''activate''] then
        (let status = (if act = ''suspend'' then ''suspended'' else ''active'')
         in (s\<lparr>si_users := map (bulk_status rq status ids) (si_users s)\<rparr>,
             Inr (length (filter (\<lambda>u. us_id u \<in> set ids \<and> us_status u \<noteq> status) (si_users s)))))
      else (s, raise_app (BaseE BadRequestError) (''Unknown bulk action: '' @ act)))"

section \<open>Subscriptions\<close>

record subscription_create =
  sc_user_id :: nat
  sc_plan :: string
  sc_price_cents :: int
  sc_currency :: string
  sc_interval :: string
  sc_status :: string
  sc_renews_at :: "int option"

record subscription_update =
  sp_plan :: "string option"
  sp_price_cents :: "int option"
  sp_interval :: "string option"
  sp_status :: "string option"
  sp_renews_at :: "int option"

definition with_user :: "site \<Rightarrow> (subscription \<times> user) list" where
  "with_user s =
     List.map_filter (\<lambda>b. map_option (Pair b) (find (\<lambda>u. us_id u = sb_user_id b) (si_users s))) (si_subscriptions s)"

definition subscription_sort_map :: "(string \<Rightarrow> int) \<Rightarrow> (string \<times> (subscription \<times> user \<Rightarrow> int option)) list" where
  "subscription_sort_map rank =
     [(''user'', \<lambda>(b, u). Some (rank (us_name u))), (''price'', \<lambda>(b, u). Some (sb_price_cents b)),
      (''renews_at'', \<lambda>(b, u). sb_renews_at b)]"

definition list_subscriptions ::
  "(string \<Rightarrow> int) \<Rightarrow> page_params \<Rightarrow> string option \<Rightarrow> string option \<Rightarrow> string option
     \<Rightarrow> site \<Rightarrow> subscription_row list \<times> nat" where
  "list_subscriptions rank page q status by s =
     listing page (\<lambda>(b, u). subscription_row_of b (Some u))
       (sort_rows (subscription_sort_map rank) (\<lambda>(b, u). sb_created_at b) by
         (filter (\<lambda>(b, u). search q [Some (us_name u), Some (us_email u)] \<and> equals status (sb_status b))
           (with_user s)))"

record subscription_totals =
  bt_active :: nat
  bt_expired :: nat
  bt_mrr_cents :: int
  bt_churn_tenths :: nat

definition subscription_stats :: "site \<Rightarrow> subscription_totals" where
  "subscription_stats s =
     (let active = length (filter (\<lambda>b. sb_status b = ''active'') (si_subscriptions s));
          expired = length (filter (\<lambda>b. sb_status b = ''expired'') (si_subscriptions s));
          mrr = (\<Sum>b\<leftarrow>filter (\<lambda>b. sb_status b = ''active'' \<and> sb_interval b = ''monthly'') (si_subscriptions s). sb_price_cents b);
          denom = active + expired
      in \<lparr>bt_active = active, bt_expired = expired, bt_mrr_cents = mrr,
          bt_churn_tenths = (if denom \<noteq> 0 then round1 (100 * expired) denom else 0)\<rparr>)"

definition create_subscription :: "request \<Rightarrow> subscription_create \<Rightarrow> (site, subscription) action" where
  "create_subscription rq p =
     abind (get_user (sc_user_id p)) (\<lambda>u.
       let b = \<lparr>sb_id = rq_new_id rq, sb_user_id = us_id u, sb_plan = sc_plan p,
            sb_price_cents = sc_price_cents p, sb_currency = sc_currency p, sb_interval = sc_interval p,
            sb_status = sc_status p, sb_provider = ''razorpay'', sb_provider_ref = None,
            sb_started_at = Some (rq_now rq), sb_renews_at = sc_renews_at p, sb_payments_count = 0,
            sb_created_at = rq_now rq\<rparr>
       in abind (on_site (\<lambda>s. s\<lparr>si_subscriptions := si_subscriptions s @ [b]\<rparr>)) (\<lambda>_. areturn b))"

definition updated_subscription :: "subscription_update \<Rightarrow> subscription \<Rightarrow> subscription" where
  "updated_subscription p b =
     b\<lparr>sb_plan := default_to (sb_plan b) (sp_plan p),
       sb_price_cents := default_to (sb_price_cents b) (sp_price_cents p),
       sb_interval := default_to (sb_interval b) (sp_interval p),
       sb_status := default_to (sb_status b) (sp_status p),
       sb_renews_at := (if sp_renews_at p = None then sb_renews_at b else sp_renews_at p)\<rparr>"

definition update_subscription :: "nat \<Rightarrow> subscription_update \<Rightarrow> (site, subscription) action" where
  "update_subscription i p =
     abind (fetch sb_id si_subscriptions ''Subscription not found.'' i) (\<lambda>b.
     abind (on_site (\<lambda>s. s\<lparr>si_subscriptions := set_row sb_id (updated_subscription p b) (si_subscriptions s)\<rparr>))
       (\<lambda>_. areturn (updated_subscription p b)))"

definition delete_subscription :: "nat \<Rightarrow> (site, unit) action" where
  "delete_subscription i =
     abind (fetch sb_id si_subscriptions ''Subscription not found.'' i) (\<lambda>_.
       on_site (\<lambda>s. s\<lparr>si_subscriptions := delete_row sb_id i (si_subscriptions s)\<rparr>))"

section \<open>Endpoints\<close>

definition user_entry :: "string \<Rightarrow> string \<Rightarrow> string \<Rightarrow> string \<Rightarrow> nat \<Rightarrow> audit_entry" where
  "user_entry action category summary email i =
     (entry action (summary @ email) (Some ''user'') (Some (uuid_str i)))
       \<lparr>ae_category := category, ae_with_ip := True\<rparr>"

definition user_endpoint ::
  "request \<Rightarrow> (site, user) action \<Rightarrow> string \<Rightarrow> string \<Rightarrow> string \<Rightarrow> (site, user_details) action" where
  "user_endpoint rq act action category summary =
     abind (audited rq act (\<lambda>u. user_entry action category summary (us_email u) (us_id u)))
       (\<lambda>u. user_detail (us_id u))"

definition create_user_endpoint :: "auth_env \<Rightarrow> request \<Rightarrow> user_create \<Rightarrow> (site, user_details) action" where
  "create_user_endpoint env rq p = user_endpoint rq (create_user env rq p) ''user.create'' ''audit'' ''Created user ''"

definition update_user_endpoint :: "auth_env \<Rightarrow> request \<Rightarrow> nat \<Rightarrow> user_update \<Rightarrow> (site, user_details) action" where
  "update_user_endpoint env rq i p = user_endpoint rq (update_user env rq i p) ''user.update'' ''audit'' ''Updated user ''"

definition suspend_user_endpoint :: "request \<Rightarrow> nat \<Rightarrow> (site, user_details) action" where
  "suspend_user_endpoint rq i =
     (if i = us_id (rq_admin rq)
      then aresult (raise_app (BaseE BadRequestError) ''You cannot suspend your own account.'')
      else user_endpoint rq (set_user_status rq i ''suspended'') ''user.suspend'' ''security'' ''Suspended user '')"

definition activate_user_endpoint :: "request \<Rightarrow> nat \<Rightarrow> (site, user_details) action" where
  "activate_user_endpoint rq i =
     user_endpoint rq (set_user_status rq i ''active'') ''user.activate'' ''audit'' ''Activated user ''"

definition delete_user_endpoint :: "request \<Rightarrow> nat \<Rightarrow> (site, unit) action" where
  "delete_user_endpoint rq i =
     (if i = us_id (rq_admin rq)
      then aresult (raise_app (BaseE BadRequestError) ''You cannot delete your own account.'')
      else abind (get_user i) (\<lambda>u.
             audited rq (delete_user i)
               (\<lambda>_. user_entry ''user.delete'' ''security'' ''Deleted user '' (us_email u) i)))"

definition bulk_users_endpoint :: "request \<Rightarrow> string \<Rightarrow> nat list \<Rightarrow> (site, nat) action" where
  "bulk_users_endpoint rq act ids =
     (if us_id (rq_admin rq) \<in> set ids \<and> act \<in> set [''delete'', ''suspend'']
      then aresult (raise_app (BaseE BadRequestError) ''You cannot include your own account in a bulk suspend or delete.'')
      else audited rq (bulk_users rq act ids)
             (\<lambda>n. (entry (''user.bulk_'' @ act) (''Bulk '' @ act @ '' on '' @ nat_str n @ '' user(s)'') None None)
                    \<lparr>ae_category := ''security'', ae_with_ip := True\<rparr>))"

definition subscription_endpoint ::
  "request \<Rightarrow> (site, subscription) action \<Rightarrow> string \<Rightarrow> string \<Rightarrow> (site, subscription_row) action" where
  "subscription_endpoint rq act action summary =
     abind (audited rq act
              (\<lambda>b. entry action (summary @ sb_plan b) (Some ''subscription'') (Some (uuid_str (sb_id b)))))
       (\<lambda>b. abind (get_user (sb_user_id b)) (\<lambda>u. areturn (subscription_row_of b (Some u))))"

definition create_subscription_endpoint :: "request \<Rightarrow> subscription_create \<Rightarrow> (site, subscription_row) action" where
  "create_subscription_endpoint rq p =
     subscription_endpoint rq (create_subscription rq p) ''subscription.create'' ''Created subscription ''"

definition update_subscription_endpoint :: "request \<Rightarrow> nat \<Rightarrow> subscription_update \<Rightarrow> (site, subscription_row) action" where
  "update_subscription_endpoint rq i p =
     subscription_endpoint rq (update_subscription i p) ''subscription.update'' ''Updated subscription ''"

definition delete_subscription_endpoint :: "request \<Rightarrow> nat \<Rightarrow> (site, unit) action" where
  "delete_subscription_endpoint rq i =
     audited rq (delete_subscription i)
       (\<lambda>_. entry ''subscription.delete'' ''Deleted subscription'' (Some ''subscription'') (Some (uuid_str i)))"

section \<open>Integrity of accounts and references\<close>

definition owned :: "nat set \<Rightarrow> nat option \<Rightarrow> bool" where
  "owned ids owner \<longleftrightarrow> (case owner of None \<Rightarrow> True | Some u \<Rightarrow> u \<in> ids)"

definition users_ok :: "user list \<Rightarrow> bool" where
  "users_ok us \<longleftrightarrow> distinct (map us_id us) \<and> distinct (map us_email us)
     \<and> (\<forall>u \<in> set us. py_lower (us_email u) = us_email u)"

definition references_ok :: "site \<Rightarrow> bool" where
  "references_ok s \<longleftrightarrow>
     (let ids = us_id ` set (si_users s) in
      (\<forall>b \<in> set (si_subscriptions s). sb_user_id b \<in> ids)
      \<and> (\<forall>f \<in> set (db_files (si_db s)). owned ids (sf_user_id f))
      \<and> (\<forall>j \<in> set (db_jobs (si_db s)). owned ids (j_user_id j)))"

definition accounts_ok :: "site \<Rightarrow> bool" where
  "accounts_ok s \<longleftrightarrow> users_ok (si_users s) \<and> references_ok s"

lemma owned_mono: "owned ids owner \<Longrightarrow> ids \<subseteq> ids' \<Longrightarrow> owned ids' owner"
  by (auto simp: owned_def split: option.splits)

lemma owned_unless_gone: "owned ids owner \<Longrightarrow> owned (ids - gone) (unless_gone gone owner)"
  by (auto simp: owned_def unless_gone_def split: option.splits)

text \<open>The steps the operations are made of.\<close>

lemma accounts_ok_forget:
  assumes "accounts_ok s"
  shows "accounts_ok (forget_users gone s)"
proof -
  let ?ids = "us_id ` set (si_users s)"
  have ids: "us_id ` set (si_users (forget_users gone s)) = ?ids - gone"
    by (auto simp: forget_users_def)
  have "users_ok (si_users (forget_users gone s))"
    using assms by (simp add: accounts_ok_def users_ok_def forget_users_def distinct_map_filter)
  moreover have "references_ok (forget_users gone s)"
    using assms owned_unless_gone unfolding references_ok_def ids Let_def
    by (auto simp: accounts_ok_def references_ok_def Let_def forget_users_def)
  ultimately show ?thesis by (simp add: accounts_ok_def)
qed

lemma accounts_ok_same_keys:
  assumes "accounts_ok s" "map us_id us = map us_id (si_users s)" "map us_email us = map us_email (si_users s)"
  shows "accounts_ok (s\<lparr>si_users := us\<rparr>)"
proof -
  have ids: "us_id ` set us = us_id ` set (si_users s)" using assms(2) by (metis set_map)
  have "us_email ` set us = us_email ` set (si_users s)" using assms(3) by (metis set_map)
  then have "\<forall>e \<in> us_email ` set us. py_lower e = e"
    using assms(1) unfolding accounts_ok_def users_ok_def by auto
  then show ?thesis
    using assms ids by (simp add: accounts_ok_def users_ok_def references_ok_def Let_def)
qed

lemma accounts_ok_set_row:
  assumes "accounts_ok s" "u \<in> set (si_users s)" "us_id new = us_id u" "us_email new = us_email u"
  shows "accounts_ok (s\<lparr>si_users := set_row us_id new (si_users s)\<rparr>)"
proof (rule accounts_ok_same_keys [OF assms(1)])
  have "x = u" if "x \<in> set (si_users s)" "us_id x = us_id u" for x
    using assms(1,2) that unfolding accounts_ok_def users_ok_def by (auto simp: distinct_map dest: inj_onD)
  then show "map us_email (set_row us_id new (si_users s)) = map us_email (si_users s)"
    using assms(3,4) by (auto simp: set_row_def)
qed (simp add: set_row_def)

lemma accounts_ok_new_user:
  assumes "accounts_ok s" "us_id u \<notin> us_id ` set (si_users s)" "us_email u = py_lower e"
    and "filter (\<lambda>x. py_lower (us_email x) = py_lower e) (si_users s) = []"
  shows "accounts_ok (s\<lparr>si_users := si_users s @ [u]\<rparr>)"
proof -
  have "us_email u \<notin> us_email ` set (si_users s)"
  proof
    assume "us_email u \<in> us_email ` set (si_users s)"
    then obtain x where x: "x \<in> set (si_users s)" "us_email x = py_lower e" using assms(3) by auto
    then have "py_lower (us_email x) = py_lower e" by simp
    with x(1) assms(4) show False by (simp add: filter_empty_conv)
  qed
  then have "users_ok (si_users s @ [u])"
    using assms(1-3) by (auto simp: accounts_ok_def users_ok_def)
  moreover have "references_ok (s\<lparr>si_users := si_users s @ [u]\<rparr>)"
    using assms(1) owned_mono [of "us_id ` set (si_users s)" _ "us_id ` set (si_users s @ [u])"]
    by (auto simp: accounts_ok_def references_ok_def Let_def)
  ultimately show ?thesis by (simp add: accounts_ok_def)
qed

lemma accounts_ok_subscriptions:
  "accounts_ok s \<Longrightarrow> \<forall>b \<in> set bs. sb_user_id b \<in> us_id ` set (si_users s)
     \<Longrightarrow> accounts_ok (s\<lparr>si_subscriptions := bs\<rparr>)"
  by (simp add: accounts_ok_def references_ok_def Let_def)

lemma accounts_ok_audit [simp]: "accounts_ok (fst (audit rq e s)) = accounts_ok s"
  by (simp add: accounts_ok_def references_ok_def Let_def)

section \<open>Every operation keeps the integrity\<close>

lemma accounts_ok_audited: "act_inv accounts_ok act \<Longrightarrow> act_inv accounts_ok (audited rq act e)"
  unfolding audited_def by (intro act_inv_bind act_inv_pure) (auto simp: act_inv_def)

lemma accounts_ok_reads:
  "act_inv accounts_ok (get_user i)" "act_inv accounts_ok (user_detail i)"
  by (auto simp: act_inv_def get_user_def fetch_def user_detail_def abind_def split: sum.split)

lemma touched_keys [simp]:
  "us_id (touched now u new) = us_id new" "us_email (touched now u new) = us_email new"
  by (auto simp: touched_def)

lemma get_user_Inr: "get_user i s = (t, Inr u) \<Longrightarrow> t = s \<and> u \<in> set (si_users s) \<and> us_id u = i"
  by (auto simp: get_user_def fetch_def dest: get_row_InrD)

lemma get_user_Inl: "get_user i s = (t, Inl e) \<Longrightarrow> t = s"
  by (simp add: get_user_def fetch_def)

lemma get_user_bind: "get_user i s = (t, Inr u) \<Longrightarrow> abind (get_user i) f s = f u t"
  by (simp add: abind_def)

lemma accounts_ok_rewrite:
  assumes "accounts_ok s" "get_user i s = (t, Inr u)" "us_id new = us_id u" "us_email new = us_email u"
  shows "accounts_ok (fst (abind (write_user new) (\<lambda>_. areturn r) t))"
  using accounts_ok_set_row [OF assms(1), of u new] get_user_Inr [OF assms(2)] assms(3,4)
  by (simp add: abind_def write_user_def on_site_def areturn_def)

lemma accounts_ok_status: "act_inv accounts_ok (set_user_status rq i status)"
proof (rule act_invI)
  fix s assume ok: "accounts_ok s"
  obtain t r where g: "get_user i s = (t, r)" by (cases "get_user i s")
  show "accounts_ok (fst (set_user_status rq i status s))"
  proof (cases r)
    case (Inl e)
    with g ok get_user_Inl show ?thesis by (auto simp: set_user_status_def abind_def)
  next
    case (Inr u)
    with g have gu: "get_user i s = (t, Inr u)" by simp
    have "set_user_status rq i status s
        = abind (write_user (touched (rq_now rq) u (u\<lparr>us_status := status\<rparr>)))
            (\<lambda>_. areturn (touched (rq_now rq) u (u\<lparr>us_status := status\<rparr>))) t"
      unfolding set_user_status_def Let_def by (rule get_user_bind [OF gu])
    then show ?thesis by (simp only:) (rule accounts_ok_rewrite [OF ok gu]; simp)
  qed
qed

lemma accounts_ok_update: "act_inv accounts_ok (update_user env rq i p)"
proof (rule act_invI)
  fix s assume ok: "accounts_ok s"
  obtain t r where g: "get_user i s = (t, r)" by (cases "get_user i s")
  show "accounts_ok (fst (update_user env rq i p s))"
  proof (cases r)
    case (Inl e)
    with g ok get_user_Inl show ?thesis by (auto simp: update_user_def abind_def)
  next
    case (Inr u)
    with g have gu: "get_user i s = (t, Inr u)" by simp
    have t: "t = s" using get_user_Inr [OF gu] by simp
    let ?w = "\<lambda>new. abind (write_user (touched (rq_now rq) u new)) (\<lambda>_. areturn (touched (rq_now rq) u new)) t"
    have keys: "us_id (updated_user p u) = us_id u" "us_email (updated_user p u) = us_email u"
      by (simp_all add: updated_user_def)
    consider (plain) "update_user env rq i p s = ?w (updated_user p u)"
      | (hashed) h where "update_user env rq i p s = ?w ((updated_user p u)\<lparr>us_password_hash := h\<rparr>)"
      | (refused) e where "update_user env rq i p s = (t, Inl e)"
      unfolding update_user_def get_user_bind [OF gu]
      by (cases "text_given (uu_password p)"; cases "hash_password env (the (uu_password p))")
        (auto simp: araise_def)
    then show ?thesis
    proof cases
      case plain
      then show ?thesis by (simp only:) (rule accounts_ok_rewrite [OF ok gu]; simp add: keys)
    next
      case hashed
      then show ?thesis by (simp only:) (rule accounts_ok_rewrite [OF ok gu]; simp add: keys)
    next
      case refused
      with ok t show ?thesis by simp
    qed
  qed
qed

lemma accounts_ok_create:
  assumes "accounts_ok s" "rq_new_id rq \<notin> us_id ` set (si_users s)"
  shows "accounts_ok (fst (create_user env rq p s))"
proof (cases "filter (\<lambda>u. py_lower (us_email u) = py_lower (py_strip (uc_email p))) (si_users s) = []")
  case True
  with assms show ?thesis
    by (auto simp: create_user_def Let_def one_or_none_def split: sum.split intro!: accounts_ok_new_user)
next
  case False
  with assms(1) show ?thesis
    by (auto simp: create_user_def Let_def one_or_none_def split: list.split)
qed

lemma accounts_ok_register:
  assumes "accounts_ok s" "new_id \<notin> us_id ` set (si_users s)"
  shows "accounts_ok (s\<lparr>si_users := fst (register env now jtis new_id name email password (si_users s))\<rparr>)"
proof (cases "filter (\<lambda>u. py_lower (us_email u) = py_lower (py_strip email)) (si_users s) = []")
  case True
  with assms show ?thesis
    by (auto simp: register_def Let_def get_by_email_def one_or_none_def split: sum.split intro!: accounts_ok_new_user)
next
  case False
  then have "fst (register env now jtis new_id name email password (si_users s)) = si_users s"
    by (auto simp: register_def get_by_email_def one_or_none_def split: list.split)
  with assms(1) show ?thesis by simp
qed

lemma accounts_ok_delete: "act_inv accounts_ok (delete_user i)"
  unfolding delete_user_def
  by (intro act_inv_bind accounts_ok_reads) (auto simp: act_inv_def on_site_def accounts_ok_forget)

lemma accounts_ok_bulk: "act_inv accounts_ok (bulk_users rq a ids)"
proof -
  have "accounts_ok (s\<lparr>si_users := map (bulk_status rq st ids) (si_users s)\<rparr>)" if "accounts_ok s" for s st
    using that by (intro accounts_ok_same_keys) (auto simp: bulk_status_def)
  then show ?thesis by (simp add: act_inv_def bulk_users_def Let_def accounts_ok_forget)
qed

lemma accounts_ok_subscribe: "act_inv accounts_ok (create_subscription rq p)"
proof (rule act_invI)
  fix s assume ok: "accounts_ok s"
  obtain t r where g: "get_user (sc_user_id p) s = (t, r)" by (cases "get_user (sc_user_id p) s")
  show "accounts_ok (fst (create_subscription rq p s))"
  proof (cases r)
    case (Inl e)
    with g ok get_user_Inl show ?thesis by (auto simp: create_subscription_def abind_def)
  next
    case (Inr u)
    with g have "get_user (sc_user_id p) s = (t, Inr u)" by simp
    from get_user_Inr [OF this] have "sc_user_id p \<in> us_id ` set (si_users s)" "us_id u = sc_user_id p" "t = s"
      by (metis imageI)+
    with g Inr ok show ?thesis
      by (auto simp: create_subscription_def abind_def on_site_def areturn_def Let_def accounts_ok_def
          references_ok_def intro!: accounts_ok_subscriptions)
  qed
qed

lemma accounts_ok_update_subscription: "act_inv accounts_ok (update_subscription i p)"
proof (rule act_invI)
  fix s assume ok: "accounts_ok s"
  show "accounts_ok (fst (update_subscription i p s))"
  proof (cases "get_row sb_id ''Subscription not found.'' i (si_subscriptions s)")
    case (Inl e)
    with ok show ?thesis by (simp add: update_subscription_def abind_def fetch_def)
  next
    case (Inr b)
    then have "b \<in> set (si_subscriptions s)" by (rule get_row_InrD [THEN conjunct1])
    with ok have "sb_user_id b \<in> us_id ` set (si_users s)"
      by (auto simp: accounts_ok_def references_ok_def Let_def)
    with ok Inr show ?thesis
      by (auto simp: update_subscription_def abind_def fetch_def on_site_def areturn_def set_row_def
          updated_subscription_def accounts_ok_def references_ok_def Let_def)
  qed
qed

lemma accounts_ok_unsubscribe: "act_inv accounts_ok (delete_subscription i)"
  by (auto simp: act_inv_def delete_subscription_def abind_def fetch_def on_site_def delete_row_def
      accounts_ok_def references_ok_def Let_def split: sum.split)

section \<open>Histories of requests\<close>

text \<open>The requests that change accounts or subscriptions, public registration included.\<close>

datatype account_request =
    Register string string string "string \<times> string"
  | Create user_create
  | Update nat user_update
  | Suspend nat
  | Activate nat
  | Delete nat
  | Bulk string "nat list"
  | Subscribe subscription_create
  | Resubscribe nat subscription_update
  | Unsubscribe nat

definition serve :: "auth_env \<Rightarrow> request \<Rightarrow> account_request \<Rightarrow> site \<Rightarrow> site" where
  "serve env rq c s =
     (case c of
        Register name email password jtis \<Rightarrow>
          s\<lparr>si_users := fst (register env (rq_now rq) jtis (rq_new_id rq) name email password (si_users s))\<rparr>
      | Create p \<Rightarrow> fst (create_user_endpoint env rq p s)
      | Update i p \<Rightarrow> fst (update_user_endpoint env rq i p s)
      | Suspend i \<Rightarrow> fst (suspend_user_endpoint rq i s)
      | Activate i \<Rightarrow> fst (activate_user_endpoint rq i s)
      | Delete i \<Rightarrow> fst (delete_user_endpoint rq i s)
      | Bulk a ids \<Rightarrow> fst (bulk_users_endpoint rq a ids s)
      | Subscribe p \<Rightarrow> fst (create_subscription_endpoint rq p s)
      | Resubscribe i p \<Rightarrow> fst (update_subscription_endpoint rq i p s)
      | Unsubscribe i \<Rightarrow> fst (delete_subscription_endpoint rq i s))"

text \<open>A history of requests, each with its own circumstances; UUIDs drawn for new rows are new.\<close>

fun serve_all :: "auth_env \<Rightarrow> (request \<times> account_request) list \<Rightarrow> site \<Rightarrow> site" where
  "serve_all env [] s = s"
| "serve_all env ((rq, c) # cs) s = serve_all env cs (serve env rq c s)"

fun fresh_ids :: "auth_env \<Rightarrow> (request \<times> account_request) list \<Rightarrow> site \<Rightarrow> bool" where
  "fresh_ids env [] s = True"
| "fresh_ids env ((rq, c) # cs) s =
     (rq_new_id rq \<notin> us_id ` set (si_users s) \<and> fresh_ids env cs (serve env rq c s))"

lemma accounts_ok_user_endpoint:
  "act_inv accounts_ok act \<Longrightarrow> act_inv accounts_ok (user_endpoint rq act a c m)"
  unfolding user_endpoint_def by (intro act_inv_bind accounts_ok_audited accounts_ok_reads)

lemma accounts_ok_subscription_endpoint:
  "act_inv accounts_ok act \<Longrightarrow> act_inv accounts_ok (subscription_endpoint rq act a m)"
  unfolding subscription_endpoint_def
  by (intro act_inv_bind accounts_ok_audited accounts_ok_reads act_inv_pure)

lemma fst_audited_cases: "fst (audited rq act e s) = fst (act s) \<or> (\<exists>x. fst (audited rq act e s) = fst (audit rq x (fst (act s))))"
  by (cases "act s"; cases "snd (act s)") (auto simp: audited_Inl audited_Inr)

lemma user_detail_state: "fst (user_detail i s) = s"
  by (auto simp: user_detail_def get_user_def fetch_def abind_def split: sum.split)

lemma fst_user_endpoint: "fst (user_endpoint rq act a c m s)
    = fst (audited rq act (\<lambda>u. user_entry a c m (us_email u) (us_id u)) s)"
  by (auto simp: user_endpoint_def abind_def user_detail_state split: prod.split sum.split)

lemma accounts_ok_audited_state:
  "accounts_ok (fst (act s)) \<Longrightarrow> accounts_ok (fst (audited rq act e s))"
  using fst_audited_cases [of rq act e s] by auto

lemma serve_accounts_ok:
  assumes ok: "accounts_ok s" and new: "rq_new_id rq \<notin> us_id ` set (si_users s)"
  shows "accounts_ok (serve env rq c s)"
proof (cases c)
  case (Register n e p j)
  with ok new show ?thesis by (simp add: serve_def accounts_ok_register)
next
  case (Create p)
  have "accounts_ok (fst (create_user env rq p s))" using ok new by (rule accounts_ok_create)
  then have "accounts_ok (fst (create_user_endpoint env rq p s))"
    unfolding create_user_endpoint_def fst_user_endpoint by (rule accounts_ok_audited_state)
  with Create show ?thesis by (simp add: serve_def)
next
  case (Update i p)
  then show ?thesis
    using act_invD [OF accounts_ok_user_endpoint [OF accounts_ok_update] ok]
    by (simp add: serve_def update_user_endpoint_def)
next
  case (Suspend i)
  then show ?thesis
    using act_invD [OF accounts_ok_user_endpoint [OF accounts_ok_status] ok] ok
    by (simp add: serve_def suspend_user_endpoint_def aresult_def)
next
  case (Activate i)
  then show ?thesis
    using act_invD [OF accounts_ok_user_endpoint [OF accounts_ok_status] ok]
    by (simp add: serve_def activate_user_endpoint_def)
next
  case (Delete i)
  have "act_inv accounts_ok (delete_user_endpoint rq i)"
    unfolding delete_user_endpoint_def
    by (intro act_inv_if act_inv_pure act_inv_bind accounts_ok_reads accounts_ok_audited accounts_ok_delete)
  with Delete ok show ?thesis by (simp add: serve_def act_invD)
next
  case (Bulk a ids)
  have "act_inv accounts_ok (bulk_users_endpoint rq a ids)"
    unfolding bulk_users_endpoint_def by (intro act_inv_if act_inv_pure accounts_ok_audited accounts_ok_bulk)
  with Bulk ok show ?thesis by (simp add: serve_def act_invD)
next
  case (Subscribe p)
  then show ?thesis
    using act_invD [OF accounts_ok_subscription_endpoint [OF accounts_ok_subscribe] ok]
    by (simp add: serve_def create_subscription_endpoint_def)
next
  case (Resubscribe i p)
  then show ?thesis
    using act_invD [OF accounts_ok_subscription_endpoint [OF accounts_ok_update_subscription] ok]
    by (simp add: serve_def update_subscription_endpoint_def)
next
  case (Unsubscribe i)
  then show ?thesis
    using act_invD [OF accounts_ok_audited [OF accounts_ok_unsubscribe] ok]
    by (simp add: serve_def delete_subscription_endpoint_def)
qed


section \<open>The acting administrator\<close>

definition can_administrate :: "nat \<Rightarrow> user list \<Rightarrow> bool" where
  "can_administrate i us \<longleftrightarrow> (\<exists>u \<in> set us. us_id u = i \<and> us_is_admin u \<and> us_status u \<noteq> ''suspended'')"

lemma can_administrate_map:
  assumes "can_administrate i us"
    and "\<And>u. us_id u = i \<Longrightarrow> us_id (f u) = i \<and> us_is_admin (f u) = us_is_admin u
          \<and> (us_status u \<noteq> ''suspended'' \<longrightarrow> us_status (f u) \<noteq> ''suspended'')"
  shows "can_administrate i (map f us)"
proof -
  from assms(1) obtain u where u: "u \<in> set us" "us_id u = i" "us_is_admin u" "us_status u \<noteq> ''suspended''"
    unfolding can_administrate_def by blast
  then have "f u \<in> set (map f us)" "us_id (f u) = i" "us_is_admin (f u)" "us_status (f u) \<noteq> ''suspended''"
    using assms(2) [OF u(2)] by auto
  then show ?thesis unfolding can_administrate_def by blast
qed

lemma can_administrate_forget: "can_administrate i us \<Longrightarrow> i \<notin> gone \<Longrightarrow> can_administrate i (filter (\<lambda>u. us_id u \<notin> gone) us)"
  by (auto simp: can_administrate_def)

lemma touched_fields [simp]:
  "us_is_admin (touched now u new) = us_is_admin new" "us_status (touched now u new) = us_status new"
  by (auto simp: touched_def)

lemma audited_users: "si_users (fst (audited rq act e s)) = si_users (fst (act s))"
  using fst_audited_cases [of rq act e s] by auto

lemma status_users:
  "si_users (fst (set_user_status rq i st s)) = si_users s
   \<or> (\<exists>u \<in> set (si_users s). us_id u = i \<and> si_users (fst (set_user_status rq i st s))
        = set_row us_id (touched (rq_now rq) u (u\<lparr>us_status := st\<rparr>)) (si_users s))"
  by (cases "get_row us_id ''User not found.'' i (si_users s)")
    (auto simp: set_user_status_def abind_def get_user_def fetch_def Let_def write_user_def on_site_def
      areturn_def dest: get_row_InrD)

text \<open>
  C39: An administrator cannot lock himself out by suspending or deleting: whatever accounts he
  suspends, activates or deletes, one by one or in bulk, his own account remains, remains an
  administrator's and is not suspended. (Only the general update can take these rights away.)
\<close>

theorem administrator_keeps_access:
  assumes "can_administrate (us_id (rq_admin rq)) (si_users s)" "distinct (map us_id (si_users s))"
    and "c = Suspend i \<or> c = Activate i \<or> c = Delete i \<or> c = Bulk a ids"
  shows "can_administrate (us_id (rq_admin rq)) (si_users (serve env rq c s))"
proof -
  let ?me = "us_id (rq_admin rq)"
  have one: "can_administrate ?me (si_users (fst (set_user_status rq i st s)))"
    if "i = ?me \<Longrightarrow> st \<noteq> ''suspended''" for st
  proof -
    consider (same) "si_users (fst (set_user_status rq i st s)) = si_users s"
      | (new) u where "u \<in> set (si_users s)" "us_id u = i"
          "si_users (fst (set_user_status rq i st s)) = set_row us_id (touched (rq_now rq) u (u\<lparr>us_status := st\<rparr>)) (si_users s)"
      using status_users [of rq i st s] by blast
    then show ?thesis
    proof cases
      case new
      have "x = u" if "x \<in> set (si_users s)" "us_id x = i" for x
        using assms(2) new(1,2) that by (auto simp: distinct_map dest: inj_onD)
      then have "set_row us_id (touched (rq_now rq) u (u\<lparr>us_status := st\<rparr>)) (si_users s)
          = map (\<lambda>x. if us_id x = i then touched (rq_now rq) x (x\<lparr>us_status := st\<rparr>) else x) (si_users s)"
        using new(2) by (auto simp: set_row_def)
      then show ?thesis
        unfolding new(3) using that by (auto intro!: can_administrate_map [OF assms(1)] split: if_splits)
    qed (use assms(1) in simp)
  qed
  from assms(3) consider "c = Suspend i" | "c = Activate i" | "c = Delete i" | "c = Bulk a ids" by blast
  then show ?thesis
  proof cases
    case 1
    with one [of "''suspended''"] assms(1) show ?thesis
      by (auto simp: serve_def suspend_user_endpoint_def aresult_def fst_user_endpoint audited_users)
  next
    case 2
    with one [of "''active''"] show ?thesis
      by (auto simp: serve_def activate_user_endpoint_def fst_user_endpoint audited_users)
  next
    case 3
    with assms(1) can_administrate_forget [OF assms(1), of "{i}"] show ?thesis
      by (auto simp: serve_def delete_user_endpoint_def aresult_def abind_def get_user_def fetch_def
          audited_users delete_user_def on_site_def forget_users_def split: sum.split)
  next
    case 4
    have "can_administrate ?me (map (bulk_status rq st ids) (si_users s))"
      if "?me \<in> set ids \<Longrightarrow> st \<noteq> ''suspended''" for st
      using that by (intro can_administrate_map [OF assms(1)]) (auto simp: bulk_status_def)
    with 4 assms(1) can_administrate_forget [OF assms(1), of "set ids"] show ?thesis
      by (auto simp: serve_def bulk_users_endpoint_def aresult_def audited_users bulk_users_def Let_def
          forget_users_def)
  qed
qed

text \<open>The update has no such guard: the last administrator can drop his own flag.\<close>

lemma update_can_lock_out:
  assumes "si_users s = [u]" "us_id u = us_id (rq_admin rq)"
  shows "\<not> can_administrate (us_id u) (si_users (serve env rq
    (Update (us_id u) \<lparr>uu_name = None, uu_plan = None, uu_status = None, uu_is_admin = Some False, uu_password = None\<rparr>) s))"
  using assms
  by (simp add: serve_def update_user_endpoint_def fst_user_endpoint audited_users update_user_def abind_def
      get_user_def fetch_def get_row_def text_given_def write_user_def on_site_def areturn_def set_row_def
      updated_user_def default_to_def can_administrate_def)

section \<open>A concrete history\<close>

definition sample_site :: site where
  "sample_site =
     \<lparr>si_db = \<lparr>db_files = [], db_jobs = [], db_links = [], db_visits = []\<rparr>,
      si_users = [sample_user], si_subscriptions = [], si_feedback = [],
      si_messages = [], si_announcements = [], si_faqs = [], si_posts = [], si_pages = [], si_tools = [],
      si_settings = [], si_audit = [], si_errors = []\<rparr>"

definition sample_admin_request :: "nat \<Rightarrow> request" where
  "sample_admin_request i =
     \<lparr>rq_admin = sample_user, rq_now = 5, rq_ip = None, rq_new_id = i, rq_audit_id = i\<rparr>"

lemma sample_site_ok: "accounts_ok sample_site"
  by (simp add: accounts_ok_def users_ok_def references_ok_def sample_site_def sample_user_def py_lower_def
      lower_char_def is_upper_def char_code_def)


theorem administrator_keeps_access_witness:
  "can_administrate (us_id sample_user) (si_users (serve plain_auth_env (sample_admin_request 77) (Bulk ''suspend'' [us_id sample_user, 8]) sample_site))"
  using administrator_keeps_access [of "sample_admin_request 77" sample_site "Bulk ''suspend'' [us_id sample_user, 8]" 0 "''suspend''" "[us_id sample_user, 8]" plain_auth_env]
  by (simp add: sample_admin_request_def sample_site_def can_administrate_def sample_user_def)

end
