(* ===== verification/AdminContent.thy ===== *)
theory AdminContent
  imports AdminState
begin

text \<open>
  The website content in the admin panel: the sections of \<open>AdminService\<close> on tools, feedback,
  messages, announcements, FAQs, posts, pages and the logs, with the endpoints of
  \<open>app/api/v1/endpoints/admin/\<close> \<open>website.py\<close>, \<open>support.py\<close>, \<open>tools.py\<close> and \<open>monitoring.py\<close>.

  A duplicate slug violates the unique constraint of its column: the commit raises and the row
  stays as it was. The list queries order by a time, newest first, unless said otherwise.
\<close>

section \<open>Lists and rows\<close>

definition newest :: "('r \<Rightarrow> int) \<Rightarrow> 'r list \<Rightarrow> 'r list" where
  "newest created rows = order_desc (\<lambda>r. Some (created r)) rows"

definition quote1 :: "string \<Rightarrow> string" where
  "quote1 s = [CHR 0x27] @ s @ [CHR 0x27]"

definition id_entry :: "string \<Rightarrow> string \<Rightarrow> string \<Rightarrow> nat \<Rightarrow> audit_entry" where
  "id_entry action summary entity i = entry action summary (Some entity) (Some (uuid_str i))"

definition integrity_error :: py_exc where
  "integrity_error = OtherError ''IntegrityError'' ''duplicate key value violates unique constraint''"

definition change ::
  "('r \<Rightarrow> nat) \<Rightarrow> (site \<Rightarrow> 'r list) \<Rightarrow> ('r list \<Rightarrow> site \<Rightarrow> site) \<Rightarrow> string \<Rightarrow> nat \<Rightarrow> ('r \<Rightarrow> 'r) \<Rightarrow> (site, 'r) action" where
  "change key table put message i f =
     abind (fetch key table message i) (\<lambda>r.
     abind (on_site (\<lambda>s. put (set_row key (f r) (table s)) s)) (\<lambda>_. areturn (f r)))"

definition remove ::
  "('r \<Rightarrow> nat) \<Rightarrow> (site \<Rightarrow> 'r list) \<Rightarrow> ('r list \<Rightarrow> site \<Rightarrow> site) \<Rightarrow> string \<Rightarrow> nat \<Rightarrow> (site, unit) action" where
  "remove key table put message i =
     abind (fetch key table message i) (\<lambda>_.
       on_site (\<lambda>s. put (delete_row key i (table s)) s))"

definition insert_row :: "(site \<Rightarrow> 'r list) \<Rightarrow> ('r list \<Rightarrow> site \<Rightarrow> site) \<Rightarrow> 'r \<Rightarrow> (site, 'r) action" where
  "insert_row table put r s = (put (table s @ [r]) s, Inr r)"

text \<open>The tables as places that can be written.\<close>

definition put_feedback :: "feedback list \<Rightarrow> site \<Rightarrow> site" where
  "put_feedback xs s = s\<lparr>si_feedback := xs\<rparr>"
definition put_messages :: "contact_message list \<Rightarrow> site \<Rightarrow> site" where
  "put_messages xs s = s\<lparr>si_messages := xs\<rparr>"
definition put_announcements :: "announcement list \<Rightarrow> site \<Rightarrow> site" where
  "put_announcements xs s = s\<lparr>si_announcements := xs\<rparr>"
definition put_faqs :: "faq list \<Rightarrow> site \<Rightarrow> site" where
  "put_faqs xs s = s\<lparr>si_faqs := xs\<rparr>"
definition put_posts :: "blog_post list \<Rightarrow> site \<Rightarrow> site" where
  "put_posts xs s = s\<lparr>si_posts := xs\<rparr>"
definition put_pages :: "content_page list \<Rightarrow> site \<Rightarrow> site" where
  "put_pages xs s = s\<lparr>si_pages := xs\<rparr>"
definition put_tools :: "tool_config list \<Rightarrow> site \<Rightarrow> site" where
  "put_tools xs s = s\<lparr>si_tools := xs\<rparr>"
definition put_errors :: "error_log list \<Rightarrow> site \<Rightarrow> site" where
  "put_errors xs s = s\<lparr>si_errors := xs\<rparr>"

lemmas put_defs = put_feedback_def put_messages_def put_announcements_def put_faqs_def
  put_posts_def put_pages_def put_tools_def put_errors_def

section \<open>Tools\<close>

record tool_config_row =
  tr_config :: tool_config
  tr_usage :: nat

record tool_config_update =
  tu_enabled :: "bool option"
  tu_visible :: "bool option"
  tu_maintenance :: "bool option"
  tu_file_limit_mb :: "int option"

definition list_tools :: "(string \<Rightarrow> int) \<Rightarrow> site \<Rightarrow> tool_config_row list" where
  "list_tools rank s =
     map (\<lambda>t. \<lparr>tr_config = t, tr_usage = length (filter (\<lambda>j. j_tool j = tc_slug t) (db_jobs (si_db s)))\<rparr>)
       (sort_key (\<lambda>t. tc_sort_order t) (sort_key (\<lambda>t. rank (tc_name t)) (si_tools s)))"

definition updated_tool :: "tool_config_update \<Rightarrow> tool_config \<Rightarrow> tool_config" where
  "updated_tool p t =
     t\<lparr>tc_enabled := default_to (tc_enabled t) (tu_enabled p),
       tc_visible := default_to (tc_visible t) (tu_visible p),
       tc_maintenance := default_to (tc_maintenance t) (tu_maintenance p),
       tc_file_limit_mb := default_to (tc_file_limit_mb t) (tu_file_limit_mb p)\<rparr>"

definition update_tool :: "string \<Rightarrow> tool_config_update \<Rightarrow> (site, tool_config) action" where
  "update_tool slug p s =
     (case one_or_none (filter (\<lambda>t. tc_slug t = slug) (si_tools s)) of
        Inl e \<Rightarrow> (s, Inl e)
      | Inr None \<Rightarrow> (s, raise_app (BaseE NotFoundError) ''Tool not found.'')
      | Inr (Some t) \<Rightarrow> (put_tools (set_row tc_id (updated_tool p t) (si_tools s)) s, Inr (updated_tool p t)))"

definition update_tool_endpoint ::
  "(string \<Rightarrow> int) \<Rightarrow> request \<Rightarrow> string \<Rightarrow> tool_config_update \<Rightarrow> (site, tool_config_row) action" where
  "update_tool_endpoint rank rq slug p =
     abind (audited rq (update_tool slug p)
              (\<lambda>t. entry ''tool.update'' (''Updated tool '' @ tc_name t) (Some ''tool'') (Some (tc_slug t))))
       (\<lambda>t s. (s, Inr (case find (\<lambda>r. tc_slug (tr_config r) = slug) (list_tools rank s) of
          Some r \<Rightarrow> r | None \<Rightarrow> \<lparr>tr_config = t, tr_usage = 0\<rparr>)))"

section \<open>Feedback and messages\<close>

definition list_feedback ::
  "page_params \<Rightarrow> string option \<Rightarrow> string option \<Rightarrow> site \<Rightarrow> (py_exc, feedback list \<times> nat) result" where
  "list_feedback page category q s =
     (case (if text_given category then map_option Some (parse_category (the category)) else Some None) of
        None \<Rightarrow> Inl (OtherError ''DBAPIError'' ''invalid input value for enum'')
      | Some wanted \<Rightarrow>
          Inr (listing page id
            (newest fb_created_at
              (filter (\<lambda>f. (case wanted of None \<Rightarrow> True | Some c \<Rightarrow> fb_category f = c)
                  \<and> search q [Some (fb_name f), Some (fb_email f), Some (fb_message f)]) (si_feedback s)))))"

definition feedback_stats :: "site \<Rightarrow> (feedback_category \<times> nat) list \<times> nat" where
  "feedback_stats s =
     (let groups = map (\<lambda>c. (c, length (filter (\<lambda>f. fb_category f = c) (si_feedback s))))
            (remdups (map fb_category (si_feedback s)))
      in (groups, sum_list (map snd groups)))"

definition delete_feedback :: "nat \<Rightarrow> (site, unit) action" where
  "delete_feedback = remove fb_id si_feedback put_feedback ''Feedback not found.''"

definition delete_feedback_endpoint :: "request \<Rightarrow> nat \<Rightarrow> (site, unit) action" where
  "delete_feedback_endpoint rq i =
     audited rq (delete_feedback i) (\<lambda>_. id_entry ''feedback.delete'' ''Deleted feedback'' ''feedback'' i)"

definition list_messages :: "page_params \<Rightarrow> string option \<Rightarrow> bool option \<Rightarrow> site \<Rightarrow> contact_message list \<times> nat" where
  "list_messages page q unread s =
     listing page id
       (newest cm_created_at
         (filter (\<lambda>m. search q [Some (cm_name m), Some (cm_email m), cm_subject m]
             \<and> (unread = Some True \<longrightarrow> \<not> cm_is_read m)) (si_messages s)))"

definition get_message :: "nat \<Rightarrow> (site, contact_message) action" where
  "get_message = fetch cm_id si_messages ''Message not found.''"

definition mark_message_read :: "nat \<Rightarrow> bool \<Rightarrow> (site, contact_message) action" where
  "mark_message_read i read =
     change cm_id si_messages put_messages ''Message not found.'' i (\<lambda>m. m\<lparr>cm_is_read := read\<rparr>)"

definition reply_message :: "int \<Rightarrow> nat \<Rightarrow> string \<Rightarrow> (site, contact_message) action" where
  "reply_message now i reply =
     change cm_id si_messages put_messages ''Message not found.'' i
       (\<lambda>m. m\<lparr>cm_reply := Some reply, cm_replied_at := Some now, cm_is_read := True\<rparr>)"

definition delete_message :: "nat \<Rightarrow> (site, unit) action" where
  "delete_message = remove cm_id si_messages put_messages ''Message not found.''"

definition unread_message_count :: "site \<Rightarrow> nat" where
  "unread_message_count s = length (filter (\<lambda>m. \<not> cm_is_read m) (si_messages s))"

definition reply_message_endpoint :: "request \<Rightarrow> nat \<Rightarrow> string \<Rightarrow> (site, contact_message) action" where
  "reply_message_endpoint rq i reply =
     audited rq (reply_message (rq_now rq) i reply)
       (\<lambda>m. id_entry ''message.reply'' (''Replied to '' @ cm_email m) ''message'' (cm_id m))"

definition delete_message_endpoint :: "request \<Rightarrow> nat \<Rightarrow> (site, unit) action" where
  "delete_message_endpoint rq i =
     audited rq (delete_message i) (\<lambda>_. id_entry ''message.delete'' ''Deleted message'' ''message'' i)"

section \<open>Announcements\<close>

record announcement_upsert =
  au_title :: string
  au_body :: string
  au_status :: string
  au_audience :: string

text \<open>When an upsert publishes: the time is set at the first publication and kept afterwards.\<close>

definition published_at :: "int \<Rightarrow> string \<Rightarrow> string \<Rightarrow> int option \<Rightarrow> int option" where
  "published_at now before status at =
     (if status = ''published'' \<and> before \<noteq> ''published'' then Some now else at)"

definition list_announcements :: "page_params \<Rightarrow> string option \<Rightarrow> site \<Rightarrow> announcement list \<times> nat" where
  "list_announcements page q s =
     listing page id
       (newest an_created_at (filter (\<lambda>a. search q [Some (an_title a), Some (an_body a)]) (si_announcements s)))"

definition create_announcement :: "request \<Rightarrow> announcement_upsert \<Rightarrow> (site, announcement) action" where
  "create_announcement rq p =
     insert_row si_announcements put_announcements
       \<lparr>an_id = rq_new_id rq, an_title = au_title p, an_body = au_body p, an_status = au_status p,
        an_audience = au_audience p, an_author_id = Some (us_id (rq_admin rq)),
        an_published_at = (if au_status p = ''published'' then Some (rq_now rq) else None),
        an_created_at = rq_now rq\<rparr>"

definition update_announcement :: "request \<Rightarrow> nat \<Rightarrow> announcement_upsert \<Rightarrow> (site, announcement) action" where
  "update_announcement rq i p =
     change an_id si_announcements put_announcements ''Announcement not found.'' i (\<lambda>a.
       a\<lparr>an_title := au_title p, an_body := au_body p, an_status := au_status p, an_audience := au_audience p,
         an_published_at := published_at (rq_now rq) (an_status a) (au_status p) (an_published_at a)\<rparr>)"

definition delete_announcement :: "nat \<Rightarrow> (site, unit) action" where
  "delete_announcement = remove an_id si_announcements put_announcements ''Announcement not found.''"

definition create_announcement_endpoint :: "request \<Rightarrow> announcement_upsert \<Rightarrow> (site, announcement) action" where
  "create_announcement_endpoint rq p =
     audited rq (create_announcement rq p)
       (\<lambda>a. id_entry ''announcement.create'' (''Created '' @ quote1 (an_title a)) ''announcement'' (an_id a))"

definition update_announcement_endpoint :: "request \<Rightarrow> nat \<Rightarrow> announcement_upsert \<Rightarrow> (site, announcement) action" where
  "update_announcement_endpoint rq i p =
     audited rq (update_announcement rq i p)
       (\<lambda>a. id_entry ''announcement.update'' (''Updated '' @ quote1 (an_title a)) ''announcement'' (an_id a))"

definition delete_announcement_endpoint :: "request \<Rightarrow> nat \<Rightarrow> (site, unit) action" where
  "delete_announcement_endpoint rq i =
     audited rq (delete_announcement i)
       (\<lambda>_. id_entry ''announcement.delete'' ''Deleted announcement'' ''announcement'' i)"

section \<open>FAQs\<close>

record faq_upsert =
  fu_question :: string
  fu_answer :: string
  fu_category :: "string option"
  fu_sort_order :: int
  fu_published :: bool

definition list_faqs :: "page_params \<Rightarrow> string option \<Rightarrow> site \<Rightarrow> faq list \<times> nat" where
  "list_faqs page q s =
     listing page id
       (sort_key (\<lambda>f. fq_sort_order f) (sort_key (\<lambda>f. fq_created_at f)
         (filter (\<lambda>f. search q [Some (fq_question f), Some (fq_answer f)]) (si_faqs s))))"

definition create_faq :: "request \<Rightarrow> faq_upsert \<Rightarrow> (site, faq) action" where
  "create_faq rq p =
     insert_row si_faqs put_faqs
       \<lparr>fq_id = rq_new_id rq, fq_question = fu_question p, fq_answer = fu_answer p,
        fq_category = fu_category p, fq_sort_order = fu_sort_order p, fq_published = fu_published p,
        fq_created_at = rq_now rq\<rparr>"

definition update_faq :: "nat \<Rightarrow> faq_upsert \<Rightarrow> (site, faq) action" where
  "update_faq i p =
     change fq_id si_faqs put_faqs ''FAQ not found.'' i (\<lambda>f.
       f\<lparr>fq_question := fu_question p, fq_answer := fu_answer p, fq_category := fu_category p,
         fq_sort_order := fu_sort_order p, fq_published := fu_published p\<rparr>)"

definition delete_faq :: "nat \<Rightarrow> (site, unit) action" where
  "delete_faq = remove fq_id si_faqs put_faqs ''FAQ not found.''"

definition create_faq_endpoint :: "request \<Rightarrow> faq_upsert \<Rightarrow> (site, faq) action" where
  "create_faq_endpoint rq p =
     audited rq (create_faq rq p) (\<lambda>f. id_entry ''faq.create'' ''Created FAQ'' ''faq'' (fq_id f))"

definition update_faq_endpoint :: "request \<Rightarrow> nat \<Rightarrow> faq_upsert \<Rightarrow> (site, faq) action" where
  "update_faq_endpoint rq i p =
     audited rq (update_faq i p) (\<lambda>f. id_entry ''faq.update'' ''Updated FAQ'' ''faq'' (fq_id f))"

definition delete_faq_endpoint :: "request \<Rightarrow> nat \<Rightarrow> (site, unit) action" where
  "delete_faq_endpoint rq i =
     audited rq (delete_faq i) (\<lambda>_. id_entry ''faq.delete'' ''Deleted FAQ'' ''faq'' i)"

section \<open>Slugs\<close>

definition slug_char :: "char \<Rightarrow> bool" where
  "slug_char c \<longleftrightarrow> is_digit c \<or> (let n = char_code c in 97 \<le> n \<and> n \<le> 122)"

text \<open>\<open>re.sub(r"[^a-z0-9]+", "-", s)\<close>.\<close>

fun dashed :: "bool \<Rightarrow> string \<Rightarrow> string" where
  "dashed in_run [] = []"
| "dashed in_run (c # cs) =
     (if slug_char c then c # dashed False cs
      else if in_run then dashed True cs else CHR ''-'' # dashed True cs)"

text \<open>\<open>_slugify\<close>; \<open>hex\<close> is the fresh \<open>uuid4().hex\<close>.\<close>

definition slugify :: "string \<Rightarrow> string \<Rightarrow> string" where
  "slugify hex v =
     py_or (strip_by (\<lambda>c. c = CHR ''-'') (dashed False (py_lower (py_strip v)))) (take 8 hex)"

section \<open>Posts and pages\<close>

record blog_upsert =
  bu_title :: string
  bu_slug :: "string option"
  bu_excerpt :: "string option"
  bu_content :: string
  bu_status :: string
  bu_cover_image :: "string option"

definition list_blog :: "page_params \<Rightarrow> string option \<Rightarrow> site \<Rightarrow> blog_post list \<times> nat" where
  "list_blog page q s =
     listing page id
       (newest bp_created_at (filter (\<lambda>p. search q [Some (bp_title p), bp_excerpt p]) (si_posts s)))"

definition create_blog :: "string \<Rightarrow> request \<Rightarrow> blog_upsert \<Rightarrow> (site, blog_post) action" where
  "create_blog hex rq p s =
     (let slug = (if text_given (bu_slug p) then the (bu_slug p) else slugify hex (bu_title p)) in
      if slug \<in> bp_slug ` set (si_posts s) then (s, Inl integrity_error)
      else insert_row si_posts put_posts
        \<lparr>bp_id = rq_new_id rq, bp_title = bu_title p, bp_slug = slug, bp_excerpt = bu_excerpt p,
         bp_content = bu_content p, bp_status = bu_status p, bp_cover_image = bu_cover_image p,
         bp_author_id = Some (us_id (rq_admin rq)), bp_views = 0,
         bp_published_at = (if bu_status p = ''published'' then Some (rq_now rq) else None),
         bp_created_at = rq_now rq\<rparr> s)"

definition updated_post :: "int \<Rightarrow> blog_upsert \<Rightarrow> blog_post \<Rightarrow> blog_post" where
  "updated_post now p post =
     post\<lparr>bp_title := bu_title p,
       bp_slug := (if text_given (bu_slug p) then the (bu_slug p) else bp_slug post),
       bp_excerpt := bu_excerpt p, bp_content := bu_content p, bp_status := bu_status p,
       bp_cover_image := bu_cover_image p,
       bp_published_at := published_at now (bp_status post) (bu_status p) (bp_published_at post)\<rparr>"

definition update_blog :: "request \<Rightarrow> nat \<Rightarrow> blog_upsert \<Rightarrow> (site, blog_post) action" where
  "update_blog rq i p =
     abind (fetch bp_id si_posts ''Post not found.'' i) (\<lambda>post s.
       let new = updated_post (rq_now rq) p post in
       if bp_slug new \<in> bp_slug ` set (filter (\<lambda>x. bp_id x \<noteq> i) (si_posts s)) then (s, Inl integrity_error)
       else (put_posts (set_row bp_id new (si_posts s)) s, Inr new))"

definition delete_blog :: "nat \<Rightarrow> (site, unit) action" where
  "delete_blog = remove bp_id si_posts put_posts ''Post not found.''"

definition create_blog_endpoint :: "string \<Rightarrow> request \<Rightarrow> blog_upsert \<Rightarrow> (site, blog_post) action" where
  "create_blog_endpoint hex rq p =
     audited rq (create_blog hex rq p)
       (\<lambda>b. id_entry ''blog.create'' (''Created post '' @ quote1 (bp_title b)) ''blog'' (bp_id b))"

definition update_blog_endpoint :: "request \<Rightarrow> nat \<Rightarrow> blog_upsert \<Rightarrow> (site, blog_post) action" where
  "update_blog_endpoint rq i p =
     audited rq (update_blog rq i p)
       (\<lambda>b. id_entry ''blog.update'' (''Updated post '' @ quote1 (bp_title b)) ''blog'' (bp_id b))"

definition delete_blog_endpoint :: "request \<Rightarrow> nat \<Rightarrow> (site, unit) action" where
  "delete_blog_endpoint rq i =
     audited rq (delete_blog i) (\<lambda>_. id_entry ''blog.delete'' ''Deleted post'' ''blog'' i)"

record page_upsert =
  pu_title :: string
  pu_slug :: "string option"
  pu_path :: string
  pu_content :: "string option"
  pu_status :: string
  pu_meta_title :: "string option"
  pu_meta_description :: "string option"

definition list_pages :: "page_params \<Rightarrow> string option \<Rightarrow> site \<Rightarrow> content_page list \<times> nat" where
  "list_pages page q s =
     listing page id
       (sort_key (\<lambda>p. cg_created_at p) (filter (\<lambda>p. search q [Some (cg_title p), Some (cg_path p)]) (si_pages s)))"

definition create_page :: "string \<Rightarrow> request \<Rightarrow> page_upsert \<Rightarrow> (site, content_page) action" where
  "create_page hex rq p s =
     (let slug = (if text_given (pu_slug p) then the (pu_slug p) else slugify hex (pu_title p)) in
      if slug \<in> cg_slug ` set (si_pages s) then (s, Inl integrity_error)
      else insert_row si_pages put_pages
        \<lparr>cg_id = rq_new_id rq, cg_title = pu_title p, cg_slug = slug, cg_path = pu_path p,
         cg_content = pu_content p, cg_status = pu_status p, cg_meta_title = pu_meta_title p,
         cg_meta_description = pu_meta_description p, cg_created_at = rq_now rq\<rparr> s)"

definition updated_page :: "page_upsert \<Rightarrow> content_page \<Rightarrow> content_page" where
  "updated_page p g =
     g\<lparr>cg_title := pu_title p, cg_slug := (if text_given (pu_slug p) then the (pu_slug p) else cg_slug g),
       cg_path := pu_path p, cg_content := pu_content p, cg_status := pu_status p,
       cg_meta_title := pu_meta_title p, cg_meta_description := pu_meta_description p\<rparr>"

definition update_page :: "nat \<Rightarrow> page_upsert \<Rightarrow> (site, content_page) action" where
  "update_page i p =
     abind (fetch cg_id si_pages ''Page not found.'' i) (\<lambda>g s.
       if cg_slug (updated_page p g) \<in> cg_slug ` set (filter (\<lambda>x. cg_id x \<noteq> i) (si_pages s))
       then (s, Inl integrity_error)
       else (put_pages (set_row cg_id (updated_page p g) (si_pages s)) s, Inr (updated_page p g)))"

definition delete_page :: "nat \<Rightarrow> (site, unit) action" where
  "delete_page = remove cg_id si_pages put_pages ''Page not found.''"

definition create_page_endpoint :: "string \<Rightarrow> request \<Rightarrow> page_upsert \<Rightarrow> (site, content_page) action" where
  "create_page_endpoint hex rq p =
     audited rq (create_page hex rq p)
       (\<lambda>g. id_entry ''page.create'' (''Created page '' @ quote1 (cg_title g)) ''page'' (cg_id g))"

definition update_page_endpoint :: "request \<Rightarrow> nat \<Rightarrow> page_upsert \<Rightarrow> (site, content_page) action" where
  "update_page_endpoint rq i p =
     audited rq (update_page i p)
       (\<lambda>g. id_entry ''page.update'' (''Updated page '' @ quote1 (cg_title g)) ''page'' (cg_id g))"

definition delete_page_endpoint :: "request \<Rightarrow> nat \<Rightarrow> (site, unit) action" where
  "delete_page_endpoint rq i =
     audited rq (delete_page i) (\<lambda>_. id_entry ''page.delete'' ''Deleted page'' ''page'' i)"

section \<open>Logs\<close>

definition list_audit :: "page_params \<Rightarrow> string option \<Rightarrow> string option \<Rightarrow> site \<Rightarrow> audit_log list \<times> nat" where
  "list_audit page category q s =
     listing page id
       (newest ad_created_at
         (filter (\<lambda>a. equals category (ad_category a) \<and> search q [Some (ad_summary a), Some (ad_action a)])
           (si_audit s)))"

text \<open>Unresolved first; \<open>created\<close> is the creation time of an error row.\<close>

definition list_errors ::
  "(error_log \<Rightarrow> int) \<Rightarrow> page_params \<Rightarrow> string option \<Rightarrow> string option \<Rightarrow> site \<Rightarrow> error_log list \<times> nat" where
  "list_errors created page level q s =
     listing page id
       (sort_key (\<lambda>e. if el_resolved e then 1 else 0 :: nat)
         (newest created
           (filter (\<lambda>e. equals level (el_level e) \<and> search q [Some (el_message e)]) (si_errors s))))"

definition resolve_error :: "nat \<Rightarrow> bool \<Rightarrow> (site, error_log) action" where
  "resolve_error i resolved =
     change el_id si_errors put_errors ''Error log not found.'' i (\<lambda>e. e\<lparr>el_resolved := resolved\<rparr>)"

definition delete_error :: "nat \<Rightarrow> (site, unit) action" where
  "delete_error = remove el_id si_errors put_errors ''Error log not found.''"

definition clear_resolved_errors :: "(site, nat) action" where
  "clear_resolved_errors s =
     (put_errors (filter (\<lambda>e. \<not> el_resolved e) (si_errors s)) s,
      Inr (length (filter el_resolved (si_errors s))))"

definition resolve_error_endpoint :: "request \<Rightarrow> nat \<Rightarrow> (site, error_log) action" where
  "resolve_error_endpoint rq i =
     audited rq (resolve_error i True)
       (\<lambda>_. (id_entry ''error.resolve'' ''Resolved error'' ''error'' i)\<lparr>ae_category := ''security''\<rparr>)"

definition delete_error_endpoint :: "request \<Rightarrow> nat \<Rightarrow> (site, unit) action" where
  "delete_error_endpoint rq i =
     audited rq (delete_error i)
       (\<lambda>_. (id_entry ''error.delete'' ''Deleted error log'' ''error'' i)\<lparr>ae_category := ''security''\<rparr>)"

definition clear_resolved_endpoint :: "request \<Rightarrow> (site, nat) action" where
  "clear_resolved_endpoint rq =
     audited rq clear_resolved_errors
       (\<lambda>n. (entry ''error.clear_resolved'' (''Cleared '' @ nat_str n @ '' resolved error(s)'') None None)
              \<lparr>ae_category := ''security''\<rparr>)"

section \<open>Lemmas\<close>

subsection \<open>Slugs\<close>

definition slug_text :: "string \<Rightarrow> bool" where
  "slug_text s \<longleftrightarrow> (\<forall>c \<in> set s. slug_char c \<or> c = CHR ''-'')"

lemma dash_not_slug: "\<not> slug_char (CHR ''-'')"
  by (simp add: slug_char_def is_digit_def char_code_def)

lemma dashed_chars: "slug_text (dashed r s)"
  by (induction r s rule: dashed.induct) (auto simp: slug_text_def)

lemma dashed_no_double: "\<not> sublist ''--'' (dashed r s) \<and> (r \<longrightarrow> \<not> starts_with ''-'' (dashed r s))"
proof (induction r s rule: dashed.induct)
  case (2 r c cs)
  then show ?case
    using dash_not_slug by (cases "dashed False cs"; cases "dashed True cs") (auto simp: sublist_Cons_right starts_with_prefix)
qed simp

lemma strip_by_sub: "sublist (strip_by P s) s"
proof -
  let ?t = "dropWhile P s"
  have "s = takeWhile P s @ ?t" by simp
  moreover have "?t = rev (dropWhile P (rev ?t)) @ rev (takeWhile P (rev ?t))"
    by (metis rev_append rev_rev_ident takeWhile_dropWhile_id)
  ultimately have "s = takeWhile P s @ rev (dropWhile P (rev ?t)) @ rev (takeWhile P (rev ?t))" by metis
  then show ?thesis unfolding sublist_def strip_by_def lstrip_by_def by blast
qed

lemma sublist_set: "sublist xs ys \<Longrightarrow> set xs \<subseteq> set ys"
  by (auto simp: sublist_def)

lemma slug_text_sub: "slug_text s \<Longrightarrow> sublist t s \<Longrightarrow> slug_text t"
  using sublist_set unfolding slug_text_def by blast

text \<open>A slug made from a title has only letters, digits and single dashes, none at either end.\<close>

lemma slugify_text:
  assumes "slug_text hex" "\<not> sublist ''--'' hex"
  shows "slug_text (slugify hex v) \<and> \<not> sublist ''--'' (slugify hex v)"
proof -
  let ?t = "strip_by (\<lambda>c. c = CHR ''-'') (dashed False (py_lower (py_strip v)))"
  have t: "slug_text ?t" "\<not> sublist ''--'' ?t"
    using slug_text_sub [OF dashed_chars strip_by_sub] dashed_no_double strip_by_sub sublist_order.order_trans
    by blast+
  have h: "slug_text (take 8 hex)" "\<not> sublist ''--'' (take 8 hex)"
    using assms slug_text_sub sublist_take sublist_order.order_trans by blast+
  show ?thesis using t h by (auto simp: slugify_def py_or_def)
qed

subsection \<open>Slugs stay unique\<close>

definition slugs_ok :: "site \<Rightarrow> bool" where
  "slugs_ok s \<longleftrightarrow> distinct (map bp_slug (si_posts s)) \<and> distinct (map cg_slug (si_pages s))
     \<and> distinct (map bp_id (si_posts s)) \<and> distinct (map cg_id (si_pages s))"

lemma distinct_set_row:
  assumes "distinct (map key rows)" "distinct (map slug rows)"
    and "slug new \<notin> slug ` set (filter (\<lambda>x. key x \<noteq> key new) rows)"
  shows "distinct (map slug (set_row key new rows))"
  using assms
proof (induction rows)
  case (Cons r rows)
  show ?case
  proof (cases "key r = key new")
    case True
    with Cons.prems(1) have "key x \<noteq> key new" if "x \<in> set rows" for x
      using that True by (auto simp: image_iff)
    then have "set_row key new (r # rows) = new # rows" "filter (\<lambda>x. key x \<noteq> key new) (r # rows) = rows"
      using True by (auto simp: set_row_def map_idI)
    with Cons.prems show ?thesis by simp
  next
    case False
    have "slug r \<notin> slug ` set (set_row key new rows)"
      using Cons.prems(2,3) False by (auto simp: set_row_def split: if_splits)
    moreover have "distinct (map slug (set_row key new rows))"
      using Cons.IH Cons.prems False by simp
    moreover have "set_row key new (r # rows) = r # set_row key new rows"
      using False by (simp add: set_row_def)
    ultimately show ?thesis by simp
  qed
qed (simp add: set_row_def)

lemma distinct_delete_row: "distinct (map f rows) \<Longrightarrow> distinct (map f (delete_row key i rows))"
  by (simp add: delete_row_def distinct_map_filter)

lemma remove_cases:
  "fst (remove key table put m i s) = s \<or> fst (remove key table put m i s) = put (delete_row key i (table s)) s"
  by (auto simp: remove_def abind_def fetch_def on_site_def split: sum.split)

lemma slugs_ok_posts:
  assumes "slugs_ok s" "rq_new_id rq \<notin> bp_id ` set (si_posts s)"
  shows "slugs_ok (fst (create_blog hex rq p s))" "slugs_ok (fst (update_blog rq' i p s))"
    "slugs_ok (fst (delete_blog i s))"
proof -
  show "slugs_ok (fst (create_blog hex rq p s))"
    using assms by (auto simp: create_blog_def Let_def insert_row_def put_posts_def slugs_ok_def)
  show "slugs_ok (fst (delete_blog i s))"
    using remove_cases [of bp_id si_posts put_posts "''Post not found.''" i s] assms(1)
    by (auto simp: delete_blog_def put_posts_def slugs_ok_def distinct_delete_row)
  show "slugs_ok (fst (update_blog rq' i p s))"
  proof (cases "get_row bp_id ''Post not found.'' i (si_posts s)")
    case (Inl e)
    with assms(1) show ?thesis by (simp add: update_blog_def abind_def fetch_def)
  next
    case (Inr post)
    then have "bp_id post = i" by (rule get_row_InrD [THEN conjunct2])
    then have "bp_id (updated_post (rq_now rq') p post) = i" by (simp add: updated_post_def)
    with Inr assms(1) show ?thesis
      by (auto simp: update_blog_def abind_def fetch_def Let_def put_posts_def slugs_ok_def
          intro!: distinct_set_row)
  qed
qed

lemma slugs_ok_pages:
  assumes "slugs_ok s" "rq_new_id rq \<notin> cg_id ` set (si_pages s)"
  shows "slugs_ok (fst (create_page hex rq p s))" "slugs_ok (fst (update_page i p s))"
    "slugs_ok (fst (delete_page i s))"
proof -
  show "slugs_ok (fst (create_page hex rq p s))"
    using assms by (auto simp: create_page_def Let_def insert_row_def put_pages_def slugs_ok_def)
  show "slugs_ok (fst (delete_page i s))"
    using remove_cases [of cg_id si_pages put_pages "''Page not found.''" i s] assms(1)
    by (auto simp: delete_page_def put_pages_def slugs_ok_def distinct_delete_row)
  show "slugs_ok (fst (update_page i p s))"
  proof (cases "get_row cg_id ''Page not found.'' i (si_pages s)")
    case (Inl e)
    with assms(1) show ?thesis by (simp add: update_page_def abind_def fetch_def)
  next
    case (Inr g)
    then have "cg_id g = i" by (rule get_row_InrD [THEN conjunct2])
    then have "cg_id (updated_page p g) = i" by (simp add: updated_page_def)
    with Inr assms(1) show ?thesis
      by (auto simp: update_page_def abind_def fetch_def put_pages_def slugs_ok_def intro!: distinct_set_row)
  qed
qed

text \<open>Two posts of one title: the second creation is an internal error, not a conflict.\<close>

lemma same_title_raises:
  assumes "bu_slug p = None" "bp_slug b = slugify hex (bu_title p)" "b \<in> set (si_posts s)"
  shows "create_blog hex rq p s = (s, Inl integrity_error)"
  using assms(3) by (simp add: create_blog_def text_given_def Let_def assms(1) flip: assms(2))

subsection \<open>Publication\<close>

text \<open>Only a change to \<open>published\<close> moves the publication time.\<close>

lemma published_at_kept: "before = ''published'' \<Longrightarrow> published_at now before status at = at"
  by (simp add: published_at_def)

end
