(* ===== verification/AdminSettings.thy ===== *)
theory AdminSettings
  imports AdminState
begin

text \<open>
  Platform settings: the last section of \<open>AdminService\<close> (\<open>all_settings\<close>, \<open>get_setting\<close>,
  \<open>_deep_merge\<close>, \<open>update_setting\<close>) and \<open>app/api/v1/endpoints/admin/settings.py\<close>.

  A Python dictionary with text keys is the list of its entries in insertion order, each key
  once (\<open>json_ok\<close>); assignment replaces the value in place or appends a new entry.
\<close>

section \<open>Dictionaries\<close>

type_synonym dict = "(string \<times> json) list"

fun dict_set :: "string \<Rightarrow> json \<Rightarrow> dict \<Rightarrow> dict" where
  "dict_set k v [] = [(k, v)]"
| "dict_set k v ((k', v') # d) = (if k = k' then (k, v) # d else (k', v') # dict_set k v d)"

lemma map_of_dict_set: "map_of (dict_set k v d) = (map_of d)(k \<mapsto> v)"
  by (induction d) auto

lemma keys_dict_set: "set (map fst (dict_set k v d)) = insert k (set (map fst d))"
  by (induction k v d rule: dict_set.induct) auto

lemma distinct_dict_set: "distinct (map fst d) \<Longrightarrow> distinct (map fst (dict_set k v d))"
proof (induction k v d rule: dict_set.induct)
  case (2 k v k' v' d)
  then show ?case using keys_dict_set [of k v d] by auto
qed simp

section \<open>The merge\<close>

function deep_merge :: "dict \<Rightarrow> dict \<Rightarrow> dict" where
  "deep_merge out [] = out"
| "deep_merge out ((key, val) # overrides) =
     deep_merge
       (dict_set key
         (case map_of out key of
            Some (JObj old) \<Rightarrow> (case val of JObj new \<Rightarrow> JObj (deep_merge old new) | _ \<Rightarrow> val)
          | _ \<Rightarrow> val) out)
       overrides"
  by pat_completeness auto
termination by (relation "measure (\<lambda>(out, overrides). size_list (size_prod (\<lambda>_. 0) size) overrides)") auto

section \<open>Settings\<close>

definition all_settings :: "site \<Rightarrow> dict" where
  "all_settings s = fold (\<lambda>r d. dict_set (st_key r) (st_value r) d) (si_settings s) []"

definition setting_row :: "string \<Rightarrow> site \<Rightarrow> (py_exc, app_setting option) result" where
  "setting_row category s = one_or_none (filter (\<lambda>r. st_key r = category) (si_settings s))"

definition get_setting :: "string \<Rightarrow> site \<Rightarrow> (py_exc, json) result" where
  "get_setting category s =
     rbind (setting_row category s) (\<lambda>row.
       case row of
         None \<Rightarrow> raise_app (BaseE NotFoundError) ''Setting category not found.''
       | Some r \<Rightarrow> Inr (st_value r))"

text \<open>\<open>row.value or {}\<close>; anything but an object cannot be merged into.\<close>

definition stored_dict :: "json \<Rightarrow> (py_exc, dict) result" where
  "stored_dict v =
     (case v of
        JObj d \<Rightarrow> Inr d
      | _ \<Rightarrow> if v \<in> set [JNull, JBool False, JInt 0, JFloat ''0.0'', JFloat ''-0.0'', JStr [], JList []] then Inr []
            else Inl (OtherError ''TypeError'' ''cannot convert to a dictionary''))"

definition update_setting :: "string \<Rightarrow> dict \<Rightarrow> user \<Rightarrow> (site, dict) action" where
  "update_setting category v actor s =
     (case setting_row category s of
        Inl e \<Rightarrow> (s, Inl e)
      | Inr None \<Rightarrow>
          (let merged = deep_merge [] v
           in (s\<lparr>si_settings := si_settings s @
                 [\<lparr>st_key = category, st_value = JObj merged, st_category = category,
                   st_updated_by = Some (us_id actor)\<rparr>]\<rparr>, Inr merged))
      | Inr (Some r) \<Rightarrow>
          (case stored_dict (st_value r) of
             Inl e \<Rightarrow> (s, Inl e)
           | Inr old \<Rightarrow>
               (let merged = deep_merge old v
                in (s\<lparr>si_settings := map (\<lambda>x. if st_key x = category
                        then x\<lparr>st_value := JObj merged, st_updated_by := Some (us_id actor)\<rparr> else x)
                      (si_settings s)\<rparr>, Inr merged))))"

definition update_setting_endpoint :: "request \<Rightarrow> string \<Rightarrow> dict \<Rightarrow> (site, dict) action" where
  "update_setting_endpoint rq category v =
     audited rq (update_setting category v (rq_admin rq))
       (\<lambda>_. entry ''settings.update'' (''Updated '' @ category @ '' settings'') (Some ''settings'') (Some category))"

subsection \<open>Brand assets\<close>

definition max_asset_bytes :: nat where
  "max_asset_bytes = 512 * 1024"

definition allowed_asset_types :: "string list" where
  "allowed_asset_types =
     [''image/png'', ''image/jpeg'', ''image/gif'', ''image/webp'', ''image/svg+xml'', ''image/x-icon'',
      ''image/vnd.microsoft.icon'']"

text \<open>Base64 with the standard alphabet and padding.\<close>

definition std64 :: "nat list \<Rightarrow> string" where
  "std64 bs =
     map (\<lambda>c. if c = CHR ''-'' then CHR ''+'' else if c = CHR ''_'' then CHR ''/'' else c) (b64encode bs)
       @ replicate ((4 - length (b64encode bs) mod 4) mod 4) (CHR ''='')"

definition upload_branding_asset ::
  "request \<Rightarrow> string \<Rightarrow> string option \<Rightarrow> bytes \<Rightarrow> (site, dict) action" where
  "upload_branding_asset rq kind content_type data =
     (let ctype = py_lower (case content_type of None \<Rightarrow> [] | Some t \<Rightarrow> t) in
      if kind \<notin> set [''logo'', ''favicon''] then aresult (raise_app (BaseE BadRequestError) ''Asset kind must be 'logo' or 'favicon'.'')
      else if ctype \<notin> set allowed_asset_types then aresult (raise_app (BaseE BadRequestError) ''Unsupported image type.'')
      else if data = [] then aresult (raise_app (BaseE BadRequestError) ''The uploaded file is empty.'')
      else if max_asset_bytes < length data then aresult (raise_app (BaseE BadRequestError) ''Image must be 512 KB or smaller.'')
      else audited rq
        (update_setting ''branding'' [(kind, JStr (''data:'' @ ctype @ '';base64,'' @ std64 (map unat data)))] (rq_admin rq))
        (\<lambda>_. entry ''settings.branding_asset'' (''Uploaded branding '' @ kind) (Some ''settings'') (Some ''branding'')))"

section \<open>What a merge does\<close>

fun json_ok :: "json \<Rightarrow> bool" where
  "json_ok (JObj d) \<longleftrightarrow> distinct (map fst d) \<and> list_all (\<lambda>e. json_ok (snd e)) d"
| "json_ok (JList xs) \<longleftrightarrow> list_all json_ok xs"
| "json_ok _ \<longleftrightarrow> True"

definition merge_value :: "json option \<Rightarrow> json \<Rightarrow> json" where
  "merge_value old val =
     (case old of Some (JObj b) \<Rightarrow> (case val of JObj n \<Rightarrow> JObj (deep_merge b n) | _ \<Rightarrow> val) | _ \<Rightarrow> val)"

lemma deep_merge_Cons: "deep_merge out ((k, v) # rest) = deep_merge (dict_set k (merge_value (map_of out k) v) out) rest"
  by (simp add: merge_value_def)

lemma map_of_deep_merge:
  "distinct (map fst new) \<Longrightarrow> map_of (deep_merge old new) k
    = (case map_of new k of None \<Rightarrow> map_of old k | Some v \<Rightarrow> Some (merge_value (map_of old k) v))"
proof (induction new arbitrary: old)
  case (Cons e new)
  obtain k' v where e: "e = (k', v)" by (cases e)
  have "map_of new k' = None" using Cons.prems e by (simp add: map_of_eq_None_iff)
  with Cons show ?case
    unfolding e deep_merge_Cons by (auto simp: map_of_dict_set split: option.split)
qed simp

lemma json_ok_set: "json_ok (JObj d) \<Longrightarrow> json_ok v \<Longrightarrow> json_ok (JObj (dict_set k v d))"
proof -
  have "list_all (\<lambda>e. json_ok (snd e)) d \<Longrightarrow> json_ok v \<Longrightarrow> list_all (\<lambda>e. json_ok (snd e)) (dict_set k v d)"
    by (induction k v d rule: dict_set.induct) auto
  then show "json_ok (JObj d) \<Longrightarrow> json_ok v \<Longrightarrow> ?thesis" by (simp add: distinct_dict_set)
qed

lemma json_ok_lookup: "json_ok (JObj d) \<Longrightarrow> map_of d k = Some v \<Longrightarrow> json_ok v"
  by (auto simp: list_all_iff dest: map_of_SomeD)

lemma json_ok_merge: "json_ok (JObj old) \<Longrightarrow> json_ok (JObj new) \<Longrightarrow> json_ok (JObj (deep_merge old new))"
proof (induction old new rule: deep_merge.induct)
  case (2 old k v new)
  have v: "json_ok v" "json_ok (JObj new)" using "2.prems"(2) by simp_all
  have "json_ok (merge_value (map_of old k) v)"
  proof (cases "\<exists>b n. map_of old k = Some (JObj b) \<and> v = JObj n")
    case True
    then obtain b n where bn: "map_of old k = Some (JObj b)" "v = JObj n" by blast
    then have "json_ok (JObj (deep_merge b n))"
      using "2.IH"(1) [OF bn(1)] json_ok_lookup [OF "2.prems"(1) bn(1)] v(1) by blast
    then show ?thesis using bn by (simp add: merge_value_def)
  next
    case False
    then have "merge_value (map_of old k) v = v"
      by (auto simp: merge_value_def split: option.split json.split)
    with v show ?thesis by simp
  qed
  then have "json_ok (JObj (dict_set k (merge_value (map_of old k) v) old))"
    by (rule json_ok_set [OF "2.prems"(1)])
  with "2.IH"(2) v(2) show ?case unfolding deep_merge_Cons by (simp add: merge_value_def)
qed simp

text \<open>The value at a path of keys.\<close>

fun json_at :: "string list \<Rightarrow> json \<Rightarrow> json option" where
  "json_at [] v = Some v"
| "json_at (k # ks) (JObj d) = (case map_of d k of None \<Rightarrow> None | Some v \<Rightarrow> json_at ks v)"
| "json_at (k # ks) v = None"

text \<open>What a path reads after the merge, from what it reads in the old and the new value: below
  a value that replaces, only the new counts; where the new has nothing, the old stays.\<close>

fun merged_at :: "string list \<Rightarrow> json option \<Rightarrow> json option \<Rightarrow> json option" where
  "merged_at p old None = (case old of None \<Rightarrow> None | Some v \<Rightarrow> json_at p v)"
| "merged_at [] old (Some v) = Some (merge_value old v)"
| "merged_at (k # p) old (Some v) =
     (case (old, v) of
        (Some (JObj b), JObj n) \<Rightarrow> merged_at p (map_of b k) (map_of n k)
      | _ \<Rightarrow> json_at (k # p) v)"

lemma json_at_merge_value:
  assumes "json_ok v"
  shows "json_at p (merge_value old v) = merged_at p old (Some v)"
  using assms
proof (induction p arbitrary: old v)
  case (Cons k p)
  show ?case
  proof (cases "\<exists>b n. old = Some (JObj b) \<and> v = JObj n")
    case True
    then obtain b n where bn: "old = Some (JObj b)" "v = JObj n" by blast
    have "distinct (map fst n)" using Cons.prems bn by simp
    from map_of_deep_merge [OF this, of b k] show ?thesis
      using Cons.IH json_ok_lookup [OF Cons.prems [unfolded bn(2)], of k]
      by (auto simp: bn merge_value_def split: option.split)
  next
    case False
    then have "merge_value old v = v" "merged_at (k # p) old (Some v) = json_at (k # p) v"
      by (auto simp: merge_value_def split: option.split json.split)
    then show ?thesis by simp
  qed
qed simp

lemma json_at_deep_merge:
  assumes "json_ok (JObj new)"
  shows "json_at p (JObj (deep_merge old new)) = merged_at p (Some (JObj old)) (Some (JObj new))"
  using json_at_merge_value [OF assms, of p "Some (JObj old)"] by (simp add: merge_value_def)

text \<open>In particular: what the new value sets is set, and what it does not mention is kept.\<close>

lemma merged_at_set:
  "json_at p n = Some v \<Longrightarrow> (\<And>d. v \<noteq> JObj d) \<Longrightarrow> merged_at p old (Some n) = Some v"
proof (induction p arbitrary: old n)
  case Nil
  then show ?case by (auto simp: merge_value_def split: option.split json.split)
next
  case (Cons k p)
  then show ?case by (cases n) (auto split: option.splits json.split)
qed

lemma merged_at_kept:
  "map_of n k = None \<Longrightarrow> merged_at (k # p) (Some (JObj b)) (Some (JObj n)) = json_at (k # p) (JObj b)"
  by (simp split: option.split)

section \<open>Writing and reading settings\<close>

text \<open>What a category holds, the empty dictionary when it has no row.\<close>

definition setting_dict :: "string \<Rightarrow> site \<Rightarrow> dict" where
  "setting_dict category s =
     (case setting_row category s of
        Inr (Some r) \<Rightarrow> (case stored_dict (st_value r) of Inr d \<Rightarrow> d | Inl _ \<Rightarrow> [])
      | _ \<Rightarrow> [])"

lemma setting_row_same:
  "(\<And>x. st_key (f x) = st_key x) \<Longrightarrow> category' \<noteq> category
    \<Longrightarrow> setting_row category' (s\<lparr>si_settings := map (\<lambda>x. if st_key x = category then f x else x) (si_settings s)\<rparr>)
      = setting_row category' s"
proof -
  assume f: "\<And>x. st_key (f x) = st_key x" and other: "category' \<noteq> category"
  have "filter (\<lambda>r. st_key r = category') (map (\<lambda>x. if st_key x = category then f x else x) rows)
      = filter (\<lambda>r. st_key r = category') rows" for rows
    using other by (induction rows) (auto simp: f)
  then show ?thesis by (simp add: setting_row_def)
qed

lemma setting_row_updated:
  assumes "\<And>x. st_key (f x) = st_key x" "setting_row category s = Inr (Some r)"
  shows "setting_row category (s\<lparr>si_settings := map (\<lambda>x. if st_key x = category then f x else x) (si_settings s)\<rparr>)
      = Inr (Some (f r))"
proof -
  have "filter (\<lambda>r. st_key r = category) (map (\<lambda>x. if st_key x = category then f x else x) rows)
      = map f (filter (\<lambda>r. st_key r = category) rows)" for rows
    by (induction rows) (auto simp: assms(1))
  moreover have "filter (\<lambda>r. st_key r = category) (si_settings s) = [r]"
    using assms(2) by (auto simp: setting_row_def one_or_none_def split: list.splits)
  ultimately show ?thesis by (simp add: setting_row_def one_or_none_def)
qed

lemma setting_row_added:
  assumes "setting_row category s = Inr None" "st_key r = category"
  shows "setting_row category (s\<lparr>si_settings := si_settings s @ [r]\<rparr>) = Inr (Some r)"
    "c \<noteq> category \<Longrightarrow> setting_row c (s\<lparr>si_settings := si_settings s @ [r]\<rparr>) = setting_row c s"
  using assms by (auto simp: setting_row_def one_or_none_def split: list.splits)

text \<open>
  C40: Saving settings merges, and what is saved is read back. After a successful update the
  category reads as the returned dictionary and every other category as before; at every path of
  keys, at any depth, the result has the new value where one was sent, the old value where none
  was sent, and objects on both sides are merged rather than replaced; and it has every key once
  if both sides had.
\<close>

theorem settings_update_merges:
  assumes "update_setting category v actor s = (s', Inr merged)" "json_ok (JObj v)"
  shows "get_setting category s' = Inr (JObj merged)
    \<and> (\<forall>c. c \<noteq> category \<longrightarrow> get_setting c s' = get_setting c s)
    \<and> (\<forall>p. json_at p (JObj merged) = merged_at p (Some (JObj (setting_dict category s))) (Some (JObj v)))
    \<and> (json_ok (JObj (setting_dict category s)) \<longrightarrow> json_ok (JObj merged))"
proof -
  have merged: "merged = deep_merge (setting_dict category s) v"
    using assms(1)
    by (auto simp: update_setting_def setting_dict_def Let_def split: sum.splits option.splits)
  have "get_setting category s' = Inr (JObj merged) \<and> (\<forall>c. c \<noteq> category \<longrightarrow> get_setting c s' = get_setting c s)"
  proof (cases "setting_row category s")
    case (Inr found)
    show ?thesis
    proof (cases found)
      case None
      let ?r = "\<lparr>st_key = category, st_value = JObj merged, st_category = category, st_updated_by = Some (us_id actor)\<rparr>"
      have "s' = s\<lparr>si_settings := si_settings s @ [?r]\<rparr>"
        using assms(1) Inr None by (auto simp: update_setting_def Let_def)
      with setting_row_added [of category s ?r] Inr None show ?thesis by (simp add: get_setting_def)
    next
      case (Some r)
      let ?f = "\<lambda>x. x\<lparr>st_value := JObj merged, st_updated_by := Some (us_id actor)\<rparr>"
      have s': "s' = s\<lparr>si_settings := map (\<lambda>x. if st_key x = category then ?f x else x) (si_settings s)\<rparr>"
        using assms(1) Inr Some by (auto simp: update_setting_def Let_def split: sum.splits)
      have "setting_row category s' = Inr (Some (?f r))"
        unfolding s' by (rule setting_row_updated) (use Inr Some in simp_all)
      moreover have "c \<noteq> category \<Longrightarrow> setting_row c s' = setting_row c s" for c
        unfolding s' by (rule setting_row_same) simp_all
      ultimately show ?thesis by (simp add: get_setting_def)
    qed
  qed (use assms(1) in \<open>simp add: update_setting_def\<close>)
  then show ?thesis using json_at_deep_merge [OF assms(2)] json_ok_merge assms(2) merged by simp
qed

text \<open>Nothing is lost when the same settings are saved twice.\<close>

lemma deep_merge_Nil: "distinct (map fst d) \<Longrightarrow> map_of (deep_merge [] d) = map_of d"
  by (rule ext) (simp add: map_of_deep_merge merge_value_def split: option.split)

definition sample_settings :: site where
  "sample_settings =
     \<lparr>si_db = \<lparr>db_files = [], db_jobs = [], db_links = [], db_visits = []\<rparr>,
      si_users = [], si_subscriptions = [], si_feedback = [], si_messages = [], si_announcements = [],
      si_faqs = [], si_posts = [], si_pages = [], si_tools = [],
      si_settings = [\<lparr>st_key = ''branding'',
        st_value = JObj [(''name'', JStr ''P''), (''social'', JObj [(''x'', JStr ''a''), (''y'', JStr ''b'')])],
        st_category = ''branding'', st_updated_by = None\<rparr>],
      si_audit = [], si_errors = []\<rparr>"

theorem settings_update_merges_witness:
  "\<exists>s' merged. update_setting ''branding'' [(''social'', JObj [(''x'', JStr ''c'')])] sample_user sample_settings = (s', Inr merged)
    \<and> json_at [''social'', ''x''] (JObj merged) = Some (JStr ''c'')
    \<and> json_at [''social'', ''y''] (JObj merged) = Some (JStr ''b'')"
proof -
  let ?v = "[(''social'', JObj [(''x'', JStr ''c'')])]"
  obtain s' merged where u: "update_setting ''branding'' ?v sample_user sample_settings = (s', Inr merged)"
    by (simp add: update_setting_def setting_row_def sample_settings_def one_or_none_def stored_dict_def Let_def)
  have d: "setting_dict ''branding'' sample_settings
      = [(''name'', JStr ''P''), (''social'', JObj [(''x'', JStr ''a''), (''y'', JStr ''b'')])]"
    by (simp add: setting_dict_def setting_row_def sample_settings_def one_or_none_def stored_dict_def)
  have "json_ok (JObj ?v)" by simp
  from settings_update_merges [OF u this]
  have "json_at [''social'', k] (JObj merged) = merged_at [''social'', k] (Some (JObj (setting_dict ''branding'' sample_settings))) (Some (JObj ?v))" for k
    by blast
  then have "json_at [''social'', ''x''] (JObj merged) = Some (JStr ''c'')"
    "json_at [''social'', ''y''] (JObj merged) = Some (JStr ''b'')"
    unfolding d by (simp_all add: merge_value_def)
  with u show ?thesis by blast
qed

end
