(* ===== verification/Command.thy ===== *)
theory Command
  imports Actions Settings
begin

text \<open>
  \<open>app/utils/command.py\<close>: external commands. \<open>split_launcher\<close> splits a launcher setting with
  \<open>shlex.split(value, posix=False)\<close>, modelled character by character (\<open>shlex_run\<close>; \<open>None\<close> is
  the \<open>ValueError\<close> of an open quotation). \<open>run_command\<close> runs one program and
  \<open>run_tool_command\<close> translates a missing binary.

  The program itself is a parameter: \<open>'s subprocess\<close> says, for an invocation in a world, how
  the world changes and how the call ends (\<open>exec_outcome\<close>, what \<open>subprocess.run\<close> documents).
  Log lines and durations are left out. \<open>tool_settings\<close> are the settings of the external
  tools in \<open>app/config/base.py\<close>.
\<close>

section \<open>Settings of the external tools\<close>

datatype office_engine_choice = AUTO | UNOSERVER | SOFFICE

record tool_settings = settings +
  tl_soffice_bin :: string
  tl_unoconvert_bin :: string
  tl_office_engine :: office_engine_choice
  tl_unoserver_bin :: string
  tl_profile_pool_size :: int
  tl_pdftoppm_bin :: string
  tl_ghostscript_bin :: string
  tl_ocrmypdf_bin :: string
  tl_tesseract_bin :: string
  tl_tessdata_dir :: string

definition default_tool_settings :: tool_settings where
  "default_tool_settings = settings.extend default_settings
     (tool_settings.fields ''soffice'' [] AUTO [] 4 ''pdftoppm'' ''gs'' ''ocrmypdf'' ''tesseract'' [])"

section \<open>Launchers\<close>

datatype lex_state = Between | Word string | Quoted char string

definition lex_space :: "char \<Rightarrow> bool" where
  "lex_space c = (c = CHR '' '' \<or> char_code c = 9 \<or> char_code c = 13 \<or> char_code c = 10)"

definition dquote :: char where "dquote = CHR 0x22"
definition squote :: char where "squote = CHR 0x27"

fun shlex_run :: "lex_state \<Rightarrow> string \<Rightarrow> string list option" where
  "shlex_run Between [] = Some []"
| "shlex_run (Word t) [] = Some [t]"
| "shlex_run (Quoted q t) [] = None"
| "shlex_run Between (c # cs) =
     (if lex_space c then shlex_run Between cs
      else if c = dquote \<or> c = squote then shlex_run (Quoted c [c]) cs
      else shlex_run (Word [c]) cs)"
| "shlex_run (Word t) (c # cs) =
     (if lex_space c then map_option ((#) t) (shlex_run Between cs)
      else shlex_run (Word (t @ [c])) cs)"
| "shlex_run (Quoted q t) (c # cs) =
     (if c = q then map_option ((#) (t @ [c])) (shlex_run Between cs)
      else shlex_run (Quoted q (t @ [c])) cs)"

definition split_launcher :: "string \<Rightarrow> (py_exc, string list) result" where
  "split_launcher value =
     (case shlex_run Between value of
        None \<Rightarrow> Inl (OtherError ''ValueError'' ''No closing quotation'')
      | Some tokens \<Rightarrow> Inr (map (strip_by (\<lambda>c. c = dquote)) tokens))"

section \<open>Running a command\<close>

record invocation =
  iv_command :: "string list"
  iv_cwd :: "string option"
  iv_timeout :: int
  iv_env :: "(string \<times> string) list option"

datatype exec_outcome =
    Exited int string string
  | TimedOut "string option"
  | NotFound
  | OsFailure string string

type_synonym 's subprocess = "invocation \<Rightarrow> 's \<Rightarrow> 's \<times> exec_outcome"

record command_result =
  cr_command :: "string list"
  cr_returncode :: int
  cr_stdout :: string
  cr_stderr :: string

definition MAX_CAPTURED_OUTPUT :: nat where
  "MAX_CAPTURED_OUTPUT = 64 * 1024"

definition quoted :: "string \<Rightarrow> string" where
  "quoted s = squote # s @ [squote]"

definition command_failure :: "string \<Rightarrow> string list \<Rightarrow> int option \<Rightarrow> string \<Rightarrow> bool \<Rightarrow> py_exc" where
  "command_failure message command rc err timed_out =
     CommandError message \<lparr>ce_command = command, ce_returncode = rc, ce_stderr = err,
       ce_timed_out = timed_out\<rparr>"

definition command_timeout :: "('z) settings_scheme \<Rightarrow> int option \<Rightarrow> int" where
  "command_timeout cfg timeout =
     (case timeout of None \<Rightarrow> s_command_timeout cfg
      | Some n \<Rightarrow> if n = 0 then s_command_timeout cfg else n)"

definition command_outcome ::
  "string list \<Rightarrow> int \<Rightarrow> bool \<Rightarrow> int list \<Rightarrow> exec_outcome \<Rightarrow> (py_exc, command_result) result" where
  "command_outcome command timeout check ok_returncodes out =
     (case out of
        TimedOut err \<Rightarrow>
          Inl (command_failure
            (''Command '' @ quoted (hd command) @ '' timed out after '' @ int_str timeout @ ''s.'')
            command None
            (take MAX_CAPTURED_OUTPUT (case err of None \<Rightarrow> [] | Some e \<Rightarrow> e)) True)
      | NotFound \<Rightarrow>
          Inl (command_failure
            (''Command '' @ quoted (hd command) @ '' not found. Is it installed and on PATH?'')
            command None [] False)
      | OsFailure cls m \<Rightarrow> Inl (OtherError cls m)
      | Exited rc raw_out raw_err \<Rightarrow>
          (let err = take MAX_CAPTURED_OUTPUT raw_err in
           if check \<and> rc \<notin> set ok_returncodes
           then Inl (command_failure
             (''Command '' @ quoted (hd command) @ '' exited with code '' @ int_str rc @ ''.'')
             command (Some rc) err False)
           else Inr \<lparr>cr_command = command, cr_returncode = rc,
                  cr_stdout = take MAX_CAPTURED_OUTPUT raw_out, cr_stderr = err\<rparr>))"

definition run_command ::
  "('z) settings_scheme \<Rightarrow> 's subprocess \<Rightarrow> string list \<Rightarrow> string option \<Rightarrow> int option \<Rightarrow> bool
     \<Rightarrow> int list \<Rightarrow> (string \<times> string) list option \<Rightarrow> ('s, command_result) action" where
  "run_command cfg prog command cwd timeout check ok_returncodes env =
     (if command = [] then araise (OtherError ''IndexError'' ''list index out of range'')
      else (\<lambda>w.
        (case prog \<lparr>iv_command = command, iv_cwd = cwd, iv_timeout = command_timeout cfg timeout,
                iv_env = env\<rparr> w of
           (w', out) \<Rightarrow>
             (w', command_outcome command (command_timeout cfg timeout) check ok_returncodes out))))"

fun tool_exc :: "string \<Rightarrow> py_exc \<Rightarrow> py_exc" where
  "tool_exc tool_label (CommandError m ce) =
     (if ce_returncode ce = None \<and> \<not> ce_timed_out ce
      then ProcessingError (''The '' @ tool_label @ '' is not available on this server.'')
             PROCESSING_FAILED
      else CommandError m ce)"
| "tool_exc tool_label e = e"

definition run_tool_command ::
  "('z) settings_scheme \<Rightarrow> 's subprocess \<Rightarrow> string \<Rightarrow> string list \<Rightarrow> string option \<Rightarrow> int option
     \<Rightarrow> int list \<Rightarrow> (string \<times> string) list option \<Rightarrow> ('s, command_result) action" where
  "run_tool_command cfg prog tool_label command cwd timeout ok_returncodes env w =
     (case run_command cfg prog command cwd timeout True ok_returncodes env w of
        (w', Inr r) \<Rightarrow> (w', Inr r)
      | (w', Inl e) \<Rightarrow> (w', Inl (tool_exc tool_label e)))"

text \<open>\<open>str(path)\<close> for a path from the root.\<close>

definition path_text :: "string list \<Rightarrow> string" where
  "path_text p = concat (map (\<lambda>c. CHR ''/'' # c) p)"

text \<open>The call every tool but OCR makes: no working directory, no environment, exit code 0.\<close>

abbreviation (input) run_tool ::
  "('z) settings_scheme \<Rightarrow> 's subprocess \<Rightarrow> string \<Rightarrow> string list \<Rightarrow> int option \<Rightarrow> ('s, command_result) action" where
  "run_tool cfg prog tool_label command timeout \<equiv>
     run_tool_command cfg prog tool_label command None timeout [0] None"

section \<open>Lemmas\<close>

lemma run_command_state [simp]:
  "command \<noteq> [] \<Longrightarrow> fst (run_command cfg prog command cwd timeout check oks env w)
    = fst (prog \<lparr>iv_command = command, iv_cwd = cwd, iv_timeout = command_timeout cfg timeout,
        iv_env = env\<rparr> w)"
  by (simp add: run_command_def split: prod.split)

lemma command_outcome_Inr:
  "command_outcome command t check oks out = Inr r \<longleftrightarrow>
    (\<exists>rc o' e. out = Exited rc o' e \<and> (check \<longrightarrow> rc \<in> set oks)
      \<and> r = \<lparr>cr_command = command, cr_returncode = rc,
            cr_stdout = take MAX_CAPTURED_OUTPUT o', cr_stderr = take MAX_CAPTURED_OUTPUT e\<rparr>)"
  by (auto simp: command_outcome_def Let_def split: exec_outcome.split)

text \<open>
  What a tool sees: the world after the program ran, and either its captured output, or the one
  of the four failures that fits how it ended.
\<close>

lemma run_tool_command_cases:
  assumes "command \<noteq> []"
    and "prog \<lparr>iv_command = command, iv_cwd = cwd, iv_timeout = command_timeout cfg timeout,
        iv_env = env\<rparr> w = (w', out)"
  shows "run_tool_command cfg prog lab command cwd timeout oks env w =
    (w', case out of
       Exited rc o' e \<Rightarrow>
         if rc \<in> set oks
         then Inr \<lparr>cr_command = command, cr_returncode = rc,
                cr_stdout = take MAX_CAPTURED_OUTPUT o', cr_stderr = take MAX_CAPTURED_OUTPUT e\<rparr>
         else Inl (command_failure
             (''Command '' @ quoted (hd command) @ '' exited with code '' @ int_str rc @ ''.'')
             command (Some rc) (take MAX_CAPTURED_OUTPUT e) False)
     | TimedOut err \<Rightarrow>
         Inl (command_failure
            (''Command '' @ quoted (hd command) @ '' timed out after ''
               @ int_str (command_timeout cfg timeout) @ ''s.'')
            command None
            (take MAX_CAPTURED_OUTPUT (case err of None \<Rightarrow> [] | Some e \<Rightarrow> e)) True)
     | NotFound \<Rightarrow> Inl (ProcessingError (''The '' @ lab @ '' is not available on this server.'')
         PROCESSING_FAILED)
     | OsFailure cls m \<Rightarrow> Inl (OtherError cls m))"
  using assms
  by (cases out)
    (simp_all add: run_tool_command_def run_command_def command_outcome_def command_failure_def Let_def)

lemma run_tool_command_empty:
  "run_tool_command cfg prog lab [] cwd timeout oks env w
    = (w, Inl (OtherError ''IndexError'' ''list index out of range''))"
  by (simp add: run_tool_command_def run_command_def araise_def)

lemma run_tool_command_captured:
  assumes "run_tool_command cfg prog lab command cwd timeout oks env w = (w', Inr r)"
  shows "cr_returncode r \<in> set oks" and "cr_command r = command"
    and "length (cr_stdout r) \<le> MAX_CAPTURED_OUTPUT" and "length (cr_stderr r) \<le> MAX_CAPTURED_OUTPUT"
proof -
  have "command \<noteq> []" using assms by (cases command) (simp_all add: run_tool_command_empty)
  obtain v out where p: "prog \<lparr>iv_command = command, iv_cwd = cwd,
      iv_timeout = command_timeout cfg timeout, iv_env = env\<rparr> w = (v, out)"
    by (meson surj_pair)
  note * = run_tool_command_cases [where prog = prog and cfg = cfg and timeout = timeout,
      OF \<open>command \<noteq> []\<close> p, of lab oks]
  have "cr_returncode r \<in> set oks \<and> cr_command r = command
      \<and> length (cr_stdout r) \<le> MAX_CAPTURED_OUTPUT \<and> length (cr_stderr r) \<le> MAX_CAPTURED_OUTPUT"
    using assms * by (cases out) (auto split: if_splits)
  then show "cr_returncode r \<in> set oks" and "cr_command r = command"
    and "length (cr_stdout r) \<le> MAX_CAPTURED_OUTPUT" and "length (cr_stderr r) \<le> MAX_CAPTURED_OUTPUT"
    by simp_all
qed

subsection \<open>Launchers\<close>

lemma shlex_quoted: "q \<notin> set s \<Longrightarrow>
    shlex_run (Quoted q t) (s @ q # cs) = map_option ((#) (t @ s @ [q])) (shlex_run Between cs)"
  by (induction s arbitrary: t) auto

definition launcher_text :: "string list \<Rightarrow> string" where
  "launcher_text args = py_join '' '' (map (\<lambda>a. dquote # a @ [dquote]) args)"

lemma shlex_launcher:
  "(\<And>a. a \<in> set args \<Longrightarrow> dquote \<notin> set a) \<Longrightarrow>
    shlex_run Between (launcher_text args) = Some (map (\<lambda>a. dquote # a @ [dquote]) args)"
proof (induction args)
  case Nil
  then show ?case by (simp add: launcher_text_def)
next
  case (Cons a args)
  have d: "dquote \<notin> set a" using Cons.prems by simp
  have sp: "\<not> lex_space dquote" "lex_space CHR '' ''"
    by (simp_all add: lex_space_def dquote_def char_code_def)
  have rest: "shlex_run Between (launcher_text args) = Some (map (\<lambda>a. dquote # a @ [dquote]) args)"
    using Cons by simp
  show ?case
  proof (cases args)
    case Nil
    then show ?thesis using shlex_quoted [OF d, of "[dquote]" "[]"] sp
      by (simp add: launcher_text_def)
  next
    case (Cons b bs)
    then have "launcher_text (a # args) = dquote # a @ dquote # CHR '' '' # launcher_text args"
      by (simp add: launcher_text_def)
    then show ?thesis
      using shlex_quoted [OF d, of "[dquote]" "CHR '' '' # launcher_text args"] sp rest by simp
  qed
qed

lemma strip_dquotes: "dquote \<notin> set a \<Longrightarrow> strip_by (\<lambda>c. c = dquote) (dquote # a @ [dquote]) = a"
proof (cases "a = []")
  case False
  assume d: "dquote \<notin> set a"
  have hd: "dropWhile (\<lambda>c. c = dquote) xs = xs" if "xs \<noteq> []" "hd xs \<noteq> dquote" for xs
    using that by (simp add: dropWhile_eq_self_iff)
  have "hd (a @ [dquote]) \<noteq> dquote" "hd (rev a) \<noteq> dquote"
    using d False by (metis hd_append2 hd_in_set, metis hd_in_set rev_is_Nil_conv set_rev)
  then show ?thesis using False hd [of "a @ [dquote]"] hd [of "rev a"] by (simp add: strip_by_def)
qed (simp add: strip_by_def)

lemma split_launcher_text:
  "(\<And>a. a \<in> set args \<Longrightarrow> dquote \<notin> set a) \<Longrightarrow> split_launcher (launcher_text args) = Inr args"
  by (simp add: split_launcher_def shlex_launcher strip_dquotes map_idI)

lemma default_tool_fields [simp]:
  "tl_soffice_bin default_tool_settings = ''soffice''" "tl_unoconvert_bin default_tool_settings = []"
  "tl_office_engine default_tool_settings = AUTO" "tl_unoserver_bin default_tool_settings = []"
  "tl_tesseract_bin default_tool_settings = ''tesseract''" "tl_ghostscript_bin default_tool_settings = ''gs''"
  "tl_tessdata_dir default_tool_settings = []" "tl_pdftoppm_bin default_tool_settings = ''pdftoppm''"
  "tl_ocrmypdf_bin default_tool_settings = ''ocrmypdf''" "tl_profile_pool_size default_tool_settings = 4"
  "s_pool_size default_tool_settings = 2" "s_command_timeout default_tool_settings = 240"
  by (simp_all add: default_tool_settings_def settings.defs tool_settings.defs default_settings_def)

lemma split_bare_launcher:
  assumes "s \<noteq> []" and "\<And>c. c \<in> set s \<Longrightarrow> \<not> lex_space c \<and> c \<noteq> dquote \<and> c \<noteq> squote"
  shows "split_launcher s = Inr [s]"
proof -
  have word: "shlex_run (Word t) u = Some [t @ u]" if "\<And>c. c \<in> set u \<Longrightarrow> \<not> lex_space c" for t u
    using that by (induction u arbitrary: t) auto
  have strip: "strip_by (\<lambda>c. c = dquote) s = s"
    using assms by (intro strip_by_id) (auto simp: hd_in_set)
  obtain c cs where "s = c # cs" using assms(1) by (cases s) auto
  then show ?thesis using word [of cs "[c]"] assms(2) strip by (auto simp: split_launcher_def)
qed

lemma split_soffice [simp]: "split_launcher ''soffice'' = Inr [''soffice'']"
  by (rule split_bare_launcher) (auto simp: lex_space_def dquote_def squote_def char_code_def)

end
