(* ===== verification/OfficePool.thy ===== *)
theory OfficePool
  imports Command
begin

text \<open>
  \<open>app/utils/office_pool.py\<close>: the pool of LibreOffice servers owned by a worker process.

  \<open>office_state\<close> is what the module and the process keep: \<open>os.environ\<close>, the pool objects ever
  created (a reference is an index, so a thread may still hold a pool that is no longer
  current), the globals \<open>_pool\<close>, \<open>_pool_disabled\<close> and \<open>_engine_strikes\<close>, and the world
  outside. The world (processes, ports, files, the PATH, importable modules) is the parameter
  \<open>office_host\<close>. A loop \<open>while time.monotonic() < deadline\<close> runs its body as often as the clock
  allows; that number is \<open>oh_startup_polls\<close> and \<open>oh_grace_polls\<close>. Paths are POSIX texts.

  \<open>_pool_lock\<close> and the slot locks make a conversion on one slot a unit; which slots other
  threads hold when a slot is chosen is the argument \<open>locked\<close>. \<open>UnoServerPool._run_client\<close>
  changes \<open>os.environ\<close> outside any lock; \<open>patch_race\<close> interleaves two of them.
\<close>

section \<open>The world\<close>

datatype module_spec = SpecError | NoSpec | Spec "string option"

type_synonym environ = "string \<Rightarrow> string option"

record 'w office_host =
  oh_prog :: "environ \<Rightarrow> invocation \<Rightarrow> 'w \<Rightarrow> 'w \<times> exec_outcome"
  oh_which :: "string \<Rightarrow> string option"
  oh_is_file :: "string \<Rightarrow> 'w \<Rightarrow> bool"
  oh_resolve :: "string \<Rightarrow> string"
  oh_find_spec :: "string \<Rightarrow> module_spec"
  oh_executable :: string
  oh_free_port :: "'w \<Rightarrow> 'w \<times> nat"
  oh_popen :: "string list \<Rightarrow> environ \<Rightarrow> 'w \<Rightarrow> 'w \<times> ((string \<times> string) + nat)"
  oh_poll :: "nat \<Rightarrow> 'w \<Rightarrow> 'w \<times> int option"
  oh_port_open :: "nat \<Rightarrow> 'w \<Rightarrow> 'w \<times> bool"
  oh_terminate :: "nat \<Rightarrow> 'w \<Rightarrow> 'w"
  oh_startup_polls :: "'w \<Rightarrow> nat"
  oh_grace_polls :: "'w \<Rightarrow> nat"

record launcher =
  la_argv :: "string list"
  la_env :: "(string \<times> string) list"

record server =
  sv_process :: nat
  sv_port :: nat

record pool =
  po_launcher :: launcher
  po_client :: launcher
  po_servers :: "server option list"
  po_round :: nat

record 'w office_state =
  os_environ :: environ
  os_world :: 'w
  os_pools :: "pool list"
  os_current :: "nat option"
  os_disabled :: bool
  os_strikes :: int

datatype pool_exc =
    PoolUnavailable string
  | PoolCrashed string command_error
  | PoolOsError string string
  | PoolPy py_exc

type_synonym ('w, 'a) pact = "'w office_state \<Rightarrow> 'w office_state \<times> (pool_exc, 'a) result"

definition pbind :: "('w, 'a) pact \<Rightarrow> ('a \<Rightarrow> ('w, 'b) pact) \<Rightarrow> ('w, 'b) pact" where
  "pbind m f s = (case m s of (s', Inl e) \<Rightarrow> (s', Inl e) | (s', Inr a) \<Rightarrow> f a s')"

definition preturn :: "'a \<Rightarrow> ('w, 'a) pact" where
  "preturn a s = (s, Inr a)"

definition praise :: "pool_exc \<Rightarrow> ('w, 'a) pact" where
  "praise e s = (s, Inl e)"

definition plift :: "(py_exc, 'a) result \<Rightarrow> ('w, 'a) pact" where
  "plift r s = (s, case r of Inl e \<Rightarrow> Inl (PoolPy e) | Inr a \<Rightarrow> Inr a)"

text \<open>An operation of the world alone.\<close>

definition outside :: "('w \<Rightarrow> 'w \<times> 'a) \<Rightarrow> ('w, 'a) pact" where
  "outside f s = (case f (os_world s) of (w, a) \<Rightarrow> (s\<lparr>os_world := w\<rparr>, Inr a))"

section \<open>Filter options\<close>

datatype filter_value = FStr string | FInt int | FBool bool

fun filter_text :: "filter_value \<Rightarrow> string" where
  "filter_text (FBool b) = (if b then ''true'' else ''false'')"
| "filter_text (FStr s) = s"
| "filter_text (FInt i) = int_str i"

definition filter_option_args :: "string option \<Rightarrow> (string \<times> filter_value) list \<Rightarrow> string list" where
  "filter_option_args filter_name filter_options =
     (case filter_name of Some (c # cs) \<Rightarrow> [''--filter'', c # cs] | _ \<Rightarrow> [])
     @ concat (map (\<lambda>(name, v). [''--filter-options'', name @ ''='' @ filter_text v]) filter_options)"

section \<open>Launcher resolution\<close>

definition py_parent :: "string \<Rightarrow> string" where
  "py_parent p = (case split_last CHR ''/'' p of
     None \<Rightarrow> ''.'' | Some ([], _) \<Rightarrow> ''/'' | Some (d, _) \<Rightarrow> d)"

definition path_join :: "string \<Rightarrow> string \<Rightarrow> string" where
  "path_join d n = (if d = ''.'' then n else if d = ''/'' then ''/'' @ n else d @ ''/'' @ n)"

definition first_token :: "string list \<Rightarrow> (py_exc, string) result" where
  "first_token ts = (case ts of
     [] \<Rightarrow> Inl (OtherError ''IndexError'' ''list index out of range'') | t # _ \<Rightarrow> Inr t)"

definition soffice_executable ::
  "'w office_host \<Rightarrow> ('z) tool_settings_scheme \<Rightarrow> 'w \<Rightarrow> (py_exc, string option) result" where
  "soffice_executable h cfg w =
     rbind (rbind (split_launcher (tl_soffice_bin cfg)) first_token) (\<lambda>token.
       Inr (if oh_is_file h token w then Some token else oh_which h token))"

definition lo_python ::
  "'w office_host \<Rightarrow> ('z) tool_settings_scheme \<Rightarrow> 'w \<Rightarrow> (py_exc, string option) result" where
  "lo_python h cfg w =
     rbind (soffice_executable h cfg w) (\<lambda>soffice. Inr (case soffice of
       Some (c # cs) \<Rightarrow>
         List.find (\<lambda>candidate. oh_is_file h candidate w)
           (map (path_join (py_parent (oh_resolve h (c # cs)))) [''python.exe'', ''python''])
     | _ \<Rightarrow> None))"

definition unoserver_package_root :: "'w office_host \<Rightarrow> string option" where
  "unoserver_package_root h = (case oh_find_spec h ''unoserver'' of
     Spec (Some (c # cs)) \<Rightarrow> Some (py_parent (py_parent (c # cs))) | _ \<Rightarrow> None)"

definition has_module :: "'w office_host \<Rightarrow> string \<Rightarrow> bool" where
  "has_module h name = (case oh_find_spec h name of Spec _ \<Rightarrow> True | _ \<Rightarrow> False)"

definition pythonpath_env :: "environ \<Rightarrow> string \<Rightarrow> (string \<times> string) list" where
  "pythonpath_env env package_root =
     [(''PYTHONPATH'', case env ''PYTHONPATH'' of
         Some (c # cs) \<Rightarrow> package_root @ '':'' @ (c # cs) | _ \<Rightarrow> package_root)]"

definition plain_launcher :: "string list \<Rightarrow> launcher" where
  "plain_launcher argv = \<lparr>la_argv = argv, la_env = []\<rparr>"

definition server_launcher_candidates ::
  "'w office_host \<Rightarrow> ('z) tool_settings_scheme \<Rightarrow> environ \<Rightarrow> 'w \<Rightarrow> (py_exc, launcher list) result" where
  "server_launcher_candidates h cfg env w =
     (if tl_unoserver_bin cfg \<noteq> []
      then rbind (split_launcher (tl_unoserver_bin cfg)) (\<lambda>argv. Inr [plain_launcher argv])
      else rbind (lo_python h cfg w) (\<lambda>python.
        Inr ((case oh_which h ''unoserver'' of Some (c # cs) \<Rightarrow> [plain_launcher [c # cs]] | _ \<Rightarrow> [])
          @ (case (python, unoserver_package_root h) of
               (Some p, Some (c # cs)) \<Rightarrow>
                 [\<lparr>la_argv = [p, ''-m'', ''unoserver.server''], la_env = pythonpath_env env (c # cs)\<rparr>]
             | _ \<Rightarrow> [])
          @ (case unoserver_package_root h of
               Some (c # cs) \<Rightarrow>
                 if has_module h ''uno''
                 then [plain_launcher [oh_executable h, ''-m'', ''unoserver.server'']] else []
             | _ \<Rightarrow> []))))"

definition CLIENT_ENTRY :: string where
  "CLIENT_ENTRY = ''from unoserver.client import converter_main; converter_main()''"

definition client_launcher ::
  "'w office_host \<Rightarrow> ('z) tool_settings_scheme \<Rightarrow> environ \<Rightarrow> 'w \<Rightarrow> (py_exc, launcher option) result" where
  "client_launcher h cfg env w =
     (case List.find (\<lambda>script. oh_is_file h script w)
             (map (path_join (py_parent (oh_executable h))) [''unoconvert.exe'', ''unoconvert'']) of
        Some script \<Rightarrow> Inr (Some (plain_launcher [script]))
      | None \<Rightarrow>
          (case oh_which h ''unoconvert'' of
             Some (c # cs) \<Rightarrow> Inr (Some (plain_launcher [c # cs]))
           | _ \<Rightarrow>
               (case unoserver_package_root h of
                  Some (c # cs) \<Rightarrow>
                    if has_module h ''unoserver''
                    then Inr (Some (plain_launcher [oh_executable h, ''-c'', CLIENT_ENTRY]))
                    else rbind (lo_python h cfg w) (\<lambda>python. Inr (map_option (\<lambda>p.
                      \<lparr>la_argv = [p, ''-c'', CLIENT_ENTRY], la_env = pythonpath_env env (c # cs)\<rparr>) python))
                | _ \<Rightarrow> Inr None)))"

section \<open>Servers\<close>

definition STRIKE_COST :: int where "STRIKE_COST = 2"
definition STRIKE_LIMIT :: int where "STRIKE_LIMIT = 6"

text \<open>\<open>_server_died\<close>: the polls of the grace period, then one more.\<close>

fun poll_until_dead :: "'w office_host \<Rightarrow> nat \<Rightarrow> nat \<Rightarrow> ('w, bool) pact" where
  "poll_until_dead h process 0 =
     pbind (outside (oh_poll h process)) (\<lambda>code. preturn (code \<noteq> None))"
| "poll_until_dead h process (Suc n) =
     pbind (outside (oh_poll h process)) (\<lambda>code.
       if code \<noteq> None then preturn True else poll_until_dead h process n)"

definition server_died :: "'w office_host \<Rightarrow> server \<Rightarrow> ('w, bool) pact" where
  "server_died h sv s = poll_until_dead h (sv_process sv) (oh_grace_polls h (os_world s)) s"

fun await_port :: "'w office_host \<Rightarrow> nat \<Rightarrow> nat \<Rightarrow> nat \<Rightarrow> ('w, server) pact" where
  "await_port h process port 0 =
     pbind (outside (\<lambda>w. (oh_terminate h process w, ()))) (\<lambda>_.
     praise (PoolUnavailable (''unoserver did not open port '' @ nat_str port @ '' within 90s'')))"
| "await_port h process port (Suc n) =
     pbind (outside (oh_poll h process)) (\<lambda>code.
       case code of
         Some c \<Rightarrow> praise (PoolUnavailable
           (''unoserver exited with code '' @ int_str c @ '' during startup''))
       | None \<Rightarrow>
           pbind (outside (oh_port_open h port)) (\<lambda>ready.
             if ready then preturn \<lparr>sv_process = process, sv_port = port\<rparr>
             else await_port h process port n))"

definition patch_env :: "(string \<times> string) list \<Rightarrow> environ \<Rightarrow> environ" where
  "patch_env patch env = fold (\<lambda>(k, v) e. e(k := Some v)) patch env"

definition server_command :: "launcher \<Rightarrow> nat \<Rightarrow> nat \<Rightarrow> string option \<Rightarrow> string list" where
  "server_command la port uno_port soffice =
     la_argv la @ [''--interface'', ''127.0.0.1'', ''--port'', nat_str port,
       ''--uno-interface'', ''127.0.0.1'', ''--uno-port'', nat_str uno_port]
     @ (case soffice of Some (c # cs) \<Rightarrow> [''--executable'', c # cs] | _ \<Rightarrow> [])"

definition spawn_server ::
  "'w office_host \<Rightarrow> ('z) tool_settings_scheme \<Rightarrow> launcher \<Rightarrow> ('w, server) pact" where
  "spawn_server h cfg la =
     pbind (outside (oh_free_port h)) (\<lambda>port.
     pbind (outside (oh_free_port h)) (\<lambda>uno_port.
     pbind (\<lambda>s. plift (soffice_executable h cfg (os_world s)) s) (\<lambda>soffice.
     pbind (\<lambda>s. outside (oh_popen h (server_command la port uno_port soffice)
               (patch_env (la_env la) (os_environ s))) s) (\<lambda>started.
       case started of
         Inl (cls, m) \<Rightarrow> praise (PoolOsError cls m)
       | Inr process \<Rightarrow> (\<lambda>s. await_port h process port (oh_startup_polls h (os_world s)) s)))))"

section \<open>One pool\<close>

definition new_pool :: "int \<Rightarrow> launcher \<Rightarrow> launcher \<Rightarrow> pool" where
  "new_pool n la client = \<lparr>po_launcher = la, po_client = client,
     po_servers = replicate (nat (max 1 n)) None, po_round = 0\<rparr>"

definition upd_pool :: "nat \<Rightarrow> (pool \<Rightarrow> pool) \<Rightarrow> 'w office_state \<Rightarrow> 'w office_state" where
  "upd_pool k f s = s\<lparr>os_pools := (os_pools s)[k := f (os_pools s ! k)]\<rparr>"

definition set_server :: "nat \<Rightarrow> nat \<Rightarrow> server \<Rightarrow> ('w, server) pact" where
  "set_server k slot sv s =
     (upd_pool k (\<lambda>p. p\<lparr>po_servers := (po_servers p)[slot := Some sv]\<rparr>) s, Inr sv)"

definition ensure_server ::
  "'w office_host \<Rightarrow> ('z) tool_settings_scheme \<Rightarrow> nat \<Rightarrow> nat \<Rightarrow> ('w, server) pact" where
  "ensure_server h cfg k slot s =
     (let p = os_pools s ! k;
          restart = pbind (spawn_server h cfg (po_launcher p)) (set_server k slot)
      in case po_servers p ! slot of
           None \<Rightarrow> restart s
         | Some sv \<Rightarrow> pbind (outside (oh_poll h (sv_process sv)))
             (\<lambda>code. if code = None then preturn sv else restart) s)"

fun prewarm_slots ::
  "'w office_host \<Rightarrow> ('z) tool_settings_scheme \<Rightarrow> nat \<Rightarrow> nat list \<Rightarrow> ('w, unit) pact" where
  "prewarm_slots h cfg k [] = preturn ()"
| "prewarm_slots h cfg k (slot # slots) =
     pbind (ensure_server h cfg k slot) (\<lambda>_. prewarm_slots h cfg k slots)"

definition prewarm :: "'w office_host \<Rightarrow> ('z) tool_settings_scheme \<Rightarrow> nat \<Rightarrow> ('w, unit) pact" where
  "prewarm h cfg k s = prewarm_slots h cfg k [0..<length (po_servers (os_pools s ! k))] s"

fun stop_servers :: "'w office_host \<Rightarrow> server option list \<Rightarrow> 'w \<Rightarrow> 'w" where
  "stop_servers h [] w = w"
| "stop_servers h (None # svs) w = stop_servers h svs w"
| "stop_servers h (Some sv # svs) w =
     (case oh_poll h (sv_process sv) w of
        (w', code) \<Rightarrow>
          stop_servers h svs (if code = None then oh_terminate h (sv_process sv) w' else w'))"

definition shutdown_pool :: "'w office_host \<Rightarrow> nat \<Rightarrow> 'w office_state \<Rightarrow> 'w office_state" where
  "shutdown_pool h k s =
     upd_pool k (\<lambda>p. p\<lparr>po_servers := replicate (length (po_servers p)) None\<rparr>)
       (s\<lparr>os_world := stop_servers h (po_servers (os_pools s ! k)) (os_world s)\<rparr>)"

section \<open>Engine health\<close>

definition record_engine_strike :: "'w office_host \<Rightarrow> 'w office_state \<Rightarrow> 'w office_state" where
  "record_engine_strike h s =
     (let s1 = s\<lparr>os_strikes := os_strikes s + STRIKE_COST\<rparr> in
      if os_strikes s1 < STRIKE_LIMIT \<or> os_disabled s1 then s1
      else (let s2 = s1\<lparr>os_disabled := True\<rparr> in
        case os_current s2 of
          None \<Rightarrow> s2
        | Some k \<Rightarrow> (shutdown_pool h k s2)\<lparr>os_current := None\<rparr>))"

definition record_engine_success :: "'w office_state \<Rightarrow> 'w office_state" where
  "record_engine_success s = s\<lparr>os_strikes := max 0 (os_strikes s - 1)\<rparr>"

section \<open>Conversion\<close>

record conversion =
  cv_input :: string
  cv_output :: string
  cv_extension :: string
  cv_filter :: "string option"
  cv_options :: "(string \<times> filter_value) list"
  cv_timeout :: "int option"

definition save_env :: "(string \<times> string) list \<Rightarrow> environ \<Rightarrow> (string \<times> string option) list" where
  "save_env patch env = map (\<lambda>(k, _). (k, env k)) patch"

definition restore_env :: "(string \<times> string option) list \<Rightarrow> environ \<Rightarrow> environ" where
  "restore_env saved env = fold (\<lambda>(k, v) e. e(k := v)) saved env"

text \<open>A program run in the environment that \<open>os.environ\<close> has at that moment.\<close>

definition office_prog :: "'w office_host \<Rightarrow> 'w office_state subprocess" where
  "office_prog h iv s =
     (case oh_prog h (os_environ s) iv (os_world s) of (w, out) \<Rightarrow> (s\<lparr>os_world := w\<rparr>, out))"

definition client_command :: "launcher \<Rightarrow> server \<Rightarrow> conversion \<Rightarrow> string list" where
  "client_command client sv cv =
     la_argv client @ [''--host'', ''127.0.0.1'', ''--port'', nat_str (sv_port sv),
       ''--convert-to'', cv_extension cv]
     @ filter_option_args (cv_filter cv) (cv_options cv) @ [cv_input cv, cv_output cv]"

definition run_client ::
  "'w office_host \<Rightarrow> ('z) tool_settings_scheme \<Rightarrow> launcher \<Rightarrow> server \<Rightarrow> conversion
     \<Rightarrow> 'w office_state \<Rightarrow> 'w office_state \<times> (py_exc, command_result) result" where
  "run_client h cfg client sv cv s =
     (let call = run_tool cfg (office_prog h) ''document converter'' (client_command client sv cv)
            (cv_timeout cv)
      in if la_env client = [] then call s
         else (case call (s\<lparr>os_environ := patch_env (la_env client) (os_environ s)\<rparr>) of
           (s', r) \<Rightarrow>
             (s'\<lparr>os_environ := restore_env (save_env (la_env client) (os_environ s)) (os_environ s')\<rparr>, r)))"

definition choose_slot :: "(nat \<Rightarrow> bool) \<Rightarrow> pool \<Rightarrow> nat \<times> pool" where
  "choose_slot locked p =
     (let n = length (po_servers p) in
      case List.find (\<lambda>i. \<not> locked i) [0..<n] of
        Some i \<Rightarrow> (i, p)
      | None \<Rightarrow> (po_round p mod n, p\<lparr>po_round := po_round p + 1\<rparr>))"

definition settle_conversion ::
  "'w office_host \<Rightarrow> server \<Rightarrow> (py_exc, command_result) result \<Rightarrow> ('w, unit) pact" where
  "settle_conversion h sv r s =
     (case r of
        Inr _ \<Rightarrow> (record_engine_success s, Inr ())
      | Inl (CommandError m ce) \<Rightarrow>
          if ce_timed_out ce then (s, Inl (PoolPy (CommandError m ce)))
          else pbind (server_died h sv) (\<lambda>died s'.
            if died then (record_engine_strike h s', Inl (PoolCrashed m ce))
            else (s', Inl (PoolPy (CommandError m ce)))) s
      | Inl e \<Rightarrow> (s, Inl (PoolPy e)))"

definition pool_object_convert ::
  "'w office_host \<Rightarrow> ('z) tool_settings_scheme \<Rightarrow> (nat \<Rightarrow> bool) \<Rightarrow> nat \<Rightarrow> conversion \<Rightarrow> ('w, unit) pact" where
  "pool_object_convert h cfg locked k cv s =
     (case choose_slot locked (os_pools s ! k) of
        (slot, p) \<Rightarrow>
          pbind (ensure_server h cfg k slot) (\<lambda>sv s1.
            case run_client h cfg (po_client p) sv cv s1 of (s2, r) \<Rightarrow> settle_conversion h sv r s2)
            (upd_pool k (\<lambda>_. p) s))"

section \<open>The process-wide pool\<close>

fun try_launchers ::
  "'w office_host \<Rightarrow> ('z) tool_settings_scheme \<Rightarrow> launcher \<Rightarrow> launcher list \<Rightarrow> ('w, nat) pact" where
  "try_launchers h cfg client [] s =
     (s\<lparr>os_disabled := True\<rparr>,
      Inl (PoolUnavailable ''every unoserver launcher candidate failed to start''))"
| "try_launchers h cfg client (la # las) s =
     (let k = length (os_pools s);
          s1 = s\<lparr>os_pools := os_pools s @ [new_pool (s_pool_size cfg) la client]\<rparr>
      in case ensure_server h cfg k 0 s1 of
           (s2, Inr _) \<Rightarrow> (s2\<lparr>os_current := Some k\<rparr>, Inr k)
         | (s2, Inl (PoolPy e)) \<Rightarrow> (s2, Inl (PoolPy e))
         | (s2, Inl _) \<Rightarrow> try_launchers h cfg client las s2)"

definition activate_pool :: "'w office_host \<Rightarrow> ('z) tool_settings_scheme \<Rightarrow> ('w, nat) pact" where
  "activate_pool h cfg s =
     (case os_current s of
        Some k \<Rightarrow> (s, Inr k)
      | None \<Rightarrow>
          if os_disabled s
          then (s, Inl (PoolUnavailable ''unoserver pool is disabled for this process''))
          else pbind (plift (client_launcher h cfg (os_environ s) (os_world s))) (\<lambda>client.
            pbind (plift (server_launcher_candidates h cfg (os_environ s) (os_world s))) (\<lambda>candidates s'.
              case client of
                Some c \<Rightarrow>
                  if candidates = []
                  then (s'\<lparr>os_disabled := True\<rparr>,
                    Inl (PoolUnavailable ''no unoserver launcher found on this machine''))
                  else try_launchers h cfg c candidates s'
              | None \<Rightarrow> (s'\<lparr>os_disabled := True\<rparr>,
                    Inl (PoolUnavailable ''no unoserver launcher found on this machine'')))) s)"

definition pool_available ::
  "'w office_host \<Rightarrow> ('z) tool_settings_scheme \<Rightarrow> 'w office_state \<Rightarrow> (py_exc, bool) result" where
  "pool_available h cfg s =
     (if os_current s \<noteq> None then Inr True
      else if os_disabled s then Inr False
      else rbind (server_launcher_candidates h cfg (os_environ s) (os_world s)) (\<lambda>candidates.
        if candidates = [] then Inr False
        else rbind (client_launcher h cfg (os_environ s) (os_world s)) (\<lambda>client. Inr (client \<noteq> None))))"

definition pool_convert ::
  "'w office_host \<Rightarrow> ('z) tool_settings_scheme \<Rightarrow> (nat \<Rightarrow> bool) \<Rightarrow> conversion \<Rightarrow> ('w, unit) pact" where
  "pool_convert h cfg locked cv =
     pbind (activate_pool h cfg) (\<lambda>k. pool_object_convert h cfg locked k cv)"

definition pool_prewarm :: "'w office_host \<Rightarrow> ('z) tool_settings_scheme \<Rightarrow> ('w, unit) pact" where
  "pool_prewarm h cfg s =
     (case pbind (activate_pool h cfg) (prewarm h cfg) s of
        (s', Inl (PoolUnavailable _)) \<Rightarrow> (s', Inr ())
      | (s', Inl (PoolCrashed _ _)) \<Rightarrow> (s', Inr ())
      | r \<Rightarrow> r)"

definition reset_pool :: "'w office_host \<Rightarrow> 'w office_state \<Rightarrow> 'w office_state" where
  "reset_pool h s =
     (case os_current s of None \<Rightarrow> s | Some k \<Rightarrow> shutdown_pool h k s)
       \<lparr>os_current := None, os_disabled := False, os_strikes := 0\<rparr>"

section \<open>Lemmas: what an operation leaves alone\<close>

lemmas pact_defs = pbind_def preturn_def praise_def plift_def

text \<open>The three globals of the module and the environment.\<close>

definition same_engine :: "'w office_state \<Rightarrow> 'w office_state \<Rightarrow> bool" where
  "same_engine s t \<longleftrightarrow> os_current t = os_current s \<and> os_disabled t = os_disabled s
     \<and> os_strikes t = os_strikes s \<and> os_environ t = os_environ s"

lemma same_engine_refl [simp, intro]: "same_engine s s"
  by (simp add: same_engine_def)

lemma same_engine_trans [trans]: "same_engine s t \<Longrightarrow> same_engine t u \<Longrightarrow> same_engine s u"
  by (simp add: same_engine_def)

text \<open>\<open>keeps_engine\<close>: these stay, and \<open>PoolCrashed\<close> is not raised.\<close>

definition keeps_engine :: "('w, 'a) pact \<Rightarrow> bool" where
  "keeps_engine m \<longleftrightarrow> (\<forall>s. same_engine s (fst (m s)) \<and> (\<forall>x y. snd (m s) \<noteq> Inl (PoolCrashed x y)))"

lemma keeps_engineI:
  "(\<And>s. same_engine s (fst (m s))) \<Longrightarrow> (\<And>s x y. snd (m s) \<noteq> Inl (PoolCrashed x y)) \<Longrightarrow> keeps_engine m"
  by (simp add: keeps_engine_def)

lemma keeps_engineD:
  assumes "keeps_engine m" and "m s = (t, r)"
  shows "same_engine s t" and "r \<noteq> Inl (PoolCrashed x y)"
  using assms by (metis fst_conv keeps_engine_def, metis snd_conv keeps_engine_def)

lemma keeps_pure [simp, intro]:
  "keeps_engine (preturn a)" "keeps_engine (plift r)"
  "keeps_engine (praise (PoolUnavailable m))" "keeps_engine (praise (PoolOsError c m))"
  by (simp_all add: keeps_engine_def pact_defs split: sum.split)

lemma keeps_outside [simp, intro]: "keeps_engine (outside f)"
  by (auto simp: keeps_engine_def outside_def same_engine_def split: prod.split)

lemma keeps_bind [intro]:
  assumes "keeps_engine m" and "\<And>a. keeps_engine (f a)"
  shows "keeps_engine (pbind m f)"
proof -
  have "same_engine s (fst (pbind m f s)) \<and> (\<forall>x y. snd (pbind m f s) \<noteq> Inl (PoolCrashed x y))" for s
  proof -
    obtain t r where m: "m s = (t, r)" by (cases "m s")
    note st = keeps_engineD [OF assms(1) m]
    show ?thesis
    proof (cases r)
      case (Inr a)
      have "same_engine t (fst (f a t))" "snd (f a t) \<noteq> Inl (PoolCrashed x y)" for x y
        using assms(2) [of a] by (simp_all add: keeps_engine_def)
      then show ?thesis using m Inr st(1) by (auto simp: pbind_def same_engine_trans)
    next
      case (Inl e)
      then show ?thesis using m st by (auto simp: pbind_def)
    qed
  qed
  then show ?thesis by (simp add: keeps_engine_def)
qed

lemma keeps_state_arg: "(\<And>s. keeps_engine (m s)) \<Longrightarrow> keeps_engine (\<lambda>s. m s s)"
  by (simp add: keeps_engine_def)

lemma keeps_poll_until_dead [intro]: "keeps_engine (poll_until_dead h process n)"
  by (induction n) (auto intro!: keeps_bind)

lemma keeps_server_died [intro]: "keeps_engine (server_died h sv)"
  unfolding server_died_def by (rule keeps_state_arg) (rule keeps_poll_until_dead)

lemma keeps_await_port [intro]: "keeps_engine (await_port h process port n)"
  by (induction n) (auto intro!: keeps_bind split: option.split)

lemma keeps_spawn_server [intro]: "keeps_engine (spawn_server h cfg la)"
proof -
  have state: "keeps_engine (\<lambda>s. await_port h process port (oh_startup_polls h (os_world s)) s)"
    "keeps_engine (\<lambda>s. plift (soffice_executable h cfg (os_world s)) s)"
    "keeps_engine (\<lambda>s. outside (oh_popen h c (patch_env e (os_environ s))) s)" for process port c e
    by (rule keeps_state_arg, blast)+
  show ?thesis
    unfolding spawn_server_def
    by (intro keeps_bind keeps_outside state) (auto intro: state split: sum.split)
qed

lemma keeps_set_server [intro]: "keeps_engine (set_server k slot sv)"
  by (simp add: keeps_engine_def set_server_def upd_pool_def same_engine_def)

lemma keeps_ensure_server [intro]: "keeps_engine (ensure_server h cfg k slot)"
proof -
  have restart: "keeps_engine (pbind (spawn_server h cfg la) (set_server k slot))" for la
    by (rule keeps_bind) (rule keeps_spawn_server keeps_set_server)+
  have poll: "keeps_engine (pbind (outside f) (\<lambda>code. if code = None then preturn sv
      else pbind (spawn_server h cfg la) (set_server k slot)))" for f :: "'a \<Rightarrow> 'a \<times> int option" and sv la
    using restart by (intro keeps_bind keeps_outside) simp
  show ?thesis
    unfolding keeps_engine_def ensure_server_def Let_def
    using restart poll by (auto simp: keeps_engine_def split: option.split)
qed

lemma keeps_prewarm [intro]: "keeps_engine (prewarm h cfg k)"
proof -
  have "keeps_engine (prewarm_slots h cfg k slots)" for slots
    by (induction slots) (auto intro!: keeps_bind)
  then show ?thesis unfolding prewarm_def by (rule keeps_state_arg)
qed

lemma shutdown_pool_globals [simp]:
  "os_current (shutdown_pool h k s) = os_current s" "os_disabled (shutdown_pool h k s) = os_disabled s"
  "os_strikes (shutdown_pool h k s) = os_strikes s" "os_environ (shutdown_pool h k s) = os_environ s"
  by (simp_all add: shutdown_pool_def upd_pool_def)

subsection \<open>The environment\<close>

lemma patch_env_other: "k \<notin> fst ` set patch \<Longrightarrow> patch_env patch env k = env k"
  unfolding patch_env_def by (induction patch arbitrary: env) auto

lemma restore_env_apply:
  "restore_env (map (\<lambda>(k, _). (k, env k)) patch) e k = (if k \<in> fst ` set patch then env k else e k)"
  unfolding restore_env_def by (induction patch arbitrary: e) auto

lemma restore_after_patch: "restore_env (save_env patch env) (patch_env patch env) = env"
  by (rule ext) (simp add: save_env_def restore_env_apply patch_env_other)

lemma office_prog_environ [simp]: "os_environ (fst (office_prog h iv s)) = os_environ s"
  by (simp add: office_prog_def split: prod.split)

lemma office_prog_globals [simp]:
  "os_current (fst (office_prog h iv s)) = os_current s"
  "os_disabled (fst (office_prog h iv s)) = os_disabled s"
  "os_strikes (fst (office_prog h iv s)) = os_strikes s"
  by (simp_all add: office_prog_def split: prod.split)

lemma run_tool_engine:
  "same_engine s (fst (run_tool cfg (office_prog h) lab command timeout s))"
proof (cases "command = []")
  case True
  then show ?thesis by (simp add: run_tool_command_empty)
next
  case False
  then show ?thesis
    by (simp add: run_tool_command_def same_engine_def split: prod.split sum.split)
      (metis fst_conv office_prog_environ office_prog_globals run_command_state)
qed

text \<open>A conversion leaves \<open>os.environ\<close> as it found it, whatever the client does.\<close>

lemma run_client_engine: "same_engine s (fst (run_client h cfg client sv cv s))"
proof -
  let ?call = "run_tool cfg (office_prog h) ''document converter'' (client_command client sv cv) (cv_timeout cv)"
  let ?s = "s\<lparr>os_environ := patch_env (la_env client) (os_environ s)\<rparr>"
  have "same_engine s (fst (?call s))" and p: "same_engine ?s (fst (?call ?s))"
    by (rule run_tool_engine)+
  moreover have "os_environ (fst (?call ?s)) = patch_env (la_env client) (os_environ s)"
    using p by (simp add: same_engine_def)
  ultimately show ?thesis
    by (auto simp: run_client_def Let_def same_engine_def restore_after_patch split: prod.splits)
qed

text \<open>
  Two threads that patch the environment at once: each saves, patches, runs and restores; the
  second saves after the first has patched and restores after it.
\<close>

definition patch_race :: "(string \<times> string) list \<Rightarrow> environ \<Rightarrow> environ" where
  "patch_race patch env =
     (let saved1 = save_env patch env; e1 = patch_env patch env;
          saved2 = save_env patch e1; e2 = patch_env patch e1
      in restore_env saved2 (restore_env saved1 e2))"

lemma patch_race_leaks:
  "patch_race (pythonpath_env (\<lambda>_. None) root) (\<lambda>_. None) ''PYTHONPATH'' = Some root"
  by (simp add: patch_race_def pythonpath_env_def save_env_def patch_env_def restore_env_def)

section \<open>Engine health over a history\<close>

lemma record_engine_strike_globals:
  "os_strikes (record_engine_strike h s) = os_strikes s + 2"
  "os_environ (record_engine_strike h s) = os_environ s"
  "os_disabled (record_engine_strike h s) \<longleftrightarrow> os_disabled s \<or> 6 \<le> os_strikes s + 2"
  "os_current (record_engine_strike h s)
    = (if \<not> os_disabled s \<and> 6 \<le> os_strikes s + 2 then None else os_current s)"
  by (auto simp: record_engine_strike_def Let_def STRIKE_COST_def STRIKE_LIMIT_def split: option.split)

lemma try_launchers_globals:
  "try_launchers h cfg client las s = (t, r) \<Longrightarrow> os_current s = None \<Longrightarrow>
    os_strikes t = os_strikes s \<and> os_environ t = os_environ s
    \<and> (case r of Inr k \<Rightarrow> os_current t = Some k \<and> os_disabled t = os_disabled s
       | Inl e \<Rightarrow> os_current t = None \<and> (\<forall>x y. e \<noteq> PoolCrashed x y))"
proof (induction h cfg client las s rule: try_launchers.induct)
  case (1 h cfg client s)
  then show ?case by auto
next
  case (2 h cfg client la las s)
  let ?k = "length (os_pools s)"
  let ?s1 = "s\<lparr>os_pools := os_pools s @ [new_pool (s_pool_size cfg) la client]\<rparr>"
  obtain s2 q where e: "ensure_server h cfg ?k 0 ?s1 = (s2, q)" by (cases "ensure_server h cfg ?k 0 ?s1")
  have s2: "os_current s2 = None" "os_strikes s2 = os_strikes s" "os_environ s2 = os_environ s"
      "os_disabled s2 = os_disabled s"
    using keeps_engineD(1) [OF keeps_ensure_server e] "2.prems"(2) by (simp_all add: same_engine_def)
  have crash: "q \<noteq> Inl (PoolCrashed x y)" for x y
    using keeps_engineD(2) [OF keeps_ensure_server e] .
  show ?case
  proof (cases q)
    case (Inr sv)
    then show ?thesis using "2.prems" e s2 by (auto simp: Let_def)
  next
    case (Inl x)
    then have ih: "try_launchers h cfg client las s2 = (t, r) \<Longrightarrow> ?thesis"
      if "\<forall>p. x \<noteq> PoolPy p"
      using "2.IH" [OF refl refl e [symmetric]] that s2 by (cases x) (auto split: sum.splits)
    show ?thesis
    proof (cases x)
      case (PoolPy p)
      then show ?thesis using "2.prems" e s2 Inl by (auto simp: Let_def)
    qed (use "2.prems" e Inl ih in \<open>auto simp: Let_def\<close>)
  qed
qed

lemma activate_pool_globals:
  assumes "activate_pool h cfg s = (t, r)" and "os_disabled s \<Longrightarrow> os_current s = None"
  shows "os_strikes t = os_strikes s" and "os_environ t = os_environ s"
    and "os_disabled s \<Longrightarrow> t = s \<and> r = Inl (PoolUnavailable ''unoserver pool is disabled for this process'')"
    and "r = Inr k \<Longrightarrow> os_current t = Some k \<and> \<not> os_disabled t"
    and "r = Inl e \<Longrightarrow> os_current t = None \<and> (\<forall>x y. e \<noteq> PoolCrashed x y)"
proof -
  have "os_strikes t = os_strikes s \<and> os_environ t = os_environ s
    \<and> (os_disabled s \<longrightarrow> t = s \<and> r = Inl (PoolUnavailable ''unoserver pool is disabled for this process''))
    \<and> (case r of Inr k \<Rightarrow> os_current t = Some k \<and> \<not> os_disabled t
       | Inl e \<Rightarrow> os_current t = None \<and> (\<forall>x y. e \<noteq> PoolCrashed x y))"
  proof (cases "os_current s")
    case (Some k)
    then show ?thesis using assms by (auto simp: activate_pool_def)
  next
    case None
    show ?thesis
    proof (cases "os_disabled s")
      case True
      then show ?thesis using assms None by (auto simp: activate_pool_def)
    next
      case False
      show ?thesis
      proof (cases "\<exists>c la las. client_launcher h cfg (os_environ s) (os_world s) = Inr (Some c)
          \<and> server_launcher_candidates h cfg (os_environ s) (os_world s) = Inr (la # las)")
        case True
        then obtain c la las where "activate_pool h cfg s = try_launchers h cfg c (la # las) s"
          using None False by (auto simp: activate_pool_def pact_defs simp del: try_launchers.simps)
        then show ?thesis
          using try_launchers_globals [of h cfg c "la # las" s t r] assms(1) None False
          by (auto split: sum.splits simp del: try_launchers.simps)
      next
        case other: False
        then show ?thesis
          using assms(1) None False
          by (auto simp: activate_pool_def pact_defs neq_Nil_conv simp del: try_launchers.simps
              split: sum.splits option.splits if_splits)
      qed
    qed
  qed
  then show "os_strikes t = os_strikes s" and "os_environ t = os_environ s"
    and "os_disabled s \<Longrightarrow> t = s \<and> r = Inl (PoolUnavailable ''unoserver pool is disabled for this process'')"
    and "r = Inr k \<Longrightarrow> os_current t = Some k \<and> \<not> os_disabled t"
    and "r = Inl e \<Longrightarrow> os_current t = None \<and> (\<forall>x y. e \<noteq> PoolCrashed x y)"
    by auto
qed

text \<open>What one conversion on a pool object does to the score.\<close>

lemma pool_object_convert_globals:
  assumes "pool_object_convert h cfg locked k cv s = (t, r)" and "\<not> os_disabled s"
  shows "os_environ t = os_environ s"
    and "case r of
        Inr _ \<Rightarrow> os_strikes t = max 0 (os_strikes s - 1) \<and> os_current t = os_current s \<and> \<not> os_disabled t
      | Inl e \<Rightarrow>
          if \<exists>m ce. e = PoolCrashed m ce
          then os_strikes t = os_strikes s + 2 \<and> (os_disabled t \<longleftrightarrow> 4 \<le> os_strikes s)
            \<and> os_current t = (if 4 \<le> os_strikes s then None else os_current s)
          else os_strikes t = os_strikes s \<and> os_current t = os_current s \<and> \<not> os_disabled t"
proof -
  obtain slot p where c: "choose_slot locked (os_pools s ! k) = (slot, p)"
    by (cases "choose_slot locked (os_pools s ! k)")
  let ?s0 = "upd_pool k (\<lambda>_. p) s"
  obtain s1 q where e: "ensure_server h cfg k slot ?s0 = (s1, q)" by (cases "ensure_server h cfg k slot ?s0")
  have s1: "same_engine s s1"
    using keeps_engineD(1) [OF keeps_ensure_server e] by (simp add: same_engine_def upd_pool_def)
  have "os_environ t = os_environ s \<and> (case r of
        Inr _ \<Rightarrow> os_strikes t = max 0 (os_strikes s - 1) \<and> os_current t = os_current s \<and> \<not> os_disabled t
      | Inl e \<Rightarrow>
          if \<exists>m ce. e = PoolCrashed m ce
          then os_strikes t = os_strikes s + 2 \<and> (os_disabled t \<longleftrightarrow> 4 \<le> os_strikes s)
            \<and> os_current t = (if 4 \<le> os_strikes s then None else os_current s)
          else os_strikes t = os_strikes s \<and> os_current t = os_current s \<and> \<not> os_disabled t)"
  proof (cases q)
    case (Inl x)
    then have "t = s1" "r = Inl x" using assms(1) c e by (auto simp: pool_object_convert_def pbind_def)
    then show ?thesis
      using s1 Inl assms(2) keeps_engineD(2) [OF keeps_ensure_server e] by (auto simp: same_engine_def)
  next
    case (Inr sv)
    obtain s2 res where rc: "run_client h cfg (po_client p) sv cv s1 = (s2, res)"
      by (cases "run_client h cfg (po_client p) sv cv s1")
    have s2: "same_engine s s2"
      using run_client_engine [of s1 h cfg "po_client p" sv cv] rc s1 by (simp add: same_engine_trans)
    have tr: "(t, r) = settle_conversion h sv res s2"
      using assms(1) c e Inr rc by (simp add: pool_object_convert_def pbind_def)
    show ?thesis
    proof (cases "\<exists>m ce. res = Inl (CommandError m ce) \<and> \<not> ce_timed_out ce")
      case True
      then obtain m ce where res: "res = Inl (CommandError m ce)" "\<not> ce_timed_out ce" by blast
      obtain s3 died where d: "server_died h sv s2 = (s3, died)" by (cases "server_died h sv s2")
      have s3: "same_engine s s3"
        using keeps_engineD(1) [OF keeps_server_died d] s2 by (rule same_engine_trans [rotated])
      show ?thesis
        using tr res d s3 assms(2) keeps_engineD(2) [OF keeps_server_died d]
        by (auto simp: settle_conversion_def pbind_def same_engine_def record_engine_strike_globals
            split: sum.splits if_splits)
    next
      case False
      then show ?thesis
        using tr s2 assms(2)
        by (auto simp: settle_conversion_def same_engine_def record_engine_success_def
            split: sum.splits py_exc.splits if_splits)
    qed
  qed
  then show "os_environ t = os_environ s" and "case r of
        Inr _ \<Rightarrow> os_strikes t = max 0 (os_strikes s - 1) \<and> os_current t = os_current s \<and> \<not> os_disabled t
      | Inl e \<Rightarrow>
          if \<exists>m ce. e = PoolCrashed m ce
          then os_strikes t = os_strikes s + 2 \<and> (os_disabled t \<longleftrightarrow> 4 \<le> os_strikes s)
            \<and> os_current t = (if 4 \<le> os_strikes s then None else os_current s)
          else os_strikes t = os_strikes s \<and> os_current t = os_current s \<and> \<not> os_disabled t"
    by simp_all
qed

text \<open>A sequence of requests to the module, with what each conversion ended in.\<close>

datatype pool_call = PConvert "nat \<Rightarrow> bool" conversion | PPrewarm

fun pool_history ::
  "'w office_host \<Rightarrow> ('z) tool_settings_scheme \<Rightarrow> pool_call list \<Rightarrow> 'w office_state
     \<Rightarrow> 'w office_state \<times> (pool_exc, unit) result list" where
  "pool_history h cfg [] s = (s, [])"
| "pool_history h cfg (PConvert locked cv # calls) s =
     (case pool_convert h cfg locked cv s of (t, r) \<Rightarrow>
        case pool_history h cfg calls t of (u, rs) \<Rightarrow> (u, r # rs))"
| "pool_history h cfg (PPrewarm # calls) s = pool_history h cfg calls (fst (pool_prewarm h cfg s))"

fun is_crash :: "(pool_exc, unit) result \<Rightarrow> bool" where
  "is_crash (Inl (PoolCrashed _ _)) = True"
| "is_crash _ = False"

definition crashes :: "(pool_exc, unit) result list \<Rightarrow> int" where
  "crashes rs = int (length (filter is_crash rs))"

definition successes :: "(pool_exc, unit) result list \<Rightarrow> int" where
  "successes rs = int (length (filter (\<lambda>r. r = Inr ()) rs))"

definition fresh_office :: "environ \<Rightarrow> 'w \<Rightarrow> 'w office_state" where
  "fresh_office env w = \<lparr>os_environ = env, os_world = w, os_pools = [], os_current = None,
     os_disabled = False, os_strikes = 0\<rparr>"

definition score_inv :: "int \<Rightarrow> 'w office_state \<Rightarrow> bool" where
  "score_inv n s \<longleftrightarrow> 0 \<le> os_strikes s \<and> (os_disabled s \<longrightarrow> os_current s = None)
     \<and> (os_disabled s \<or> os_strikes s < 6 \<and> n \<le> os_strikes s)"

lemma score_inv_disabled:
  "score_inv n s \<Longrightarrow> os_disabled s \<Longrightarrow>
    pool_convert h cfg locked cv s
     = (s, Inl (PoolUnavailable ''unoserver pool is disabled for this process''))"
  by (simp add: score_inv_def pool_convert_def pbind_def activate_pool_def)

lemma pool_convert_score:
  assumes "score_inv n s" and "pool_convert h cfg locked cv s = (t, r)"
  shows "score_inv (n + (if is_crash r then 2 else if r = Inr () then -1 else 0)) t"
    and "os_environ t = os_environ s"
proof -
  let ?d = "if is_crash r then 2 else if r = Inr () then -1 else 0 :: int"
  obtain s1 q where a: "activate_pool h cfg s = (s1, q)" by (cases "activate_pool h cfg s")
  have dc: "os_disabled s \<Longrightarrow> os_current s = None" using assms(1) by (simp add: score_inv_def)
  note A = activate_pool_globals [OF a dc]
  have "score_inv (n + ?d) t \<and> os_environ t = os_environ s"
  proof (cases "os_disabled s")
    case True
    have "pool_convert h cfg locked cv s
        = (s, Inl (PoolUnavailable ''unoserver pool is disabled for this process''))"
      by (rule score_inv_disabled [OF assms(1) True])
    then have "t = s \<and> r = Inl (PoolUnavailable ''unoserver pool is disabled for this process'')"
      using assms(2) by simp
    then show ?thesis using assms(1) by simp
  next
    case False
    show ?thesis
    proof (cases q)
      case (Inl e)
      then have t: "t = s1" "r = Inl e" using assms(2) a by (simp_all add: pool_convert_def pbind_def)
      then have "\<not> is_crash r" using A(5) [OF _ Inl] Inl by (cases e) auto
      then show ?thesis using t A(1,2) A(5) Inl assms(1) False by (auto simp: score_inv_def)
    next
      case (Inr k)
      then have s1: "\<not> os_disabled s1" "os_strikes s1 = os_strikes s" "os_environ s1 = os_environ s"
        using A(1,2,4) by auto
      have "pool_object_convert h cfg locked k cv s1 = (t, r)"
        using assms(2) a Inr by (simp add: pool_convert_def pbind_def)
      note G = pool_object_convert_globals [OF this s1(1)]
      show ?thesis
      proof (cases r)
        case (Inr u)
        then show ?thesis using G s1 assms(1) False by (auto simp: score_inv_def)
      next
        case (Inl e)
        then show ?thesis using G s1 assms(1) False by (cases e) (auto simp: score_inv_def)
      qed
    qed
  qed
  then show "score_inv (n + ?d) t" and "os_environ t = os_environ s" by simp_all
qed

lemma pool_prewarm_score:
  assumes "score_inv n s"
  shows "score_inv n (fst (pool_prewarm h cfg s))"
    and "os_environ (fst (pool_prewarm h cfg s)) = os_environ s"
proof -
  obtain s1 q where a: "activate_pool h cfg s = (s1, q)" by (cases "activate_pool h cfg s")
  have dc: "os_disabled s \<Longrightarrow> os_current s = None" using assms(1) by (simp add: score_inv_def)
  note A = activate_pool_globals [OF a dc]
  obtain u v where b: "pbind (activate_pool h cfg) (prewarm h cfg) s = (u, v)"
    by (cases "pbind (activate_pool h cfg) (prewarm h cfg) s")
  have fst: "fst (pool_prewarm h cfg s) = u"
    unfolding pool_prewarm_def b by (auto split: sum.split pool_exc.split)
  have "score_inv n u \<and> os_environ u = os_environ s"
  proof (cases q)
    case (Inl e)
    then have "u = s1" using a b by (simp add: pbind_def)
    then show ?thesis using A Inl assms by (cases "os_disabled s") (auto simp: score_inv_def)
  next
    case (Inr k)
    then have "prewarm h cfg k s1 = (u, v)" using a b by (simp add: pbind_def)
    from keeps_engineD(1) [OF keeps_prewarm this] show ?thesis
      using A Inr assms by (cases "os_disabled s") (auto simp: score_inv_def same_engine_def)
  qed
  then show "score_inv n (fst (pool_prewarm h cfg s))"
    and "os_environ (fst (pool_prewarm h cfg s)) = os_environ s"
    using fst by simp_all
qed

lemma pool_history_score:
  "score_inv n s \<Longrightarrow> pool_history h cfg calls s = (t, rs) \<Longrightarrow>
    score_inv (n + 2 * crashes rs - successes rs) t \<and> os_environ t = os_environ s"
proof (induction h cfg calls s arbitrary: n t rs rule: pool_history.induct)
  case (1 h cfg s)
  then show ?case by (simp add: crashes_def successes_def)
next
  case (2 h cfg locked cv calls s)
  obtain u r where c: "pool_convert h cfg locked cv s = (u, r)" by (cases "pool_convert h cfg locked cv s")
  obtain w rs' where d: "pool_history h cfg calls u = (w, rs')" by (cases "pool_history h cfg calls u")
  let ?d = "if is_crash r then 2 else if r = Inr () then -1 else 0 :: int"
  have "score_inv (n + ?d + 2 * crashes rs' - successes rs') w \<and> os_environ w = os_environ u"
    using "2.IH" [OF c [symmetric] pool_convert_score(1) [OF "2.prems"(1) c] d] .
  then have A: "score_inv (n + ?d + 2 * crashes rs' - successes rs') w" "os_environ w = os_environ u"
    by blast+
  have eq: "n + ?d + 2 * crashes rs' - successes rs' = n + 2 * crashes (r # rs') - successes (r # rs')"
    by (cases "is_crash r"; cases "r = Inr ()") (simp_all add: crashes_def successes_def)
  have score: "score_inv (n + 2 * crashes (r # rs') - successes (r # rs')) w"
    using A(1) unfolding eq .
  have env: "os_environ w = os_environ s"
    using A(2) pool_convert_score(2) [OF "2.prems"(1) c] by (rule trans)
  have "t = w" "rs = r # rs'" using "2.prems"(2) c d by simp_all
  then show ?case using conjI [OF score env] by (simp only:)
next
  case (3 h cfg calls s)
  have "pool_history h cfg calls (fst (pool_prewarm h cfg s)) = (t, rs)"
    using "3.prems"(2) by simp
  from "3.IH" [OF pool_prewarm_score(1) [OF "3.prems"(1)] this]
  show ?case unfolding pool_prewarm_score(2) [OF "3.prems"(1)] .
qed

section \<open>Properties\<close>

text \<open>
  C15: A build of LibreOffice that keeps crashing under the pool is given up for good. In every
  history of conversions and prewarms from the start of the process, as soon as the crashes
  outweigh the successes (a crash counts 2, the limit is 6), the pool is disabled, no pool
  object is current, and every further conversion is refused at once and starts nothing (the
  state, the world included, is unchanged). Until then the score is below the limit and at
  least 2 * crashes - successes. Every history leaves \<open>os.environ\<close> as it was.
\<close>

theorem crashing_engine_given_up:
  assumes "pool_history h cfg calls (fresh_office env w) = (s, rs)"
  shows "os_environ s = env
    \<and> (\<not> os_disabled s \<longrightarrow> os_strikes s < 6 \<and> 2 * crashes rs - successes rs \<le> os_strikes s)
    \<and> (successes rs + 6 \<le> 2 * crashes rs \<longrightarrow> os_disabled s)
    \<and> (os_disabled s \<longrightarrow> os_current s = None
      \<and> pool_convert h cfg locked cv s
        = (s, Inl (PoolUnavailable ''unoserver pool is disabled for this process'')))"
proof (intro conjI)
  have "score_inv 0 (fresh_office env w)" by (simp add: score_inv_def fresh_office_def)
  from pool_history_score [OF this assms]
  have inv: "score_inv (2 * crashes rs - successes rs) s" and env: "os_environ s = env"
    by (simp_all add: fresh_office_def)
  show "os_environ s = env" by (rule env)
  show "\<not> os_disabled s \<longrightarrow> os_strikes s < 6 \<and> 2 * crashes rs - successes rs \<le> os_strikes s"
    and "successes rs + 6 \<le> 2 * crashes rs \<longrightarrow> os_disabled s"
    using inv by (auto simp: score_inv_def)
  show "os_disabled s \<longrightarrow> os_current s = None
      \<and> pool_convert h cfg locked cv s
        = (s, Inl (PoolUnavailable ''unoserver pool is disabled for this process''))"
    using inv by (simp add: score_inv_def pool_convert_def pbind_def activate_pool_def)
qed

text \<open>A host on which every conversion kills the server (the world says whether it is alive).\<close>

definition crashing_host :: "bool office_host" where
  "crashing_host = \<lparr>oh_prog = (\<lambda>_ _ _. (False, Exited 1 [] [])),
     oh_which = (\<lambda>name. if name = ''soffice'' then None else Some name),
     oh_is_file = (\<lambda>_ _. False), oh_resolve = (\<lambda>p. p), oh_find_spec = (\<lambda>_. NoSpec),
     oh_executable = ''/usr/bin/python3'', oh_free_port = (\<lambda>w. (w, 4000)),
     oh_popen = (\<lambda>_ _ _. (True, Inr 1)),
     oh_poll = (\<lambda>_ alive. (alive, if alive then None else Some 1)),
     oh_port_open = (\<lambda>_ alive. (alive, alive)), oh_terminate = (\<lambda>_ _. False),
     oh_startup_polls = (\<lambda>_. 2), oh_grace_polls = (\<lambda>_. 2)\<rparr>"

definition sample_conversion :: conversion where
  "sample_conversion = \<lparr>cv_input = ''in.docx'', cv_output = ''out.pdf'', cv_extension = ''pdf'',
     cv_filter = None, cv_options = [], cv_timeout = None\<rparr>"

lemma crashing_host_simps [simp]:
  "oh_prog crashing_host = (\<lambda>_ _ _. (False, Exited 1 [] []))"
  "oh_which crashing_host = (\<lambda>name. if name = ''soffice'' then None else Some name)"
  "oh_is_file crashing_host = (\<lambda>_ _. False)" "oh_find_spec crashing_host = (\<lambda>_. NoSpec)"
  "oh_free_port crashing_host = (\<lambda>w. (w, 4000))" "oh_popen crashing_host = (\<lambda>_ _ _. (True, Inr 1))"
  "oh_poll crashing_host = (\<lambda>_ alive. (alive, if alive then None else Some 1))"
  "oh_port_open crashing_host = (\<lambda>_ alive. (alive, alive))"
  "oh_startup_polls crashing_host = (\<lambda>_. 2)" "oh_grace_polls crashing_host = (\<lambda>_. 2)"
  by (simp_all add: crashing_host_def)

lemma crashing_launchers:
  "soffice_executable crashing_host default_tool_settings w = Inr None"
  "client_launcher crashing_host default_tool_settings env w = Inr (Some (plain_launcher [''unoconvert'']))"
  "server_launcher_candidates crashing_host default_tool_settings env w = Inr [plain_launcher [''unoserver'']]"
proof -
  show exe: "soffice_executable crashing_host default_tool_settings w = Inr None"
    by (simp add: soffice_executable_def first_token_def)
  show "client_launcher crashing_host default_tool_settings env w = Inr (Some (plain_launcher [''unoconvert'']))"
    by (simp add: client_launcher_def)
  show "server_launcher_candidates crashing_host default_tool_settings env w = Inr [plain_launcher [''unoserver'']]"
    using exe by (simp add: server_launcher_candidates_def lo_python_def unoserver_package_root_def)
qed

lemma crashing_spawn:
  "spawn_server crashing_host default_tool_settings la s
    = (s\<lparr>os_world := True\<rparr>, Inr \<lparr>sv_process = 1, sv_port = 4000\<rparr>)"
  by (simp add: spawn_server_def pact_defs outside_def crashing_launchers numeral_2_eq_2)

lemmas crashing_run_simps = pact_defs outside_def crashing_launchers crashing_spawn
  pool_convert_def activate_pool_def pool_object_convert_def choose_slot_def Let_def
  ensure_server_def set_server_def upd_pool_def plain_launcher_def new_pool_def
  run_client_def client_command_def run_tool_command_def run_command_def command_outcome_def
  command_failure_def office_prog_def sample_conversion_def
  settle_conversion_def server_died_def record_engine_strike_def STRIKE_COST_def STRIKE_LIMIT_def
  shutdown_pool_def numeral_2_eq_2 upt_rec [of 0]

definition crashed_pool :: pool where
  "crashed_pool = \<lparr>po_launcher = plain_launcher [''unoserver''], po_client = plain_launcher [''unoconvert''],
     po_servers = [Some \<lparr>sv_process = 1, sv_port = 4000\<rparr>, None], po_round = 0\<rparr>"

definition crashed_state :: "int \<Rightarrow> bool office_state" where
  "crashed_state n = \<lparr>os_environ = \<lambda>_. None, os_world = False, os_pools = [crashed_pool],
     os_current = Some 0, os_disabled = False, os_strikes = n\<rparr>"

lemma crashing_first:
  "\<exists>m ce. pool_convert crashing_host default_tool_settings (\<lambda>_. False) sample_conversion
      (fresh_office (\<lambda>_. None) False) = (crashed_state 2, Inl (PoolCrashed m ce))"
  by (simp add: crashing_run_simps fresh_office_def crashed_state_def crashed_pool_def)

lemma crashing_next:
  "n < 4 \<Longrightarrow> \<exists>m ce. pool_convert crashing_host default_tool_settings (\<lambda>_. False) sample_conversion
      (crashed_state n) = (crashed_state (n + 2), Inl (PoolCrashed m ce))"
  by (simp add: crashing_run_simps crashed_state_def crashed_pool_def)

lemma crashing_last:
  "\<exists>t m ce. pool_convert crashing_host default_tool_settings (\<lambda>_. False) sample_conversion
      (crashed_state 4) = (t, Inl (PoolCrashed m ce))"
  by (simp add: crashing_run_simps crashed_state_def crashed_pool_def)

definition three_crashes :: "bool office_state \<times> (pool_exc, unit) result list" where
  "three_crashes = pool_history crashing_host default_tool_settings
     (replicate 3 (PConvert (\<lambda>_. False) sample_conversion)) (fresh_office (\<lambda>_. None) False)"

lemma three_crashes_counts: "crashes (snd three_crashes) = 3 \<and> successes (snd three_crashes) = 0"
proof -
  obtain m ce where 1: "pool_convert crashing_host default_tool_settings (\<lambda>_. False) sample_conversion
      (fresh_office (\<lambda>_. None) False) = (crashed_state 2, Inl (PoolCrashed m ce))"
    using crashing_first by blast
  obtain m' ce' where 2: "pool_convert crashing_host default_tool_settings (\<lambda>_. False) sample_conversion
      (crashed_state 2) = (crashed_state 4, Inl (PoolCrashed m' ce'))"
    using crashing_next [of 2] by auto
  obtain t m'' ce'' where 3: "pool_convert crashing_host default_tool_settings (\<lambda>_. False) sample_conversion
      (crashed_state 4) = (t, Inl (PoolCrashed m'' ce''))"
    using crashing_last by blast
  show ?thesis
    by (simp add: three_crashes_def numeral_3_eq_3 1 2 3 crashes_def successes_def)
qed

theorem crashing_engine_given_up_witness:
  "os_disabled (fst three_crashes) \<and> os_environ (fst three_crashes) = (\<lambda>_. None)"
proof -
  have run: "pool_history crashing_host default_tool_settings
      (replicate 3 (PConvert (\<lambda>_. False) sample_conversion)) (fresh_office (\<lambda>_. None) False)
    = (fst three_crashes, snd three_crashes)"
    by (simp add: three_crashes_def)
  show ?thesis
    using crashing_engine_given_up [OF run] three_crashes_counts
    by auto
qed

end
