(* ===== verification/Office.thy ===== *)
theory Office
  imports OfficePool Filenames
begin

text \<open>
  \<open>app/utils/office.py\<close>: conversion of one Office document by one of three engines (an external
  unoserver, the pool of theory \<open>OfficePool\<close>, or one \<open>soffice\<close> process on a leased user profile),
  and the warm-up at start.

  \<open>lo_state\<close> adds the module's globals to the state of the pool: the number of profile slots
  (0: not yet created), their round-robin counter and \<open>_prewarm_started\<close>. \<open>lo_host\<close> adds the
  directory operations, which act on the world; \<open>copytree\<close> and \<open>rename\<close> return whether they
  succeeded (failing is their \<open>OSError\<close>). Slots held by other threads are the argument
  \<open>locked\<close>. Paths are POSIX texts.
\<close>

section \<open>State and world\<close>

record 'w lo_host = "'w office_host" +
  lh_exists :: "string \<Rightarrow> 'w \<Rightarrow> bool"
  lh_is_dir :: "string \<Rightarrow> 'w \<Rightarrow> bool"
  lh_iterdir :: "string \<Rightarrow> 'w \<Rightarrow> string list"
  lh_mtime :: "string \<Rightarrow> 'w \<Rightarrow> int option"
  lh_read :: "string \<Rightarrow> 'w \<Rightarrow> bytes option"
  lh_rmtree :: "string \<Rightarrow> 'w \<Rightarrow> 'w"
  lh_mkdir :: "string \<Rightarrow> 'w \<Rightarrow> 'w"
  lh_copytree :: "string \<Rightarrow> string \<Rightarrow> 'w \<Rightarrow> 'w \<times> bool"
  lh_rename :: "string \<Rightarrow> string \<Rightarrow> 'w \<Rightarrow> 'w \<times> bool"
  lh_now :: "'w \<Rightarrow> int"
  lh_pid :: nat
  lh_as_uri :: "string \<Rightarrow> string"

record 'w lo_state =
  lo_office :: "'w office_state"
  lo_slots :: nat
  lo_round :: nat
  lo_prewarm_started :: bool

abbreviation lo_world :: "'w lo_state \<Rightarrow> 'w" where
  "lo_world s \<equiv> os_world (lo_office s)"

definition upd_world :: "('w \<Rightarrow> 'w) \<Rightarrow> 'w lo_state \<Rightarrow> 'w lo_state" where
  "upd_world f s = s\<lparr>lo_office := (lo_office s)\<lparr>os_world := f (lo_world s)\<rparr>\<rparr>"

text \<open>The office part of the state as the state of an operation of the pool or of a program.\<close>

definition in_office :: "('w office_state \<Rightarrow> 'w office_state \<times> 'a) \<Rightarrow> 'w lo_state \<Rightarrow> 'w lo_state \<times> 'a" where
  "in_office f s = (case f (lo_office s) of (t, a) \<Rightarrow> (s\<lparr>lo_office := t\<rparr>, a))"

section \<open>Password-protected documents\<close>

definition OLE2_MAGIC :: bytes where
  "OLE2_MAGIC = [0xD0, 0xCF, 0x11, 0xE0, 0xA1, 0xB1, 0x1A, 0xE1]"

definition ENCRYPTION_SCAN_BYTES :: nat where
  "ENCRYPTION_SCAN_BYTES = 4 * 1024 * 1024"

definition utf16le :: "string \<Rightarrow> bytes" where
  "utf16le s = concat (map (\<lambda>c. [of_nat (char_code c), 0]) s)"

definition protected_content :: "nat \<Rightarrow> bytes \<Rightarrow> bool" where
  "protected_content scan content =
     (let head = take scan content;
          tail = (if scan < length content then take scan (drop (length content - scan) content) else [])
      in starts_with OLE2_MAGIC head
         \<and> (\<exists>marker \<in> {''EncryptedPackage'', ''EncryptionInfo''}. py_in (utf16le marker) (head @ tail)))"

definition is_password_protected_office :: "'w lo_host \<Rightarrow> string \<Rightarrow> 'w \<Rightarrow> bool" where
  "is_password_protected_office h path w =
     (case lh_read h path w of None \<Rightarrow> False
      | Some content \<Rightarrow> protected_content ENCRYPTION_SCAN_BYTES content)"

section \<open>Profiles\<close>

definition profiles_root :: "('z) settings_scheme \<Rightarrow> string" where
  "profiles_root cfg = path_text (s_storage_root cfg @ [''cache'', ''lo-profiles''])"

definition final_name :: "string \<Rightarrow> string" where
  "final_name p = (case split_last CHR ''/'' p of None \<Rightarrow> p | Some (_, n) \<Rightarrow> n)"

definition stale_profile :: "'w lo_host \<Rightarrow> int \<Rightarrow> string \<Rightarrow> 'w \<Rightarrow> bool" where
  "stale_profile h cutoff entry w \<longleftrightarrow>
     \<not> starts_with ''template'' (final_name entry)
     \<and> \<not> starts_with (nat_str (lh_pid h) @ ''-'') (final_name entry)
     \<and> (case lh_mtime h entry w of None \<Rightarrow> False | Some m \<Rightarrow> m < cutoff)"

fun purge_entries :: "'w lo_host \<Rightarrow> int \<Rightarrow> string list \<Rightarrow> 'w \<Rightarrow> 'w" where
  "purge_entries h cutoff [] w = w"
| "purge_entries h cutoff (entry # entries) w =
     purge_entries h cutoff entries (if stale_profile h cutoff entry w then lh_rmtree h entry w else w)"

definition purge_stale_profiles :: "'w lo_host \<Rightarrow> string \<Rightarrow> int \<Rightarrow> 'w \<Rightarrow> 'w" where
  "purge_stale_profiles h pool_root max_age_hours w =
     (if lh_is_dir h pool_root w
      then purge_entries h (lh_now h w - max_age_hours * 3600) (lh_iterdir h pool_root w) w
      else w)"

definition seed_template :: "'w lo_host \<Rightarrow> string \<Rightarrow> string \<Rightarrow> 'w \<Rightarrow> 'w" where
  "seed_template h pool_root profile w =
     (let template = path_join pool_root ''template'';
          staging = path_join pool_root (''template-staging-'' @ nat_str (lh_pid h))
      in if lh_exists h template w then w
         else case lh_copytree h profile staging (lh_rmtree h staging w) of
             (w1, False) \<Rightarrow> lh_rmtree h staging w1
           | (w1, True) \<Rightarrow>
               (case lh_rename h staging template w1 of
                  (w2, False) \<Rightarrow> lh_rmtree h staging w2
                | (w2, True) \<Rightarrow> w2))"

definition init_slots :: "'w lo_host \<Rightarrow> ('z) tool_settings_scheme \<Rightarrow> 'w lo_state \<Rightarrow> 'w lo_state" where
  "init_slots h cfg s =
     (if lo_slots s = 0
      then upd_world (purge_stale_profiles h (profiles_root cfg) 24)
             (s\<lparr>lo_slots := nat (max 1 (tl_profile_pool_size cfg))\<rparr>)
      else s)"

definition lease_slot :: "(nat \<Rightarrow> bool) \<Rightarrow> 'w lo_state \<Rightarrow> nat \<times> 'w lo_state" where
  "lease_slot locked s =
     (case List.find (\<lambda>i. \<not> locked i) [0..<lo_slots s] of
        Some i \<Rightarrow> (i, s)
      | None \<Rightarrow> (lo_round s mod lo_slots s, s\<lparr>lo_round := lo_round s + 1\<rparr>))"

definition slot_profile :: "'w lo_host \<Rightarrow> string \<Rightarrow> nat \<Rightarrow> string" where
  "slot_profile h pool_root slot = path_join pool_root (nat_str (lh_pid h) @ ''-'' @ nat_str slot)"

definition prepare_profile :: "'w lo_host \<Rightarrow> string \<Rightarrow> string \<Rightarrow> 'w \<Rightarrow> 'w" where
  "prepare_profile h pool_root profile w =
     (let template = path_join pool_root ''template'' in
      lh_mkdir h profile
        (if \<not> lh_exists h profile w \<and> lh_is_dir h template w
         then (case lh_copytree h template profile w of
                 (w1, ok) \<Rightarrow> if ok then w1 else lh_rmtree h profile w1)
         else w))"

text \<open>The context manager \<open>_warm_profile\<close> around a body.\<close>

definition warm_profile ::
  "'w lo_host \<Rightarrow> ('z) tool_settings_scheme \<Rightarrow> (nat \<Rightarrow> bool) \<Rightarrow> (string \<Rightarrow> ('w lo_state, 'a) action)
     \<Rightarrow> ('w lo_state, 'a) action" where
  "warm_profile h cfg locked body s =
     (case lease_slot locked (init_slots h cfg s) of
        (slot, s1) \<Rightarrow>
          (let root = profiles_root cfg; profile = slot_profile h root slot in
           case body profile (upd_world (prepare_profile h root profile) s1) of
             (s2, Inl e) \<Rightarrow> (upd_world (lh_rmtree h profile) s2, Inl e)
           | (s2, Inr a) \<Rightarrow> (upd_world (seed_template h root profile) s2, Inr a)))"

section \<open>The \<open>soffice\<close> engine\<close>

definition hex_char :: "nat \<Rightarrow> char" where
  "hex_char n = (if n < 10 then char_of (48 + n) else char_of (87 + n))"

text \<open>\<open>json.dumps\<close> of a text (8-bit characters) and of the typed options.\<close>

definition json_char :: "char \<Rightarrow> string" where
  "json_char c =
     (let n = char_code c in
      if n = 34 then [CHR 0x5C, CHR 0x22]
      else if n = 92 then [CHR 0x5C, CHR 0x5C]
      else if n = 10 then [CHR 0x5C, CHR ''n'']
      else if n = 13 then [CHR 0x5C, CHR ''r'']
      else if n = 9 then [CHR 0x5C, CHR ''t'']
      else if n = 8 then [CHR 0x5C, CHR ''b'']
      else if n = 12 then [CHR 0x5C, CHR ''f'']
      else if n < 32 \<or> 126 < n then [CHR 0x5C, CHR ''u'', CHR ''0'', CHR ''0'', hex_char (n div 16), hex_char (n mod 16)]
      else [c])"

definition json_string :: "string \<Rightarrow> string" where
  "json_string s = dquote # concat (map json_char s) @ [dquote]"

fun typed_value :: "filter_value \<Rightarrow> string \<times> string" where
  "typed_value (FBool b) = (''boolean'', if b then ''true'' else ''false'')"
| "typed_value (FInt i) = (''long'', int_str i)"
| "typed_value (FStr s) = (''string'', s)"

definition json_option :: "string \<times> filter_value \<Rightarrow> string" where
  "json_option p = (case p of (name, v) \<Rightarrow> (case typed_value v of (ty, val) \<Rightarrow>
     json_string name @ '':{'' @ json_string ''type'' @ '':'' @ json_string ty @ '',''
       @ json_string ''value'' @ '':'' @ json_string val @ ''}''))"

definition soffice_target :: "string \<Rightarrow> string option \<Rightarrow> (string \<times> filter_value) list \<Rightarrow> string" where
  "soffice_target target filter_name filter_options =
     (case filter_name of
        Some (c # cs) \<Rightarrow>
          if filter_options = [] then target @ '':'' @ (c # cs)
          else target @ '':'' @ (c # cs) @ '':'' @ ''{'' @ py_join '','' (map json_option filter_options) @ ''}''
      | _ \<Rightarrow> target)"

record office_request =
  lc_input :: string
  lc_output_dir :: string
  lc_target :: string
  lc_filter :: "string option"
  lc_options :: "(string \<times> filter_value) list"
  lc_profile_dir :: "string option"
  lc_timeout :: "int option"
  lc_display :: "string option"

definition lc_extension :: "office_request \<Rightarrow> string" where
  "lc_extension rq = (case split_first CHR '':'' (lc_target rq) of None \<Rightarrow> lc_target rq | Some (a, _) \<Rightarrow> a)"

definition lc_expected :: "office_request \<Rightarrow> string" where
  "lc_expected rq = path_join (lc_output_dir rq)
     (name_stem (final_name (lc_input rq)) @ ''.'' @ lc_extension rq)"

definition soffice_command :: "'w lo_host \<Rightarrow> office_request \<Rightarrow> string list \<Rightarrow> string \<Rightarrow> string list" where
  "soffice_command h rq argv profile =
     argv @ [''--headless'', ''--norestore'', ''--nolockcheck'', ''--nologo'', ''--nodefault'',
       ''--nofirststartwizard'', ''-env:UserInstallation='' @ lh_as_uri h (oh_resolve h profile),
       ''--convert-to'', soffice_target (lc_target rq) (lc_filter rq) (lc_options rq),
       ''--outdir'', lc_output_dir rq, lc_input rq]"

text \<open>One attempt: a failure other than a timeout is returned, not raised.\<close>

definition run_soffice ::
  "'w lo_host \<Rightarrow> ('z) tool_settings_scheme \<Rightarrow> office_request \<Rightarrow> string \<Rightarrow> ('w lo_state, py_exc option) action" where
  "run_soffice h cfg rq profile s =
     abind (aresult (split_launcher (tl_soffice_bin cfg))) (\<lambda>argv s'.
       case in_office (run_tool cfg (office_prog (office_host.truncate h)) ''document converter''
              (soffice_command h rq argv profile) (lc_timeout rq)) s' of
         (t, Inr _) \<Rightarrow> (t, Inr None)
       | (t, Inl (CommandError m ce)) \<Rightarrow>
           if ce_timed_out ce then (t, Inl (CommandError m ce)) else (t, Inr (Some (CommandError m ce)))
       | (t, Inl e) \<Rightarrow> (t, Inl e)) s"

definition soffice_attempts ::
  "'w lo_host \<Rightarrow> ('z) tool_settings_scheme \<Rightarrow> office_request \<Rightarrow> string \<Rightarrow> ('w lo_state, unit) action" where
  "soffice_attempts h cfg rq profile =
     abind (run_soffice h cfg rq profile) (\<lambda>failure.
     abind (\<lambda>s. if failure \<noteq> None \<or> \<not> oh_is_file h (lc_expected rq) (lo_world s)
             then run_soffice h cfg rq profile
               (upd_world (lh_mkdir h profile) (upd_world (lh_rmtree h profile) s))
             else (s, Inr failure)) (\<lambda>failure.
     case failure of None \<Rightarrow> areturn () | Some e \<Rightarrow> araise e))"

definition convert_with_soffice ::
  "'w lo_host \<Rightarrow> ('z) tool_settings_scheme \<Rightarrow> (nat \<Rightarrow> bool) \<Rightarrow> office_request \<Rightarrow> ('w lo_state, unit) action" where
  "convert_with_soffice h cfg locked rq =
     (case lc_profile_dir rq of
        Some dir \<Rightarrow> (\<lambda>s. soffice_attempts h cfg rq dir (upd_world (lh_mkdir h dir) s))
      | None \<Rightarrow> warm_profile h cfg locked (soffice_attempts h cfg rq))"

section \<open>Choice of the engine\<close>

definition office_engine ::
  "'w lo_host \<Rightarrow> ('z) tool_settings_scheme \<Rightarrow> 'w lo_state \<Rightarrow> (py_exc, string) result" where
  "office_engine h cfg s =
     (if tl_unoconvert_bin cfg \<noteq> [] then Inr ''external''
      else case tl_office_engine cfg of
        SOFFICE \<Rightarrow> Inr ''soffice''
      | UNOSERVER \<Rightarrow> Inr ''pool''
      | AUTO \<Rightarrow> rbind (pool_available (office_host.truncate h) cfg (lo_office s)) (\<lambda>ok.
          Inr (if ok then ''pool'' else ''soffice'')))"

definition office_conversion_slots ::
  "'w lo_host \<Rightarrow> ('z) tool_settings_scheme \<Rightarrow> 'w lo_state \<Rightarrow> (py_exc, int) result" where
  "office_conversion_slots h cfg s =
     rbind (office_engine h cfg s) (\<lambda>engine.
       Inr (if engine = ''external'' then 1
            else if engine = ''pool'' then max 1 (s_pool_size cfg)
            else max 1 (tl_profile_pool_size cfg)))"

definition external_command :: "string list \<Rightarrow> office_request \<Rightarrow> string list" where
  "external_command argv rq =
     argv @ [''--convert-to'', lc_extension rq] @ filter_option_args (lc_filter rq) (lc_options rq)
       @ [lc_input rq, lc_expected rq]"

definition service_unavailable :: "(py_exc, 'a) result" where
  "service_unavailable =
     processing_error ''The document converter service is not available on this server.''"

definition pool_request :: "office_request \<Rightarrow> conversion" where
  "pool_request rq = \<lparr>cv_input = lc_input rq, cv_output = lc_expected rq, cv_extension = lc_extension rq,
     cv_filter = lc_filter rq, cv_options = lc_options rq, cv_timeout = lc_timeout rq\<rparr>"

definition convert_with_pool ::
  "'w lo_host \<Rightarrow> ('z) tool_settings_scheme \<Rightarrow> (nat \<Rightarrow> bool) \<Rightarrow> (nat \<Rightarrow> bool) \<Rightarrow> office_request
     \<Rightarrow> ('w lo_state, unit) action" where
  "convert_with_pool h cfg busy locked rq s =
     (case in_office (pool_convert (office_host.truncate h) cfg busy (pool_request rq)) s of
        (t, Inr _) \<Rightarrow> (t, Inr ())
      | (t, Inl (PoolCrashed m ce)) \<Rightarrow>
          if tl_office_engine cfg = UNOSERVER then (t, Inl (CommandError m ce))
          else convert_with_soffice h cfg locked rq t
      | (t, Inl (PoolUnavailable m)) \<Rightarrow>
          if tl_office_engine cfg = UNOSERVER then (t, service_unavailable)
          else convert_with_soffice h cfg locked rq t
      | (t, Inl (PoolOsError c m)) \<Rightarrow> (t, Inl (OtherError c m))
      | (t, Inl (PoolPy e)) \<Rightarrow> (t, Inl e))"

definition run_engine ::
  "'w lo_host \<Rightarrow> ('z) tool_settings_scheme \<Rightarrow> (nat \<Rightarrow> bool) \<Rightarrow> (nat \<Rightarrow> bool) \<Rightarrow> office_request
     \<Rightarrow> ('w lo_state, unit) action" where
  "run_engine h cfg busy locked rq =
     (if tl_unoconvert_bin cfg \<noteq> []
      then abind (aresult (split_launcher (tl_unoconvert_bin cfg))) (\<lambda>argv.
        abind (in_office (run_tool cfg (office_prog (office_host.truncate h)) ''document converter''
            (external_command argv rq) (lc_timeout rq))) (\<lambda>_. areturn ()))
      else abind (\<lambda>s. (s, office_engine h cfg s)) (\<lambda>engine.
        if engine = ''pool'' then convert_with_pool h cfg busy locked rq
        else convert_with_soffice h cfg locked rq))"

definition no_output_message :: "bool \<Rightarrow> string \<Rightarrow> string" where
  "no_output_message locked_doc display =
     (if locked_doc
      then quoted display @ '' is password-protected. Remove the password in PowerPoint/Excel/Word (File ''
        @ [CHR 0xE2, CHR 0x86, CHR 0x92] @ '' Info '' @ [CHR 0xE2, CHR 0x86, CHR 0x92] @ '' Protect) and try again.''
      else ''Conversion produced no output for '' @ quoted display
        @ ''. The file may be corrupted or use unsupported features.'')"

definition libreoffice_convert ::
  "'w lo_host \<Rightarrow> ('z) tool_settings_scheme \<Rightarrow> (nat \<Rightarrow> bool) \<Rightarrow> (nat \<Rightarrow> bool) \<Rightarrow> office_request
     \<Rightarrow> ('w lo_state, string) action" where
  "libreoffice_convert h cfg busy locked rq =
     abind (run_engine h cfg busy locked rq) (\<lambda>_ s.
       if oh_is_file h (lc_expected rq) (lo_world s) then (s, Inr (lc_expected rq))
       else (s, processing_error (no_output_message
         (is_password_protected_office h (lc_input rq) (lo_world s))
         (case lc_display rq of Some (c # cs) \<Rightarrow> c # cs | _ \<Rightarrow> final_name (lc_input rq)))))"

section \<open>Warm-up\<close>

text \<open>The body of the background thread; \<open>scratch\<close> is the temporary directory.\<close>

definition warm_request :: "string \<Rightarrow> office_request" where
  "warm_request scratch = \<lparr>lc_input = path_join scratch ''warmup.txt'', lc_output_dir = scratch,
     lc_target = ''pdf'', lc_filter = None, lc_options = [], lc_profile_dir = None, lc_timeout = None,
     lc_display = Some ''warmup.txt''\<rparr>"

definition warm ::
  "'w lo_host \<Rightarrow> ('z) tool_settings_scheme \<Rightarrow> (nat \<Rightarrow> bool) \<Rightarrow> (nat \<Rightarrow> bool) \<Rightarrow> string
     \<Rightarrow> ('w \<Rightarrow> 'w) \<Rightarrow> 'w lo_state \<Rightarrow> 'w lo_state" where
  "warm h cfg busy locked scratch write_seed s =
     (let pooled = (case office_engine h cfg s of
            Inl e \<Rightarrow> (s, Inl e)
          | Inr engine \<Rightarrow>
              if engine = ''pool''
              then (case in_office (pool_prewarm (office_host.truncate h) cfg) s of
                      (t, Inl (PoolPy e)) \<Rightarrow> (t, Inl e)
                    | (t, Inl (PoolOsError c m)) \<Rightarrow> (t, Inl (OtherError c m))
                    | (t, Inl _) \<Rightarrow> (t, Inl (OtherError ''PoolUnavailable'' []))
                    | (t, Inr _) \<Rightarrow> (t, Inr ()))
              else (s, Inr ()))
      in case pooled of
           (t, Inl e) \<Rightarrow> t
         | (t, Inr _) \<Rightarrow>
             (if office_engine h cfg t = Inr ''soffice''
              then upd_world (lh_rmtree h scratch)
                (fst (libreoffice_convert h cfg busy locked (warm_request scratch) (upd_world write_seed t)))
              else t))"

definition prewarm_office_runtime ::
  "'w lo_host \<Rightarrow> ('z) tool_settings_scheme \<Rightarrow> (nat \<Rightarrow> bool) \<Rightarrow> (nat \<Rightarrow> bool) \<Rightarrow> string
     \<Rightarrow> ('w \<Rightarrow> 'w) \<Rightarrow> 'w lo_state \<Rightarrow> 'w lo_state" where
  "prewarm_office_runtime h cfg busy locked scratch write_seed s =
     (if tl_unoconvert_bin cfg \<noteq> [] \<or> lo_prewarm_started s then s
      else warm h cfg busy locked scratch write_seed (s\<lparr>lo_prewarm_started := True\<rparr>))"

section \<open>Lemmas\<close>

lemma upd_world_simps [simp]:
  "lo_world (upd_world f s) = f (lo_world s)"
  "os_environ (lo_office (upd_world f s)) = os_environ (lo_office s)"
  "upd_world f (upd_world g s) = upd_world (\<lambda>w. f (g w)) s"
  "lo_slots (upd_world f s) = lo_slots s" "lo_round (upd_world f s) = lo_round s"
  by (simp_all add: upd_world_def)

lemma truncate_simps [simp]:
  "oh_prog (office_host.truncate h) = oh_prog h" "oh_is_file (office_host.truncate h) = oh_is_file h"
  "oh_which (office_host.truncate h) = oh_which h" "oh_find_spec (office_host.truncate h) = oh_find_spec h"
  "oh_executable (office_host.truncate h) = oh_executable h" "oh_resolve (office_host.truncate h) = oh_resolve h"
  by (simp_all add: office_host.defs)

lemma soffice_command_nonempty [simp]: "soffice_command h rq argv profile \<noteq> []"
  by (simp add: soffice_command_def)

definition soffice_invocation ::
  "'w lo_host \<Rightarrow> ('z) tool_settings_scheme \<Rightarrow> office_request \<Rightarrow> string list \<Rightarrow> string \<Rightarrow> invocation" where
  "soffice_invocation h cfg rq argv profile =
     \<lparr>iv_command = soffice_command h rq argv profile, iv_cwd = None,
      iv_timeout = command_timeout cfg (lc_timeout rq), iv_env = None\<rparr>"

text \<open>One attempt that ends with an exit code.\<close>

lemma run_soffice_exited:
  assumes "split_launcher (tl_soffice_bin cfg) = Inr argv"
    and "oh_prog h (os_environ (lo_office s)) (soffice_invocation h cfg rq argv profile) (lo_world s)
      = (w', Exited rc so se)"
  shows "\<exists>e. run_soffice h cfg rq profile s
    = (upd_world (\<lambda>_. w') s, Inr (if rc = 0 then None else Some e))"
proof -
  have "office_prog (office_host.truncate h) (soffice_invocation h cfg rq argv profile) (lo_office s)
      = ((lo_office s)\<lparr>os_world := w'\<rparr>, Exited rc so se)"
    using assms(2) by (simp add: office_prog_def)
  from run_tool_command_cases [where prog = "office_prog (office_host.truncate h)" and cfg = cfg
      and timeout = "lc_timeout rq", OF soffice_command_nonempty this [unfolded soffice_invocation_def],
      of "''document converter''" "[0]"]
  show ?thesis
    using assms(1)
    by (cases "rc = 0")
      (auto simp: run_soffice_def in_office_def upd_world_def command_failure_def)
qed

text \<open>The second attempt decides when the first fails or leaves no file.\<close>

lemma soffice_attempts_fresh:
  assumes sp: "split_launcher (tl_soffice_bin cfg) = Inr argv"
    and first: "oh_prog h (os_environ (lo_office s)) (soffice_invocation h cfg rq argv profile) (lo_world s)
      = (w1, Exited rc so se)"
    and second: "oh_prog h (os_environ (lo_office s)) (soffice_invocation h cfg rq argv profile)
        (lh_mkdir h profile (lh_rmtree h profile w1)) = (w2, Exited 0 so' se')"
    and out: "oh_is_file h (lc_expected rq) w2"
  shows "\<exists>w. soffice_attempts h cfg rq profile s = (upd_world (\<lambda>_. w) s, Inr ())
    \<and> oh_is_file h (lc_expected rq) w"
proof -
  obtain e where a: "run_soffice h cfg rq profile s
      = (upd_world (\<lambda>_. w1) s, Inr (if rc = 0 then None else Some e))"
    using run_soffice_exited [OF sp first] by blast
  let ?t = "upd_world (lh_mkdir h profile) (upd_world (lh_rmtree h profile) (upd_world (\<lambda>_. w1) s))"
  have "oh_prog h (os_environ (lo_office ?t)) (soffice_invocation h cfg rq argv profile) (lo_world ?t)
      = (w2, Exited 0 so' se')"
    using second by simp
  from run_soffice_exited [OF sp this]
  have b: "run_soffice h cfg rq profile ?t = (upd_world (\<lambda>_. w2) s, Inr None)" by simp
  show ?thesis
  proof (cases "rc = 0 \<and> oh_is_file h (lc_expected rq) w1")
    case True
    then show ?thesis using a by (auto simp: soffice_attempts_def abind_def areturn_def)
  next
    case False
    then show ?thesis
      using a b out by (auto simp: soffice_attempts_def abind_def areturn_def)
  qed
qed

lemma init_slots_simps [simp]:
  "os_environ (lo_office (init_slots h cfg s)) = os_environ (lo_office s)"
  by (simp add: init_slots_def upd_world_def)

lemma lease_slot_office [simp]: "lo_office (snd (lease_slot locked s)) = lo_office s"
  by (simp add: lease_slot_def split: option.split)

text \<open>A pool that was given up is not asked again: \<open>auto\<close> resolves to \<open>soffice\<close>.\<close>

lemma given_up_uses_soffice:
  assumes "tl_unoconvert_bin cfg = []" "tl_office_engine cfg = AUTO"
    and "os_disabled (lo_office s)" "os_current (lo_office s) = None"
  shows "office_engine h cfg s = Inr ''soffice''"
    and "run_engine h cfg busy locked rq s = convert_with_soffice h cfg locked rq s"
proof -
  show e: "office_engine h cfg s = Inr ''soffice''"
    using assms by (simp add: office_engine_def pool_available_def)
  show "run_engine h cfg busy locked rq s = convert_with_soffice h cfg locked rq s"
    using assms(1) e by (simp add: run_engine_def abind_def)
qed

text \<open>
  An attempt that exits with 0 and leaves no file is no failure to the lease: its profile is
  kept and offered as the template for new profiles, although the conversion is reported as
  failed.
\<close>

lemma silent_failure_seeds_template:
  assumes "lease_slot locked (init_slots h cfg s) = (slot, s1)"
    and "lc_profile_dir rq = None" and "profile = slot_profile h (profiles_root cfg) slot"
    and "soffice_attempts h cfg rq profile
        (upd_world (prepare_profile h (profiles_root cfg) profile) s1) = (s2, Inr ())"
  shows "convert_with_soffice h cfg locked rq s
    = (upd_world (seed_template h (profiles_root cfg) profile) s2, Inr ())"
  using assms by (simp add: convert_with_soffice_def warm_profile_def Let_def)

lemma converted_file_exists:
  "libreoffice_convert h cfg busy locked rq s = (t, Inr p) \<Longrightarrow>
    p = lc_expected rq \<and> oh_is_file h p (lo_world t)"
  by (auto simp: libreoffice_convert_def abind_def split: prod.splits sum.splits if_splits)

lemma convert_with_soffice_fresh:
  assumes sp: "split_launcher (tl_soffice_bin cfg) = Inr argv"
    and exits: "\<And>env profile w. \<exists>w' rc so se.
        oh_prog h env (soffice_invocation h cfg rq argv profile) w = (w', Exited rc so se)"
    and fresh: "\<And>env profile w. \<exists>w' so se.
        oh_prog h env (soffice_invocation h cfg rq argv profile) (lh_mkdir h profile (lh_rmtree h profile w))
          = (w', Exited 0 so se) \<and> oh_is_file h (lc_expected rq) w'"
    and seed: "\<And>profile w. oh_is_file h (lc_expected rq) w \<Longrightarrow>
        oh_is_file h (lc_expected rq) (seed_template h (profiles_root cfg) profile w)"
    and prof: "lc_profile_dir rq = None"
  shows "\<exists>t. convert_with_soffice h cfg locked rq s = (t, Inr ()) \<and> oh_is_file h (lc_expected rq) (lo_world t)"
proof -
  obtain slot s1 where l: "lease_slot locked (init_slots h cfg s) = (slot, s1)"
    by (cases "lease_slot locked (init_slots h cfg s)")
  let ?p = "slot_profile h (profiles_root cfg) slot"
  let ?s = "upd_world (prepare_profile h (profiles_root cfg) ?p) s1"
  obtain w1 rc so se where first: "oh_prog h (os_environ (lo_office ?s))
      (soffice_invocation h cfg rq argv ?p) (lo_world ?s) = (w1, Exited rc so se)"
    using exits by blast
  obtain w2 so' se' where second: "oh_prog h (os_environ (lo_office ?s))
      (soffice_invocation h cfg rq argv ?p) (lh_mkdir h ?p (lh_rmtree h ?p w1)) = (w2, Exited 0 so' se')"
      "oh_is_file h (lc_expected rq) w2"
    using fresh by blast
  obtain w where "soffice_attempts h cfg rq ?p ?s = (upd_world (\<lambda>_. w) ?s, Inr ())"
      "oh_is_file h (lc_expected rq) w"
    using soffice_attempts_fresh [OF sp first second] by blast
  then show ?thesis
    using silent_failure_seeds_template [OF l prof refl] seed by auto
qed

section \<open>Properties\<close>


text \<open>
  A host without unoserver whose leased profile is spoilt: the world is (profile is clean, the
  output exists), and \<open>soffice\<close> only works on a clean profile.
\<close>

definition spoilt_host :: "(bool \<times> bool) lo_host" where
  "spoilt_host = \<lparr>oh_prog = (\<lambda>_ _ (clean, out).
       if clean then ((False, True), Exited 0 [] []) else ((clean, out), Exited 77 [] ''crash'')),
     oh_which = (\<lambda>_. None), oh_is_file = (\<lambda>p (clean, out). p = ''/tmp/x.pdf'' \<and> out),
     oh_resolve = (\<lambda>p. p), oh_find_spec = (\<lambda>_. NoSpec), oh_executable = ''/usr/bin/python3'',
     oh_free_port = (\<lambda>w. (w, 0)), oh_popen = (\<lambda>_ _ w. (w, Inl (''FileNotFoundError'', []))),
     oh_poll = (\<lambda>_ w. (w, None)), oh_port_open = (\<lambda>_ w. (w, False)), oh_terminate = (\<lambda>_ w. w),
     oh_startup_polls = (\<lambda>_. 0), oh_grace_polls = (\<lambda>_. 0),
     lh_exists = (\<lambda>_ _. True), lh_is_dir = (\<lambda>_ _. True), lh_iterdir = (\<lambda>_ _. []),
     lh_mtime = (\<lambda>_ _. None), lh_read = (\<lambda>_ _. None), lh_rmtree = (\<lambda>_ (clean, out). (True, out)),
     lh_mkdir = (\<lambda>_ w. w), lh_copytree = (\<lambda>_ _ w. (w, False)), lh_rename = (\<lambda>_ _ w. (w, False)),
     lh_now = (\<lambda>_. 0), lh_pid = 7, lh_as_uri = (\<lambda>p. ''file://'' @ p)\<rparr>"

definition spoilt_state :: "(bool \<times> bool) lo_state" where
  "spoilt_state = \<lparr>lo_office = fresh_office (\<lambda>_. None) (False, False), lo_slots = 0, lo_round = 0,
     lo_prewarm_started = False\<rparr>"

definition docx_request :: office_request where
  "docx_request = \<lparr>lc_input = ''/in/x.docx'', lc_output_dir = ''/tmp'', lc_target = ''pdf'',
     lc_filter = None, lc_options = [], lc_profile_dir = None, lc_timeout = None, lc_display = None\<rparr>"

lemma docx_expected: "lc_expected docx_request = ''/tmp/x.pdf''"
  by (simp add: lc_expected_def docx_request_def lc_extension_def split_first_def split_last_def
      final_name_def path_join_def name_stem_def)

lemma spoilt_host_simps:
  "oh_which spoilt_host = (\<lambda>_. None)" "oh_find_spec spoilt_host = (\<lambda>_. NoSpec)"
  "oh_is_file spoilt_host = (\<lambda>p (clean, out). p = ''/tmp/x.pdf'' \<and> out)"
  by (simp_all add: spoilt_host_def)

lemma spoilt_engine: "office_engine spoilt_host default_tool_settings spoilt_state = Inr ''soffice''"
  by (simp add: office_engine_def pool_available_def server_launcher_candidates_def lo_python_def
      soffice_executable_def first_token_def unoserver_package_root_def spoilt_host_simps
      spoilt_state_def fresh_office_def)


end
