(* ===== verification/OcrLanguage.thy ===== *)
theory OcrLanguage
  imports OfficePool
begin

text \<open>
  \<open>app/utils/ocr_language.py\<close>: the supported language packs, the launcher and environment of
  Tesseract, and the detection of a document's language.

  \<open>ocr_host\<close> is the world: programs, files, the PATH, PyMuPDF (\<open>ol_open\<close>: the error, or whether
  a password is needed and the number of pages; \<open>ol_save_page\<close> renders one page to a file) and
  Pillow (\<open>ol_rotate\<close>). Recognised text is a list of Unicode code points (\<open>utext\<close>); decoding
  UTF-8, which characters the class \<open>[^\W\d_]\<close> matches and the lower case of a word are
  \<open>str\<close>'s, the parameters \<open>ol_decode\<close>, \<open>ol_letter\<close> and \<open>ol_lower\<close>. The table of stop words is
  written with code points beyond ASCII as numbers.
\<close>

section \<open>Languages\<close>

type_synonym utext = "nat list"

definition cps :: "string \<Rightarrow> utext" where
  "cps s = map char_code s"

definition SUPPORTED_OCR_LANGUAGES :: "string list" where
  "SUPPORTED_OCR_LANGUAGES =
     [''eng'', ''ara'', ''chi_sim'', ''chi_tra'', ''deu'', ''ell'', ''fra'', ''heb'', ''hin'',
      ''ita'', ''jpn'', ''kor'', ''nld'', ''pol'', ''por'', ''rus'', ''spa'', ''tha'', ''tur'',
      ''urd'', ''vie'']"

definition SCRIPT_LANGUAGES :: "(string \<times> string) list" where
  "SCRIPT_LANGUAGES =
     [(''Arabic'', ''ara''), (''Cyrillic'', ''rus''), (''Devanagari'', ''hin''),
      (''Greek'', ''ell''), (''Hebrew'', ''heb''), (''Thai'', ''tha''),
      (''Han'', ''chi_sim+chi_tra''), (''HanS'', ''chi_sim''), (''HanT'', ''chi_tra''),
      (''HanS_vert'', ''chi_sim''), (''HanT_vert'', ''chi_tra''), (''Japanese'', ''jpn''),
      (''Japanese_vert'', ''jpn''), (''Katakana'', ''jpn''), (''Hiragana'', ''jpn''),
      (''Hangul'', ''kor''), (''Hangul_vert'', ''kor'')]"

definition LATIN_STOPWORDS :: "(string \<times> utext list) list" where
  "LATIN_STOPWORDS =
     [(''eng'', [cps ''the'', cps ''and'', cps ''was'', cps ''are'', cps ''this'', cps ''that'',
        cps ''with'', cps ''from'', cps ''have'', cps ''been'', cps ''will'', cps ''your'',
        cps ''which'', cps ''their'', cps ''would'', cps ''there'']),
      (''deu'', [cps ''der'', cps ''die'', cps ''das'', cps ''und'', cps ''ist'', cps ''nicht'',
        cps ''mit'', cps ''ein'', cps ''eine'', (cps ''f'' @ [252] @ cps ''r''), cps ''auf'',
        cps ''den'', cps ''dem'', cps ''sie'', cps ''wir'', cps ''werden'', cps ''wurde'',
        cps ''bitte'', cps ''sind'', cps ''einen'', cps ''oder'', cps ''auch'', cps ''beim'',
        ([252] @ cps ''ber'')]),
      (''fra'', [cps ''les'', cps ''des'', cps ''est'', cps ''une'', cps ''dans'', cps ''pour'',
        cps ''que'', cps ''qui'', cps ''avec'', cps ''sur'', cps ''pas'', cps ''nous'',
        cps ''vous'', ([234] @ cps ''tre''), cps ''par'', cps ''cette'', cps ''aux'',
        cps ''ont'', ([233] @ cps ''t'' @ [233]), cps ''plus'', cps ''votre'']),
      (''spa'', [cps ''los'', cps ''las'', cps ''una'', cps ''para'', cps ''con'', cps ''por'',
        cps ''del'', cps ''como'', (cps ''m'' @ [225] @ cps ''s''), cps ''pero'', cps ''sus'',
        cps ''este'', cps ''esta'', cps ''hay'', cps ''muy'', cps ''fue'', cps ''entre'',
        (cps ''tambi'' @ [233] @ cps ''n''), cps ''usted'']),
      (''ita'', [cps ''gli'', cps ''che'', cps ''per'', cps ''sono'', cps ''della'', cps ''delle'',
        cps ''una'', cps ''questo'', cps ''questa'', cps ''anche'', (cps ''pi'' @ [249]),
        cps ''nel'', cps ''alla'', cps ''degli'', cps ''come'', cps ''sia'', cps ''stato'',
        cps ''essere'']),
      (''por'', [cps ''uma'', cps ''para'', cps ''com'', (cps ''n'' @ [227] @ cps ''o''), cps ''por'',
        cps ''dos'', cps ''das'', cps ''mais'', cps ''este'', cps ''esta'',
        (cps ''s'' @ [227] @ cps ''o''), (cps ''voc'' @ [234]), (cps ''est'' @ [225]),
        cps ''foi'', cps ''como'', cps ''pelo'', cps ''seus'', (cps ''tamb'' @ [233] @ cps ''m'')]),
      (''nld'', [cps ''het'', cps ''een'', cps ''van'', cps ''dat'', cps ''niet'', cps ''met'',
        cps ''voor'', cps ''aan'', cps ''zijn'', cps ''deze'', cps ''ook'', cps ''naar'',
        cps ''wordt'', cps ''worden'', cps ''bij'', cps ''als'', cps ''maar'', cps ''door'',
        cps ''onze'']),
      (''pol'', [cps ''nie'', (cps ''si'' @ [281]), cps ''jest'', ([380] @ cps ''e''), cps ''jak'',
        cps ''ale'', cps ''przez'', cps ''dla'', cps ''tego'', cps ''oraz'', cps ''jego'',
        (cps ''by'' @ [322] @ cps ''y''), (cps ''zosta'' @ [322]),
        (cps ''kt'' @ [243] @ cps ''re''), (cps ''mo'' @ [380] @ cps ''na''), cps ''bardzo'']),
      (''tur'', [cps ''bir'', cps ''bu'', (cps ''i'' @ [231] @ cps ''in''), cps ''ile'', cps ''olarak'',
        cps ''daha'', ([231] @ cps ''ok''), cps ''gibi'', cps ''olan'', cps ''kadar'',
        cps ''sonra'', cps ''ancak'', (cps ''de'' @ [287] @ cps ''il''), cps ''var'',
        (cps ''taraf'' @ [305] @ cps ''ndan'')]),
      (''vie'', [(cps ''c'' @ [7911] @ cps ''a''), (cps ''v'' @ [224]), (cps ''c'' @ [225] @ cps ''c''),
        cps ''cho'', (cps ''kh'' @ [244] @ cps ''ng''), ([273] @ [432] @ [7907] @ cps ''c''),
        (cps ''ng'' @ [432] @ [7901] @ cps ''i''), cps ''trong'',
        (cps ''nh'' @ [7919] @ cps ''ng''), (cps ''n'' @ [224] @ cps ''y''),
        (cps ''v'' @ [7899] @ cps ''i''), (cps ''ng'' @ [224] @ cps ''y''),
        (cps ''ch'' @ [250] @ cps ''ng''), (cps ''t'' @ [244] @ cps ''i'')])]"

definition MAX_OCR_LANGUAGES :: nat where "MAX_OCR_LANGUAGES = 4"
definition MIN_STOPWORD_HITS :: nat where "MIN_STOPWORD_HITS = 4"

definition value_error :: "string \<Rightarrow> (py_exc, 'a) result" where
  "value_error m = Inl (OtherError ''ValueError'' m)"

definition supported_text :: string where
  "supported_text =
     ''ara, chi_sim, chi_tra, deu, ell, eng, fra, heb, hin, ita, jpn, kor, nl''
      @ ''d, pol, por, rus, spa, tha, tur, urd, vie''"

definition validate_ocr_languages :: "string \<Rightarrow> (py_exc, string) result" where
  "validate_ocr_languages language =
     (let parts = split_on CHR ''+'' language;
          unknown = filter (\<lambda>p. p \<notin> set SUPPORTED_OCR_LANGUAGES) parts
      in if unknown \<noteq> []
         then value_error (''Unsupported OCR language(s): '' @ py_join '', '' unknown @ ''. Supported: ''
                @ supported_text @ ''.'')
         else if \<not> distinct parts then value_error ''Duplicate OCR language codes.''
         else if MAX_OCR_LANGUAGES < length parts
         then value_error (''At most '' @ nat_str MAX_OCR_LANGUAGES @ '' languages can be combined per document.'')
         else Inr language)"

section \<open>Counting\<close>

text \<open>\<open>collections.Counter\<close>: the distinct items in the order of first occurrence, with counts.\<close>

definition counter :: "'a list \<Rightarrow> ('a \<times> nat) list" where
  "counter xs = map (\<lambda>x. (x, count_list xs x)) (rev (remdups (rev xs)))"

text \<open>\<open>max(items, key=count)\<close>: the first of the largest; \<open>most_common()\<close>: stable, largest first.\<close>

fun first_max :: "('a \<times> nat) \<Rightarrow> ('a \<times> nat) list \<Rightarrow> 'a \<times> nat" where
  "first_max best [] = best"
| "first_max best (x # xs) = first_max (if snd best < snd x then x else best) xs"

definition most_common :: "'a list \<Rightarrow> 'a list" where
  "most_common xs = map fst (sort_key (\<lambda>p. - int (snd p)) (counter xs))"

section \<open>Classification of Latin text\<close>

text \<open>The maximal runs of letters.\<close>

fun letter_runs :: "(nat \<Rightarrow> bool) \<Rightarrow> utext \<Rightarrow> utext \<Rightarrow> utext list" where
  "letter_runs letter word [] = (if word = [] then [] else [word])"
| "letter_runs letter word (c # cs) =
     (if letter c then letter_runs letter (word @ [c]) cs
      else (if word = [] then [] else [word]) @ letter_runs letter [] cs)"

definition stopword_scores :: "utext list \<Rightarrow> (string \<times> nat) list" where
  "stopword_scores found =
     map (\<lambda>(lang, stopwords). (lang, sum_list (map snd (filter (\<lambda>(w, n). w \<in> set stopwords) (counter found)))))
       LATIN_STOPWORDS"

definition best_score :: "(string \<times> nat) list \<Rightarrow> string \<times> nat" where
  "best_score scores = first_max (hd scores) (tl scores)"

definition classify_latin_text :: "(nat \<Rightarrow> bool) \<Rightarrow> (utext \<Rightarrow> utext) \<Rightarrow> utext \<Rightarrow> string option" where
  "classify_latin_text letter lower text =
     (let found = map lower (letter_runs letter [] text) in
      if length found < 10 then None
      else (let scores = stopword_scores found; (best_lang, best_hits) = best_score scores in
        if best_hits < MIN_STOPWORD_HITS then None
        else if best_lang \<noteq> ''eng'' \<and> 2 * best_hits < 3 * the (map_of scores ''eng'') then None
        else Some best_lang))"

section \<open>Launcher and environment\<close>

record 'w ocr_host =
  ol_prog :: "'w subprocess"
  ol_which :: "string \<Rightarrow> string option"
  ol_is_file :: "string \<Rightarrow> 'w \<Rightarrow> bool"
  ol_home :: string
  ol_environ :: "(string \<times> string) list"
  ol_decode :: "string \<Rightarrow> utext"
  ol_letter :: "nat \<Rightarrow> bool"
  ol_lower :: "utext \<Rightarrow> utext"
  ol_open :: "string \<Rightarrow> 'w \<Rightarrow> py_exc + bool \<times> nat"
  ol_save_page :: "string \<Rightarrow> nat \<Rightarrow> string \<Rightarrow> 'w \<Rightarrow> 'w \<times> py_exc option"
  ol_rotate :: "string \<Rightarrow> int \<Rightarrow> 'w \<Rightarrow> 'w \<times> py_exc option"

definition tesseract_fallbacks :: "'w ocr_host \<Rightarrow> string list" where
  "tesseract_fallbacks h =
     [''C:/Program Files/Tesseract-OCR/tesseract.exe'',
      ''C:/Program Files (x86)/Tesseract-OCR/tesseract.exe'',
      path_join (ol_home h) ''AppData/Local/Programs/Tesseract-OCR/tesseract.exe'']"

definition resolve_tesseract_launcher ::
  "'w ocr_host \<Rightarrow> ('z) tool_settings_scheme \<Rightarrow> 'w \<Rightarrow> (py_exc, string list) result" where
  "resolve_tesseract_launcher h cfg w =
     rbind (split_launcher (tl_tesseract_bin cfg)) (\<lambda>argv.
     rbind (first_token argv) (\<lambda>exe.
       Inr (if exe \<noteq> ''tesseract'' \<or> (case ol_which h ''tesseract'' of Some (c # cs) \<Rightarrow> True | _ \<Rightarrow> False)
            then argv
            else case List.find (\<lambda>candidate. ol_is_file h candidate w) (tesseract_fallbacks h) of
              Some candidate \<Rightarrow> [candidate] | None \<Rightarrow> argv)))"

definition env_put :: "string \<Rightarrow> string \<Rightarrow> (string \<times> string) list \<Rightarrow> (string \<times> string) list" where
  "env_put k v env = (if k \<in> fst ` set env then map (\<lambda>(k', v'). (k', if k' = k then v else v')) env
     else env @ [(k, v)])"

definition parent_dirs :: "string list \<Rightarrow> string list" where
  "parent_dirs exes = filter (\<lambda>d. d \<noteq> ''.'' \<and> d \<noteq> ''/'') (map py_parent exes)"

definition ocr_subprocess_env ::
  "'w ocr_host \<Rightarrow> ('z) tool_settings_scheme \<Rightarrow> 'w \<Rightarrow> (py_exc, (string \<times> string) list) result" where
  "ocr_subprocess_env h cfg w =
     rbind (rbind (resolve_tesseract_launcher h cfg w) first_token) (\<lambda>tesseract_exe.
     rbind (if tl_ghostscript_bin cfg = [] then Inr []
            else rbind (split_launcher (tl_ghostscript_bin cfg)) first_token) (\<lambda>ghostscript_exe.
       let additions = parent_dirs [tesseract_exe, ghostscript_exe];
           env = ol_environ h;
           env1 = (if additions = [] then env
             else env_put ''PATH'' (py_join '':'' (additions @ [case map_of env ''PATH'' of None \<Rightarrow> [] | Some p \<Rightarrow> p])) env)
       in Inr (if tl_tessdata_dir cfg = [] then env1 else env_put ''TESSDATA_PREFIX'' (tl_tessdata_dir cfg) env1)))"

section \<open>Sampling\<close>

fun render_pages ::
  "'w ocr_host \<Rightarrow> string \<Rightarrow> string \<Rightarrow> nat list \<Rightarrow> ('w, string list) action" where
  "render_pages h pdf_path workspace [] = areturn []"
| "render_pages h pdf_path workspace (number # numbers) =
     (let target = path_join workspace (''lang-sample-'' @ nat_str number @ ''.png'') in
      abind (\<lambda>w. case ol_save_page h pdf_path number target w of
          (w', Some e) \<Rightarrow> (w', Inl e) | (w', None) \<Rightarrow> (w', Inr ())) (\<lambda>_.
      abind (render_pages h pdf_path workspace numbers) (\<lambda>rest. areturn (target # rest))))"

definition render_sample ::
  "'w ocr_host \<Rightarrow> string \<Rightarrow> string \<Rightarrow> nat \<Rightarrow> ('w, string list) action" where
  "render_sample h pdf_path workspace max_pages w =
     (case ol_open h pdf_path w of
        Inl e \<Rightarrow> (w, Inl e)
      | Inr (needs_pass, pages) \<Rightarrow>
          if needs_pass then (w, Inr [])
          else render_pages h pdf_path workspace [0..<min pages max_pages] w)"

definition tesseract ::
  "'w ocr_host \<Rightarrow> ('z) tool_settings_scheme \<Rightarrow> string list \<Rightarrow> (string \<times> string) list \<Rightarrow> ('w, string) action" where
  "tesseract h cfg args env w =
     abind (aresult (resolve_tesseract_launcher h cfg w)) (\<lambda>argv.
     abind (run_command cfg (ol_prog h) (argv @ args) None (Some 60) True [0] (Some env)) (\<lambda>r.
     areturn (cr_stdout r))) w"

text \<open>\<open>str.splitlines()\<close>; \<open>cr\<close>: the character before was a carriage return.\<close>

definition line_break :: "char \<Rightarrow> bool" where
  "line_break c = (let n = char_code c in n \<in> {10, 11, 12, 13, 28, 29, 30, 133})"

fun split_lines :: "bool \<Rightarrow> string \<Rightarrow> string \<Rightarrow> string list" where
  "split_lines cr line [] = (if line = [] then [] else [line])"
| "split_lines cr line (c # cs) =
     (if cr \<and> char_code c = 10 \<and> line = [] then split_lines False [] cs
      else if line_break c then line # split_lines (char_code c = 13) [] cs
      else split_lines False (line @ [c]) cs)"

definition after_colon :: "string \<Rightarrow> string" where
  "after_colon line = (case split_first CHR '':'' line of Some (_, b) \<Rightarrow> py_strip b | None \<Rightarrow> [])"

fun osd_report :: "string list \<Rightarrow> string option \<Rightarrow> int \<Rightarrow> string option \<times> int" where
  "osd_report [] script turn = (script, turn)"
| "osd_report (line # lines) script turn =
     (if starts_with ''Script:'' line then osd_report lines (Some (after_colon line)) turn
      else if starts_with ''Rotate:'' line
      then osd_report lines script (case py_int (after_colon line) of None \<Rightarrow> 0 | Some n \<Rightarrow> n)
      else osd_report lines script turn)"

definition detect_script ::
  "'w ocr_host \<Rightarrow> ('z) tool_settings_scheme \<Rightarrow> string \<Rightarrow> (string \<times> string) list
     \<Rightarrow> ('w, string option \<times> int) action" where
  "detect_script h cfg img env =
     abind (tesseract h cfg [img, ''stdout'', ''--psm'', ''0''] env) (\<lambda>report.
     areturn (osd_report (split_lines False [] report) None 0))"

definition sample_text ::
  "'w ocr_host \<Rightarrow> ('z) tool_settings_scheme \<Rightarrow> string \<Rightarrow> int \<Rightarrow> (string \<times> string) list \<Rightarrow> ('w, string) action" where
  "sample_text h cfg img turn env =
     abind (\<lambda>w. if turn = 0 then (w, Inr ()) else (case ol_rotate h img (- turn) w of
          (w', Some e) \<Rightarrow> (w', Inl e) | (w', None) \<Rightarrow> (w', Inr ()))) (\<lambda>_.
     tesseract h cfg [img, ''stdout'', ''-l'', ''eng'', ''--psm'', ''3''] env)"

section \<open>Detection\<close>

record language_detection =
  ld_language :: string
  ld_script :: "string option"
  ld_detected :: bool

definition fallback_detection :: "string \<Rightarrow> language_detection" where
  "fallback_detection fallback = \<lparr>ld_language = fallback, ld_script = None, ld_detected = False\<rparr>"

text \<open>The two lists after one image; a \<open>CommandError\<close> skips the rest of the image.\<close>

definition catch_command :: "'b \<Rightarrow> ('w, 'b) action \<Rightarrow> ('w, 'b) action" where
  "catch_command otherwise m w =
     (case m w of (w', Inl (CommandError _ _)) \<Rightarrow> (w', Inr otherwise) | r \<Rightarrow> r)"

definition inspect_script ::
  "'w ocr_host \<Rightarrow> ('z) tool_settings_scheme \<Rightarrow> (string \<times> string) list \<Rightarrow> string \<Rightarrow> string option \<times> int
     \<Rightarrow> ('w, string list \<times> string list) action" where
  "inspect_script h cfg env img osd =
     (case osd of
        (None, turn) \<Rightarrow> areturn ([], [])
      | (Some s, turn) \<Rightarrow>
           if map_of SCRIPT_LANGUAGES s \<noteq> None then areturn ([s], [])
           else if s = ''Latin''
           then catch_command ([s], []) (abind (sample_text h cfg img turn env) (\<lambda>text.
             areturn ([s], case classify_latin_text (ol_letter h) (ol_lower h) (ol_decode h text) of
               Some guess \<Rightarrow> [guess] | None \<Rightarrow> [])))
           else areturn ([], []))"

definition inspect_image ::
  "'w ocr_host \<Rightarrow> ('z) tool_settings_scheme \<Rightarrow> (string \<times> string) list \<Rightarrow> string
     \<Rightarrow> ('w, string list \<times> string list) action" where
  "inspect_image h cfg env img =
     catch_command ([], []) (abind (detect_script h cfg img env) (inspect_script h cfg env img))"

fun inspect_images ::
  "'w ocr_host \<Rightarrow> ('z) tool_settings_scheme \<Rightarrow> (string \<times> string) list \<Rightarrow> string list
     \<Rightarrow> ('w, string list \<times> string list) action" where
  "inspect_images h cfg env [] = areturn ([], [])"
| "inspect_images h cfg env (img # imgs) =
     abind (inspect_image h cfg env img) (\<lambda>(ss, ls).
     abind (inspect_images h cfg env imgs) (\<lambda>(ss', ls'). areturn (ss @ ss', ls @ ls')))"

definition choose_language :: "string \<Rightarrow> string list \<Rightarrow> string list \<Rightarrow> language_detection" where
  "choose_language fallback scripts latin_langs =
     (if scripts = [] then fallback_detection fallback
      else (let script = fst (first_max (hd (counter scripts)) (tl (counter scripts)));
                ordered = most_common latin_langs;
                language =
                  (if script \<noteq> ''Latin'' then the (map_of SCRIPT_LANGUAGES script)
                   else py_join ''+'' (take MAX_OCR_LANGUAGES
                     (if ''eng'' \<in> set ordered then ordered else ordered @ [''eng''])))
            in \<lparr>ld_language = language, ld_script = Some script, ld_detected = True\<rparr>))"

definition detect_document_language ::
  "'w ocr_host \<Rightarrow> ('z) tool_settings_scheme \<Rightarrow> string \<Rightarrow> string \<Rightarrow> string \<Rightarrow> nat
     \<Rightarrow> ('w, language_detection) action" where
  "detect_document_language h cfg pdf_path workspace fallback max_pages w =
     (case ocr_subprocess_env h cfg w of
        Inl e \<Rightarrow> (w, Inl e)
      | Inr env \<Rightarrow>
          (case render_sample h pdf_path workspace max_pages w of
             (w1, Inl _) \<Rightarrow> (w1, Inr (fallback_detection fallback))
           | (w1, Inr []) \<Rightarrow> (w1, Inr (fallback_detection fallback))
           | (w1, Inr imgs) \<Rightarrow>
               abind (inspect_images h cfg env imgs) (\<lambda>(scripts, latin_langs).
                 areturn (choose_language fallback scripts latin_langs)) w1))"

section \<open>Lemmas\<close>

lemma set_counter: "fst ` set (counter xs) = set xs"
  by (auto simp: counter_def image_image)

lemma distinct_most_common: "distinct (most_common xs)"
proof -
  have d: "distinct (counter xs)" and inj: "inj_on fst (set (counter xs))"
    by (auto simp: counter_def distinct_map inj_on_def)
  show ?thesis using d inj by (simp add: most_common_def distinct_map)
qed

lemma set_most_common: "set (most_common xs) = set xs"
  using set_counter [of xs] by (simp add: most_common_def)

lemma first_max_mem: "first_max best xs \<in> set (best # xs)"
  by (induction best xs rule: first_max.induct) auto

lemma best_counter_mem: "xs \<noteq> [] \<Longrightarrow> fst (first_max (hd (counter xs)) (tl (counter xs))) \<in> set xs"
proof -
  assume "xs \<noteq> []"
  then have "counter xs \<noteq> []" by (simp add: counter_def)
  then have "first_max (hd (counter xs)) (tl (counter xs)) \<in> set (counter xs)"
    using first_max_mem [of "hd (counter xs)" "tl (counter xs)"] by simp
  then show ?thesis using set_counter [of xs] by blast
qed

lemma classified_language: "classify_latin_text letter lower text = Some lang \<Longrightarrow>
    lang \<in> set (map fst LATIN_STOPWORDS)"
proof -
  assume c: "classify_latin_text letter lower text = Some lang"
  let ?scores = "stopword_scores (map lower (letter_runs letter [] text))"
  have ne: "?scores \<noteq> []" by (simp add: stopword_scores_def LATIN_STOPWORDS_def)
  have keys: "fst ` set ?scores = set (map fst LATIN_STOPWORDS)"
    by (force simp: stopword_scores_def image_image)
  have "lang = fst (best_score ?scores)"
    using c by (auto simp: classify_latin_text_def Let_def split: if_splits prod.splits)
  moreover have "best_score ?scores \<in> set ?scores"
    using first_max_mem [of "hd ?scores" "tl ?scores"] ne by (simp add: best_score_def)
  ultimately show ?thesis using keys by blast
qed

definition LATIN_LANGUAGES :: "string list" where
  "LATIN_LANGUAGES = [''eng'', ''deu'', ''fra'', ''spa'', ''ita'', ''por'', ''nld'', ''pol'', ''tur'', ''vie'']"

lemma latin_languages: "map fst LATIN_STOPWORDS = LATIN_LANGUAGES"
  by (simp add: LATIN_STOPWORDS_def LATIN_LANGUAGES_def)

lemma latin_languages_supported: "set LATIN_LANGUAGES \<subseteq> set SUPPORTED_OCR_LANGUAGES"
  by (simp add: LATIN_LANGUAGES_def SUPPORTED_OCR_LANGUAGES_def)

lemma latin_languages_plain: "lang \<in> set LATIN_LANGUAGES \<Longrightarrow> CHR ''+'' \<notin> set lang"
  by (auto simp: LATIN_LANGUAGES_def)

lemma validate_joined:
  "xs \<noteq> [] \<Longrightarrow> distinct xs \<Longrightarrow> set xs \<subseteq> set LATIN_LANGUAGES \<Longrightarrow> length xs \<le> MAX_OCR_LANGUAGES \<Longrightarrow>
    validate_ocr_languages (py_join ''+'' xs) = Inr (py_join ''+'' xs)"
proof -
  assume a: "xs \<noteq> []" "distinct xs" "set xs \<subseteq> set LATIN_LANGUAGES" "length xs \<le> MAX_OCR_LANGUAGES"
  have "split_on CHR ''+'' (py_join ''+'' xs) = xs"
    using a(1,3) latin_languages_plain by (intro split_on_join) auto
  moreover have "filter (\<lambda>p. p \<notin> set SUPPORTED_OCR_LANGUAGES) xs = []"
    using a(3) latin_languages_supported by (auto simp: filter_empty_conv)
  ultimately show ?thesis using a(2,4) by (simp add: validate_ocr_languages_def)
qed

lemma script_languages_valid: "map_of SCRIPT_LANGUAGES s = Some l \<Longrightarrow> validate_ocr_languages l = Inr l"
proof -
  assume "map_of SCRIPT_LANGUAGES s = Some l"
  then have "l \<in> set (map snd SCRIPT_LANGUAGES)" by (force dest: map_of_SomeD)
  then have "l \<in> {''ara'', ''rus'', ''hin'', ''ell'', ''heb'', ''tha'', ''chi_sim+chi_tra'', ''chi_sim'',
      ''chi_tra'', ''jpn'', ''kor''}"
    by (auto simp: SCRIPT_LANGUAGES_def)
  then show ?thesis
    by (auto simp: validate_ocr_languages_def SUPPORTED_OCR_LANGUAGES_def MAX_OCR_LANGUAGES_def)
qed

lemma chosen_language_valid:
  assumes "validate_ocr_languages fallback = Inr fallback"
    and "\<And>s. s \<in> set scripts \<Longrightarrow> s = ''Latin'' \<or> map_of SCRIPT_LANGUAGES s \<noteq> None"
    and "set langs \<subseteq> set LATIN_LANGUAGES"
  shows "validate_ocr_languages (ld_language (choose_language fallback scripts langs))
    = Inr (ld_language (choose_language fallback scripts langs))"
proof (cases "scripts = []")
  case True
  then show ?thesis using assms(1) by (simp add: choose_language_def fallback_detection_def)
next
  case False
  let ?script = "fst (first_max (hd (counter scripts)) (tl (counter scripts)))"
  have script: "?script \<in> set scripts" using False by (rule best_counter_mem)
  let ?ordered = "if ''eng'' \<in> set (most_common langs) then most_common langs else most_common langs @ [''eng'']"
  show ?thesis
  proof (cases "?script = ''Latin''")
    case True
    have o: "?ordered \<noteq> []" "distinct ?ordered" "set ?ordered \<subseteq> set LATIN_LANGUAGES"
      using assms(3) distinct_most_common [of langs] by (auto simp: set_most_common LATIN_LANGUAGES_def simp flip: set_empty)
    have "validate_ocr_languages (py_join ''+'' (take MAX_OCR_LANGUAGES ?ordered))
        = Inr (py_join ''+'' (take MAX_OCR_LANGUAGES ?ordered))"
    proof (rule validate_joined)
      show "set (take MAX_OCR_LANGUAGES ?ordered) \<subseteq> set LATIN_LANGUAGES"
        using o(3) set_take_subset [of MAX_OCR_LANGUAGES ?ordered] by (rule subset_trans [rotated])
    qed (use o in \<open>simp_all add: MAX_OCR_LANGUAGES_def\<close>)
    then show ?thesis using False True by (simp add: choose_language_def Let_def)
  next
    case other: False
    then obtain l where "map_of SCRIPT_LANGUAGES ?script = Some l" using assms(2) script by blast
    with script_languages_valid [OF this] show ?thesis
      using False other by (simp add: choose_language_def Let_def)
  qed
qed

text \<open>Programs that end, in whatever way, raise at most a \<open>CommandError\<close>.\<close>

definition only_command :: "('w, 'a) action \<Rightarrow> bool" where
  "only_command m \<longleftrightarrow> (\<forall>w e. snd (m w) = Inl e \<longrightarrow> (\<exists>x y. e = CommandError x y))"

lemma only_command_pure [simp, intro]: "only_command (areturn a)"
  by (simp add: only_command_def areturn_def)

lemma only_command_bind [intro]:
  "only_command m \<Longrightarrow> (\<And>a. only_command (f a)) \<Longrightarrow> only_command (abind m f)"
proof -
  assume m: "only_command m" and f: "\<And>a. only_command (f a)"
  have "\<exists>x y. e = CommandError x y" if "snd (abind m f w) = Inl e" for w e
  proof -
    obtain t r where t: "m w = (t, r)" by (cases "m w")
    show ?thesis
      using that t m f by (cases r) (auto simp: abind_def only_command_def, metis snd_conv)
  qed
  then show ?thesis by (simp add: only_command_def)
qed

lemma catch_only_command:
  assumes "only_command m"
  shows "\<exists>t b. catch_command otherwise m w = (t, Inr b) \<and> (b = otherwise \<or> m w = (t, Inr b))"
proof -
  obtain t r where m: "m w = (t, r)" by (cases "m w")
  show ?thesis
  proof (cases r)
    case (Inl e)
    then obtain x y where "e = CommandError x y"
      using assms m by (metis only_command_def snd_conv)
    then show ?thesis using m Inl by (simp add: catch_command_def)
  qed (simp add: m catch_command_def)
qed

lemma only_command_catch: "only_command m \<Longrightarrow> only_command (catch_command d m)"
  using catch_only_command unfolding only_command_def by (metis Inl_Inr_False snd_conv)

definition calm :: "'w subprocess \<Rightarrow> bool" where
  "calm prog \<longleftrightarrow> (\<forall>iv w. \<forall>c m. snd (prog iv w) \<noteq> OsFailure c m)"

lemma only_command_tesseract [intro]:
  assumes "calm (ol_prog h)" and "\<And>w. \<exists>argv. resolve_tesseract_launcher h cfg w = Inr argv \<and> argv \<noteq> []"
  shows "only_command (tesseract h cfg args env)"
proof -
  have run: "only_command (run_command cfg (ol_prog h) command None timeout True oks env')"
    if "command \<noteq> []" for command timeout oks env'
  proof -
    have "\<exists>x y. e = CommandError x y"
      if "command_outcome command n True oks out = Inl e" "\<forall>c m. out \<noteq> OsFailure c m" for n out e
      using that by (cases out) (auto simp: command_outcome_def command_failure_def Let_def split: if_splits)
    then show ?thesis
      using that assms(1) by (simp add: only_command_def run_command_def calm_def case_prod_unfold)
  qed
  have "only_command (abind (run_command cfg (ol_prog h) (argv @ args) None (Some 60) True [0] (Some env))
      (\<lambda>r. areturn (cr_stdout r)))" if "argv \<noteq> []" for argv
    using that run by (intro only_command_bind) auto
  then show ?thesis using assms(2) unfolding only_command_def tesseract_def
    by (metis abind_simps(3))
qed

lemma catch_command_Inr:
  "catch_command d m w = (t, Inr b) \<Longrightarrow> b = d \<or> m w = (t, Inr b)"
  by (auto simp: catch_command_def split: prod.splits sum.splits py_exc.splits)

definition good_lists :: "string list \<times> string list \<Rightarrow> bool" where
  "good_lists p \<longleftrightarrow> (\<forall>s \<in> set (fst p). s = ''Latin'' \<or> map_of SCRIPT_LANGUAGES s \<noteq> None)
     \<and> set (snd p) \<subseteq> set LATIN_LANGUAGES"

lemma guess_good: "good_lists ([''Latin''], case classify_latin_text letter lower text of
    Some guess \<Rightarrow> [guess] | None \<Rightarrow> [])"
proof (cases "classify_latin_text letter lower text")
  case (Some lang)
  then have "lang \<in> set LATIN_LANGUAGES" using classified_language latin_languages by metis
  then show ?thesis using Some by (simp add: good_lists_def)
qed (simp add: good_lists_def)

lemma good_nil [simp]: "good_lists ([], [])"
  by (simp add: good_lists_def)

lemma good_append: "good_lists (a, b) \<Longrightarrow> good_lists (c, d) \<Longrightarrow> good_lists (a @ c, b @ d)"
  unfolding good_lists_def fst_conv snd_conv set_append by blast

lemma inspect_script_good:
  assumes "inspect_script h cfg env img osd w = (t, Inr p)"
  shows "good_lists p"
proof (cases osd)
  case (Pair script turn)
  show ?thesis
  proof (cases "script = Some ''Latin'' \<and> map_of SCRIPT_LANGUAGES ''Latin'' = None")
    case True
    let ?m = "abind (sample_text h cfg img turn env) (\<lambda>u.
         areturn ([''Latin''], case classify_latin_text (ol_letter h) (ol_lower h) (ol_decode h u) of
           Some guess \<Rightarrow> [guess] | None \<Rightarrow> []))"
    have "catch_command ([''Latin''], []) ?m w = (t, Inr p)"
      using assms True Pair by (simp add: inspect_script_def)
    then have "p = ([''Latin''], []) \<or> ?m w = (t, Inr p)" by (rule catch_command_Inr)
    then show ?thesis
    proof
      assume "?m w = (t, Inr p)"
      then obtain u where "p = ([''Latin''], case classify_latin_text (ol_letter h) (ol_lower h) (ol_decode h u) of
           Some guess \<Rightarrow> [guess] | None \<Rightarrow> [])"
        by (elim abind_Inr_E) (auto simp: areturn_def)
      then show ?thesis using guess_good by simp
    qed (simp add: good_lists_def)
  next
    case False
    then show ?thesis
      using assms Pair
      by (cases script) (auto simp: inspect_script_def areturn_def good_lists_def split: if_splits)
  qed
qed

lemma inspect_image_good: "inspect_image h cfg env img w = (t, Inr p) \<Longrightarrow> good_lists p"
  unfolding inspect_image_def
  by (drule catch_command_Inr) (auto elim!: abind_Inr_E intro: inspect_script_good)

lemma inspect_images_good:
  "inspect_images h cfg env imgs w = (t, Inr p) \<Longrightarrow> good_lists p"
proof (induction imgs arbitrary: w t p)
  case Nil
  then show ?case by (auto simp: areturn_def)
next
  case (Cons img imgs)
  from Cons.prems obtain w1 a where a: "inspect_image h cfg env img w = (w1, Inr a)"
    and rest: "(\<lambda>(ss, ls). abind (inspect_images h cfg env imgs)
        (\<lambda>(ss', ls'). areturn (ss @ ss', ls @ ls'))) a w1 = (t, Inr p)"
    by (auto elim: abind_Inr_E)
  obtain ss ls where ap: "a = (ss, ls)" by (cases a)
  from rest obtain w2 b where b: "inspect_images h cfg env imgs w1 = (w2, Inr b)"
    and p: "(\<lambda>(ss', ls'). areturn (ss @ ss', ls @ ls')) b w2 = (t, Inr p)"
    unfolding ap by (auto elim: abind_Inr_E)
  have "good_lists (ss, ls)" "good_lists b"
    using inspect_image_good [OF a] Cons.IH [OF b] ap by simp_all
  then show ?case using p by (cases b) (auto simp: areturn_def intro: good_append)
qed

text \<open>With tools that end and a rotation that works, no image is fatal.\<close>

definition tools_behave :: "'w ocr_host \<Rightarrow> ('z) tool_settings_scheme \<Rightarrow> bool" where
  "tools_behave h cfg \<longleftrightarrow> calm (ol_prog h) \<and> (\<forall>img n w. snd (ol_rotate h img n w) = None)
     \<and> (\<forall>w. \<exists>argv. resolve_tesseract_launcher h cfg w = Inr argv \<and> argv \<noteq> [])"

lemma inspect_image_total:
  assumes "tools_behave h cfg"
  shows "\<exists>t p. inspect_image h cfg env img w = (t, Inr p)"
proof -
  have tess: "only_command (tesseract h cfg args env)" for args
    using assms by (intro only_command_tesseract) (auto simp: tools_behave_def)
  have "only_command (\<lambda>w. if turn = 0 then (w, Inr ()) else (case ol_rotate h img (- turn) w of
          (w', Some e) \<Rightarrow> (w', Inl e) | (w', None) \<Rightarrow> (w', Inr ())))" for turn
  proof -
    have "snd (ol_rotate h img (- turn) w) = None" for w using assms by (simp add: tools_behave_def)
    then show ?thesis by (auto simp: only_command_def split: prod.splits option.splits) (metis option.distinct(1) snd_conv)
  qed
  then have sample: "only_command (sample_text h cfg img turn env)" for turn
    unfolding sample_text_def by (intro only_command_bind) (auto intro: tess)
  have script: "only_command (detect_script h cfg img env)"
    unfolding detect_script_def by (intro only_command_bind tess) auto
  have "only_command (inspect_script h cfg env img osd)" for osd
  proof (cases osd)
    case (Pair o' turn)
    then show ?thesis
      by (cases o') (auto simp: inspect_script_def intro!: only_command_catch only_command_bind sample)
  qed
  then have "only_command (abind (detect_script h cfg img env) (inspect_script h cfg env img))"
    by (intro only_command_bind script)
  from catch_only_command [OF this] show ?thesis unfolding inspect_image_def by blast
qed

lemma inspect_images_total:
  assumes "tools_behave h cfg"
  shows "\<exists>t p. inspect_images h cfg env imgs w = (t, Inr p)"
proof (induction imgs arbitrary: w)
  case Nil
  then show ?case by (simp add: areturn_def)
next
  case (Cons img imgs)
  obtain w1 ss ls where a: "inspect_image h cfg env img w = (w1, Inr (ss, ls))"
    using inspect_image_total [OF assms] by (metis surj_pair)
  obtain w2 ss' ls' where "inspect_images h cfg env imgs w1 = (w2, Inr (ss', ls'))"
    using Cons.IH by (metis surj_pair)
  then show ?case using a by (simp add: abind_def areturn_def)
qed

section \<open>Properties\<close>


text \<open>A host with Tesseract on the PATH that reports Hebrew script and a one-page document.\<close>

definition hebrew_host :: "unit ocr_host" where
  "hebrew_host = \<lparr>ol_prog = (\<lambda>_ w. (w, Exited 0 (''Rotate: 0'' @ [CHR 0x0A] @ ''Script: Hebrew'') [])),
     ol_which = Some, ol_is_file = (\<lambda>_ _. False), ol_home = ''/root'', ol_environ = [(''PATH'', ''/bin'')],
     ol_decode = cps, ol_letter = (\<lambda>c. 65 \<le> c), ol_lower = (\<lambda>w. w), ol_open = (\<lambda>_ _. Inr (False, 1)),
     ol_save_page = (\<lambda>_ _ _ w. (w, None)), ol_rotate = (\<lambda>_ _ w. (w, None))\<rparr>"

lemma split_tesseract: "split_launcher ''tesseract'' = Inr [''tesseract'']" "split_launcher ''gs'' = Inr [''gs'']"
  by (rule split_bare_launcher; force simp: lex_space_def dquote_def squote_def char_code_def)+


text \<open>The environment is computed outside the \<open>try\<close>: a launcher setting that cannot be split escapes.\<close>

lemma detection_raises_on_bad_launcher:
  assumes "split_launcher (tl_tesseract_bin cfg) = Inl e"
  shows "detect_document_language h cfg pdf_path workspace fallback max_pages w = (w, Inl e)"
  using assms by (simp add: detect_document_language_def ocr_subprocess_env_def resolve_tesseract_launcher_def)

end
