(* ===== verification/PdfObjects.thy ===== *)
theory PdfObjects
  imports PyText
begin

text \<open>
  The PDF objects and the small helpers of \<open>app/utils/pdf_security.py\<close>.

  A PDF object is a value of type \<open>'f obj\<close>; a reference names an entry of the document's object
  table (\<open>lib_object\<close>). Dictionaries are association lists, byte strings and texts are lists of
  8-bit characters. Python's \<open>float\<close> is the type \<open>'f\<close> with the operations of \<open>arith\<close> as
  arguments (a literal is named by its source text), so every theorem holds for IEEE
  arithmetic with its rounding. pypdf's parsing, \<open>str\<close> of a compound object, the raw stream
  data and MD5 are the remaining fields of \<open>pdf_lib\<close>.

  Not modelled: an object of another kind than the PDF standard prescribes (a number where a
  dictionary must be). Looking up a key in such an object gives nothing here; in Python it
  raises \<open>AttributeError\<close>. XObjects are streams, hence always referenced.
\<close>

section \<open>Numbers\<close>

record 'f arith =
  fl_lit :: "string \<Rightarrow> 'f"
  fl_of_int :: "int \<Rightarrow> 'f"
  fl_neg :: "'f \<Rightarrow> 'f"
  fl_add :: "'f \<Rightarrow> 'f \<Rightarrow> 'f"
  fl_sub :: "'f \<Rightarrow> 'f \<Rightarrow> 'f"
  fl_mul :: "'f \<Rightarrow> 'f \<Rightarrow> 'f"
  fl_div :: "'f \<Rightarrow> 'f \<Rightarrow> 'f"
  fl_abs :: "'f \<Rightarrow> 'f"
  fl_sqrt :: "'f \<Rightarrow> 'f"
  fl_less :: "'f \<Rightarrow> 'f \<Rightarrow> bool"
  fl_le :: "'f \<Rightarrow> 'f \<Rightarrow> bool"
  fl_angle :: "'f \<Rightarrow> 'f \<Rightarrow> 'f" \<comment> \<open>\<open>math.degrees(math.atan2(b, a)) % 90.0\<close>\<close>
  fl_parse :: "string \<Rightarrow> 'f option"

text \<open>Python's \<open>min(a, b)\<close> and \<open>max(a, b)\<close>.\<close>

definition fl_min :: "'f arith \<Rightarrow> 'f \<Rightarrow> 'f \<Rightarrow> 'f" where
  "fl_min A a b = (if fl_less A b a then b else a)"

definition fl_max :: "'f arith \<Rightarrow> 'f \<Rightarrow> 'f \<Rightarrow> 'f" where
  "fl_max A a b = (if fl_less A a b then b else a)"

text \<open>\<open>min\<close> and \<open>max\<close> of a list.\<close>

fun fl_extreme :: "('f \<Rightarrow> 'f \<Rightarrow> 'f) \<Rightarrow> 'f \<Rightarrow> 'f list \<Rightarrow> 'f" where
  "fl_extreme f x [] = x"
| "fl_extreme f x (y # ys) = fl_extreme f (f x y) ys"

section \<open>Objects\<close>

datatype 'f obj =
    OName string
  | OStr string
  | OBytes string
  | ONum 'f
  | OArr "'f obj list"
  | ODict "(string \<times> 'f obj) list"
  | ORef nat

datatype 'f operands = Args "'f obj list" | Inline "(string \<times> 'f obj) list"

type_synonym 'f op = "'f operands \<times> string"

record 'f pdf_lib =
  lib_object :: "nat \<Rightarrow> 'f obj"
  lib_str :: "'f obj \<Rightarrow> string"
  lib_ops :: "nat \<Rightarrow> 'f op list option"
  lib_raw :: "nat \<Rightarrow> string option"
  lib_md5 :: "string \<Rightarrow> string"

fun args_of :: "'f operands \<Rightarrow> 'f obj list" where
  "args_of (Args xs) = xs"
| "args_of (Inline d) = []"

fun deref :: "'f pdf_lib \<Rightarrow> 'f obj \<Rightarrow> 'f obj" where
  "deref lib (ORef n) = lib_object lib n"
| "deref lib v = v"

fun dict_get :: "'f obj \<Rightarrow> string \<Rightarrow> 'f obj option" where
  "dict_get (ODict kvs) key = map_of kvs key"
| "dict_get _ key = None"

fun is_dict :: "'f obj \<Rightarrow> bool" where
  "is_dict (ODict kvs) = True"
| "is_dict _ = False"

fun items_of :: "'f obj \<Rightarrow> 'f obj list" where
  "items_of (OArr xs) = xs"
| "items_of _ = []"

fun obj_str :: "'f pdf_lib \<Rightarrow> 'f obj \<Rightarrow> string" where
  "obj_str lib (OName s) = s"
| "obj_str lib (OStr s) = s"
| "obj_str lib v = lib_str lib v"

text \<open>\<open>str(d.get(key, ""))\<close>, and \<open>_deref(d.get(key))\<close> for a dictionary that may be absent.\<close>

definition str_get :: "'f pdf_lib \<Rightarrow> 'f obj \<Rightarrow> string \<Rightarrow> string" where
  "str_get lib d key = (case dict_get d key of None \<Rightarrow> [] | Some v \<Rightarrow> obj_str lib v)"

definition deref_get :: "'f pdf_lib \<Rightarrow> 'f obj option \<Rightarrow> string \<Rightarrow> 'f obj option" where
  "deref_get lib d key = (case d of None \<Rightarrow> None | Some d \<Rightarrow> map_option (deref lib) (dict_get d key))"

section \<open>Text\<close>

definition WATERMARK :: string where "WATERMARK = ''watermark''"

definition show_text_ops :: "string list" where
  "show_text_ops = [''Tj'', ''TJ'', [CHR 0x27], [CHR 0x22]]"

definition normalise :: "string \<Rightarrow> string" where
  "normalise s = py_lower (filter (\<lambda>c. \<not> py_space c) s)"

fun shown_piece :: "'f obj \<Rightarrow> string" where
  "shown_piece (OBytes s) = s"
| "shown_piece (OStr s) = s"
| "shown_piece (OName s) = s"
| "shown_piece _ = []"

fun shown_operand :: "'f obj \<Rightarrow> string" where
  "shown_operand (OArr xs) = concat (map shown_piece xs)"
| "shown_operand v = shown_piece v"

definition operand_text :: "'f obj list \<Rightarrow> string" where
  "operand_text operands = concat (map shown_operand operands)"

section \<open>Matrices\<close>

definition fl_identity :: "'f arith \<Rightarrow> 'f list" where
  "fl_identity A = [fl_lit A ''1.0'', fl_lit A ''0.0'', fl_lit A ''0.0'', fl_lit A ''1.0'',
     fl_lit A ''0.0'', fl_lit A ''0.0'']"

text \<open>\<open>float(value)\<close>; \<open>None\<close> is the exception.\<close>

fun to_float :: "'f arith \<Rightarrow> 'f obj \<Rightarrow> 'f option" where
  "to_float A (ONum x) = Some x"
| "to_float A (OStr s) = fl_parse A s"
| "to_float A (OName s) = fl_parse A s"
| "to_float A _ = None"

fun to_floats :: "'f arith \<Rightarrow> 'f obj list \<Rightarrow> 'f list option" where
  "to_floats A [] = Some []"
| "to_floats A (v # vs) =
     (case to_float A v of None \<Rightarrow> None | Some x \<Rightarrow> map_option ((#) x) (to_floats A vs))"

text \<open>A matrix is the list of its numbers; fewer than six are kept and fail in \<open>mat_mul\<close>.\<close>

definition matrix_of :: "'f arith \<Rightarrow> 'f obj list \<Rightarrow> 'f list" where
  "matrix_of A operands =
     (case to_floats A (take 6 operands) of None \<Rightarrow> fl_identity A | Some xs \<Rightarrow> xs)"

definition mat_mul :: "'f arith \<Rightarrow> 'f list \<Rightarrow> 'f list \<Rightarrow> 'f list option" where
  "mat_mul A m n =
     (let p = (\<lambda>i j k l. fl_add A (fl_mul A (m ! i) (n ! j)) (fl_mul A (m ! k) (n ! l))) in
      if length m = 6 \<and> length n = 6
      then Some [p 0 0 1 2, p 0 1 1 3, p 2 0 3 2, p 2 1 3 3,
                 fl_add A (p 4 0 5 2) (n ! 4), fl_add A (p 4 1 5 3) (n ! 5)]
      else None)"

definition mat_det :: "'f arith \<Rightarrow> 'f list \<Rightarrow> 'f" where
  "mat_det A m = fl_abs A (fl_sub A (fl_mul A (m ! 0) (m ! 3)) (fl_mul A (m ! 1) (m ! 2)))"

definition mat_scale :: "'f arith \<Rightarrow> 'f list \<Rightarrow> 'f" where
  "mat_scale A m = fl_sqrt A (mat_det A m)"

definition is_diagonal :: "'f arith \<Rightarrow> 'f list \<Rightarrow> bool" where
  "is_diagonal A m =
     (let a = m ! 0; b = m ! 1 in
      if fl_less A (fl_abs A a) (fl_lit A ''1e-9'') \<and> fl_less A (fl_abs A b) (fl_lit A ''1e-9'') then False
      else fl_less A (fl_lit A ''2.5'') (fl_angle A a b)
         \<and> fl_less A (fl_angle A a b) (fl_sub A (fl_lit A ''90.0'') (fl_lit A ''2.5'')))"

definition OPAQUE :: "'f arith \<Rightarrow> 'f" where "OPAQUE A = fl_lit A ''0.999''"

section \<open>Resources\<close>

definition says_watermark :: "string \<Rightarrow> bool" where
  "says_watermark s = py_in WATERMARK (py_lower s)"

definition looks_like_watermark :: "'f pdf_lib \<Rightarrow> 'f obj \<Rightarrow> bool" where
  "looks_like_watermark lib annotation \<longleftrightarrow>
     str_get lib annotation ''/Subtype'' = ''/Watermark''
     \<or> says_watermark (py_join '' '' (map (str_get lib annotation) [''/NM'', ''/T'', ''/Contents'']))"

definition resolve_properties :: "'f pdf_lib \<Rightarrow> 'f obj \<Rightarrow> 'f obj option \<Rightarrow> 'f obj option" where
  "resolve_properties lib operand resources =
     (let v = deref lib operand in
      if is_dict v then Some v
      else deref_get lib (deref_get lib resources ''/Properties'') (obj_str lib v))"

definition member_ocgs :: "'f pdf_lib \<Rightarrow> 'f obj option \<Rightarrow> 'f obj list" where
  "member_ocgs lib properties =
     (case map_option (deref lib) properties of
        None \<Rightarrow> []
      | Some p \<Rightarrow>
          if str_get lib p ''/Type'' = ''/OCMD''
          then (case deref_get lib (Some p) ''/OCGs'' of
                  None \<Rightarrow> []
                | Some ocgs \<Rightarrow> if is_dict ocgs then [ocgs] else map (deref lib) (items_of ocgs))
          else [p])"

definition is_watermark_oc :: "'f pdf_lib \<Rightarrow> 'f obj option \<Rightarrow> bool" where
  "is_watermark_oc lib properties =
     list_ex (\<lambda>group. says_watermark (str_get lib group ''/Name'')) (member_ocgs lib properties)"

definition is_watermark_artifact :: "'f pdf_lib \<Rightarrow> 'f obj option \<Rightarrow> bool" where
  "is_watermark_artifact lib properties =
     (case properties of
        None \<Rightarrow> False
      | Some p \<Rightarrow> str_get lib p ''/Subtype'' = ''/Watermark'' \<or> says_watermark (str_get lib p ''/Name''))"

text \<open>The number of the XObject a \<open>Do\<close> operator draws.\<close>

definition xobject_named :: "'f pdf_lib \<Rightarrow> 'f obj list \<Rightarrow> 'f obj option \<Rightarrow> nat option" where
  "xobject_named lib operands resources =
     (case operands of
        [] \<Rightarrow> None
      | v # _ \<Rightarrow>
          (case deref_get lib resources ''/XObject'' of
             None \<Rightarrow> None
           | Some xobjects \<Rightarrow>
               (case dict_get xobjects (obj_str lib v) of Some (ORef n) \<Rightarrow> Some n | _ \<Rightarrow> None)))"

definition alpha_after_gs :: "'f arith \<Rightarrow> 'f pdf_lib \<Rightarrow> 'f obj list \<Rightarrow> 'f obj option \<Rightarrow> 'f \<Rightarrow> 'f" where
  "alpha_after_gs A lib operands resources current =
     (case operands of
        [] \<Rightarrow> current
      | v # _ \<Rightarrow>
          (case deref_get lib (deref_get lib resources ''/ExtGState'') (obj_str lib v) of
             None \<Rightarrow> current
           | Some state \<Rightarrow>
               (case List.find (\<lambda>key. dict_get state key \<noteq> None) [''/ca'', ''/CA''] of
                  None \<Rightarrow> current
                | Some key \<Rightarrow> (case to_float A (the (dict_get state key)) of None \<Rightarrow> current | Some x \<Rightarrow> x))))"

definition image_digest :: "'f pdf_lib \<Rightarrow> nat \<Rightarrow> string" where
  "image_digest lib n =
     lib_md5 lib (str_get lib (lib_object lib n) ''/Width'' @ str_get lib (lib_object lib n) ''/Height''
       @ (case lib_raw lib n of
            Some raw \<Rightarrow> nat_str (length raw) @ take 4096 raw
          | None \<Rightarrow> nat_str n))"

definition inline_image_digest :: "'f pdf_lib \<Rightarrow> 'f operands \<Rightarrow> string option" where
  "inline_image_digest lib operands =
     (case operands of
        Inline d \<Rightarrow> (case map_of d ''data'' of
            Some (OBytes b) \<Rightarrow> Some (lib_md5 lib (''inline:'' @ b)) | _ \<Rightarrow> None)
      | Args _ \<Rightarrow> None)"

section \<open>Lemmas\<close>

lemma normalise_idem: "normalise (normalise s) = normalise s"
proof -
  have "\<not> py_space (lower_char c)" if "\<not> py_space c" for c
    using that lower_char_cases [of c] by (auto simp: py_space_def is_lower_def Let_def)
  then have "filter (\<lambda>c. \<not> py_space c \<and> \<not> py_space (lower_char c)) s = filter (\<lambda>c. \<not> py_space c) s"
    by (intro filter_cong) auto
  then show ?thesis by (simp add: normalise_def py_lower_def filter_map comp_def)
qed

lemma mat_mul_length: "mat_mul A m n = Some p \<Longrightarrow> length p = 6"
  by (auto simp: mat_mul_def Let_def split: if_splits)

lemma fl_identity_length [simp]: "length (fl_identity A) = 6"
  by (simp add: fl_identity_def)

end
