(* ===== verification/WatermarkScan.thy ===== *)
theory WatermarkScan
  imports PdfObjects Errors
begin

text \<open>
  The analysis pass of \<open>app/utils/pdf_security.py\<close>: \<open>_scan_operations\<close> walks the content streams
  (Form XObjects at most six levels deep) with the graphics state, \<open>_DetectionSink\<close> collects
  what it sees, and \<open>decide\<close> picks the watermarks.

  A page's \<open>pages\<close> set and \<open>counts\<close> counter are a set and a function. \<open>sorted\<close> on a set lists it
  in Python's hash order, which differs from process to process: the argument \<open>order\<close>. The
  exception of a walk is the \<open>ValueError\<close> of a matrix that is too short.
\<close>

section \<open>The sink\<close>

record text_record =
  tr_pages :: "nat set"
  tr_counts :: "nat \<Rightarrow> nat"
  tr_strong :: bool

record image_record =
  ir_pages :: "nat set"
  ir_counts :: "nat \<Rightarrow> nat"
  ir_diagonal :: bool
  ir_transparent :: bool
  ir_centered :: bool
  ir_big :: bool

record 'f sink =
  sk_total :: nat
  sk_texts :: "(string \<times> text_record) list"
  sk_images :: "(string \<times> image_record) list"
  sk_hints :: "(nat \<times> 'f \<times> bool) list"

definition new_sink :: "nat \<Rightarrow> 'f sink" where
  "new_sink total_pages = \<lparr>sk_total = total_pages, sk_texts = [], sk_images = [], sk_hints = []\<rparr>"

text \<open>\<open>setdefault\<close> followed by an update of the entry.\<close>

definition dict_upd :: "'k \<Rightarrow> 'v \<Rightarrow> ('v \<Rightarrow> 'v) \<Rightarrow> ('k \<times> 'v) list \<Rightarrow> ('k \<times> 'v) list" where
  "dict_upd k d f kvs =
     (if k \<in> fst ` set kvs then map (\<lambda>(k', v). (k', if k' = k then f v else v)) kvs
      else kvs @ [(k, f d)])"

definition bump :: "nat \<Rightarrow> (nat \<Rightarrow> nat) \<Rightarrow> nat \<Rightarrow> nat" where
  "bump page counts = counts(page := counts page + 1)"

definition fresh_text :: text_record where
  "fresh_text = \<lparr>tr_pages = {}, tr_counts = (\<lambda>_. 0), tr_strong = False\<rparr>"

definition fresh_image :: image_record where
  "fresh_image = \<lparr>ir_pages = {}, ir_counts = (\<lambda>_. 0), ir_diagonal = False, ir_transparent = False,
     ir_centered = False, ir_big = False\<rparr>"

definition transparent :: "'f arith \<Rightarrow> 'f \<Rightarrow> bool" where
  "transparent A alpha = fl_less A alpha (OPAQUE A)"

definition sink_text ::
  "'f arith \<Rightarrow> nat \<Rightarrow> string \<Rightarrow> bool \<Rightarrow> 'f \<Rightarrow> 'f \<Rightarrow> 'f sink \<Rightarrow> 'f sink" where
  "sink_text A page norm diagonal alpha fsize k =
     (if \<not> (2 \<le> length norm \<and> length norm \<le> 80) then k
      else if \<not> (diagonal \<or> transparent A alpha) then k
      else k\<lparr>sk_texts := dict_upd norm fresh_text (\<lambda>r.
        \<lparr>tr_pages = insert page (tr_pages r), tr_counts = bump page (tr_counts r),
         tr_strong = tr_strong r \<or> diagonal \<and> transparent A alpha
           \<or> diagonal \<and> fl_le A (fl_lit A ''24.0'') fsize
           \<or> transparent A alpha \<and> fl_le A (fl_lit A ''30.0'') fsize\<rparr>) (sk_texts k)\<rparr>)"

type_synonym 'f box = "'f \<times> 'f \<times> 'f \<times> 'f"

definition page_ratio :: "'f arith \<Rightarrow> 'f list \<Rightarrow> 'f box \<Rightarrow> 'f" where
  "page_ratio A ctm b = (case b of (x0, y0, x1, y1) \<Rightarrow>
     fl_div A (mat_det A ctm)
       (fl_max A (fl_mul A (fl_sub A x1 x0) (fl_sub A y1 y0)) (fl_lit A ''1.0'')))"

definition covers_center :: "'f arith \<Rightarrow> 'f list \<Rightarrow> 'f box \<Rightarrow> bool" where
  "covers_center A ctm b = (case b of (x0, y0, x1, y1) \<Rightarrow>
     (let u0 = fl_lit A ''0''; u1 = fl_lit A ''1''; two = fl_lit A ''2'';
          at = (\<lambda>i j k u v. fl_add A (fl_add A (fl_mul A (ctm ! i) u) (fl_mul A (ctm ! j) v)) (ctm ! k));
          xs = [at 0 2 4 u0 u0, at 0 2 4 u1 u0, at 0 2 4 u0 u1, at 0 2 4 u1 u1];
          ys = [at 1 3 5 u0 u0, at 1 3 5 u1 u0, at 1 3 5 u0 u1, at 1 3 5 u1 u1];
          cx = fl_div A (fl_add A x0 x1) two; cy = fl_div A (fl_add A y0 y1) two
      in fl_le A (fl_extreme (fl_min A) (hd xs) (tl xs)) cx \<and> fl_le A cx (fl_extreme (fl_max A) (hd xs) (tl xs))
       \<and> fl_le A (fl_extreme (fl_min A) (hd ys) (tl ys)) cy \<and> fl_le A cy (fl_extreme (fl_max A) (hd ys) (tl ys))))"

definition not_full_page :: "'f arith \<Rightarrow> 'f list \<Rightarrow> 'f box \<Rightarrow> bool" where
  "not_full_page A ctm b = fl_le A (page_ratio A ctm b) (fl_lit A ''0.9'')"

definition sink_image ::
  "'f arith \<Rightarrow> nat \<Rightarrow> string \<Rightarrow> 'f list \<Rightarrow> 'f \<Rightarrow> bool \<Rightarrow> 'f box \<Rightarrow> 'f sink \<Rightarrow> 'f sink" where
  "sink_image A page digest ctm alpha has_smask page_box k =
     k\<lparr>sk_images := dict_upd digest fresh_image (\<lambda>r.
       \<lparr>ir_pages = insert page (ir_pages r), ir_counts = bump page (ir_counts r),
        ir_diagonal = (ir_diagonal r \<or> is_diagonal A ctm),
        ir_transparent = (ir_transparent r \<or> transparent A alpha \<or> has_smask),
        ir_centered = (ir_centered r \<or> covers_center A ctm page_box \<and> not_full_page A ctm page_box),
        ir_big = (ir_big r \<or> fl_le A (fl_lit A ''0.15'') (page_ratio A ctm page_box)
          \<and> not_full_page A ctm page_box)\<rparr>) (sk_images k)\<rparr>"

definition sink_form :: "'f arith \<Rightarrow> nat \<Rightarrow> 'f \<Rightarrow> bool \<Rightarrow> 'f sink \<Rightarrow> 'f sink" where
  "sink_form A key alpha diagonal k =
     k\<lparr>sk_hints := dict_upd key (fl_lit A ''1.0'', False)
       (\<lambda>(a, d). (fl_min A a alpha, d \<or> diagonal)) (sk_hints k)\<rparr>"

section \<open>The decision\<close>

record 'f detection =
  dt_text_needles :: "string set"
  dt_image_digests :: "string set"
  dt_form_hints :: "(nat \<times> 'f \<times> bool) list"

definition no_detection :: "'f detection" where
  "no_detection = \<lparr>dt_text_needles = {}, dt_image_digests = {}, dt_form_hints = []\<rparr>"

definition detection_active :: "'f detection \<Rightarrow> bool" where
  "detection_active d \<longleftrightarrow> dt_text_needles d \<noteq> {} \<or> dt_image_digests d \<noteq> {}"

definition covers_enough_pages :: "nat \<Rightarrow> nat set \<Rightarrow> bool" where
  "covers_enough_pages total_pages pages \<longleftrightarrow>
     2 \<le> total_pages \<and> max 2 ((total_pages + 1) div 2) \<le> card pages"

definition tiled :: "nat set \<Rightarrow> (nat \<Rightarrow> nat) \<Rightarrow> bool" where
  "tiled pages counts \<longleftrightarrow> (\<exists>p \<in> pages. 3 \<le> counts p)"

definition is_text_watermark :: "nat \<Rightarrow> text_record \<Rightarrow> bool" where
  "is_text_watermark total_pages r \<longleftrightarrow>
     tr_strong r \<or> tiled (tr_pages r) (tr_counts r) \<or> covers_enough_pages total_pages (tr_pages r)"

definition is_image_watermark :: "nat \<Rightarrow> image_record \<Rightarrow> bool" where
  "is_image_watermark total_pages r \<longleftrightarrow>
     ir_diagonal r
     \<or> ir_transparent r \<and> (ir_centered r \<or> ir_big r \<or> tiled (ir_pages r) (ir_counts r))
     \<or> covers_enough_pages total_pages (ir_pages r) \<and> ir_centered r \<and> ir_big r"

definition MAX_AUTO_TARGETS :: nat where "MAX_AUTO_TARGETS = 8"

text \<open>\<open>sorted(s, key=..., reverse=True)[:8]\<close>: stable on the order in which the set is iterated.\<close>

definition top_targets :: "(string set \<Rightarrow> string list) \<Rightarrow> (string \<Rightarrow> nat) \<Rightarrow> string set \<Rightarrow> string set" where
  "top_targets order weight s =
     (if MAX_AUTO_TARGETS < card s
      then set (take MAX_AUTO_TARGETS (sort_key (\<lambda>x. - int (weight x)) (order s)))
      else s)"

text \<open>\<open>len(records[key]["pages"])\<close>; the keys sorted are keys of the dictionary.\<close>

definition page_weight :: "('r \<Rightarrow> nat set) \<Rightarrow> (string \<times> 'r) list \<Rightarrow> string \<Rightarrow> nat" where
  "page_weight pages kvs key = (case map_of kvs key of None \<Rightarrow> 0 | Some r \<Rightarrow> card (pages r))"

definition decide :: "(string set \<Rightarrow> string list) \<Rightarrow> 'f sink \<Rightarrow> 'f detection" where
  "decide order k =
     (let needles = {norm. \<exists>r. (norm, r) \<in> set (sk_texts k) \<and> is_text_watermark (sk_total k) r};
          digests = {d. \<exists>r. (d, r) \<in> set (sk_images k) \<and> is_image_watermark (sk_total k) r}
      in \<lparr>dt_text_needles = top_targets order
            (page_weight (\<lambda>r. tr_pages r) (sk_texts k)) needles,
          dt_image_digests = top_targets order
            (page_weight (\<lambda>r. ir_pages r) (sk_images k)) digests,
          dt_form_hints = sk_hints k\<rparr>)"

section \<open>The walk\<close>

record 'f scan_state =
  sc_sink :: "'f sink"
  sc_ctm :: "'f list"
  sc_alpha :: 'f
  sc_stack :: "('f list \<times> 'f) list"
  sc_tm :: "'f list"
  sc_font_size :: 'f
  sc_in_text :: bool
  sc_text :: string
  sc_diagonal :: bool
  sc_block_alpha :: 'f
  sc_block_size :: 'f

definition short_matrix :: "(py_exc, 'a) result" where
  "short_matrix = Inl (OtherError ''ValueError'' ''not enough values to unpack'')"

fun rfold :: "('a \<Rightarrow> 's \<Rightarrow> ('e, 's) result) \<Rightarrow> 'a list \<Rightarrow> 's \<Rightarrow> ('e, 's) result" where
  "rfold f [] s = Inr s"
| "rfold f (x # xs) s = rbind (f x s) (rfold f xs)"

definition start_scan :: "'f arith \<Rightarrow> 'f list \<Rightarrow> 'f \<Rightarrow> 'f sink \<Rightarrow> 'f scan_state" where
  "start_scan A ctm alpha k =
     \<lparr>sc_sink = k, sc_ctm = ctm, sc_alpha = alpha, sc_stack = [], sc_tm = fl_identity A,
      sc_font_size = fl_lit A ''0.0'', sc_in_text = False, sc_text = [], sc_diagonal = False,
      sc_block_alpha = fl_lit A ''1.0'', sc_block_size = fl_lit A ''0.0''\<rparr>"

definition upd_sink :: "('f sink \<Rightarrow> 'f sink) \<Rightarrow> 'f scan_state \<Rightarrow> 'f scan_state" where
  "upd_sink f s = s\<lparr>sc_sink := f (sc_sink s)\<rparr>"

text \<open>
  A \<open>Do\<close> operator. \<open>inner\<close> walks a form: its operations, its resources, the matrix and alpha in
  force and the path; it is \<open>None\<close> at the sixth level.
\<close>

type_synonym 'f inner =
  "'f op list \<Rightarrow> 'f obj option \<Rightarrow> 'f list \<Rightarrow> 'f \<Rightarrow> nat set \<Rightarrow> 'f sink \<Rightarrow> (py_exc, 'f sink) result"

definition form_ctm :: "'f arith \<Rightarrow> 'f obj option \<Rightarrow> 'f list \<Rightarrow> 'f list option" where
  "form_ctm A m ctm =
     mat_mul A (case m of Some (OArr (x # xs)) \<Rightarrow> matrix_of A (x # xs) | _ \<Rightarrow> fl_identity A) ctm"

definition inner_resources :: "'f pdf_lib \<Rightarrow> nat \<Rightarrow> 'f obj option \<Rightarrow> 'f obj option" where
  "inner_resources lib n resources =
     (case deref_get lib (Some (lib_object lib n)) ''/Resources'' of
        None \<Rightarrow> resources | Some (ODict []) \<Rightarrow> resources | Some r \<Rightarrow> Some r)"

definition scan_do ::
  "'f arith \<Rightarrow> 'f pdf_lib \<Rightarrow> 'f inner option \<Rightarrow> 'f obj option \<Rightarrow> nat \<Rightarrow> 'f box \<Rightarrow> nat set
     \<Rightarrow> 'f obj list \<Rightarrow> 'f scan_state \<Rightarrow> (py_exc, 'f scan_state) result" where
  "scan_do A lib inner resources page page_box path operands s =
     (case xobject_named lib operands resources of
        None \<Rightarrow> Inr s
      | Some n \<Rightarrow>
          (let x = lib_object lib n; subtype = str_get lib x ''/Subtype'' in
           if subtype = ''/Image''
           then Inr (upd_sink (sink_image A page (image_digest lib n) (sc_ctm s) (sc_alpha s)
                  (dict_get x ''/SMask'' \<noteq> None) page_box) s)
           else if subtype = ''/Form'' \<and> inner \<noteq> None \<and> n \<notin> path
           then (let s1 = upd_sink (sink_form A n (sc_alpha s) (is_diagonal A (sc_ctm s))) s in
             (case form_ctm A (map_option (deref lib) (dict_get x ''/Matrix'')) (sc_ctm s) of
                None \<Rightarrow> short_matrix
              | Some inner_ctm \<Rightarrow>
                  (case lib_ops lib n of
                     None \<Rightarrow> Inr s1
                   | Some inner_ops \<Rightarrow>
                       rbind (the inner inner_ops (inner_resources lib n resources) inner_ctm
                           (sc_alpha s) (insert n path) (sc_sink s1)) (\<lambda>k. Inr (s1\<lparr>sc_sink := k\<rparr>)))))
           else Inr s))"

definition scan_show :: "'f arith \<Rightarrow> 'f obj list \<Rightarrow> 'f scan_state \<Rightarrow> (py_exc, 'f scan_state) result" where
  "scan_show A operands s =
     (case mat_mul A (sc_tm s) (sc_ctm s) of
        None \<Rightarrow> short_matrix
      | Some text_matrix \<Rightarrow>
          Inr (s\<lparr>sc_text := sc_text s @ operand_text operands,
                 sc_diagonal := sc_diagonal s \<or> is_diagonal A text_matrix,
                 sc_block_alpha := fl_min A (sc_block_alpha s) (sc_alpha s),
                 sc_block_size := fl_max A (sc_block_size s) (fl_mul A (sc_font_size s) (mat_scale A text_matrix))\<rparr>))"

definition scan_op ::
  "'f arith \<Rightarrow> 'f pdf_lib \<Rightarrow> 'f inner option \<Rightarrow> 'f obj option \<Rightarrow> nat \<Rightarrow> 'f box \<Rightarrow> nat set
     \<Rightarrow> 'f op \<Rightarrow> 'f scan_state \<Rightarrow> (py_exc, 'f scan_state) result" where
  "scan_op A lib inner resources page page_box path p s =
     (case p of (operands, oper) \<Rightarrow>
        let args = args_of operands in
        if oper = ''q'' then Inr (s\<lparr>sc_stack := (sc_ctm s, sc_alpha s) # sc_stack s\<rparr>)
        else if oper = ''Q'' then
          Inr (case sc_stack s of [] \<Rightarrow> s
               | (ctm, alpha) # rest \<Rightarrow> s\<lparr>sc_ctm := ctm, sc_alpha := alpha, sc_stack := rest\<rparr>)
        else if oper = ''cm'' then
          (case mat_mul A (matrix_of A args) (sc_ctm s) of
             None \<Rightarrow> short_matrix | Some ctm \<Rightarrow> Inr (s\<lparr>sc_ctm := ctm\<rparr>))
        else if oper = ''gs'' then Inr (s\<lparr>sc_alpha := alpha_after_gs A lib args resources (sc_alpha s)\<rparr>)
        else if oper = ''BT'' then
          Inr (s\<lparr>sc_in_text := True, sc_tm := fl_identity A, sc_text := [], sc_diagonal := False,
            sc_block_alpha := sc_alpha s, sc_block_size := fl_lit A ''0.0''\<rparr>)
        else if oper = ''Tm'' then Inr (s\<lparr>sc_tm := matrix_of A args\<rparr>)
        else if oper = ''Tf'' \<and> length args = 2 then
          Inr (s\<lparr>sc_font_size := (case to_float A (args ! 1) of None \<Rightarrow> fl_lit A ''0.0'' | Some x \<Rightarrow> x)\<rparr>)
        else if oper \<in> set show_text_ops \<and> sc_in_text s then scan_show A args s
        else if oper = ''ET'' \<and> sc_in_text s then
          (let s1 = s\<lparr>sc_in_text := False\<rparr>; norm = normalise (sc_text s) in
           Inr (if norm = [] then s1
                else upd_sink (sink_text A page norm (sc_diagonal s) (sc_block_alpha s) (sc_block_size s)) s1))
        else if oper = ''Do'' then scan_do A lib inner resources page page_box path args s
        else if oper = ''INLINE IMAGE'' then
          (case inline_image_digest lib operands of
             None \<Rightarrow> Inr s
           | Some digest \<Rightarrow>
               Inr (upd_sink (sink_image A page digest (sc_ctm s) (sc_alpha s) False page_box) s))
        else Inr s)"

definition scan_stream ::
  "'f arith \<Rightarrow> 'f pdf_lib \<Rightarrow> nat \<Rightarrow> 'f box \<Rightarrow> 'f inner option \<Rightarrow> 'f inner" where
  "scan_stream A lib page page_box inner operations resources ctm alpha path k =
     rbind (rfold (scan_op A lib inner resources page page_box path) operations (start_scan A ctm alpha k))
       (\<lambda>s. Inr (sc_sink s))"

text \<open>\<open>scan_operations\<close> with \<open>n\<close> further levels of forms (\<open>depth = 6 - n\<close>).\<close>

fun scan_operations :: "'f arith \<Rightarrow> 'f pdf_lib \<Rightarrow> nat \<Rightarrow> 'f box \<Rightarrow> nat \<Rightarrow> 'f inner" where
  "scan_operations A lib page page_box 0 = scan_stream A lib page page_box None"
| "scan_operations A lib page page_box (Suc n) =
     scan_stream A lib page page_box (Some (scan_operations A lib page page_box n))"

section \<open>The document\<close>

record 'f pdf_page =
  pg_contents :: "'f op list option option" \<comment> \<open>outer \<open>None\<close>: no contents; inner: not parsable\<close>
  pg_resources :: "'f obj option"
  pg_annots :: "'f obj list"
  pg_mediabox :: "'f box"

fun analyse_pages ::
  "'f arith \<Rightarrow> 'f pdf_lib \<Rightarrow> nat \<Rightarrow> 'f pdf_page list \<Rightarrow> 'f sink \<Rightarrow> (py_exc, 'f sink) result" where
  "analyse_pages A lib index [] k = Inr k"
| "analyse_pages A lib index (pg # pgs) k =
     (case pg_contents pg of
        Some (Some operations) \<Rightarrow>
          rbind (scan_operations A lib index (pg_mediabox pg) 6 operations
              (map_option (deref lib) (pg_resources pg)) (fl_identity A) (fl_lit A ''1.0'') {} k)
            (analyse_pages A lib (index + 1) pgs)
      | _ \<Rightarrow> analyse_pages A lib (index + 1) pgs k)"

definition analyse_document ::
  "'f arith \<Rightarrow> 'f pdf_lib \<Rightarrow> (string set \<Rightarrow> string list) \<Rightarrow> 'f pdf_page list \<Rightarrow> (py_exc, 'f detection) result" where
  "analyse_document A lib order pgs =
     rbind (analyse_pages A lib 0 pgs (new_sink (length pgs))) (\<lambda>k. Inr (decide order k))"

end
