(* ===== verification/WatermarkFilter.thy ===== *)
theory WatermarkFilter
  imports WatermarkScan
begin

text \<open>
  The rewrite pass of \<open>app/utils/pdf_security.py\<close>: \<open>_filter_operations\<close>, one step per operation
  over its local variables (\<open>filter_state\<close>).

  The lemmas say what the pass does to a stream: nothing is invented or moved, nothing changes
  unless something is counted, and a text forced by the user is gone from every text block.
\<close>

section \<open>The pass\<close>

record 'f rewrite_plan =
  rp_user_needle :: "string option"
  rp_detection :: "'f detection"
  rp_strip_layers :: bool
  rp_hint_alpha :: 'f
  rp_hint_diagonal :: bool

record 'f filter_state =
  fs_kept :: "'f op list"
  fs_removed :: nat
  fs_hits :: nat
  fs_skip :: nat
  fs_block :: "'f op list option"
  fs_text :: string
  fs_stack :: "('f list \<times> 'f) list"
  fs_ctm :: "'f list"
  fs_alpha :: 'f
  fs_tm :: "'f list"
  fs_diagonal :: bool
  fs_block_alpha :: 'f

definition start_filter :: "'f arith \<Rightarrow> 'f rewrite_plan \<Rightarrow> 'f filter_state" where
  "start_filter A plan =
     \<lparr>fs_kept = [], fs_removed = 0, fs_hits = 0, fs_skip = 0, fs_block = None, fs_text = [],
      fs_stack = [], fs_ctm = fl_identity A, fs_alpha = rp_hint_alpha plan, fs_tm = fl_identity A,
      fs_diagonal = False, fs_block_alpha = fl_lit A ''1.0''\<rparr>"

text \<open>The graphics state; it does not touch the other variables.\<close>

definition track_graphics ::
  "'f arith \<Rightarrow> 'f pdf_lib \<Rightarrow> 'f obj option \<Rightarrow> 'f op \<Rightarrow> 'f filter_state \<Rightarrow> (py_exc, 'f filter_state) result" where
  "track_graphics A lib resources p s =
     (case p of (operands, oper) \<Rightarrow>
        let args = args_of operands in
        if oper = ''q'' then Inr (s\<lparr>fs_stack := (fs_ctm s, fs_alpha s) # fs_stack s\<rparr>)
        else if oper = ''Q'' then
          Inr (case fs_stack s of [] \<Rightarrow> s
               | (ctm, alpha) # rest \<Rightarrow> s\<lparr>fs_ctm := ctm, fs_alpha := alpha, fs_stack := rest\<rparr>)
        else if oper = ''cm'' then
          (case mat_mul A (matrix_of A args) (fs_ctm s) of
             None \<Rightarrow> short_matrix | Some ctm \<Rightarrow> Inr (s\<lparr>fs_ctm := ctm\<rparr>))
        else if oper = ''gs'' then Inr (s\<lparr>fs_alpha := alpha_after_gs A lib args resources (fs_alpha s)\<rparr>)
        else if oper = ''Tm'' then Inr (s\<lparr>fs_tm := matrix_of A args\<rparr>)
        else Inr s)"

definition keep_op :: "'f op \<Rightarrow> 'f filter_state \<Rightarrow> 'f filter_state" where
  "keep_op p s = s\<lparr>fs_kept := fs_kept s @ [p]\<rparr>"

definition drop_one :: "'f filter_state \<Rightarrow> 'f filter_state" where
  "drop_one s = s\<lparr>fs_removed := fs_removed s + 1\<rparr>"

definition starts_watermark ::
  "'f pdf_lib \<Rightarrow> 'f obj option \<Rightarrow> 'f rewrite_plan \<Rightarrow> 'f op \<Rightarrow> bool" where
  "starts_watermark lib resources plan p \<longleftrightarrow>
     (case p of (operands, oper) \<Rightarrow>
        oper = ''BDC'' \<and> length (args_of operands) = 2
        \<and> (let tag = obj_str lib (args_of operands ! 0);
                properties = resolve_properties lib (args_of operands ! 1) resources
            in tag = ''/Artifact'' \<and> is_watermark_artifact lib properties
             \<or> rp_strip_layers plan \<and> tag = ''/OC'' \<and> is_watermark_oc lib properties))"

definition block_traits :: "'f arith \<Rightarrow> 'f rewrite_plan \<Rightarrow> 'f filter_state \<Rightarrow> bool" where
  "block_traits A plan s \<longleftrightarrow> fs_diagonal s \<or> rp_hint_diagonal plan
     \<or> transparent A (fs_block_alpha s) \<or> transparent A (rp_hint_alpha plan)"

definition user_match :: "'f rewrite_plan \<Rightarrow> string \<Rightarrow> bool" where
  "user_match plan norm \<longleftrightarrow>
     (case rp_user_needle plan of Some (c # cs) \<Rightarrow> py_in (c # cs) norm | _ \<Rightarrow> False)"

text \<open>\<open>ET\<close>: the block is dropped or kept as a whole.\<close>

definition end_block :: "'f arith \<Rightarrow> 'f rewrite_plan \<Rightarrow> 'f op list \<Rightarrow> 'f filter_state \<Rightarrow> 'f filter_state" where
  "end_block A plan block s =
     (let norm = normalise (fs_text s); s1 = s\<lparr>fs_block := None\<rparr> in
      if user_match plan norm then (drop_one s1)\<lparr>fs_hits := fs_hits s + 1\<rparr>
      else if norm \<in> dt_text_needles (rp_detection plan) \<and> block_traits A plan s then drop_one s1
      else s1\<lparr>fs_kept := fs_kept s @ block\<rparr>)"

definition in_block ::
  "'f arith \<Rightarrow> 'f rewrite_plan \<Rightarrow> 'f op list \<Rightarrow> 'f op \<Rightarrow> 'f filter_state \<Rightarrow> (py_exc, 'f filter_state) result" where
  "in_block A plan block p s =
     (case p of (operands, oper) \<Rightarrow>
        let block' = block @ [p] in
        rbind (if oper \<in> set show_text_ops
               then (case mat_mul A (fs_tm s) (fs_ctm s) of
                       None \<Rightarrow> short_matrix
                     | Some m \<Rightarrow> Inr (s\<lparr>fs_text := fs_text s @ operand_text (args_of operands),
                         fs_diagonal := fs_diagonal s \<or> is_diagonal A m,
                         fs_block_alpha := fl_min A (fs_block_alpha s) (fs_alpha s)\<rparr>))
               else Inr s)
          (\<lambda>s1. Inr (if oper = ''ET'' then end_block A plan block' s1 else s1\<lparr>fs_block := Some block'\<rparr>)))"

definition drops_draw ::
  "'f pdf_lib \<Rightarrow> 'f obj option \<Rightarrow> 'f rewrite_plan \<Rightarrow> 'f op \<Rightarrow> bool" where
  "drops_draw lib resources plan p \<longleftrightarrow>
     (case p of (operands, oper) \<Rightarrow>
        let doomed = dt_image_digests (rp_detection plan) in
        if oper = ''Do'' then
          (case xobject_named lib (args_of operands) resources of
             None \<Rightarrow> False
           | Some n \<Rightarrow>
               rp_strip_layers plan \<and> is_watermark_oc lib (dict_get (lib_object lib n) ''/OC'')
               \<or> str_get lib (lib_object lib n) ''/Subtype'' = ''/Image'' \<and> image_digest lib n \<in> doomed)
        else oper = ''INLINE IMAGE''
          \<and> (case inline_image_digest lib operands of None \<Rightarrow> False | Some d \<Rightarrow> d \<in> doomed))"

definition filter_op ::
  "'f arith \<Rightarrow> 'f pdf_lib \<Rightarrow> 'f obj option \<Rightarrow> 'f rewrite_plan \<Rightarrow> 'f op \<Rightarrow> 'f filter_state
     \<Rightarrow> (py_exc, 'f filter_state) result" where
  "filter_op A lib resources plan p s =
     (if fs_skip s \<noteq> 0
      then Inr (if snd p \<in> {''BDC'', ''BMC''} then s\<lparr>fs_skip := fs_skip s + 1\<rparr>
                else if snd p = ''EMC'' then s\<lparr>fs_skip := fs_skip s - 1\<rparr>
                else s)
      else rbind (track_graphics A lib resources p s) (\<lambda>s1.
        case fs_block s1 of
          Some block \<Rightarrow> in_block A plan block p s1
        | None \<Rightarrow>
            if starts_watermark lib resources plan p then Inr ((drop_one s1)\<lparr>fs_skip := 1\<rparr>)
            else if snd p = ''BT''
            then Inr (s1\<lparr>fs_block := Some [p], fs_text := [], fs_tm := fl_identity A, fs_diagonal := False,
                   fs_block_alpha := fs_alpha s1\<rparr>)
            else if drops_draw lib resources plan p then Inr (drop_one s1)
            else Inr (keep_op p s1)))"

definition filter_operations ::
  "'f arith \<Rightarrow> 'f pdf_lib \<Rightarrow> 'f op list \<Rightarrow> 'f obj option \<Rightarrow> 'f rewrite_plan
     \<Rightarrow> (py_exc, 'f op list \<times> nat \<times> nat) result" where
  "filter_operations A lib operations resources plan =
     rbind (rfold (filter_op A lib resources plan) operations (start_filter A plan)) (\<lambda>s.
       Inr (fs_kept s @ (case fs_block s of None \<Rightarrow> [] | Some block \<Rightarrow> block), fs_removed s, fs_hits s))"

section \<open>Lemmas\<close>

lemma rfold_append: "rfold f (xs @ ys) s = rbind (rfold f xs s) (rfold f ys)"
proof (induction xs arbitrary: s)
  case (Cons x xs)
  then show ?case by (cases "f x s") auto
qed simp

text \<open>An invariant over the processed prefix holds at the end of a fold.\<close>

lemma rfold_invariant:
  assumes "rfold f xs s = Inr t" and "P [] s"
    and "\<And>pre x u v. P pre u \<Longrightarrow> f x u = Inr v \<Longrightarrow> P (pre @ [x]) v"
  shows "P xs t"
  using assms(1)
proof (induction xs arbitrary: t rule: rev_induct)
  case Nil
  then show ?case using assms(2) by simp
next
  case (snoc x xs)
  then obtain u where "rfold f xs s = Inr u" "f x u = Inr t"
    by (auto simp: rfold_append rbind_eq_Inr_iff)
  then show ?case using snoc.IH assms(3) by blast
qed

text \<open>Tracking leaves what is kept and counted alone.\<close>

lemma track_graphics_frame:
  assumes "track_graphics A lib resources p s = Inr t"
  shows "fs_kept t = fs_kept s" "fs_removed t = fs_removed s" "fs_hits t = fs_hits s"
    "fs_skip t = fs_skip s" "fs_block t = fs_block s" "fs_text t = fs_text s"
  using assms
  by (auto simp: track_graphics_def Let_def short_matrix_def split: prod.splits if_splits option.splits list.splits)

text \<open>The possible effects of one operation on what is kept and counted.\<close>

definition pending :: "'f filter_state \<Rightarrow> 'f op list" where
  "pending s = fs_kept s @ (case fs_block s of None \<Rightarrow> [] | Some block \<Rightarrow> block)"

lemma filter_op_cases:
  assumes "filter_op A lib resources plan p s = Inr t"
  obtains (skipped) "fs_skip s \<noteq> 0" "fs_kept t = fs_kept s" "fs_removed t = fs_removed s"
      "fs_hits t = fs_hits s" "fs_block t = fs_block s" "fs_text t = fs_text s"
    | (marked) "fs_skip s = 0" "fs_block s = None" "fs_block t = None" "fs_kept t = fs_kept s"
      "fs_removed t = fs_removed s + 1" "fs_hits t = fs_hits s" "fs_skip t \<le> 1"
    | (opened) "fs_skip s = 0" "fs_block s = None" "snd p = ''BT''" "fs_block t = Some [p]" "fs_text t = []"
      "fs_kept t = fs_kept s" "fs_removed t = fs_removed s" "fs_hits t = fs_hits s" "fs_skip t = 0"
    | (kept) "fs_skip s = 0" "fs_block s = None" "snd p \<noteq> ''BT''" "fs_block t = None"
      "fs_kept t = fs_kept s @ [p]" "fs_removed t = fs_removed s" "fs_hits t = fs_hits s" "fs_skip t = 0"
    | (within) block where "fs_skip s = 0" "fs_block s = Some block" "snd p \<noteq> ''ET''"
      "fs_block t = Some (block @ [p])" "fs_kept t = fs_kept s" "fs_removed t = fs_removed s"
      "fs_hits t = fs_hits s" "fs_skip t = 0"
      "fs_text t = fs_text s @ (if snd p \<in> set show_text_ops then operand_text (args_of (fst p)) else [])"
    | (finished) block where "fs_skip s = 0" "fs_block s = Some block" "snd p = ''ET''"
      "fs_block t = None" "fs_kept t = fs_kept s @ block @ [p]" "fs_removed t = fs_removed s"
      "fs_hits t = fs_hits s" "fs_skip t = 0" "\<not> user_match plan (normalise (fs_text s))"
    | (dropped) block where "fs_skip s = 0" "fs_block s = Some block" "snd p = ''ET''"
      "fs_block t = None" "fs_kept t = fs_kept s" "fs_removed t = fs_removed s + 1"
      "fs_hits s \<le> fs_hits t" "fs_hits t \<le> fs_hits s + 1" "fs_skip t = 0"
proof (cases "fs_skip s = 0")
  case False
  then show ?thesis using assms skipped by (auto simp: filter_op_def split: if_splits)
next
  case True
  then obtain s1 where tr: "track_graphics A lib resources p s = Inr s1"
    using assms by (auto simp: filter_op_def rbind_eq_Inr_iff)
  note fr = track_graphics_frame [OF tr]
  show ?thesis
  proof (cases "fs_block s")
    case None
    then have "(if starts_watermark lib resources plan p then Inr ((drop_one s1)\<lparr>fs_skip := 1\<rparr>)
        else if snd p = ''BT''
        then Inr (s1\<lparr>fs_block := Some [p], fs_text := [], fs_tm := fl_identity A, fs_diagonal := False,
               fs_block_alpha := fs_alpha s1\<rparr>)
        else if drops_draw lib resources plan p then Inr (drop_one s1)
        else Inr (keep_op p s1)) = (Inr t :: (py_exc, _) result)"
      using assms True tr fr by (simp add: filter_op_def)
    then show ?thesis
      using marked opened kept True None fr
      by (auto simp: drop_one_def keep_op_def split: if_splits)
  next
    case (Some block)
    then have b: "in_block A plan block p s1 = Inr t"
      using assms True tr fr by (simp add: filter_op_def)
    obtain operands oper where p: "p = (operands, oper)" by (cases p)
    obtain s2 where s2: "(if oper \<in> set show_text_ops
               then (case mat_mul A (fs_tm s1) (fs_ctm s1) of
                       None \<Rightarrow> short_matrix
                     | Some m \<Rightarrow> Inr (s1\<lparr>fs_text := fs_text s1 @ operand_text (args_of operands),
                         fs_diagonal := fs_diagonal s1 \<or> is_diagonal A m,
                         fs_block_alpha := fl_min A (fs_block_alpha s1) (fs_alpha s1)\<rparr>))
               else Inr s1) = Inr s2"
      and t: "(if oper = ''ET'' then end_block A plan (block @ [p]) s2 else s2\<lparr>fs_block := Some (block @ [p])\<rparr>) = t"
      using b unfolding p in_block_def Let_def prod.case rbind_eq_Inr_iff sum.inject by blast
    note t = t [symmetric]
    have s2_frame: "fs_kept s2 = fs_kept s" "fs_removed s2 = fs_removed s" "fs_hits s2 = fs_hits s"
      "fs_skip s2 = 0"
      "fs_text s2 = fs_text s @ (if oper \<in> set show_text_ops then operand_text (args_of operands) else [])"
      using s2 fr True by (auto simp: short_matrix_def split: if_splits option.splits)
    show ?thesis
    proof (cases "oper = ''ET''")
      case False
      then show ?thesis using within [of block] True Some p t s2_frame by simp
    next
      case et: True
      then have same: "fs_text s2 = fs_text s" using s2_frame by (simp add: show_text_ops_def)
      consider "user_match plan (normalise (fs_text s))"
        | "\<not> user_match plan (normalise (fs_text s))"
          "normalise (fs_text s) \<in> dt_text_needles (rp_detection plan)" "block_traits A plan s2"
        | "\<not> user_match plan (normalise (fs_text s))"
          "\<not> (normalise (fs_text s) \<in> dt_text_needles (rp_detection plan) \<and> block_traits A plan s2)"
        by blast
      then show ?thesis
      proof cases
        case 1
        then show ?thesis using dropped [of block] True Some p et t s2_frame same
          by (simp add: end_block_def drop_one_def Let_def)
      next
        case 2
        then show ?thesis using dropped [of block] True Some p et t s2_frame same
          by (simp add: end_block_def drop_one_def Let_def)
      next
        case 3
        then have "t = s2\<lparr>fs_block := None, fs_kept := fs_kept s2 @ block @ [p]\<rparr>"
          using et t same by (auto simp: end_block_def Let_def)
        then show ?thesis using finished [of block] True Some p et s2_frame 3(1) by simp
      qed
    qed
  qed
qed

subsection \<open>Structure\<close>

definition structure_inv :: "'f op list \<Rightarrow> 'f filter_state \<Rightarrow> bool" where
  "structure_inv pre s \<longleftrightarrow> subseq (pending s) pre \<and> fs_hits s \<le> fs_removed s
     \<and> (fs_removed s = 0 \<longrightarrow> pending s = pre \<and> fs_skip s = 0)"

lemma structure_step:
  assumes "structure_inv pre s" and "filter_op A lib resources plan p s = Inr t"
  shows "structure_inv (pre @ [p]) t"
proof -
  have sub: "subseq (pending s) pre" using assms(1) by (simp add: structure_inv_def)
  have weaken: "subseq xs (pre @ [p])" if "subseq xs (pending s)" for xs
    using that sub by (meson subseq_order.order_trans subseq_rev_drop_many)
  have snoc: "subseq (pending s @ [p]) (pre @ [p])" using sub by simp
  show ?thesis
    using assms(2)
  proof (cases rule: filter_op_cases)
    case skipped
    then show ?thesis
      using assms(1) weaken by (auto simp: structure_inv_def pending_def)
  next
    case marked
    then show ?thesis using assms(1) weaken by (auto simp: structure_inv_def pending_def)
  next
    case opened
    then show ?thesis using assms(1) snoc by (auto simp: structure_inv_def pending_def)
  next
    case kept
    then show ?thesis using assms(1) snoc by (auto simp: structure_inv_def pending_def)
  next
    case (within block)
    then show ?thesis using assms(1) snoc by (auto simp: structure_inv_def pending_def)
  next
    case (finished block)
    then show ?thesis using assms(1) snoc by (auto simp: structure_inv_def pending_def)
  next
    case (dropped block)
    have "subseq (fs_kept s) (pending s)" unfolding pending_def by (intro prefix_imp_subseq) simp
    then show ?thesis using dropped assms(1) weaken by (auto simp: structure_inv_def pending_def)
  qed
qed

lemma filter_operations_structure:
  assumes "filter_operations A lib operations resources plan = Inr (kept, removed, hits)"
  shows "subseq kept operations" and "hits \<le> removed" and "removed = 0 \<Longrightarrow> kept = operations"
proof -
  obtain s where s: "rfold (filter_op A lib resources plan) operations (start_filter A plan) = Inr s"
    and k: "kept = pending s" "removed = fs_removed s" "hits = fs_hits s"
    using assms by (auto simp: filter_operations_def rbind_eq_Inr_iff pending_def)
  have "structure_inv [] (start_filter A plan)"
    by (simp add: structure_inv_def start_filter_def pending_def)
  with s have "structure_inv operations s"
    by (rule rfold_invariant) (rule structure_step)
  then show "subseq kept operations" and "hits \<le> removed" and "removed = 0 \<Longrightarrow> kept = operations"
    by (simp_all add: structure_inv_def k)
qed

subsection \<open>Text blocks\<close>

text \<open>The normalised texts of the complete \<open>BT\<close> \<dots> \<open>ET\<close> blocks of a stream.\<close>

fun block_step :: "'f op \<Rightarrow> string option \<times> string list \<Rightarrow> string option \<times> string list" where
  "block_step p (None, out) = (if snd p = ''BT'' then Some [] else None, out)"
| "block_step p (Some t, out) =
     (if snd p = ''ET'' then (None, out @ [normalise t])
      else (Some (t @ (if snd p \<in> set show_text_ops then operand_text (args_of (fst p)) else [])), out))"

definition text_blocks :: "'f op list \<Rightarrow> string list" where
  "text_blocks ops = snd (fold block_step ops (None, []))"

definition blocks_inv :: "'f rewrite_plan \<Rightarrow> 'f filter_state \<Rightarrow> bool" where
  "blocks_inv plan s \<longleftrightarrow>
     (\<exists>out. fold block_step (fs_kept s) (None, []) = (None, out) \<and> (\<forall>b \<in> set out. \<not> user_match plan b))
     \<and> (\<forall>block. fs_block s = Some block \<longrightarrow>
          (\<forall>out. fold block_step block (None, out) = (Some (fs_text s), out)))"

lemma blocks_step:
  assumes "blocks_inv plan s" and "filter_op A lib resources plan p s = Inr t"
  shows "blocks_inv plan t"
proof -
  obtain out where out: "fold block_step (fs_kept s) (None, []) = (None, out)" "\<forall>b \<in> set out. \<not> user_match plan b"
    using assms(1) by (auto simp: blocks_inv_def)
  have blk: "fold block_step block (None, out') = (Some (fs_text s), out')" if "fs_block s = Some block" for block out'
    using assms(1) that by (auto simp: blocks_inv_def)
  show ?thesis
    using assms(2)
  proof (cases rule: filter_op_cases)
    case skipped
    then show ?thesis using assms(1) by (simp add: blocks_inv_def)
  next
    case (finished block)
    then have "fold block_step (fs_kept t) (None, []) = (None, out @ [normalise (fs_text s)])"
      using out blk by simp
    then show ?thesis using finished out by (auto simp: blocks_inv_def)
  next
    case (within block)
    then show ?thesis using out blk by (auto simp: blocks_inv_def)
  qed (use out in \<open>auto simp: blocks_inv_def\<close>)
qed

lemma forced_text_gone:
  assumes "filter_operations A lib operations resources plan = Inr (kept, removed, hits)"
  shows "\<forall>b \<in> set (text_blocks kept). \<not> user_match plan b"
proof -
  obtain s where s: "rfold (filter_op A lib resources plan) operations (start_filter A plan) = Inr s"
    and k: "kept = pending s"
    using assms by (auto simp: filter_operations_def rbind_eq_Inr_iff pending_def)
  have "blocks_inv plan (start_filter A plan)"
    by (simp add: blocks_inv_def start_filter_def)
  with s have inv: "blocks_inv plan s"
    by (rule rfold_invariant [where P = "\<lambda>_. blocks_inv plan"]) (rule blocks_step)
  then obtain out where out: "fold block_step (fs_kept s) (None, []) = (None, out)"
      "\<forall>b \<in> set out. \<not> user_match plan b"
    by (auto simp: blocks_inv_def)
  have "snd (fold block_step kept (None, [])) = out"
    using inv out k by (cases "fs_block s") (auto simp: blocks_inv_def pending_def)
  then show ?thesis using out by (simp add: text_blocks_def)
qed

end
