(* ===== verification/WatermarkEvidence.thy ===== *)
theory WatermarkEvidence
  imports WatermarkScan Complex_Main
begin

text \<open>
  What \<open>_DetectionSink\<close> of \<open>app/utils/pdf_security.py\<close> concludes from what it has seen.

  The sink aggregates call by call. Here a run is the list of its calls (\<open>observation\<close>), the
  reference judges the whole list at once, and the two agree for every list.
\<close>

section \<open>The reference\<close>

datatype 'f observation =
    SawText nat string bool 'f 'f
  | SawImage nat string "'f list" 'f bool "'f box"
  | SawForm nat 'f bool

fun observe :: "'f arith \<Rightarrow> 'f observation \<Rightarrow> 'f sink \<Rightarrow> 'f sink" where
  "observe A (SawText page shown diagonal alpha fsize) = sink_text A page shown diagonal alpha fsize"
| "observe A (SawImage page digest ctm alpha smask box) = sink_image A page digest ctm alpha smask box"
| "observe A (SawForm key alpha diagonal) = sink_form A key alpha diagonal"

text \<open>The draws of one image, and the text blocks of one text that show a trait.\<close>

type_synonym 'f draw = "nat \<times> 'f list \<times> 'f \<times> bool \<times> 'f box"

fun image_draws :: "'f observation list \<Rightarrow> string \<Rightarrow> 'f draw list" where
  "image_draws [] d = []"
| "image_draws (SawImage page digest ctm alpha smask box # es) d =
     (if digest = d then [(page, ctm, alpha, smask, box)] else []) @ image_draws es d"
| "image_draws (_ # es) d = image_draws es d"

type_synonym 'f block = "nat \<times> bool \<times> 'f \<times> 'f"

fun text_shows :: "'f arith \<Rightarrow> 'f observation list \<Rightarrow> string \<Rightarrow> 'f block list" where
  "text_shows A [] t = []"
| "text_shows A (SawText page shown diagonal alpha fsize # es) t =
     (if shown = t \<and> 2 \<le> length t \<and> length t \<le> 80 \<and> (diagonal \<or> transparent A alpha)
      then [(page, diagonal, alpha, fsize)] else []) @ text_shows A es t"
| "text_shows A (_ # es) t = text_shows A es t"

definition times_on :: "(nat \<times> 'a) list \<Rightarrow> nat \<Rightarrow> nat" where
  "times_on xs page = length (filter (\<lambda>x. fst x = page) xs)"

fun draw_diagonal :: "'f arith \<Rightarrow> 'f draw \<Rightarrow> bool" where
  "draw_diagonal A (page, ctm, alpha, smask, box) = is_diagonal A ctm"

fun draw_transparent :: "'f arith \<Rightarrow> 'f draw \<Rightarrow> bool" where
  "draw_transparent A (page, ctm, alpha, smask, box) \<longleftrightarrow> transparent A alpha \<or> smask"

fun draw_centered :: "'f arith \<Rightarrow> 'f draw \<Rightarrow> bool" where
  "draw_centered A (page, ctm, alpha, smask, box) \<longleftrightarrow> covers_center A ctm box \<and> not_full_page A ctm box"

fun draw_big :: "'f arith \<Rightarrow> 'f draw \<Rightarrow> bool" where
  "draw_big A (page, ctm, alpha, smask, box) \<longleftrightarrow>
     fl_le A (fl_lit A ''0.15'') (page_ratio A ctm box) \<and> not_full_page A ctm box"

fun show_strong :: "'f arith \<Rightarrow> 'f block \<Rightarrow> bool" where
  "show_strong A (page, diagonal, alpha, fsize) \<longleftrightarrow>
     diagonal \<and> transparent A alpha \<or> diagonal \<and> fl_le A (fl_lit A ''24.0'') fsize
     \<or> transparent A alpha \<and> fl_le A (fl_lit A ''30.0'') fsize"

definition image_evidence :: "'f arith \<Rightarrow> nat \<Rightarrow> 'f draw list \<Rightarrow> bool" where
  "image_evidence A total_pages ds \<longleftrightarrow>
     list_ex (draw_diagonal A) ds
     \<or> list_ex (draw_transparent A) ds
       \<and> (list_ex (draw_centered A) ds \<or> list_ex (draw_big A) ds \<or> (\<exists>p. 3 \<le> times_on ds p))
     \<or> covers_enough_pages total_pages (fst ` set ds) \<and> list_ex (draw_centered A) ds \<and> list_ex (draw_big A) ds"

definition text_evidence :: "'f arith \<Rightarrow> nat \<Rightarrow> 'f block list \<Rightarrow> bool" where
  "text_evidence A total_pages bs \<longleftrightarrow>
     list_ex (show_strong A) bs \<or> (\<exists>p. 3 \<le> times_on bs p)
     \<or> covers_enough_pages total_pages (fst ` set bs)"

section \<open>The sink agrees with the reference\<close>

lemma map_of_map_upd:
  "map_of (map (\<lambda>(k', v). (k', if k' = k then f v else v)) kvs) k'
     = map_option (\<lambda>v. if k' = k then f v else v) (map_of kvs k')"
  by (induction kvs) auto

lemma map_of_dict_upd:
  "map_of (dict_upd k d f kvs) k'
     = (if k' = k then Some (f (case map_of kvs k of None \<Rightarrow> d | Some v \<Rightarrow> v)) else map_of kvs k')"
proof (cases "k \<in> fst ` set kvs")
  case True
  then obtain v where "map_of kvs k = Some v" by (metis domD dom_map_of_conv_image_fst)
  then show ?thesis using True by (simp add: dict_upd_def map_of_map_upd option.map_ident)
next
  case False
  then have "map_of kvs k = None" by (simp add: map_of_eq_None_iff)
  then show ?thesis using False by (auto simp: dict_upd_def map_add_def map_of_append split: option.splits)
qed

lemma distinct_dict_upd: "distinct (map fst kvs) \<Longrightarrow> distinct (map fst (dict_upd k d f kvs))"
  by (auto simp: dict_upd_def comp_def case_prod_beta)

lemma image_draws_append: "image_draws (es @ fs) d = image_draws es d @ image_draws fs d"
  by (induction es d rule: image_draws.induct) auto

lemma text_shows_append: "text_shows A (es @ fs) t = text_shows A es t @ text_shows A fs t"
  by (induction A es t rule: text_shows.induct) auto

definition image_summary :: "'f arith \<Rightarrow> 'f draw list \<Rightarrow> image_record" where
  "image_summary A ds = \<lparr>ir_pages = fst ` set ds, ir_counts = times_on ds,
     ir_diagonal = list_ex (draw_diagonal A) ds, ir_transparent = list_ex (draw_transparent A) ds,
     ir_centered = list_ex (draw_centered A) ds, ir_big = list_ex (draw_big A) ds\<rparr>"

definition text_summary :: "'f arith \<Rightarrow> 'f block list \<Rightarrow> text_record" where
  "text_summary A bs = \<lparr>tr_pages = fst ` set bs, tr_counts = times_on bs, tr_strong = list_ex (show_strong A) bs\<rparr>"

lemma times_on_snoc: "times_on (xs @ [x]) = bump (fst x) (times_on xs)"
  by (auto simp: times_on_def bump_def fun_eq_iff)

lemma summary_nil: "image_summary A [] = fresh_image" "text_summary A [] = fresh_text"
  by (simp_all add: image_summary_def text_summary_def fresh_image_def fresh_text_def times_on_def fun_eq_iff)

definition known :: "'a list \<Rightarrow> 'b \<Rightarrow> 'b option" where
  "known xs v = (if xs = [] then None else Some v)"

lemma known_default: "(case known xs v of None \<Rightarrow> d | Some w \<Rightarrow> w) = (if xs = [] then d else v)"
  by (simp add: known_def)

definition run_sink :: "'f arith \<Rightarrow> nat \<Rightarrow> 'f observation list \<Rightarrow> 'f sink" where
  "run_sink A total_pages es = fold (observe A) es (new_sink total_pages)"

lemma run_sink_snoc: "run_sink A n (es @ [e]) = observe A e (run_sink A n es)"
  by (simp add: run_sink_def)

lemma run_sink_total [simp]: "sk_total (run_sink A n es) = n"
proof (induction es rule: rev_induct)
  case (snoc e es)
  then show ?case by (cases e) (simp_all add: run_sink_snoc sink_text_def sink_image_def sink_form_def)
qed (simp add: run_sink_def new_sink_def)

lemma run_sink_images:
  "distinct (map fst (sk_images (run_sink A n es)))"
  "map_of (sk_images (run_sink A n es)) d = known (image_draws es d) (image_summary A (image_draws es d))"
proof (induction es rule: rev_induct)
  case Nil
  show "distinct (map fst (sk_images (run_sink A n [])))"
    and "map_of (sk_images (run_sink A n [])) d = known (image_draws [] d) (image_summary A (image_draws [] d))"
    by (simp_all add: run_sink_def new_sink_def known_def)
next
  case (snoc e es)
  have img: "sk_images (observe A (SawImage page dg ctm alpha smask box) k) = dict_upd dg fresh_image (\<lambda>r.
       \<lparr>ir_pages = insert page (ir_pages r), ir_counts = bump page (ir_counts r),
        ir_diagonal = (ir_diagonal r \<or> is_diagonal A ctm),
        ir_transparent = (ir_transparent r \<or> transparent A alpha \<or> smask),
        ir_centered = (ir_centered r \<or> covers_center A ctm box \<and> not_full_page A ctm box),
        ir_big = (ir_big r \<or> fl_le A (fl_lit A ''0.15'') (page_ratio A ctm box)
          \<and> not_full_page A ctm box)\<rparr>) (sk_images k)" for page dg ctm alpha smask box k
    by (simp add: sink_image_def)
  show "distinct (map fst (sk_images (run_sink A n (es @ [e]))))"
    using snoc.IH(1)
    by (cases e) (simp_all add: run_sink_snoc img distinct_dict_upd sink_text_def sink_form_def del: observe.simps(2))
  show "map_of (sk_images (run_sink A n (es @ [e]))) d
      = known (image_draws (es @ [e]) d) (image_summary A (image_draws (es @ [e]) d))"
  proof (cases e)
    case (SawImage page dg ctm alpha smask box)
    show ?thesis
    proof (cases "dg = d")
      case False
      then show ?thesis
        using snoc.IH(2) unfolding SawImage run_sink_snoc img
        by (simp add: map_of_dict_upd image_draws_append)
    next
      case True
      have old: "(case map_of (sk_images (run_sink A n es)) dg of None \<Rightarrow> fresh_image | Some v \<Rightarrow> v)
          = image_summary A (image_draws es d)"
        using snoc.IH(2) True by (simp add: known_default summary_nil)
      show ?thesis
        unfolding SawImage run_sink_snoc img map_of_dict_upd old
        using True
        by (simp add: image_draws_append known_def image_summary_def times_on_snoc)
    qed
  qed (use snoc.IH(2) in \<open>simp_all add: run_sink_snoc sink_text_def sink_form_def image_draws_append\<close>)
qed

lemma run_sink_texts:
  "distinct (map fst (sk_texts (run_sink A n es)))"
  "map_of (sk_texts (run_sink A n es)) t = known (text_shows A es t) (text_summary A (text_shows A es t))"
proof (induction es rule: rev_induct)
  case Nil
  show "distinct (map fst (sk_texts (run_sink A n [])))"
    and "map_of (sk_texts (run_sink A n [])) t = known (text_shows A [] t) (text_summary A (text_shows A [] t))"
    by (simp_all add: run_sink_def new_sink_def known_def)
next
  case (snoc e es)
  show "distinct (map fst (sk_texts (run_sink A n (es @ [e]))))"
    using snoc.IH(1)
    by (cases e) (simp_all add: run_sink_snoc distinct_dict_upd sink_text_def sink_image_def sink_form_def)
  show "map_of (sk_texts (run_sink A n (es @ [e]))) t
      = known (text_shows A (es @ [e]) t) (text_summary A (text_shows A (es @ [e]) t))"
  proof (cases e)
    case (SawText page shown diagonal alpha fsize)
    show ?thesis
    proof (cases "shown = t \<and> 2 \<le> length t \<and> length t \<le> 80 \<and> (diagonal \<or> transparent A alpha)")
      case False
      then show ?thesis
        using snoc.IH(2) unfolding SawText run_sink_snoc
        by (auto simp: map_of_dict_upd text_shows_append sink_text_def)
    next
      case True
      have old: "(case map_of (sk_texts (run_sink A n es)) t of None \<Rightarrow> fresh_text | Some v \<Rightarrow> v)
          = text_summary A (text_shows A es t)"
        using snoc.IH(2) by (simp add: known_default summary_nil)
      have "map_of (sk_texts (run_sink A n (es @ [e]))) t = Some
        \<lparr>tr_pages = insert page (fst ` set (text_shows A es t)), tr_counts = bump page (times_on (text_shows A es t)),
         tr_strong = (list_ex (show_strong A) (text_shows A es t) \<or> show_strong A (page, diagonal, alpha, fsize))\<rparr>"
        unfolding SawText run_sink_snoc
        using True old by (simp add: sink_text_def map_of_dict_upd text_summary_def)
      moreover have "text_shows A (es @ [e]) t = text_shows A es t @ [(page, diagonal, alpha, fsize)]"
        using True SawText by (simp add: text_shows_append)
      ultimately show ?thesis
        by (simp add: known_def text_summary_def times_on_snoc del: show_strong.simps)
    qed
  qed (use snoc.IH(2) in \<open>simp_all add: run_sink_snoc sink_image_def sink_form_def text_shows_append\<close>)
qed

section \<open>The decision\<close>

lemma times_on_in: "0 < times_on xs p \<Longrightarrow> p \<in> fst ` set xs"
  by (auto simp: times_on_def filter_empty_conv)

lemma tiled_times_on: "tiled (fst ` set xs) (times_on xs) \<longleftrightarrow> (\<exists>p. 3 \<le> times_on xs p)"
  unfolding tiled_def by (meson times_on_in zero_less_numeral order_less_le_trans)

lemma image_watermark_summary: "is_image_watermark n (image_summary A ds) \<longleftrightarrow> image_evidence A n ds"
  by (simp add: is_image_watermark_def image_summary_def image_evidence_def tiled_times_on)

lemma text_watermark_summary: "is_text_watermark n (text_summary A bs) \<longleftrightarrow> text_evidence A n bs"
  by (simp add: is_text_watermark_def text_summary_def text_evidence_def tiled_times_on)

lemma no_evidence_nil: "\<not> image_evidence A n []" "\<not> text_evidence A n []"
  by (simp_all add: image_evidence_def text_evidence_def times_on_def covers_enough_pages_def)

lemma in_run_images:
  "(d, r) \<in> set (sk_images (run_sink A n es))
     \<longleftrightarrow> image_draws es d \<noteq> [] \<and> r = image_summary A (image_draws es d)"
  using Some_eq_map_of_iff [OF run_sink_images(1) [of A n es], of r d]
  by (auto simp: run_sink_images(2) known_def split: if_splits)

lemma in_run_texts:
  "(t, r) \<in> set (sk_texts (run_sink A n es))
     \<longleftrightarrow> text_shows A es t \<noteq> [] \<and> r = text_summary A (text_shows A es t)"
  using Some_eq_map_of_iff [OF run_sink_texts(1) [of A n es], of r t]
  by (auto simp: run_sink_texts(2) known_def split: if_splits)

lemma image_candidates:
  "{d. \<exists>r. (d, r) \<in> set (sk_images (run_sink A n es)) \<and> is_image_watermark n r}
     = {d. image_evidence A n (image_draws es d)}"
  using no_evidence_nil(1) [of A n] by (auto simp: in_run_images image_watermark_summary)

lemma text_candidates:
  "{t. \<exists>r. (t, r) \<in> set (sk_texts (run_sink A n es)) \<and> is_text_watermark n r}
     = {t. text_evidence A n (text_shows A es t)}"
  using no_evidence_nil(2) [of A n] by (auto simp: in_run_texts text_watermark_summary)

lemma image_weight:
  "page_weight (\<lambda>r. ir_pages r) (sk_images (run_sink A n es)) = (\<lambda>d. card (fst ` set (image_draws es d)))"
  by (simp add: fun_eq_iff page_weight_def run_sink_images(2) known_def image_summary_def)

lemma text_weight:
  "page_weight (\<lambda>r. tr_pages r) (sk_texts (run_sink A n es)) = (\<lambda>t. card (fst ` set (text_shows A es t)))"
  by (simp add: fun_eq_iff page_weight_def run_sink_texts(2) known_def text_summary_def)


text \<open>The walk over the document reports to the sink by these calls only.\<close>

definition reported :: "'f arith \<Rightarrow> 'f sink \<Rightarrow> 'f sink \<Rightarrow> bool" where
  "reported A k k' \<longleftrightarrow> (\<exists>es. k' = fold (observe A) es k)"

lemma reported_refl [simp, intro]: "reported A k k"
  unfolding reported_def by (rule exI [of _ "[]"]) simp

lemma reported_trans: "reported A k l \<Longrightarrow> reported A l m \<Longrightarrow> reported A k m"
  unfolding reported_def by (metis fold_append comp_apply)

lemma reported_one: "reported A k (observe A e k)"
  unfolding reported_def by (rule exI [of _ "[e]"]) simp

lemmas reported_calls = reported_one [of A k "SawText page shown diagonal alpha fsize" for A k page shown diagonal alpha fsize, simplified]
  reported_one [of A k "SawImage page dg ctm alpha smask box" for A k page dg ctm alpha smask box, simplified]
  reported_one [of A k "SawForm key alpha diagonal" for A k key alpha diagonal, simplified]

definition inner_reports :: "'f arith \<Rightarrow> 'f inner option \<Rightarrow> bool" where
  "inner_reports A inner \<longleftrightarrow> (\<forall>f ops res ctm alpha pth k k'.
     inner = Some f \<longrightarrow> f ops res ctm alpha pth k = Inr k' \<longrightarrow> reported A k k')"

lemma inner_reportsD: "f ops res ctm alpha pth k = Inr k' \<Longrightarrow> inner_reports A (Some f) \<Longrightarrow> reported A k k'"
  by (auto simp: inner_reports_def)

lemma reported_inner:
  "inner_reports A (Some f) \<Longrightarrow> f ops res ctm alpha pth (sink_form A key al diagonal k) = Inr k' \<Longrightarrow> reported A k k'"
  using inner_reportsD reported_trans [OF reported_calls(3)] by metis

lemma scan_do_reported:
  assumes "scan_do A lib inner resources page page_box path operands s = Inr t" and "inner_reports A inner"
  shows "reported A (sc_sink s) (sc_sink t)"
  using assms
  by (auto simp: scan_do_def upd_sink_def short_matrix_def Let_def rbind_eq_Inr_iff
      intro: reported_calls split: option.splits if_splits) (rule reported_inner)

lemma scan_op_reported:
  assumes "scan_op A lib inner resources page page_box path p s = Inr t" and "inner_reports A inner"
  shows "reported A (sc_sink s) (sc_sink t)"
  using assms(1) scan_do_reported [OF _ assms(2)]
  by (auto simp: scan_op_def scan_show_def upd_sink_def short_matrix_def Let_def
      intro: reported_calls split: prod.splits option.splits if_splits list.splits)

lemma rfold_reported:
  assumes "rfold (scan_op A lib inner resources page page_box path) ops s = Inr t" and "inner_reports A inner"
  shows "reported A (sc_sink s) (sc_sink t)"
  using assms(1)
proof (induction ops arbitrary: s)
  case (Cons p ops)
  then obtain u where u: "scan_op A lib inner resources page page_box path p s = Inr u"
    and "rfold (scan_op A lib inner resources page page_box path) ops u = Inr t"
    by (simp add: rbind_eq_Inr_iff) blast
  then have "reported A (sc_sink u) (sc_sink t)" using Cons.IH by blast
  with scan_op_reported [OF u assms(2)] show ?case by (rule reported_trans)
qed simp

lemma scan_stream_reported:
  assumes "inner_reports A inner"
  shows "inner_reports A (Some (scan_stream A lib page page_box inner))"
  unfolding inner_reports_def option.inject
proof (intro allI impI)
  fix f ops res ctm alpha path k k'
  assume "scan_stream A lib page page_box inner = f" and "f ops res ctm alpha path k = Inr k'"
  then obtain s where s: "rfold (scan_op A lib inner res page page_box path) ops (start_scan A ctm alpha k) = Inr s"
    and "k' = sc_sink s"
    by (auto simp: scan_stream_def rbind_eq_Inr_iff)
  then show "reported A k k'" using rfold_reported [OF s assms] by (simp add: start_scan_def)
qed

lemma scan_operations_reported: "inner_reports A (Some (scan_operations A lib page page_box n))"
  by (induction n) (simp_all add: scan_stream_reported inner_reports_def [of A None])

lemma analyse_pages_reported: "analyse_pages A lib i pgs k = Inr k' \<Longrightarrow> reported A k k'"
proof (induction pgs arbitrary: i k)
  case (Cons pg pgs)
  then show ?case
    by (auto simp: rbind_eq_Inr_iff split: option.splits
        intro: reported_trans dest!: inner_reportsD [OF _ scan_operations_reported])
qed simp

lemma analyse_document_reported:
  assumes "analyse_document A lib order pgs = Inr d"
  obtains es where "d = decide order (run_sink A (length pgs) es)"
  using assms analyse_pages_reported
  by (fastforce simp: analyse_document_def rbind_eq_Inr_iff run_sink_def reported_def)

section \<open>What is never removed\<close>

text \<open>Iterating over a set yields elements of it.\<close>

definition lists_sets :: "(string set \<Rightarrow> string list) \<Rightarrow> bool" where
  "lists_sets order \<longleftrightarrow> (\<forall>s. set (order s) \<subseteq> s)"

lemma doomed_has_evidence:
  assumes "lists_sets order" and "d \<in> dt_image_digests (decide order (run_sink A n es))"
  shows "image_evidence A n (image_draws es d)"
proof -
  let ?s = "{d. \<exists>r. (d, r) \<in> set (sk_images (run_sink A n es)) \<and> is_image_watermark n r}"
  have "set (take k (sort_key f (order ?s))) \<subseteq> ?s" for k and f :: "string \<Rightarrow> int"
    using set_take_subset [of k "sort_key f (order ?s)"] assms(1) by (simp only: lists_sets_def set_sort) blast
  moreover have "d \<in> top_targets order (page_weight ir_pages (sk_images (run_sink A n es))) ?s"
    using assms(2) by (simp add: decide_def)
  ultimately have "d \<in> ?s" by (auto simp: top_targets_def split: if_splits)
  then show ?thesis unfolding image_candidates by simp
qed

text \<open>
  An image that is always drawn upright, opaque, without a soft mask and over more than 90 %
  of its page - a scanned page - is never picked for automatic removal, however often it repeats
  and whatever else the document shows.
\<close>

theorem opaque_scan_never_doomed:
  assumes "lists_sets order"
    and "\<forall>x \<in> set (image_draws es d).
      \<not> draw_diagonal A x \<and> \<not> draw_transparent A x \<and> (case x of (page, ctm, alpha, smask, box) \<Rightarrow> \<not> not_full_page A ctm box)"
  shows "d \<notin> dt_image_digests (decide order (run_sink A n es))"
proof
  assume "d \<in> dt_image_digests (decide order (run_sink A n es))"
  then have "image_evidence A n (image_draws es d)" using doomed_has_evidence [OF assms(1)] by blast
  moreover have "\<not> list_ex (draw_diagonal A) (image_draws es d)" "\<not> list_ex (draw_transparent A) (image_draws es d)"
    "\<not> list_ex (draw_centered A) (image_draws es d)"
    using assms(2) by (fastforce simp: list_ex_iff)+
  ultimately show False by (simp add: image_evidence_def)
qed

text \<open>Exact arithmetic on the literals of the module, right angles and diagonals only.\<close>

definition rat_arith :: "rat arith" where
  "rat_arith = \<lparr>fl_lit = (\<lambda>s. case map_of
       [(''0'', 0), (''0.0'', 0), (''1'', 1), (''1.0'', 1), (''2'', 2), (''2.5'', 5 / 2), (''0.9'', 9 / 10),
        (''0.15'', 15 / 100), (''0.999'', 999 / 1000), (''24.0'', 24), (''30.0'', 30), (''90.0'', 90)] s of
       None \<Rightarrow> 0 | Some x \<Rightarrow> x),
     fl_of_int = of_int, fl_neg = uminus, fl_add = (+), fl_sub = (-), fl_mul = (*), fl_div = (/), fl_abs = abs, fl_sqrt = (\<lambda>x. x),
     fl_less = (<), fl_le = (\<le>), fl_angle = (\<lambda>a b. if a = 0 \<or> b = 0 then 0 else 45),
     fl_parse = (\<lambda>_. None)\<rparr>"

definition rat_scan :: "rat list \<Rightarrow> rat observation" where
  "rat_scan ctm = SawImage 0 ''scan'' ctm 1 False (0, 0, 600, 800)"

definition sample_order :: "string set \<Rightarrow> string list" where
  "sample_order s = filter (\<lambda>x. x \<in> s) [''scan'', ''logo'']"

theorem opaque_scan_never_doomed_witness:
  "''scan'' \<notin> dt_image_digests (decide sample_order (run_sink rat_arith 1 [rat_scan [600, 0, 0, 800, 0, 0]]))"
  by (rule opaque_scan_never_doomed [where d = "''scan''"])
    (simp_all add: lists_sets_def sample_order_def rat_scan_def rat_arith_def is_diagonal_def transparent_def OPAQUE_def not_full_page_def
      page_ratio_def mat_det_def fl_max_def Let_def)

text \<open>
  The condition on the angle is needed: a scan drawn with a rotation is removed although it
  covers its whole page.
\<close>

lemma rotated_scan_doomed:
  "''scan'' \<in> dt_image_digests (decide order (run_sink rat_arith 1 [rat_scan [600, 800, -600, 800, 0, 0]]))"
  "\<not> not_full_page rat_arith [600, 800, -600, 800, 0, 0] (0, 0, 600, 800)"
proof -
  have "{d. image_evidence rat_arith 1 (image_draws [rat_scan [600, 800, -600, 800, 0, 0]] d)} = {''scan''}"
    by (auto simp: rat_scan_def image_evidence_def rat_arith_def is_diagonal_def Let_def covers_enough_pages_def
        times_on_def split: if_splits)
  then show "''scan'' \<in> dt_image_digests (decide order (run_sink rat_arith 1 [rat_scan [600, 800, -600, 800, 0, 0]]))"
    by (simp add: decide_def Let_def image_candidates image_weight top_targets_def MAX_AUTO_TARGETS_def)
  show "\<not> not_full_page rat_arith [600, 800, -600, 800, 0, 0] (0, 0, 600, 800)"
    by (simp add: not_full_page_def page_ratio_def mat_det_def rat_arith_def fl_max_def)
qed

end
