(* ===== verification/PdfSecurity.thy ===== *)
theory PdfSecurity
  imports WatermarkFilter WatermarkEvidence
begin

text \<open>
  \<open>remove_watermarks\<close> and \<open>encrypt_pdf\<close> of \<open>app/utils/pdf_security.py\<close>: the passes of theories
  \<open>WatermarkScan\<close> and \<open>WatermarkFilter\<close> over a whole document.

  The document (\<open>pdf_doc\<close>) is the writer's object table with the operations of every stream, the
  pages and the catalogue. Objects are shared through references; \<open>mutate\<close> changes an object
  where it is stored. Opening and cloning a file, whether a stream can be re-encoded, garbage
  collection and PyMuPDF's redaction are the parameters \<open>pdf_source\<close> and \<open>security_lib\<close>; setting
  a stream's data and parsing it again gives the same operations. The recursion over forms takes
  Python's recursion limit as fuel.
\<close>

section \<open>Documents\<close>

record 'f pdf_doc =
  doc_lib :: "'f pdf_lib"
  doc_pages :: "'f pdf_page list"
  doc_root :: "'f obj"

record 'f security_lib =
  sl_writable :: "nat \<Rightarrow> bool"
  sl_order :: "string set \<Rightarrow> string list"
  sl_gc :: "'f pdf_doc \<Rightarrow> 'f pdf_doc"
  sl_redact :: "string \<Rightarrow> 'f pdf_doc \<Rightarrow> (py_exc, 'f pdf_doc \<times> nat) result"
  sl_recursion_limit :: nat

record 'f pdf_source =
  src_read :: "string option" \<comment> \<open>the error of \<open>PdfReader\<close>\<close>
  src_encrypted :: bool
  src_decrypts :: bool \<comment> \<open>the empty password opens it\<close>
  src_pages :: "string + nat"
  src_clone :: "string + 'f pdf_doc"

definition clone :: "'f pdf_source \<Rightarrow> (py_exc, 'f pdf_doc) result" where
  "clone src =
     (case src_read src of
        Some err \<Rightarrow> processing_error (''Could not read the PDF '' @ [CHR 0xE2, CHR 0x80, CHR 0x94]
          @ '' it may be corrupted or not a valid PDF: '' @ err)
      | None \<Rightarrow>
          if src_encrypted src \<and> \<not> src_decrypts src
          then processing_error
            ''The PDF is password-protected. Unlock it with its password first (Unlock PDF tool), then run this tool again.''
          else (case src_pages src of
                  Inl err \<Rightarrow> processing_error (''Could not read the PDF (is it damaged?): '' @ err)
                | Inr n \<Rightarrow>
                    if n = 0 then processing_error ''The PDF contains no pages.''
                    else (case src_clone src of
                        Inl err \<Rightarrow> processing_error (''Could not read the PDF (is it damaged?): '' @ err)
                      | Inr d \<Rightarrow> Inr d)))"

section \<open>Changing objects in place\<close>

type_synonym 'f mutation = "'f pdf_lib \<Rightarrow> 'f obj \<Rightarrow> 'f pdf_lib \<times> 'f obj"

fun mutate :: "'f mutation \<Rightarrow> 'f mutation" where
  "mutate f lib (ORef n) =
     (case f lib (lib_object lib n) of
        (lib', v) \<Rightarrow> (lib'\<lparr>lib_object := (lib_object lib')(n := v)\<rparr>, ORef n))"
| "mutate f lib v = f lib v"

definition put_key :: "string \<Rightarrow> 'f obj \<Rightarrow> (string \<times> 'f obj) list \<Rightarrow> (string \<times> 'f obj) list" where
  "put_key key v kvs = (if key \<in> fst ` set kvs then map (\<lambda>(k, w). (k, if k = key then v else w)) kvs
     else kvs @ [(key, v)])"

fun mutate_key :: "string \<Rightarrow> 'f mutation \<Rightarrow> 'f mutation" where
  "mutate_key key f lib (ODict kvs) =
     (case map_of kvs key of
        None \<Rightarrow> (lib, ODict kvs)
      | Some raw \<Rightarrow> (case mutate f lib raw of (lib', v) \<Rightarrow> (lib', ODict (put_key key v kvs))))"
| "mutate_key key f lib v = (lib, v)"

section \<open>Pruning resources\<close>

fun doomed_entry :: "string set \<Rightarrow> 'f pdf_lib \<Rightarrow> 'f obj \<Rightarrow> bool" where
  "doomed_entry doomed lib (ORef n) \<longleftrightarrow>
     str_get lib (lib_object lib n) ''/Subtype'' = ''/Image'' \<and> image_digest lib n \<in> doomed"
| "doomed_entry doomed lib _ \<longleftrightarrow> False"

fun prune_entries :: "string set \<Rightarrow> 'f mutation" where
  "prune_entries doomed lib (ODict kvs) =
     (lib, ODict (filter (\<lambda>(name, entry). \<not> doomed_entry doomed lib entry) kvs))"
| "prune_entries doomed lib v = (lib, v)"

definition prune_doomed :: "string set \<Rightarrow> 'f mutation" where
  "prune_doomed doomed = mutate_key ''/XObject'' (prune_entries doomed)"

text \<open>Where a resource dictionary is: the page's entry, or the \<open>/Resources\<close> of a form.\<close>

datatype 'f res_handle = PageRes "'f obj option" | FormRes nat

fun handle_raw :: "'f pdf_lib \<Rightarrow> 'f res_handle \<Rightarrow> 'f obj option" where
  "handle_raw lib (PageRes raw) = raw"
| "handle_raw lib (FormRes n) = dict_get (lib_object lib n) ''/Resources''"

definition handle_xobjects :: "'f pdf_lib \<Rightarrow> 'f res_handle \<Rightarrow> (string \<times> 'f obj) list" where
  "handle_xobjects lib r =
     (case deref_get lib (map_option (deref lib) (handle_raw lib r)) ''/XObject'' of
        Some (ODict kvs) \<Rightarrow> kvs | _ \<Rightarrow> [])"

definition prune_form :: "string set \<Rightarrow> nat \<Rightarrow> 'f pdf_lib \<Rightarrow> 'f pdf_lib" where
  "prune_form doomed n lib =
     (if doomed = {} then lib
      else fst (mutate (mutate_key ''/Resources'' (prune_doomed doomed)) lib (ORef n)))"

section \<open>Form XObjects\<close>

record 'f form_state =
  fm_lib :: "'f pdf_lib"
  fm_visited :: "nat set"
  fm_removed :: nat
  fm_hits :: nat

definition form_hint :: "'f arith \<Rightarrow> 'f detection \<Rightarrow> nat \<Rightarrow> 'f \<times> bool" where
  "form_hint A d n = (case map_of (dt_form_hints d) n of None \<Rightarrow> (fl_lit A ''1.0'', False) | Some h \<Rightarrow> h)"

definition inner_plan :: "'f arith \<Rightarrow> 'f rewrite_plan \<Rightarrow> nat \<Rightarrow> 'f rewrite_plan" where
  "inner_plan A plan n =
     (case form_hint A (rp_detection plan) n of
        (alpha, diagonal) \<Rightarrow>
          plan\<lparr>rp_hint_alpha := fl_min A (rp_hint_alpha plan) alpha,
               rp_hint_diagonal := rp_hint_diagonal plan \<or> diagonal\<rparr>)"

text \<open>The \<open>try\<close> statement: every exception is logged and skipped.\<close>

definition rewrite_form ::
  "'f arith \<Rightarrow> 'f security_lib \<Rightarrow> 'f rewrite_plan \<Rightarrow> nat \<Rightarrow> 'f form_state \<Rightarrow> 'f form_state" where
  "rewrite_form A sl plan n s =
     (case lib_ops (fm_lib s) n of
        None \<Rightarrow> s
      | Some operations \<Rightarrow>
          (case filter_operations A (fm_lib s) operations
              (map_option (deref (fm_lib s)) (handle_raw (fm_lib s) (FormRes n))) plan of
             Inl _ \<Rightarrow> s
           | Inr (kept, dropped, hits) \<Rightarrow>
               if dropped \<noteq> 0 \<and> sl_writable sl n
               then s\<lparr>fm_lib := (fm_lib s)\<lparr>lib_ops := (lib_ops (fm_lib s))(n := Some kept)\<rparr>,
                      fm_removed := fm_removed s + dropped, fm_hits := fm_hits s + hits\<rparr>
               else s))"

text \<open>
  The loop over \<open>xobjects.values()\<close>: deleting an entry of the dictionary under the loop ends it
  with a \<open>RuntimeError\<close>.
\<close>

fun process_forms ::
  "'f arith \<Rightarrow> 'f security_lib \<Rightarrow> nat \<Rightarrow> 'f res_handle \<Rightarrow> 'f rewrite_plan \<Rightarrow> 'f form_state
     \<Rightarrow> (py_exc, 'f form_state) result" where
  "process_forms A sl 0 res plan s = Inl (OtherError ''RecursionError'' ''maximum recursion depth exceeded'')"
| "process_forms A sl (Suc fuel) res plan s =
     rfold (\<lambda>(name, reference) s.
       rbind (case reference of
           ORef n \<Rightarrow>
             if str_get (fm_lib s) (lib_object (fm_lib s) n) ''/Subtype'' \<noteq> ''/Form'' \<or> n \<in> fm_visited s
             then Inr s
             else (let inner = inner_plan A plan n;
                       s1 = rewrite_form A sl inner n (s\<lparr>fm_visited := insert n (fm_visited s)\<rparr>);
                       s2 = s1\<lparr>fm_lib := prune_form (dt_image_digests (rp_detection plan)) n (fm_lib s1)\<rparr>
                   in process_forms A sl fuel (FormRes n) inner s2)
         | _ \<Rightarrow> Inr s)
        (\<lambda>t. if length (handle_xobjects (fm_lib t) res) \<noteq> length (handle_xobjects (fm_lib s) res)
             then Inl (OtherError ''RuntimeError'' ''dictionary changed size during iteration'')
             else Inr t))
       (handle_xobjects (fm_lib s) res) s"

section \<open>Pages\<close>

record 'f page_state =
  ps_forms :: "'f form_state"
  ps_done :: "'f pdf_page list"

definition rewrite_contents ::
  "'f arith \<Rightarrow> 'f pdf_lib \<Rightarrow> 'f rewrite_plan \<Rightarrow> 'f pdf_page \<Rightarrow> (py_exc, 'f pdf_page \<times> nat \<times> nat) result" where
  "rewrite_contents A lib plan pg =
     (case pg_contents pg of
         None \<Rightarrow> Inr (pg, 0, 0)
       | Some None \<Rightarrow> Inl (OtherError ''PdfReadError'' [])
       | Some (Some operations) \<Rightarrow>
           rbind (filter_operations A lib operations (map_option (deref lib) (pg_resources pg)) plan)
             (\<lambda>(kept, dropped, hits).
               Inr (if dropped \<noteq> 0 then (pg\<lparr>pg_contents := Some (Some kept)\<rparr>, dropped, hits) else (pg, 0, 0))))"

definition prune_page ::
  "string set \<Rightarrow> 'f pdf_lib \<Rightarrow> 'f obj option \<Rightarrow> 'f pdf_lib \<times> 'f obj option" where
  "prune_page doomed lib resources =
     (case resources of
        None \<Rightarrow> (lib, None)
      | Some raw \<Rightarrow>
          if doomed = {} then (lib, Some raw)
          else (case mutate (prune_doomed doomed) lib raw of (lib', v) \<Rightarrow> (lib', Some v)))"

definition process_page ::
  "'f arith \<Rightarrow> 'f security_lib \<Rightarrow> 'f rewrite_plan \<Rightarrow> 'f pdf_page \<Rightarrow> 'f page_state
     \<Rightarrow> (py_exc, 'f page_state) result" where
  "process_page A sl plan pg s =
     rbind (rewrite_contents A (fm_lib (ps_forms s)) plan pg) (\<lambda>(pg', dropped, hits).
     rbind (process_forms A sl (sl_recursion_limit sl) (PageRes (pg_resources pg)) plan (ps_forms s)) (\<lambda>f.
       case prune_page (dt_image_digests (rp_detection plan)) (fm_lib f) (pg_resources pg) of (lib', res) \<Rightarrow>
         Inr (s\<lparr>ps_forms := f\<lparr>fm_lib := lib', fm_removed := fm_removed f + dropped, fm_hits := fm_hits f + hits\<rparr>,
                ps_done := ps_done s @ [pg'\<lparr>pg_resources := res\<rparr>]\<rparr>)))"

definition strip_annotations :: "'f pdf_lib \<Rightarrow> 'f pdf_page list \<Rightarrow> 'f pdf_page list \<times> nat" where
  "strip_annotations lib pgs =
     (map (\<lambda>pg. pg\<lparr>pg_annots := filter (\<lambda>r. \<not> looks_like_watermark lib (deref lib r)) (pg_annots pg)\<rparr>) pgs,
      sum_list (map (\<lambda>pg. length (filter (\<lambda>r. looks_like_watermark lib (deref lib r)) (pg_annots pg))) pgs))"

section \<open>Layers\<close>

definition marked_groups :: "'f pdf_lib \<Rightarrow> 'f obj list \<Rightarrow> 'f obj list" where
  "marked_groups lib groups = filter (\<lambda>r. says_watermark (str_get lib (deref lib r) ''/Name'')) groups"

fun append_missing :: "'a list \<Rightarrow> 'a list \<Rightarrow> 'a list" where
  "append_missing off [] = off"
| "append_missing off (r # rs) = append_missing (if r \<in> set off then off else off @ [r]) rs"

fun array_mutation :: "('f obj list \<Rightarrow> 'f obj list) \<Rightarrow> 'f mutation" where
  "array_mutation f lib (OArr xs) = (lib, OArr (f xs))"
| "array_mutation f lib v = (lib, v)"

definition off_list :: "'f pdf_lib \<Rightarrow> 'f obj \<Rightarrow> 'f obj list" where
  "off_list lib config = (case deref_get lib (Some config) ''/OFF'' of None \<Rightarrow> [] | Some v \<Rightarrow> items_of v)"

fun switch_off :: "'f obj list \<Rightarrow> 'f mutation" where
  "switch_off marked lib (ODict kvs) =
     mutate_key ''/ON'' (array_mutation (\<lambda>xs. fold remove1 marked xs)) lib
       (ODict (put_key ''/OFF'' (OArr (append_missing (off_list lib (ODict kvs)) marked)) kvs))"
| "switch_off marked lib v = (lib, v)"

definition disable_layers :: "'f pdf_lib \<Rightarrow> 'f obj \<Rightarrow> ('f pdf_lib \<times> 'f obj) \<times> nat" where
  "disable_layers lib catalog =
     (case deref_get lib (Some catalog) ''/OCProperties'' of
        None \<Rightarrow> ((lib, catalog), 0)
      | Some oc \<Rightarrow>
          (case (deref_get lib (Some oc) ''/OCGs'', deref_get lib (Some oc) ''/D'') of
             (Some groups, Some config) \<Rightarrow>
               (let marked = marked_groups lib (items_of groups); off = off_list lib config in
                if marked = [] then ((lib, catalog), 0)
                else (mutate_key ''/OCProperties'' (mutate_key ''/D'' (switch_off marked)) lib catalog,
                      length (append_missing off marked) - length off))
           | _ \<Rightarrow> ((lib, catalog), 0)))"

section \<open>The operation\<close>

definition removal_plan :: "'f arith \<Rightarrow> string option \<Rightarrow> 'f detection \<Rightarrow> bool \<Rightarrow> 'f rewrite_plan" where
  "removal_plan A forced d strip =
     \<lparr>rp_user_needle = (case forced of Some (c # cs) \<Rightarrow> Some (normalise (c # cs)) | _ \<Rightarrow> None),
      rp_detection = d, rp_strip_layers = strip, rp_hint_alpha = fl_lit A ''1.0'', rp_hint_diagonal = False\<rparr>"

text \<open>The document as it is written, the number of objects removed and the user's hits.\<close>

definition rewrite_document ::
  "'f arith \<Rightarrow> 'f security_lib \<Rightarrow> string \<Rightarrow> string option \<Rightarrow> 'f detection \<Rightarrow> 'f pdf_doc
     \<Rightarrow> (py_exc, 'f pdf_doc \<times> nat \<times> nat) result" where
  "rewrite_document A sl mode forced d doc =
     (let strip = mode \<in> {''layers'', ''both''};
          plan = removal_plan A forced d strip;
          start = \<lparr>ps_forms = \<lparr>fm_lib = doc_lib doc, fm_visited = {}, fm_removed = 0, fm_hits = 0\<rparr>, ps_done = []\<rparr>
      in rbind (rfold (process_page A sl plan) (doc_pages doc) start) (\<lambda>s.
        let lib = fm_lib (ps_forms s);
            (pgs, annots) = (if mode \<in> {''annotations'', ''both''} then strip_annotations lib (ps_done s)
              else (ps_done s, 0));
            ((lib', catalog'), layers) = (if strip then disable_layers lib (doc_root doc) else ((lib, doc_root doc), 0))
        in Inr (\<lparr>doc_lib = lib', doc_pages = pgs, doc_root = catalog'\<rparr>,
             fm_removed (ps_forms s) + annots + layers, fm_hits (ps_forms s))))"

definition remove_watermarks ::
  "'f arith \<Rightarrow> 'f security_lib \<Rightarrow> 'f pdf_source \<Rightarrow> string \<Rightarrow> string option
     \<Rightarrow> (py_exc, 'f pdf_doc \<times> nat) result" where
  "remove_watermarks A sl src mode forced =
     rbind (clone src) (\<lambda>doc.
     rbind (if mode = ''both'' then analyse_document A (doc_lib doc) (sl_order sl) (doc_pages doc)
            else Inr no_detection) (\<lambda>d.
     rbind (rewrite_document A sl mode forced d doc) (\<lambda>(doc', removed, hits).
       let doc'' = (if dt_image_digests d \<noteq> {} \<and> removed \<noteq> 0 then sl_gc sl doc' else doc') in
       case forced of
         Some (c # cs) \<Rightarrow>
           if hits = 0
           then rbind (sl_redact sl (c # cs) doc'') (\<lambda>(doc''', matches). Inr (doc''', removed + matches))
           else Inr (doc'', removed)
       | _ \<Rightarrow> Inr (doc'', removed))))"

section \<open>Encryption\<close>

datatype permission = PRINT | PRINT_TO_REPRESENTATION | EXTRACT | MODIFY

record encryption =
  en_user_password :: string
  en_owner_password :: string
  en_algorithm :: string
  en_permissions :: "permission set"

definition encrypt_pdf ::
  "'f pdf_source \<Rightarrow> string \<Rightarrow> string option \<Rightarrow> bool \<Rightarrow> bool \<Rightarrow> bool
     \<Rightarrow> (py_exc, 'f pdf_doc \<times> encryption) result" where
  "encrypt_pdf src user_password owner_password allow_printing allow_copying allow_modification =
     rbind (clone src) (\<lambda>doc.
       Inr (doc, \<lparr>en_user_password = user_password,
         en_owner_password = (case owner_password of Some (c # cs) \<Rightarrow> c # cs | _ \<Rightarrow> user_password),
         en_algorithm = ''AES-256'',
         en_permissions = (if allow_printing then {PRINT, PRINT_TO_REPRESENTATION} else {})
           \<union> (if allow_copying then {EXTRACT} else {}) \<union> (if allow_modification then {MODIFY} else {})\<rparr>))"

section \<open>Lemmas\<close>

definition page_ops :: "'f pdf_page \<Rightarrow> 'f op list" where
  "page_ops pg = (case pg_contents pg of Some (Some operations) \<Rightarrow> operations | _ \<Rightarrow> [])"

text \<open>What the operation may do to a page, whatever it detects.\<close>

definition page_cleaned :: "string option \<Rightarrow> 'f pdf_page \<Rightarrow> 'f pdf_page \<Rightarrow> bool" where
  "page_cleaned needle pg pg' \<longleftrightarrow>
     subseq (page_ops pg') (page_ops pg) \<and> subseq (pg_annots pg') (pg_annots pg)
     \<and> pg_mediabox pg' = pg_mediabox pg
     \<and> (case needle of Some (c # cs) \<Rightarrow> \<forall>b \<in> set (text_blocks (page_ops pg')). \<not> py_in (c # cs) b | _ \<Rightarrow> True)"

lemma removal_plan_needle:
  "rp_user_needle (removal_plan A forced d strip) = (case forced of Some (c # cs) \<Rightarrow> Some (normalise (c # cs)) | _ \<Rightarrow> None)"
  by (simp add: removal_plan_def)

lemma text_blocks_nil [simp]: "text_blocks [] = []"
  by (simp add: text_blocks_def)

lemma page_ops_other [simp]:
  "page_ops (pg\<lparr>pg_resources := r\<rparr>) = page_ops pg" "page_ops (pg\<lparr>pg_annots := as\<rparr>) = page_ops pg"
  "page_ops (pg\<lparr>pg_contents := Some (Some ops)\<rparr>) = ops"
  by (simp_all add: page_ops_def)

lemma page_filtered:
  assumes "filter_operations A lib operations resources plan = Inr (kept, dropped, hits)"
    and "pg_contents pg = Some (Some operations)"
  shows "page_cleaned (rp_user_needle plan) pg (if dropped \<noteq> 0 then pg\<lparr>pg_contents := Some (Some kept)\<rparr> else pg)"
proof -
  let ?pg = "if dropped \<noteq> 0 then pg\<lparr>pg_contents := Some (Some kept)\<rparr> else pg"
  have ops: "page_ops pg = operations" "page_ops ?pg = kept"
    using assms filter_operations_structure(3) [OF assms(1)] by (auto simp: page_ops_def)
  have "pg_annots ?pg = pg_annots pg" "pg_mediabox ?pg = pg_mediabox pg" by simp_all
  then show ?thesis
    using filter_operations_structure(1) [OF assms(1)] forced_text_gone [OF assms(1)]
    unfolding page_cleaned_def ops by (auto simp: user_match_def split: option.splits list.splits)
qed

lemma page_cleaned_resources: "page_cleaned needle pg (pg'\<lparr>pg_resources := r\<rparr>) = page_cleaned needle pg pg'"
  by (auto simp: page_cleaned_def split: option.splits list.splits)

lemma page_cleaned_refl: "page_ops pg = [] \<Longrightarrow> page_cleaned needle pg pg"
  by (simp add: page_cleaned_def split: option.splits list.splits)

lemma rewrite_contents_cleaned:
  assumes "rewrite_contents A lib plan pg = Inr (pg', dropped, hits)"
  shows "page_cleaned (rp_user_needle plan) pg pg'"
proof (cases "pg_contents pg")
  case None
  then show ?thesis using assms by (simp add: rewrite_contents_def page_cleaned_refl page_ops_def)
next
  case (Some contents)
  then obtain operations kept n h where
    "pg_contents pg = Some (Some operations)"
    "filter_operations A lib operations (map_option (deref lib) (pg_resources pg)) plan = Inr (kept, n, h)"
    "pg' = (if n \<noteq> 0 then pg\<lparr>pg_contents := Some (Some kept)\<rparr> else pg)"
    using assms by (fastforce simp: rewrite_contents_def rbind_eq_Inr_iff split: option.splits if_splits)
  then show ?thesis using page_filtered by blast
qed

lemma process_page_cleaned:
  assumes "process_page A sl plan pg s = Inr t"
  obtains pg' where "ps_done t = ps_done s @ [pg']" "page_cleaned (rp_user_needle plan) pg pg'"
proof -
  obtain pg1 n h where c: "rewrite_contents A (fm_lib (ps_forms s)) plan pg = Inr (pg1, n, h)"
    using assms by (cases "rewrite_contents A (fm_lib (ps_forms s)) plan pg") (auto simp: process_page_def)
  obtain f where f: "process_forms A sl (sl_recursion_limit sl) (PageRes (pg_resources pg)) plan (ps_forms s) = Inr f"
    using assms c
    by (cases "process_forms A sl (sl_recursion_limit sl) (PageRes (pg_resources pg)) plan (ps_forms s)")
      (auto simp: process_page_def)
  obtain lib' r where p: "prune_page (dt_image_digests (rp_detection plan)) (fm_lib f) (pg_resources pg) = (lib', r)"
    by fastforce
  have "ps_done t = ps_done s @ [pg1\<lparr>pg_resources := r\<rparr>]"
    using assms by (auto simp: process_page_def c f p)
  moreover have "page_cleaned (rp_user_needle plan) pg (pg1\<lparr>pg_resources := r\<rparr>)"
    using rewrite_contents_cleaned [OF c] by (simp add: page_cleaned_resources)
  ultimately show ?thesis by (rule that)
qed

lemma process_pages_cleaned:
  assumes "rfold (process_page A sl plan) pgs s = Inr t"
  obtains pgs' where "ps_done t = ps_done s @ pgs'" "list_all2 (page_cleaned (rp_user_needle plan)) pgs pgs'"
  using assms
proof (induction pgs arbitrary: s thesis)
  case (Cons pg pgs)
  then obtain u where u: "process_page A sl plan pg s = Inr u" "rfold (process_page A sl plan) pgs u = Inr t"
    by (auto simp: rbind_eq_Inr_iff)
  then obtain pg' where pg': "ps_done u = ps_done s @ [pg']" "page_cleaned (rp_user_needle plan) pg pg'"
    using process_page_cleaned by blast
  obtain rest where "ps_done t = ps_done u @ rest" "list_all2 (page_cleaned (rp_user_needle plan)) pgs rest"
    using Cons.IH u(2) by blast
  then show ?case using Cons.prems(1) [of "pg' # rest"] pg' by simp
qed simp

lemma subseq_filter_mono: "subseq xs ys \<Longrightarrow> subseq (filter P xs) ys"
  by (meson subseq_filter_left subseq_order.trans)

lemma page_cleaned_annots:
  "page_cleaned needle pg pg' \<Longrightarrow> page_cleaned needle pg (pg'\<lparr>pg_annots := filter P (pg_annots pg')\<rparr>)"
  by (auto simp: page_cleaned_def subseq_filter_mono split: option.splits list.splits)

lemma strip_annotations_cleaned:
  assumes "list_all2 (page_cleaned needle) pgs pgs'"
  shows "list_all2 (page_cleaned needle) pgs (fst (strip_annotations lib pgs'))"
  using list_all2_mono [OF assms page_cleaned_annots]
  by (simp add: strip_annotations_def list_all2_map2)


definition text_page :: "rat pdf_page" where
  "text_page = \<lparr>pg_contents = Some (Some
       [(Args [], ''BT''), (Args [OName ''/F1'', ONum 12], ''Tf''), (Args [OStr ''D raft''], ''Tj''), (Args [], ''ET''),
        (Args [], ''BT''), (Args [OStr ''Hello''], ''Tj''), (Args [], ''ET'')]),
     pg_resources = None, pg_annots = [], pg_mediabox = (0, 0, 600, 800)\<rparr>"

definition sample_lib :: "(nat \<Rightarrow> rat obj) \<Rightarrow> rat pdf_lib" where
  "sample_lib objects = \<lparr>lib_object = objects, lib_str = (\<lambda>_. []), lib_ops = (\<lambda>n. Some []),
     lib_raw = (\<lambda>n. Some []), lib_md5 = (\<lambda>s. s)\<rparr>"

definition sample_security :: "rat security_lib" where
  "sample_security = \<lparr>sl_writable = (\<lambda>n. True), sl_order = sample_order, sl_gc = (\<lambda>d. d),
     sl_redact = (\<lambda>t d. Inr (d, 0)), sl_recursion_limit = 10\<rparr>"

text \<open>
  The forced text goes with its whole block, and with the block its \<open>Tf\<close>: in PDF the font stays
  set for the next block, which is left without one.
\<close>

definition plain_page :: "rat pdf_page" where
  "plain_page = text_page\<lparr>pg_contents := Some (Some
     [(Args [], ''BT''), (Args [OStr ''Hello''], ''Tj''), (Args [], ''ET'')])\<rparr>"

lemma removal_drops_font:
  "rewrite_contents rat_arith (sample_lib (\<lambda>_. ODict [])) (removal_plan rat_arith (Some ''DRAFT'') no_detection False) text_page
     = Inr (plain_page, 1, 1)"
  by code_simp


text \<open>
  A form that shares the resource dictionary of its page: pruning the doomed image from it while
  the page's loop runs over the same dictionary ends the whole operation with an exception.
\<close>

definition shared_objects :: "nat \<Rightarrow> rat obj" where
  "shared_objects n =
     (if n = 1 then ODict [(''/XObject'', ORef 2)]
      else if n = 2 then ODict [(''/Fm'', ORef 3), (''/Im'', ORef 4)]
      else if n = 3 then ODict [(''/Subtype'', OName ''/Form''), (''/Resources'', ORef 1)]
      else ODict [(''/Subtype'', OName ''/Image'')])"

definition shared_plan :: "rat rewrite_plan" where
  "shared_plan = removal_plan rat_arith None
     (no_detection\<lparr>dt_image_digests := {image_digest (sample_lib shared_objects) 4}\<rparr>) True"

lemma shared_resources_crash:
  "(case process_forms rat_arith sample_security 10 (PageRes (Some (ORef 1))) shared_plan
       \<lparr>fm_lib = sample_lib shared_objects, fm_visited = {}, fm_removed = 0, fm_hits = 0\<rparr> of
      Inl e \<Rightarrow> Some e | Inr _ \<Rightarrow> None)
   = Some (OtherError ''RuntimeError'' ''dictionary changed size during iteration'')"
  by code_simp

text \<open>Encryption: the owner password defaults to the user's, and nothing is permitted unless asked for.\<close>

lemma encrypt_permissions:
  assumes "encrypt_pdf src user_password owner_password printing copying modification = Inr (doc, e)"
  shows "clone src = Inr doc" and "en_algorithm e = ''AES-256''"
    and "PRINT \<in> en_permissions e \<longleftrightarrow> printing" and "EXTRACT \<in> en_permissions e \<longleftrightarrow> copying"
    and "MODIFY \<in> en_permissions e \<longleftrightarrow> modification"
    and "owner_password = None \<Longrightarrow> en_owner_password e = user_password"
  using assms by (auto simp: encrypt_pdf_def rbind_eq_Inr_iff split: if_splits)

end
