(* ===== verification/PdfOverlay.thy ===== *)
theory PdfOverlay
  imports PageOps PdfObjects
begin

text \<open>
  \<open>app/utils/pdf_overlay.py\<close>: stamps on the pages of a PDF.

  A draw function computes the list of the canvas calls it makes (\<open>draw_op\<close>). Parameters
  (\<open>overlay_lib\<close>, an extension of pypdf of theory \<open>PageOps\<close>): reportlab, which turns the calls
  into an overlay page or raises, the width of a text and the size of an image; pypdf's crop
  box, rotation and merging. Numbers are as in \<open>PdfObjects\<close>. The moment \<open>now\<close> is the date
  and the time of day as \<open>strftime\<close> renders them, the same for all pages of a run.

  The tiling loops advance a floating-point number until it passes a bound. They get the number
  of rounds the worker's soft time limit allows (\<open>workers/celery_app.py\<close>), after which they
  raise \<open>SoftTimeLimitExceeded\<close>.
\<close>

section \<open>Canvas and pages\<close>

datatype 'f draw_op =
    SaveState | RestoreState
  | Translate 'f 'f | Rotate int
  | SetFont string int | SetFillColor string | SetStrokeColor string
  | SetFillAlpha 'f | SetStrokeAlpha 'f | SetLineWidth 'f
  | DrawLine 'f 'f 'f 'f
  | DrawString 'f 'f string "'f option" | DrawRightString 'f 'f string | DrawCentredString 'f 'f string
  | DrawImage path 'f 'f 'f 'f

record 'f overlay_page =
  og_number :: int
  og_total :: int
  og_width :: 'f
  og_height :: 'f
  og_filename :: string

type_synonym 'f draw_fn = "'f overlay_page \<Rightarrow> (py_exc, 'f draw_op list) result"

record ('page, 'f, 'ov) overlay_lib = "'page pypdf" +
  ol_rotation :: "'page \<Rightarrow> int"
  ol_upright :: "'page \<Rightarrow> 'page"
  ol_cropbox :: "'page \<Rightarrow> 'f \<times> 'f \<times> 'f \<times> 'f" \<comment> \<open>left, bottom, width, height\<close>
  ol_render :: "'f \<times> 'f \<Rightarrow> 'f draw_op list \<Rightarrow> (py_exc, 'ov) result"
  ol_reanchor :: "'f \<times> 'f \<times> 'f \<times> 'f \<Rightarrow> 'ov \<Rightarrow> 'ov"
  ol_merge :: "bool \<Rightarrow> 'ov \<Rightarrow> 'page \<Rightarrow> 'page"
  ol_string_width :: "string \<Rightarrow> string \<Rightarrow> int \<Rightarrow> 'f"
  ol_image_size :: "bytes option \<Rightarrow> (py_exc, int \<times> int) result"

section \<open>Fonts and templates\<close>

definition font_variants :: "(string \<times> ((bool \<times> bool) \<times> string) list) list" where
  "font_variants =
     [(''helvetica'', [((False, False), ''Helvetica''), ((True, False), ''Helvetica-Bold''),
        ((False, True), ''Helvetica-Oblique''), ((True, True), ''Helvetica-BoldOblique'')]),
      (''times'', [((False, False), ''Times-Roman''), ((True, False), ''Times-Bold''),
        ((False, True), ''Times-Italic''), ((True, True), ''Times-BoldItalic'')]),
      (''courier'', [((False, False), ''Courier''), ((True, False), ''Courier-Bold''),
        ((False, True), ''Courier-Oblique''), ((True, True), ''Courier-BoldOblique'')])]"

definition resolve_font :: "string \<Rightarrow> bool \<Rightarrow> bool \<Rightarrow> string" where
  "resolve_font family bold italic =
     the (map_of (case map_of font_variants family of
        None \<Rightarrow> the (map_of font_variants ''helvetica'') | Some v \<Rightarrow> v) (bold, italic))"

definition substitute_placeholders :: "string \<times> string \<Rightarrow> string \<Rightarrow> 'f overlay_page \<Rightarrow> string" where
  "substitute_placeholders now template page =
     py_replace ''{filename}'' (og_filename page)
      (py_replace ''{time}'' (snd now)
       (py_replace ''{date}'' (fst now)
        (py_replace ''{total}'' (int_str (og_total page))
         (py_replace ''{page}'' (int_str (og_number page)) template))))"

section \<open>Applying a draw function\<close>

definition open_reader :: "'page pypdf \<Rightarrow> path \<Rightarrow> (disk, 'page list) action" where
  "open_reader lib source d =
     (d, case lib_read lib (d source) of
        Inl err \<Rightarrow> processing_error (''Could not read the PDF: '' @ err)
      | Inr reader \<Rightarrow>
          if rd_encrypted reader \<and> rd_decrypt reader [] = 0
          then processing_error ''The PDF is password-protected. Unlock it first.''
          else if rd_pages reader = [] then processing_error ''The PDF contains no pages.''
          else Inr (rd_pages reader))"

definition fl_nonzero :: "'f arith \<Rightarrow> 'f \<Rightarrow> bool" where
  "fl_nonzero A x \<longleftrightarrow> \<not> (fl_le A x (fl_of_int A 0) \<and> fl_le A (fl_of_int A 0) x)"

definition shift_ops :: "'f arith \<Rightarrow> 'f \<Rightarrow> 'f \<Rightarrow> 'f draw_op list" where
  "shift_ops A left bottom = (if fl_nonzero A left \<or> fl_nonzero A bottom then [Translate left bottom] else [])"

definition stamp_page ::
  "'f arith \<Rightarrow> ('page, 'f, 'ov) overlay_lib \<Rightarrow> 'f draw_fn \<Rightarrow> bool \<Rightarrow> string \<Rightarrow> nat \<Rightarrow> nat \<Rightarrow> 'page
     \<Rightarrow> (py_exc, 'page) result" where
  "stamp_page A lib draw below display_name ntotal number page =
     (let page1 = (if ol_rotation lib page mod 360 \<noteq> 0 then ol_upright lib page else page) in
      case ol_cropbox lib page1 of (left, bottom, width, height) \<Rightarrow>
        rbind (draw \<lparr>og_number = int number, og_total = int ntotal, og_width = width, og_height = height,
                 og_filename = display_name\<rparr>) (\<lambda>ops.
        rbind (ol_render lib (width, height) (shift_ops A left bottom @ ops)) (\<lambda>ov.
          Inr (ol_merge lib (\<not> below)
            (ol_reanchor lib (left, bottom, fl_add A left width, fl_add A bottom height) ov) page1))))"

definition selected_page :: "(nat \<Rightarrow> nat \<Rightarrow> bool) option \<Rightarrow> nat \<Rightarrow> nat \<Rightarrow> bool" where
  "selected_page page_filter number ntotal = (case page_filter of None \<Rightarrow> True | Some f \<Rightarrow> f number ntotal)"

definition overlay_pdf ::
  "'f arith \<Rightarrow> ('page, 'f, 'ov) overlay_lib \<Rightarrow> path \<Rightarrow> path \<Rightarrow> 'f draw_fn \<Rightarrow> (nat \<Rightarrow> nat \<Rightarrow> bool) option
     \<Rightarrow> bool \<Rightarrow> string \<Rightarrow> (disk, nat) action" where
  "overlay_pdf A lib source destination draw page_filter below display_name =
     abind (open_reader (pypdf.truncate lib) source) (\<lambda>pages.
     abind (aresult (rmap (\<lambda>(index, page).
         if selected_page page_filter (index + 1) (length pages)
         then stamp_page A lib draw below display_name (length pages) (index + 1) page
         else Inr page) (enumerate 0 pages))) (\<lambda>pages'.
     abind (write_pdf (pypdf.truncate lib) pages' destination) (\<lambda>_.
     areturn (length pages))))"

section \<open>Anchors\<close>

definition position_parts :: "string \<Rightarrow> string \<times> string" where
  "position_parts position =
     (case split_first CHR ''-'' position of None \<Rightarrow> (position, []) | Some vh \<Rightarrow> vh)"

definition half :: "'f arith \<Rightarrow> 'f \<Rightarrow> 'f" where
  "half A x = fl_div A x (fl_of_int A 2)"

definition anchor_point ::
  "'f arith \<Rightarrow> string \<Rightarrow> 'f \<Rightarrow> 'f \<Rightarrow> 'f \<Rightarrow> 'f \<Rightarrow> 'f \<Rightarrow> 'f \<Rightarrow> 'f \<Rightarrow> 'f \<times> 'f" where
  "anchor_point A position page_width page_height block_width block_height margin_pt offset_x offset_y =
     (let (vertical, horizontal) =
            (if position = ''center'' then (''center'', ''center'') else position_parts position);
          x = (if horizontal = ''left'' then fl_add A margin_pt (half A block_width)
               else if horizontal = ''right''
               then fl_sub A (fl_sub A page_width margin_pt) (half A block_width)
               else half A page_width);
          y = (if vertical = ''top'' then fl_sub A (fl_sub A page_height margin_pt) (half A block_height)
               else if vertical = ''bottom'' then fl_add A margin_pt (half A block_height)
               else half A page_height)
      in (fl_add A x offset_x, fl_sub A y offset_y))"

section \<open>Tiling\<close>

definition time_limit :: "(py_exc, 'a) result" where
  "time_limit = Inl (OtherError ''SoftTimeLimitExceeded'' ''SoftTimeLimitExceeded()'')"

text \<open>The inner loop: the abscissas of one row.\<close>

fun row_loop :: "'f arith \<Rightarrow> nat \<Rightarrow> 'f \<Rightarrow> 'f \<Rightarrow> 'f \<Rightarrow> (py_exc, 'f list) result" where
  "row_loop A 0 span step x = time_limit"
| "row_loop A (Suc n) span step x =
     (if fl_le A x span then rbind (row_loop A n span step (fl_add A x step)) (\<lambda>xs. Inr (x # xs)) else Inr [])"

definition stagger :: "'f arith \<Rightarrow> 'f \<Rightarrow> nat \<Rightarrow> 'f" where
  "stagger A step_x row = half A (fl_mul A (fl_of_int A (int (row mod 2))) step_x)"

fun grid_loop ::
  "'f arith \<Rightarrow> nat \<Rightarrow> 'f \<Rightarrow> 'f \<Rightarrow> 'f \<Rightarrow> nat \<Rightarrow> 'f \<Rightarrow> nat \<Rightarrow> (py_exc, ('f \<times> 'f) list) result" where
  "grid_loop A limit span step_x step_y 0 y row = time_limit"
| "grid_loop A limit span step_x step_y (Suc n) y row =
     (if fl_le A y span
      then rbind (row_loop A limit span step_x (fl_add A (fl_neg A span) (stagger A step_x row))) (\<lambda>xs.
           rbind (grid_loop A limit span step_x step_y n (fl_add A y step_y) (row + 1)) (\<lambda>rest.
             Inr (map (\<lambda>x. (x, y)) xs @ rest)))
      else Inr [])"

definition stamp_grid ::
  "'f arith \<Rightarrow> nat \<Rightarrow> 'f overlay_page \<Rightarrow> int \<Rightarrow> 'f \<Rightarrow> 'f \<Rightarrow> ('f \<times> 'f \<Rightarrow> 'f draw_op list)
     \<Rightarrow> (py_exc, 'f draw_op list) result" where
  "stamp_grid A limit page rotation step_x step_y stamp =
     (let span = fl_max A (og_width page) (og_height page) in
      rbind (grid_loop A limit span step_x step_y limit (fl_neg A span) 0) (\<lambda>points.
        Inr ([Translate (half A (og_width page)) (half A (og_height page)), Rotate rotation]
          @ concat (map stamp points))))"

section \<open>Draw functions\<close>

record 'f placement =
  pl_position :: string
  pl_offset_x :: 'f
  pl_offset_y :: 'f
  pl_margin :: 'f
  pl_tile :: bool

record 'f text_style =
  ws_font_size :: int
  ws_opacity :: 'f
  ws_rotation :: int
  ws_color :: string
  ws_font_family :: string
  ws_bold :: bool
  ws_italic :: bool
  ws_underline :: bool
  ws_align :: string
  ws_letter_spacing :: 'f
  ws_line_height :: 'f

definition text_lines :: "string \<Rightarrow> string list" where
  "text_lines s = split_on (CHR 0x0A) (py_replace [CHR 0x0D] [CHR 0x0A] (py_replace [CHR 0x0D, CHR 0x0A] [CHR 0x0A] s))"

definition line_width ::
  "'f arith \<Rightarrow> ('page, 'f, 'ov) overlay_lib \<Rightarrow> string \<Rightarrow> int \<Rightarrow> 'f \<Rightarrow> string \<Rightarrow> 'f" where
  "line_width A lib font font_size letter_spacing line =
     fl_add A (ol_string_width lib line font font_size)
       (fl_mul A letter_spacing (fl_of_int A (max (int (length line) - 1) 0)))"

text \<open>\<open>draw_block\<close>: the lines with their widths around a centre.\<close>

definition draw_line ::
  "'f arith \<Rightarrow> 'f text_style \<Rightarrow> 'f \<Rightarrow> 'f \<Rightarrow> 'f \<Rightarrow> 'f \<Rightarrow> nat \<times> string \<times> 'f \<Rightarrow> 'f draw_op list" where
  "draw_line A st block_width line_step cx top_y item =
     (case item of (index, line, width) \<Rightarrow>
        let fsize = fl_of_int A (ws_font_size st);
            ascent = fl_mul A fsize (fl_lit A ''0.75'');
            baseline = fl_sub A (fl_sub A top_y ascent) (fl_mul A (fl_of_int A (int index)) line_step);
            x = (if ws_align st = ''left'' then fl_sub A cx (half A block_width)
                 else if ws_align st = ''right'' then fl_sub A (fl_add A cx (half A block_width)) width
                 else fl_sub A cx (half A width));
            rule_y = fl_sub A baseline (fl_mul A fsize (fl_lit A ''0.1''))
        in DrawString x baseline line (Some (ws_letter_spacing st))
           # (if ws_underline st \<and> py_strip line \<noteq> []
              then [SetLineWidth (fl_max A (fl_mul A fsize (fl_lit A ''0.05'')) (fl_lit A ''0.5'')),
                    DrawLine x rule_y (fl_add A x width) rule_y]
              else []))"

definition block_height :: "'f arith \<Rightarrow> 'f text_style \<Rightarrow> nat \<Rightarrow> 'f" where
  "block_height A st n = fl_add A (fl_of_int A (ws_font_size st))
     (fl_mul A (fl_mul A (fl_of_int A (ws_font_size st)) (ws_line_height st)) (fl_of_int A (int n - 1)))"

definition draw_block ::
  "'f arith \<Rightarrow> 'f text_style \<Rightarrow> string list \<Rightarrow> 'f list \<Rightarrow> 'f \<times> 'f \<Rightarrow> 'f draw_op list" where
  "draw_block A st lines widths c =
     (let bw = fl_extreme (fl_max A) (hd widths) (tl widths);
          line_step = fl_mul A (fl_of_int A (ws_font_size st)) (ws_line_height st);
          top_y = fl_add A (snd c) (half A (block_height A st (length lines)))
      in concat (map (draw_line A st bw line_step (fst c) top_y) (enumerate 0 (zip lines widths))))"

definition anchored ::
  "'f arith \<Rightarrow> 'f placement \<Rightarrow> 'f overlay_page \<Rightarrow> 'f \<Rightarrow> 'f \<Rightarrow> int \<Rightarrow> 'f draw_op list" where
  "anchored A pl page bw bh rotation =
     (case anchor_point A (pl_position pl) (og_width page) (og_height page) bw bh (pl_margin pl)
             (pl_offset_x pl) (pl_offset_y pl) of
        (x, y) \<Rightarrow> [Translate x y, Rotate rotation])"

definition make_watermark_draw ::
  "'f arith \<Rightarrow> nat \<Rightarrow> ('page, 'f, 'ov) overlay_lib \<Rightarrow> string \<Rightarrow> 'f text_style \<Rightarrow> 'f placement \<Rightarrow> 'f draw_fn" where
  "make_watermark_draw A limit lib watermark st pl page =
     (let font = resolve_font (ws_font_family st) (ws_bold st) (ws_italic st);
          lines = text_lines watermark;
          widths = map (line_width A lib font (ws_font_size st) (ws_letter_spacing st)) lines;
          bw = fl_extreme (fl_max A) (hd widths) (tl widths);
          bh = block_height A st (length lines);
          fsize = fl_of_int A (ws_font_size st);
          gap = (\<lambda>k. fl_max A (fl_mul A fsize (fl_lit A k)) (fl_lit A ''48.0''))
      in rbind
          (if pl_tile pl
           then stamp_grid A limit page (ws_rotation st) (fl_add A bw (gap ''2.0'')) (fl_add A bh (gap ''1.6''))
             (draw_block A st lines widths)
           else Inr (anchored A pl page bw bh (ws_rotation st)
             @ draw_block A st lines widths (fl_of_int A 0, fl_of_int A 0)))
          (\<lambda>body. Inr ([SaveState, SetFont font (ws_font_size st), SetFillColor (ws_color st),
             SetStrokeColor (ws_color st), SetFillAlpha (ws_opacity st), SetStrokeAlpha (ws_opacity st)]
             @ body @ [RestoreState])))"

record 'f image_style =
  is_opacity :: 'f
  is_rotation :: int
  is_scale :: 'f
  is_keep_aspect :: bool
  is_scale_x :: "'f option"
  is_scale_y :: "'f option"

definition image_extent ::
  "'f arith \<Rightarrow> 'f image_style \<Rightarrow> int \<times> int \<Rightarrow> 'f overlay_page \<Rightarrow> 'f \<times> 'f" where
  "image_extent A st wh page =
     (case wh of (iw, ih) \<Rightarrow>
        if is_keep_aspect st
        then (let target = fl_mul A (fl_min A (og_width page) (og_height page)) (is_scale st);
                  ratio = fl_div A target (fl_of_int A (max iw ih))
              in (fl_mul A (fl_of_int A iw) ratio, fl_mul A (fl_of_int A ih) ratio))
        else (fl_mul A (og_width page) (case is_scale_x st of None \<Rightarrow> is_scale st | Some k \<Rightarrow> k),
              fl_mul A (og_height page) (case is_scale_y st of None \<Rightarrow> is_scale st | Some k \<Rightarrow> k)))"

definition stamp_image :: "'f arith \<Rightarrow> path \<Rightarrow> 'f \<times> 'f \<Rightarrow> 'f \<times> 'f \<Rightarrow> 'f draw_op list" where
  "stamp_image A img wh c =
     [DrawImage img (fl_sub A (fst c) (half A (fst wh))) (fl_sub A (snd c) (half A (snd wh))) (fst wh) (snd wh)]"

text \<open>\<open>ImageReader(path)\<close> when the draw function is made.\<close>

definition image_reader :: "('page, 'f, 'ov) overlay_lib \<Rightarrow> path \<Rightarrow> (disk, int \<times> int) action" where
  "image_reader lib img d = (d, ol_image_size lib (d img))"

definition draw_image_watermark ::
  "'f arith \<Rightarrow> nat \<Rightarrow> path \<Rightarrow> int \<times> int \<Rightarrow> 'f image_style \<Rightarrow> 'f placement \<Rightarrow> 'f draw_fn" where
  "draw_image_watermark A limit img size_px st pl page =
     (let wh = image_extent A st size_px page in
      rbind
        (if pl_tile pl
         then stamp_grid A limit page (is_rotation st) (fl_mul A (fst wh) (fl_lit A ''1.5''))
           (fl_mul A (snd wh) (fl_lit A ''1.5'')) (stamp_image A img wh)
         else Inr (anchored A pl page (fst wh) (snd wh) (is_rotation st)
           @ stamp_image A img wh (fl_of_int A 0, fl_of_int A 0)))
        (\<lambda>body. Inr ([SaveState, SetFillAlpha (is_opacity st)] @ body @ [RestoreState])))"

definition make_image_watermark_draw ::
  "'f arith \<Rightarrow> nat \<Rightarrow> ('page, 'f, 'ov) overlay_lib \<Rightarrow> path \<Rightarrow> 'f image_style \<Rightarrow> 'f placement
     \<Rightarrow> (disk, 'f draw_fn) action" where
  "make_image_watermark_draw A limit lib img st pl =
     abind (image_reader lib img) (\<lambda>wh. areturn (draw_image_watermark A limit img wh st pl))"

definition draw_signature ::
  "'f arith \<Rightarrow> path \<Rightarrow> int \<times> int \<Rightarrow> int option \<Rightarrow> string \<Rightarrow> 'f \<Rightarrow> 'f \<Rightarrow> 'f draw_fn" where
  "draw_signature A img wh target_page position scale margin_pt page =
     (if og_number page \<noteq> (case target_page of None \<Rightarrow> og_total page | Some n \<Rightarrow> n) then Inr []
      else (let dw = fl_mul A (og_width page) scale;
                dh = fl_div A (fl_mul A dw (fl_of_int A (snd wh))) (fl_of_int A (fst wh));
                (vertical, horizontal) = position_parts position;
                y = (if vertical = ''top'' then fl_sub A (fl_sub A (og_height page) margin_pt) dh else margin_pt);
                x = (if horizontal = ''left'' then margin_pt
                     else if horizontal = ''right'' then fl_sub A (fl_sub A (og_width page) margin_pt) dw
                     else half A (fl_sub A (og_width page) dw))
            in Inr [DrawImage img x y dw dh]))"

definition make_signature_draw ::
  "'f arith \<Rightarrow> ('page, 'f, 'ov) overlay_lib \<Rightarrow> path \<Rightarrow> int option \<Rightarrow> string \<Rightarrow> 'f \<Rightarrow> 'f
     \<Rightarrow> (disk, 'f draw_fn) action" where
  "make_signature_draw A lib img target_page position scale margin_pt =
     abind (image_reader lib img) (\<lambda>wh. areturn (draw_signature A img wh target_page position scale margin_pt))"

text \<open>One text line at a horizontal alignment.\<close>

definition aligned_text :: "'f arith \<Rightarrow> 'f overlay_page \<Rightarrow> string \<Rightarrow> 'f \<Rightarrow> 'f \<Rightarrow> string \<Rightarrow> 'f draw_op" where
  "aligned_text A page align margin_pt y rendered =
     (if align = ''left'' then DrawString margin_pt y rendered None
      else if align = ''right'' then DrawRightString (fl_sub A (og_width page) margin_pt) y rendered
      else DrawCentredString (half A (og_width page)) y rendered)"

record 'f header_footer =
  hf_header :: "string option"
  hf_footer :: "string option"
  hf_font_size :: int
  hf_color :: string
  hf_margin :: 'f
  hf_align :: string
  hf_header_align :: "string option"
  hf_footer_align :: "string option"
  hf_font_family :: string
  hf_bold :: bool
  hf_italic :: bool
  hf_opacity :: 'f

definition or_align :: "string option \<Rightarrow> string \<Rightarrow> string" where
  "or_align a align = (case a of Some (c # cs) \<Rightarrow> c # cs | _ \<Rightarrow> align)"

definition stamp_line ::
  "'f arith \<Rightarrow> string \<times> string \<Rightarrow> 'f overlay_page \<Rightarrow> 'f \<Rightarrow> string option \<times> 'f \<times> string \<Rightarrow> 'f draw_op list" where
  "stamp_line A now page margin_pt line =
     (case line of
        (Some (c # cs), y, align) \<Rightarrow>
          [aligned_text A page align margin_pt y (substitute_placeholders now (c # cs) page)]
      | _ \<Rightarrow> [])"

definition make_header_footer_draw ::
  "'f arith \<Rightarrow> string \<times> string \<Rightarrow> 'f header_footer \<Rightarrow> 'f draw_fn" where
  "make_header_footer_draw A now hf page =
     Inr ([SaveState, SetFont (resolve_font (hf_font_family hf) (hf_bold hf) (hf_italic hf)) (hf_font_size hf),
           SetFillColor (hf_color hf), SetFillAlpha (hf_opacity hf)]
       @ concat (map (stamp_line A now page (hf_margin hf))
           [(hf_header hf, fl_sub A (og_height page) (hf_margin hf), or_align (hf_header_align hf) (hf_align hf)),
            (hf_footer hf, fl_sub A (hf_margin hf) (fl_mul A (fl_of_int A (hf_font_size hf)) (fl_lit A ''0.2'')),
             or_align (hf_footer_align hf) (hf_align hf))])
       @ [RestoreState])"

definition make_page_number_draw ::
  "'f arith \<Rightarrow> string \<times> string \<Rightarrow> string \<Rightarrow> string \<Rightarrow> int \<Rightarrow> string \<Rightarrow> 'f \<Rightarrow> int \<Rightarrow> 'f draw_fn" where
  "make_page_number_draw A now template position font_size color margin_pt number_offset page =
     (let shifted = \<lparr>og_number = og_number page + number_offset, og_total = og_total page + number_offset,
            og_width = og_width page, og_height = og_height page, og_filename = []\<rparr>;
          rendered = substitute_placeholders now template shifted;
          (vertical, horizontal) = position_parts position;
          y = (if vertical = ''top'' then fl_sub A (og_height page) margin_pt
               else fl_sub A margin_pt (fl_mul A (fl_of_int A font_size) (fl_lit A ''0.2'')))
      in Inr [SaveState, SetFont ''Helvetica'' font_size, SetFillColor color,
              aligned_text A page horizontal margin_pt y rendered, RestoreState])"

section \<open>Lemmas: templates\<close>

lemma py_replace_plain: "CHR ''{'' \<notin> set a \<Longrightarrow>
    py_replace (CHR ''{'' # b) r (a @ s) = a @ py_replace (CHR ''{'' # b) r s"
  by (induction a) auto

lemma py_replace_hit: "p \<noteq> [] \<Longrightarrow> py_replace p r (p @ s) = r @ py_replace p r s"
  using starts_with_append [of p s] by (cases p) simp_all

lemma py_replace_miss:
  assumes "CHR ''{'' \<notin> set c" and "\<not> starts_with (CHR ''{'' # b) (CHR ''{'' # c @ s)"
  shows "py_replace (CHR ''{'' # b) r (CHR ''{'' # c @ s) = CHR ''{'' # c @ py_replace (CHR ''{'' # b) r s"
  using assms py_replace_plain [OF assms(1)] by simp

datatype placeholder = PAGE | TOTAL | DATE | TIME | FILENAME

fun placeholder_text :: "placeholder \<Rightarrow> string" where
  "placeholder_text PAGE = ''{page}''"
| "placeholder_text TOTAL = ''{total}''"
| "placeholder_text DATE = ''{date}''"
| "placeholder_text TIME = ''{time}''"
| "placeholder_text FILENAME = ''{filename}''"

datatype piece = Literal string | Field placeholder

fun piece_text :: "piece \<Rightarrow> string" where
  "piece_text (Literal s) = s"
| "piece_text (Field p) = placeholder_text p"

fun piece_value :: "string \<times> string \<Rightarrow> 'f overlay_page \<Rightarrow> piece \<Rightarrow> string" where
  "piece_value now page (Literal s) = s"
| "piece_value now page (Field PAGE) = int_str (og_number page)"
| "piece_value now page (Field TOTAL) = int_str (og_total page)"
| "piece_value now page (Field DATE) = fst now"
| "piece_value now page (Field TIME) = snd now"
| "piece_value now page (Field FILENAME) = og_filename page"

definition plain :: "string \<Rightarrow> bool" where
  "plain s \<longleftrightarrow> CHR ''{'' \<notin> set s"

lemma placeholder_split: "\<exists>b. placeholder_text p = CHR ''{'' # b \<and> CHR ''{'' \<notin> set b"
  by (cases p) simp_all

lemma placeholder_miss: "p \<noteq> q \<Longrightarrow> \<not> starts_with (placeholder_text p) (placeholder_text q @ s)"
  by (cases p; cases q) simp_all

text \<open>A template in which the placeholders of a set are replaced, and one more replacement.\<close>

fun stage :: "(placeholder \<Rightarrow> string) \<Rightarrow> placeholder set \<Rightarrow> piece \<Rightarrow> string" where
  "stage val S (Literal s) = s"
| "stage val S (Field q) = (if q \<in> S then val q else placeholder_text q)"

lemma py_replace_stage:
  assumes "\<And>s. Literal s \<in> set ps \<Longrightarrow> plain s" and "\<And>q. q \<in> S \<Longrightarrow> plain (val q)" and "p \<notin> S"
  shows "py_replace (placeholder_text p) (val p) (concat (map (stage val S) ps))
    = concat (map (stage val (insert p S)) ps)"
  using assms(1)
proof (induction ps)
  case (Cons x ps)
  let ?p = "placeholder_text p"
  have IH: "py_replace ?p (val p) (concat (map (stage val S) ps)) = concat (map (stage val (insert p S)) ps)"
    using Cons by simp
  obtain b where b: "?p = CHR ''{'' # b" using placeholder_split by blast
  consider "plain (stage val S x)" "stage val (insert p S) x = stage val S x" | "x = Field p"
    | q where "x = Field q" "q \<noteq> p" "q \<notin> S"
  proof (cases x)
    case (Literal s)
    then show ?thesis using that(1) Cons.prems by simp
  next
    case (Field q)
    then show ?thesis using that assms(2) by (cases "q = p"; cases "q \<in> S") auto
  qed
  then show ?case
  proof cases
    case 1
    then show ?thesis using py_replace_plain [of "stage val S x" b] IH by (simp add: plain_def b)
  next
    case 2
    then show ?thesis using py_replace_hit [of ?p] IH assms(3) b by simp
  next
    case (3 q)
    obtain c where c: "placeholder_text q = CHR ''{'' # c" "CHR ''{'' \<notin> set c" using placeholder_split by blast
    have "\<not> starts_with (CHR ''{'' # b) (CHR ''{'' # c @ concat (map (stage val S) ps))"
      using placeholder_miss [OF 3(2) [symmetric], of "concat (map (stage val S) ps)"] by (simp add: b c)
    from py_replace_miss [OF c(2) this] show ?thesis using 3 IH by (simp add: b c)
  qed
qed simp

lemma int_str_plain: "plain (int_str n)"
  by (auto simp: plain_def int_str_def is_digit_def char_code_def dest!: nat_str_digits)

text \<open>
  A template is expanded as it reads. For a template made of text without an opening brace
  and of the five placeholders, in any order and number, the result has every placeholder
  replaced by its value and the text unchanged; a file name that itself contains a placeholder
  is not expanded again.
\<close>

theorem placeholders_expand:
  assumes "\<forall>s. Literal s \<in> set ps \<longrightarrow> plain s" and "plain (fst now)" and "plain (snd now)"
  shows "substitute_placeholders now (concat (map piece_text ps)) page = concat (map (piece_value now page) ps)"
proof -
  define val where "val = (\<lambda>p. piece_value now page (Field p))"
  have step: "py_replace (placeholder_text p) (val p) (concat (map (stage val S) ps))
      = concat (map (stage val (insert p S)) ps)" if "p \<notin> S" "FILENAME \<notin> S" for p S
  proof (rule py_replace_stage [OF _ _ that(1)])
    fix q assume "q \<in> S"
    then show "plain (val q)" using that(2) assms(2,3) by (cases q) (auto simp: val_def int_str_plain)
  qed (use assms(1) in blast)
  have piece: "piece_text x = stage val {} x" "stage val UNIV x = piece_value now page x" for x
    by (cases x; simp add: val_def)+
  have u: "insert FILENAME {TIME, DATE, TOTAL, PAGE} = UNIV"
    using placeholder.exhaust by auto
  have vals: "val PAGE = int_str (og_number page)" "val TOTAL = int_str (og_total page)" "val DATE = fst now"
    "val TIME = snd now" "val FILENAME = og_filename page"
    by (simp_all add: val_def)
  have "substitute_placeholders now (concat (map (stage val {}) ps)) page = concat (map (stage val UNIV) ps)"
    using step [of PAGE "{}"] step [of TOTAL "{PAGE}"] step [of DATE "{TOTAL, PAGE}"]
      step [of TIME "{DATE, TOTAL, PAGE}"] step [of FILENAME "{TIME, DATE, TOTAL, PAGE}"]
    unfolding u by (simp add: substitute_placeholders_def vals)
  then show ?thesis by (simp only: piece cong: map_cong)
qed

theorem placeholders_expand_witness:
  "substitute_placeholders (''2026-07-24'', ''09:30'') ''{filename}: {page}/{total}''
     (\<lparr>og_number = 2, og_total = 10, og_width = 0, og_height = 0, og_filename = ''{page}''\<rparr> :: nat overlay_page)
   = ''{page}: 2/10''"
proof -
  have n: "int_str 2 = ''2''" "int_str 10 = ''10''" by code_simp+
  show ?thesis
    using placeholders_expand [of "[Field FILENAME, Literal '': '', Field PAGE, Literal ''/'', Field TOTAL]"
        "(''2026-07-24'', ''09:30'')"
        "\<lparr>og_number = 2, og_total = 10, og_width = 0, og_height = 0, og_filename = ''{page}''\<rparr> :: nat overlay_page"]
    by (simp add: plain_def n)
qed

section \<open>The stamped document\<close>

lemma open_reader_state [simp]: "fst (open_reader lib source d) = d"
  by (simp add: open_reader_def)

lemma rmap_nth:
  "rmap f xs = Inr ys \<Longrightarrow> length ys = length xs \<and> (\<forall>i < length xs. f (xs ! i) = Inr (ys ! i))"
proof (induction xs arbitrary: ys)
  case (Cons x xs)
  then obtain y zs where "f x = Inr y" "rmap f xs = Inr zs" "ys = y # zs"
    by (auto simp: rbind_eq_Inr_iff)
  then show ?case using Cons.IH by (auto simp: nth_Cons split: nat.split)
qed simp

text \<open>What one stamped page is, read off the result.\<close>

definition upright_page :: "('page, 'f, 'ov) overlay_lib \<Rightarrow> 'page \<Rightarrow> 'page" where
  "upright_page lib page = (if ol_rotation lib page mod 360 = 0 then page else ol_upright lib page)"

definition stamped ::
  "'f arith \<Rightarrow> ('page, 'f, 'ov) overlay_lib \<Rightarrow> 'f draw_fn \<Rightarrow> bool \<Rightarrow> string \<Rightarrow> nat \<Rightarrow> nat \<Rightarrow> 'page \<Rightarrow> 'page \<Rightarrow> bool" where
  "stamped A lib draw below name n number page page' \<longleftrightarrow>
     (case ol_cropbox lib (upright_page lib page) of (left, bottom, width, height) \<Rightarrow>
        \<exists>ops ov. draw \<lparr>og_number = int number, og_total = int n, og_width = width, og_height = height,
            og_filename = name\<rparr> = Inr ops
          \<and> ol_render lib (width, height) (shift_ops A left bottom @ ops) = Inr ov
          \<and> page' = ol_merge lib (\<not> below) (ol_reanchor lib
               (left, bottom, fl_add A left width, fl_add A bottom height) ov) (upright_page lib page))"

lemma stamp_page_Inr:
  assumes "stamp_page A lib draw below name n number page = Inr page'"
  shows "stamped A lib draw below name n number page page'"
proof -
  obtain left bottom width height where
    c: "ol_cropbox lib (upright_page lib page) = (left, bottom, width, height)" by (metis prod.exhaust)
  have u: "(if ol_rotation lib page mod 360 \<noteq> 0 then ol_upright lib page else page) = upright_page lib page"
    by (simp add: upright_page_def)
  show ?thesis
    using assms unfolding stamp_page_def stamped_def Let_def u c prod.case by (auto simp: rbind_eq_Inr_iff)
qed

text \<open>
  C17: Stamping touches only what is selected. On success the destination is a PDF with as many
  pages as the source, in order: a page that is not selected is the page of the source, a
  selected one is that page, upright, merged with what was drawn for its own number, the total
  and the size of its crop box, shifted to the origin of the crop box and anchored there; no
  other file changes. When it fails, no file changes.
\<close>

theorem stamped_document:
  assumes "lib_roundtrip (pypdf.truncate lib)"
    and "overlay_pdf A lib source destination draw page_filter below name d = (d', r)"
  shows "case r of
      Inl e \<Rightarrow> d' = d
    | Inr n \<Rightarrow> (\<exists>pages pages'. snd (open_reader (pypdf.truncate lib) source d) = Inr pages
        \<and> readable (pypdf.truncate lib) d' destination pages'
        \<and> length pages = n \<and> length pages' = n \<and> (\<forall>q. q \<noteq> destination \<longrightarrow> d' q = d q)
        \<and> (\<forall>i < n. if selected_page page_filter (i + 1) n
             then stamped A lib draw below name n (i + 1) (pages ! i) (pages' ! i)
             else pages' ! i = pages ! i))"
proof (cases "snd (open_reader (pypdf.truncate lib) source d)")
  case (Inl e)
  then have "open_reader (pypdf.truncate lib) source d = (d, Inl e)" by (metis open_reader_state prod.collapse)
  then have "d' = d \<and> r = Inl e" using assms(2) by (simp add: overlay_pdf_def abind_def)
  then show ?thesis by simp
next
  case (Inr pages)
  then have o: "open_reader (pypdf.truncate lib) source d = (d, Inr pages)" by (metis open_reader_state prod.collapse)
  have ne: "pages \<noteq> []"
    using Inr by (auto simp: open_reader_def processing_error_def split: sum.splits if_splits)
  let ?f = "\<lambda>(index, page). if selected_page page_filter (index + 1) (length pages)
         then stamp_page A lib draw below name (length pages) (index + 1) page else Inr page"
  show ?thesis
  proof (cases "rmap ?f (enumerate 0 pages)")
    case (Inl e)
    then have "d' = d \<and> r = Inl e"
      using assms(2) o unfolding overlay_pdf_def by (simp add: abind_def aresult_def)
    then show ?thesis by simp
  next
    case (Inr pages')
    from rmap_nth [OF Inr] have len: "length pages' = length pages"
      and nth: "\<forall>i < length pages. ?f (i, pages ! i) = Inr (pages' ! i)"
      by (simp_all add: nth_enumerate_eq)
    then have "pages' \<noteq> []" using ne by auto
    note w = write_pdf_ok [OF assms(1) this, of destination d]
    have "d' = disk_write destination (fst (lib_write (pypdf.truncate lib) pages')) d \<and> r = Inr (length pages)"
      using assms(2) o Inr w(1) unfolding overlay_pdf_def by (simp add: abind_def aresult_def areturn_def)
    moreover have "\<forall>i < length pages. if selected_page page_filter (i + 1) (length pages)
        then stamped A lib draw below name (length pages) (i + 1) (pages ! i) (pages' ! i)
        else pages' ! i = pages ! i"
      using nth by (auto intro: stamp_page_Inr split: if_splits)
    ultimately show ?thesis
      using \<open>snd (open_reader _ _ _) = Inr pages\<close> w(2) len
      by (auto simp: disk_write_def split: if_splits intro!: exI [of _ pages'])
  qed
qed

text \<open>Pages are bytes, an overlay adds one to the page, numbers are integers.\<close>

definition int_arith :: "int arith" where
  "int_arith = \<lparr>fl_lit = (\<lambda>_. 0), fl_of_int = (\<lambda>n. n), fl_neg = uminus, fl_add = (+), fl_sub = (-), fl_mul = (*),
     fl_div = (div), fl_abs = abs, fl_sqrt = (\<lambda>x. x), fl_less = (<), fl_le = (\<le>), fl_angle = (\<lambda>_ _. 0),
     fl_parse = (\<lambda>_. None)\<rparr>"

definition byte_overlay :: "(8 word, int, 8 word) overlay_lib" where
  "byte_overlay = pypdf.extend byte_lib (overlay_lib.fields (\<lambda>_. 0) (\<lambda>p. p) (\<lambda>_. (0, 0, 600, 800))
     (\<lambda>_ ops. Inr (of_nat (length ops))) (\<lambda>_ ov. ov) (\<lambda>_ ov p. p + ov) (\<lambda>_ _ _. 0) (\<lambda>_. Inr (1, 1)))"

lemma byte_overlay_truncate [simp]: "pypdf.truncate byte_overlay = byte_lib"
  by (simp add: byte_overlay_def byte_lib_def pypdf.defs overlay_lib.defs)

lemma byte_overlay_simps [simp]:
  "ol_rotation byte_overlay = (\<lambda>_. 0)" "ol_cropbox byte_overlay = (\<lambda>_. (0, 0, 600, 800))"
  "ol_render byte_overlay = (\<lambda>_ ops. Inr (of_nat (length ops)))" "ol_reanchor byte_overlay = (\<lambda>_ ov. ov)"
  "ol_merge byte_overlay = (\<lambda>_ ov p. p + ov)"
  by (simp_all add: byte_overlay_def byte_lib_def pypdf.defs overlay_lib.defs)

lemma byte_open: "open_reader byte_lib [''a''] [[''a''] \<mapsto> [10, 20, 30]] = ([[''a''] \<mapsto> [10, 20, 30]], Inr [10, 20, 30])"
  by (simp add: open_reader_def byte_lib_def)

theorem stamped_document_witness:
  "readable byte_lib
     (fst (overlay_pdf int_arith byte_overlay [''a''] [''b''] (\<lambda>_. Inr [SaveState]) (Some (\<lambda>n _. n \<noteq> 1)) False []
       [[''a''] \<mapsto> [10, 20, 30]])) [''b''] [10, 21, 31]"
proof -
  let ?run = "overlay_pdf int_arith byte_overlay [''a''] [''b''] (\<lambda>_. Inr [SaveState]) (Some (\<lambda>n _. n \<noteq> 1)) False []
       [[''a''] \<mapsto> [10, 20, 30]]"
  have stamp: "stamp_page int_arith byte_overlay (\<lambda>_. Inr [SaveState]) False [] n k p = Inr (p + 1)" for n k p
    by (simp add: stamp_page_def shift_ops_def fl_nonzero_def int_arith_def)
  define flt :: "nat \<Rightarrow> nat \<Rightarrow> bool" where "flt = (\<lambda>n _. n \<noteq> 1)"
  obtain d' r where run: "?run = (d', r)" by fastforce
  have "snd ?run = Inr 3"
    by (simp add: overlay_pdf_def abind_def byte_open selected_page_def stamp aresult_def write_pdf_ok(1) [OF byte_lib_roundtrip]
        areturn_def)
  then have run3: "?run = (d', Inr 3)" using run by simp
  have "lib_roundtrip (pypdf.truncate byte_overlay)" using byte_lib_roundtrip by simp
  from stamped_document [OF this run3, unfolded sum.case byte_overlay_truncate byte_open snd_conv flt_def [symmetric]]
  obtain pages' where pages': "readable byte_lib d' [''b''] pages'" "length pages' = 3"
      and nth: "\<forall>i < 3. if selected_page (Some flt) (i + 1) 3
         then stamped int_arith byte_overlay (\<lambda>_. Inr [SaveState]) False [] 3 (i + 1) ([10, 20, 30] ! i) (pages' ! i)
         else pages' ! i = [10, 20, 30] ! i"
    by blast
  have one: "stamped int_arith byte_overlay (\<lambda>_. Inr [SaveState]) False [] n k p q \<longleftrightarrow> q = p + 1" for n k p q
    by (simp add: stamped_def upright_page_def shift_ops_def fl_nonzero_def int_arith_def)
  have "pages' ! 0 = 10" "pages' ! 1 = 21" "pages' ! 2 = 31"
    using nth [rule_format, of 0] nth [rule_format, of 1] nth [rule_format, of 2]
    by (simp_all add: selected_page_def one flt_def)
  then have "pages' = [10, 21, 31]"
    using pages'(2) by (intro nth_equalityI) (auto simp: less_Suc_eq numeral_3_eq_3 numeral_2_eq_2 nth_Cons split: nat.split)
  with pages'(1) show ?thesis unfolding run by simp
qed

text \<open>The engine counts displayed numbers from the page in the document: a cover that is skipped still counts.\<close>

lemma skipped_cover_counts:
  "make_page_number_draw A now ''{page}'' ''bottom-center'' 10 ''#333333'' margin 0
     \<lparr>og_number = 2, og_total = 3, og_width = w, og_height = h, og_filename = f\<rparr>
   = Inr [SaveState, SetFont ''Helvetica'' 10, SetFillColor ''#333333'',
       DrawCentredString (half A w) (fl_sub A margin (fl_mul A (fl_of_int A 10) (fl_lit A ''0.2''))) ''2'', RestoreState]"
proof -
  have "int_str 2 = ''2''" by code_simp
  then show ?thesis
    by (simp add: make_page_number_draw_def substitute_placeholders_def position_parts_def split_first_def
        aligned_text_def)
qed

end
