(* ===== verification/OverlayLayout.thy ===== *)
theory OverlayLayout
  imports PdfOverlay Complex_Main
begin

text \<open>
  Where the stamps of \<open>app/utils/pdf_overlay.py\<close> go, in exact arithmetic: the numbers are an
  Archimedean field and the operations are those of the field. Rounding is outside these
  statements; the definitions of theory \<open>PdfOverlay\<close> are for any arithmetic.
\<close>

definition exact :: "'f::linordered_field arith \<Rightarrow> bool" where
  "exact A \<longleftrightarrow> fl_of_int A = of_int \<and> fl_neg A = uminus \<and> fl_add A = (+) \<and> fl_sub A = (-)
     \<and> fl_mul A = (*) \<and> fl_div A = (/) \<and> fl_less A = (<) \<and> fl_le A = (\<le>)"

lemma exact_simps:
  assumes "exact A"
  shows "fl_of_int A = of_int" "fl_neg A = uminus" "fl_add A = (+)" "fl_sub A = (-)"
    "fl_mul A = (*)" "fl_div A = (/)" "fl_less A = (<)" "fl_le A = (\<le>)"
    "half A x = x / 2" "fl_max A x y = max x y" "fl_min A x y = min x y"
  using assms by (auto simp: exact_def half_def fl_max_def fl_min_def)

section \<open>Anchors\<close>

text \<open>
  C18: A block that fits between the margins stays between them: for each of the nine positions
  (and for any other text as position), without offsets, the block around its anchor point keeps
  the margin to all four sides of the visible page.
\<close>

theorem anchored_block_inside:
  fixes A :: "'f::linordered_field arith"
  assumes "exact A"
    and "bw + 2 * margin \<le> page_width" and "bh + 2 * margin \<le> page_height"
    and "anchor_point A position page_width page_height bw bh margin 0 0 = (x, y)"
  shows "margin \<le> x - bw / 2 \<and> x + bw / 2 \<le> page_width - margin
    \<and> margin \<le> y - bh / 2 \<and> y + bh / 2 \<le> page_height - margin"
proof -
  obtain v h where vh: "(if position = ''center'' then (''center'', ''center'') else position_parts position) = (v, h)"
    by fastforce
  have x: "x = (if h = ''left'' then margin + bw / 2
      else if h = ''right'' then page_width - margin - bw / 2 else page_width / 2)"
    and y: "y = (if v = ''top'' then page_height - margin - bh / 2
      else if v = ''bottom'' then margin + bh / 2 else page_height / 2)"
    using assms(4) unfolding anchor_point_def Let_def vh by (simp_all add: exact_simps [OF assms(1)] split: if_splits)
  show ?thesis unfolding x y using assms(2,3) by (auto simp: field_simps)
qed

section \<open>Tiling\<close>

definition steps :: "'f::floor_ceiling \<Rightarrow> 'f \<Rightarrow> 'f \<Rightarrow> nat" where
  "steps reach step x = (if x \<le> reach then nat \<lfloor>(reach - x) / step\<rfloor> + 1 else 0)"

lemma steps_Suc:
  assumes "0 < step" and "x \<le> reach"
  shows "steps reach step x = Suc (steps reach step (x + step))"
proof -
  have q: "(reach - (x + step)) / step = (reach - x) / step - 1" using assms(1) by (simp add: field_simps)
  have nn: "0 \<le> (reach - x) / step" using assms by simp
  show ?thesis
  proof (cases "x + step \<le> reach")
    case True
    then have "1 \<le> (reach - x) / step" using assms(1) by (simp add: field_simps)
    define z where "z = \<lfloor>(reach - x) / step\<rfloor>"
    have "1 \<le> z" using \<open>1 \<le> (reach - x) / step\<close> unfolding z_def by simp
    moreover have "steps reach step x = nat z + 1" "steps reach step (x + step) = nat (z - 1) + 1"
      using True assms(2) by (simp_all add: steps_def q z_def)
    ultimately show ?thesis by simp
  next
    case False
    then have "(reach - x) / step < 1" using assms(1) by (simp add: field_simps)
    then have "\<lfloor>(reach - x) / step\<rfloor> = 0" using nn by (simp add: floor_eq_iff)
    then show ?thesis using False assms(2) by (simp add: steps_def)
  qed
qed

lemma row_loop_exact:
  assumes "exact A" and "0 < step" and "steps reach step x < n"
  shows "row_loop A n reach step x = Inr (map (\<lambda>k. x + of_nat k * step) [0..<steps reach step x])"
  using assms(3)
proof (induction n arbitrary: x)
  case (Suc n)
  note e = exact_simps [OF assms(1)]
  show ?case
  proof (cases "x \<le> reach")
    case True
    note s = steps_Suc [OF assms(2) True]
    have "map (\<lambda>k. x + of_nat k * step) [0..<Suc m] = x # map (\<lambda>k. x + step + of_nat k * step) [0..<m]" for m
      by (rule nth_equalityI) (auto simp: nth_Cons algebra_simps simp del: upt_Suc split: nat.split)
    then show ?thesis using True Suc s by (simp add: e del: upt_Suc)
  next
    case False
    then show ?thesis by (simp add: e steps_def)
  qed
qed simp

text \<open>The points of a complete grid: row \<open>r\<close> at \<open>y0 + r * step_y\<close>, every second row staggered.\<close>

definition grid_point :: "'f::floor_ceiling \<Rightarrow> 'f \<Rightarrow> 'f \<Rightarrow> nat \<Rightarrow> nat \<Rightarrow> 'f \<times> 'f" where
  "grid_point reach step_x step_y r k =
     (- reach + of_nat (r mod 2) * step_x / 2 + of_nat k * step_x, - reach + of_nat r * step_y)"

definition grid_row :: "'f::floor_ceiling \<Rightarrow> 'f \<Rightarrow> 'f \<Rightarrow> nat \<Rightarrow> ('f \<times> 'f) list" where
  "grid_row reach step_x step_y r =
     map (grid_point reach step_x step_y r) [0..<steps reach step_x (- reach + of_nat (r mod 2) * step_x / 2)]"

definition grid :: "'f::floor_ceiling \<Rightarrow> 'f \<Rightarrow> 'f \<Rightarrow> ('f \<times> 'f) list" where
  "grid reach step_x step_y = concat (map (grid_row reach step_x step_y) [0..<steps reach step_y (- reach)])"

lemma steps_bound:
  assumes "0 < step" and "0 \<le> reach - x" and "reach - x \<le> w" and "w / step + 2 \<le> of_nat limit"
  shows "steps reach step x < limit"
proof -
  have "of_int \<lfloor>(reach - x) / step\<rfloor> \<le> (reach - x) / step" by simp
  also have "\<dots> \<le> w / step" using assms by (simp add: divide_right_mono)
  finally have "of_int \<lfloor>(reach - x) / step\<rfloor> + 2 \<le> (of_nat limit :: 'a)" using assms(4) by simp
  then have "\<lfloor>(reach - x) / step\<rfloor> + 2 \<le> int limit"
    by (metis of_int_add of_int_le_iff of_int_numeral of_int_of_nat_eq)
  moreover define z where "z = \<lfloor>(reach - x) / step\<rfloor>"
  ultimately have "z + 2 \<le> int limit" by simp
  moreover have "0 \<le> z" using assms(1,2) by (simp add: z_def)
  moreover have "steps reach step x = nat z + 1" using assms(2) by (simp add: steps_def z_def)
  ultimately show ?thesis by linarith
qed

lemma row_exact:
  assumes "exact A" and "0 < step_x" and "0 \<le> reach" and "2 * reach / step_x + 2 \<le> of_nat limit"
  shows "row_loop A limit reach step_x (- reach + stagger A step_x r)
    = Inr (map (\<lambda>k. - reach + of_nat (r mod 2) * step_x / 2 + of_nat k * step_x)
        [0..<steps reach step_x (- reach + of_nat (r mod 2) * step_x / 2)])"
proof -
  have x: "- reach + stagger A step_x r = - reach + of_nat (r mod 2) * step_x / 2"
    using assms(1) by (simp add: exact_simps stagger_def)
  let ?x = "- reach + of_nat (r mod 2) * step_x / 2"
  have "steps reach step_x ?x < limit"
  proof (cases "?x \<le> reach")
    case True
    show ?thesis
      using True assms by (intro steps_bound [of step_x reach ?x "2 * reach"]) auto
  next
    case False
    have "0 \<le> 2 * reach / step_x" using assms(2,3) by simp
    then have "0 < (of_nat limit :: 'a)" using assms(4) by linarith
    then show ?thesis using False by (simp add: steps_def)
  qed
  from row_loop_exact [OF assms(1,2) this] show ?thesis unfolding x .
qed

lemma grid_loop_exact:
  assumes "exact A" and "0 < step_x" and "0 < step_y" and "0 \<le> reach" and "2 * reach / step_x + 2 \<le> of_nat limit"
    and "steps reach step_y (- reach + of_nat row * step_y) < n"
  shows "grid_loop A limit reach step_x step_y n (- reach + of_nat row * step_y) row
    = Inr (concat (map (grid_row reach step_x step_y) [row..<row + steps reach step_y (- reach + of_nat row * step_y)]))"
  using assms(6)
proof (induction n arbitrary: row)
  case (Suc n)
  note e = exact_simps [OF assms(1)]
  let ?y = "- reach + of_nat row * step_y"
  show ?case
  proof (cases "?y \<le> reach")
    case True
    have next_y: "?y + step_y = - reach + of_nat (row + 1) * step_y" by (simp add: algebra_simps)
    note s = steps_Suc [OF assms(3) True, unfolded next_y]
    have ih: "grid_loop A limit reach step_x step_y n (?y + step_y) (row + 1)
        = Inr (concat (map (grid_row reach step_x step_y) [row + 1..<row + 1 + steps reach step_y (?y + step_y)]))"
      unfolding next_y using Suc s by (intro Suc.IH) simp
    have row: "map (\<lambda>x. (x, ?y)) (map (\<lambda>k. - reach + of_nat (row mod 2) * step_x / 2 + of_nat k * step_x)
        [0..<steps reach step_x (- reach + of_nat (row mod 2) * step_x / 2)]) = grid_row reach step_x step_y row"
      by (simp add: grid_row_def grid_point_def)
    have upt: "[row..<row + Suc m] = row # [row + 1..<row + 1 + m]" for m by (simp add: upt_conv_Cons)
    have "grid_loop A limit reach step_x step_y (Suc n) ?y row
        = Inr (grid_row reach step_x step_y row
            @ concat (map (grid_row reach step_x step_y) [row + 1..<row + 1 + steps reach step_y (?y + step_y)]))"
      using True ih row
      by (simp only: grid_loop.simps row_exact [OF assms(1,2,4,5)] e rbind_Inr if_True)
    then show ?thesis unfolding s upt next_y by simp
  next
    case False
    then show ?thesis by (simp add: e steps_def)
  qed
qed simp

lemma floor_cell:
  fixes step :: "'f::floor_ceiling"
  assumes "0 < step" and "x \<le> u" and "u \<le> reach"
  obtains k where "k < steps reach step x" "x + of_nat k * step \<le> u" "u < x + of_nat k * step + step"
proof -
  define z where "z = \<lfloor>(u - x) / step\<rfloor>"
  have z0: "0 \<le> z" using assms by (simp add: z_def)
  have "of_int z \<le> (u - x) / step" "(u - x) / step < of_int z + 1"
    using floor_correct [of "(u - x) / step"] by (simp_all add: z_def)
  then have "of_int z * step \<le> u - x" "u - x < (of_int z + 1) * step"
    using assms(1) by (simp_all add: pos_le_divide_eq pos_divide_less_eq)
  moreover have "of_nat (nat z) = (of_int z :: 'f)" using z0 by simp
  ultimately have "x + of_nat (nat z) * step \<le> u" "u < x + of_nat (nat z) * step + step"
    by (simp_all add: algebra_simps)
  moreover have "z \<le> \<lfloor>(reach - x) / step\<rfloor>"
    unfolding z_def using assms by (intro floor_mono divide_right_mono) auto
  then have "nat z < steps reach step x" using assms z0 by (simp add: steps_def)
  ultimately show ?thesis using that by blast
qed

lemma steps_within:
  assumes "0 < step" and "k < steps reach step x"
  shows "x + of_nat k * step \<le> reach"
proof -
  have le: "x \<le> reach" and lt: "k < nat \<lfloor>(reach - x) / step\<rfloor> + 1"
    using assms(2) by (simp_all add: steps_def split: if_splits)
  define z where "z = \<lfloor>(reach - x) / step\<rfloor>"
  have "0 \<le> z" using le assms(1) by (simp add: z_def)
  moreover have "k < nat z + 1" using lt by (simp add: z_def)
  ultimately have k: "int k \<le> \<lfloor>(reach - x) / step\<rfloor>" unfolding z_def [symmetric] by linarith
  have "of_nat k = (of_int (int k) :: 'a)" by simp
  also have "\<dots> \<le> (reach - x) / step" using k by (simp only: le_floor_iff)
  finally show ?thesis using assms(1) by (simp add: pos_le_divide_eq algebra_simps)
qed


section \<open>Witnesses\<close>

definition rat_exact :: "rat arith" where
  "rat_exact = \<lparr>fl_lit = (\<lambda>_. 0), fl_of_int = of_int, fl_neg = uminus, fl_add = (+), fl_sub = (-), fl_mul = (*),
     fl_div = (/), fl_abs = abs, fl_sqrt = (\<lambda>x. x), fl_less = (<), fl_le = (\<le>), fl_angle = (\<lambda>_ _. 0),
     fl_parse = (\<lambda>_. None)\<rparr>"

lemma rat_exact: "exact rat_exact"
  by (simp add: exact_def rat_exact_def)

theorem anchored_block_inside_witness:
  "(\<lambda>(x, y). x + 50 \<le> 561 \<and> 34 \<le> y - 10) (anchor_point rat_exact ''top-right'' 595 842 100 20 34 0 0)"
proof -
  obtain x y where xy: "anchor_point rat_exact ''top-right'' 595 842 100 20 34 0 0 = (x, y)" by fastforce
  from anchored_block_inside [OF rat_exact _ _ xy] show ?thesis unfolding xy by simp
qed


end
