(* ===== verification/Poppler.thy ===== *)
theory Poppler
  imports Command Storage Filenames
begin

text \<open>
  Rendering pages to images: \<open>app/utils/poppler.py\<close>.

  The world of the external programs is the disk. Parameters (\<open>render_host\<close>): the program
  \<open>pdftoppm\<close> and the entries of a directory in the order the operating system lists them. The chunks of a large document are
  rendered in order; the code renders them in threads, each into a directory of its own. The stem
  of the input is taken literally in the pattern of \<open>glob\<close>: stored names are UUIDs.
\<close>

section \<open>One call of pdftoppm\<close>

datatype image_format = JPEG | PNG

fun format_extension :: "image_format \<Rightarrow> string" where
  "format_extension JPEG = ''jpg''"
| "format_extension PNG = ''png''"

record render_host =
  rh_prog :: "disk subprocess"
  rh_ls :: "path \<Rightarrow> disk \<Rightarrow> string list"

record render_request =
  rr_input :: path
  rr_format :: image_format
  rr_dpi :: int
  rr_quality :: int
  rr_grayscale :: bool
  rr_display :: "string option"

definition image_prefix :: "render_request \<Rightarrow> string" where
  "image_prefix rq = name_stem (last_part (rr_input rq)) @ ''-page''"

definition render_command ::
  "string list \<Rightarrow> render_request \<Rightarrow> path \<Rightarrow> int option \<Rightarrow> int option \<Rightarrow> string list" where
  "render_command argv rq output_dir first_page last_page =
     argv @ [if rr_format rq = JPEG then ''-jpeg'' else ''-png'', ''-r'', int_str (rr_dpi rq)]
       @ (if rr_format rq = JPEG then [''-jpegopt'', ''quality='' @ int_str (rr_quality rq)] else [])
       @ (if rr_grayscale rq then [''-gray''] else [])
       @ (case first_page of None \<Rightarrow> [] | Some n \<Rightarrow> [''-f'', int_str n])
       @ (case last_page of None \<Rightarrow> [] | Some n \<Rightarrow> [''-l'', int_str n])
       @ [path_text (rr_input rq), path_text (output_dir @ [image_prefix rq])]"

text \<open>\<open>glob(f"{prefix}-*.{extension}")\<close> and the number at the end of the stem.\<close>

definition ends_with :: "string \<Rightarrow> string \<Rightarrow> bool" where
  "ends_with s suffix_text \<longleftrightarrow> starts_with (rev suffix_text) (rev s)"

definition globbed :: "string \<Rightarrow> string \<Rightarrow> string \<Rightarrow> bool" where
  "globbed stem extension name \<longleftrightarrow>
     starts_with (stem @ ''-'') name \<and> ends_with name (dot # extension)
     \<and> length stem + length extension + 2 \<le> length name"

definition page_number :: "string \<Rightarrow> int option" where
  "page_number name =
     (case split_last CHR ''-'' (name_stem name) of
        None \<Rightarrow> None
      | Some (_, digits) \<Rightarrow> if digits \<noteq> [] \<and> list_all is_digit digits then py_int digits else None)"

definition numbered :: "path \<Rightarrow> string list \<Rightarrow> (int \<times> path) list" where
  "numbered directory names =
     List.map_filter (\<lambda>n. map_option (\<lambda>k. (k, directory @ [n])) (page_number n)) names"

definition no_pages_error :: "render_request \<Rightarrow> py_exc" where
  "no_pages_error rq = ProcessingError (''Rendering produced no pages for '' @ quoted (py_or
      (case rr_display rq of None \<Rightarrow> [] | Some n \<Rightarrow> n) (last_part (rr_input rq)))
      @ ''. The file may be corrupted or empty.'') PROCESSING_FAILED"

definition pdf_to_images ::
  "render_host \<Rightarrow> ('z) tool_settings_scheme \<Rightarrow> render_request \<Rightarrow> path \<Rightarrow> int option \<Rightarrow> int option
     \<Rightarrow> (disk, (int \<times> path) list) action" where
  "pdf_to_images h cfg rq output_dir first_page last_page =
     abind (aresult (split_launcher (tl_pdftoppm_bin cfg))) (\<lambda>argv.
     abind (run_tool cfg (rh_prog h) ''PDF renderer'' (render_command argv rq output_dir first_page last_page) None)
       (\<lambda>_ d.
       (let pages = sort_key fst (numbered output_dir
              (filter (globbed (image_prefix rq) (format_extension (rr_format rq))) (rh_ls h output_dir d)))
        in (d, if pages = [] then Inl (no_pages_error rq) else Inr pages))))"

section \<open>Large documents in chunks\<close>

text \<open>\<open>range(start, stop, step)\<close> for a positive step.\<close>

definition py_range :: "int \<Rightarrow> int \<Rightarrow> int \<Rightarrow> int list" where
  "py_range start stop step = map (\<lambda>k. start + int k * step) [0..<nat ((stop - start + step - 1) div step)]"

definition ceil_div :: "int \<Rightarrow> int \<Rightarrow> int" where
  "ceil_div a b = - ((- a) div b)"

definition chunk_ranges :: "int \<Rightarrow> int \<Rightarrow> int \<Rightarrow> (int \<times> int) list" where
  "chunk_ranges start stop workers =
     (let chunk_size = ceil_div (stop - start + 1) workers in
      map (\<lambda>chunk_start. (chunk_start, min (chunk_start + chunk_size - 1) stop)) (py_range start (stop + 1) chunk_size))"

definition chunk_dir :: "path \<Rightarrow> nat \<Rightarrow> path" where
  "chunk_dir output_dir index = output_dir @ [''chunk-'' @ nat_str index]"

definition or_page :: "int option \<Rightarrow> int \<Rightarrow> int" where
  "or_page n default_page = (case n of None \<Rightarrow> default_page | Some k \<Rightarrow> if k = 0 then default_page else k)"

definition pdf_to_images_auto ::
  "render_host \<Rightarrow> ('z) tool_settings_scheme \<Rightarrow> render_request \<Rightarrow> path \<Rightarrow> int \<Rightarrow> int option \<Rightarrow> int option
     \<Rightarrow> (disk, (int \<times> path) list) action" where
  "pdf_to_images_auto h cfg rq output_dir total_pages first_page last_page =
     (let start = or_page first_page 1;
          stop = min (or_page last_page total_pages) total_pages
      in if max 0 (stop - start + 1) \<le> s_render_threshold_pages cfg
         then pdf_to_images h cfg rq output_dir (Some start) (Some stop)
         else abind (act_each (\<lambda>(index, a, b). pdf_to_images h cfg rq (chunk_dir output_dir index) (Some a) (Some b))
               (enumerate 0 (chunk_ranges start stop (max 1 (s_render_workers cfg)))))
             (\<lambda>results. areturn (sort_key fst (concat results))))"

section \<open>What a correct renderer does\<close>

text \<open>
  The documented behaviour of \<open>pdftoppm\<close> with \<open>-f a -l b\<close> on a document of \<open>n\<close> pages: it writes
  one image per page, named with the page's number, zero-padded in one way for the whole
  document (\<open>pad\<close>), and exits with 0.
\<close>

definition image_name :: "(int \<Rightarrow> string) \<Rightarrow> render_request \<Rightarrow> int \<Rightarrow> string" where
  "image_name pad rq k =
     image_prefix rq @ CHR ''-'' # pad k @ dot # format_extension (rr_format rq)"

definition with_images ::
  "(int \<Rightarrow> string) \<Rightarrow> (int \<Rightarrow> bytes) \<Rightarrow> render_request \<Rightarrow> path \<Rightarrow> int list \<Rightarrow> disk \<Rightarrow> disk" where
  "with_images pad img rq directory = fold (\<lambda>k. disk_write (directory @ [image_name pad rq k]) (img k))"

definition padding :: "(int \<Rightarrow> string) \<Rightarrow> int \<Rightarrow> bool" where
  "padding pad n \<longleftrightarrow> (\<forall>k \<in> {1..n}. pad k \<noteq> [] \<and> list_all is_digit (pad k) \<and> py_int (pad k) = Some k)"

definition render_dirs :: "path \<Rightarrow> path set" where
  "render_dirs output_dir = insert output_dir (range (chunk_dir output_dir))"

definition renders ::
  "render_host \<Rightarrow> ('z) tool_settings_scheme \<Rightarrow> string list \<Rightarrow> render_request \<Rightarrow> (int \<Rightarrow> string)
     \<Rightarrow> (int \<Rightarrow> bytes) \<Rightarrow> int \<Rightarrow> path set \<Rightarrow> bool" where
  "renders h cfg argv rq pad img n dirs \<longleftrightarrow>
     (\<forall>directory \<in> dirs. \<forall>a b d. 1 \<le> a \<and> a \<le> b \<and> b \<le> n \<longrightarrow>
        rh_prog h \<lparr>iv_command = render_command argv rq directory (Some a) (Some b), iv_cwd = None,
            iv_timeout = command_timeout cfg None, iv_env = None\<rparr> d
        = (with_images pad img rq directory [a..b] d, Exited 0 [] []))"

text \<open>
  What a directory listing gives: no name twice, only names that exist, and every image of the
  document that exists.
\<close>

definition lists_images ::
  "render_host \<Rightarrow> render_request \<Rightarrow> (int \<Rightarrow> string) \<Rightarrow> int \<Rightarrow> path set \<Rightarrow> bool" where
  "lists_images h rq pad n dirs \<longleftrightarrow>
     (\<forall>directory \<in> dirs. \<forall>d. distinct (rh_ls h directory d)
        \<and> (\<forall>name \<in> set (rh_ls h directory d). d (directory @ [name]) \<noteq> None)
        \<and> (\<forall>k \<in> {1..n}. d (directory @ [image_name pad rq k]) \<noteq> None
              \<longrightarrow> image_name pad rq k \<in> set (rh_ls h directory d)))"

definition no_images :: "render_request \<Rightarrow> path set \<Rightarrow> disk \<Rightarrow> bool" where
  "no_images rq dirs d \<longleftrightarrow>
     (\<forall>directory \<in> dirs. \<forall>name. globbed (image_prefix rq) (format_extension (rr_format rq)) name
        \<longrightarrow> d (directory @ [name]) = None)"

section \<open>Lemmas\<close>

subsection \<open>Names\<close>

lemma digit_not_mem: "list_all is_digit s \<Longrightarrow> \<not> is_digit c \<Longrightarrow> c \<notin> set s"
  by (auto simp: list_all_iff)

lemma extension_plain [simp]: "dot \<notin> set (format_extension f)" "format_extension f \<noteq> []"
  by (cases f; simp)+

lemma page_number_image:
  assumes "padding pad n" "k \<in> {1..n}"
  shows "page_number (image_name pad rq k) = Some k"
proof -
  have p: "pad k \<noteq> []" "list_all is_digit (pad k)" "py_int (pad k) = Some k"
    using assms by (auto simp: padding_def)
  have m: "CHR ''-'' \<notin> set (pad k)"
    by (rule digit_not_mem [OF p(2)]) (simp add: is_digit_def char_code_def)
  have "name_stem (image_name pad rq k) = image_prefix rq @ CHR ''-'' # pad k"
    using split_last_append [of dot "format_extension (rr_format rq)" "image_prefix rq @ CHR ''-'' # pad k"]
    by (simp add: name_stem_def image_name_def)
  with m p show ?thesis by (simp add: page_number_def split_last_append)
qed

lemma globbed_image: "globbed (image_prefix rq) (format_extension (rr_format rq)) (image_name pad rq k)"
proof -
  let ?e = "dot # format_extension (rr_format rq)"
  have "starts_with (rev ?e) (rev ?e @ s)" for s by (rule starts_with_append)
  from this [of "rev (pad k) @ CHR ''-'' # rev (image_prefix rq)"]
  have "ends_with (image_name pad rq k) ?e" by (simp add: ends_with_def image_name_def)
  moreover have "starts_with (image_prefix rq @ ''-'') (image_name pad rq k)"
    using starts_with_append [of "image_prefix rq @ ''-''" "pad k @ ?e"] by (simp add: image_name_def)
  moreover have "length (image_prefix rq) + length (format_extension (rr_format rq)) + 2
      \<le> length (image_name pad rq k)"
    by (simp add: image_name_def)
  ultimately show ?thesis by (simp add: globbed_def)
qed

subsection \<open>One call\<close>

lemma image_name_inj:
  assumes "padding pad n" "j \<in> {1..n}" "k \<in> {1..n}" "image_name pad rq j = image_name pad rq k"
  shows "j = k"
proof -
  have "Some j = page_number (image_name pad rq j)"
    by (rule page_number_image [OF assms(1,2), symmetric])
  also have "\<dots> = page_number (image_name pad rq k)" by (simp only: assms(4))
  also have "\<dots> = Some k" by (rule page_number_image [OF assms(1,3)])
  finally show ?thesis by simp
qed

lemma with_images_Cons:
  "with_images pad img rq directory (k # ks) d =
    with_images pad img rq directory ks (disk_write (directory @ [image_name pad rq k]) (img k) d)"
  by (simp add: with_images_def)

lemma with_images_other:
  "(\<And>k. k \<in> set ks \<Longrightarrow> p \<noteq> directory @ [image_name pad rq k]) \<Longrightarrow>
    with_images pad img rq directory ks d p = d p"
proof (induction ks arbitrary: d)
  case Nil
  then show ?case by (simp add: with_images_def)
next
  case (Cons k ks)
  then have "with_images pad img rq directory (k # ks) d p
      = disk_write (directory @ [image_name pad rq k]) (img k) d p"
    by (simp add: with_images_Cons)
  with Cons.prems [of k] show ?case by (simp add: disk_write_def)
qed

lemma with_images_written:
  assumes "padding pad n"
  shows "set ks \<subseteq> {1..n} \<Longrightarrow> k \<in> set ks \<Longrightarrow>
    with_images pad img rq directory ks d (directory @ [image_name pad rq k]) = Some (img k)"
proof (induction ks arbitrary: d)
  case Nil
  then show ?case by simp
next
  case (Cons j ks)
  let ?p = "directory @ [image_name pad rq k]"
  show ?case
  proof (cases "k \<in> set ks")
    case True
    with Cons show ?thesis by (simp add: with_images_Cons)
  next
    case False
    with Cons.prems have "j = k" by simp
    have "?p \<noteq> directory @ [image_name pad rq i]" if "i \<in> set ks" for i
      using image_name_inj [OF assms, of k i rq] that False Cons.prems by auto
    then have "with_images pad img rq directory (j # ks) d ?p
        = disk_write (directory @ [image_name pad rq j]) (img j) d ?p"
      unfolding with_images_Cons by (rule with_images_other)
    then show ?thesis by (simp add: disk_write_def \<open>j = k\<close>)
  qed
qed

lemma no_images_mono: "no_images rq dirs d \<Longrightarrow> ds \<subseteq> dirs \<Longrightarrow> no_images rq ds d"
  by (auto simp: no_images_def)

definition page_images :: "(int \<Rightarrow> string) \<Rightarrow> render_request \<Rightarrow> path \<Rightarrow> int list \<Rightarrow> (int \<times> path) list" where
  "page_images pad rq directory ks = map (\<lambda>k. (k, directory @ [image_name pad rq k])) ks"

lemma listed_images:
  assumes "padding pad n" and ls: "lists_images h rq pad n {directory}"
    and "set ks \<subseteq> {1..n}" and none: "no_images rq {directory} d"
  shows "set (filter (globbed (image_prefix rq) (format_extension (rr_format rq)))
      (rh_ls h directory (with_images pad img rq directory ks d))) = image_name pad rq ` set ks"
proof -
  let ?d = "with_images pad img rq directory ks d" and ?g = "globbed (image_prefix rq) (format_extension (rr_format rq))"
  have "name \<in> image_name pad rq ` set ks" if "name \<in> set (rh_ls h directory ?d)" "?g name" for name
  proof (rule ccontr)
    assume "name \<notin> image_name pad rq ` set ks"
    then have "?d (directory @ [name]) = d (directory @ [name])" by (intro with_images_other) auto
    moreover have "d (directory @ [name]) = None" using none that(2) by (simp add: no_images_def)
    moreover have "?d (directory @ [name]) \<noteq> None" using ls that(1) by (simp add: lists_images_def)
    ultimately show False by simp
  qed
  moreover have "image_name pad rq k \<in> set (rh_ls h directory ?d)" if "k \<in> set ks" for k
  proof -
    have "?d (directory @ [image_name pad rq k]) \<noteq> None"
      using with_images_written [OF assms(1,3) that] by simp
    moreover have "k \<in> {1..n}" using assms(3) that by blast
    ultimately show ?thesis using ls unfolding lists_images_def by blast
  qed
  ultimately show ?thesis using globbed_image [of rq pad] by auto
qed

lemma numbered_images:
  assumes "padding pad n" "set ks \<subseteq> {1..n}" and names: "set names = image_name pad rq ` set ks"
    and "distinct names" "sorted ks" "distinct ks"
  shows "sort_key fst (numbered directory names) = page_images pad rq directory ks"
proof (rule map_sorted_distinct_set_unique [where f = fst])
  let ?f = "\<lambda>name. (the (page_number name), directory @ [name])"
  have pn: "page_number (image_name pad rq k) = Some k" if "k \<in> set ks" for k
    by (rule page_number_image [OF assms(1)]) (use assms(2) that in blast)
  have some: "page_number name = Some (the (page_number name))" if "name \<in> set names" for name
    using that names pn by auto
  have num: "numbered directory names = map ?f names"
    unfolding numbered_def using some
  proof (induction names)
    case (Cons name names)
    from Cons.prems [of name] obtain k where "page_number name = Some k" by auto
    with Cons show ?case by (simp add: map_filter_simps)
  qed (simp add: map_filter_simps)
  show s: "set (sort_key fst (numbered directory names)) = set (page_images pad rq directory ks)"
    unfolding num page_images_def using names pn by (auto simp: image_iff)
  have "distinct (map (\<lambda>name. the (page_number name)) names)"
    unfolding distinct_map using assms(4) names pn by (auto simp: inj_on_def)
  then have "distinct (map fst (numbered directory names))" by (simp add: num comp_def)
  then show "distinct (map fst (sort_key fst (numbered directory names)))"
    by (simp add: distinct_map)
  show "sorted (map fst (sort_key fst (numbered directory names)))" by simp
  show "sorted (map fst (page_images pad rq directory ks))" "distinct (map fst (page_images pad rq directory ks))"
    using assms(5,6) by (simp_all add: page_images_def comp_def)
  show "inj_on fst (set (sort_key fst (numbered directory names)) \<union> set (page_images pad rq directory ks))"
    unfolding s by (auto simp: inj_on_def page_images_def)
qed

lemma pdf_to_images_renders:
  assumes argv: "split_launcher (tl_pdftoppm_bin cfg) = Inr argv" and pad: "padding pad n"
    and run: "renders h cfg argv rq pad img n {directory}"
    and ls: "lists_images h rq pad n {directory}"
    and ab: "1 \<le> a" "a \<le> b" "b \<le> n" and none: "no_images rq {directory} d"
  shows "pdf_to_images h cfg rq directory (Some a) (Some b) d
    = (with_images pad img rq directory [a..b] d, Inr (page_images pad rq directory [a..b]))"
proof -
  let ?d = "with_images pad img rq directory [a..b] d"
  let ?names = "filter (globbed (image_prefix rq) (format_extension (rr_format rq))) (rh_ls h directory ?d)"
  have sub: "set [a..b] \<subseteq> {1..n}" using ab by auto
  have ne: "render_command argv rq directory (Some a) (Some b) \<noteq> []" by (simp add: render_command_def)
  have "rh_prog h \<lparr>iv_command = render_command argv rq directory (Some a) (Some b), iv_cwd = None,
      iv_timeout = command_timeout cfg None, iv_env = None\<rparr> d = (?d, Exited 0 [] [])"
    using run ab by (simp add: renders_def)
  from run_tool_command_cases [where prog = "rh_prog h" and cfg = cfg, OF ne this, of "''PDF renderer''" "[0]"]
  obtain r where r: "run_tool cfg (rh_prog h) ''PDF renderer'' (render_command argv rq directory (Some a) (Some b)) None d
      = (?d, Inr r)" by auto
  have "distinct ?names" using ls by (simp add: lists_images_def)
  then have pages: "sort_key fst (numbered directory ?names) = page_images pad rq directory [a..b]"
    by (intro numbered_images [OF pad sub] listed_images [OF pad ls sub none]) simp_all
  moreover have "page_images pad rq directory [a..b] \<noteq> []" using ab by (simp add: page_images_def)
  ultimately show ?thesis
    by (simp add: pdf_to_images_def argv abind_def r Let_def)
qed

subsection \<open>Chunks\<close>

lemma chunk_dir_inj: "chunk_dir out i = chunk_dir out j \<longleftrightarrow> i = j"
  by (simp add: chunk_dir_def nat_str_inj)

lemma concat_chunks:
  assumes "0 < s" "\<And>k. k < m \<Longrightarrow> start + int k * s \<le> stop"
  shows "concat (map (\<lambda>k. [start + int k * s .. min (start + int k * s + s - 1) stop]) [0..<m])
    = [start .. min (start + int m * s - 1) stop]"
  using assms(2)
proof (induction m)
  case 0
  then show ?case by simp
next
  case (Suc m)
  let ?x = "start + int m * s"
  have x: "?x \<le> stop" using Suc.prems by simp
  have m: "0 \<le> int m * s" using assms(1) by simp
  have "[start .. min (?x - 1) stop] @ [?x .. min (?x + s - 1) stop] = [start .. min (?x + s - 1) stop]"
    using upto_split2 [of start "?x - 1" "min (?x + s - 1) stop"] x m assms(1)
    by (cases "m = 0") (auto simp: min_def)
  moreover have y: "start + int (Suc m) * s - 1 = ?x + s - 1" by (simp add: algebra_simps)
  ultimately show ?case unfolding y using Suc by simp
qed

lemma ceil_div_pos: "0 < a \<Longrightarrow> 0 < b \<Longrightarrow> 0 < ceil_div a b"
  by (simp add: ceil_div_def div_neg_pos_less0)

lemma chunk_ranges_partition:
  assumes "start \<le> stop" "0 < w"
  shows "concat (map (\<lambda>(a, b). [a..b]) (chunk_ranges start stop w)) = [start..stop]"
    and "(a, b) \<in> set (chunk_ranges start stop w) \<Longrightarrow> start \<le> a \<and> a \<le> b \<and> b \<le> stop"
proof -
  define s where "s = ceil_div (stop - start + 1) w"
  define m where "m = nat ((stop + 1 - start + s - 1) div s)"
  have s: "0 < s" unfolding s_def using assms by (intro ceil_div_pos) auto
  have q: "int m = (stop + 1 - start + s - 1) div s"
    unfolding m_def using s assms(1) by (simp add: pos_imp_zdiv_nonneg_iff)
  have upper: "int m * s \<le> stop - start + s"
    unfolding q using div_mult_mod_eq [of "stop + 1 - start + s - 1" s] pos_mod_sign [OF s, of "stop + 1 - start + s - 1"]
    by linarith
  have lower: "stop - start < int m * s"
    unfolding q using div_mult_mod_eq [of "stop + 1 - start + s - 1" s] pos_mod_bound [OF s, of "stop + 1 - start + s - 1"]
    by linarith
  have inside: "start + int k * s \<le> stop" if "k < m" for k
  proof -
    have "(int k + 1) * s \<le> int m * s" using that s by (intro mult_right_mono) auto
    then have "int k * s + s \<le> int m * s" by (simp add: distrib_right)
    with upper show ?thesis by linarith
  qed
  have ranges: "chunk_ranges start stop w
      = map (\<lambda>k. (start + int k * s, min (start + int k * s + s - 1) stop)) [0..<m]"
    by (simp add: chunk_ranges_def py_range_def Let_def s_def m_def comp_def)
  have "concat (map (\<lambda>(a, b). [a..b]) (chunk_ranges start stop w)) = [start .. min (start + int m * s - 1) stop]"
    unfolding ranges using concat_chunks [OF s inside] by (simp add: comp_def)
  moreover have "min (start + int m * s - 1) stop = stop" using lower by simp
  ultimately show "concat (map (\<lambda>(a, b). [a..b]) (chunk_ranges start stop w)) = [start..stop]" by simp
  assume "(a, b) \<in> set (chunk_ranges start stop w)"
  then obtain k where k: "k < m" "a = start + int k * s" "b = min (a + s - 1) stop"
    unfolding ranges by auto
  have "0 \<le> int k * s" using s by simp
  with inside [OF k(1)] s k(2,3) show "start \<le> a \<and> a \<le> b \<and> b \<le> stop" by auto
qed

lemma chunks_render:
  assumes argv: "split_launcher (tl_pdftoppm_bin cfg) = Inr argv" and pad: "padding pad n"
    and run: "renders h cfg argv rq pad img n (range (chunk_dir out))"
    and ls: "lists_images h rq pad n (range (chunk_dir out))"
  shows "\<forall>(i, a, b) \<in> set cs. 1 \<le> a \<and> a \<le> b \<and> b \<le> n \<Longrightarrow> distinct (map fst cs)
    \<Longrightarrow> no_images rq (chunk_dir out ` set (map fst cs)) d \<Longrightarrow>
    \<exists>d'. act_each (\<lambda>(i, a, b). pdf_to_images h cfg rq (chunk_dir out i) (Some a) (Some b)) cs d
        = (d', Inr (map (\<lambda>(i, a, b). page_images pad rq (chunk_dir out i) [a..b]) cs))
      \<and> (\<forall>(i, a, b) \<in> set cs. \<forall>k \<in> {a..b}. d' (chunk_dir out i @ [image_name pad rq k]) = Some (img k))
      \<and> (\<forall>p. butlast p \<notin> chunk_dir out ` set (map fst cs) \<longrightarrow> d' p = d p)"
proof (induction cs arbitrary: d)
  case Nil
  then show ?case by (simp add: areturn_def)
next
  case (Cons c cs)
  obtain i a b where c: "c = (i, a, b)" by (cases c)
  let ?dir = "chunk_dir out i" and ?f = "\<lambda>(i, a, b). pdf_to_images h cfg rq (chunk_dir out i) (Some a) (Some b)"
  let ?d1 = "with_images pad img rq ?dir [a..b] d"
  have ab: "1 \<le> a" "a \<le> b" "b \<le> n" using Cons.prems(1) by (auto simp: c)
  have fresh: "?dir \<notin> chunk_dir out ` set (map fst cs)"
    using Cons.prems(2) by (force simp: c chunk_dir_inj)
  have one: "pdf_to_images h cfg rq ?dir (Some a) (Some b) d = (?d1, Inr (page_images pad rq ?dir [a..b]))"
    by (rule pdf_to_images_renders [OF argv pad _ _ ab])
      (use run ls Cons.prems(3) in \<open>auto simp: renders_def lists_images_def no_images_def c\<close>)
  have same: "?d1 p = d p" if "butlast p \<noteq> ?dir" for p
    by (rule with_images_other) (use that in auto)
  have "no_images rq (chunk_dir out ` set (map fst cs)) ?d1"
    unfolding no_images_def
  proof (intro ballI allI impI)
    fix directory name
    assume *: "directory \<in> chunk_dir out ` set (map fst cs)"
      "globbed (image_prefix rq) (format_extension (rr_format rq)) name"
    then have "directory \<noteq> ?dir" using fresh by blast
    then have "?d1 (directory @ [name]) = d (directory @ [name])" by (intro same) simp
    with * Cons.prems(3) show "?d1 (directory @ [name]) = None" by (auto simp: no_images_def)
  qed
  with Cons.prems Cons.IH [of ?d1] obtain d' where
    run': "act_each ?f cs ?d1 = (d', Inr (map (\<lambda>(i, a, b). page_images pad rq (chunk_dir out i) [a..b]) cs))"
    and written: "\<forall>(i, a, b) \<in> set cs. \<forall>k \<in> {a..b}. d' (chunk_dir out i @ [image_name pad rq k]) = Some (img k)"
    and frame: "\<forall>p. butlast p \<notin> chunk_dir out ` set (map fst cs) \<longrightarrow> d' p = ?d1 p"
    by auto
  have "d' (?dir @ [image_name pad rq k]) = Some (img k)" if "k \<in> {a..b}" for k
  proof -
    have "d' (?dir @ [image_name pad rq k]) = ?d1 (?dir @ [image_name pad rq k])"
      using frame fresh by simp
    also have "\<dots> = Some (img k)"
      by (rule with_images_written [OF pad]) (use that ab in auto)
    finally show ?thesis .
  qed
  moreover have "act_each ?f (c # cs) d
      = (d', Inr (map (\<lambda>(i, a, b). page_images pad rq (chunk_dir out i) [a..b]) (c # cs)))"
    by (simp add: c abind_def one run' areturn_def)
  ultimately show ?case
    using written frame same by (intro exI [of _ d']) (auto simp: c)
qed

lemma page_images_sorted:
  "map fst (concat (map (\<lambda>(i, a, b). page_images pad rq (f i) [a..b]) cs)) = concat (map (\<lambda>(i, a, b). [a..b]) cs)"
  by (induction cs) (auto simp: page_images_def comp_def)

lemma map_values_enumerate: "map (\<lambda>(i, x). f x) (enumerate k xs) = map f xs"
  by (induction xs arbitrary: k) simp_all

lemma renders_mono: "renders h cfg argv rq pad img n dirs \<Longrightarrow> ds \<subseteq> dirs \<Longrightarrow> renders h cfg argv rq pad img n ds"
  unfolding renders_def by blast

lemma lists_images_mono: "lists_images h rq pad n dirs \<Longrightarrow> ds \<subseteq> dirs \<Longrightarrow> lists_images h rq pad n ds"
  unfolding lists_images_def by blast

lemma or_page_range: "or_page (Some k) n = (if k = 0 then n else k)" "or_page None n = n"
  by (simp_all add: or_page_def)

lemma chunked_render:
  assumes argv: "split_launcher (tl_pdftoppm_bin cfg) = Inr argv" and pad: "padding pad n"
    and run: "renders h cfg argv rq pad img n (render_dirs out)"
    and ls: "lists_images h rq pad n (render_dirs out)" and none: "no_images rq (render_dirs out) d"
    and range: "1 \<le> or_page first_page 1" "or_page first_page 1 \<le> min (or_page last_page n) n"
    and large: "\<not> max 0 (min (or_page last_page n) n - or_page first_page 1 + 1) \<le> s_render_threshold_pages cfg"
  shows "\<exists>d' pages. pdf_to_images_auto h cfg rq out n first_page last_page d = (d', Inr pages)
    \<and> map fst pages = [or_page first_page 1 .. min (or_page last_page n) n]
    \<and> (\<forall>(k, p) \<in> set pages. d' p = Some (img k))"
proof -
  let ?start = "or_page first_page 1" and ?stop = "min (or_page last_page n) n"
  define w where "w = max 1 (s_render_workers cfg)"
  define cs where "cs = enumerate 0 (chunk_ranges ?start ?stop w)"
  have w: "0 < w" by (simp add: w_def)
  have dirs: "range (chunk_dir out) \<subseteq> render_dirs out" by (auto simp: render_dirs_def)
  have bounds: "\<forall>(i, a, b) \<in> set cs. 1 \<le> a \<and> a \<le> b \<and> b \<le> n"
  proof clarify
    fix i a b assume "(i, a, b) \<in> set cs"
    then have "snd (i, a, b) \<in> set (map snd cs)" unfolding set_map by (rule imageI)
    then have "(a, b) \<in> set (chunk_ranges ?start ?stop w)" by (simp only: cs_def List.map_snd_enumerate snd_conv)
    from chunk_ranges_partition(2) [OF range(2) w this] range(1)
    show "1 \<le> a \<and> a \<le> b \<and> b \<le> n" by simp
  qed
  have distinct_cs: "distinct (map fst cs)" by (simp add: cs_def)
  have "chunk_dir out ` set (map fst cs) \<subseteq> render_dirs out" using dirs by blast
  then have fresh: "no_images rq (chunk_dir out ` set (map fst cs)) d" by (rule no_images_mono [OF none])
  obtain d' where
    r: "act_each (\<lambda>(i, a, b). pdf_to_images h cfg rq (chunk_dir out i) (Some a) (Some b)) cs d
      = (d', Inr (map (\<lambda>(i, a, b). page_images pad rq (chunk_dir out i) [a..b]) cs))"
    and written: "\<forall>(i, a, b) \<in> set cs. \<forall>k \<in> {a..b}. d' (chunk_dir out i @ [image_name pad rq k]) = Some (img k)"
    using chunks_render [OF argv pad renders_mono [OF run dirs] lists_images_mono [OF ls dirs] bounds distinct_cs fresh]
    by blast
  let ?pages = "concat (map (\<lambda>(i, a, b). page_images pad rq (chunk_dir out i) [a..b]) cs)"
  have order: "map fst ?pages = [?start..?stop]"
    unfolding page_images_sorted
    using chunk_ranges_partition(1) [OF range(2) w] by (simp add: cs_def map_values_enumerate)
  then have "sort_key fst ?pages = ?pages" by (intro sort_key_id_if_sorted) simp
  then have "pdf_to_images_auto h cfg rq out n first_page last_page d = (d', Inr ?pages)"
    unfolding pdf_to_images_auto_def Let_def using large r [unfolded cs_def w_def]
    by (simp only: if_False abind_def prod.case sum.case areturn_def cs_def w_def)
  moreover have "\<forall>(k, p) \<in> set ?pages. d' p = Some (img k)"
    using written by (fastforce simp: page_images_def)
  ultimately show ?thesis using order by blast
qed

section \<open>Properties\<close>

text \<open>
  C20: Rendering a document gives every requested page exactly once and in order, whether it is
  rendered by one call or in chunks: for a renderer that writes one numbered image per page of
  its range, the result lists the pages from the first to the last (cut at the end of the
  document), and each path holds the image of its page. In particular the chunks neither
  overlap nor leave a page out, and no chunk sees the files of another.
\<close>

theorem auto_renders_each_page_once:
  assumes argv: "split_launcher (tl_pdftoppm_bin cfg) = Inr argv" and pad: "padding pad n"
    and run: "renders h cfg argv rq pad img n (render_dirs out)"
    and ls: "lists_images h rq pad n (render_dirs out)" and none: "no_images rq (render_dirs out) d"
    and range: "1 \<le> or_page first_page 1" "or_page first_page 1 \<le> min (or_page last_page n) n"
  shows "\<exists>d' pages. pdf_to_images_auto h cfg rq out n first_page last_page d = (d', Inr pages)
    \<and> map fst pages = [or_page first_page 1 .. min (or_page last_page n) n]
    \<and> (\<forall>(k, p) \<in> set pages. d' p = Some (img k))"
proof -
  let ?start = "or_page first_page 1" and ?stop = "min (or_page last_page n) n"
  show ?thesis
  proof (cases "max 0 (?stop - ?start + 1) \<le> s_render_threshold_pages cfg")
    case True
    have dirs: "{out} \<subseteq> render_dirs out" by (simp add: render_dirs_def)
    have "?stop \<le> n" by simp
    note one = pdf_to_images_renders [OF argv pad renders_mono [OF run dirs] lists_images_mono [OF ls dirs]
        range this no_images_mono [OF none dirs]]
    have "pdf_to_images_auto h cfg rq out n first_page last_page d
        = pdf_to_images h cfg rq out (Some ?start) (Some ?stop) d"
      unfolding pdf_to_images_auto_def Let_def using True by (simp only: if_True)
    also note one
    finally have "pdf_to_images_auto h cfg rq out n first_page last_page d
        = (with_images pad img rq out [?start..?stop] d, Inr (page_images pad rq out [?start..?stop]))" .
    moreover have "with_images pad img rq out [?start..?stop] d (out @ [image_name pad rq k]) = Some (img k)"
      if "k \<in> {?start..?stop}" for k
      by (rule with_images_written [OF pad]) (use that range in auto)
    ultimately show ?thesis by (auto simp: page_images_def comp_def)
  next
    case False
    then show ?thesis by (rule chunked_render [OF argv pad run ls none range])
  qed
qed

text \<open>A renderer that reads its arguments, on a document of three pages, in chunks of two.\<close>

definition demo_request :: render_request where
  "demo_request = \<lparr>rr_input = [''s'', ''x.pdf''], rr_format = JPEG, rr_dpi = 150, rr_quality = 90,
     rr_grayscale = False, rr_display = None\<rparr>"

definition demo_image :: "int \<Rightarrow> bytes" where
  "demo_image k = [word_of_int k]"

definition demo_directory :: "string \<Rightarrow> path" where
  "demo_directory prefix_text =
     (case split_last slash prefix_text of
        None \<Rightarrow> []
      | Some (directory, _) \<Rightarrow> if directory = ''/w'' then [''w''] else [''w'', drop 3 directory])"

definition demo_host :: render_host where
  "demo_host = \<lparr>
     rh_prog = (\<lambda>iv d. (with_images int_str demo_image demo_request (demo_directory (iv_command iv ! 11))
         [the (py_int (iv_command iv ! 7)) .. the (py_int (iv_command iv ! 9))] d, Exited 0 [] [])),
     rh_ls = (\<lambda>directory d. filter (\<lambda>name. d (directory @ [name]) \<noteq> None)
         (map (image_name int_str demo_request) [1, 2, 3]))\<rparr>"

lemma demo_padding: "padding int_str 3"
proof -
  have "{1..3::int} = {1, 2, 3}" by auto
  moreover have "\<forall>k \<in> {1, 2, 3}. int_str k \<noteq> [] \<and> list_all is_digit (int_str k) \<and> py_int (int_str k) = Some k"
    by code_simp
  ultimately show ?thesis by (simp add: padding_def)
qed

lemma demo_directory: "directory \<in> render_dirs [''w''] \<Longrightarrow>
    demo_directory (path_text (directory @ [image_prefix demo_request])) = directory"
proof -
  have p: "image_prefix demo_request = ''x-page''" by code_simp
  have m: "slash \<notin> set ''x-page''" by simp
  assume "directory \<in> render_dirs [''w'']"
  then consider "directory = [''w'']" | i where "directory = [''w'', ''chunk-'' @ nat_str i]"
    by (auto simp: render_dirs_def chunk_dir_def)
  then show ?thesis
  proof cases
    case 1
    then show ?thesis unfolding p by (simp add: demo_directory_def path_text_def split_last_append [OF m, of "''/w''", simplified])
  next
    case (2 i)
    then have "path_text (directory @ [image_prefix demo_request]) = (''/w/chunk-'' @ nat_str i) @ slash # ''x-page''"
      by (simp add: p path_text_def)
    then have "split_last slash (path_text (directory @ [image_prefix demo_request])) = Some (''/w/chunk-'' @ nat_str i, ''x-page'')"
      by (simp only: split_last_append [OF m])
    then show ?thesis using 2 by (simp add: demo_directory_def)
  qed
qed

lemma demo_renders: "renders demo_host cfg [''pdftoppm''] demo_request int_str demo_image 3 (render_dirs [''w''])"
  unfolding renders_def
proof clarify
  fix directory a b and d :: disk
  assume dir: "directory \<in> render_dirs [''w'']" and ab: "1 \<le> a" "a \<le> b" "b \<le> (3::int)"
  let ?c = "render_command [''pdftoppm''] demo_request directory (Some a) (Some b)"
  have c: "?c ! 7 = int_str a" "?c ! 9 = int_str b"
    "?c ! 11 = path_text (directory @ [image_prefix demo_request])"
    by (simp_all add: render_command_def demo_request_def)
  have "py_int (int_str a) = Some a" "py_int (int_str b) = Some b"
    using demo_padding ab by (simp_all add: padding_def)
  then show "rh_prog demo_host \<lparr>iv_command = ?c, iv_cwd = None, iv_timeout = command_timeout cfg None, iv_env = None\<rparr> d
      = (with_images int_str demo_image demo_request directory [a..b] d, Exited 0 [] [])"
    by (simp add: demo_host_def c demo_directory [OF dir])
qed

lemma demo_lists: "lists_images demo_host demo_request int_str 3 (render_dirs [''w''])"
proof -
  have r: "{1..3::int} = {1, 2, 3}" by auto
  have "distinct (map (image_name int_str demo_request) [1, 2, 3])" by code_simp
  then show ?thesis unfolding lists_images_def demo_host_def r render_host.simps by auto
qed

theorem auto_renders_each_page_once_witness:
  "\<exists>d' pages. pdf_to_images_auto demo_host
      (default_tool_settings\<lparr>s_render_threshold_pages := 1, s_render_workers := 2\<rparr>)
      demo_request [''w''] 3 None (Some 9) (\<lambda>p. None) = (d', Inr pages)
    \<and> map fst pages = [1, 2, 3] \<and> (\<forall>(k, p) \<in> set pages. d' p = Some (demo_image k))"
proof -
  let ?cfg = "default_tool_settings\<lparr>s_render_threshold_pages := 1, s_render_workers := 2\<rparr>"
  have "tl_pdftoppm_bin ?cfg = ''pdftoppm''"
    by (simp add: default_tool_settings_def tool_settings.defs default_settings_def settings.defs)
  moreover have "split_launcher ''pdftoppm'' = Inr [''pdftoppm'']" by code_simp
  ultimately have argv: "split_launcher (tl_pdftoppm_bin ?cfg) = Inr [''pdftoppm'']" by (simp only:)
  have none: "no_images demo_request (render_dirs [''w'']) (\<lambda>p. None)" by (simp add: no_images_def)
  have r: "or_page None 1 = 1" "min (or_page (Some 9) 3) 3 = 3" by (simp_all add: or_page_def)
  have u: "[1..3::int] = [1, 2, 3]" by code_simp
  show ?thesis
    using auto_renders_each_page_once [OF argv demo_padding demo_renders demo_lists none, of None "Some 9"]
    unfolding r u by (simp only: order_refl numeral_One one_le_numeral simp_thms)
qed

end
