(* ===== verification/Thumbnails.thy ===== *)
theory Thumbnails
  imports Poppler Downloads
begin

text \<open>
  \<open>app/services/thumbnails.py\<close> with its endpoint in \<open>api/v1/endpoints/files.py\<close>: previews that are
  made on the first request and cached on disk. What Pillow makes of the content of an image (or
  its error) is the argument \<open>rh_thumbnail\<close>; the random part of the workspace's name is one too.
\<close>

section \<open>Thumbnails\<close>

record thumbnail_host = render_host +
  rh_thumbnail :: "bytes option \<Rightarrow> string + bytes"

definition thumbnail_path :: "('z) settings_scheme \<Rightarrow> string \<Rightarrow> path" where
  "thumbnail_path cfg file_id = thumbnails_dir (settings.truncate cfg) @ [file_id @ ''.jpg'']"

definition downscale :: "thumbnail_host \<Rightarrow> path \<Rightarrow> path \<Rightarrow> (disk, unit) action" where
  "downscale h source target d =
     (case rh_thumbnail h (d source) of
        Inl err \<Rightarrow> (d, processing_error (''Could not build a thumbnail: '' @ err))
      | Inr jpeg \<Rightarrow> (disk_write target jpeg d, Inr ()))"

text \<open>\<open>with temp_workspace(prefix="thumb")\<close>: the tree is removed however the body ends.\<close>

definition thumb_workspace :: "('z) settings_scheme \<Rightarrow> string \<Rightarrow> path" where
  "thumb_workspace cfg hex = temp_dir (settings.truncate cfg) @ [''thumb-'' @ hex]"

definition clear_tree :: "path \<Rightarrow> disk \<Rightarrow> disk" where
  "clear_tree root_dir d = (\<lambda>p. if prefix root_dir p then None else d p)"

definition in_workspace :: "path \<Rightarrow> (disk, 'a) action \<Rightarrow> (disk, 'a) action" where
  "in_workspace ws body d = (case body d of (d', r) \<Rightarrow> (clear_tree ws d', r))"

definition thumbnail_request :: "path \<Rightarrow> render_request" where
  "thumbnail_request source = \<lparr>rr_input = source, rr_format = JPEG, rr_dpi = 40, rr_quality = 70,
     rr_grayscale = False, rr_display = None\<rparr>"

definition generate_thumbnail ::
  "thumbnail_host \<Rightarrow> ('z) tool_settings_scheme \<Rightarrow> string \<Rightarrow> stored_file \<Rightarrow> (disk, path) action" where
  "generate_thumbnail h cfg hex rec d =
     (let target = thumbnail_path cfg (uuid_str (sf_id rec)) in
      if is_file d target then (d, Inr target)
      else abind (aresult (storage_resolve (settings.truncate cfg) (sf_category rec) (sf_relative_path rec))) (\<lambda>source.
        if sf_extension rec = ''pdf''
        then abind (in_workspace (thumb_workspace cfg hex)
               (abind (pdf_to_images (render_host.truncate h) cfg (thumbnail_request source)
                   (thumb_workspace cfg hex) (Some 1) (Some 1))
                 (\<lambda>pages. downscale h (snd (hd pages)) target))) (\<lambda>_. areturn target)
        else if sf_extension rec \<in> {''jpg'', ''jpeg'', ''png''}
        then abind (downscale h source target) (\<lambda>_. areturn target)
        else aresult (raise_app (FileE UnsupportedFileTypeError)
               (''No thumbnail available for .'' @ sf_extension rec @ '' files.''))) d)"

definition get_thumbnail ::
  "thumbnail_host \<Rightarrow> ('z) tool_settings_scheme \<Rightarrow> string \<Rightarrow> stored_file list \<Rightarrow> nat option \<Rightarrow> nat
     \<Rightarrow> (disk, path) action" where
  "get_thumbnail h cfg hex tbl user_id file_id =
     (case file_get_active file_id user_id tbl of
        None \<Rightarrow> aresult (raise_class (FileE FileNotFoundAppError))
      | Some rec \<Rightarrow> generate_thumbnail h cfg hex rec)"

section \<open>Lemmas\<close>

lemma run_tool_command_frame:
  assumes "\<And>iv d. fst (prog iv d) p = d p"
  shows "fst (run_tool_command cfg prog lab command cwd timeout oks env d) p = d p"
proof (cases "command = []")
  case True
  then show ?thesis by (simp add: run_tool_command_empty)
next
  case False
  obtain d' out where r: "prog \<lparr>iv_command = command, iv_cwd = cwd, iv_timeout = command_timeout cfg timeout,
      iv_env = env\<rparr> d = (d', out)" by fastforce
  have "d' p = d p" using assms [of _ d] r by (metis fst_conv)
  then show ?thesis using run_tool_command_cases [where prog = prog, OF False r] by simp
qed

lemma pdf_to_images_frame:
  assumes "\<And>iv d. fst (rh_prog h iv d) p = d p"
  shows "fst (pdf_to_images h cfg rq out a b d) p = d p"
proof (cases "split_launcher (tl_pdftoppm_bin cfg)")
  case (Inl e)
  then show ?thesis by (simp add: pdf_to_images_def araise_def)
next
  case (Inr argv)
  let ?run = "run_tool cfg (rh_prog h) ''PDF renderer'' (render_command argv rq out a b) None d"
  have "fst ?run p = d p" by (rule run_tool_command_frame [where prog = "rh_prog h" and p = p]) (rule assms)
  then show ?thesis
    by (cases ?run; cases "snd ?run") (simp_all add: pdf_to_images_def Inr abind_def Let_def)
qed

lemma downscale_effect:
  "downscale h source target d = (d', r) \<Longrightarrow>
    (\<forall>p. p \<noteq> target \<longrightarrow> d' p = d p) \<and> (r = Inr () \<longrightarrow> d' target \<noteq> None)"
  by (auto simp: downscale_def disk_write_def processing_error_def split: sum.splits)

lemma target_outside: "\<not> prefix (thumb_workspace cfg hex) (thumbnail_path cfg file_id)"
  by (auto simp: thumb_workspace_def thumbnail_path_def temp_dir_def thumbnails_dir_def prefix_def)

text \<open>The preview of the first page of a document, inside its workspace.\<close>

lemma pdf_thumbnail_effect:
  assumes frame: "\<And>iv d p. \<not> prefix ws p \<Longrightarrow> fst (rh_prog h iv d) p = d p" and out: "\<not> prefix ws target"
    and run: "in_workspace ws (abind (pdf_to_images h cfg rq ws a b)
      (\<lambda>pages. downscale hh (snd (hd pages)) target)) d = (d', r)"
  shows "(\<forall>p. p \<noteq> target \<and> \<not> prefix ws p \<longrightarrow> d' p = d p) \<and> (\<forall>p. prefix ws p \<longrightarrow> d' p = None)
    \<and> (r = Inr () \<longrightarrow> d' target \<noteq> None)"
proof -
  obtain d1 r1 where one: "pdf_to_images h cfg rq ws a b d = (d1, r1)" by fastforce
  obtain d2 r2 where two: "abind (pdf_to_images h cfg rq ws a b)
      (\<lambda>pages. downscale hh (snd (hd pages)) target) d = (d2, r2)" by fastforce
  have d': "d' = clear_tree ws d2" "r = r2" using run by (simp_all add: in_workspace_def two)
  have same: "d1 p = d p" if "\<not> prefix ws p" for p
    using pdf_to_images_frame [of h p cfg rq ws a b d] frame [OF that] by (simp add: one)
  have "(\<forall>p. p \<noteq> target \<longrightarrow> d2 p = d1 p) \<and> (r2 = Inr () \<longrightarrow> d2 target \<noteq> None)"
  proof (cases r1)
    case (Inl e)
    with two show ?thesis by (auto simp: abind_def one)
  next
    case (Inr pages)
    with two have "downscale hh (snd (hd pages)) target d1 = (d2, r2)" by (simp add: abind_def one)
    then show ?thesis by (rule downscale_effect)
  qed
  with same out show ?thesis by (simp add: d' clear_tree_def)
qed

text \<open>
  What making a preview leaves: only the target and the workspace change, the workspace ends
  empty or as it was, and a path that is returned is the target, which then exists.
\<close>

definition preview_left :: "path \<Rightarrow> path \<Rightarrow> disk \<Rightarrow> disk \<Rightarrow> bool" where
  "preview_left ws target d d' \<longleftrightarrow> (\<forall>p. p \<noteq> target \<and> \<not> prefix ws p \<longrightarrow> d' p = d p)
     \<and> (\<forall>p. prefix ws p \<longrightarrow> d' p = None \<or> d' p = d p)"

lemma preview_left_refl [simp]: "preview_left ws target d d"
  by (simp add: preview_left_def)

lemma preview_outcome:
  assumes "abind body (\<lambda>_. areturn target) d = (d', r)"
    and "\<And>d1 r1. body d = (d1, r1) \<Longrightarrow> preview_left ws target d d1 \<and> (r1 = Inr () \<longrightarrow> d1 target \<noteq> None)"
  shows "preview_left ws target d d' \<and> (\<forall>p. r = Inr p \<longrightarrow> p = target \<and> d' p \<noteq> None)"
proof -
  obtain d1 r1 where 1: "body d = (d1, r1)" by fastforce
  from assms(1) assms(2) [OF 1] show ?thesis
    by (cases r1) (auto simp: abind_def areturn_def 1)
qed

lemma generate_thumbnail_effect:
  assumes frame: "\<And>iv d p. \<not> prefix (thumb_workspace cfg hex) p \<Longrightarrow> fst (rh_prog h iv d) p = d p"
    and gen: "generate_thumbnail h cfg hex f d = (d', r)"
    and fresh: "d (thumbnail_path cfg (uuid_str (sf_id f))) = None"
  shows "preview_left (thumb_workspace cfg hex) (thumbnail_path cfg (uuid_str (sf_id f))) d d'
    \<and> (\<forall>p. r = Inr p \<longrightarrow> p = thumbnail_path cfg (uuid_str (sf_id f)) \<and> d' p \<noteq> None)"
proof (cases "storage_resolve (settings.truncate cfg) (sf_category f) (sf_relative_path f)")
  case (Inl e)
  with gen fresh show ?thesis by (auto simp: generate_thumbnail_def is_file_def araise_def)
next
  case (Inr source)
  let ?target = "thumbnail_path cfg (uuid_str (sf_id f))" and ?ws = "thumb_workspace cfg hex"
  note gen' = gen [unfolded generate_thumbnail_def Let_def Inr]
  consider (pdf) "sf_extension f = ''pdf''"
    | (image) "sf_extension f \<noteq> ''pdf''" "sf_extension f \<in> {''jpg'', ''jpeg'', ''png''}"
    | (other) "sf_extension f \<noteq> ''pdf''" "sf_extension f \<notin> {''jpg'', ''jpeg'', ''png''}" by blast
  then show ?thesis
  proof cases
    case pdf
    have frame': "\<And>iv d p. \<not> prefix ?ws p \<Longrightarrow> fst (rh_prog (render_host.truncate h) iv d) p = d p"
      using frame by (simp add: render_host.defs)
    let ?body = "in_workspace ?ws (abind (pdf_to_images (render_host.truncate h) cfg
        (thumbnail_request source) ?ws (Some 1) (Some 1)) (\<lambda>pages. downscale h (snd (hd pages)) ?target))"
    have "abind ?body (\<lambda>_. areturn ?target) d = (d', r)" using gen' pdf fresh by (simp add: is_file_def)
    then show ?thesis
      by (rule preview_outcome) (use pdf_thumbnail_effect [OF frame' target_outside] in \<open>unfold preview_left_def, blast\<close>)
  next
    case image
    have "abind (downscale h source ?target) (\<lambda>_. areturn ?target) d = (d', r)"
      using gen' image fresh by (simp add: is_file_def)
    then show ?thesis
    proof (rule preview_outcome)
      fix d1 r1 assume "downscale h source ?target d = (d1, r1)"
      from downscale_effect [OF this] target_outside [of cfg hex "uuid_str (sf_id f)"]
      show "preview_left ?ws ?target d d1 \<and> (r1 = Inr () \<longrightarrow> d1 ?target \<noteq> None)"
        unfolding preview_left_def by metis
    qed
  next
    case other
    with gen' fresh show ?thesis by (auto simp: is_file_def aresult_def raise_app_def)
  qed
qed

subsection \<open>Errors\<close>

text \<open>
  A document the renderer refuses (broken, or protected by a password) is reported as a
  \<open>CommandError\<close>, which is no application error: the client gets an internal server error.
\<close>

lemma broken_pdf_thumbnail:
  assumes "file_get_active file_id user_id tbl = Some f" "sf_extension f = ''pdf''"
    and "d (thumbnail_path cfg (uuid_str file_id)) = None"
    and "storage_resolve (settings.truncate cfg) (sf_category f) (sf_relative_path f) = Inr source"
    and "split_launcher (tl_pdftoppm_bin cfg) = Inr argv"
    and "\<And>iv d. \<exists>d' o' err. rh_prog h iv d = (d', Exited 1 o' err)"
  shows "\<exists>d' e. get_thumbnail h cfg hex tbl user_id file_id d = (d', Inl e) \<and> exc_class e = None"
proof -
  let ?out = "thumb_workspace cfg hex" and ?rq = "thumbnail_request source"
  let ?c = "render_command argv ?rq ?out (Some 1) (Some 1)"
  have ne: "?c \<noteq> []" by (simp add: render_command_def)
  obtain d1 o' err where r: "rh_prog h \<lparr>iv_command = ?c, iv_cwd = None, iv_timeout = command_timeout cfg None,
      iv_env = None\<rparr> d = (d1, Exited 1 o' err)" using assms(6) by blast
  obtain e where e: "run_tool cfg (rh_prog h) ''PDF renderer'' ?c None d = (d1, Inl e)" "exc_class e = None"
    using run_tool_command_cases [where prog = "rh_prog h", OF ne r, of "''PDF renderer''" "[0]"]
    by (simp add: command_failure_def)
  have "pdf_to_images (render_host.truncate h) cfg ?rq ?out (Some 1) (Some 1) d = (d1, Inl e)"
    using e(1) by (simp add: pdf_to_images_def assms(5) abind_def render_host.defs)
  then have "get_thumbnail h cfg hex tbl user_id file_id d = (clear_tree ?out d1, Inl e)"
    using assms(1-4) file_get_active_SomeD(2) [OF assms(1)]
    by (simp add: get_thumbnail_def generate_thumbnail_def is_file_def in_workspace_def abind_def)
  with e(2) show ?thesis by blast
qed

text \<open>The preview of a file that has expired is still served, while its download is refused.\<close>

lemma expired_preview_served:
  assumes "file_get_active file_id user_id tbl = Some f" "sf_expires_at f = Some t" "t < dl_now env"
    and "d (thumbnail_path cfg (uuid_str file_id)) \<noteq> None"
  shows "get_downloadable env tbl d user_id file_id = raise_class (FileE FileExpiredError)"
    and "get_thumbnail h cfg hex tbl user_id file_id d = (d, Inr (thumbnail_path cfg (uuid_str file_id)))"
  using assms file_get_active_SomeD(2) [OF assms(1)]
  by (simp_all add: get_downloadable_def get_thumbnail_def generate_thumbnail_def is_file_def)

section \<open>Properties\<close>

text \<open>
  C21: What a request for a preview does. Provided the renderer writes only into the directory it
  is given, nothing on disk changes but the cached preview of this file and the scratch
  workspace, which is empty afterwards (or was not used); a preview is returned only to the
  owner of an active file, it is that file's, and it exists; and a cached one is returned without
  doing anything.
\<close>

theorem thumbnail_effect:
  assumes frame: "\<And>iv d p. \<not> prefix (thumb_workspace cfg hex) p \<Longrightarrow> fst (rh_prog h iv d) p = d p"
    and run: "get_thumbnail h cfg hex tbl user_id file_id d = (d', r)"
  shows "(\<forall>p. p \<noteq> thumbnail_path cfg (uuid_str file_id) \<and> \<not> prefix (thumb_workspace cfg hex) p \<longrightarrow> d' p = d p)
    \<and> (\<forall>p. prefix (thumb_workspace cfg hex) p \<longrightarrow> d' p = None \<or> d' p = d p)
    \<and> (\<forall>p. r = Inr p \<longrightarrow> p = thumbnail_path cfg (uuid_str file_id) \<and> d' p \<noteq> None
          \<and> (\<exists>f \<in> set tbl. sf_id f = file_id \<and> sf_status f = F_ACTIVE \<and> sf_user_id f = user_id))
    \<and> (d (thumbnail_path cfg (uuid_str file_id)) \<noteq> None \<longrightarrow> d' = d)"
proof (cases "file_get_active file_id user_id tbl")
  case None
  with run show ?thesis by (auto simp: get_thumbnail_def aresult_def raise_class_def)
next
  case (Some f)
  note f = file_get_active_SomeD [OF Some]
  have gen: "generate_thumbnail h cfg hex f d = (d', r)" using run Some by (simp add: get_thumbnail_def)
  show ?thesis
  proof (cases "d (thumbnail_path cfg (uuid_str file_id)) = None")
    case False
    with gen f show ?thesis by (auto simp: generate_thumbnail_def is_file_def)
  next
    case True
    with f have "d (thumbnail_path cfg (uuid_str (sf_id f))) = None" by simp
    from generate_thumbnail_effect [of cfg hex h f d d' r, OF frame gen this] f True show ?thesis
      unfolding preview_left_def by auto
  qed
qed

definition demo_png :: stored_file where
  "demo_png = \<lparr>sf_id = 7, sf_original_name = ''a.png'', sf_stored_name = ''b.png'', sf_category = UPLOAD,
     sf_relative_path = ''2026/01/01/b.png'', sf_media_type = ''image/png'', sf_extension = ''png'',
     sf_size_bytes = 1, sf_checksum = None, sf_status = F_ACTIVE, sf_user_id = None, sf_expires_at = None,
     sf_created_at = 0\<rparr>"

definition demo_thumbnails :: thumbnail_host where
  "demo_thumbnails = \<lparr>rh_prog = \<lambda>iv d. (d, NotFound), rh_ls = \<lambda>p d. [],
     rh_thumbnail = \<lambda>b. case b of None \<Rightarrow> Inl ''No such file'' | Some c \<Rightarrow> Inr c\<rparr>"

theorem thumbnail_effect_witness:
  "\<exists>d' r. get_thumbnail demo_thumbnails default_tool_settings ''x'' [demo_png] None 7 (\<lambda>p. Some [1]) = (d', r)
    \<and> d' [''a''] = Some [1] \<and> d' (thumbnail_path default_tool_settings (uuid_str 7)) = Some [1]"
proof -
  have frame: "fst (rh_prog demo_thumbnails iv d) p = d p" for iv d p by (simp add: demo_thumbnails_def)
  obtain d' r where run: "get_thumbnail demo_thumbnails default_tool_settings ''x'' [demo_png] None 7 (\<lambda>p. Some [1])
      = (d', r)" by fastforce
  from thumbnail_effect [OF frame run] have "d' = (\<lambda>p. Some [1])" by blast
  with run show ?thesis by blast
qed

end
