(* ===== verification/PdfRedact.thy ===== *)
theory PdfRedact
  imports PdfOverlay Uuids JobRunner Command
begin

text \<open>
  The redaction of \<open>app/utils/pdf_document.py\<close>: texts and page areas that are removed for good.

  PyMuPDF is a parameter (\<open>fitz_lib\<close>): what a file opens as, the rectangles where a text is
  found on a page, the part of an area inside the page, what \<open>apply_redactions\<close> makes of a page
  with its annotations, the raster of an area, and what saving a document writes. Floating point
  is the argument \<open>A\<close> of theory \<open>PdfObjects\<close>. An area of the options is what \<open>int\<close>, \<open>float\<close> and
  \<open>str\<close> make of its entries (\<open>raw_area\<close>; \<open>None\<close> where they raise or the entry is missing).
\<close>

section \<open>The library\<close>

datatype 'f cover = Fill "'f \<times> 'f \<times> 'f" | NoFill

record 'page fitz_document =
  fd_needs_pass :: bool
  fd_pages :: "'page list"

record ('page, 'r, 'f) fitz_lib =
  fz_open :: "bytes option \<Rightarrow> string + 'page fitz_document"
  fz_search :: "string \<Rightarrow> 'page \<Rightarrow> 'r list"
  fz_clip :: "'f \<times> 'f \<times> 'f \<times> 'f \<Rightarrow> 'page \<Rightarrow> 'r option" \<comment> \<open>\<open>None\<close> when empty\<close>
  fz_apply :: "('r \<times> 'f cover) list \<Rightarrow> 'page \<Rightarrow> 'page"
  fz_obscured :: "string \<Rightarrow> ('r \<times> 'f cover) list \<Rightarrow> 'r \<Rightarrow> 'page \<Rightarrow> bytes"
  fz_insert_image :: "'r \<Rightarrow> bytes \<Rightarrow> 'page \<Rightarrow> 'page"
  fz_tint :: "'r \<Rightarrow> 'f \<times> 'f \<times> 'f \<Rightarrow> 'f \<Rightarrow> 'page \<Rightarrow> 'page"
  fz_save :: "'page list \<Rightarrow> bytes \<times> py_exc option"

section \<open>Areas\<close>

record 'f raw_area =
  ra_page :: "int option"
  ra_rect :: "('f \<times> 'f \<times> 'f \<times> 'f) option"
  ra_mode :: "string option"
  ra_color :: "string option"
  ra_opacity :: "'f option option"

record 'f redact_area =
  ar_rect :: "'f \<times> 'f \<times> 'f \<times> 'f"
  ar_mode :: string
  ar_color :: "'f \<times> 'f \<times> 'f"
  ar_opacity :: 'f

definition area_modes :: "string list" where
  "area_modes = [''black'', ''white'', ''color'', ''blur'', ''pixelate'']"

definition hex_to_rgb01 :: "'f arith \<Rightarrow> string \<Rightarrow> 'f \<times> 'f \<times> 'f" where
  "hex_to_rgb01 A value =
     (let raw = lstrip_by (\<lambda>c. c = CHR ''#'') value;
          part = (\<lambda>n. fl_div A (fl_of_int A n) (fl_lit A ''255.0''));
          black = (fl_lit A ''0.0'', fl_lit A ''0.0'', fl_lit A ''0.0'')
      in if length raw \<noteq> 6 then black
         else case (int16 (take 2 raw), int16 (take 2 (drop 2 raw)), int16 (drop 4 raw)) of
             (Some r, Some g, Some b) \<Rightarrow> (part r, part g, part b)
           | _ \<Rightarrow> black)"

definition area_name :: "nat \<Rightarrow> string" where
  "area_name position = ''Redaction area #'' @ nat_str position"

definition area_opacity :: "'f arith \<Rightarrow> 'f option option \<Rightarrow> 'f" where
  "area_opacity A given =
     (case given of
        Some (Some x) \<Rightarrow> fl_min A (fl_lit A ''1.0'') (fl_max A (fl_lit A ''0.05'') x)
      | _ \<Rightarrow> fl_lit A ''1.0'')"

definition check_area ::
  "'f arith \<Rightarrow> nat \<Rightarrow> nat \<Rightarrow> 'f raw_area \<Rightarrow> (py_exc, int \<times> 'f redact_area) result" where
  "check_area A ntotal position area =
     (case (ra_page area, ra_rect area) of
        (Some page, Some (x0, y0, x1, y1)) \<Rightarrow>
          if \<not> (1 \<le> page \<and> page \<le> int ntotal)
          then processing_error (area_name position @ '' points to page '' @ int_str page
                 @ '', but this document has '' @ nat_str ntotal @ '' page(s).'')
          else if fl_le A x1 x0 \<or> fl_le A y1 y0
          then processing_error (area_name position
                 @ '' has zero or negative size (x1 must be greater than x0, and y1 greater than y0).'')
          else
            (let mode = py_lower (case ra_mode area of Some (c # cs) \<Rightarrow> c # cs | _ \<Rightarrow> ''black'') in
             if mode \<notin> set area_modes
             then processing_error (area_name position @ '' has unknown mode '' @ quoted mode @ ''.'')
             else Inr (page - 1, \<lparr>ar_rect = (x0, y0, x1, y1), ar_mode = mode,
                    ar_color = hex_to_rgb01 A (case ra_color area of Some (c # cs) \<Rightarrow> c # cs | _ \<Rightarrow> ''#000000''),
                    ar_opacity = area_opacity A (ra_opacity area)\<rparr>))
      | _ \<Rightarrow> processing_error (area_name position @ '' is malformed (needs page, x0, y0, x1, y1).''))"

text \<open>The dict from pages to areas, as the list of its pairs in the order of the areas.\<close>

definition areas_by_page ::
  "'f arith \<Rightarrow> 'f raw_area list \<Rightarrow> nat \<Rightarrow> (py_exc, (int \<times> 'f redact_area) list) result" where
  "areas_by_page A areas ntotal = rmap (\<lambda>(position, area). check_area A ntotal position area) (enumerate 1 areas)"

definition areas_of :: "(int \<times> 'f redact_area) list \<Rightarrow> nat \<Rightarrow> 'f redact_area list" where
  "areas_of grouped index = map snd (filter (\<lambda>(i, _). i = int index) grouped)"

section \<open>One page\<close>

record ('r, 'f) page_marks =
  pm_annots :: "('r \<times> 'f cover) list"
  pm_images :: "('r \<times> bytes) list"
  pm_tints :: "('r \<times> ('f \<times> 'f \<times> 'f) \<times> 'f) list"
  pm_regions :: nat

definition fill_of :: "'f arith \<Rightarrow> string \<Rightarrow> 'f cover" where
  "fill_of A v = Fill (fl_lit A v, fl_lit A v, fl_lit A v)"

definition mark_terms ::
  "'f arith \<Rightarrow> ('page, 'r, 'f) fitz_lib \<Rightarrow> string list \<Rightarrow> 'page \<Rightarrow> ('r, 'f) page_marks" where
  "mark_terms A lib terms page =
     (let rects = concat (map (\<lambda>t. fz_search lib t page) terms)
      in \<lparr>pm_annots = map (\<lambda>r. (r, fill_of A ''0'')) rects, pm_images = [], pm_tints = [],
          pm_regions = length rects\<rparr>)"

definition mark_area ::
  "'f arith \<Rightarrow> ('page, 'r, 'f) fitz_lib \<Rightarrow> 'page \<Rightarrow> 'f redact_area \<Rightarrow> ('r, 'f) page_marks
     \<Rightarrow> ('r, 'f) page_marks" where
  "mark_area A lib page area m =
     (case fz_clip lib (ar_rect area) page of
        None \<Rightarrow> m
      | Some clipped \<Rightarrow>
          (let annot = (\<lambda>c m. m\<lparr>pm_annots := pm_annots m @ [(clipped, c)], pm_regions := pm_regions m + 1\<rparr>) in
           if ar_mode area \<in> {''blur'', ''pixelate''}
           then annot (fill_of A ''1'') (m\<lparr>pm_images := pm_images m
                  @ [(clipped, fz_obscured lib (ar_mode area) (pm_annots m) clipped page)]\<rparr>)
           else if ar_mode area = ''white'' then annot (fill_of A ''1'') m
           else if ar_mode area = ''color''
           then (if fl_le A (fl_lit A ''0.999'') (ar_opacity area) then annot (Fill (ar_color area)) m
                 else annot NoFill (m\<lparr>pm_tints := pm_tints m @ [(clipped, ar_color area, ar_opacity area)]\<rparr>))
           else annot (fill_of A ''0'') m))"

definition redact_page ::
  "'f arith \<Rightarrow> ('page, 'r, 'f) fitz_lib \<Rightarrow> string list \<Rightarrow> 'f redact_area list \<Rightarrow> 'page \<Rightarrow> 'page \<times> nat" where
  "redact_page A lib terms areas page =
     (let m = fold (mark_area A lib page) areas (mark_terms A lib terms page) in
      if pm_regions m = 0 then (page, 0)
      else (fold (\<lambda>(r, rgb, opacity). fz_tint lib r rgb opacity) (pm_tints m)
             (fold (\<lambda>(r, png). fz_insert_image lib r png) (pm_images m)
               (fz_apply lib (pm_annots m) page)), pm_regions m))"

section \<open>The document\<close>

text \<open>\<open>list(dict.fromkeys(terms))\<close>: the first of each.\<close>

fun first_of_each :: "'a list \<Rightarrow> 'a list" where
  "first_of_each [] = []"
| "first_of_each (x # xs) = x # filter (\<lambda>y. y \<noteq> x) (first_of_each xs)"

definition redact_terms :: "string list \<Rightarrow> string list" where
  "redact_terms texts = first_of_each (filter (\<lambda>t. t \<noteq> []) (map py_strip texts))"

definition missing_terms_message :: "string list \<Rightarrow> nat \<Rightarrow> string" where
  "missing_terms_message missing total_terms =
     (let joined = py_join '', '' (map (\<lambda>t. dquote # t @ [dquote]) missing) in
      if length missing = total_terms
      then ''None of the terms you entered were found in this file: '' @ joined
        @ ''. Check the spelling, spacing and letter case, then try again. (If this is a scanned document, run OCR first so its text becomes searchable.)''
      else ''Redaction was stopped so no sensitive data is left behind: these terms were not found and could not be removed ''
        @ em_dash @ '' '' @ joined @ ''. Correct or remove them, then run the tool again.'')"

definition redact_document ::
  "'f arith \<Rightarrow> ('page, 'r, 'f) fitz_lib \<Rightarrow> string list \<Rightarrow> (int \<times> 'f redact_area) list \<Rightarrow> 'page list
     \<Rightarrow> (py_exc, 'page list \<times> nat) result" where
  "redact_document A lib terms grouped pages =
     (let redacted = map (\<lambda>(index, page). redact_page A lib terms (areas_of grouped index) page) (enumerate 0 pages);
          regions = sum_list (map snd redacted);
          missing = filter (\<lambda>t. sum_list (map (\<lambda>page. length (fz_search lib t page)) pages) = 0) terms
      in if missing \<noteq> [] then processing_error (missing_terms_message missing (length terms))
         else if regions = 0
         then processing_error (''Nothing was redacted '' @ em_dash
                @ '' no matching text or valid areas were found in this document.'')
         else Inr (map fst redacted, regions))"

definition redact_text ::
  "'f arith \<Rightarrow> ('page, 'r, 'f) fitz_lib \<Rightarrow> path \<Rightarrow> path \<Rightarrow> string list \<Rightarrow> 'f raw_area list
     \<Rightarrow> (disk, nat) action" where
  "redact_text A lib source destination texts areas d =
     (let terms = redact_terms texts in
      if terms = [] \<and> areas = []
      then (d, processing_error ''Provide at least one text term or area to redact.'')
      else case fz_open lib (d source) of
        Inl err \<Rightarrow> (d, processing_error (''Could not read the PDF '' @ em_dash
            @ '' it may be corrupted or not a valid PDF: '' @ err))
      | Inr document \<Rightarrow>
          if fd_needs_pass document
          then (d, processing_error ''This PDF is password-protected. Unlock it with the Unlock PDF tool first, then redact it.'')
          else if fd_pages document = [] then (d, processing_error ''The PDF has no pages to redact.'')
          else (case rbind (areas_by_page A areas (length (fd_pages document))) (\<lambda>grouped.
                    redact_document A lib terms grouped (fd_pages document)) of
                  Inl e \<Rightarrow> (d, Inl e)
                | Inr (pages, regions) \<Rightarrow>
                    (case fz_save lib pages of
                       (b, None) \<Rightarrow> (disk_write destination b d, Inr regions)
                     | (b, Some e) \<Rightarrow> (disk_write destination b d, Inl e))))"

section \<open>Lemmas\<close>

lemma set_first_of_each [simp]: "set (first_of_each xs) = set xs"
  by (induction xs) auto

lemma set_redact_terms: "t \<in> set (redact_terms texts) \<longleftrightarrow> t \<noteq> [] \<and> (\<exists>x \<in> set texts. t = py_strip x)"
  by (auto simp: redact_terms_def)

lemma mark_area_mono:
  "set (pm_annots m) \<subseteq> set (pm_annots (mark_area A lib page area m))
    \<and> pm_regions m \<le> pm_regions (mark_area A lib page area m)"
  by (auto simp: mark_area_def Let_def split: option.split)

lemma mark_areas_mono:
  "set (pm_annots m) \<subseteq> set (pm_annots (fold (mark_area A lib page) areas m))
    \<and> pm_regions m \<le> pm_regions (fold (mark_area A lib page) areas m)"
proof (induction areas arbitrary: m)
  case (Cons area areas)
  have "set (pm_annots m) \<subseteq> set (pm_annots (mark_area A lib page area m))
      \<and> pm_regions m \<le> pm_regions (mark_area A lib page area m)" by (rule mark_area_mono)
  with Cons [of "mark_area A lib page area m"] show ?case by auto
qed simp

text \<open>
  What PyMuPDF documents: applying redactions removes the text under their rectangles, images and
  tinted rectangles bring no text, and a saved document opens again.
\<close>

definition redaction_laws :: "('page, 'r, 'f) fitz_lib \<Rightarrow> bool" where
  "redaction_laws lib \<longleftrightarrow>
     (\<forall>t annots page. (\<forall>r \<in> set (fz_search lib t page). r \<in> fst ` set annots)
        \<longrightarrow> fz_search lib t (fz_apply lib annots page) = [])
     \<and> (\<forall>t r png page. fz_search lib t (fz_insert_image lib r png page) = fz_search lib t page)
     \<and> (\<forall>t r rgb a page. fz_search lib t (fz_tint lib r rgb a page) = fz_search lib t page)
     \<and> (\<forall>pages. pages \<noteq> [] \<longrightarrow> snd (fz_save lib pages) = None
          \<and> fz_open lib (Some (fst (fz_save lib pages))) = Inr \<lparr>fd_needs_pass = False, fd_pages = pages\<rparr>)"

lemma search_overlays:
  assumes "redaction_laws lib"
  shows "fz_search lib t (fold (\<lambda>(r, png). fz_insert_image lib r png) images page) = fz_search lib t page"
    and "fz_search lib t (fold (\<lambda>(r, rgb, a). fz_tint lib r rgb a) tints page) = fz_search lib t page"
proof -
  have l: "fz_search lib t (fz_insert_image lib r png page) = fz_search lib t page" for r png page
    using assms unfolding redaction_laws_def by blast
  have l': "fz_search lib t (fz_tint lib r rgb a page) = fz_search lib t page" for r rgb a page
    using assms unfolding redaction_laws_def by blast
  show "fz_search lib t (fold (\<lambda>(r, png). fz_insert_image lib r png) images page) = fz_search lib t page"
    by (induction images arbitrary: page) (auto simp: l split: prod.split)
  show "fz_search lib t (fold (\<lambda>(r, rgb, a). fz_tint lib r rgb a) tints page) = fz_search lib t page"
    by (induction tints arbitrary: page) (auto simp: l' split: prod.split)
qed

lemma redact_page_clean:
  assumes "redaction_laws lib" "t \<in> set terms"
  shows "fz_search lib t (fst (redact_page A lib terms areas page)) = []"
proof -
  let ?start = "mark_terms A lib terms page"
  let ?m = "fold (mark_area A lib page) areas ?start"
  have mono: "set (pm_annots ?start) \<subseteq> set (pm_annots ?m)" "pm_regions ?start \<le> pm_regions ?m"
    using mark_areas_mono [of ?start A lib page areas] by blast+
  have hits: "r \<in> fst ` set (pm_annots ?start)" if "r \<in> set (fz_search lib t page)" for r
  proof -
    have "fst ` set (pm_annots ?start) = (\<Union>t \<in> set terms. set (fz_search lib t page))"
      by (simp add: mark_terms_def Let_def image_image)
    with that assms(2) show ?thesis by blast
  qed
  show ?thesis
  proof (cases "pm_regions ?m = 0")
    case True
    then have "concat (map (\<lambda>t. fz_search lib t page) terms) = []"
      using mono(2) by (simp add: mark_terms_def Let_def)
    then have "fz_search lib t page = []" using assms(2) by auto
    then show ?thesis by (simp add: redact_page_def Let_def True)
  next
    case False
    have "fz_search lib t (fz_apply lib (pm_annots ?m) page) = []"
      using assms(1) hits mono(1) unfolding redaction_laws_def by blast
    then show ?thesis by (simp add: redact_page_def Let_def False search_overlays [OF assms(1)])
  qed
qed

lemma redact_page_untouched:
  assumes "\<forall>t \<in> set terms. fz_search lib t page = []"
  shows "redact_page A lib terms [] page = (page, 0)"
proof -
  have "concat (map (\<lambda>t. fz_search lib t page) terms) = []" using assms by simp
  then show ?thesis by (simp add: redact_page_def mark_terms_def Let_def)
qed

lemma areas_of_named:
  assumes "areas_by_page A areas n = Inr grouped" "areas_of grouped i \<noteq> []"
  shows "\<exists>area \<in> set areas. ra_page area = Some (int i + 1)"
proof -
  obtain g where g: "(int i, g) \<in> set grouped"
    using assms(2) by (auto simp: areas_of_def filter_empty_conv)
  then obtain k where k: "k < length grouped" "grouped ! k = (int i, g)" by (auto simp: in_set_conv_nth)
  from rmap_nth [OF assms(1) [unfolded areas_by_page_def]]
  have len: "length grouped = length areas" and "check_area A n (1 + k) (areas ! k) = Inr (int i, g)"
    using k by (auto simp: nth_enumerate_eq)
  then have "ra_page (areas ! k) = Some (int i + 1)"
    by (auto simp: check_area_def processing_error_def Let_def split: option.splits if_splits)
  with k len show ?thesis by (metis nth_mem)
qed

lemma redact_document_Inr:
  assumes "redaction_laws lib" and "redact_document A lib terms grouped pages = Inr (pages', n)"
  shows "length pages' = length pages \<and> 0 < n
    \<and> (\<forall>t \<in> set terms. (\<exists>p \<in> set pages. fz_search lib t p \<noteq> []) \<and> (\<forall>p \<in> set pages'. fz_search lib t p = []))
    \<and> (\<forall>i < length pages. areas_of grouped i = [] \<and> (\<forall>t \<in> set terms. fz_search lib t (pages ! i) = [])
          \<longrightarrow> pages' ! i = pages ! i)"
proof -
  let ?f = "\<lambda>(index, page). redact_page A lib terms (areas_of grouped index) page"
  let ?hits = "\<lambda>t. sum_list (map (\<lambda>page. length (fz_search lib t page)) pages)"
  have r: "filter (\<lambda>t. ?hits t = 0) terms = []" "pages' = map (fst \<circ> ?f) (enumerate 0 pages)"
      "n \<noteq> 0"
    using assms(2) by (auto simp: redact_document_def Let_def processing_error_def simp del: sum_list_eq_0_iff
        split: if_splits)
  have "\<exists>p \<in> set pages. fz_search lib t p \<noteq> []" if "t \<in> set terms" for t
    using r(1) that by (auto simp: filter_empty_conv)
  moreover have "fz_search lib t p = []" if "t \<in> set terms" "p \<in> set pages'" for t p
    using that redact_page_clean [OF assms(1) that(1)] unfolding r(2) by auto
  moreover have "pages' ! i = pages ! i"
    if "i < length pages" "areas_of grouped i = []" "\<forall>t \<in> set terms. fz_search lib t (pages ! i) = []" for i
    using redact_page_untouched [OF that(3), of A] that(1,2) unfolding r(2) by (simp add: nth_enumerate_eq)
  ultimately show ?thesis using r(2,3) by simp
qed

section \<open>Properties\<close>

text \<open>
  C22: Redaction is complete or refused. When it succeeds, the saved document has as many pages,
  every term was found in the source and is found on no page of the result, something was
  redacted, pages without a term and without an area are as they were, and no other file
  changed. When it does not succeed (for instance because one term was found nowhere), nothing
  is written at all.
\<close>

theorem redaction_complete:
  assumes laws: "redaction_laws lib"
    and run: "redact_text A lib source destination texts areas d = (d', r)"
  shows "case r of
      Inl e \<Rightarrow> d' = d
    | Inr n \<Rightarrow> \<exists>pages pages'. fz_open lib (d source) = Inr \<lparr>fd_needs_pass = False, fd_pages = pages\<rparr>
        \<and> fz_open lib (d' destination) = Inr \<lparr>fd_needs_pass = False, fd_pages = pages'\<rparr>
        \<and> length pages' = length pages \<and> 0 < n \<and> (\<forall>q. q \<noteq> destination \<longrightarrow> d' q = d q)
        \<and> (\<forall>t \<in> set (redact_terms texts). (\<exists>p \<in> set pages. fz_search lib t p \<noteq> [])
              \<and> (\<forall>p \<in> set pages'. fz_search lib t p = []))
        \<and> (\<forall>i < length pages. (\<forall>area \<in> set areas. ra_page area \<noteq> Some (int i + 1))
              \<and> (\<forall>t \<in> set (redact_terms texts). fz_search lib t (pages ! i) = [])
              \<longrightarrow> pages' ! i = pages ! i)"
proof (cases "\<exists>doc. fz_open lib (d source) = Inr doc \<and> \<not> fd_needs_pass doc \<and> fd_pages doc \<noteq> []")
  case False
  then have "d' = d \<and> (\<exists>e. r = Inl e)"
    using run by (auto simp: redact_text_def Let_def processing_error_def split: if_splits sum.splits)
  then show ?thesis by auto
next
  case True
  then obtain pages where doc: "fz_open lib (d source) = Inr \<lparr>fd_needs_pass = False, fd_pages = pages\<rparr>"
    and ne: "pages \<noteq> []" by (metis (full_types) fitz_document.cases fitz_document.select_convs(1,2))
  let ?work = "rbind (areas_by_page A areas (length pages)) (\<lambda>grouped.
      redact_document A lib (redact_terms texts) grouped pages)"
  show ?thesis
  proof (cases ?work)
    case (Inl e)
    then have "d' = d \<and> (\<exists>e. r = Inl e)"
      using run doc ne by (auto simp: redact_text_def Let_def processing_error_def split: if_splits)
    then show ?thesis by auto
  next
    case (Inr res)
    obtain pages' n where res: "res = (pages', n)" by fastforce
    obtain grouped where g: "areas_by_page A areas (length pages) = Inr grouped"
      "redact_document A lib (redact_terms texts) grouped pages = Inr (pages', n)"
      using Inr by (auto simp: rbind_eq_Inr_iff res)
    note doc' = redact_document_Inr [OF laws g(2)]
    then have "pages' \<noteq> []" using ne by auto
    then obtain b where save: "fz_save lib pages' = (b, None)"
        "fz_open lib (Some b) = Inr \<lparr>fd_needs_pass = False, fd_pages = pages'\<rparr>"
      using laws unfolding redaction_laws_def by (metis prod.collapse)
    show ?thesis
    proof (cases "redact_terms texts = [] \<and> areas = []")
      case True
      then show ?thesis using run by (auto simp: redact_text_def processing_error_def)
    next
      case False
      then have "d' = disk_write destination b d" "r = Inr n"
        using run doc ne Inr save(1) by (auto simp: redact_text_def Let_def res)
      moreover have "pages' ! i = pages ! i"
        if "i < length pages" "\<forall>area \<in> set areas. ra_page area \<noteq> Some (int i + 1)"
          "\<forall>t \<in> set (redact_terms texts). fz_search lib t (pages ! i) = []" for i
      proof -
        have "areas_of grouped i = []" using areas_of_named [OF g(1)] that(2) by blast
        with that doc' show ?thesis by blast
      qed
      ultimately show ?thesis
        using doc save(2) doc' by (auto simp: disk_write_def intro!: exI [of _ pages'])
    qed
  qed
qed

text \<open>A page is a byte and a document its pages; the text \<open>S\<close> is on a page with the byte 83.\<close>

definition byte_fitz :: "(8 word, unit, int) fitz_lib" where
  "byte_fitz = \<lparr>
     fz_open = (\<lambda>b. case b of None \<Rightarrow> Inl ''no such file''
       | Some pages \<Rightarrow> Inr \<lparr>fd_needs_pass = False, fd_pages = pages\<rparr>),
     fz_search = (\<lambda>t page. if t = ''S'' \<and> page = 83 then [()] else []),
     fz_clip = (\<lambda>_ _. Some ()),
     fz_apply = (\<lambda>annots page. if annots = [] then page else 0),
     fz_obscured = (\<lambda>_ _ _ _. []), fz_insert_image = (\<lambda>_ _ page. page), fz_tint = (\<lambda>_ _ _ page. page),
     fz_save = (\<lambda>pages. (pages, None))\<rparr>"

lemma byte_fitz_laws: "redaction_laws byte_fitz"
  unfolding redaction_laws_def by (auto simp: byte_fitz_def)

theorem redaction_complete_witness:
  "\<exists>pages. fst (redact_text int_arith byte_fitz [''a''] [''b''] ['' S ''] [] [[''a''] \<mapsto> [10, 83]]) [''b''] = Some pages
    \<and> length pages = 2 \<and> pages ! 0 = 10 \<and> pages ! 1 \<noteq> 83"
proof -
  let ?run = "redact_text int_arith byte_fitz [''a''] [''b''] ['' S ''] [] [[''a''] \<mapsto> [10, 83]]"
  have terms: "redact_terms ['' S ''] = [''S'']" by code_simp
  obtain d' r where run: "?run = (d', r)" by fastforce
  have "snd ?run = Inr 1"
    by (simp add: redact_text_def terms byte_fitz_def areas_by_page_def areas_of_def redact_document_def Let_def
        redact_page_def mark_terms_def enumerate_eq_zip)
  with run have r: "?run = (d', Inr 1)" by simp
  have o: "fz_open byte_fitz b = Inr \<lparr>fd_needs_pass = False, fd_pages = pages\<rparr> \<longleftrightarrow> b = Some pages" for b pages
    by (auto simp: byte_fitz_def split: option.splits)
  from redaction_complete [OF byte_fitz_laws r] obtain pages where
    "d' [''b''] = Some pages" "length pages = 2"
    and clean: "\<forall>p \<in> set pages. fz_search byte_fitz ''S'' p = []"
    and same: "\<forall>i < 2. fz_search byte_fitz ''S'' ([10, 83] ! i) = [] \<longrightarrow> pages ! i = [10, 83] ! i"
    by (auto simp: o terms)
  moreover have "pages ! 0 = 10" using same [rule_format, of 0] by (simp add: byte_fitz_def)
  moreover have "fz_search byte_fitz ''S'' (pages ! 1) = []"
    using clean \<open>length pages = 2\<close> by simp
  then have "pages ! 1 \<noteq> 83" by (simp add: byte_fitz_def split: if_splits)
  ultimately show ?thesis using run by auto
qed

end
