(* ===== verification/PdfDocument.thy ===== *)
theory PdfDocument
  imports PageOps Command "HOL-Library.List_Lexorder"
begin

text \<open>
  The other operations of \<open>app/utils/pdf_document.py\<close>: document information, the comparison of
  two documents and filling forms.

  pypdf is extended (\<open>document_lib\<close>) by what the module uses of it: the information of a file,
  the text of a page, the names of the form fields and filling them. The similarity of two texts
  and their line differences are those of \<open>difflib\<close>, and the percentage is formatted text:
  arguments too (\<open>diff_lib\<close>). The report is the list of the calls on reportlab's canvas.
\<close>

record 'page document_lib = "'page pypdf" +
  dc_metadata :: "bytes option \<Rightarrow> (string \<times> string) list"
  dc_writer_info :: "bytes option \<Rightarrow> (string \<times> string) list" \<comment> \<open>of a writer after \<open>append\<close>\<close>
  dc_write_info :: "'page list \<Rightarrow> (string \<times> string) list \<Rightarrow> bytes \<times> py_exc option"
  dc_text :: "'page \<Rightarrow> string"
  dc_fields :: "bytes option \<Rightarrow> string list"
  dc_fill :: "(string \<times> string) list \<Rightarrow> 'page \<Rightarrow> 'page"
  dc_has_form :: "bytes option \<Rightarrow> bool"
  dc_write_form :: "'page list \<Rightarrow> bool \<Rightarrow> bytes \<times> py_exc option"

definition put_bytes :: "bytes \<times> py_exc option \<Rightarrow> path \<Rightarrow> 'a \<Rightarrow> (disk, 'a) action" where
  "put_bytes written destination value d =
     (disk_write destination (fst written) d, case snd written of None \<Rightarrow> Inr value | Some e \<Rightarrow> Inl e)"

section \<open>Information\<close>

definition meta_keys :: "(string \<times> string) list" where
  "meta_keys = [(''title'', ''/Title''), (''author'', ''/Author''), (''subject'', ''/Subject''),
     (''keywords'', ''/Keywords'')]"

text \<open>\<open>add_metadata\<close>: later entries replace earlier ones of the same key.\<close>

definition add_metadata :: "(string \<times> string) list \<Rightarrow> (string \<times> string) list \<Rightarrow> (string \<times> string) list" where
  "add_metadata info entries =
     fold (\<lambda>(k, v) info. if k \<in> fst ` set info then map (\<lambda>(k', v'). (k', if k' = k then v else v')) info
                        else info @ [(k, v)]) entries info"

definition known_fields :: "(string \<times> string) list \<Rightarrow> (string \<times> string) list" where
  "known_fields given =
     List.map_filter (\<lambda>(k, v). map_option (\<lambda>key. (key, v)) (map_of meta_keys k)) given"

definition set_metadata ::
  "'page document_lib \<Rightarrow> path \<Rightarrow> path \<Rightarrow> (string \<times> string) list \<Rightarrow> bool \<Rightarrow> (disk, path) action" where
  "set_metadata lib source destination given clear_existing =
     abind (open_pdf (pypdf.truncate lib) source None) (\<lambda>reader d.
       (let existing = (if clear_existing then [] else dc_metadata lib (d source));
            info = add_metadata (add_metadata (dc_writer_info lib (d source)) existing) (known_fields given)
        in put_bytes (dc_write_info lib (rd_pages reader) info) destination destination d))"

section \<open>Comparison\<close>

record 'f diff_lib =
  df_ratio :: "string \<Rightarrow> string \<Rightarrow> 'f"
  df_same :: "'f \<Rightarrow> bool" \<comment> \<open>not below 0.999\<close>
  df_unified :: "string \<Rightarrow> string \<Rightarrow> string list"
  df_percent :: "'f \<Rightarrow> string"

definition page_text :: "string list \<Rightarrow> nat \<Rightarrow> string" where
  "page_text pages index = (if index < length pages then pages ! index else [])"

definition diff_line :: "string \<Rightarrow> bool" where
  "diff_line line \<longleftrightarrow> (starts_with ''+'' line \<or> starts_with ''-'' line)
     \<and> \<not> (starts_with ''+++'' line \<or> starts_with ''---'' line)"

definition changed_pages ::
  "'f diff_lib \<Rightarrow> string list \<Rightarrow> string list \<Rightarrow> (nat \<times> 'f \<times> string list) list" where
  "changed_pages df pages_a pages_b =
     List.map_filter (\<lambda>index.
         let text_a = page_text pages_a index; text_b = page_text pages_b index;
             ratio = df_ratio df text_a text_b
         in if df_same df ratio then None
            else Some (index + 1, ratio, take 20 (filter diff_line (df_unified df text_a text_b))))
       [0..<max (length pages_a) (length pages_b)]"

datatype report_op = ShowPage | ReportFont string int | ReportLine int int string

type_synonym report = "int \<times> report_op list" \<comment> \<open>the height of the next line, what was drawn\<close>

definition report_height :: int where
  "report_height = 792"

definition break_below :: "int \<Rightarrow> int \<Rightarrow> report \<Rightarrow> report" where
  "break_below limit font_size rep =
     (if fst rep < limit
      then (report_height - 72, snd rep @ [ShowPage, ReportFont ''Helvetica'' font_size]) else rep)"

definition draw_text :: "int \<Rightarrow> string \<Rightarrow> int \<Rightarrow> report \<Rightarrow> report" where
  "draw_text x line step rep = (fst rep - step, snd rep @ [ReportLine x (fst rep) line])"

definition set_font :: "string \<Rightarrow> int \<Rightarrow> report \<Rightarrow> report" where
  "set_font font n rep = (fst rep, snd rep @ [ReportFont font n])"

definition report_head :: "string \<Rightarrow> string \<Rightarrow> nat \<Rightarrow> nat \<Rightarrow> nat \<Rightarrow> report" where
  "report_head name_a name_b n_a n_b n_changed =
     draw_text 72 (''Changed pages: '' @ nat_str n_changed @ '' of '' @ nat_str (max n_a n_b)
         @ (if n_changed = 0 then '' '' @ [CHR 0xE2, CHR 0x80, CHR 0x94] @ '' documents are textually identical'' else [])) 26
     (draw_text 72 (''Document B: '' @ name_b @ '' ('' @ nat_str n_b @ '' pages)'') 16
     (draw_text 72 (''Document A: '' @ name_a @ '' ('' @ nat_str n_a @ '' pages)'') 16
     (set_font ''Helvetica'' 11
     (draw_text 72 ''PDF Comparison Report'' 28
     (set_font ''Helvetica-Bold'' 16 (report_height - 72, []))))))"

definition report_page :: "'f diff_lib \<Rightarrow> nat \<times> 'f \<times> string list \<Rightarrow> report \<Rightarrow> report" where
  "report_page df entry rep =
     (case entry of (number, ratio, diff) \<Rightarrow>
       (let heading = ''Page '' @ nat_str number @ '' '' @ [CHR 0xE2, CHR 0x80, CHR 0x94] @ '' ''
              @ df_percent df ratio @ ''% similar'';
            start = set_font ''Helvetica'' 9
              (draw_text 72 heading 16 (set_font ''Helvetica-Bold'' 12 (break_below 100 11 rep)));
            body = fold (\<lambda>line rep. draw_text 84 (take 110 line) 12 (break_below 80 9 rep)) diff start
        in (fst body - 8, snd body)))"

definition report_ops :: "'f diff_lib \<Rightarrow> string \<Rightarrow> string \<Rightarrow> string list \<Rightarrow> string list \<Rightarrow> report_op list" where
  "report_ops df name_a name_b pages_a pages_b =
     (let changed = changed_pages df pages_a pages_b
      in snd (fold (report_page df) changed
           (report_head name_a name_b (length pages_a) (length pages_b) (length changed))))"

definition compare_pdfs ::
  "'page document_lib \<Rightarrow> 'f diff_lib \<Rightarrow> (report_op list \<Rightarrow> bytes) \<Rightarrow> path \<Rightarrow> path \<Rightarrow> path
     \<Rightarrow> (disk, nat \<times> nat) action" where
  "compare_pdfs lib df save first second report_path =
     abind (open_pdf (pypdf.truncate lib) first None) (\<lambda>reader_a.
     abind (open_pdf (pypdf.truncate lib) second None) (\<lambda>reader_b.
       (let pages_a = map (dc_text lib) (rd_pages reader_a);
            pages_b = map (dc_text lib) (rd_pages reader_b)
        in put_bytes (save (report_ops df (last_part first) (last_part second) pages_a pages_b), None) report_path
             (length (changed_pages df pages_a pages_b), max (length pages_a) (length pages_b)))))"

section \<open>Forms\<close>

definition fill_form ::
  "'page document_lib \<Rightarrow> path \<Rightarrow> path \<Rightarrow> (string \<times> string) list \<Rightarrow> (disk, nat) action" where
  "fill_form lib source destination given =
     abind (open_pdf (pypdf.truncate lib) source None) (\<lambda>reader d.
       (let available = dc_fields lib (d source);
            matched = filter (\<lambda>(name, value). name \<in> set available) given
        in if available = [] then (d, processing_error ''This PDF has no fillable form fields.'')
           else if matched = []
           then (d, processing_error (''None of the given field names exist. Available fields: ''
                  @ py_join '', '' (take 20 (sort available))))
           else put_bytes (dc_write_form lib (map (dc_fill lib matched) (rd_pages reader))
                  (dc_has_form lib (d source))) destination (length matched) d))"

section \<open>Lemmas\<close>

text \<open>
  Every line of the report is on its page: between the bottom margin of 80 points and the top
  margin, whatever the number and the length of the differences.
\<close>

definition lines_on_page :: "report_op list \<Rightarrow> bool" where
  "lines_on_page ops \<longleftrightarrow> (\<forall>x y line. ReportLine x y line \<in> set ops \<longrightarrow> 80 \<le> y \<and> y \<le> report_height - 72)"

definition report_ok :: "int \<Rightarrow> report \<Rightarrow> bool" where
  "report_ok least rep \<longleftrightarrow> least \<le> fst rep \<and> fst rep \<le> report_height - 72 \<and> lines_on_page (snd rep)"

lemma lines_on_page_simps [simp]:
  "lines_on_page []"
  "lines_on_page (ops @ [ReportFont font n]) = lines_on_page ops"
  "lines_on_page (ops @ [ShowPage, ReportFont font n]) = lines_on_page ops"
  "lines_on_page (ops @ [ReportLine x y line]) \<longleftrightarrow> lines_on_page ops \<and> 80 \<le> y \<and> y \<le> report_height - 72"
  by (auto simp: lines_on_page_def)

lemma report_ok_break: "report_ok b rep \<Longrightarrow> limit \<le> 720 \<Longrightarrow> report_ok limit (break_below limit n rep)"
  by (auto simp: report_ok_def break_below_def report_height_def)

lemma report_ok_draw: "report_ok b rep \<Longrightarrow> 80 \<le> b \<Longrightarrow> 0 \<le> step \<Longrightarrow> report_ok (b - step) (draw_text x line step rep)"
  by (auto simp: report_ok_def draw_text_def)

lemma report_ok_font: "report_ok b rep \<Longrightarrow> report_ok b (set_font font n rep)"
  by (simp add: report_ok_def set_font_def)

lemma report_ok_less: "report_ok b rep \<Longrightarrow> c \<le> b \<Longrightarrow> report_ok c rep"
  by (auto simp: report_ok_def)

lemma report_ok_lines:
  "report_ok 68 rep \<Longrightarrow>
    report_ok 68 (fold (\<lambda>line rep. draw_text 84 (take 110 line) 12 (break_below 80 9 rep)) diff rep)"
proof (induction diff arbitrary: rep)
  case (Cons line diff)
  have "report_ok 68 (draw_text 84 (take 110 line) 12 (break_below 80 9 rep))"
    using report_ok_draw [OF report_ok_break [OF Cons.prems, of 80 9], of 12] by simp
  then show ?case by (simp add: Cons.IH)
qed simp

lemma report_ok_gap: "report_ok 68 rep \<Longrightarrow> report_ok 60 (fst rep - 8, snd rep)"
  by (auto simp: report_ok_def)

lemma report_ok_page: "report_ok 60 rep \<Longrightarrow> report_ok 60 (report_page df entry rep)"
proof -
  obtain number ratio diff where e: "entry = (number, ratio, diff)" by (cases entry)
  assume "report_ok 60 rep"
  then have "report_ok 100 (break_below 100 11 rep)" by (rule report_ok_break) simp
  then have "report_ok (100 - 16) (draw_text 72 heading 16 (set_font ''Helvetica-Bold'' 12 (break_below 100 11 rep)))"
    for heading by (intro report_ok_draw report_ok_font) simp_all
  then have start: "report_ok 68 (set_font ''Helvetica'' 9 (draw_text 72 heading 16
      (set_font ''Helvetica-Bold'' 12 (break_below 100 11 rep))))" for heading
    by (rule report_ok_font [OF report_ok_less]) simp
  show ?thesis
    unfolding e report_page_def prod.case Let_def
    by (rule report_ok_gap [OF report_ok_lines [OF start]])
qed

lemma report_ok_head: "report_ok 60 (report_head name_a name_b n_a n_b n_changed)"
  by (simp add: report_ok_def report_head_def draw_text_def set_font_def report_height_def lines_on_page_def)

lemma report_ok_pages: "report_ok 60 rep \<Longrightarrow> report_ok 60 (fold (report_page df) entries rep)"
  by (induction entries arbitrary: rep) (simp_all add: report_ok_page)

lemma report_lines_on_page: "lines_on_page (report_ops df name_a name_b pages_a pages_b)"
proof -
  let ?changed = "changed_pages df pages_a pages_b"
  have "report_ok 60 (fold (report_page df) ?changed
      (report_head name_a name_b (length pages_a) (length pages_b) (length ?changed)))"
    by (rule report_ok_pages [OF report_ok_head])
  then show ?thesis by (simp add: report_ops_def Let_def report_ok_def)
qed

text \<open>A changed line whose text begins with two signs is left out of the report.\<close>

lemma signed_line_dropped: "\<not> diff_line (''+'' @ ''++'' @ line)" "\<not> diff_line (''-'' @ ''--'' @ line)"
  by (simp_all add: diff_line_def)

lemma put_bytes_Inr:
  "put_bytes written destination v d = (d', Inr w) \<Longrightarrow> d' = disk_write destination (fst written) d \<and> w = v"
  by (auto simp: put_bytes_def split: option.splits)

text \<open>Filling a form succeeds with the number of the given fields the document has, at least one.\<close>

lemma fill_form_Inr:
  assumes "fill_form lib source destination given d = (d', Inr n)"
  shows "n = length (filter (\<lambda>(name, value). name \<in> set (dc_fields lib (d source))) given) \<and> 0 < n
    \<and> (\<forall>q. q \<noteq> destination \<longrightarrow> d' q = d q)"
proof -
  obtain reader where o: "open_pdf (pypdf.truncate lib) source None d = (d, Inr reader)"
    using assms by (auto simp: fill_form_def elim!: abind_Inr_E simp: open_pdf_def)
  show ?thesis
    using assms unfolding fill_form_def
    by (auto simp: abind_def o Let_def processing_error_def disk_write_def dest!: put_bytes_Inr split: if_splits)
qed

section \<open>Properties\<close>

text \<open>
  C25: A comparison changes nothing but its report; the two numbers it returns are the pages whose
  texts differ and the longer length; and every line of the report is on the page, at or above
  the bottom margin, for every number and size of the differences. Two documents with the same
  texts have no changed page.
\<close>

theorem comparison_report:
  assumes "compare_pdfs lib df save first second report_path d = (d', Inr (c, n))"
    and same: "\<And>s. df_same df (df_ratio df s s)"
  shows "\<exists>pages_a pages_b. readable (pypdf.truncate lib) d first pages_a \<and> readable (pypdf.truncate lib) d second pages_b
    \<and> n = max (length pages_a) (length pages_b)
    \<and> c = card {i. i < n \<and> \<not> df_same df (df_ratio df (page_text (map (dc_text lib) pages_a) i)
          (page_text (map (dc_text lib) pages_b) i))}
    \<and> (map (dc_text lib) pages_a = map (dc_text lib) pages_b \<longrightarrow> c = 0)
    \<and> (\<exists>ops. d' = disk_write report_path (save ops) d \<and> lines_on_page ops)"
proof -
  obtain ra rb where ra: "open_pdf (pypdf.truncate lib) first None d = (d, Inr ra)"
    and rb: "open_pdf (pypdf.truncate lib) second None d = (d, Inr rb)"
    using assms(1) by (auto simp: compare_pdfs_def open_pdf_def elim!: abind_Inr_E)
  let ?a = "map (dc_text lib) (rd_pages ra)" and ?b = "map (dc_text lib) (rd_pages rb)"
  have d': "d' = disk_write report_path (save (report_ops df (last_part first) (last_part second) ?a ?b)) d"
    and c: "c = length (changed_pages df ?a ?b)" and n: "n = max (length ?a) (length ?b)"
    using assms(1) by (auto simp: compare_pdfs_def abind_def ra rb Let_def dest!: put_bytes_Inr)
  let ?P = "\<lambda>i. \<not> df_same df (df_ratio df (page_text ?a i) (page_text ?b i))"
  have len: "length (List.map_filter (\<lambda>i. if P i then None else Some (f i)) xs) = length (filter (\<lambda>i. \<not> P i) xs)"
    for P xs and f :: "nat \<Rightarrow> nat \<times> 'f \<times> string list"
    by (induction xs) (simp_all add: map_filter_simps)
  have "c = length (filter ?P [0..<n])" unfolding c changed_pages_def Let_def n by (rule len)
  also have "\<dots> = card {i. i < n \<and> ?P i}"
    by (subst distinct_card [symmetric]) (auto intro!: arg_cong [of _ _ card])
  finally have card: "c = card {i. i < n \<and> ?P i}" .
  have zero: "?a = ?b \<longrightarrow> c = 0"
  proof
    assume "?a = ?b"
    then have "{i. i < n \<and> ?P i} = {}" using same by simp
    then show "c = 0" using card by (simp only: card.empty)
  qed
  show ?thesis
  proof (intro exI conjI)
    show "readable (pypdf.truncate lib) d first (rd_pages ra)" "readable (pypdf.truncate lib) d second (rd_pages rb)"
      using ra rb by (auto simp: readable_def)
    show "n = max (length (rd_pages ra)) (length (rd_pages rb))" using n by simp
  qed (rule card zero d' report_lines_on_page)+
qed

definition byte_document :: "(8 word) document_lib" where
  "byte_document = pypdf.extend byte_lib (document_lib.fields (\<lambda>_. []) (\<lambda>_. []) (\<lambda>pages _. (pages, None))
     (\<lambda>page. if page = 1 then ''a'' else if page = 2 then ''b'' else ''c'') (\<lambda>_. []) (\<lambda>_ page. page) (\<lambda>_. False) (\<lambda>pages _. (pages, None)))"

definition same_text :: "bool diff_lib" where
  "same_text = \<lparr>df_ratio = (=), df_same = (\<lambda>b. b), df_unified = (\<lambda>a b. [''-'' @ a, ''+'' @ b]), df_percent = (\<lambda>_. ''0'')\<rparr>"

lemma byte_document_simps [simp]:
  "pypdf.truncate byte_document = byte_lib" "dc_text byte_document page = (if page = 1 then ''a'' else if page = 2 then ''b'' else ''c'')"
  by (simp_all add: byte_document_def byte_lib_def pypdf.defs document_lib.defs)

theorem comparison_report_witness:
  "\<exists>d' ops. compare_pdfs byte_document same_text (\<lambda>_. [9]) [''a''] [''b''] [''r''] [[''a''] \<mapsto> [1, 2, 3], [''b''] \<mapsto> [1, 5]]
      = (d', Inr (2, 3)) \<and> d' [''r''] = Some [9] \<and> lines_on_page ops"
proof -
  let ?d = "[[''a''] \<mapsto> [1, 2, 3], [''b''] \<mapsto> [1, 5]] :: disk"
  let ?run = "compare_pdfs byte_document same_text (\<lambda>_. [9]) [''a''] [''b''] [''r''] ?d"
  have o: "open_pdf byte_lib p None d = (d, Inr \<lparr>rd_encrypted = False, rd_decrypt = \<lambda>_. 0, rd_pages = b\<rparr>)"
    if "b \<noteq> []" "d p = Some b" for d p b
    using that by (simp add: open_pdf_def byte_lib_def)
  have u: "[0..<3] = [0, 1, 2::nat]" by code_simp
  have oa: "open_pdf byte_lib [''a''] None ?d = (?d, Inr \<lparr>rd_encrypted = False, rd_decrypt = \<lambda>_. 0, rd_pages = [1, 2, 3]\<rparr>)"
    and ob: "open_pdf byte_lib [''b''] None ?d = (?d, Inr \<lparr>rd_encrypted = False, rd_decrypt = \<lambda>_. 0, rd_pages = [1, 5]\<rparr>)"
    by (rule o; simp)+
  let ?t = "\<lambda>bs. map (dc_text byte_document) bs"
  have ts: "page_text (?t [1, 2, 3]) 0 = page_text (?t [1, 5]) 0" "page_text (?t [1, 2, 3]) 1 \<noteq> page_text (?t [1, 5]) 1"
      "page_text (?t [1, 2, 3]) 2 \<noteq> page_text (?t [1, 5]) 2"
    by (simp_all add: page_text_def)
  have n: "max (length (?t [1, 2, 3])) (length (?t [1, 5])) = 3" by simp
  have changed: "length (changed_pages same_text (?t [1, 2, 3]) (?t [1, 5])) = 2"
    unfolding changed_pages_def Let_def n u using ts
    by (simp add: same_text_def map_filter_simps del: list.map byte_document_simps)
  obtain d' r where run': "?run = (d', r)" by fastforce
  have "snd ?run = Inr (2, 3)"
    by (simp add: compare_pdfs_def abind_def oa ob put_bytes_def Let_def changed del: list.map byte_document_simps(2))
  with run' have run: "?run = (d', Inr (2, 3))" by simp
  have same: "df_same same_text (df_ratio same_text s s)" for s by (simp add: same_text_def)
  from comparison_report [OF run same] obtain ops where
    "d' = disk_write [''r''] [9] ?d" "lines_on_page ops" by blast
  moreover from this(1) have "d' [''r''] = Some [9]" by (simp add: disk_write_def)
  ultimately show ?thesis using run by blast
qed

end
