(* ===== verification/PdfTools.thy ===== *)
theory PdfTools
  imports PageOps OcrLanguage PdfObjects
begin

text \<open>
  Compression (\<open>app/utils/ghostscript.py\<close>), OCR and repair (\<open>app/utils/pdf_enhance.py\<close>) and the
  assembly of images (\<open>app/utils/images.py\<close>).

  The world of the programs is the disk. Arguments are the programs, \<open>pikepdf\<close> (\<open>pike_lib\<close>: what
  opening a file gives, with or without recovery, and what saving writes), Pillow and
  \<open>img2pdf\<close> (\<open>image_lib\<close>). Images are prepared in threads in the code; the preparation of one
  image depends on its file only, and results and errors are taken in the order of the images.
\<close>

definition produced :: "path \<Rightarrow> disk \<Rightarrow> bool" where
  "produced output_path d \<longleftrightarrow> d output_path \<noteq> None \<and> d output_path \<noteq> Some []"

definition expect_output :: "path \<Rightarrow> string \<Rightarrow> (disk, path) action" where
  "expect_output output_path message d =
     (d, if produced output_path d then Inr output_path else processing_error message)"

section \<open>Compression\<close>

definition QUALITY_PRESETS :: "(string \<times> string) list" where
  "QUALITY_PRESETS = [(''extreme'', ''/screen''), (''recommended'', ''/ebook''), (''less'', ''/printer'')]"

definition compress_pdf ::
  "('z) tool_settings_scheme \<Rightarrow> disk subprocess \<Rightarrow> path \<Rightarrow> path \<Rightarrow> string \<Rightarrow> (disk, path) action" where
  "compress_pdf cfg prog input_path output_path quality =
     (case map_of QUALITY_PRESETS quality of
        None \<Rightarrow> aresult (processing_error (''Unknown compression quality '' @ quoted quality @ ''.''))
      | Some preset \<Rightarrow>
          abind (aresult (split_launcher (tl_ghostscript_bin cfg))) (\<lambda>argv.
          abind (run_tool cfg prog ''PDF compressor''
              (argv @ [''-sDEVICE=pdfwrite'', ''-dCompatibilityLevel=1.5'', ''-dPDFSETTINGS='' @ preset,
                 ''-dNOPAUSE'', ''-dQUIET'', ''-dBATCH'', ''-dSAFER'', ''-sOutputFile='' @ path_text output_path,
                 path_text input_path]) None) (\<lambda>_.
          expect_output output_path (''Compression produced no output for '' @ quoted (last_part input_path) @ ''.''))))"

section \<open>OCR\<close>

text \<open>The interpreter and the plugin's file are arguments of the machine.\<close>

definition ocrmypdf_launcher ::
  "disk ocr_host \<Rightarrow> string \<Rightarrow> ('z) tool_settings_scheme \<Rightarrow> (py_exc, string list) result" where
  "ocrmypdf_launcher h sys_executable cfg =
     rbind (split_launcher (tl_ocrmypdf_bin cfg)) (\<lambda>launcher.
       Inr (if launcher = [''ocrmypdf''] \<and> ol_which h ''ocrmypdf'' = None
            then [sys_executable, ''-m'', ''ocrmypdf''] else launcher))"

definition ocr_exit_message :: "int \<Rightarrow> string \<Rightarrow> string option" where
  "ocr_exit_message rc name =
     (if rc = 2 then Some (quoted name @ '' does not appear to be a valid PDF, or it is damaged. Try the Repair PDF tool first.'')
      else if rc = 6 then Some (quoted name @ '' already contains selectable text on every page. Enable ''
             @ quoted ''Force OCR'' @ '' to re-recognise it anyway.'')
      else if rc = 8 then Some (quoted name @ '' is password-protected. Unlock it first, then run OCR.'')
      else None)"

record ocr_options =
  oc_language :: string
  oc_deskew :: bool
  oc_rotate_pages :: bool
  oc_force_ocr :: bool

definition ocr_command :: "string list \<Rightarrow> string \<Rightarrow> ocr_options \<Rightarrow> path \<Rightarrow> path \<Rightarrow> string list" where
  "ocr_command argv plugin opts input_path output_path =
     argv @ [''-l'', oc_language opts, ''--output-type'', ''pdf'',
         if oc_force_ocr opts then ''--force-ocr'' else ''--skip-text'']
       @ (if oc_rotate_pages opts then [''--rotate-pages'', ''--rotate-pages-threshold'', ''2''] else [])
       @ (if oc_deskew opts then [''--deskew'', ''--plugin'', plugin] else [])
       @ [path_text input_path, path_text output_path]"

fun ocr_exc :: "string \<Rightarrow> py_exc \<Rightarrow> py_exc" where
  "ocr_exc name (CommandError m ce) =
     (case ocr_exit_message (case ce_returncode ce of None \<Rightarrow> 0 | Some rc \<Rightarrow> rc) name of
        Some message \<Rightarrow> ProcessingError message PROCESSING_FAILED
      | None \<Rightarrow> CommandError m ce)"
| "ocr_exc name e = e"

definition map_exc :: "(py_exc \<Rightarrow> py_exc) \<Rightarrow> ('s, 'a) action \<Rightarrow> ('s, 'a) action" where
  "map_exc f m s = (case m s of (s', Inl e) \<Rightarrow> (s', Inl (f e)) | (s', Inr a) \<Rightarrow> (s', Inr a))"

definition ocr_pdf ::
  "disk ocr_host \<Rightarrow> string \<Rightarrow> string \<Rightarrow> ('z) tool_settings_scheme \<Rightarrow> ocr_options \<Rightarrow> path \<Rightarrow> path
     \<Rightarrow> (disk, path) action" where
  "ocr_pdf h sys_executable plugin cfg opts input_path output_path =
     abind (aresult (ocrmypdf_launcher h sys_executable cfg)) (\<lambda>argv.
     abind (map_exc (ocr_exc (last_part input_path))
         (abind (\<lambda>d. (d, ocr_subprocess_env h cfg d)) (\<lambda>env.
          run_tool_command cfg (ol_prog h) ''OCR engine'' (ocr_command argv plugin opts input_path output_path)
            None None [0] (Some env)))) (\<lambda>_.
     expect_output output_path (''OCR produced no output for '' @ quoted (last_part input_path) @ ''.'')))"

section \<open>Repair\<close>

datatype pike_failure = PasswordError | PikeError string

record 'doc pike_lib =
  pk_open :: "bool \<Rightarrow> bytes option \<Rightarrow> pike_failure + nat \<times> 'doc" \<comment> \<open>pages, document\<close>
  pk_save :: "'doc \<Rightarrow> bytes option \<times> pike_failure option"

definition repair_failure :: "string \<Rightarrow> pike_failure \<Rightarrow> (py_exc, 'a) result" where
  "repair_failure name f =
     (case f of
        PasswordError \<Rightarrow> processing_error (quoted name
          @ '' is password-protected. Use the Unlock PDF tool to remove the password, then run Repair.'')
      | PikeError _ \<Rightarrow> processing_error (quoted name @ '' is too damaged to repair, or is not a valid PDF file.''))"

definition no_recoverable_pages :: "string \<Rightarrow> (py_exc, 'a) result" where
  "no_recoverable_pages name = processing_error (quoted name @ '' contains no recoverable pages.'')"

text \<open>The rewriting: what the first \<open>try\<close> block leaves.\<close>

definition rewrite_pdf :: "'doc pike_lib \<Rightarrow> path \<Rightarrow> path \<Rightarrow> (disk, unit) action" where
  "rewrite_pdf pk input_path output_path d =
     (let name = last_part input_path in
      case pk_open pk True (d input_path) of
        Inl f \<Rightarrow> (d, repair_failure name f)
      | Inr (n, doc) \<Rightarrow>
          if n = 0 then (d, no_recoverable_pages name)
          else (case pk_save pk doc of (written, fault) \<Rightarrow>
            (case written of None \<Rightarrow> d | Some b \<Rightarrow> disk_write output_path b d,
             case fault of None \<Rightarrow> Inr () | Some f \<Rightarrow> repair_failure name f)))"

text \<open>The second block: the output opens without recovery, or is removed.\<close>

definition verify_pdf :: "'doc pike_lib \<Rightarrow> string \<Rightarrow> path \<Rightarrow> (disk, path) action" where
  "verify_pdf pk name output_path d =
     (case pk_open pk False (d output_path) of
        Inl _ \<Rightarrow> (disk_unlink output_path d, processing_error (quoted name
          @ '' is too damaged to repair '' @ [CHR 0xE2, CHR 0x80, CHR 0x94]
          @ '' the recoverable data does not form a valid PDF.''))
      | Inr (n, _) \<Rightarrow>
          if n = 0 then (disk_unlink output_path d, no_recoverable_pages name) else (d, Inr output_path))"

definition repair_pdf :: "'doc pike_lib \<Rightarrow> path \<Rightarrow> path \<Rightarrow> (disk, path) action" where
  "repair_pdf pk input_path output_path =
     abind (rewrite_pdf pk input_path output_path) (\<lambda>_.
     abind (expect_output output_path (''Repair produced no output for '' @ quoted (last_part input_path) @ ''.''))
       (\<lambda>_. verify_pdf pk (last_part input_path) output_path))"

section \<open>Images\<close>

record pil_image =
  pi_mode :: string
  pi_transparent :: bool \<comment> \<open>\<open>"transparency" in image.info\<close>\<close>

record 'f image_lib =
  im_open :: "bytes \<Rightarrow> string + pil_image"
  im_flatten :: "bytes \<Rightarrow> string + bytes" \<comment> \<open>as PNG, on white\<close>
  im_rgb :: "bytes \<Rightarrow> string + bytes" \<comment> \<open>as PNG\<close>
  im_mm_to_pt :: "'f \<Rightarrow> 'f"
  im_assemble :: "bytes list \<Rightarrow> (('f \<times> 'f) \<times> 'f) option \<Rightarrow> bytes \<times> string option"

definition has_alpha :: "pil_image \<Rightarrow> bool" where
  "has_alpha img \<longleftrightarrow> pi_mode img \<in> {''RGBA'', ''LA'', ''PA''} \<or> (pi_mode img = ''P'' \<and> pi_transparent img)"

definition normalise_image :: "'f image_lib \<Rightarrow> bytes option \<Rightarrow> string + bytes" where
  "normalise_image lib content =
     (case content of
        None \<Rightarrow> Inl ''No such file or directory''
      | Some data \<Rightarrow> rbind (im_open lib data) (\<lambda>img.
          if has_alpha img then im_flatten lib data
          else if pi_mode img \<in> {''RGB'', ''L'', ''1'', ''CMYK''} then Inr data
          else im_rgb lib data))"

definition page_sizes_mm :: "'f arith \<Rightarrow> (string \<times> 'f \<times> 'f) list" where
  "page_sizes_mm A = [(''a4'', fl_lit A ''210.0'', fl_lit A ''297.0''), (''letter'', fl_lit A ''215.9'', fl_lit A ''279.4'')]"

definition image_layout ::
  "'f arith \<Rightarrow> 'f image_lib \<Rightarrow> string \<Rightarrow> string \<Rightarrow> 'f \<Rightarrow> (py_exc, (('f \<times> 'f) \<times> 'f) option) result" where
  "image_layout A lib page_size orientation margin_mm =
     (if page_size = ''fit'' then Inr None
      else case map_of (page_sizes_mm A) page_size of
        None \<Rightarrow> Inl (OtherError ''KeyError'' (quoted page_size))
      | Some (width, height) \<Rightarrow>
          (let (width, height) = (if orientation = ''landscape'' then (height, width) else (width, height))
           in Inr (Some ((im_mm_to_pt lib width, im_mm_to_pt lib height), im_mm_to_pt lib margin_mm))))"

definition images_to_pdf ::
  "'f arith \<Rightarrow> 'f image_lib \<Rightarrow> path list \<Rightarrow> path \<Rightarrow> string \<Rightarrow> string \<Rightarrow> 'f \<Rightarrow> (disk, path) action" where
  "images_to_pdf A lib image_paths output_path page_size orientation margin_mm =
     (if image_paths = [] then aresult (processing_error ''No images to combine.'')
      else abind (aresult (image_layout A lib page_size orientation margin_mm)) (\<lambda>layout d.
        (let broken = (\<lambda>err. processing_error (''Could not build a PDF from the supplied images: '' @ err)) in
         case rmap (\<lambda>p. normalise_image lib (d p)) image_paths of
           Inl err \<Rightarrow> (d, broken err)
         | Inr payload \<Rightarrow>
             (case im_assemble lib payload layout of
                (b, None) \<Rightarrow> (disk_write output_path b d, Inr output_path)
              | (b, Some err) \<Rightarrow> (disk_write output_path b d, broken err)))))"

section \<open>Lemmas\<close>

lemma expect_output_Inr:
  "expect_output output_path m d = (d', Inr p) \<longleftrightarrow> d' = d \<and> p = output_path \<and> produced output_path d"
  by (auto simp: expect_output_def processing_error_def)

lemma compress_pdf_produced:
  "compress_pdf cfg prog input_path output_path quality d = (d', Inr p) \<Longrightarrow> p = output_path \<and> produced output_path d'"
  by (auto simp: compress_pdf_def aresult_def processing_error_def expect_output_Inr split: option.splits elim!: abind_Inr_E)

lemma ocr_pdf_produced:
  "ocr_pdf h sys_executable plugin cfg opts input_path output_path d = (d', Inr p) \<Longrightarrow>
    p = output_path \<and> produced output_path d'"
  by (auto simp: ocr_pdf_def expect_output_Inr elim!: abind_Inr_E)

text \<open>The documented exit codes become messages, other failures of the program stay what they are.\<close>

lemma ocr_exc_code:
  "ce_returncode ce = Some rc \<Longrightarrow> ocr_exc name (CommandError m ce) =
    (case ocr_exit_message rc name of Some message \<Rightarrow> ProcessingError message PROCESSING_FAILED | None \<Rightarrow> CommandError m ce)"
  "ce_returncode ce = None \<Longrightarrow> ocr_exc name (CommandError m ce) = CommandError m ce"
  by (simp_all add: ocr_exit_message_def)

text \<open>An image without transparency in one of the common modes is embedded as it is.\<close>

lemma normalise_image_lossless:
  "im_open lib data = Inr img \<Longrightarrow> \<not> has_alpha img \<Longrightarrow> pi_mode img \<in> {''RGB'', ''L'', ''1'', ''CMYK''} \<Longrightarrow>
    normalise_image lib (Some data) = Inr data"
  by (simp add: normalise_image_def)

lemma rewrite_pdf_frame: "rewrite_pdf pk input_path output_path d = (d', r) \<Longrightarrow> q \<noteq> output_path \<Longrightarrow> d' q = d q"
  by (auto simp: rewrite_pdf_def Let_def disk_write_def split: sum.splits if_splits prod.splits option.splits)

lemma verify_pdf_cases:
  assumes "verify_pdf pk name output_path d = (d', r)"
  shows "(r = Inr output_path \<and> d' = d \<and> (\<exists>n doc. pk_open pk False (d output_path) = Inr (n, doc) \<and> 0 < n))
    \<or> ((\<exists>e. r = Inl e) \<and> d' = disk_unlink output_path d)"
  using assms
  by (auto simp: verify_pdf_def no_recoverable_pages_def processing_error_def split: sum.splits if_splits prod.splits)

section \<open>Properties\<close>

text \<open>
  C23: A file handed back as repaired is repaired: it is not empty, it opens without recovery and
  has pages. When the rewriting went through but its result does not open strictly, the repair
  fails and the output is removed. The input and all other files stay as they are.
\<close>

theorem repair_verified:
  assumes "repair_pdf pk input_path output_path d = (d', r)"
  shows "(\<forall>p. r = Inr p \<longrightarrow> p = output_path \<and> (\<exists>b n doc. d' output_path = Some b \<and> b \<noteq> []
        \<and> pk_open pk False (Some b) = Inr (n, doc) \<and> 0 < n))
    \<and> (\<forall>d1. rewrite_pdf pk input_path output_path d = (d1, Inr ()) \<and> produced output_path d1
        \<and> (\<forall>n doc. pk_open pk False (d1 output_path) = Inr (n, doc) \<longrightarrow> n = 0)
        \<longrightarrow> (\<exists>e. r = Inl e) \<and> d' output_path = None)
    \<and> (\<forall>q. q \<noteq> output_path \<longrightarrow> d' q = d q)"
proof -
  obtain d1 r1 where one: "rewrite_pdf pk input_path output_path d = (d1, r1)" by fastforce
  note frame = rewrite_pdf_frame [OF one]
  show ?thesis
  proof (cases "r1 = Inr () \<and> produced output_path d1")
    case False
    then have "d' = d1 \<and> (\<exists>e. r = Inl e)"
      using assms one by (auto simp: repair_pdf_def abind_def expect_output_def processing_error_def split: sum.splits)
    with False one frame show ?thesis by auto
  next
    case True
    then have v: "verify_pdf pk (last_part input_path) output_path d1 = (d', r)"
      using assms one by (simp add: repair_pdf_def abind_def expect_output_def)
    from True obtain b where b: "d1 output_path = Some b" "b \<noteq> []" by (auto simp: produced_def)
    from verify_pdf_cases [OF v] show ?thesis
      using one True frame b by (auto simp: disk_unlink_def)
  qed
qed

text \<open>Documents are bytes that count their pages; recovery reads everything, strictly 255 is broken.\<close>

definition demo_pike :: "bytes pike_lib" where
  "demo_pike = \<lparr>
     pk_open = (\<lambda>recovery b. case b of None \<Rightarrow> Inl (PikeError ''missing'')
       | Some content \<Rightarrow> if \<not> recovery \<and> 255 \<in> set content then Inl (PikeError ''broken'')
           else Inr (length content, content)),
     pk_save = (\<lambda>content. (Some content, None))\<rparr>"

theorem repair_verified_witness:
  "repair_pdf demo_pike [''a''] [''b''] [[''a''] \<mapsto> [1, 2]] = ([[''a''] \<mapsto> [1, 2], [''b''] \<mapsto> [1, 2]], Inr [''b''])
    \<and> fst (repair_pdf demo_pike [''a''] [''b''] [[''a''] \<mapsto> [1, 255]]) [''b''] = None"
proof -
  obtain d' r where run: "repair_pdf demo_pike [''a''] [''b''] [[''a''] \<mapsto> [1, 255]] = (d', r)" by fastforce
  have "rewrite_pdf demo_pike [''a''] [''b''] [[''a''] \<mapsto> [1, 255]]
      = ([[''a''] \<mapsto> [1, 255], [''b''] \<mapsto> [1, 255]], Inr ())"
    by (simp add: rewrite_pdf_def demo_pike_def disk_write_def)
  moreover have "produced [''b''] [[''a''] \<mapsto> [1, 255], [''b''] \<mapsto> [1, 255]]" by (simp add: produced_def)
  moreover have "\<forall>n doc. pk_open demo_pike False (([[''a''] \<mapsto> [1, 255], [''b''] \<mapsto> [1, 255]]) [''b'']) = Inr (n, doc) \<longrightarrow> n = 0"
    by (simp add: demo_pike_def)
  ultimately have "d' [''b''] = None" using repair_verified [OF run] by blast
  moreover have "repair_pdf demo_pike [''a''] [''b''] [[''a''] \<mapsto> [1, 2]]
      = ([[''a''] \<mapsto> [1, 2], [''b''] \<mapsto> [1, 2]], Inr [''b''])"
    by (simp add: repair_pdf_def rewrite_pdf_def verify_pdf_def expect_output_def produced_def demo_pike_def
        abind_def disk_write_def)
  ultimately show ?thesis using run by simp
qed

end
