(* ===== verification/PdfConvert.thy ===== *)
theory PdfConvert
  imports PdfTools "HOL-Library.Multiset"
begin

text \<open>
  \<open>app/utils/pdf_convert.py\<close>: PDF to Word. The pre-flight check, the converter with its fallback,
  and the finishing pass over the document that marks right-to-left text and puts the properties
  of paragraphs and runs into the order of the schema.

  PyMuPDF, pdf2docx, pikepdf and python-docx are parameters. A document is the list of its
  paragraphs in the order of the XML; the children of a property element are a list of elements
  of some type \<open>'e\<close> with a tag. Text is a list of code points (\<open>utext\<close> of theory \<open>OcrLanguage\<close>).
  The libraries are taken to be installed.
\<close>

section \<open>Pre-flight\<close>

record text_block =
  tb_content :: utext
  tb_kind :: int

record fitz_pdf =
  fp_needs_pass :: bool
  fp_authenticates :: bool \<comment> \<open>\<open>authenticate("")\<close> succeeds\<close>
  fp_encrypted :: bool \<comment> \<open>\<open>is_encrypted\<close>, after authenticating when a password was needed\<close>
  fp_pages :: "text_block list list"

type_synonym fitz_reader = "bytes option \<Rightarrow> string + fitz_pdf"

definition MIN_PAGES_FOR_PARALLEL :: nat where "MIN_PAGES_FOR_PARALLEL = 8"
definition MAX_CONVERT_WORKERS :: nat where "MAX_CONVERT_WORKERS = 4"

definition page_parallel_workers :: "bool \<Rightarrow> nat option \<Rightarrow> fitz_reader \<Rightarrow> bytes option \<Rightarrow> nat" where
  "page_parallel_workers can_spawn cpu_count reader content =
     (if \<not> can_spawn then 0
      else case reader content of
        Inl _ \<Rightarrow> 0
      | Inr pdf \<Rightarrow>
          if length (fp_pages pdf) < MIN_PAGES_FOR_PARALLEL then 0
          else max 2 (min MAX_CONVERT_WORKERS (case cpu_count of None \<Rightarrow> 1 | Some n \<Rightarrow> if n = 0 then 1 else n)))"

definition unlock_first :: "string \<Rightarrow> (py_exc, 'a) result" where
  "unlock_first name = processing_error (quoted name
     @ '' is password-protected. Use the Unlock PDF tool to remove the password, then convert it.'')"

text \<open>\<open>Inr needs_normalize\<close>.\<close>

definition inspect_pdf :: "fitz_reader \<Rightarrow> string \<Rightarrow> bytes option \<Rightarrow> (py_exc, bool) result" where
  "inspect_pdf reader name content =
     (case reader content of
        Inl _ \<Rightarrow> Inr True
      | Inr pdf \<Rightarrow>
          if fp_needs_pass pdf \<and> \<not> fp_authenticates pdf then unlock_first name
          else if \<not> (fp_encrypted pdf \<or> fp_needs_pass pdf) \<and> fp_pages pdf = []
          then processing_error (quoted name @ '' contains no pages.'')
          else Inr (fp_encrypted pdf \<or> fp_needs_pass pdf))"

definition shown_name :: "string option \<Rightarrow> path \<Rightarrow> string" where
  "shown_name display_name p = py_or (case display_name of None \<Rightarrow> [] | Some n \<Rightarrow> n) (last_part p)"

definition prepare_pdf ::
  "fitz_reader \<Rightarrow> 'doc pike_lib \<Rightarrow> path \<Rightarrow> path \<Rightarrow> string option \<Rightarrow> (disk, path) action" where
  "prepare_pdf reader pk input_path workspace display_name d =
     (let name = shown_name display_name input_path;
          normalized = workspace @ [name_stem (last_part input_path) @ ''-normalized.pdf''];
          damaged = processing_error (quoted name
            @ '' could not be read '' @ [CHR 0xE2, CHR 0x80, CHR 0x94]
            @ '' the file appears to be damaged or is not a valid PDF.'');
          failure = (\<lambda>f. case f of PasswordError \<Rightarrow> unlock_first name | PikeError _ \<Rightarrow> damaged)
      in case inspect_pdf reader name (d input_path) of
           Inl e \<Rightarrow> (d, Inl e)
         | Inr False \<Rightarrow> (d, Inr input_path)
         | Inr True \<Rightarrow>
             (case pk_open pk True (d input_path) of
                Inl f \<Rightarrow> (d, failure f)
              | Inr (_, doc) \<Rightarrow>
                  (case pk_save pk doc of (written, fault) \<Rightarrow>
                    (case written of None \<Rightarrow> d | Some b \<Rightarrow> disk_write normalized b d,
                     case fault of None \<Rightarrow> Inr normalized | Some f \<Rightarrow> failure f))))"

section \<open>The order of properties\<close>

definition PPR_ORDER :: "string list" where
  "PPR_ORDER = [''pStyle'', ''keepNext'', ''keepLines'', ''pageBreakBefore'', ''framePr'', ''widowControl'',
     ''numPr'', ''suppressLineNumbers'', ''pBdr'', ''shd'', ''tabs'', ''suppressAutoHyphens'', ''kinsoku'',
     ''wordWrap'', ''overflowPunct'', ''topLinePunct'', ''autoSpaceDE'', ''autoSpaceDN'', ''bidi'',
     ''adjustRightInd'', ''snapToGrid'', ''spacing'', ''ind'', ''contextualSpacing'', ''mirrorIndents'',
     ''suppressOverlap'', ''jc'', ''textDirection'', ''textAlignment'', ''textboxTightWrap'', ''outlineLvl'',
     ''divId'', ''cnfStyle'', ''rPr'', ''sectPr'', ''pPrChange'']"

definition RPR_ORDER :: "string list" where
  "RPR_ORDER = [''rStyle'', ''rFonts'', ''b'', ''bCs'', ''i'', ''iCs'', ''caps'', ''smallCaps'', ''strike'',
     ''dstrike'', ''outline'', ''shadow'', ''emboss'', ''imprint'', ''noProof'', ''snapToGrid'', ''vanish'',
     ''webHidden'', ''color'', ''spacing'', ''w'', ''kern'', ''position'', ''sz'', ''szCs'', ''highlight'', ''u'',
     ''effect'', ''bdr'', ''shd'', ''fitText'', ''vertAlign'', ''rtl'', ''cs'', ''em'', ''lang'',
     ''eastAsianLayout'', ''specVanish'', ''oMath'']"

text \<open>\<open>ranks[tag]\<close>: the position of a tag in the schema's sequence.\<close>

definition rank_of :: "string list \<Rightarrow> string \<Rightarrow> int option" where
  "rank_of order tag = map_of (zip order (map int [0..<length order])) tag"

definition tags_after :: "string list \<Rightarrow> string \<Rightarrow> string list" where
  "tags_after order tag = tl (dropWhile (\<lambda>t. t \<noteq> tag) order)"

text \<open>The key of a child: its rank, or that of the child before it, or -1.\<close>

definition child_key :: "('e \<Rightarrow> int option) \<Rightarrow> 'e option \<Rightarrow> 'e \<Rightarrow> int" where
  "child_key rank previous child =
     (case rank child of
        Some r \<Rightarrow> r
      | None \<Rightarrow> (case previous of None \<Rightarrow> -1 | Some p \<Rightarrow> (case rank p of Some r \<Rightarrow> r | None \<Rightarrow> -1)))"

definition keyed_children :: "('e \<Rightarrow> int option) \<Rightarrow> 'e list \<Rightarrow> (int \<times> 'e) list" where
  "keyed_children rank children =
     map (\<lambda>(previous, child). (child_key rank previous child, child))
       (zip (None # map Some children) children)"

definition reorder_children :: "('e \<Rightarrow> int option) \<Rightarrow> 'e list \<Rightarrow> 'e list" where
  "reorder_children rank children =
     (if length children < 2 then children else map snd (sort_key fst (keyed_children rank children)))"

section \<open>Documents\<close>

record 'e docx_run =
  dr_text :: utext
  dr_props :: "'e list"

record 'e docx_paragraph =
  dp_text :: utext
  dp_props :: "'e list"
  dp_runs :: "'e docx_run list"
  dp_extra :: "'e list list" \<comment> \<open>the other \<open>w:rPr\<close> elements of the paragraph\<close>

record 'e docx_lib =
  dx_open :: "bytes option \<Rightarrow> string + 'e docx_paragraph list"
  dx_save :: "'e docx_paragraph list \<Rightarrow> bytes \<times> string option"
  dx_tag :: "'e \<Rightarrow> string"
  dx_new :: "string \<Rightarrow> 'e"
  dx_insert_before :: "'e \<Rightarrow> string list \<Rightarrow> 'e list \<Rightarrow> 'e list"
  dx_letter :: "nat \<Rightarrow> bool"

definition rtl_char :: "nat \<Rightarrow> bool" where
  "rtl_char c \<longleftrightarrow> (0x590 \<le> c \<and> c \<le> 0x5FF) \<or> (0x600 \<le> c \<and> c \<le> 0x6FF) \<or> (0x700 \<le> c \<and> c \<le> 0x74F)
     \<or> (0x780 \<le> c \<and> c \<le> 0x7BF) \<or> (0x7C0 \<le> c \<and> c \<le> 0x7FF) \<or> (0x800 \<le> c \<and> c \<le> 0x85F)
     \<or> (0x8A0 \<le> c \<and> c \<le> 0x8FF) \<or> (0xFB1D \<le> c \<and> c \<le> 0xFDFF) \<or> (0xFE70 \<le> c \<and> c \<le> 0xFEFF)"

text \<open>
  The quotient of the counts is not below 0.4. In double precision the comparison is the one of
  the fractions for all texts that fit into memory.
\<close>

definition rtl_dominates :: "(nat \<Rightarrow> bool) \<Rightarrow> utext \<Rightarrow> bool" where
  "rtl_dominates letter txt \<longleftrightarrow>
     (let letters = length (filter letter txt)
      in 0 < letters \<and> 2 * letters \<le> 5 * length (filter rtl_char txt))"

definition ensure_tag :: "'e docx_lib \<Rightarrow> string \<Rightarrow> string list \<Rightarrow> 'e list \<Rightarrow> 'e list" where
  "ensure_tag lib tag later children =
     (if tag \<in> set (map (dx_tag lib) children) then children
      else dx_insert_before lib (dx_new lib tag) later children)"

definition mark_run :: "'e docx_lib \<Rightarrow> 'e docx_run \<Rightarrow> 'e docx_run" where
  "mark_run lib run =
     (if list_ex rtl_char (dr_text run)
      then run\<lparr>dr_props := ensure_tag lib ''rtl'' (tags_after RPR_ORDER ''rtl'') (dr_props run)\<rparr> else run)"

definition mark_paragraph :: "'e docx_lib \<Rightarrow> 'e docx_paragraph \<Rightarrow> 'e docx_paragraph" where
  "mark_paragraph lib p =
     (if rtl_dominates (dx_letter lib) (dp_text p)
      then p\<lparr>dp_props := ensure_tag lib ''bidi'' (tags_after PPR_ORDER ''bidi'') (dp_props p),
             dp_runs := map (mark_run lib) (dp_runs p)\<rparr>
      else p)"

definition ppr_rank :: "'e docx_lib \<Rightarrow> 'e \<Rightarrow> int option" where
  "ppr_rank lib e = rank_of PPR_ORDER (dx_tag lib e)"

definition rpr_rank :: "'e docx_lib \<Rightarrow> 'e \<Rightarrow> int option" where
  "rpr_rank lib e = rank_of RPR_ORDER (dx_tag lib e)"

definition order_paragraph :: "'e docx_lib \<Rightarrow> 'e docx_paragraph \<Rightarrow> 'e docx_paragraph" where
  "order_paragraph lib p =
     p\<lparr>dp_props := reorder_children (ppr_rank lib) (dp_props p),
       dp_runs := map (\<lambda>r. r\<lparr>dr_props := reorder_children (rpr_rank lib) (dr_props r)\<rparr>) (dp_runs p),
       dp_extra := map (reorder_children (rpr_rank lib)) (dp_extra p)\<rparr>"

text \<open>The property lists of a document, for counting those that were out of order.\<close>

definition paragraph_lists :: "'e docx_paragraph \<Rightarrow> 'e list list" where
  "paragraph_lists p = dp_props p # map dr_props (dp_runs p) @ dp_extra p"

definition normalize_property_order ::
  "'e docx_lib \<Rightarrow> 'e docx_paragraph list \<Rightarrow> 'e docx_paragraph list \<times> nat" where
  "normalize_property_order lib doc =
     (let doc' = map (order_paragraph lib) doc
      in (doc', length (filter (\<lambda>(a, b). a \<noteq> b)
            (zip (concat (map paragraph_lists doc)) (concat (map paragraph_lists doc'))))))"

definition apply_rtl_direction :: "'e docx_lib \<Rightarrow> path \<Rightarrow> disk \<Rightarrow> disk \<times> (string + nat)" where
  "apply_rtl_direction lib output_path d =
     (case dx_open lib (d output_path) of
        Inl err \<Rightarrow> (d, Inl err)
      | Inr doc \<Rightarrow>
          (let flipped = length (filter (\<lambda>p. rtl_dominates (dx_letter lib) (dp_text p)) doc);
               (doc', reordered) = normalize_property_order lib (map (mark_paragraph lib) doc)
           in if 0 < flipped \<or> 0 < reordered
              then (case dx_save lib doc' of (b, fault) \<Rightarrow>
                (disk_write output_path b d, case fault of None \<Rightarrow> Inr flipped | Some err \<Rightarrow> Inl err))
              else (d, Inr flipped)))"

section \<open>Conversion\<close>

datatype fallback_op = AddParagraph utext | AddPicture nat | AddPageBreak

definition page_blocks :: "(utext \<Rightarrow> utext) \<Rightarrow> text_block list \<Rightarrow> utext list" where
  "page_blocks strip blocks =
     map (\<lambda>b. strip (tb_content b)) (filter (\<lambda>b. strip (tb_content b) \<noteq> [] \<and> tb_kind b = 0) blocks)"

definition fallback_start :: "int option \<Rightarrow> int" where
  "fallback_start first_page = (case first_page of None \<Rightarrow> 0 | Some n \<Rightarrow> if n = 0 then 0 else n - 1)"

definition fallback_stop :: "int option \<Rightarrow> nat \<Rightarrow> int" where
  "fallback_stop last_page n =
     min (case last_page of None \<Rightarrow> int n | Some k \<Rightarrow> if k = 0 then int n else k) (int n)"

definition fallback_ops ::
  "(utext \<Rightarrow> utext) \<Rightarrow> text_block list list \<Rightarrow> int option \<Rightarrow> int option \<Rightarrow> fallback_op list" where
  "fallback_ops strip pages first_page last_page =
     (let start = fallback_start first_page; stop = fallback_stop last_page (length pages)
      in concat (map (\<lambda>number.
           (case page_blocks strip (pages ! nat number) of
              [] \<Rightarrow> [AddPicture (nat number)] | contents \<Rightarrow> map AddParagraph contents)
           @ (if number + 1 < stop then [AddPageBreak] else [])) [start..stop - 1]))"

text \<open>
  pdf2docx: opening a file (its error), and what converting a range of pages writes, with the error
  that ends it. The number of processes only changes how long it takes. The fallback's document
  is saved by python-docx.
\<close>

record convert_lib =
  cv_open :: "bytes option \<Rightarrow> string option"
  cv_convert :: "bytes option \<Rightarrow> int \<Rightarrow> int option \<Rightarrow> bytes option \<times> string option"
  cv_save_fallback :: "fallback_op list \<Rightarrow> bytes \<times> string option"
  cv_strip :: "utext \<Rightarrow> utext"

definition fallback_pdf_to_docx ::
  "convert_lib \<Rightarrow> fitz_reader \<Rightarrow> path \<Rightarrow> path \<Rightarrow> int option \<Rightarrow> int option \<Rightarrow> disk \<Rightarrow> disk \<times> (string + unit)" where
  "fallback_pdf_to_docx cv reader input_path output_path first_page last_page d =
     (case reader (d input_path) of
        Inl err \<Rightarrow> (d, Inl err)
      | Inr pdf \<Rightarrow>
          (case cv_save_fallback cv (fallback_ops (cv_strip cv) (fp_pages pdf) first_page last_page) of
             (b, fault) \<Rightarrow> (disk_write output_path b d, case fault of None \<Rightarrow> Inr () | Some err \<Rightarrow> Inl err)))"

text \<open>The converter with its fallback: what the two \<open>try\<close> statements leave.\<close>

definition convert_pages ::
  "convert_lib \<Rightarrow> fitz_reader \<Rightarrow> string \<Rightarrow> path \<Rightarrow> path \<Rightarrow> int option \<Rightarrow> int option \<Rightarrow> (disk, unit) action" where
  "convert_pages cv reader name input_path output_path first_page last_page d =
     (case cv_open cv (d input_path) of
        Some _ \<Rightarrow> (d, processing_error (quoted name @ '' could not be opened as a PDF ''
            @ [CHR 0xE2, CHR 0x80, CHR 0x94] @ '' the file appears to be damaged.''))
      | None \<Rightarrow>
          (case cv_convert cv (d input_path) (fallback_start first_page) last_page of
             (written, fault) \<Rightarrow>
               (let d1 = (case written of None \<Rightarrow> d | Some b \<Rightarrow> disk_write output_path b d) in
                case fault of
                  None \<Rightarrow> (d1, Inr ())
                | Some exc \<Rightarrow>
                    (case fallback_pdf_to_docx cv reader input_path output_path first_page last_page d1 of
                       (d2, Inr _) \<Rightarrow> (d2, Inr ())
                     | (d2, Inl _) \<Rightarrow> (d2, processing_error (''Could not convert '' @ quoted name
                         @ '' to Word. The file may be damaged or use unsupported features. (Converter said: ''
                         @ exc @ '')''))))))"

definition pdf_to_docx ::
  "convert_lib \<Rightarrow> fitz_reader \<Rightarrow> 'e docx_lib \<Rightarrow> path \<Rightarrow> path \<Rightarrow> int option \<Rightarrow> int option \<Rightarrow> string option
     \<Rightarrow> (disk, path) action" where
  "pdf_to_docx cv reader lib input_path output_path first_page last_page display_name =
     (let name = shown_name display_name input_path in
      abind (convert_pages cv reader name input_path output_path first_page last_page) (\<lambda>_.
      abind (expect_output output_path (''Converting '' @ quoted name @ '' produced an empty document.'')) (\<lambda>_ d.
      (fst (apply_rtl_direction lib output_path d), Inr output_path))))"

section \<open>Lemmas\<close>

lemma map_snd_keyed [simp]: "map snd (keyed_children rank children) = children"
  by (rule nth_equalityI) (simp_all add: keyed_children_def case_prod_beta)

lemma keyed_known:
  "(k, c) \<in> set (keyed_children rank children) \<Longrightarrow> rank c = Some r \<Longrightarrow> k = r"
  by (auto simp: keyed_children_def child_key_def)

lemma reorder_children_sorted:
  "reorder_children rank children = map snd (sort_key fst (keyed_children rank children))"
proof (cases "length children < 2")
  case True
  then consider "children = []" | c where "children = [c]" by (cases children) (auto simp: Suc_lessI)
  then show ?thesis by cases (simp_all add: reorder_children_def keyed_children_def)
qed (simp add: reorder_children_def)

text \<open>
  The comment says that unknown elements keep their relative position. One that follows another
  unknown element is ranked before everything, so two of them change places.
\<close>

lemma unknown_elements_swap:
  "reorder_children (rank_of RPR_ORDER) [''b'', ''x'', ''y''] = [''y'', ''b'', ''x'']"
  by code_simp

subsection \<open>Conversion\<close>

lemma apply_rtl_frame: "q \<noteq> output_path \<Longrightarrow> fst (apply_rtl_direction lib output_path d) q = d q"
  by (auto simp: apply_rtl_direction_def Let_def disk_write_def split: sum.split prod.split)

text \<open>
  A file that opens is converted whenever the converter, or after its failure the fallback, writes
  a document; a failure of the finishing pass does not matter.
\<close>

lemma conversion_succeeds:
  assumes "cv_open cv (d input_path) = None"
    and "cv_convert cv (d input_path) (fallback_start first_page) last_page = (written, fault)"
    and "(fault = None \<and> (\<exists>b. written = Some b \<and> b \<noteq> []))
      \<or> (fault \<noteq> None \<and> (\<exists>pdf b. input_path \<noteq> output_path \<and> reader (d input_path) = Inr pdf \<and> b \<noteq> []
          \<and> cv_save_fallback cv (fallback_ops (cv_strip cv) (fp_pages pdf) first_page last_page) = (b, None)))"
  shows "snd (pdf_to_docx cv reader lib input_path output_path first_page last_page display_name d) = Inr output_path"
proof -
  have "\<exists>d1. convert_pages cv reader (shown_name display_name input_path) input_path output_path first_page last_page d
      = (d1, Inr ()) \<and> produced output_path d1"
  proof (cases fault)
    case None
    then obtain b where "written = Some b" "b \<noteq> []" using assms(3) by auto
    with None assms(1,2) show ?thesis
      by (simp add: convert_pages_def produced_def disk_write_def)
  next
    case (Some exc)
    then obtain pdf b where "input_path \<noteq> output_path" "reader (d input_path) = Inr pdf" "b \<noteq> []"
      "cv_save_fallback cv (fallback_ops (cv_strip cv) (fp_pages pdf) first_page last_page) = (b, None)"
      using assms(3) by auto
    with Some assms(1,2) show ?thesis
      by (cases written)
        (simp_all add: convert_pages_def fallback_pdf_to_docx_def produced_def disk_write_def Let_def)
  qed
  then show ?thesis
    by (auto simp: pdf_to_docx_def Let_def abind_def expect_output_def)
qed

section \<open>Properties\<close>

text \<open>
  C24: Reordering the properties of a paragraph or a run loses nothing and invents nothing, puts
  the elements of known tags into the order of the schema, and keeps elements of the same tag in
  the order they had.
\<close>

theorem properties_reordered:
  "mset (reorder_children rank children) = mset children
    \<and> sorted (map (\<lambda>c. the (rank c)) (filter (\<lambda>c. rank c \<noteq> None) (reorder_children rank children)))
    \<and> (\<forall>k. filter (\<lambda>c. rank c = Some k) (reorder_children rank children) = filter (\<lambda>c. rank c = Some k) children)"
proof -
  let ?zs = "keyed_children rank children"
  have "mset (reorder_children rank children) = image_mset snd (mset ?zs)"
    by (simp add: reorder_children_sorted)
  also have "\<dots> = mset (map snd ?zs)" by (simp only: mset_map)
  finally have perm: "mset (reorder_children rank children) = mset children" by simp
  have filtered: "filter P (reorder_children rank children) = map snd (sort_key fst (filter (P \<circ> snd) ?zs))" for P
    by (simp add: reorder_children_sorted filter_map filter_sort comp_def)
  let ?known = "filter ((\<lambda>c. rank c \<noteq> None) \<circ> snd) ?zs"
  have "map (\<lambda>c. the (rank c)) (map snd (sort_key fst ?known)) = map fst (sort_key fst ?known)"
    using keyed_known [of _ _ rank children] by (auto simp: comp_def intro!: map_cong) force
  then have sorted: "sorted (map (\<lambda>c. the (rank c)) (filter (\<lambda>c. rank c \<noteq> None) (reorder_children rank children)))"
    unfolding filtered by (simp del: map_map)
  have "filter (\<lambda>c. rank c = Some k) (reorder_children rank children) = filter (\<lambda>c. rank c = Some k) children" for k
  proof -
    let ?same = "filter ((\<lambda>c. rank c = Some k) \<circ> snd) ?zs"
    have "map fst ?same = replicate (length ?same) k"
      using keyed_known [of _ _ rank children k] by (intro replicate_eqI) auto
    then have "sort_key fst ?same = ?same" by (intro sort_key_id_if_sorted) simp
    then have "filter (\<lambda>c. rank c = Some k) (reorder_children rank children) = map snd ?same" by (simp only: filtered)
    also have "\<dots> = filter (\<lambda>c. rank c = Some k) (map snd ?zs)" by (simp only: filter_map)
    finally show ?thesis by simp
  qed
  with perm sorted show ?thesis by blast
qed

end
