(* ===== verification/ToolTasks.thy ===== *)
theory ToolTasks
  imports JobRunner PdfOverlay Poppler PdfSecurity Office PdfRedact PdfDocument PdfConvert ToolCatalog
begin

text \<open>
  The processors of \<open>app/tasks/tools\<close>: what each tool does with the inputs of its job, by the
  operations of the utilities. The libraries and programs these take as arguments are the fields
  of one record (\<open>toolbox\<close>).

  The options of a job have passed the tool's schema, so an option is absent, null, or of its
  type; the readers below take a value of another type as absent. A conversion by LibreOffice
  (theory \<open>Office\<close>) also changes processes and profiles, which no job shares with the disk of the
  model: the \<open>n\<close>-th conversion is the argument \<open>tb_office n\<close> (\<open>office_call\<close> is the instance by
  \<open>libreoffice_convert\<close>). The order in which parallel work completes is \<open>tb_schedule\<close>.
\<close>

section \<open>Options\<close>

definition opt_text :: "run_ctx \<Rightarrow> string \<Rightarrow> string option" where
  "opt_text ctx k = (case map_of (rc_options ctx) k of Some (JStr s) \<Rightarrow> Some s | _ \<Rightarrow> None)"

definition opt_str :: "run_ctx \<Rightarrow> string \<Rightarrow> string \<Rightarrow> string" where
  "opt_str ctx k default_value = (case opt_text ctx k of Some s \<Rightarrow> s | None \<Rightarrow> default_value)"

definition need_str :: "run_ctx \<Rightarrow> string \<Rightarrow> (py_exc, string) result" where
  "need_str ctx k = (case opt_text ctx k of Some s \<Rightarrow> Inr s | None \<Rightarrow> Inl (OtherError ''KeyError'' (Command.quoted k)))"

definition opt_page :: "run_ctx \<Rightarrow> string \<Rightarrow> int option" where
  "opt_page ctx k = (case map_of (rc_options ctx) k of Some (JInt n) \<Rightarrow> Some n | _ \<Rightarrow> None)"

definition opt_int :: "run_ctx \<Rightarrow> string \<Rightarrow> int \<Rightarrow> int" where
  "opt_int ctx k default_value = (case opt_page ctx k of Some n \<Rightarrow> n | None \<Rightarrow> default_value)"

definition opt_flag :: "run_ctx \<Rightarrow> string \<Rightarrow> bool \<Rightarrow> bool" where
  "opt_flag ctx k default_value = (case map_of (rc_options ctx) k of Some (JBool b) \<Rightarrow> b | _ \<Rightarrow> default_value)"

definition json_float :: "'f arith \<Rightarrow> json \<Rightarrow> 'f option" where
  "json_float A v = (case v of JFloat s \<Rightarrow> Some (fl_lit A s) | JInt n \<Rightarrow> Some (fl_of_int A n) | _ \<Rightarrow> None)"

definition opt_fraction :: "'f arith \<Rightarrow> run_ctx \<Rightarrow> string \<Rightarrow> 'f option" where
  "opt_fraction A ctx k = Option.bind (map_of (rc_options ctx) k) (json_float A)"

definition opt_float :: "'f arith \<Rightarrow> run_ctx \<Rightarrow> string \<Rightarrow> string \<Rightarrow> 'f" where
  "opt_float A ctx k default_value =
     (case opt_fraction A ctx k of Some x \<Rightarrow> x | None \<Rightarrow> fl_lit A default_value)"

definition opt_points :: "'f arith \<Rightarrow> run_ctx \<Rightarrow> string \<Rightarrow> string \<Rightarrow> 'f" where
  "opt_points A ctx k default_value =
     fl_mul A (opt_float A ctx k default_value) (fl_div A (fl_lit A ''72.0'') (fl_lit A ''25.4''))"

fun json_str :: "json \<Rightarrow> string option" where
  "json_str (JStr s) = Some s"
| "json_str _ = None"

fun json_int :: "json \<Rightarrow> int option" where
  "json_int (JInt n) = Some n"
| "json_int _ = None"

definition opt_list :: "run_ctx \<Rightarrow> string \<Rightarrow> json list option" where
  "opt_list ctx k = (case map_of (rc_options ctx) k of Some (JList xs) \<Rightarrow> Some xs | _ \<Rightarrow> None)"

definition opt_entries :: "run_ctx \<Rightarrow> string \<Rightarrow> (string \<times> json) list option" where
  "opt_entries ctx k = (case map_of (rc_options ctx) k of Some (JObj d) \<Rightarrow> Some d | _ \<Rightarrow> None)"

definition area_of_json :: "'f arith \<Rightarrow> json \<Rightarrow> 'f raw_area" where
  "area_of_json A v =
     (let d = (case v of JObj d \<Rightarrow> d | _ \<Rightarrow> []);
          number = (\<lambda>k. Option.bind (map_of d k) (json_float A));
          words = (\<lambda>k. Option.bind (map_of d k) json_str)
      in \<lparr>ra_page = Option.bind (map_of d ''page'') json_int,
          ra_rect = (case (number ''x0'', number ''y0'', number ''x1'', number ''y1'') of
             (Some a, Some b, Some c, Some e) \<Rightarrow> Some (a, b, c, e) | _ \<Rightarrow> None),
          ra_mode = words ''mode'', ra_color = words ''color'',
          ra_opacity = map_option (json_float A) (map_of d ''opacity'')\<rparr>)"

section \<open>The libraries\<close>

record ('page, 'ov, 'f, 'fp, 'r, 'doc, 'e) toolbox =
  tb_cfg :: tool_settings
  tb_arith :: "'f arith"
  tb_limit :: nat
  tb_now :: "string \<times> string"
  tb_overlay :: "('page, 'f, 'ov) overlay_lib"
  tb_document :: "'page document_lib"
  tb_diff :: "'f diff_lib"
  tb_report :: "report_op list \<Rightarrow> bytes"
  tb_fitz :: "('fp, 'r, 'f) fitz_lib"
  tb_security :: "'f security_lib"
  tb_source :: "bytes option \<Rightarrow> 'f pdf_source"
  tb_write :: "'f pdf_doc \<Rightarrow> bytes \<times> py_exc option"
  tb_encrypt :: "'f pdf_doc \<times> encryption \<Rightarrow> bytes \<times> py_exc option"
  tb_prog :: "disk subprocess"
  tb_ocr :: "disk ocr_host"
  tb_python :: string
  tb_plugin :: string
  tb_pike :: "'doc pike_lib"
  tb_images :: "'f image_lib"
  tb_reader :: fitz_reader
  tb_convert :: convert_lib
  tb_docx :: "'e docx_lib"
  tb_render :: render_host
  tb_office :: "nat \<Rightarrow> office_request \<Rightarrow> (disk, string) action"
  tb_slots :: "(py_exc, int) result"
  tb_schedule :: "nat list"
  tb_spawn :: bool

abbreviation tb_pypdf :: "('page, 'ov, 'f, 'fp, 'r, 'doc, 'e) toolbox \<Rightarrow> 'page pypdf" where
  "tb_pypdf tb \<equiv> pypdf.truncate (tb_overlay tb)"

text \<open>A conversion of theory \<open>Office\<close> in the world of the disk and everything else.\<close>

definition office_call ::
  "(disk \<times> 'v) lo_host \<Rightarrow> tool_settings \<Rightarrow> (nat \<Rightarrow> bool) \<Rightarrow> (nat \<Rightarrow> bool) \<Rightarrow> (nat \<Rightarrow> (disk \<times> 'v) lo_state)
     \<Rightarrow> nat \<Rightarrow> office_request \<Rightarrow> (disk, string) action" where
  "office_call h cfg busy locked states n rq d =
     (case libreoffice_convert h cfg busy locked rq (upd_world (\<lambda>w. (d, snd w)) (states n)) of
        (s, r) \<Rightarrow> (fst (lo_world s), r))"

section \<open>One output per input\<close>

definition job_pairs :: "run_ctx \<Rightarrow> (path \<times> string) list" where
  "job_pairs ctx = zip (rc_input_paths ctx) (rc_input_names ctx)"

definition suffixed :: "string \<Rightarrow> string \<Rightarrow> string" where
  "suffixed suffix_text name = file_stem name @ ''-'' @ suffix_text @ ''.pdf''"

definition indexed_pdf :: "run_ctx \<Rightarrow> string \<Rightarrow> nat \<Rightarrow> path" where
  "indexed_pdf ctx base index = rc_workspace ctx @ [base @ ''-'' @ nat_str index @ ''.pdf'']"

definition each_to_pdf ::
  "string \<Rightarrow> string \<Rightarrow> (path \<Rightarrow> path \<Rightarrow> string \<Rightarrow> (disk, 'a) action) \<Rightarrow> run_ctx \<Rightarrow> (path \<times> string) list
     \<Rightarrow> (run_state, produced_file list) action" where
  "each_to_pdf base suffix_text work ctx pairs =
     process_each_input (\<lambda>path name index.
         let output = indexed_pdf ctx base index in
         abind (on_disk (work path output name)) (\<lambda>_. areturn [produced_pdf output (suffixed suffix_text name)]))
       (rc_report ctx) 90 pairs"

text \<open>\<open>tasks/tools/organize.py: _single_output_tool\<close>.\<close>

definition single_output_tool ::
  "string \<Rightarrow> (path \<Rightarrow> path \<Rightarrow> run_ctx \<Rightarrow> (disk, 'a) action) \<Rightarrow> processor" where
  "single_output_tool suffix_text operation ctx =
     each_to_pdf ''out'' suffix_text (\<lambda>path output _. operation path output ctx) ctx (job_pairs ctx)"

definition one_file ::
  "run_ctx \<Rightarrow> string \<Rightarrow> (path \<Rightarrow> (disk, 'a) action) \<Rightarrow> string \<Rightarrow> (run_state, produced_file list) action" where
  "one_file ctx file_name work download_name =
     (let output = rc_workspace ctx @ [file_name] in
      abind (on_disk (work output)) (\<lambda>_.
      abind (rc_report ctx 90) (\<lambda>_. areturn [produced_pdf output download_name])))"

section \<open>Compression, OCR and repair\<close>

definition compress_task :: "('page, 'ov, 'f, 'fp, 'r, 'doc, 'e) toolbox \<Rightarrow> processor" where
  "compress_task tb ctx =
     each_to_pdf ''compressed'' ''compressed''
       (\<lambda>path output _. compress_pdf (tb_cfg tb) (tb_prog tb) path output (opt_str ctx ''quality'' ''recommended''))
       ctx (job_pairs ctx)"

definition compress_scanned_task :: "('page, 'ov, 'f, 'fp, 'r, 'doc, 'e) toolbox \<Rightarrow> processor" where
  "compress_scanned_task tb ctx =
     each_to_pdf ''out'' ''compressed''
       (\<lambda>path output _. compress_pdf (tb_cfg tb) (tb_prog tb) path output (opt_str ctx ''quality'' ''extreme''))
       ctx (job_pairs ctx)"

definition repair_task :: "('page, 'ov, 'f, 'fp, 'r, 'doc, 'e) toolbox \<Rightarrow> processor" where
  "repair_task tb ctx =
     each_to_pdf ''out'' ''repaired'' (\<lambda>path output _. repair_pdf (tb_pike tb) path output) ctx (job_pairs ctx)"

definition ocr_task :: "('page, 'ov, 'f, 'fp, 'r, 'doc, 'e) toolbox \<Rightarrow> processor" where
  "ocr_task tb ctx =
     each_to_pdf ''out'' ''ocr'' (\<lambda>path output _.
         let language = opt_str ctx ''language'' ''eng'' in
         abind (if opt_flag ctx ''auto_detect_language'' True
                then abind (detect_document_language (tb_ocr tb) (tb_cfg tb) (path_text path)
                       (path_text (rc_workspace ctx)) language 2) (\<lambda>found. areturn (ld_language found))
                else areturn language) (\<lambda>chosen.
         ocr_pdf (tb_ocr tb) (tb_python tb) (tb_plugin tb) (tb_cfg tb)
           \<lparr>oc_language = chosen, oc_deskew = opt_flag ctx ''deskew'' False,
            oc_rotate_pages = opt_flag ctx ''rotate_pages'' True, oc_force_ocr = opt_flag ctx ''force_ocr'' False\<rparr>
           path output))
       ctx (job_pairs ctx)"

section \<open>Pages\<close>

definition merge_task :: "('page, 'ov, 'f, 'fp, 'r, 'doc, 'e) toolbox \<Rightarrow> processor" where
  "merge_task tb ctx =
     one_file ctx ''merged.pdf'' (merge_pdfs (tb_pypdf tb) (rc_input_paths ctx)) ''merged.pdf''"

definition split_task :: "('page, 'ov, 'f, 'fp, 'r, 'doc, 'e) toolbox \<Rightarrow> processor" where
  "split_task tb ctx =
     (let stem = file_stem (hd (rc_input_names ctx)) in
      abind (on_disk (split_pdf (tb_pypdf tb) (hd (rc_input_paths ctx)) (rc_workspace ctx)
          (map_option (List.map_filter json_str) (opt_list ctx ''ranges'')) (opt_text ctx ''mode'' = Some ''every_page'')))
        (\<lambda>parts.
      abind (rc_report ctx 90) (\<lambda>_.
      areturn (map (\<lambda>(label, path). produced_pdf path (stem @ ''-pages-'' @ label @ ''.pdf'')) parts))))"

definition rotate_task :: "('page, 'ov, 'f, 'fp, 'r, 'doc, 'e) toolbox \<Rightarrow> processor" where
  "rotate_task tb = single_output_tool ''rotated'' (\<lambda>src dst ctx.
     rotate_pdf (tb_pypdf tb) src dst (opt_int ctx ''angle'' 90) (opt_text ctx ''pages'') (opt_str ctx ''apply_to'' ''all''))"

definition delete_pages_task :: "('page, 'ov, 'f, 'fp, 'r, 'doc, 'e) toolbox \<Rightarrow> processor" where
  "delete_pages_task tb = single_output_tool ''edited'' (\<lambda>src dst ctx.
     abind (aresult (need_str ctx ''pages'')) (\<lambda>pages. delete_pages (tb_pypdf tb) src dst pages))"

definition extract_pages_task :: "('page, 'ov, 'f, 'fp, 'r, 'doc, 'e) toolbox \<Rightarrow> processor" where
  "extract_pages_task tb = single_output_tool ''extracted'' (\<lambda>src dst ctx.
     abind (aresult (need_str ctx ''pages'')) (\<lambda>pages. extract_pages (tb_pypdf tb) src dst pages))"

definition reorder_task :: "('page, 'ov, 'f, 'fp, 'r, 'doc, 'e) toolbox \<Rightarrow> processor" where
  "reorder_task tb = single_output_tool ''reordered'' (\<lambda>src dst ctx.
     case opt_list ctx ''order'' of
       None \<Rightarrow> araise (OtherError ''KeyError'' (Command.quoted ''order''))
     | Some order \<Rightarrow> reorder_pages (tb_pypdf tb) src dst (List.map_filter json_int order))"

section \<open>Protection\<close>

text \<open>
  The file is written before a forced text is searched with PyMuPDF; when that raises, the file
  left in the workspace is not modelled.
\<close>

definition remove_marks ::
  "('page, 'ov, 'f, 'fp, 'r, 'doc, 'e) toolbox \<Rightarrow> run_ctx \<Rightarrow> path \<Rightarrow> path \<Rightarrow> string \<Rightarrow> (disk, unit) action" where
  "remove_marks tb ctx path output name d =
     (let forced = opt_text ctx ''text'' in
      case remove_watermarks (tb_arith tb) (tb_security tb) (tb_source tb (d path)) (opt_str ctx ''mode'' ''both'') forced of
        Inl e \<Rightarrow> (d, Inl e)
      | Inr (doc, removed) \<Rightarrow>
          abind (put_bytes (tb_write tb doc) output ()) (\<lambda>_.
            case forced of
              Some (c # cs) \<Rightarrow>
                if removed = 0
                then aresult (processing_error (''No watermark matching '' @ [dquote] @ c # cs @ [dquote] @ '' was found in ''
                  @ [dquote] @ name @ [dquote] @ '', and automatic detection found nothing else to remove. Make sure the text matches the watermark exactly as it appears. Watermarks that are part of a scanned or flattened image cannot be separated from the page.''))
                else areturn ()
            | _ \<Rightarrow> areturn ()) d)"

definition remove_watermark_task :: "('page, 'ov, 'f, 'fp, 'r, 'doc, 'e) toolbox \<Rightarrow> processor" where
  "remove_watermark_task tb ctx = each_to_pdf ''clean'' ''no-watermark'' (remove_marks tb ctx) ctx (job_pairs ctx)"

definition protect_task :: "('page, 'ov, 'f, 'fp, 'r, 'doc, 'e) toolbox \<Rightarrow> processor" where
  "protect_task tb ctx =
     each_to_pdf ''protected'' ''protected'' (\<lambda>path output _.
         abind (aresult (need_str ctx ''user_password'')) (\<lambda>user_password.
         abind (\<lambda>d. (d, encrypt_pdf (tb_source tb (d path)) user_password (opt_text ctx ''owner_password'')
             (opt_flag ctx ''allow_printing'' True) (opt_flag ctx ''allow_copying'' False)
             (opt_flag ctx ''allow_modification'' False))) (\<lambda>locked.
         put_bytes (tb_encrypt tb locked) output ())))
       ctx (job_pairs ctx)"

definition unlock_task :: "('page, 'ov, 'f, 'fp, 'r, 'doc, 'e) toolbox \<Rightarrow> processor" where
  "unlock_task tb ctx =
     each_to_pdf ''unlocked'' ''unlocked'' (\<lambda>path output _.
         abind (aresult (need_str ctx ''password'')) (unlock_pdf (tb_pypdf tb) path output))
       ctx (job_pairs ctx)"

section \<open>Documents\<close>

definition metadata_task :: "('page, 'ov, 'f, 'fp, 'r, 'doc, 'e) toolbox \<Rightarrow> processor" where
  "metadata_task tb ctx =
     (let given = List.map_filter (\<lambda>k. case opt_text ctx k of Some (c # cs) \<Rightarrow> Some (k, c # cs) | _ \<Rightarrow> None)
            [''title'', ''author'', ''subject'', ''keywords'']
      in each_to_pdf ''meta'' ''metadata'' (\<lambda>path output _.
           set_metadata (tb_document tb) path output given (opt_flag ctx ''clear_existing'' False)) ctx (job_pairs ctx))"

definition compare_task :: "('page, 'ov, 'f, 'fp, 'r, 'doc, 'e) toolbox \<Rightarrow> processor" where
  "compare_task tb ctx =
     one_file ctx ''comparison-report.pdf''
       (compare_pdfs (tb_document tb) (tb_diff tb) (tb_report tb) (rc_input_paths ctx ! 0) (rc_input_paths ctx ! 1))
       ''comparison-report.pdf''"

definition redact_task :: "('page, 'ov, 'f, 'fp, 'r, 'doc, 'e) toolbox \<Rightarrow> processor" where
  "redact_task tb ctx =
     each_to_pdf ''redacted'' ''redacted'' (\<lambda>path output _.
         redact_text (tb_arith tb) (tb_fitz tb) path output
           (case opt_list ctx ''texts'' of None \<Rightarrow> [] | Some xs \<Rightarrow> List.map_filter json_str xs)
           (case opt_list ctx ''areas'' of None \<Rightarrow> [] | Some xs \<Rightarrow> map (area_of_json (tb_arith tb)) xs))
       ctx (job_pairs ctx)"

definition fill_forms_task :: "('page, 'ov, 'f, 'fp, 'r, 'doc, 'e) toolbox \<Rightarrow> processor" where
  "fill_forms_task tb ctx =
     one_file ctx ''filled.pdf'' (\<lambda>output.
         case opt_entries ctx ''fields'' of
           None \<Rightarrow> araise (OtherError ''KeyError'' (Command.quoted ''fields''))
         | Some entries \<Rightarrow> fill_form (tb_document tb) (rc_input_paths ctx ! 0) output
             (List.map_filter (\<lambda>(k, v). map_option (\<lambda>s. (k, s)) (json_str v)) entries))
       (suffixed ''filled'' (rc_input_names ctx ! 0))"

section \<open>Stamps\<close>

definition image_inputs :: "run_ctx \<Rightarrow> path list" where
  "image_inputs ctx = map fst (filter (\<lambda>(_, n). file_extension n \<in> set image_extensions) (job_pairs ctx))"

definition pdf_inputs :: "run_ctx \<Rightarrow> (path \<times> string) list" where
  "pdf_inputs ctx = filter (\<lambda>(_, n). file_extension n = ''pdf'') (job_pairs ctx)"

definition stamp_all ::
  "('page, 'ov, 'f, 'fp, 'r, 'doc, 'e) toolbox \<Rightarrow> run_ctx \<Rightarrow> 'f draw_fn \<Rightarrow> string
     \<Rightarrow> (nat \<Rightarrow> nat \<Rightarrow> bool) option \<Rightarrow> bool \<Rightarrow> bool \<Rightarrow> (run_state, produced_file list) action" where
  "stamp_all tb ctx draw suffix_text page_filter only_pdfs below =
     (let pairs = (if only_pdfs then pdf_inputs ctx else job_pairs ctx) in
      if pairs = [] then aresult (processing_error ''No PDF files to stamp were provided.'')
      else each_to_pdf ''stamped'' suffix_text (\<lambda>path output name.
             overlay_pdf (tb_arith tb) (tb_overlay tb) path output draw page_filter below (file_stem name)) ctx pairs)"

text \<open>The page filter of the options; a range \<open>int\<close> refuses is a \<open>ValueError\<close> (its text is left out).\<close>

definition chosen_pages :: "run_ctx \<Rightarrow> (py_exc, nat \<Rightarrow> nat \<Rightarrow> bool) result" where
  "chosen_pages ctx =
     (case overlay_selection (opt_str ctx ''pages'' ''all'') (opt_text ctx ''page_range'') of
        None \<Rightarrow> Inl (OtherError ''ValueError'' ''invalid literal for int()'')
      | Some f \<Rightarrow> Inr f)"

definition watermark_placement :: "'f arith \<Rightarrow> run_ctx \<Rightarrow> 'f placement" where
  "watermark_placement A ctx =
     \<lparr>pl_position = opt_str ctx ''position'' ''center'',
      pl_offset_x = opt_points A ctx ''offset_x_mm'' ''0.0'', pl_offset_y = opt_points A ctx ''offset_y_mm'' ''0.0'',
      pl_margin = opt_points A ctx ''margin_mm'' ''12.0'', pl_tile = opt_flag ctx ''tile'' False\<rparr>"

definition watermark_style :: "'f arith \<Rightarrow> run_ctx \<Rightarrow> 'f text_style" where
  "watermark_style A ctx =
     \<lparr>ws_font_size = opt_int ctx ''font_size'' 48, ws_opacity = opt_float A ctx ''opacity'' ''0.15'',
      ws_rotation = opt_int ctx ''rotation'' 45, ws_color = opt_str ctx ''color'' ''#808080'',
      ws_font_family = opt_str ctx ''font_family'' ''helvetica'', ws_bold = opt_flag ctx ''bold'' True,
      ws_italic = opt_flag ctx ''italic'' False, ws_underline = opt_flag ctx ''underline'' False,
      ws_align = opt_str ctx ''align'' ''center'', ws_letter_spacing = opt_float A ctx ''letter_spacing'' ''0.0'',
      ws_line_height = opt_float A ctx ''line_height'' ''1.2''\<rparr>"

definition watermark_image_style :: "'f arith \<Rightarrow> run_ctx \<Rightarrow> 'f image_style" where
  "watermark_image_style A ctx =
     \<lparr>is_opacity = opt_float A ctx ''opacity'' ''0.15'', is_rotation = opt_int ctx ''rotation'' 45,
      is_scale = opt_float A ctx ''scale'' ''0.5'', is_keep_aspect = opt_flag ctx ''keep_aspect'' True,
      is_scale_x = opt_fraction A ctx ''scale_x'', is_scale_y = opt_fraction A ctx ''scale_y''\<rparr>"

definition watermark_draw ::
  "('page, 'ov, 'f, 'fp, 'r, 'doc, 'e) toolbox \<Rightarrow> run_ctx \<Rightarrow> (disk, 'f draw_fn) action" where
  "watermark_draw tb ctx =
     (let A = tb_arith tb; place = watermark_placement A ctx in
      if opt_str ctx ''mode'' ''text'' = ''image''
      then (case image_inputs ctx of
              [] \<Rightarrow> aresult (processing_error ''Image watermark mode requires a JPG or PNG input file.'')
            | img # _ \<Rightarrow> make_image_watermark_draw A (tb_limit tb) (tb_overlay tb) img (watermark_image_style A ctx) place)
      else abind (aresult (need_str ctx ''text'')) (\<lambda>words.
        areturn (make_watermark_draw A (tb_limit tb) (tb_overlay tb) words (watermark_style A ctx) place)))"

definition watermark_task :: "('page, 'ov, 'f, 'fp, 'r, 'doc, 'e) toolbox \<Rightarrow> processor" where
  "watermark_task tb ctx =
     abind (on_disk (watermark_draw tb ctx)) (\<lambda>draw.
     abind (aresult (chosen_pages ctx)) (\<lambda>page_filter.
     stamp_all tb ctx draw ''watermarked'' (Some page_filter) True (opt_str ctx ''layer'' ''above'' = ''below'')))"

definition header_footer_options :: "'f arith \<Rightarrow> run_ctx \<Rightarrow> 'f header_footer" where
  "header_footer_options A ctx =
     \<lparr>hf_header = opt_text ctx ''header_text'', hf_footer = opt_text ctx ''footer_text'',
      hf_font_size = opt_int ctx ''font_size'' 10, hf_color = opt_str ctx ''color'' ''#333333'',
      hf_margin = opt_points A ctx ''margin_mm'' ''12.0'', hf_align = opt_str ctx ''align'' ''center'',
      hf_header_align = opt_text ctx ''header_align'', hf_footer_align = opt_text ctx ''footer_align'',
      hf_font_family = opt_str ctx ''font_family'' ''helvetica'', hf_bold = opt_flag ctx ''bold'' False,
      hf_italic = opt_flag ctx ''italic'' False, hf_opacity = opt_float A ctx ''opacity'' ''1.0''\<rparr>"

definition header_footer_task :: "('page, 'ov, 'f, 'fp, 'r, 'doc, 'e) toolbox \<Rightarrow> processor" where
  "header_footer_task tb ctx =
     abind (aresult (chosen_pages ctx)) (\<lambda>page_filter.
     stamp_all tb ctx (make_header_footer_draw (tb_arith tb) (tb_now tb) (header_footer_options (tb_arith tb) ctx))
       ''headers'' (Some page_filter) False False)"

definition page_numbers_task :: "('page, 'ov, 'f, 'fp, 'r, 'doc, 'e) toolbox \<Rightarrow> processor" where
  "page_numbers_task tb ctx =
     stamp_all tb ctx
       (make_page_number_draw (tb_arith tb) (tb_now tb) (opt_str ctx ''format'' ''{page}'')
         (opt_str ctx ''position'' ''bottom-center'') (opt_int ctx ''font_size'' 10) (opt_str ctx ''color'' ''#333333'')
         (opt_points (tb_arith tb) ctx ''margin_mm'' ''12.0'') (opt_int ctx ''start_at'' 1 - 1))
       ''numbered'' (if opt_flag ctx ''skip_first'' False then Some (\<lambda>page _. page \<noteq> 1) else None) False False"

definition sign_task :: "('page, 'ov, 'f, 'fp, 'r, 'doc, 'e) toolbox \<Rightarrow> processor" where
  "sign_task tb ctx =
     (case image_inputs ctx of
        [] \<Rightarrow> aresult (processing_error ''Add a JPG or PNG of your signature.'')
      | img # _ \<Rightarrow>
          if pdf_inputs ctx = [] then aresult (processing_error ''No PDF to sign was provided.'')
          else abind (on_disk (make_signature_draw (tb_arith tb) (tb_overlay tb) img (opt_page ctx ''page'')
                 (opt_str ctx ''position'' ''bottom-right'') (opt_float (tb_arith tb) ctx ''scale'' ''0.25'')
                 (opt_points (tb_arith tb) ctx ''margin_mm'' ''15.0''))) (\<lambda>draw.
               each_to_pdf ''signed'' ''signed'' (\<lambda>path output _.
                 overlay_pdf (tb_arith tb) (tb_overlay tb) path output draw None False []) ctx (pdf_inputs ctx)))"

section \<open>Images and Office documents\<close>

definition combine_task :: "('page, 'ov, 'f, 'fp, 'r, 'doc, 'e) toolbox \<Rightarrow> processor" where
  "combine_task tb ctx =
     one_file ctx ''combined.pdf'' (\<lambda>output.
         images_to_pdf (tb_arith tb) (tb_images tb) (rc_input_paths ctx) output (opt_str ctx ''page_size'' ''fit'')
           (opt_str ctx ''orientation'' ''portrait'') (opt_float (tb_arith tb) ctx ''margin_mm'' ''10.0''))
       (if length (rc_input_names ctx) = 1 then file_stem (hd (rc_input_names ctx)) @ ''.pdf'' else ''images.pdf'')"

fun image_media_type :: "image_format \<Rightarrow> string" where
  "image_media_type JPEG = ''image/jpeg''"
| "image_media_type PNG = ''image/png''"

definition image_name_of :: "string \<Rightarrow> image_format \<Rightarrow> nat \<Rightarrow> int \<Rightarrow> string" where
  "image_name_of stem fmt n_pages number =
     (if n_pages = 1 then stem @ ''.'' @ format_extension fmt
      else stem @ ''-page-'' @ pad2 (nat number) @ ''.'' @ format_extension fmt)"

definition render_task :: "('page, 'ov, 'f, 'fp, 'r, 'doc, 'e) toolbox \<Rightarrow> image_format \<Rightarrow> processor" where
  "render_task tb fmt ctx =
     process_each_input (\<lambda>path name index.
         abind (on_disk (abind (page_count (tb_pypdf tb) path) (\<lambda>total_pages.
           pdf_to_images_auto (tb_render tb) (tb_cfg tb)
             \<lparr>rr_input = path, rr_format = fmt, rr_dpi = opt_int ctx ''dpi'' 150, rr_quality = opt_int ctx ''quality'' 90,
              rr_grayscale = opt_flag ctx ''grayscale'' False, rr_display = Some name\<rparr>
             (rc_workspace ctx) (int total_pages) (opt_page ctx ''first_page'') (opt_page ctx ''last_page'')))) (\<lambda>pages.
         areturn (map (\<lambda>(number, page_path). \<lparr>pf_path = page_path,
             pf_download_name = image_name_of (file_stem name) fmt (length pages) number,
             pf_media_type = image_media_type fmt\<rparr>) pages)))
       (rc_report ctx) 90 (job_pairs ctx)"

definition office_task ::
  "('page, 'ov, 'f, 'fp, 'r, 'doc, 'e) toolbox \<Rightarrow> string option \<Rightarrow> (string \<times> filter_value) list \<Rightarrow> processor" where
  "office_task tb filter_name filter_options ctx =
     abind (aresult (tb_slots tb)) (\<lambda>slots.
     process_each_input_parallel (tb_schedule tb) (\<lambda>path name index.
         abind (on_disk (tb_office tb index
             \<lparr>lc_input = path_text path, lc_output_dir = path_text (rc_workspace ctx), lc_target = ''pdf'',
              lc_filter = filter_name, lc_options = filter_options, lc_profile_dir = None, lc_timeout = None,
              lc_display = Some name\<rparr>)) (\<lambda>output.
         areturn [produced_pdf (rc_workspace ctx @ [posix_name output]) (file_stem name @ ''.pdf'')]))
       (rc_report ctx) slots 90 (job_pairs ctx))"

text \<open>\<open>tasks/tools/convert_office.py: _office_to_pdf\<close> and \<open>tasks/tools/ppt_to_pdf.py: _export_filter\<close>.\<close>

definition office_to_pdf :: "('page, 'ov, 'f, 'fp, 'r, 'doc, 'e) toolbox \<Rightarrow> string \<Rightarrow> processor" where
  "office_to_pdf tb export_filter ctx =
     (if opt_flag ctx ''pdf_a'' False
      then office_task tb (Some export_filter) [(''SelectPdfVersion'', FInt 2)] ctx
      else office_task tb None [] ctx)"

definition ppt_filter :: "run_ctx \<Rightarrow> string option \<times> (string \<times> filter_value) list" where
  "ppt_filter ctx =
     (let filters = (if opt_flag ctx ''pdf_a'' False then [(''SelectPdfVersion'', FInt 2)] else [])
            @ (case opt_text ctx ''slide_range'' of Some (c # cs) \<Rightarrow> [(''PageRange'', FStr (c # cs))] | _ \<Rightarrow> [])
      in (if filters = [] then None else Some ''impress_pdf_Export'', filters))"

definition ppt_task :: "('page, 'ov, 'f, 'fp, 'r, 'doc, 'e) toolbox \<Rightarrow> processor" where
  "ppt_task tb ctx = (case ppt_filter ctx of (filter_name, filters) \<Rightarrow> office_task tb filter_name filters ctx)"

section \<open>PDF to Word\<close>

definition DOCX_MEDIA_TYPE :: string where
  "DOCX_MEDIA_TYPE = ''application/vnd.openxmlformats-officedocument.wordprocessingml.document''"

definition word_output :: "run_ctx \<Rightarrow> nat \<Rightarrow> path" where
  "word_output ctx index = rc_workspace ctx @ [''converted-'' @ nat_str index @ ''.docx'']"

definition word_file :: "run_ctx \<Rightarrow> string \<Rightarrow> nat \<Rightarrow> produced_file" where
  "word_file ctx name index =
     \<lparr>pf_path = word_output ctx index, pf_download_name = file_stem name @ ''.docx'', pf_media_type = DOCX_MEDIA_TYPE\<rparr>"

definition prepare_input ::
  "('page, 'ov, 'f, 'fp, 'r, 'doc, 'e) toolbox \<Rightarrow> run_ctx \<Rightarrow> path \<Rightarrow> string \<Rightarrow> (disk, path) action" where
  "prepare_input tb ctx path name = prepare_pdf (tb_reader tb) (tb_pike tb) path (rc_workspace ctx) (Some name)"

definition convert_input ::
  "('page, 'ov, 'f, 'fp, 'r, 'doc, 'e) toolbox \<Rightarrow> run_ctx \<Rightarrow> path \<Rightarrow> string \<Rightarrow> nat \<Rightarrow> (disk, path) action" where
  "convert_input tb ctx prepared name index =
     pdf_to_docx (tb_convert tb) (tb_reader tb) (tb_docx tb) prepared (word_output ctx index)
       (opt_page ctx ''first_page'') (opt_page ctx ''last_page'') (Some name)"

text \<open>Processes of the pool: the conversions complete in the order of the schedule.\<close>

definition pdf_to_word_parallel :: "('page, 'ov, 'f, 'fp, 'r, 'doc, 'e) toolbox \<Rightarrow> processor" where
  "pdf_to_word_parallel tb ctx =
     abind (on_disk (act_each (\<lambda>(path, name). prepare_input tb ctx path name) (job_pairs ctx))) (\<lambda>prepared.
     abind (parallel_loop (\<lambda>_ name index.
           abind (on_disk (convert_input tb ctx (prepared ! index) name index)) (\<lambda>_. areturn [word_file ctx name index]))
         (rc_report ctx) 90 (job_pairs ctx) (tb_schedule tb) 0 (\<lambda>_. None)) (\<lambda>results.
     areturn (concat (List.map_filter results [0..<length (job_pairs ctx)]))))"

definition pdf_to_word_task :: "('page, 'ov, 'f, 'fp, 'r, 'doc, 'e) toolbox \<Rightarrow> processor" where
  "pdf_to_word_task tb ctx =
     (if 1 < length (rc_input_paths ctx) \<and> tb_spawn tb then pdf_to_word_parallel tb ctx
      else process_each_input (\<lambda>path name index.
             abind (on_disk (abind (prepare_input tb ctx path name) (\<lambda>prepared. convert_input tb ctx prepared name index)))
               (\<lambda>_. areturn [word_file ctx name index]))
           (rc_report ctx) 90 (job_pairs ctx))"

section \<open>The workers' tasks\<close>

fun processor_of :: "('page, 'ov, 'f, 'fp, 'r, 'doc, 'e) toolbox \<Rightarrow> tool_slug \<Rightarrow> processor" where
  "processor_of tb COMPRESS = compress_task tb"
| "processor_of tb MERGE = merge_task tb"
| "processor_of tb SPLIT = split_task tb"
| "processor_of tb ROTATE = rotate_task tb"
| "processor_of tb DELETE_PAGES = delete_pages_task tb"
| "processor_of tb EXTRACT_PAGES = extract_pages_task tb"
| "processor_of tb REORDER_PAGES = reorder_task tb"
| "processor_of tb PDF_TO_WORD = pdf_to_word_task tb"
| "processor_of tb WORD_TO_PDF = office_to_pdf tb ''writer_pdf_Export''"
| "processor_of tb EXCEL_TO_PDF = office_to_pdf tb ''calc_pdf_Export''"
| "processor_of tb PPT_TO_PDF = ppt_task tb"
| "processor_of tb PDF_TO_JPG = render_task tb JPEG"
| "processor_of tb PDF_TO_PNG = render_task tb PNG"
| "processor_of tb JPG_TO_PDF = combine_task tb"
| "processor_of tb PNG_TO_PDF = combine_task tb"
| "processor_of tb WATERMARK = watermark_task tb"
| "processor_of tb REMOVE_WATERMARK = remove_watermark_task tb"
| "processor_of tb HEADER_FOOTER = header_footer_task tb"
| "processor_of tb PAGE_NUMBERS = page_numbers_task tb"
| "processor_of tb PROTECT = protect_task tb"
| "processor_of tb UNLOCK = unlock_task tb"
| "processor_of tb OCR = ocr_task tb"
| "processor_of tb REPAIR = repair_task tb"
| "processor_of tb COMPRESS_SCANNED = compress_scanned_task tb"
| "processor_of tb METADATA = metadata_task tb"
| "processor_of tb COMPARE = compare_task tb"
| "processor_of tb REDACT = redact_task tb"
| "processor_of tb FILL_FORMS = fill_forms_task tb"
| "processor_of tb SIGN = sign_task tb"

fun redact_option_keys :: "tool_slug \<Rightarrow> string list" where
  "redact_option_keys PROTECT = [''user_password'', ''owner_password'']"
| "redact_option_keys UNLOCK = [''password'']"
| "redact_option_keys _ = []"

text \<open>The task a worker runs for a tool.\<close>

definition tool_task ::
  "('page, 'ov, 'f, 'fp, 'r, 'doc, 'e) toolbox \<Rightarrow> run_env \<Rightarrow> tool_slug \<Rightarrow> nat \<Rightarrow> (run_state, unit) action" where
  "tool_task tb env t job_id = run_tool_job env job_id (processor_of tb t) (redact_option_keys t)"

section \<open>Lemmas: processors reach the job only through reports\<close>

text \<open>A predicate that no change of the disk and no report affects.\<close>

definition report_closed :: "run_ctx \<Rightarrow> (run_state \<Rightarrow> bool) \<Rightarrow> bool" where
  "report_closed ctx P \<longleftrightarrow>
     (\<forall>st d. P st \<longrightarrow> P (st\<lparr>rs_disk := d\<rparr>)) \<and> (\<forall>k. act_inv P (rc_report ctx k))"

lemma report_closedD:
  assumes "report_closed ctx P"
  shows "act_inv P (on_disk m)" "act_inv P (rc_report ctx k)"
  using assms by (auto simp: report_closed_def intro: act_inv_on_disk)

lemma process_closed:
  assumes "report_closed ctx P" and "\<And>p n i. act_inv P (operate p n i)"
  shows "act_inv P (process_each_input operate (rc_report ctx) top_mark pairs)"
    and "act_inv P (process_each_input_parallel schedule operate (rc_report ctx) workers top_mark pairs)"
    and "act_inv P (parallel_loop operate (rc_report ctx) top_mark pairs order completed results)"
  using assms by (auto intro!: process_each_input_inv process_each_input_parallel_inv parallel_loop_inv
      dest: report_closedD(2))

lemma each_to_pdf_closed: "report_closed ctx P \<Longrightarrow> act_inv P (each_to_pdf base sfx work ctx pairs)"
  unfolding each_to_pdf_def Let_def by (rule process_closed(1)) (auto intro!: act_inv_bind report_closedD(1))

lemma one_file_closed: "report_closed ctx P \<Longrightarrow> act_inv P (one_file ctx file_name work download_name)"
  unfolding one_file_def Let_def by (intro act_inv_bind report_closedD act_inv_pure)

lemma stamp_all_closed:
  "report_closed ctx P \<Longrightarrow> act_inv P (stamp_all tb ctx draw sfx page_filter only_pdfs below)"
  unfolding stamp_all_def Let_def by (intro act_inv_if act_inv_pure each_to_pdf_closed)

lemma office_task_closed: "report_closed ctx P \<Longrightarrow> act_inv P (office_task tb filter_name filters ctx)"
  unfolding office_task_def
  by (intro act_inv_bind act_inv_pure process_closed(2)) (auto intro!: act_inv_bind report_closedD(1))

lemma render_task_closed: "report_closed ctx P \<Longrightarrow> act_inv P (render_task tb fmt ctx)"
  unfolding render_task_def by (rule process_closed(1)) (auto intro!: act_inv_bind report_closedD(1))

lemma pdf_to_word_closed: "report_closed ctx P \<Longrightarrow> act_inv P (pdf_to_word_task tb ctx)"
  unfolding pdf_to_word_task_def pdf_to_word_parallel_def
  by (intro act_inv_if act_inv_bind act_inv_pure report_closedD(1) process_closed) (auto intro!: act_inv_bind report_closedD(1))

lemma sign_closed: "report_closed ctx P \<Longrightarrow> act_inv P (sign_task tb ctx)"
  unfolding sign_task_def
  by (cases "image_inputs ctx") (auto intro!: act_inv_bind report_closedD(1) each_to_pdf_closed)

lemmas task_defs = compress_task_def compress_scanned_task_def repair_task_def ocr_task_def merge_task_def
  rotate_task_def delete_pages_task_def extract_pages_task_def reorder_task_def single_output_tool_def
  remove_watermark_task_def protect_task_def unlock_task_def metadata_task_def compare_task_def redact_task_def
  fill_forms_task_def combine_task_def Let_def

lemma processor_closed: "report_closed ctx P \<Longrightarrow> act_inv P (processor_of tb t ctx)"
  by (cases t)
    (auto simp: task_defs split_task_def watermark_task_def header_footer_task_def page_numbers_task_def
        office_to_pdf_def ppt_task_def split: prod.split
      intro!: act_inv_bind act_inv_if report_closedD each_to_pdf_closed one_file_closed stamp_all_closed
        office_task_closed render_task_closed pdf_to_word_closed sign_closed)

lemma tool_confined: "confined (processor_of tb t)"
  unfolding confined_def by (auto intro!: processor_closed simp: report_closed_def)

section \<open>Lemmas: outputs\<close>

lemma on_disk_Inr_E:
  assumes "on_disk m s = (s', Inr a)"
  obtains d d' where "m d = (d', Inr a)"
  using assms by (auto simp: on_disk_def split: prod.splits)

text \<open>What holds of the outputs of every operation holds of the outputs of a loop.\<close>

definition yields :: "('s operation) \<Rightarrow> (string \<Rightarrow> produced_file list \<Rightarrow> bool) \<Rightarrow> bool" where
  "yields operate Q \<longleftrightarrow> (\<forall>p n i s s' out. operate p n i s = (s', Inr out) \<longrightarrow> Q n out)"

definition gathered :: "(string \<Rightarrow> produced_file list \<Rightarrow> bool) \<Rightarrow> (path \<times> string) list \<Rightarrow> produced_file list \<Rightarrow> bool" where
  "gathered Q pairs out \<longleftrightarrow> (\<exists>outs. out = concat outs \<and> list_all2 (\<lambda>(_, n) o'. Q n o') pairs outs)"

lemma each_input_gathers:
  assumes "yields operate Q"
  shows "each_input_loop operate report top_mark ntotal index pairs s = (s', Inr out) \<Longrightarrow> gathered Q pairs out"
proof (induction pairs arbitrary: index s out)
  case Nil
  then show ?case by (simp add: areturn_def gathered_def)
next
  case (Cons pn pairs)
  obtain p n where pn: "pn = (p, n)" by (cases pn)
  from Cons.prems obtain s1 o1 s2 u s3 rest where o1: "operate p n index s = (s1, Inr o1)"
    and "report (progress_at (index + 1) ntotal top_mark) s1 = (s2, Inr u)"
    and rest: "each_input_loop operate report top_mark ntotal (index + 1) pairs s2 = (s3, Inr rest)"
    and out: "out = o1 @ rest" "s3 = s'"
    by (auto simp: pn areturn_def elim!: abind_Inr_E)
  from Cons.IH [OF rest [unfolded out(2)]] obtain outs where "rest = concat outs"
    "list_all2 (\<lambda>(_, n) o'. Q n o') pairs outs" by (auto simp: gathered_def)
  moreover have "Q n o1" using assms o1 by (auto simp: yields_def)
  ultimately show ?case
    unfolding gathered_def pn by (intro exI [of _ "o1 # outs"]) (simp add: out(1))
qed

lemma process_each_gathers:
  "yields operate Q \<Longrightarrow> process_each_input operate report top_mark pairs s = (s', Inr out) \<Longrightarrow> gathered Q pairs out"
  unfolding process_each_input_def by (rule each_input_gathers)

lemma parallel_loop_gathers:
  assumes "yields operate Q"
  shows "parallel_loop operate report top_mark pairs order completed results s = (s', Inr results') \<Longrightarrow>
    (\<forall>i \<in> set order. \<exists>out. results' i = Some out \<and> Q (snd (pairs ! i)) out)
    \<and> (\<forall>i. i \<notin> set order \<longrightarrow> results' i = results i)"
proof (induction order arbitrary: completed results s)
  case (Cons i order)
  obtain p n where pn: "pairs ! i = (p, n)" by (cases "pairs ! i")
  from Cons.prems obtain s1 out s2 where o1: "operate p n i s = (s1, Inr out)"
    and rest: "parallel_loop operate report top_mark pairs order (completed + 1) (results(i := Some out)) s2 = (s', Inr results')"
    by (auto simp: pn split: prod.splits sum.splits)
  have Q: "Q (snd (pairs ! i)) out" using assms o1 by (auto simp: yields_def pn)
  note ih = Cons.IH [OF rest]
  have "\<exists>out. results' j = Some out \<and> Q (snd (pairs ! j)) out" if "j \<in> set (i # order)" for j
    using ih Q that by (cases "j \<in> set order") auto
  moreover have "results' j = results j" if "j \<notin> set (i # order)" for j
    using ih that by auto
  ultimately show ?case by blast
qed simp

lemma map_filter_gathers:
  assumes "\<forall>i < length pairs. \<exists>out. results i = Some out \<and> Q (snd (pairs ! i)) out"
  shows "gathered Q pairs (concat (List.map_filter results [0..<length pairs]))"
proof -
  have "filter (\<lambda>i. results i \<noteq> None) [0..<length pairs] = [0..<length pairs]"
    by (rule filter_True) (use assms in auto)
  then have "List.map_filter results [0..<length pairs] = map (\<lambda>i. the (results i)) [0..<length pairs]"
    by (simp only: List.map_filter_def comp_def)
  moreover have "list_all2 (\<lambda>(_, n) o'. Q n o') pairs (map (\<lambda>i. the (results i)) [0..<length pairs])"
    using assms by (auto simp: list_all2_conv_all_nth split: prod.split)
  ultimately show ?thesis unfolding gathered_def by metis
qed

lemma parallel_gathers:
  assumes "yields operate Q" and "set schedule = {0..<length pairs}"
    and "process_each_input_parallel schedule operate report workers top_mark pairs s = (s', Inr out)"
  shows "gathered Q pairs out"
proof (cases "min workers (int (length pairs)) \<le> 1")
  case True
  then show ?thesis using assms by (auto simp: process_each_input_parallel_def dest: process_each_gathers)
next
  case False
  then obtain s1 results where r: "parallel_loop operate report top_mark pairs schedule 0 (\<lambda>_. None) s = (s1, Inr results)"
    and out: "out = concat (List.map_filter results [0..<length pairs])"
    using assms(3) by (auto simp: process_each_input_parallel_def areturn_def elim!: abind_Inr_E)
  show ?thesis
    unfolding out using parallel_loop_gathers [OF assms(1) r] assms(2) by (intro map_filter_gathers) auto
qed

text \<open>One output per input, named after it.\<close>

definition named :: "(string \<Rightarrow> string) \<Rightarrow> path \<Rightarrow> string \<Rightarrow> produced_file list \<Rightarrow> bool" where
  "named f ws n out \<longleftrightarrow> (\<exists>p. out = [p] \<and> pf_download_name p = f n \<and> prefix ws (pf_path p))"

lemma gathered_named:
  assumes "gathered (named f ws) pairs out"
  shows "map pf_download_name out = map (f \<circ> snd) pairs \<and> (\<forall>p \<in> set out. prefix ws (pf_path p))"
proof -
  obtain outs where out: "out = concat outs" and all: "list_all2 (\<lambda>(_, n) o'. named f ws n o') pairs outs"
    using assms by (auto simp: gathered_def)
  from all show ?thesis unfolding out
    by (induction rule: list_all2_induct) (auto simp: named_def split: prod.splits)
qed

lemma gathered_all:
  assumes "gathered (\<lambda>_ out. \<forall>p \<in> set out. R p) pairs out"
  shows "\<forall>p \<in> set out. R p"
proof -
  obtain outs where out: "out = concat outs" and all: "list_all2 (\<lambda>_ o'. \<forall>p \<in> set o'. R p) pairs outs"
    using assms by (auto simp: gathered_def case_prod_unfold)
  from all show ?thesis unfolding out by (induction rule: list_all2_induct) auto
qed

text \<open>What the processors hand back.\<close>

lemma each_to_pdf_named:
  assumes "each_to_pdf base sfx work ctx pairs st = (st', Inr out)"
  shows "gathered (named (suffixed sfx) (rc_workspace ctx)) pairs out"
  using assms unfolding each_to_pdf_def Let_def
  by (rule process_each_gathers [rotated])
    (auto simp: yields_def named_def areturn_def produced_pdf_def indexed_pdf_def elim!: abind_Inr_E)

lemma one_file_within:
  "one_file ctx file_name work download_name st = (st', Inr out) \<Longrightarrow> \<forall>p \<in> set out. prefix (rc_workspace ctx) (pf_path p)"
  by (auto simp: one_file_def Let_def areturn_def produced_pdf_def elim!: abind_Inr_E)

lemma stamp_all_named:
  "stamp_all tb ctx draw sfx page_filter only_pdfs below st = (st', Inr out) \<Longrightarrow>
    gathered (named (suffixed sfx) (rc_workspace ctx)) (if only_pdfs then pdf_inputs ctx else job_pairs ctx) out"
  by (auto simp: stamp_all_def Let_def aresult_def processing_error_def split: if_splits dest: each_to_pdf_named)

lemma pdf_to_images_within:
  assumes "pdf_to_images h cfg rq directory a b d = (d', Inr pages)"
  shows "\<forall>page \<in> set pages. prefix directory (snd page)"
  using assms
  by (auto simp: pdf_to_images_def Let_def numbered_def map_filter_def aresult_def elim!: abind_Inr_E split: if_splits)

lemma act_each_all:
  assumes "act_each f xs s = (s', Inr ys)" and "\<And>x s s' y. x \<in> set xs \<Longrightarrow> f x s = (s', Inr y) \<Longrightarrow> R y"
  shows "\<forall>y \<in> set ys. R y"
  using assms
proof (induction xs arbitrary: s ys)
  case (Cons x xs)
  from Cons.prems(1) obtain s1 y s2 zs where "f x s = (s1, Inr y)" and zs: "act_each f xs s1 = (s2, Inr zs)"
    and ys: "ys = y # zs" "s2 = s'" by (auto simp: areturn_def elim!: abind_Inr_E)
  then have "R y" using Cons.prems(2) by auto
  moreover have "\<forall>y \<in> set zs. R y"
    using Cons.IH [OF zs [unfolded ys(2)]] Cons.prems(2) by (metis list.set_intros(2))
  ultimately show ?case by (simp add: ys)
qed (simp add: areturn_def)

lemma pdf_to_images_auto_within:
  assumes "pdf_to_images_auto h cfg rq directory n a b d = (d', Inr pages)"
  shows "\<forall>page \<in> set pages. prefix directory (snd page)"
proof -
  have chunk: "prefix directory p" if "prefix (chunk_dir directory i) p" for i p
    using that by (auto simp: chunk_dir_def prefix_def)
  show ?thesis
  proof (cases "max 0 (min (or_page b n) n - or_page a 1 + 1) \<le> s_render_threshold_pages cfg")
    case True
    then show ?thesis using assms pdf_to_images_within by (fastforce simp: pdf_to_images_auto_def Let_def)
  next
    case False
    then obtain s1 results where each: "act_each (\<lambda>(index, a, b). pdf_to_images h cfg rq (chunk_dir directory index) (Some a) (Some b))
        (enumerate 0 (chunk_ranges (or_page a 1) (min (or_page b n) n) (max 1 (s_render_workers cfg)))) d = (s1, Inr results)"
      and pages: "pages = sort_key fst (concat results)"
      using assms by (auto simp: pdf_to_images_auto_def Let_def areturn_def elim!: abind_Inr_E)
    have "\<forall>ps \<in> set results. \<forall>page \<in> set ps. prefix directory (snd page)"
      by (rule act_each_all [OF each]) (auto dest!: pdf_to_images_within chunk)
    then show ?thesis by (auto simp: pages)
  qed
qed

lemma render_within:
  assumes "render_task tb fmt ctx st = (st', Inr out)"
  shows "\<forall>p \<in> set out. prefix (rc_workspace ctx) (pf_path p)"
proof (rule gathered_all [OF process_each_gathers])
  show "process_each_input (\<lambda>path name index.
         abind (on_disk (abind (page_count (tb_pypdf tb) path) (\<lambda>total_pages.
           pdf_to_images_auto (tb_render tb) (tb_cfg tb)
             \<lparr>rr_input = path, rr_format = fmt, rr_dpi = opt_int ctx ''dpi'' 150, rr_quality = opt_int ctx ''quality'' 90,
              rr_grayscale = opt_flag ctx ''grayscale'' False, rr_display = Some name\<rparr>
             (rc_workspace ctx) (int total_pages) (opt_page ctx ''first_page'') (opt_page ctx ''last_page'')))) (\<lambda>pages.
         areturn (map (\<lambda>(number, page_path). \<lparr>pf_path = page_path,
             pf_download_name = image_name_of (file_stem name) fmt (length pages) number,
             pf_media_type = image_media_type fmt\<rparr>) pages)))
       (rc_report ctx) 90 (job_pairs ctx) st = (st', Inr out)"
    using assms by (simp only: render_task_def)
qed (auto 4 4 simp: yields_def areturn_def elim!: abind_Inr_E on_disk_Inr_E dest!: pdf_to_images_auto_within)

lemma split_within:
  assumes "split_task tb ctx st = (st', Inr out)"
  shows "\<forall>p \<in> set out. prefix (rc_workspace ctx) (pf_path p)"
proof -
  from assms obtain s1 parts where "on_disk (split_pdf (tb_pypdf tb) (hd (rc_input_paths ctx)) (rc_workspace ctx)
      (map_option (List.map_filter json_str) (opt_list ctx ''ranges'')) (opt_text ctx ''mode'' = Some ''every_page'')) st
      = (s1, Inr parts)"
    and outs: "pf_path ` set out = snd ` set parts"
    by (auto simp: split_task_def Let_def areturn_def produced_pdf_def image_image case_prod_unfold elim!: abind_Inr_E)
  from this(1) obtain src ranges every d1 d2 where
    split: "split_pdf (tb_pypdf tb) src (rc_workspace ctx) ranges every d1 = (d2, Inr parts)"
    by (rule on_disk_Inr_E) (rule that)
  have "\<forall>part \<in> set parts. prefix (rc_workspace ctx) (snd part)"
    using split unfolding split_pdf_def
    by (auto simp: areturn_def aresult_def write_pdf_def part_path_def split: prod.splits option.splits
        elim!: abind_Inr_E dest!: act_each_all [where R = "\<lambda>part. prefix (rc_workspace ctx) (snd part)"])
  then show ?thesis using outs by (metis (no_types, lifting) image_iff)
qed

lemma office_task_named:
  assumes "set (tb_schedule tb) = {0..<length (job_pairs ctx)}"
    and "office_task tb filter_name filters ctx st = (st', Inr out)"
  shows "gathered (named (\<lambda>n. file_stem n @ ''.pdf'') (rc_workspace ctx)) (job_pairs ctx) out"
  using assms(2) unfolding office_task_def
  by (elim abind_Inr_E, intro parallel_gathers [OF _ assms(1)])
    (auto simp: yields_def named_def areturn_def produced_pdf_def elim!: abind_Inr_E)

lemma pdf_to_word_named:
  assumes "set (tb_schedule tb) = {0..<length (job_pairs ctx)}" and "pdf_to_word_task tb ctx st = (st', Inr out)"
  shows "gathered (named (\<lambda>n. file_stem n @ ''.docx'') (rc_workspace ctx)) (job_pairs ctx) out"
proof -
  let ?Q = "named (\<lambda>n. file_stem n @ ''.docx'') (rc_workspace ctx)"
  have Q: "?Q name [word_file ctx name index]" for name index
    by (simp add: named_def word_file_def word_output_def)
  show ?thesis
  proof (cases "1 < length (rc_input_paths ctx) \<and> tb_spawn tb")
    case True
    then obtain prepared s1 s2 results where
      loop: "parallel_loop (\<lambda>_ name index.
           abind (on_disk (convert_input tb ctx (prepared ! index) name index)) (\<lambda>_. areturn [word_file ctx name index]))
         (rc_report ctx) 90 (job_pairs ctx) (tb_schedule tb) 0 (\<lambda>_. None) s1 = (s2, Inr results)"
      and out: "out = concat (List.map_filter results [0..<length (job_pairs ctx)])"
      using assms(2) by (auto simp: pdf_to_word_task_def pdf_to_word_parallel_def areturn_def elim!: abind_Inr_E)
    have "\<forall>i \<in> set (tb_schedule tb). \<exists>out. results i = Some out \<and> ?Q (snd (job_pairs ctx ! i)) out"
      using Q by (intro parallel_loop_gathers [OF _ loop, THEN conjunct1])
        (auto simp: yields_def areturn_def elim!: abind_Inr_E)
    then show ?thesis unfolding out using assms(1) by (intro map_filter_gathers) auto
  next
    case False
    then have "process_each_input (\<lambda>path name index.
             abind (on_disk (abind (prepare_input tb ctx path name) (\<lambda>prepared. convert_input tb ctx prepared name index)))
               (\<lambda>_. areturn [word_file ctx name index]))
           (rc_report ctx) 90 (job_pairs ctx) st = (st', Inr out)"
      using assms(2) by (auto simp: pdf_to_word_task_def)
    then show ?thesis
      using Q by (intro process_each_gathers) (auto simp: yields_def areturn_def elim!: abind_Inr_E)
  qed
qed

text \<open>The tools with one output per input, and what is put after the stem of the input's name.\<close>

fun tool_ending :: "tool_slug \<Rightarrow> string option" where
  "tool_ending COMPRESS = Some ''-compressed.pdf''"
| "tool_ending COMPRESS_SCANNED = Some ''-compressed.pdf''"
| "tool_ending ROTATE = Some ''-rotated.pdf''"
| "tool_ending DELETE_PAGES = Some ''-edited.pdf''"
| "tool_ending EXTRACT_PAGES = Some ''-extracted.pdf''"
| "tool_ending REORDER_PAGES = Some ''-reordered.pdf''"
| "tool_ending PDF_TO_WORD = Some ''.docx''"
| "tool_ending WORD_TO_PDF = Some ''.pdf''"
| "tool_ending EXCEL_TO_PDF = Some ''.pdf''"
| "tool_ending PPT_TO_PDF = Some ''.pdf''"
| "tool_ending WATERMARK = Some ''-watermarked.pdf''"
| "tool_ending REMOVE_WATERMARK = Some ''-no-watermark.pdf''"
| "tool_ending HEADER_FOOTER = Some ''-headers.pdf''"
| "tool_ending PAGE_NUMBERS = Some ''-numbered.pdf''"
| "tool_ending PROTECT = Some ''-protected.pdf''"
| "tool_ending UNLOCK = Some ''-unlocked.pdf''"
| "tool_ending OCR = Some ''-ocr.pdf''"
| "tool_ending REPAIR = Some ''-repaired.pdf''"
| "tool_ending METADATA = Some ''-metadata.pdf''"
| "tool_ending REDACT = Some ''-redacted.pdf''"
| "tool_ending SIGN = Some ''-signed.pdf''"
| "tool_ending _ = None"

definition tool_inputs :: "tool_slug \<Rightarrow> run_ctx \<Rightarrow> (path \<times> string) list" where
  "tool_inputs t ctx = (if t \<in> {WATERMARK, SIGN} then pdf_inputs ctx else job_pairs ctx)"

lemma suffixed_ending: "suffixed sfx = (\<lambda>n. file_stem n @ CHR ''-'' # sfx @ ''.pdf'')"
  by (simp add: suffixed_def fun_eq_iff)

lemma sign_named:
  "sign_task tb ctx st = (st', Inr out) \<Longrightarrow> gathered (named (suffixed ''signed'') (rc_workspace ctx)) (pdf_inputs ctx) out"
  by (auto simp: sign_task_def aresult_def processing_error_def split: list.splits if_splits
      elim!: abind_Inr_E dest: each_to_pdf_named)

lemma tool_gathers:
  assumes "set (tb_schedule tb) = {0..<length (job_pairs ctx)}"
    and "processor_of tb t ctx st = (st', Inr out)" and "tool_ending t = Some e"
  shows "gathered (named (\<lambda>n. file_stem n @ e) (rc_workspace ctx)) (tool_inputs t ctx) out"
  using assms(2,3)
  by (cases t)
    (auto simp: task_defs watermark_task_def header_footer_task_def page_numbers_task_def
        office_to_pdf_def ppt_task_def tool_inputs_def suffixed_ending split: prod.splits if_splits
      elim!: abind_Inr_E dest!: each_to_pdf_named stamp_all_named sign_named
        office_task_named [OF assms(1)] pdf_to_word_named [OF assms(1)])

lemma tool_outputs_within:
  assumes "set (tb_schedule tb) = {0..<length (job_pairs ctx)}" and "processor_of tb t ctx st = (st', Inr out)"
  shows "\<forall>p \<in> set out. prefix (rc_workspace ctx) (pf_path p)"
proof (cases "tool_ending t")
  case (Some e)
  with tool_gathers [OF assms] show ?thesis by (blast dest: gathered_named)
next
  case None
  with assms show ?thesis
    by (cases t) (auto simp: task_defs dest: one_file_within render_within split_within)
qed

section \<open>Libraries for the witnesses\<close>

definition demo_ocr :: "disk ocr_host" where
  "demo_ocr = \<lparr>ol_prog = (\<lambda>_ d. (d, Exited 0 [] [])), ol_which = (\<lambda>_. None), ol_is_file = (\<lambda>_ _. False), ol_home = ''/'',
     ol_environ = [], ol_decode = (\<lambda>_. []), ol_letter = (\<lambda>_. True), ol_lower = (\<lambda>t. t), ol_open = (\<lambda>_ _. Inr (False, 0)),
     ol_save_page = (\<lambda>_ _ _ d. (d, None)), ol_rotate = (\<lambda>_ _ d. (d, None))\<rparr>"

definition demo_word :: "string docx_lib" where
  "demo_word = \<lparr>dx_open = (\<lambda>_. Inr []), dx_save = (\<lambda>_. ([1], None)), dx_tag = (\<lambda>e. e), dx_new = (\<lambda>t. t),
     dx_insert_before = (\<lambda>e _ es. es @ [e]), dx_letter = (\<lambda>_. True)\<rparr>"

definition demo_toolbox :: "(8 word, 8 word, int, 8 word, unit, bytes, string) toolbox" where
  "demo_toolbox =
     \<lparr>tb_cfg = default_tool_settings, tb_arith = int_arith, tb_limit = 100, tb_now = (''2026-07-09'', ''12:00''),
      tb_overlay = byte_overlay, tb_document = byte_document,
      tb_diff = \<lparr>df_ratio = (\<lambda>a b. if a = b then 1 else 0), df_same = (\<lambda>r. r = 1), df_unified = (\<lambda>_ _. []), df_percent = (\<lambda>_. ''0'')\<rparr>,
      tb_report = (\<lambda>_. [9]), tb_fitz = byte_fitz,
      tb_security = \<lparr>sl_writable = (\<lambda>_. True), sl_order = (\<lambda>_. []), sl_gc = (\<lambda>doc. doc), sl_redact = (\<lambda>_ doc. Inr (doc, 0)),
        sl_recursion_limit = 1000\<rparr>,
      tb_source = (\<lambda>_. \<lparr>src_read = Some ''broken'', src_encrypted = False, src_decrypts = False, src_pages = Inl ''broken'',
        src_clone = Inl ''broken''\<rparr>),
      tb_write = (\<lambda>_. ([1], None)), tb_encrypt = (\<lambda>_. ([1], None)), tb_prog = (\<lambda>_ d. (d, Exited 0 [] [])),
      tb_ocr = demo_ocr, tb_python = ''/usr/bin/python3'', tb_plugin = ''/plugin.py'', tb_pike = demo_pike,
      tb_images = \<lparr>im_open = (\<lambda>_. Inl ''broken''), im_flatten = Inr, im_rgb = Inr, im_mm_to_pt = (\<lambda>x. x),
        im_assemble = (\<lambda>bs _. (concat bs, None))\<rparr>,
      tb_reader = (\<lambda>_. Inl ''broken''),
      tb_convert = \<lparr>cv_open = (\<lambda>_. None), cv_convert = (\<lambda>b _ _. (b, None)), cv_save_fallback = (\<lambda>_. ([1], None)), cv_strip = (\<lambda>t. t)\<rparr>,
      tb_docx = demo_word, tb_render = demo_host,
      tb_office = (\<lambda>_ rq d. (d, Inr (lc_expected rq))), tb_slots = Inr 2, tb_schedule = [1, 0], tb_spawn = True\<rparr>"

definition demo_ctx :: run_ctx where
  "demo_ctx =
     \<lparr>rc_job = sample_job, rc_input_paths = [[''in'', ''x.docx''], [''in'', ''y.docx'']],
      rc_input_names = [''a.docx'', ''b.docx''], rc_options = [(''pdf_a'', JBool True)], rc_workspace = [''w''],
      rc_report = (\<lambda>_. areturn ())\<rparr>"

section \<open>Properties\<close>

text \<open>
  C5: Every task of every tool ends its job. With a database that works, whatever the libraries and
  the external programs do, the task of a queued or running job returns normally and the
  committed row is completed, or failed with an error code; other jobs are as before; and after a
  protection or an unlocking no password is left in the options of the job.
\<close>

theorem tool_task_finishes:
  assumes "re_db_fault env = (\<lambda>_. None)" and "\<not> rs_broken st"
    and "find (\<lambda>j. j_id j = i) (db_jobs (ss_current (rs_session st))) = Some j"
    and "\<not> is_terminal (j_status j)"
  shows "\<exists>s j'. tool_task tb env t i st = (s, Inr ())
    \<and> find (\<lambda>j. j_id j = i) (db_jobs (ss_committed (rs_session s))) = Some j'
    \<and> (j_status j' = COMPLETED \<and> j_progress j' = 100 \<or> j_status j' = FAILED \<and> j_error_code j' \<noteq> None)
    \<and> (\<forall>k. k \<noteq> i \<longrightarrow> find (\<lambda>j. j_id j = k) (db_jobs (ss_committed (rs_session s)))
         = find (\<lambda>j. j_id j = k) (db_jobs (ss_current (rs_session st))))
    \<and> (\<forall>k v. (k, v) \<in> set (j_options j')
         \<and> (t = PROTECT \<and> k \<in> {''user_password'', ''owner_password''} \<or> t = UNLOCK \<and> k = ''password'')
         \<longrightarrow> v = JStr ''[redacted]'')"
proof -
  obtain s j' e where run: "tool_task tb env t i st = (s, Inr ())"
    and row: "find (\<lambda>j. j_id j = i) (db_jobs (ss_committed (rs_session s))) = Some j'"
    and status: "j_status j' = COMPLETED \<and> j_progress j' = 100 \<and> j_error_code j' = j_error_code j
       \<or> j_status j' = FAILED \<and> j_error_code j' = Some (fst (failure_of e))
         \<and> j_error_message j' = Some (take 2000 (snd (failure_of e)))"
    and options: "j_options j' = redact (redact_option_keys t) (j_options j)"
    and others: "\<forall>k. k \<noteq> i \<longrightarrow> find (\<lambda>j. j_id j = k) (db_jobs (ss_committed (rs_session s)))
         = find (\<lambda>j. j_id j = k) (db_jobs (ss_current (rs_session st)))"
    using run_tool_job_ends [OF assms(1,2) tool_confined [of tb t] assms(3,4), of "redact_option_keys t"]
    unfolding tool_task_def by blast
  have "v = JStr ''[redacted]''" if "(k, v) \<in> set (j_options j')" "k \<in> set (redact_option_keys t)" for k v
    using that by (auto simp: options redact_def)
  then show ?thesis using run row status others by (intro exI [of _ s] exI [of _ j']) auto
qed

theorem tool_task_finishes_witness:
  "\<exists>s j'. tool_task demo_toolbox sample_run_env PROTECT 7 sample_run_state = (s, Inr ())
    \<and> find (\<lambda>j. j_id j = 7) (db_jobs (ss_committed (rs_session s))) = Some j'
    \<and> is_terminal (j_status j') \<and> (\<forall>v. (''user_password'', v) \<in> set (j_options j') \<longrightarrow> v = JStr ''[redacted]'')"
proof -
  have "re_db_fault sample_run_env = (\<lambda>_. None)" "\<not> rs_broken sample_run_state"
    by (simp_all add: sample_run_env_def sample_run_state_def Let_def)
  from tool_task_finishes [OF this sample_job_found, of demo_toolbox PROTECT] show ?thesis by fastforce
qed



end
