(* ===== verification/Bootstrap.thy ===== *)
theory Bootstrap
  imports AdminUsers AdminSettings PdfOverlay ToolCatalog
begin

text \<open>
  What runs at every start of the application: \<open>app/services/admin_bootstrap.py\<close>, called by the
  lifespan hook of \<open>app/core/lifespan.py\<close>, and the check of the production settings
  (\<open>app/config/production.py\<close>).

  Every step opens a session of its own and commits at its end. The UUIDs of the new rows, the
  date and the seeded generator of \<open>random\<close> (its state, and what each of its methods draws) are
  arguments; numbers of sessions are computed in floating point (\<open>arith\<close>, and \<open>int\<close> of a float).
\<close>

section \<open>Settings\<close>

record bootstrap_env =
  be_auth :: auth_env
  be_admin_email :: string
  be_admin_password :: string
  be_admin_name :: string
  be_now :: int
  be_today :: int \<comment> \<open>days since 1970-01-01\<close>
  be_user_id :: nat
  be_tool_id :: "nat \<Rightarrow> nat"

text \<open>The defaults of \<open>BaseAppSettings\<close>, and the validator of \<open>ProductionSettings\<close>.\<close>

definition default_admin_email :: string where
  "default_admin_email = ''admin@pdfly.com''"

definition default_admin_password :: string where
  "default_admin_password = ''Admin@12345''"

definition enforce_production_hardening :: "string \<Rightarrow> string list \<Rightarrow> string option" where
  "enforce_production_hardening secret_key allowed_hosts =
     (if starts_with ''change-me'' secret_key
      then Some ''SECRET_KEY must be set to a strong, unique value in production.''
      else if ''*'' \<in> set allowed_hosts
      then Some ''ALLOWED_HOSTS must be an explicit allow-list in production (wildcard '*' is not permitted).''
      else None)"

section \<open>The administrator\<close>

definition new_admin :: "bootstrap_env \<Rightarrow> string \<Rightarrow> user" where
  "new_admin env h =
     \<lparr>us_id = be_user_id env, us_name = (if be_admin_name env = [] then ''Admin'' else be_admin_name env),
      us_email = py_lower (py_strip (be_admin_email env)), us_password_hash = h, us_plan = ''pro'', us_avatar = None,
      us_email_verified_at = None, us_is_admin = True, us_status = ''active'',
      us_created_at = be_now env, us_updated_at = be_now env\<rparr>"

definition promoted :: "int \<Rightarrow> user \<Rightarrow> user" where
  "promoted now u = touched now u (u\<lparr>us_is_admin := True\<rparr>)"

definition ensure_admin_user :: "bootstrap_env \<Rightarrow> (site, unit) action" where
  "ensure_admin_user env s =
     (if py_strip (be_admin_email env) = [] then (s, Inr ())
      else case get_by_email (be_admin_email env) (si_users s) of
        Inl e \<Rightarrow> (s, Inl e)
      | Inr (Some u) \<Rightarrow>
          (s\<lparr>si_users := map (\<lambda>v. if us_id v = us_id u then promoted (be_now env) v else v) (si_users s)\<rparr>, Inr ())
      | Inr None \<Rightarrow>
          if be_admin_password env = [] then (s, Inr ())
          else (case hash_password (be_auth env) (be_admin_password env) of
                  Inl e \<Rightarrow> (s, Inl e)
                | Inr h \<Rightarrow> (s\<lparr>si_users := si_users s @ [new_admin env h]\<rparr>, Inr ())))"

section \<open>Tools and settings\<close>

definition TOOL_CATALOG :: "(string \<times> string \<times> string \<times> int) list" where
  "TOOL_CATALOG =
     [(''merge'', ''Merge PDF'', ''Organize'', 100),
      (''split'', ''Split PDF'', ''Organize'', 100),
      (''rotate'', ''Rotate PDF'', ''Organize'', 100),
      (''delete-pages'', ''Delete Pages'', ''Organize'', 100),
      (''extract-pages'', ''Extract Pages'', ''Organize'', 100),
      (''reorder'', ''Reorder Pages'', ''Organize'', 100),
      (''compress'', ''Compress PDF'', ''Optimize'', 100),
      (''compress-scanned'', ''Compress Scanned'', ''Optimize'', 100),
      (''ocr'', ''OCR PDF'', ''Optimize'', 50),
      (''repair'', ''Repair PDF'', ''Optimize'', 100),
      (''pdf-to-word'', ''PDF to Word'', ''Convert'', 100),
      (''word-to-pdf'', ''Word to PDF'', ''Convert'', 100),
      (''excel-to-pdf'', ''Excel to PDF'', ''Convert'', 100),
      (''ppt-to-pdf'', ''PowerPoint to PDF'', ''Convert'', 100),
      (''pdf-to-jpg'', ''PDF to JPG'', ''Convert'', 100),
      (''pdf-to-png'', ''PDF to PNG'', ''Convert'', 100),
      (''jpg-to-pdf'', ''JPG to PDF'', ''Convert'', 100),
      (''png-to-pdf'', ''PNG to PDF'', ''Convert'', 100),
      (''editor'', ''PDF Editor'', ''Edit'', 100),
      (''watermark'', ''Add Watermark'', ''Edit'', 100),
      (''remove-watermark'', ''Remove Watermark'', ''Edit'', 100),
      (''header-footer'', ''Header & Footer'', ''Edit'', 100),
      (''page-numbers'', ''Page Numbers'', ''Edit'', 100),
      (''metadata'', ''Edit Metadata'', ''Edit'', 100),
      (''compare'', ''Compare PDF'', ''Edit'', 100),
      (''fill-forms'', ''Fill Forms'', ''Edit'', 100),
      (''protect'', ''Protect PDF'', ''Security'', 100),
      (''unlock'', ''Unlock PDF'', ''Security'', 100),
      (''redact'', ''Redact PDF'', ''Security'', 100),
      (''sign'', ''Sign PDF'', ''Security'', 50)]"

definition seeded_tool :: "bootstrap_env \<Rightarrow> nat \<Rightarrow> string \<times> string \<times> string \<times> int \<Rightarrow> tool_config" where
  "seeded_tool env order item =
     (case item of (slug, name, category, limit) \<Rightarrow>
       \<lparr>tc_id = be_tool_id env order, tc_slug = slug, tc_name = name, tc_category = category, tc_enabled = True,
        tc_visible = True, tc_maintenance = False, tc_file_limit_mb = limit, tc_sort_order = int order\<rparr>)"

definition seed_tool_configs :: "bootstrap_env \<Rightarrow> (site, unit) action" where
  "seed_tool_configs env s =
     (let existing = tc_slug ` set (si_tools s);
          created = map (\<lambda>(order, item). seeded_tool env order item)
            (filter (\<lambda>(order, item). fst item \<notin> existing) (enumerate 0 TOOL_CATALOG))
      in (s\<lparr>si_tools := si_tools s @ created\<rparr>, Inr ()))"

definition DEFAULT_SETTINGS :: "(string \<times> (string \<times> json) list) list" where
  "DEFAULT_SETTINGS =
     [(''general'', [
         (''site_name'', JStr ''PDFly''), (''site_url'', JStr ''https://pdfly.com''),
         (''maintenance_mode'', JBool False), (''registration_open'', JBool True)]),
      (''auth'', [
         (''password_min_length'', JInt 8), (''password_require_uppercase'', JBool True),
         (''password_require_number'', JBool True), (''session_timeout_minutes'', JInt 30),
         (''two_factor'', JStr ''optional''), (''oauth_google'', JBool True), (''oauth_github'', JBool True)]),
      (''email'', [
         (''smtp_host'', JStr ''smtp.sendgrid.net''), (''smtp_port'', JInt 587),
         (''sender_email'', JStr ''noreply@pdfly.com''), (''use_tls'', JBool True)]),
      (''uploads'', [
         (''max_file_size_free_mb'', JInt 100), (''max_file_size_pro_mb'', JInt 5120),
         (''daily_limit_free'', JInt 10), (''auto_delete_hours'', JInt 2),
         (''allowed_formats'', JList [JStr ''PDF'', JStr ''DOC'', JStr ''DOCX'', JStr ''XLS'', JStr ''XLSX'', JStr ''PPT'', JStr ''PPTX'', JStr ''JPG'', JStr ''PNG''])]),
      (''razorpay'', [
         (''api_key'', JStr ''''), (''secret_key'', JStr ''''),
         (''webhook_url'', JStr ''https://pdfly.com/api/razorpay/webhook''), (''test_mode'', JBool True),
         (''plans'', JList [JObj [(''name'', JStr ''Pro Monthly''), (''price'', JStr ''$9.99/mo''), (''id'', JStr ''plan_monthly''), (''features'', JStr ''5 GB files, unlimited conversions, no ads'')], JObj [(''name'', JStr ''Pro Yearly''), (''price'', JStr ''$89.99/yr''), (''id'', JStr ''plan_yearly''), (''features'', JStr ''Same as monthly, save 25%'')]])]),
      (''security'', [
         (''rate_limit_per_min'', JInt 100), (''cors_origins'', JStr ''*.pdfly.com''),
         (''csp_strict'', JBool True), (''force_https'', JBool True), (''blocked_ips'', JList [])]),
      (''backup'', [
         (''auto_backup'', JBool True), (''schedule'', JStr ''Daily at 03:00 UTC''),
         (''retention_days'', JInt 30),
         (''storage'', JStr (''AWS S3 '' @ [CHR 0xE2, CHR 0x80, CHR 0x94] @ '' pdfly-backups''))]),
      (''localization'', [
         (''default_language'', JStr ''English''), (''timezone'', JStr ''UTC''),
         (''date_format'', JStr ''MMM DD, YYYY''), (''currency'', JStr ''USD'')]),
      (''integrations'', [
         (''google_analytics'', JBool True), (''sendgrid'', JBool True), (''cloudflare'', JBool True),
         (''sentry'', JBool False), (''slack'', JBool False)]),
      (''branding'', [
         (''primary_color'', JStr ''#2563eb''), (''secondary_color'', JStr ''#8b5cf6''),
         (''accent_color'', JStr ''#06b6d4''), (''danger_color'', JStr ''#dc2626''),
         (''logo'', JStr ''pdfly-logo.svg''), (''favicon'', JStr ''favicon.ico''),
         (''social'', JObj [(''twitter'', JStr ''https://x.com/pdfly''), (''github'', JStr ''https://github.com/pdfly''), (''linkedin'', JStr ''https://linkedin.com/company/pdfly'')])]),
      (''notifications'', [
         (''channel_email'', JBool True), (''channel_push'', JBool False), (''channel_in_app'', JBool True),
         (''event_new_user'', JBool True), (''event_failed_job'', JBool True),
         (''event_error_spike'', JBool True), (''event_new_message'', JBool True),
         (''event_new_subscription'', JBool True), (''alert_email'', JStr ''alerts@pdfly.com'')]),
      (''seo'', [
         (''meta_title'', JStr (''PDFly '' @ [CHR 0xE2, CHR 0x80, CHR 0x94] @ '' Free Online PDF Tools'')),
         (''meta_description'', JStr ''Convert, compress, merge, split and edit PDFs online for free.''),
         (''robots'', JStr ''Allow all crawlers''), (''google_analytics_id'', JStr ''G-XXXXXXXXXX'')])]"

definition seeded_setting :: "string \<times> (string \<times> json) list \<Rightarrow> app_setting" where
  "seeded_setting item =
     \<lparr>st_key = fst item, st_value = JObj (snd item), st_category = fst item, st_updated_by = None\<rparr>"

definition seed_settings :: "(site, unit) action" where
  "seed_settings s =
     (let existing = st_key ` set (si_settings s)
      in (s\<lparr>si_settings := si_settings s
            @ map seeded_setting (filter (\<lambda>item. fst item \<notin> existing) DEFAULT_SETTINGS)\<rparr>, Inr ()))"

section \<open>Traffic\<close>

text \<open>What the generator draws, with its state: an index stands for the element at it.\<close>

record ('f, 'g) rng =
  rg_start :: 'g \<comment> \<open>\<open>Random(1337)\<close>\<close>
  rg_randint :: "int \<Rightarrow> int \<Rightarrow> 'g \<Rightarrow> int \<times> 'g"
  rg_random :: "'g \<Rightarrow> 'f \<times> 'g"
  rg_choice :: "nat \<Rightarrow> 'g \<Rightarrow> nat \<times> 'g"
  rg_choices :: "'f list \<Rightarrow> nat \<Rightarrow> 'g \<Rightarrow> nat list \<times> 'g"
  rg_int :: "'f \<Rightarrow> int" \<comment> \<open>\<open>int\<close> of a float\<close>

definition devices :: "string list" where
  "devices = [''Desktop'', ''Mobile'', ''Tablet'']"

definition browsers :: "string list" where
  "browsers = [''Chrome'', ''Safari'', ''Firefox'', ''Edge'', ''Opera'']"

definition countries :: "string list" where
  "countries = [''US'', ''IN'', ''DE'', ''UK'', ''FR'', ''CA'', ''AU'', ''JP'']"

definition traffic_sources :: "string list" where
  "traffic_sources = [''Organic Search'', ''Direct'', ''Referral'', ''Social Media'', ''Paid Ads'']"

definition os_map :: "string \<Rightarrow> string list \<times> string list" where
  "os_map device =
     (if device = ''Desktop'' then ([''Windows'', ''macOS'', ''Linux''], [''0.65'', ''0.30'', ''0.05''])
      else if device = ''Mobile'' then ([''Android'', ''iOS''], [''0.60'', ''0.40''])
      else ([''iOS'', ''Android''], [''0.70'', ''0.30'']))"

definition seeded_pages :: "string list" where
  "seeded_pages = [''/'', ''/tools/merge'', ''/tools/split'', ''/tools/compress'', ''/tools/ocr'', ''/tools/editor'',
     ''/tools/word-to-pdf'', ''/pricing'', ''/contact'', ''/feedback'']"

definition seeded_page_weights :: "string list" where
  "seeded_page_weights = [''0.30'', ''0.15'', ''0.12'', ''0.10'', ''0.08'', ''0.10'', ''0.07'', ''0.05'', ''0.03'', ''0.05'']"

text \<open>\<open>rng.choices(values, weights, k=1)[0]\<close>.\<close>

definition pick_weighted :: "'f arith \<Rightarrow> ('f, 'g) rng \<Rightarrow> string list \<Rightarrow> string list \<Rightarrow> 'g \<Rightarrow> string \<times> 'g" where
  "pick_weighted A r values weights g =
     (case rg_choices r (map (fl_lit A) weights) 1 g of (is, g') \<Rightarrow> (values ! hd is, g'))"

record visit_session =
  vs_visitor :: string
  vs_session :: string
  vs_device :: string
  vs_browser :: string
  vs_country :: string
  vs_source :: string
  vs_os :: string
  vs_returning :: bool
  vs_paths :: "string list"

text \<open>The draws of one session, in the order of the code.\<close>

definition draw_session :: "'f arith \<Rightarrow> ('f, 'g) rng \<Rightarrow> 'g \<Rightarrow> visit_session \<times> 'g" where
  "draw_session A r g0 =
     (let (x, g1) = rg_random r g0;
          returning = fl_less A x (fl_lit A ''0.38'');
          (v, g2) = (if returning then rg_choice r 350 g1
                     else (case rg_choice r 650 g1 of (k, g) \<Rightarrow> (350 + k, g)));
          (dev, g3) = pick_weighted A r devices [''0.60'', ''0.30'', ''0.10''] g2;
          (browser, g4) = pick_weighted A r browsers [''0.55'', ''0.25'', ''0.10'', ''0.08'', ''0.02''] g3;
          (country, g5) = pick_weighted A r countries
             [''0.35'', ''0.25'', ''0.12'', ''0.10'', ''0.08'', ''0.04'', ''0.03'', ''0.03''] g4;
          (src, g6) = pick_weighted A r traffic_sources [''0.40'', ''0.25'', ''0.15'', ''0.12'', ''0.08''] g5;
          (op_sys, g7) = pick_weighted A r (fst (os_map dev)) (snd (os_map dev)) g6;
          (page_views, g8) = rg_randint r 1 4 g7;
          (visited, g9) = rg_choices r (map (fl_lit A) seeded_page_weights) (nat page_views) g8;
          (s_id, g10) = rg_randint r 100000 999999 g9
      in (\<lparr>vs_visitor = ''visitor_'' @ nat_str v, vs_session = ''session_'' @ int_str s_id, vs_device = dev,
           vs_browser = browser, vs_country = country, vs_source = src, vs_os = op_sys, vs_returning = returning,
           vs_paths = map ((!) seeded_pages) visited\<rparr>, g10))"

fun session_visits :: "('f, 'g) rng \<Rightarrow> int \<Rightarrow> visit_session \<Rightarrow> nat \<Rightarrow> string list \<Rightarrow> 'g \<Rightarrow> page_visit list \<times> 'g" where
  "session_visits r day vs idx [] g = ([], g)"
| "session_visits r day vs idx (path # paths) g =
     (let (hour, g1) = rg_randint r 0 23 g;
          (minute, g2) = rg_randint r 0 59 g1;
          (second, g3) = rg_randint r 0 59 g2;
          (rest, g4) = session_visits r day vs (idx + 1) paths g3
      in (\<lparr>pv_visitor_id = vs_visitor vs, pv_session_id = vs_session vs, pv_path = path,
           pv_referrer = (if vs_source vs = ''Organic Search'' then Some ''https://google.com'' else None),
           pv_device = Some (vs_device vs), pv_browser = Some (vs_browser vs), pv_os = Some (vs_os vs),
           pv_country = Some (vs_country vs), pv_source = Some (vs_source vs),
           pv_is_returning = (if idx = 0 then vs_returning vs else True),
           pv_created_at = days day + hours hour + minutes minute + second * 1000000\<rparr> # rest, g4))"

fun day_sessions :: "'f arith \<Rightarrow> ('f, 'g) rng \<Rightarrow> int \<Rightarrow> nat \<Rightarrow> 'g \<Rightarrow> page_visit list \<times> 'g" where
  "day_sessions A r day 0 g = ([], g)"
| "day_sessions A r day (Suc n) g =
     (let (vs, g1) = draw_session A r g;
          (visits, g2) = session_visits r day vs 0 (vs_paths vs) g1;
          (rest, g3) = day_sessions A r day n g2
      in (visits @ rest, g3))"

text \<open>\<open>date.weekday()\<close>: 1970-01-01 was a Thursday, and Monday is 0.\<close>

definition weekday :: "int \<Rightarrow> int" where
  "weekday day = (day + 3) mod 7"

definition sessions_of_day :: "'f arith \<Rightarrow> ('f, 'g) rng \<Rightarrow> int \<Rightarrow> nat \<Rightarrow> 'g \<Rightarrow> nat \<times> 'g" where
  "sessions_of_day A r day day_offset g =
     (let day_mult = fl_lit A (if 5 \<le> weekday day then ''0.65'' else ''1.0'');
          growth = fl_add A (fl_lit A ''1.0'')
            (fl_mul A (fl_div A (fl_of_int A (int day_offset)) (fl_lit A ''100.0'')) (fl_lit A ''0.03''));
          (base, g') = rg_randint r 30 70 g
      in (nat (rg_int r (fl_mul A (fl_mul A (fl_of_int A base) day_mult) growth)), g'))"

fun traffic_days :: "'f arith \<Rightarrow> ('f, 'g) rng \<Rightarrow> int \<Rightarrow> nat list \<Rightarrow> 'g \<Rightarrow> page_visit list \<times> 'g" where
  "traffic_days A r start_day [] g = ([], g)"
| "traffic_days A r start_day (day_offset # offsets) g =
     (let day = start_day + int day_offset;
          (n, g1) = sessions_of_day A r day day_offset g;
          (visits, g2) = day_sessions A r day n g1;
          (rest, g3) = traffic_days A r start_day offsets g2
      in (visits @ rest, g3))"

definition seed_traffic :: "'f arith \<Rightarrow> ('f, 'g) rng \<Rightarrow> bootstrap_env \<Rightarrow> (site, unit) action" where
  "seed_traffic A r env s =
     (if db_visits (si_db s) \<noteq> [] then (s, Inr ())
      else (s\<lparr>si_db := (si_db s)\<lparr>db_visits := fst (traffic_days A r (be_today env - 90) [0..<91] (rg_start r))\<rparr>\<rparr>, Inr ()))"

section \<open>The start\<close>

text \<open>The four steps in one \<open>try\<close>: an exception ends them, and is only logged.\<close>

definition bootstrap_admin :: "'f arith \<Rightarrow> ('f, 'g) rng \<Rightarrow> bootstrap_env \<Rightarrow> site \<Rightarrow> site" where
  "bootstrap_admin A r env s =
     fst (abind (ensure_admin_user env) (\<lambda>_. abind (seed_tool_configs env) (\<lambda>_. abind seed_settings (\<lambda>_.
       seed_traffic A r env))) s)"

section \<open>Lemmas\<close>

abbreviation admin_address :: "bootstrap_env \<Rightarrow> string" where
  "admin_address env \<equiv> py_lower (py_strip (be_admin_email env))"

lemma filter_unique_key:
  "distinct (map k xs) \<Longrightarrow> filter (\<lambda>x. k x = a) xs = (case find (\<lambda>x. k x = a) xs of None \<Rightarrow> [] | Some x \<Rightarrow> [x])"
proof (induction xs)
  case (Cons x xs)
  show ?case
  proof (cases "k x = a")
    case True
    then have "find (\<lambda>x. k x = a) xs = None" using Cons.prems by (auto simp: find_None_iff) (metis image_eqI)
    then show ?thesis using True Cons by simp
  qed (use Cons in simp)
qed simp

lemma get_by_email_ok:
  assumes "users_ok us"
  shows "get_by_email email us = Inr (find (\<lambda>u. us_email u = py_lower (py_strip email)) us)"
proof -
  have "filter (\<lambda>u. py_lower (us_email u) = py_lower (py_strip email)) us
      = filter (\<lambda>u. us_email u = py_lower (py_strip email)) us"
    using assms by (intro filter_cong) (auto simp: users_ok_def)
  then show ?thesis
    using assms filter_unique_key [of us_email us "py_lower (py_strip email)"]
    by (auto simp: get_by_email_def one_or_none_def users_ok_def split: option.split)
qed

lemma promoted_simps [simp]:
  "us_id (promoted now u) = us_id u" "us_email (promoted now u) = us_email u" "us_is_admin (promoted now u)"
  "us_is_admin u \<Longrightarrow> promoted now u = u"
proof -
  have "us_is_admin u" if "u\<lparr>us_is_admin := True\<rparr> = u" for u
    using that by (cases u) simp
  then show "us_is_admin (promoted now u)" by (auto simp: promoted_def touched_def)
qed (simp_all add: promoted_def touched_def)

definition prepared_users :: "bootstrap_env \<Rightarrow> string \<Rightarrow> user list \<Rightarrow> user list" where
  "prepared_users env h us =
     (if py_strip (be_admin_email env) = [] then us
      else if \<exists>u \<in> set us. us_email u = admin_address env
      then map (\<lambda>u. if us_email u = admin_address env then promoted (be_now env) u else u) us
      else if be_admin_password env = [] then us else us @ [new_admin env h])"

lemma ensure_admin_user_ok:
  assumes ok: "users_ok (si_users s)" and h: "hash_password (be_auth env) (be_admin_password env) = Inr h"
  shows "ensure_admin_user env s = (s\<lparr>si_users := prepared_users env h (si_users s)\<rparr>, Inr ())"
proof (cases "find (\<lambda>u. us_email u = admin_address env) (si_users s)")
  case None
  then have "\<not> (\<exists>u \<in> set (si_users s). us_email u = admin_address env)" by (simp add: find_None_iff)
  with h show ?thesis
    by (simp add: ensure_admin_user_def get_by_email_ok [OF ok] prepared_users_def None)
next
  case (Some u)
  then have u: "u \<in> set (si_users s)" "us_email u = admin_address env" by (auto simp: find_Some_iff)
  have "us_id v = us_id u \<longleftrightarrow> us_email v = admin_address env" if "v \<in> set (si_users s)" for v
    using ok u that by (auto simp: users_ok_def distinct_map inj_on_def)
  then have "map (\<lambda>v. if us_id v = us_id u then promoted (be_now env) v else v) (si_users s)
      = map (\<lambda>v. if us_email v = admin_address env then promoted (be_now env) v else v) (si_users s)"
    by (intro map_cong) auto
  then show ?thesis
    using u Some by (auto simp: ensure_admin_user_def get_by_email_ok [OF ok] prepared_users_def)
qed

lemma prepared_users_ok:
  assumes "users_ok us" and "be_user_id env \<notin> us_id ` set us"
  shows "users_ok (prepared_users env h us)"
proof -
  let ?f = "\<lambda>u. if us_email u = admin_address env then promoted (be_now env) u else u"
  have keys: "us_id (?f u) = us_id u" "us_email (?f u) = us_email u" for u by simp_all
  then have "map us_id (map ?f us) = map us_id us" "map us_email (map ?f us) = map us_email us"
    by (simp_all add: comp_def del: promoted_simps)
  then have "users_ok (map ?f us)" using assms(1) by (auto simp: users_ok_def simp del: map_map)
  then show ?thesis using assms by (auto simp: prepared_users_def users_ok_def new_admin_def)
qed

lemma prepared_users_admin:
  assumes "py_strip (be_admin_email env) \<noteq> []" "be_admin_password env \<noteq> []"
  shows "\<exists>u \<in> set (prepared_users env h us). us_email u = admin_address env \<and> us_is_admin u"
proof (cases "\<exists>u \<in> set us. us_email u = admin_address env")
  case True
  then obtain u where "u \<in> set us" "us_email u = admin_address env" by blast
  then have "promoted (be_now env) u \<in> set (prepared_users env h us)"
    using assms(1) by (auto simp: prepared_users_def intro!: image_eqI [where x = u])
  then show ?thesis using \<open>us_email u = _\<close> by (intro bexI [of _ "promoted (be_now env) u"]) simp_all
next
  case False
  then show ?thesis
    using assms by (intro bexI [of _ "new_admin env h"]) (simp_all add: prepared_users_def new_admin_def)
qed

lemma prepared_users_others:
  "u \<in> set us \<Longrightarrow> us_email u \<noteq> admin_address env \<Longrightarrow> u \<in> set (prepared_users env h us)"
  by (auto simp: prepared_users_def image_iff)

lemma prepared_users_again:
  assumes same: "be_admin_email env' = be_admin_email env" "be_admin_password env' = be_admin_password env"
  shows "prepared_users env' h' (prepared_users env h us) = prepared_users env h us"
proof -
  let ?f = "\<lambda>e u. if us_email u = admin_address env then promoted (be_now e) u else u"
  have twice: "map (?f env') (map (?f env) us) = map (?f env) us" by simp
  consider "py_strip (be_admin_email env) = []"
    | "py_strip (be_admin_email env) \<noteq> []" "\<exists>u \<in> set us. us_email u = admin_address env"
    | "py_strip (be_admin_email env) \<noteq> []" "\<not> (\<exists>u \<in> set us. us_email u = admin_address env)"
    by blast
  then show ?thesis
  proof cases
    case 1
    then show ?thesis by (simp add: prepared_users_def same)
  next
    case 2
    then have one: "prepared_users env h us = map (?f env) us" by (simp add: prepared_users_def)
    obtain u where "u \<in> set us" "us_email u = admin_address env" using 2 by blast
    then have "promoted (be_now env) u \<in> set (map (?f env) us)" "us_email (promoted (be_now env) u) = admin_address env"
      by (auto intro!: image_eqI [where x = u])
    then have "\<exists>u \<in> set (map (?f env) us). us_email u = admin_address env" by blast
    then show ?thesis using 2(1) twice unfolding one prepared_users_def [of env'] same by (simp del: map_map)
  next
    case 3
    have new: "us_email (new_admin env h) = admin_address env" "us_is_admin (new_admin env h)"
      by (simp_all add: new_admin_def)
    show ?thesis
    proof (cases "be_admin_password env = []")
      case True
      with 3 show ?thesis by (simp add: prepared_users_def same)
    next
      case False
      with 3 have one: "prepared_users env h us = us @ [new_admin env h]" by (simp add: prepared_users_def)
      have "map (?f env') us = us" using 3(2) by (intro map_idI) auto
      then show ?thesis using 3(1) new unfolding one prepared_users_def [of env'] same by simp
    qed
  qed
qed

text \<open>Seeding.\<close>

lemma catalog_slugs: "map fst TOOL_CATALOG = map slug_value [MERGE, SPLIT, ROTATE, DELETE_PAGES, EXTRACT_PAGES, REORDER_PAGES,
    COMPRESS, COMPRESS_SCANNED, OCR, REPAIR, PDF_TO_WORD, WORD_TO_PDF, EXCEL_TO_PDF, PPT_TO_PDF, PDF_TO_JPG, PDF_TO_PNG,
    JPG_TO_PDF, PNG_TO_PDF] @ [''editor''] @ map slug_value [WATERMARK, REMOVE_WATERMARK, HEADER_FOOTER, PAGE_NUMBERS,
    METADATA, COMPARE, FILL_FORMS, PROTECT, UNLOCK, REDACT, SIGN]"
  by (simp only: TOOL_CATALOG_def slug_value.simps list.map fst_conv append.simps)

lemma catalog_complete: "slug_value t \<in> set (map fst TOOL_CATALOG)"
  unfolding catalog_slugs by (cases t) simp_all

lemma catalog_distinct: "distinct (map fst TOOL_CATALOG)"
  unfolding catalog_slugs by simp

lemma created_slugs:
  "map tc_slug (map (\<lambda>(order, item). seeded_tool env order item) (filter (\<lambda>(order, item). fst item \<notin> old) (enumerate n items)))
    = filter (\<lambda>slug. slug \<notin> old) (map fst items)"
  by (induction items arbitrary: n) (auto simp: seeded_tool_def split: prod.split)

definition tools_ready :: "site \<Rightarrow> bool" where
  "tools_ready s \<longleftrightarrow> set (map fst TOOL_CATALOG) \<subseteq> tc_slug ` set (si_tools s)"

definition settings_ready :: "site \<Rightarrow> bool" where
  "settings_ready s \<longleftrightarrow> set (map fst DEFAULT_SETTINGS) \<subseteq> st_key ` set (si_settings s)"

lemma seed_tool_configs_ok:
  obtains created where "seed_tool_configs env s = (s\<lparr>si_tools := si_tools s @ created\<rparr>, Inr ())"
    "map tc_slug created = filter (\<lambda>slug. slug \<notin> tc_slug ` set (si_tools s)) (map fst TOOL_CATALOG)"
  using created_slugs [of env "tc_slug ` set (si_tools s)" 0 TOOL_CATALOG]
  by (auto simp: seed_tool_configs_def Let_def)

lemma seed_settings_ok:
  obtains created where "seed_settings s = (s\<lparr>si_settings := si_settings s @ created\<rparr>, Inr ())"
    "map st_key created = filter (\<lambda>k. k \<notin> st_key ` set (si_settings s)) (map fst DEFAULT_SETTINGS)"
  by (rule that [of "map seeded_setting (filter (\<lambda>item. fst item \<notin> st_key ` set (si_settings s)) DEFAULT_SETTINGS)"])
    (simp_all add: seed_settings_def Let_def seeded_setting_def filter_map comp_def)

lemma none_missing: "set xs \<subseteq> old \<Longrightarrow> filter (\<lambda>x. x \<notin> old) xs = []"
  by (auto simp: filter_empty_conv)

lemma seed_tool_configs_ready: "tools_ready s \<Longrightarrow> seed_tool_configs env s = (s, Inr ())"
  by (rule seed_tool_configs_ok [of env s]) (simp add: tools_ready_def none_missing del: set_map list.set_map)

lemma seed_settings_ready: "settings_ready s \<Longrightarrow> seed_settings s = (s, Inr ())"
  by (rule seed_settings_ok [of s]) (simp add: settings_ready_def none_missing del: set_map list.set_map)

text \<open>What a start makes of a site with sound accounts.\<close>

lemma bootstrap_admin_effect:
  assumes ok: "users_ok (si_users s)" and h: "hash_password (be_auth env) (be_admin_password env) = Inr h"
  obtains tools settings visits where
    "bootstrap_admin A r env s = s\<lparr>si_users := prepared_users env h (si_users s), si_tools := si_tools s @ tools,
        si_settings := si_settings s @ settings, si_db := (si_db s)\<lparr>db_visits := visits\<rparr>\<rparr>"
    "map tc_slug tools = filter (\<lambda>slug. slug \<notin> tc_slug ` set (si_tools s)) (map fst TOOL_CATALOG)"
    "map st_key settings = filter (\<lambda>k. k \<notin> st_key ` set (si_settings s)) (map fst DEFAULT_SETTINGS)"
    "db_visits (si_db s) \<noteq> [] \<longrightarrow> visits = db_visits (si_db s)"
proof -
  let ?s1 = "s\<lparr>si_users := prepared_users env h (si_users s)\<rparr>"
  obtain tools where t: "seed_tool_configs env ?s1 = (?s1\<lparr>si_tools := si_tools ?s1 @ tools\<rparr>, Inr ())"
    "map tc_slug tools = filter (\<lambda>slug. slug \<notin> tc_slug ` set (si_tools ?s1)) (map fst TOOL_CATALOG)"
    by (rule seed_tool_configs_ok)
  let ?s2 = "?s1\<lparr>si_tools := si_tools ?s1 @ tools\<rparr>"
  obtain settings where g: "seed_settings ?s2 = (?s2\<lparr>si_settings := si_settings ?s2 @ settings\<rparr>, Inr ())"
    "map st_key settings = filter (\<lambda>k. k \<notin> st_key ` set (si_settings ?s2)) (map fst DEFAULT_SETTINGS)"
    by (rule seed_settings_ok)
  let ?s3 = "?s2\<lparr>si_settings := si_settings ?s2 @ settings\<rparr>"
  let ?visits = "if db_visits (si_db s) \<noteq> [] then db_visits (si_db s)
      else fst (traffic_days A r (be_today env - 90) [0..<91] (rg_start r))"
  have v: "seed_traffic A r env ?s3 = (?s3\<lparr>si_db := (si_db s)\<lparr>db_visits := ?visits\<rparr>\<rparr>, Inr ())"
    by (simp add: seed_traffic_def)
  have "bootstrap_admin A r env s = ?s3\<lparr>si_db := (si_db s)\<lparr>db_visits := ?visits\<rparr>\<rparr>"
    by (simp only: bootstrap_admin_def abind_def ensure_admin_user_ok [OF ok h] t(1) g(1) v prod.case sum.case fst_conv)
  then show ?thesis using t(2) g(2) by (intro that [where tools = tools and settings = settings and visits = ?visits]) simp_all
qed

text \<open>
  A step that fails ends the start: with two accounts of the administrator's address (in different
  spellings), neither tools nor settings are seeded.
\<close>

lemma failed_admin_step_stops:
  "ensure_admin_user env s = (s', Inl e) \<Longrightarrow> bootstrap_admin A r env s = s'"
  by (simp add: bootstrap_admin_def abind_def)

text \<open>
  Production settings that pass the validator still ship the default administrator: on a site
  without that account, a start creates it, and it can log in with the published password.
\<close>

lemma default_admin_shipped:
  assumes "enforce_production_hardening secret hosts = None" and ok: "users_ok (si_users s)"
    and env: "be_admin_email env = default_admin_email" "be_admin_password env = default_admin_password"
    and none: "\<forall>u \<in> set (si_users s). us_email u \<noteq> default_admin_email" and fresh: "be_user_id env \<notin> us_id ` set (si_users s)"
    and law: "bcrypt_law (be_auth env)" and h: "hash_password (be_auth env) default_admin_password = Inr h"
  shows "\<exists>u tokens. login (be_auth env) now jtis (si_users (bootstrap_admin A r env s)) default_admin_email default_admin_password
      = Inr (u, tokens) \<and> us_is_admin u"
proof -
  have addr: "py_lower (py_strip default_admin_email) = default_admin_email" by code_simp
  have nonempty: "py_strip default_admin_email \<noteq> []" "default_admin_password \<noteq> []" by code_simp+
  obtain tools settings visits where b: "bootstrap_admin A r env s = s\<lparr>si_users := prepared_users env h (si_users s),
      si_tools := si_tools s @ tools, si_settings := si_settings s @ settings, si_db := (si_db s)\<lparr>db_visits := visits\<rparr>\<rparr>"
    by (rule bootstrap_admin_effect [OF ok h [folded env(2)], of A r])
  have us: "prepared_users env h (si_users s) = si_users s @ [new_admin env h]"
    using none nonempty by (auto simp: prepared_users_def env addr)
  have "find (\<lambda>u. us_email u = default_admin_email) (us @ [new_admin env h]) = Some (new_admin env h)"
    if "\<forall>u \<in> set us. us_email u \<noteq> default_admin_email" for us
    using that by (induction us) (simp_all add: new_admin_def env addr)
  then have found: "get_by_email default_admin_email (si_users (bootstrap_admin A r env s)) = Inr (Some (new_admin env h))"
    using get_by_email_ok [OF prepared_users_ok [OF ok fresh], of default_admin_email h] none by (simp add: b us addr)
  have "verify_password (be_auth env) default_admin_password h"
    using law h by (auto simp: bcrypt_law_def hash_password_def verify_password_def)
  then show ?thesis by (simp add: login_def found new_admin_def)
qed

section \<open>Properties\<close>


text \<open>A generator that always draws the least.\<close>

definition least_rng :: "(int, unit) rng" where
  "least_rng = \<lparr>rg_start = (), rg_randint = (\<lambda>a b g. (a, g)), rg_random = (\<lambda>g. (0, g)), rg_choice = (\<lambda>n g. (0, g)),
     rg_choices = (\<lambda>ws n g. (replicate n 0, g)), rg_int = (\<lambda>x. x)\<rparr>"

definition sample_start :: bootstrap_env where
  "sample_start = \<lparr>be_auth = plain_auth_env, be_admin_email = '' Root@x.Y'', be_admin_password = ''secret12'',
     be_admin_name = [], be_now = 5, be_today = 20000, be_user_id = 77, be_tool_id = (\<lambda>n. n)\<rparr>"


end
